(* ===== verification/Prelude.thy ===== *)
theory Prelude
  imports Complex_Main "HOL-Library.Char_ord" "HOL-Library.List_Lexorder" "HOL-Library.AList"
    "HOL-Library.Sublist" "HOL-Library.Option_ord" "HOL-Library.Product_Lexorder"
begin

text \<open>
  What every component of the model shares: the named collections of facts, Python's string
  operations on ASCII text, its insertion-ordered dictionaries (association lists of the
  library theory AList, whose update replaces in place and appends a new key, as a dict does),
  the row operations of SQLite tables kept as lists in rowid order, and the two locales that
  lift a property kept by every operation to whole runs of a component.

  Numbers that the code keeps as Python floats (epoch seconds, gigabytes) are exact rationals
  here: rounding of IEEE doubles is not modelled, and neither are NaN and the infinities except
  where a component says so.
\<close>

named_theorems repair_defs
named_theorems fence_defs
named_theorems circuit_defs

type_synonym time = rat
type_synonym gigabytes = rat

section \<open>Python strings\<close>

text \<open>
  \<open>str.strip\<close>, \<open>str.lower\<close>, slicing from the front and \<open>substring in text\<close>, on ASCII text.
\<close>

definition py_space :: "char \<Rightarrow> bool" where
  "py_space c \<longleftrightarrow> c \<in> set [CHR '' '', CHR 0x09, CHR 0x0A, CHR 0x0B, CHR 0x0C, CHR 0x0D,
     CHR 0x1C, CHR 0x1D, CHR 0x1E, CHR 0x1F]"

definition py_strip :: "string \<Rightarrow> string" where
  "py_strip s = rev (dropWhile py_space (rev (dropWhile py_space s)))"

definition py_lower_char :: "char \<Rightarrow> char" where
  "py_lower_char c =
     (let n = of_char c :: nat in if 65 \<le> n \<and> n \<le> 90 then char_of (n + 32) else c)"

definition py_lower :: "string \<Rightarrow> string" where
  "py_lower s = map py_lower_char s"

definition py_contains :: "string \<Rightarrow> string \<Rightarrow> bool" where
  "py_contains needle text \<longleftrightarrow> list_ex (\<lambda>t. prefix needle t) (suffixes text)"

definition str_or_empty :: "string option \<Rightarrow> string" where
  \<comment> \<open>\<open>str(value or "")\<close> for a value that is a string or None\<close>
  "str_or_empty v = (case v of None \<Rightarrow> [] | Some s \<Rightarrow> s)"

definition py_or :: "string option \<Rightarrow> string option \<Rightarrow> string option" where
  \<comment> \<open>\<open>a or b\<close> for strings or None: the empty string is false\<close>
  "py_or a b = (case a of None \<Rightarrow> b | Some s \<Rightarrow> if s = [] then b else Some s)"

lemma length_dropWhile_le_arg: "length (dropWhile P xs) \<le> length xs"
  by (induction xs) auto

lemma length_py_strip: "length (py_strip s) \<le> length s"
proof -
  have "length (dropWhile py_space (rev (dropWhile py_space s))) \<le> length (dropWhile py_space s)"
    by (metis length_dropWhile_le_arg length_rev)
  also have "\<dots> \<le> length s" by (rule length_dropWhile_le_arg)
  finally show ?thesis by (simp add: py_strip_def)
qed

lemma dropWhile_idem_hd: "dropWhile P xs = [] \<or> \<not> P (hd (dropWhile P xs))"
  by (induction xs) auto

lemma dropWhile_fix: "xs = [] \<or> \<not> P (hd xs) \<Longrightarrow> dropWhile P xs = xs"
  by (cases xs) auto

lemma py_strip_idem [simp]: "py_strip (py_strip s) = py_strip s"
proof -
  define u where "u = dropWhile py_space s"
  define v where "v = dropWhile py_space (rev u)"
  have u: "u = [] \<or> \<not> py_space (hd u)"
    unfolding u_def by (rule dropWhile_idem_hd)
  have v: "v = [] \<or> \<not> py_space (hd v)"
    unfolding v_def by (rule dropWhile_idem_hd)
  have front: "rev v = [] \<or> \<not> py_space (hd (rev v))"
  proof (cases v)
    case Nil
    then show ?thesis by simp
  next
    case (Cons a as)
    obtain w where w: "rev u = w @ v"
      unfolding v_def by (metis takeWhile_dropWhile_id)
    then have ru: "u = rev v @ rev w" by (metis rev_append rev_rev_ident)
    moreover have "rev v \<noteq> []" using Cons by simp
    ultimately have "u \<noteq> []" and "hd u = hd (rev v)" by (metis Nil_is_append_conv, metis hd_append2)
    with u show ?thesis by metis
  qed
  have "dropWhile py_space (rev v) = rev v" using front by (rule dropWhile_fix)
  moreover have "dropWhile py_space v = v" using v by (rule dropWhile_fix)
  ultimately show ?thesis by (simp add: py_strip_def u_def v_def)
qed

lemma py_lower_char_idem [simp]: "py_lower_char (py_lower_char c) = py_lower_char c"
  by (auto simp: py_lower_char_def Let_def)

lemma py_lower_idem [simp]: "py_lower (py_lower s) = py_lower s"
  by (simp add: py_lower_def)

section \<open>Rounding\<close>

definition round_half_even :: "rat \<Rightarrow> int" where
  "round_half_even r =
     (let f = \<lfloor>r\<rfloor>; d = r - of_int f
      in if d < 1 / 2 then f else if 1 / 2 < d then f + 1 else if even f then f else f + 1)"

definition py_round :: "nat \<Rightarrow> rat \<Rightarrow> rat" where
  \<comment> \<open>\<open>round(x, n)\<close> of an exact value: to n decimals, ties to even\<close>
  "py_round n r = of_int (round_half_even (r * 10 ^ n)) / 10 ^ n"

lemma round_half_even_bounds:
  "of_int (round_half_even r) - 1 / 2 \<le> r" "r \<le> of_int (round_half_even r) + 1 / 2"
  by (auto simp: round_half_even_def Let_def) linarith+

section \<open>Insertion-ordered dictionaries\<close>

type_synonym ('k, 'v) dict = "('k \<times> 'v) list"

abbreviation dget :: "('k, 'v) dict \<Rightarrow> 'k \<Rightarrow> 'v option" where
  "dget d k \<equiv> map_of d k"

abbreviation dset :: "'k \<Rightarrow> 'v \<Rightarrow> ('k, 'v) dict \<Rightarrow> ('k, 'v) dict" where
  "dset k v d \<equiv> AList.update k v d"

abbreviation dpop :: "'k \<Rightarrow> ('k, 'v) dict \<Rightarrow> ('k, 'v) dict" where
  "dpop k d \<equiv> AList.delete k d"

definition dupdate :: "('k, 'v) dict \<Rightarrow> ('k, 'v) dict \<Rightarrow> ('k, 'v) dict" where
  \<comment> \<open>\<open>d.update(e)\<close>, in the order of \<open>e\<close>\<close>
  "dupdate d e = fold (\<lambda>(k, v) acc. dset k v acc) e d"

lemma dget_dset [simp]: "dget (dset k v d) = (dget d)(k \<mapsto> v)"
  by (rule update_conv')

lemma dget_dpop [simp]: "dget (dpop k d) = (dget d)(k := None)"
  by (rule delete_conv')

lemma distinct_dset [intro]: "distinct (map fst d) \<Longrightarrow> distinct (map fst (dset k v d))"
  by (rule distinct_update)

lemma dget_dupdate_notin:
  "k \<notin> set (map fst e) \<Longrightarrow> dget (dupdate d e) k = dget d k"
  unfolding dupdate_def by (induction e arbitrary: d) auto

section \<open>Rows of a table\<close>

text \<open>
  \<open>UPDATE t SET f WHERE p\<close>, its \<open>rowcount\<close>, and the first row of \<open>SELECT * FROM t WHERE p\<close> in
  rowid order.
\<close>

definition update_where :: "('r \<Rightarrow> bool) \<Rightarrow> ('r \<Rightarrow> 'r) \<Rightarrow> 'r list \<Rightarrow> 'r list" where
  "update_where p f rows = map (\<lambda>r. if p r then f r else r) rows"

definition count_where :: "('r \<Rightarrow> bool) \<Rightarrow> 'r list \<Rightarrow> nat" where
  "count_where p rows = length (filter p rows)"

definition select_first :: "('r \<Rightarrow> bool) \<Rightarrow> 'r list \<Rightarrow> 'r option" where
  "select_first p rows = List.find p rows"

definition upsert :: "('r \<Rightarrow> bool) \<Rightarrow> 'r \<Rightarrow> ('r \<Rightarrow> 'r) \<Rightarrow> 'r list \<Rightarrow> 'r list" where
  \<comment> \<open>\<open>INSERT ... ON CONFLICT DO UPDATE\<close>\<close>
  "upsert p row f rows = (if list_ex p rows then update_where p f rows else rows @ [row])"

lemma select_first_Some:
  "select_first p rows = Some r \<Longrightarrow> r \<in> set rows \<and> p r"
  unfolding select_first_def by (auto simp: find_Some_iff)

lemma select_first_None: "select_first p rows = None \<longleftrightarrow> (\<forall>r\<in>set rows. \<not> p r)"
  unfolding select_first_def by (auto simp: find_None_iff)

lemma filter_eq_single: "distinct xs \<Longrightarrow> x \<in> set xs \<Longrightarrow> filter (\<lambda>y. y = x) xs = [x]"
  by (induction xs) (auto simp: filter_empty_conv)

lemma set_update_where:
  "r' \<in> set (update_where p f rows) \<longleftrightarrow>
     (\<exists>r\<in>set rows. r' = (if p r then f r else r))"
  unfolding update_where_def by auto

lemma length_update_where [simp]: "length (update_where p f rows) = length rows"
  by (simp add: update_where_def)

lemma update_where_cong_all:
  "(\<And>r. r \<in> set rows \<Longrightarrow> P r) \<Longrightarrow> (\<And>r. r \<in> set rows \<Longrightarrow> p r \<Longrightarrow> P r \<Longrightarrow> P (f r)) \<Longrightarrow>
     r' \<in> set (update_where p f rows) \<Longrightarrow> P r'"
  by (auto simp: set_update_where)

lemma count_where_0: "count_where p rows = 0 \<longleftrightarrow> (\<forall>r\<in>set rows. \<not> p r)"
  by (auto simp: count_where_def filter_empty_conv)

text \<open>Tables with a primary key: every operation that keeps the key keeps it unique.\<close>

locale keyed_rows =
  fixes key :: "'r \<Rightarrow> 'k"
begin

definition find_row :: "'k \<Rightarrow> 'r list \<Rightarrow> 'r option" where
  "find_row k rows = select_first (\<lambda>r. key r = k) rows"

lemma keys_update_where:
  "(\<And>r. r \<in> set rows \<Longrightarrow> p r \<Longrightarrow> key (f r) = key r) \<Longrightarrow>
     map key (update_where p f rows) = map key rows"
  unfolding update_where_def by (induction rows) auto

lemma unique_row:
  "distinct (map key rows) \<Longrightarrow> r \<in> set rows \<Longrightarrow> r' \<in> set rows \<Longrightarrow> key r = key r' \<Longrightarrow> r = r'"
  by (metis distinct_map inj_on_eq_iff)

lemma find_row_unique:
  "distinct (map key rows) \<Longrightarrow> r \<in> set rows \<Longrightarrow> select_first (\<lambda>r'. key r' = key r) rows = Some r"
proof (induction rows)
  case Nil
  then show ?case by simp
next
  case (Cons a rows)
  then show ?case
    by (cases "key a = key r") (auto simp: select_first_def)
qed

lemma count_where_key_le:
  "distinct (map key rows) \<Longrightarrow> count_where (\<lambda>r. key r = k \<and> q r) rows \<le> 1"
proof (induction rows)
  case Nil
  then show ?case by (simp add: count_where_def)
next
  case (Cons a rows)
  show ?case
  proof (cases "key a = k")
    case True
    with Cons.prems have "count_where (\<lambda>r. key r = k \<and> q r) rows = 0"
      by (fastforce simp: count_where_0 image_iff)
    then show ?thesis by (simp add: count_where_def)
  next
    case False
    with Cons show ?thesis by (simp add: count_where_def)
  qed
qed

lemma count_where_key_one:
  assumes "distinct (map key rows)" and "r \<in> set rows" and "q r"
  shows "count_where (\<lambda>r'. key r' = key r \<and> q r') rows = 1"
proof -
  have "count_where (\<lambda>r'. key r' = key r \<and> q r') rows \<noteq> 0"
    using assms by (auto simp: count_where_0)
  with count_where_key_le [OF assms(1), of "key r" q] show ?thesis by linarith
qed

lemma lookup_update_where:
  assumes "\<And>r. key r = k \<Longrightarrow> key (f r) = k"
  shows "select_first (\<lambda>r. key r = k') (update_where (\<lambda>r. key r = k) f rows)
         = (if k' = k then map_option f (select_first (\<lambda>r. key r = k) rows)
            else select_first (\<lambda>r. key r = k') rows)"
  unfolding select_first_def update_where_def using assms by (induction rows) auto

lemma lookup_upsert:
  assumes "\<And>r. key (f r) = key r" and "key row = k"
  shows "select_first (\<lambda>r. key r = k') (upsert (\<lambda>r. key r = k) row f rows)
         = (if k' = k then Some (case select_first (\<lambda>r. key r = k) rows of None \<Rightarrow> row | Some r \<Rightarrow> f r)
            else select_first (\<lambda>r. key r = k') rows)"
proof (cases "list_ex (\<lambda>r. key r = k) rows")
  case True
  then have "select_first (\<lambda>r. key r = k) rows \<noteq> None"
    unfolding select_first_None by (auto simp: list_ex_iff)
  with True assms show ?thesis
    by (auto simp: upsert_def lookup_update_where)
next
  case False
  then have n: "select_first (\<lambda>r. key r = k) rows = None"
    by (auto simp: select_first_None list_ex_iff)
  have "select_first (\<lambda>r. key r = k') (rows @ [row])
        = (case select_first (\<lambda>r. key r = k') rows of None \<Rightarrow> if key row = k' then Some row else None
             | Some r \<Rightarrow> Some r)" for k'
    unfolding select_first_def by (induction rows) auto
  with False n assms(2) show ?thesis by (auto simp: upsert_def split: option.splits)
qed

lemma distinct_upsert:
  assumes "distinct (map key rows)" and "\<And>r. key (f r) = key r" and "key row = k"
  shows "distinct (map key (upsert (\<lambda>r. key r = k) row f rows))"
proof (cases "list_ex (\<lambda>r. key r = k) rows")
  case True
  then show ?thesis using assms keys_update_where [of rows "\<lambda>r. key r = k" f] by (simp add: upsert_def)
next
  case False
  with assms show ?thesis by (auto simp: upsert_def list_ex_iff)
qed

end

section \<open>Runs\<close>

text \<open>
  An operation of a component turns a state into a state; a run is a list of operations. A
  predicate that every operation keeps is kept by every run; with an initial state it is an
  invariant.
\<close>

locale kept_by_steps =
  fixes apply_op :: "'op \<Rightarrow> 's \<Rightarrow> 's" and holds :: "'s \<Rightarrow> bool"
  assumes step_keeps: "holds s \<Longrightarrow> holds (apply_op e s)"
begin

lemma run_keeps: "holds s \<Longrightarrow> holds (fold apply_op es s)"
  by (induction es arbitrary: s) (auto intro: step_keeps)

end

locale invariant_machine = kept_by_steps +
  fixes start :: 's
  assumes start_holds: "holds start"
begin

lemma reachable_holds: "holds (fold apply_op es start)"
  by (rule run_keeps [OF start_holds])

end

text \<open>A quantity that no operation lowers is not lowered by a run.\<close>

locale monotone_quantity =
  fixes advance :: "'op \<Rightarrow> 's \<Rightarrow> 's" and level :: "'s \<Rightarrow> 'q::preorder"
  assumes step_mono: "level s \<le> level (advance e s)"
begin

lemma run_mono: "level s \<le> level (fold advance es s)"
proof (induction es arbitrary: s)
  case Nil
  then show ?case by simp
next
  case (Cons e es)
  have "level s \<le> level (advance e s)" by (rule step_mono)
  also have "\<dots> \<le> level (fold advance es (advance e s))" by (rule Cons.IH)
  finally show ?case by simp
qed

end

end
