(* ===== verification/Py_Json.thy ===== *)
theory Py_Json
  imports Prelude
begin

text \<open>
  The values \<open>json.loads\<close> returns and the length of the compact text \<open>json.dumps\<close> writes for
  them (\<open>separators=(",", ":")\<close>, \<open>ensure_ascii\<close> on), which is what the size limits of the code
  measure.  Objects keep their keys in insertion order.  A finite float is a rational; the
  length of its shortest decimal text is a parameter \<open>flen\<close> of the functions that measure.
\<close>

datatype json =
    JNull
  | JBool bool
  | JInt int
  | JFloat rat
  | JNan
  | JInf bool
  | JStr string
  | JList "json list"
  | JObj "(string \<times> json) list"

type_synonym jdict = "(string, json) dict"

definition jstr_opt :: "string option \<Rightarrow> json" where
  "jstr_opt v = (case v of None \<Rightarrow> JNull | Some s \<Rightarrow> JStr s)"

fun as_dict :: "json \<Rightarrow> jdict option" where
  \<comment> \<open>\<open>isinstance(value, dict)\<close>\<close>
  "as_dict (JObj d) = Some d"
| "as_dict _ = None"

fun as_str :: "json \<Rightarrow> string option" where
  "as_str (JStr s) = Some s"
| "as_str _ = None"

fun finite_number :: "json \<Rightarrow> rat option" where
  \<comment> \<open>an int or float, not a bool, with \<open>math.isfinite(float(value))\<close>.  An int keeps its exact value;
    Python rounds it to a float, and raises OverflowError for one that no float can hold (2 to the 1024 and
    beyond), which is not shown here\<close>
  "finite_number (JInt i) = Some (of_int i)"
| "finite_number (JFloat r) = Some r"
| "finite_number _ = None"

definition jget :: "jdict \<Rightarrow> string \<Rightarrow> json" where
  \<comment> \<open>\<open>d.get(k)\<close>: None when the key is missing\<close>
  "jget d k = (case dget d k of None \<Rightarrow> JNull | Some v \<Rightarrow> v)"

fun truthy :: "json \<Rightarrow> bool" where
  \<comment> \<open>\<open>bool(value)\<close>\<close>
  "truthy JNull = False"
| "truthy (JBool b) = b"
| "truthy (JInt i) = (i \<noteq> 0)"
| "truthy (JFloat r) = (r \<noteq> 0)"
| "truthy JNan = True"
| "truthy (JInf _) = True"
| "truthy (JStr s) = (s \<noteq> [])"
| "truthy (JList xs) = (xs \<noteq> [])"
| "truthy (JObj d) = (d \<noteq> [])"

fun hashable :: "json \<Rightarrow> bool" where
  \<comment> \<open>lists and dicts cannot be tested for membership of a set: TypeError\<close>
  "hashable (JList _) = False"
| "hashable (JObj _) = False"
| "hashable _ = True"

section \<open>Length of the encoded text\<close>

fun nat_digits :: "nat \<Rightarrow> nat" where
  "nat_digits n = (if n < 10 then 1 else Suc (nat_digits (n div 10)))"

declare nat_digits.simps [simp del]

definition int_text_len :: "int \<Rightarrow> nat" where
  "int_text_len i = (if i < 0 then 1 else 0) + nat_digits (nat \<bar>i\<bar>)"

definition char_text_len :: "char \<Rightarrow> nat" where
  "char_text_len c =
     (let n = of_char c :: nat
      in if n \<in> {34, 92, 8, 9, 10, 12, 13} then 2 else if n < 32 \<or> 126 < n then 6 else 1)"

definition str_text_len :: "string \<Rightarrow> nat" where
  "str_text_len s = 2 + sum_list (map char_text_len s)"

fun json_text_len :: "(rat \<Rightarrow> nat) \<Rightarrow> json \<Rightarrow> nat" where
  "json_text_len flen JNull = 4"
| "json_text_len flen (JBool b) = (if b then 4 else 5)"
| "json_text_len flen (JInt i) = int_text_len i"
| "json_text_len flen (JFloat r) = flen r"
| "json_text_len flen JNan = 3"
| "json_text_len flen (JInf neg) = (if neg then 9 else 8)"
| "json_text_len flen (JStr s) = str_text_len s"
| "json_text_len flen (JList xs) =
     2 + sum_list (map (json_text_len flen) xs) + (length xs - 1)"
| "json_text_len flen (JObj d) =
     2 + sum_list (map (\<lambda>kv. str_text_len (fst kv) + 1 + json_text_len flen (snd kv)) d)
       + (length d - 1)"

lemma as_dict_Some [simp]: "as_dict v = Some d \<longleftrightarrow> v = JObj d"
  by (cases v) auto

lemma as_str_Some [simp]: "as_str v = Some s \<longleftrightarrow> v = JStr s"
  by (cases v) auto

end
