(* ===== verification/Repair_Store.thy ===== *)
theory Repair_Store
  imports Py_Json
begin

text \<open>
  The durable store of Controller-managed enrollment repair, app/backend/enrollment_repair_store.py.
  The three SQLite tables are lists of rows in rowid order; the \<open>evidence_json\<close> and identity
  columns hold the decoded value instead of its text.  One operation is one transaction: it
  returns the raised error or the result together with the database after it, and a raise
  rolls back.  The clock and \<open>uuid4\<close> are arguments; \<open>hashlib.sha256\<close> is the parameter \<open>sha256\<close>
  and the text length of a float the parameter \<open>flen\<close>.
\<close>

datatype request_state =
    Queued | Checking | Hub_update_required | Updating_hub | Ticket_issued | Dispatched
  | Redeemed | Verifying | Confirmation_pending | Complete | Retryable | Needs_review

datatype ticket_state = Issued | Ticket_redeemed | Expired

datatype batch_state = Batch_queued | Batch_running | Batch_complete | Batch_attention

datatype repair_error =
    StoreError string
  | ValueError string
  | IntegrityError
  | TypeError

record controller_identity =
  ci_role :: string
  ci_site_id :: string
  ci_site_name :: string
  ci_controller_id :: string

record target_identity =
  ti_machine :: string
  ti_registry_host :: string
  ti_resolved_address :: string
  ti_controller_url :: string

record request_row =
  request_id :: string
  batch_id :: string
  ordinal :: nat
  attempt :: nat
  target_machine :: string
  registry_host :: "string option"
  resolved_address :: "string option"
  controller_url :: "string option"
  controller_role :: "string option"
  site_id :: "string option"
  site_name :: "string option"
  controller_id :: "string option"
  fleet_token_digest :: "string option"
  ticket_digest :: "string option"
  ticket_status :: "ticket_state option"
  issued_at :: "time option"
  redemption_expires_at :: "time option"
  dispatched_at :: "time option"
  direct_source :: "string option"
  redeemed_at :: "time option"
  observed_identity :: "json option"
  registry_snapshot :: "json option"
  req_state :: request_state
  error_code :: "string option"
  evidence :: "json option"
  dispatch_slot :: bool
  created_at :: time
  updated_at :: time

record batch_row =
  b_id :: string
  b_created_at :: time
  b_updated_at :: time
  b_state :: batch_state
  b_targets :: "string list"
  b_total :: nat
  b_queued :: nat
  b_complete :: nat
  b_retryable :: nat
  b_review :: nat
  b_pending :: nat
  b_repaired :: nat
  b_attention :: nat

record adoption_row =
  a_batch :: string
  a_request :: string
  a_ordinal :: nat

record repair_db =
  batches :: "batch_row list"
  requests :: "request_row list"
  adoptions :: "adoption_row list"

definition empty_db :: repair_db where
  "empty_db = \<lparr>batches = [], requests = [], adoptions = []\<rparr>"

definition unresolved :: "request_state \<Rightarrow> bool" where
  \<comment> \<open>the condition of the index \<open>one_unresolved_repair_per_target\<close>\<close>
  "unresolved s \<longleftrightarrow> s \<notin> {Complete, Retryable, Hub_update_required}"

definition indexes_ok :: "request_row list \<Rightarrow> bool" where
  \<comment> \<open>the primary key, UNIQUE(batch_id, ordinal) and the two partial unique indexes of \<open>enrollment_repair_requests\<close>\<close>
  "indexes_ok rows \<longleftrightarrow>
     distinct (map request_id rows)
     \<and> distinct (map (\<lambda>r. (batch_id r, ordinal r)) rows)
     \<and> count_where dispatch_slot rows \<le> 1
     \<and> distinct (map target_machine (filter (\<lambda>r. unresolved (req_state r)) rows))"

section \<open>Validation helpers\<close>

definition max_evidence_bytes :: nat where
  "max_evidence_bytes = 16384"

definition max_error_code :: nat where
  "max_error_code = 80"

definition pack_json :: "(rat \<Rightarrow> nat) \<Rightarrow> json \<Rightarrow> repair_error + json" where
  \<comment> \<open>\<open>RepairStore._json\<close>\<close>
  "pack_json flen v =
     (if max_evidence_bytes < json_text_len flen v
      then Inl (ValueError ''repair evidence is too large'') else Inr v)"

definition hex_digit :: "char \<Rightarrow> bool" where
  "hex_digit c = (let n = of_char c :: nat in (48 \<le> n \<and> n \<le> 57) \<or> (97 \<le> n \<and> n \<le> 102))"

definition require_digest :: "string \<Rightarrow> string \<Rightarrow> repair_error + string" where
  "require_digest value field =
     (if length value = 64 \<and> list_all hex_digit value then Inr value
      else Inl (ValueError (field @ '' must be a canonical lowercase SHA-256 digest'')))"

definition safe_error :: "string option \<Rightarrow> repair_error + string option" where
  "safe_error code =
     (case code of
        None \<Rightarrow> Inr None
      | Some c \<Rightarrow>
          let value = py_strip c
          in if max_error_code < length value
             then Inl (ValueError ''repair error code is too long'')
             else Inr (if value = [] then None else Some value))"

definition observed_identity_evidence ::
    "jdict \<Rightarrow> target_identity \<Rightarrow> controller_identity \<Rightarrow> json" where
  "observed_identity_evidence observed tgt ctrl =
     JObj (map (\<lambda>(field, value). (field @ ''_matches'', JBool (jget observed field = JStr value)))
       [(''role'', ''agent''), (''site_id'', ci_site_id ctrl), (''site_name'', ci_site_name ctrl),
        (''controller_id'', ti_machine tgt),
        (''parent_controller_url'', ti_controller_url tgt)])"

definition target_json :: "target_identity \<Rightarrow> json" where
  \<comment> \<open>\<open>_identity_dict\<close> of the registry snapshot\<close>
  "target_json t = JObj
     [(''machine'', JStr (ti_machine t)), (''registry_host'', JStr (ti_registry_host t)),
      (''resolved_address'', JStr (ti_resolved_address t)),
      (''controller_url'', JStr (ti_controller_url t))]"

definition bounded_text :: "nat \<Rightarrow> json \<Rightarrow> string option" where
  "bounded_text n v =
     (case v of JStr s \<Rightarrow> if 0 < length s \<and> length s \<le> n then Some s else None | _ \<Rightarrow> None)"

definition copied_field :: "jdict \<Rightarrow> string \<Rightarrow> string \<Rightarrow> jdict" where
  "copied_field c field name =
     (case bounded_text 128 (jget c field) of None \<Rightarrow> [] | Some s \<Rightarrow> [(name, JStr s)])"

definition prior_repair_evidence :: "json \<Rightarrow> jdict" where
  "prior_repair_evidence conflict =
     (case as_dict conflict of
        None \<Rightarrow> []
      | Some c \<Rightarrow>
          if copied_field c ''state'' ''prior_repair_state'' = [] then []
          else copied_field c ''state'' ''prior_repair_state''
            @ copied_field c ''error_code'' ''prior_repair_error_code''
            @ copied_field c ''request_id'' ''prior_repair_request_id''
            @ (case finite_number (jget c ''updated_at'') of
                 None \<Rightarrow> [] | Some t \<Rightarrow> [(''prior_repair_updated_at'', JFloat t)]))"

definition callback_error_kinds :: "string list" where
  "callback_error_kinds = [''http'', ''transport'', ''local'']"

definition callback_failure :: "jdict \<Rightarrow> jdict" where
  \<comment> \<open>the allow-listed fields of a reported callback failure\<close>
  "callback_failure d =
     (case jget d ''kind'' of
        JStr k \<Rightarrow> if k \<in> set callback_error_kinds then [(''kind'', JStr k)] else [] | _ \<Rightarrow> [])
     @ (case bounded_text max_error_code (jget d ''code'') of
          None \<Rightarrow> [] | Some s \<Rightarrow> [(''code'', JStr s)])
     @ (case jget d ''status'' of
          JInt i \<Rightarrow> if 100 \<le> i \<and> i \<le> 599 then [(''status'', JInt i)] else [] | _ \<Rightarrow> [])
     @ (case jget d ''detail'' of
          JStr s \<Rightarrow> if py_strip s \<noteq> [] then [(''detail'', JStr (take 160 (py_strip s)))] else []
        | _ \<Rightarrow> [])
     @ (case finite_number (jget d ''at'') of None \<Rightarrow> [] | Some t \<Rightarrow> [(''at'', JFloat t)])"

definition agent_callback_evidence :: "json \<Rightarrow> repair_error + jdict" where
  \<comment> \<open>testing an unhashable kind for membership of a frozenset raises TypeError\<close>
  "agent_callback_evidence v =
     (case as_dict v of
        None \<Rightarrow> Inr []
      | Some d \<Rightarrow>
          if \<not> hashable (jget d ''kind'') then Inl TypeError
          else if dget (callback_failure d) ''kind'' = None then Inr []
          else Inr [(''agent_callback_error'', JObj (callback_failure d))])"

definition merge_evidence ::
    "(rat \<Rightarrow> nat) \<Rightarrow> json option \<Rightarrow> jdict \<Rightarrow> repair_error + json" where
  "merge_evidence flen raw values =
     (let base = (case raw of Some (JObj d) \<Rightarrow> d | _ \<Rightarrow> [])
      in pack_json flen (JObj (dupdate base values)))"

section \<open>Read models\<close>

text \<open>
  \<open>_request_result\<close>: the row without the ticket digest, the ticket status and the fleet token
  digest.
\<close>

record request_view =
  v_request_id :: string
  v_batch_id :: string
  v_ordinal :: nat
  v_attempt :: nat
  v_target_machine :: string
  v_registry_host :: "string option"
  v_resolved_address :: "string option"
  v_controller_url :: "string option"
  v_controller_role :: "string option"
  v_site_id :: "string option"
  v_site_name :: "string option"
  v_controller_id :: "string option"
  v_issued_at :: "time option"
  v_redemption_expires_at :: "time option"
  v_dispatched_at :: "time option"
  v_direct_source :: "string option"
  v_redeemed_at :: "time option"
  v_state :: request_state
  v_error_code :: "string option"
  v_dispatch_slot :: bool
  v_created_at :: time
  v_updated_at :: time
  v_evidence :: "json option"
  v_observed_identity :: "json option"
  v_registry_snapshot :: "json option"

definition request_result :: "request_row \<Rightarrow> request_view" where
  "request_result r =
     \<lparr>v_request_id = request_id r, v_batch_id = batch_id r, v_ordinal = ordinal r,
      v_attempt = attempt r, v_target_machine = target_machine r,
      v_registry_host = registry_host r, v_resolved_address = resolved_address r,
      v_controller_url = controller_url r, v_controller_role = controller_role r,
      v_site_id = site_id r, v_site_name = site_name r, v_controller_id = controller_id r,
      v_issued_at = issued_at r, v_redemption_expires_at = redemption_expires_at r,
      v_dispatched_at = dispatched_at r, v_direct_source = direct_source r,
      v_redeemed_at = redeemed_at r, v_state = req_state r, v_error_code = error_code r,
      v_dispatch_slot = dispatch_slot r, v_created_at = created_at r,
      v_updated_at = updated_at r, v_evidence = evidence r,
      v_observed_identity = observed_identity r, v_registry_snapshot = registry_snapshot r\<rparr>"

record batch_view =
  bv_row :: batch_row
  bv_requests :: "request_view list"
  bv_adopted :: "request_view list"

definition find_request :: "string \<Rightarrow> repair_db \<Rightarrow> request_row option" where
  "find_request rid db = select_first (\<lambda>r. request_id r = rid) (requests db)"

definition find_batch :: "string \<Rightarrow> repair_db \<Rightarrow> batch_row option" where
  "find_batch bid db = select_first (\<lambda>b. b_id b = bid) (batches db)"

definition batch_adoptions :: "string \<Rightarrow> repair_db \<Rightarrow> adoption_row list" where
  "batch_adoptions bid db = sort_key a_ordinal (filter (\<lambda>a. a_batch a = bid) (adoptions db))"

definition batch_view_of :: "string \<Rightarrow> repair_db \<Rightarrow> batch_view option" where
  "batch_view_of bid db =
     (case find_batch bid db of
        None \<Rightarrow> None
      | Some b \<Rightarrow> Some
          \<lparr>bv_row = b,
           bv_requests = map request_result
             (sort_key ordinal (filter (\<lambda>r. batch_id r = bid) (requests db))),
           bv_adopted = map request_result
             (List.map_filter (\<lambda>a. find_request (a_request a) db) (batch_adoptions bid db))\<rparr>)"

definition request :: "string \<Rightarrow> repair_db \<Rightarrow> request_view option" where
  "request rid db = map_option request_result (find_request rid db)"

definition pending_status_requests :: "repair_db \<Rightarrow> request_view list" where
  "pending_status_requests db =
     map request_result
       (sort_key created_at (filter (\<lambda>r. req_state r = Confirmation_pending) (requests db)))"

definition scheduling_request :: "repair_db \<Rightarrow> request_view option" where
  "scheduling_request db = map_option request_result (select_first dispatch_slot (requests db))"

record blocker =
  bl_request_id :: string
  bl_target_machine :: string
  bl_state :: request_state
  bl_error_code :: "string option"
  bl_evidence :: "json option"

definition live_claim :: "request_state \<Rightarrow> bool" where
  "live_claim s \<longleftrightarrow> s \<in> {Redeemed, Verifying, Confirmation_pending}"

definition mutation_blocker :: "string option \<Rightarrow> repair_db \<Rightarrow> blocker option" where
  "mutation_blocker machine db =
     (case sort_key (\<lambda>r. (redeemed_at r, created_at r))
             (filter (\<lambda>r. live_claim (req_state r)
                        \<and> (case machine of None \<Rightarrow> True | Some m \<Rightarrow> target_machine r = m))
               (requests db)) of
        [] \<Rightarrow> None
      | r # _ \<Rightarrow> Some
          \<lparr>bl_request_id = request_id r, bl_target_machine = target_machine r,
           bl_state = req_state r, bl_error_code = error_code r, bl_evidence = evidence r\<rparr>)"

definition has_dispatchable_request :: "repair_db \<Rightarrow> bool" where
  "has_dispatchable_request db \<longleftrightarrow>
     \<not> list_ex dispatch_slot (requests db)
     \<and> list_ex (\<lambda>r. req_state r = Queued \<and> \<not> dispatch_slot r) (requests db)"

end
