(* ===== verification/Repair_Ops.thy ===== *)
theory Repair_Ops
  imports Repair_Store
begin

text \<open>
  The state-changing operations of the repair store, each one transaction.  \<open>update_one\<close> is the
  recurring tail of the code: an UPDATE whose WHERE clause repeats the checked state, the
  constraint check SQLite makes while it runs, and the error raised when it did not change
  exactly one row.
\<close>

type_synonym 'a outcome = "(repair_error + 'a) \<times> repair_db"

definition transaction :: "repair_db \<Rightarrow> repair_error + 'a \<times> repair_db \<Rightarrow> 'a outcome" where
  \<comment> \<open>a raise inside the \<open>with\<close> block rolls back\<close>
  "transaction db r = (case r of Inl e \<Rightarrow> (Inl e, db) | Inr (x, db') \<Rightarrow> (Inr x, db'))"

definition update_one ::
    "(request_row \<Rightarrow> bool) \<Rightarrow> (request_row \<Rightarrow> request_row) \<Rightarrow> string \<Rightarrow> repair_db
       \<Rightarrow> repair_error + repair_db" where
  "update_one p f code db =
     (let rows = update_where p f (requests db)
      in if \<not> indexes_ok rows then Inl IntegrityError
         else if count_where p (requests db) \<noteq> 1 then Inl (StoreError code)
         else Inr (db\<lparr>requests := rows\<rparr>))"

section \<open>Batch counters\<close>

definition pending_states :: "request_state list" where
  "pending_states = [Ticket_issued, Dispatched, Redeemed, Verifying, Confirmation_pending,
     Updating_hub]"

definition count_state :: "request_state list \<Rightarrow> request_state list \<Rightarrow> nat" where
  "count_state wanted states = count_where (\<lambda>s. s \<in> set wanted) states"

definition batch_state_of :: "request_state list \<Rightarrow> batch_state" where
  "batch_state_of states =
     (let total = length states;
          repaired = count_state [Complete] states;
          terminal = repaired + count_state [Retryable] states
            + (count_state [Needs_review] states + count_state [Hub_update_required] states)
      in if 0 < total \<and> repaired = total then Batch_complete
         else if 0 < total \<and> terminal = total then Batch_attention
         else if list_all (\<lambda>s. s = Queued) states then Batch_queued
         else Batch_running)"

definition refreshed_batch :: "request_state list \<Rightarrow> time \<Rightarrow> batch_row \<Rightarrow> batch_row" where
  "refreshed_batch states now b =
     (let retryable = count_state [Retryable] states;
          review = count_state [Needs_review] states + count_state [Hub_update_required] states
      in b\<lparr>b_updated_at := now, b_state := batch_state_of states, b_total := length states,
           b_queued := count_state [Queued, Checking] states,
           b_complete := count_state [Complete] states, b_retryable := retryable,
           b_review := review, b_pending := count_state pending_states states,
           b_repaired := count_state [Complete] states, b_attention := retryable + review\<rparr>)"

definition refresh_batch :: "string \<Rightarrow> time \<Rightarrow> repair_db \<Rightarrow> repair_db" where
  \<comment> \<open>\<open>_refresh_batch_locked\<close>\<close>
  "refresh_batch bid now db =
     (let states = map req_state (filter (\<lambda>r. batch_id r = bid) (requests db))
      in db\<lparr>batches := update_where (\<lambda>b. b_id b = bid) (refreshed_batch states now) (batches db)\<rparr>)"

section \<open>Creating a batch\<close>

definition fresh_request :: "string \<Rightarrow> string \<Rightarrow> nat \<Rightarrow> string \<Rightarrow> time \<Rightarrow> request_row" where
  "fresh_request rid bid n machine now =
     \<lparr>request_id = rid, batch_id = bid, ordinal = n, attempt = 0, target_machine = machine,
      registry_host = None, resolved_address = None, controller_url = None,
      controller_role = None, site_id = None, site_name = None, controller_id = None,
      fleet_token_digest = None, ticket_digest = None, ticket_status = None, issued_at = None,
      redemption_expires_at = None, dispatched_at = None, direct_source = None,
      redeemed_at = None, observed_identity = None, registry_snapshot = None,
      req_state = Queued, error_code = None, evidence = None, dispatch_slot = False,
      created_at = now, updated_at = now\<rparr>"

definition fresh_batch :: "string \<Rightarrow> string list \<Rightarrow> time \<Rightarrow> batch_row" where
  "fresh_batch bid targets now =
     \<lparr>b_id = bid, b_created_at = now, b_updated_at = now, b_state = Batch_queued,
      b_targets = targets, b_total = length targets, b_queued = length targets,
      b_complete = 0, b_retryable = 0, b_review = 0, b_pending = 0, b_repaired = 0,
      b_attention = 0\<rparr>"

definition unresolved_request :: "string \<Rightarrow> repair_db \<Rightarrow> request_row option" where
  \<comment> \<open>\<open>ORDER BY created_at ASC LIMIT 1\<close>\<close>
  "unresolved_request machine db =
     (case sort_key created_at
             (filter (\<lambda>r. target_machine r = machine \<and> unresolved (req_state r)) (requests db)) of
        [] \<Rightarrow> None | r # _ \<Rightarrow> Some r)"

definition replay_batch ::
    "string list \<Rightarrow> request_row list \<Rightarrow> repair_db \<Rightarrow> string
       \<Rightarrow> repair_error + request_view list option" where
  \<comment> \<open>one turn of the loop over the batches of the existing requests\<close>
  "replay_batch ordered existing db bid =
     (let adopted_ids = map a_request (batch_adoptions bid db);
          known = map_of (map (\<lambda>r. (request_id r, r)) existing)
      in if adopted_ids = [] \<or> \<not> list_all (\<lambda>i. known i \<noteq> None) adopted_ids then Inr None
         else case find_batch bid db of
           None \<Rightarrow> Inl TypeError
         | Some b \<Rightarrow>
             let adopted = List.map_filter known adopted_ids
             in if set (b_targets b) \<union> set (map target_machine adopted) = set ordered
                then Inr (Some (map request_result adopted)) else Inr None)"

fun first_replay ::
    "string list \<Rightarrow> request_row list \<Rightarrow> repair_db \<Rightarrow> string list
       \<Rightarrow> repair_error + (string \<times> request_view list) option" where
  "first_replay ordered existing db [] = Inr None"
| "first_replay ordered existing db (bid # bids) =
     (case replay_batch ordered existing db bid of
        Inl e \<Rightarrow> Inl e
      | Inr (Some views) \<Rightarrow> Inr (Some (bid, views))
      | Inr None \<Rightarrow> first_replay ordered existing db bids)"

definition view_batch ::
    "string \<Rightarrow> request_view list option \<Rightarrow> repair_db \<Rightarrow> repair_error + batch_view" where
  "view_batch bid adopted db =
     (case batch_view_of bid db of
        None \<Rightarrow> Inl TypeError
      | Some v \<Rightarrow> Inr (case adopted of None \<Rightarrow> v | Some vs \<Rightarrow> v\<lparr>bv_adopted := vs\<rparr>))"

definition adopt_existing ::
    "(string list \<Rightarrow> string list) \<Rightarrow> string list \<Rightarrow> request_row list \<Rightarrow> repair_db
       \<Rightarrow> repair_error + batch_view" where
  \<comment> \<open>every target already has an unresolved request; \<open>set_order\<close> is the iteration order of the
    Python set of their batch ids\<close>
  "adopt_existing set_order ordered existing db =
     (let bids = remdups (map batch_id existing);
          conflict = Inl (ValueError ''target machines already belong to active repair batches'');
          replay = (case first_replay ordered existing db (set_order bids) of
            Inl e \<Rightarrow> Inl e
          | Inr (Some (bid, views)) \<Rightarrow> view_batch bid (Some views) db
          | Inr None \<Rightarrow> conflict)
      in case bids of
           [bid] \<Rightarrow> (case find_batch bid db of
               Some b \<Rightarrow> if b_targets b = ordered then view_batch bid None db else replay
             | None \<Rightarrow> replay)
         | _ \<Rightarrow> replay)"

definition adoption_keys_ok :: "adoption_row list \<Rightarrow> bool" where
  "adoption_keys_ok links \<longleftrightarrow>
     distinct (map (\<lambda>a. (a_batch a, a_ordinal a)) links)
     \<and> distinct (map (\<lambda>a. (a_batch a, a_request a)) links)"

definition insert_batch ::
    "string \<Rightarrow> (nat \<Rightarrow> string) \<Rightarrow> time \<Rightarrow> string list \<Rightarrow> request_row list \<Rightarrow> repair_db
       \<Rightarrow> repair_error + repair_db" where
  "insert_batch bid rids now new_targets existing db =
     (let rows = requests db @ map (\<lambda>(n, m). fresh_request (rids n) bid n m now)
                   (enumerate 0 new_targets);
          links = map (\<lambda>(n, r). \<lparr>a_batch = bid, a_request = request_id r, a_ordinal = n\<rparr>)
                   (enumerate 0 existing)
      in if bid \<in> set (map b_id (batches db)) \<or> \<not> indexes_ok rows
            \<or> \<not> adoption_keys_ok (adoptions db @ links)
         then Inl IntegrityError
         else Inr \<lparr>batches = batches db @ [fresh_batch bid new_targets now],
                   requests = rows, adoptions = adoptions db @ links\<rparr>)"

definition create_or_adopt_batch ::
    "(string list \<Rightarrow> string list) \<Rightarrow> string \<Rightarrow> (nat \<Rightarrow> string) \<Rightarrow> time \<Rightarrow> string list \<Rightarrow> repair_db
       \<Rightarrow> batch_view outcome" where
  "create_or_adopt_batch set_order bid rids now machines db =
     (let ordered = sort (remdups (filter (\<lambda>m. m \<noteq> []) (map py_strip machines)))
      in if ordered = [] then (Inl (ValueError ''at least one target machine is required''), db)
         else
           let existing = List.map_filter (\<lambda>m. unresolved_request m db) ordered
           in if length existing = length ordered
              then (adopt_existing set_order ordered existing db, db)
              else
                let new_targets = filter (\<lambda>m. list_all (\<lambda>r. target_machine r \<noteq> m) existing) ordered
                in if new_targets = []
                   then (Inl (ValueError
                          ''target machines already belong to active repair batches''), db)
                   else case insert_batch bid rids now new_targets existing db of
                     Inl e \<Rightarrow> (Inl e, db)
                   | Inr db' \<Rightarrow>
                       (view_batch bid
                          (if existing = [] then None else Some (map request_result existing)) db',
                        db'))"

section \<open>Evidence of a refused redemption\<close>

definition redemption_refusal_limit :: nat where
  "redemption_refusal_limit = 5"

definition refusal_entry ::
    "time \<Rightarrow> string \<Rightarrow> int \<Rightarrow> string option \<Rightarrow> string option \<Rightarrow> json" where
  "refusal_entry now code status source machine = JObj
     ([(''at'', JFloat now), (''code'', JStr (take max_error_code code)),
       (''status'', JInt status),
       (''source'', case source of
           None \<Rightarrow> JNull | Some s \<Rightarrow> if s = [] then JNull else JStr (take 64 s))]
      @ (case machine of
           None \<Rightarrow> []
         | Some m \<Rightarrow> if m = [] then [] else [(''target_machine'', JStr (take 100 m))]))"

definition prior_refusals :: "json option \<Rightarrow> json list" where
  "prior_refusals ev =
     (case ev of
        Some (JObj d) \<Rightarrow> (case jget d ''redemption_refusals'' of
            JList xs \<Rightarrow> filter (\<lambda>x. as_dict x \<noteq> None) xs | _ \<Rightarrow> [])
      | _ \<Rightarrow> [])"

definition last_n :: "nat \<Rightarrow> 'a list \<Rightarrow> 'a list" where
  "last_n n xs = drop (length xs - n) xs"

definition record_redemption_refusal ::
    "(rat \<Rightarrow> nat) \<Rightarrow> time \<Rightarrow> string \<Rightarrow> string \<Rightarrow> int \<Rightarrow> string option \<Rightarrow> string option \<Rightarrow> repair_db
       \<Rightarrow> unit outcome" where
  "record_redemption_refusal flen now rid code status source machine db = transaction db
     (case find_request rid db of
        None \<Rightarrow> Inl (StoreError ''request_not_found'')
      | Some row \<Rightarrow>
          (case merge_evidence flen (evidence row)
                  [(''redemption_refusals'', JList (last_n redemption_refusal_limit
                      (prior_refusals (evidence row)
                        @ [refusal_entry now code status source machine])))] of
             Inl e \<Rightarrow> Inl e
           | Inr ev \<Rightarrow> Inr ((), db\<lparr>requests :=
               update_where (\<lambda>r. request_id r = rid) (\<lambda>r. r\<lparr>evidence := Some ev\<rparr>) (requests db)\<rparr>)))"

section \<open>Issuing and dispatching\<close>

definition issued_row ::
    "target_identity \<Rightarrow> controller_identity \<Rightarrow> string \<Rightarrow> string \<Rightarrow> time \<Rightarrow> time \<Rightarrow> request_row
       \<Rightarrow> request_row" where
  "issued_row tgt ctrl fleet tick now expires r =
     r\<lparr>registry_host := Some (ti_registry_host tgt),
       resolved_address := Some (ti_resolved_address tgt),
       controller_url := Some (ti_controller_url tgt), controller_role := Some (ci_role ctrl),
       site_id := Some (ci_site_id ctrl), site_name := Some (ci_site_name ctrl),
       controller_id := Some (ci_controller_id ctrl), fleet_token_digest := Some fleet,
       ticket_digest := Some tick, ticket_status := Some Issued, issued_at := Some now,
       redemption_expires_at := Some expires, req_state := Ticket_issued,
       attempt := attempt r + 1, updated_at := now, error_code := None\<rparr>"

definition issue_ticket ::
    "time \<Rightarrow> string \<Rightarrow> target_identity \<Rightarrow> controller_identity \<Rightarrow> string \<Rightarrow> string \<Rightarrow> time \<Rightarrow> repair_db
       \<Rightarrow> unit outcome" where
  "issue_ticket now rid tgt ctrl fleet_digest tick_digest expires db = transaction db
     (case require_digest fleet_digest ''fleet_token_digest'' of
        Inl e \<Rightarrow> Inl e
      | Inr fleet \<Rightarrow>
     case require_digest tick_digest ''ticket_digest'' of
        Inl e \<Rightarrow> Inl e
      | Inr tick \<Rightarrow>
     case update_one
            (\<lambda>r. request_id r = rid \<and> target_machine r = ti_machine tgt
                 \<and> req_state r \<in> {Queued, Checking} \<and> ticket_status r = None)
            (issued_row tgt ctrl fleet tick now expires)
            ''request_not_issuable'' db of
        Inl e \<Rightarrow> Inl e
      | Inr db' \<Rightarrow>
     case find_request rid db' of
        None \<Rightarrow> Inl TypeError
      | Some row \<Rightarrow> Inr ((), refresh_batch (batch_id row) now db'))"

definition dispatch_queue :: "repair_db \<Rightarrow> request_row list" where
  \<comment> \<open>the joined queued rows in the order of \<open>claim_next_dispatch\<close>\<close>
  "dispatch_queue db =
     concat (map (\<lambda>b. sort_key ordinal
                (filter (\<lambda>r. batch_id r = b_id b \<and> req_state r = Queued \<and> \<not> dispatch_slot r)
                  (requests db)))
       (sort_key b_created_at (batches db)))"

definition claim_next_dispatch :: "time \<Rightarrow> repair_db \<Rightarrow> request_view option outcome" where
  "claim_next_dispatch now db =
     (if list_ex dispatch_slot (requests db) then (Inr None, db)
      else case dispatch_queue db of
        [] \<Rightarrow> (Inr None, db)
      | row # _ \<Rightarrow>
          (case update_one
                  (\<lambda>r. request_id r = request_id row \<and> req_state r = Queued \<and> \<not> dispatch_slot r)
                  (\<lambda>r. r\<lparr>req_state := Checking, dispatch_slot := True, updated_at := now\<rparr>)
                  '''' db of
             Inl (StoreError _) \<Rightarrow> (Inr None, db)
           | Inl e \<Rightarrow> (Inl e, db)
           | Inr db' \<Rightarrow>
               (let db'' = refresh_batch (batch_id row) now db'
                in (Inr (request (request_id row) db''), db''))))"

definition mark_dispatched :: "time \<Rightarrow> string \<Rightarrow> repair_db \<Rightarrow> unit outcome" where
  "mark_dispatched now rid db = transaction db
     (case find_request rid db of
        None \<Rightarrow> Inl (StoreError ''request_not_found'')
      | Some row \<Rightarrow>
          if req_state row = Dispatched then Inr ((), db)
          else case update_one
                 (\<lambda>r. request_id r = rid \<and> req_state r = Ticket_issued
                      \<and> ticket_status r = Some Issued)
                 (\<lambda>r. r\<lparr>req_state := Dispatched, dispatched_at := Some now, updated_at := now\<rparr>)
                 ''request_not_dispatchable'' db of
            Inl e \<Rightarrow> Inl e
          | Inr db' \<Rightarrow> Inr ((), refresh_batch (batch_id row) now db'))"

section \<open>Redemption\<close>

record repair_claim =
  cl_request_id :: string
  cl_target_machine_id :: string
  cl_role :: string
  cl_site_id :: string
  cl_site_name :: string
  cl_controller_id :: string

record redemption =
  rd_ticket :: string
  rd_expires_at :: time
  rd_target_machine :: string
  rd_direct_source :: string
  rd_observed :: jdict
  rd_snapshot :: target_identity
  rd_controller :: controller_identity
  rd_fleet_digest :: string

definition exact_target :: "request_row \<Rightarrow> redemption \<Rightarrow> bool" where
  "exact_target row d \<longleftrightarrow>
     target_machine row = rd_target_machine d
     \<and> target_machine row = ti_machine (rd_snapshot d)
     \<and> registry_host row = Some (ti_registry_host (rd_snapshot d))
     \<and> resolved_address row = Some (ti_resolved_address (rd_snapshot d))
     \<and> controller_url row = Some (ti_controller_url (rd_snapshot d))
     \<and> resolved_address row = Some (rd_direct_source d)"

definition exact_controller :: "request_row \<Rightarrow> redemption \<Rightarrow> bool" where
  "exact_controller row d \<longleftrightarrow>
     controller_role row = Some (ci_role (rd_controller d))
     \<and> site_id row = Some (ci_site_id (rd_controller d))
     \<and> site_name row = Some (ci_site_name (rd_controller d))
     \<and> controller_id row = Some (ci_controller_id (rd_controller d))"

definition binding_error ::
    "(string \<Rightarrow> string) \<Rightarrow> redemption \<Rightarrow> string \<Rightarrow> request_row \<Rightarrow> repair_db \<Rightarrow> string option" where
  \<comment> \<open>the checks of an unexpired redemption, in the code's order\<close>
  "binding_error sha256 d fleet row db =
     (if str_or_empty (ticket_digest row) \<noteq> sha256 (rd_ticket d) then Some ''ticket_mismatch''
      else if str_or_empty (fleet_token_digest row) \<noteq> fleet then Some ''fleet_token_mismatch''
      else if \<not> exact_target row d then Some ''target_binding_mismatch''
      else if \<not> exact_controller row d then Some ''controller_snapshot_changed''
      else if list_ex (\<lambda>r. target_machine r = target_machine row \<and> request_id r \<noteq> request_id row
                 \<and> req_state r = Complete
                 \<and> (case issued_at row of None \<Rightarrow> 0 | Some t \<Rightarrow> t) \<le> updated_at r) (requests db)
           then Some ''repair_already_complete''
      else None)"

definition expire_ticket :: "time \<Rightarrow> request_row \<Rightarrow> repair_db \<Rightarrow> repair_error + repair_db" where
  "expire_ticket now row db =
     (case update_one
             (\<lambda>r. request_id r = request_id row \<and> ticket_status r = Some Issued
                  \<and> req_state r = req_state row)
             (\<lambda>r. r\<lparr>ticket_status := Some Expired, req_state := Confirmation_pending,
                    error_code := Some ''ticket_expired'', dispatch_slot := False,
                    updated_at := now\<rparr>)
             ''ticket_not_redeemable'' db of
        Inl e \<Rightarrow> Inl e
      | Inr db' \<Rightarrow> Inr (refresh_batch (batch_id row) now db'))"

definition consume_ticket ::
    "time \<Rightarrow> redemption \<Rightarrow> json \<Rightarrow> json \<Rightarrow> request_row \<Rightarrow> repair_db \<Rightarrow> repair_error + repair_db" where
  "consume_ticket now d observed snapshot row db =
     (case update_one
             (\<lambda>r. request_id r = request_id row \<and> ticket_status r = Some Issued
                  \<and> req_state r \<in> {Ticket_issued, Dispatched})
             (\<lambda>r. r\<lparr>ticket_status := Some Ticket_redeemed, req_state := Redeemed,
                    direct_source := Some (rd_direct_source d), redeemed_at := Some now,
                    observed_identity := Some observed, registry_snapshot := Some snapshot,
                    updated_at := now, error_code := None\<rparr>)
             ''ticket_replayed'' db of
        Inl e \<Rightarrow> Inl e
      | Inr db' \<Rightarrow> Inr (refresh_batch (batch_id row) now db'))"

definition claim_of :: "string \<Rightarrow> redemption \<Rightarrow> repair_claim" where
  "claim_of rid d =
     \<lparr>cl_request_id = rid, cl_target_machine_id = rd_target_machine d, cl_role = ''agent'',
      cl_site_id = ci_site_id (rd_controller d), cl_site_name = ci_site_name (rd_controller d),
      cl_controller_id = rd_target_machine d\<rparr>"

definition redeem_row ::
    "(string \<Rightarrow> string) \<Rightarrow> time \<Rightarrow> redemption \<Rightarrow> string \<Rightarrow> json \<Rightarrow> json \<Rightarrow> request_row \<Rightarrow> repair_db
       \<Rightarrow> repair_claim outcome" where
  \<comment> \<open>the transaction after the row was read; the expired branch commits and then raises\<close>
  "redeem_row sha256 now d fleet observed snapshot row db =
     (if ticket_status row = Some Ticket_redeemed then (Inl (StoreError ''ticket_replayed''), db)
      else if ticket_status row = Some Expired then (Inl (StoreError ''ticket_expired''), db)
      else if ticket_status row \<noteq> Some Issued \<or> req_state row \<notin> {Ticket_issued, Dispatched}
      then (Inl (StoreError ''ticket_not_redeemable''), db)
      else case redemption_expires_at row of
        None \<Rightarrow> (Inl TypeError, db)
      | Some durable_expiry \<Rightarrow>
          if rd_expires_at d \<noteq> durable_expiry
          then (Inl (StoreError ''redemption_expiry_mismatch''), db)
          else if durable_expiry \<le> now
          then (case expire_ticket now row db of
                  Inl e \<Rightarrow> (Inl e, db)
                | Inr db' \<Rightarrow> (Inl (StoreError ''ticket_expired''), db'))
          else (case binding_error sha256 d fleet row db of
                  Some code \<Rightarrow> (Inl (StoreError code), db)
                | None \<Rightarrow>
                    (case consume_ticket now d observed snapshot row db of
                       Inl e \<Rightarrow> (Inl e, db)
                     | Inr db' \<Rightarrow> (Inr (claim_of (request_id row) d), db'))))"

definition redeem ::
    "(string \<Rightarrow> string) \<Rightarrow> (rat \<Rightarrow> nat) \<Rightarrow> time \<Rightarrow> string \<Rightarrow> redemption \<Rightarrow> repair_db
       \<Rightarrow> repair_claim outcome" where
  "redeem sha256 flen now rid d db =
     (case require_digest (rd_fleet_digest d) ''fleet_token_digest'' of
        Inl e \<Rightarrow> (Inl e, db)
      | Inr fleet \<Rightarrow>
     case pack_json flen (observed_identity_evidence (rd_observed d) (rd_snapshot d)
                            (rd_controller d)) of
        Inl e \<Rightarrow> (Inl e, db)
      | Inr observed \<Rightarrow>
     case pack_json flen (target_json (rd_snapshot d)) of
        Inl e \<Rightarrow> (Inl e, db)
      | Inr snapshot \<Rightarrow>
     case find_request rid db of
        None \<Rightarrow> (Inl (StoreError ''request_not_found''), db)
      | Some row \<Rightarrow> redeem_row sha256 now d fleet observed snapshot row db)"

section \<open>Parking and adopting target status\<close>

definition claim_states :: "request_state list" where
  "claim_states = [Ticket_issued, Dispatched, Redeemed, Verifying, Confirmation_pending]"

definition park :: "time \<Rightarrow> string \<Rightarrow> string \<Rightarrow> repair_db \<Rightarrow> unit outcome" where
  "park now rid code db = transaction db
     (case safe_error (Some code) of
        Inl e \<Rightarrow> Inl e
      | Inr err \<Rightarrow>
     case find_request rid db of
        None \<Rightarrow> Inl (StoreError ''request_not_found'')
      | Some row \<Rightarrow>
          if req_state row \<notin> set claim_states then Inl (StoreError ''request_not_parkable'')
          else case update_one
                 (\<lambda>r. request_id r = rid \<and> req_state r = req_state row)
                 (\<lambda>r. r\<lparr>req_state := Confirmation_pending, error_code := err,
                        dispatch_slot := False, updated_at := now\<rparr>)
                 ''request_not_parkable'' db of
            Inl e \<Rightarrow> Inl e
          | Inr db' \<Rightarrow> Inr ((), refresh_batch (batch_id row) now db'))"

record status_report =
  st_state :: string
  st_request_id :: string
  st_error_code :: "string option"
  st_identity :: json
  st_conflict :: json
  st_callback_error :: json

definition same_dict :: "json \<Rightarrow> jdict \<Rightarrow> bool" where
  \<comment> \<open>dict equality, which ignores the order of keys\<close>
  "same_dict v d = (case as_dict v of None \<Rightarrow> False
     | Some c \<Rightarrow> set c = set d \<and> length c = length d)"

definition expected_identity :: "request_row \<Rightarrow> jdict" where
  "expected_identity row =
     [(''role'', JStr ''agent''), (''site_id'', jstr_opt (site_id row)),
      (''site_name'', jstr_opt (site_name row)), (''controller_id'', JStr (target_machine row))]"

definition terminal_columns ::
    "status_report \<Rightarrow> request_row
       \<Rightarrow> repair_error + request_state \<times> string option \<times> ticket_state option" where
  \<comment> \<open>the stored state, error code and ticket status of a terminal report\<close>
  "terminal_columns st row =
     (let expire = (if ticket_status row = Some Issued then Some Expired else ticket_status row);
          text = (\<lambda>default. Some (str_or_empty (py_or (st_error_code st) (Some default))))
      in if st_state st = ''complete'' then
           (if \<not> same_dict (st_identity st) (expected_identity row)
               \<or> ticket_status row \<noteq> Some Ticket_redeemed
            then Inl (StoreError ''status_identity_mismatch'')
            else Inr (Complete, None, Some Ticket_redeemed))
         else if st_state st = ''never_applied'' then
           (case safe_error (text ''never_applied'') of
              Inl e \<Rightarrow> Inl e | Inr err \<Rightarrow> Inr (Retryable, err, expire))
         else
           (case safe_error (text ''needs_review'') of
              Inl e \<Rightarrow> Inl e | Inr err \<Rightarrow> Inr (Needs_review, err, expire)))"

definition terminal_evidence ::
    "(rat \<Rightarrow> nat) \<Rightarrow> status_report \<Rightarrow> request_row \<Rightarrow> repair_error + json" where
  "terminal_evidence flen st row =
     (case agent_callback_evidence (st_callback_error st) of
        Inl e \<Rightarrow> Inl e
      | Inr callback \<Rightarrow>
          merge_evidence flen (evidence row)
            ((''agent_terminal_state'', JStr (st_state st))
               # prior_repair_evidence (st_conflict st) @ callback))"

definition recorded_terminal :: "request_row \<Rightarrow> json" where
  "recorded_terminal row =
     (case evidence row of Some (JObj d) \<Rightarrow> jget d ''agent_terminal_state'' | _ \<Rightarrow> JNull)"

definition adopt_row ::
    "(rat \<Rightarrow> nat) \<Rightarrow> time \<Rightarrow> status_report \<Rightarrow> request_row \<Rightarrow> repair_db
       \<Rightarrow> repair_error + request_view \<times> repair_db" where
  "adopt_row flen now st row db =
     (case terminal_columns st row of
        Inl e \<Rightarrow> Inl e
      | Inr (stored, err, ticket) \<Rightarrow>
     case terminal_evidence flen st row of
        Inl e \<Rightarrow> Inl e
      | Inr ev \<Rightarrow>
     case update_one
            (\<lambda>r. request_id r = request_id row \<and> req_state r = req_state row)
            (\<lambda>r. r\<lparr>req_state := stored, ticket_status := ticket, error_code := err,
                   evidence := Some ev, dispatch_slot := False, updated_at := now\<rparr>)
            ''terminal_status_conflict'' db of
        Inl e \<Rightarrow> Inl e
      | Inr db' \<Rightarrow>
     (let db'' = refresh_batch (batch_id row) now db'
      in case find_request (request_id row) db'' of
           None \<Rightarrow> Inl TypeError
         | Some r \<Rightarrow> Inr (request_result r, db'')))"

definition adopt_status ::
    "(rat \<Rightarrow> nat) \<Rightarrow> time \<Rightarrow> string \<Rightarrow> status_report \<Rightarrow> string \<Rightarrow> repair_db
       \<Rightarrow> request_view outcome" where
  "adopt_status flen now rid st source db = transaction db
     (if st_state st \<notin> {''complete'', ''never_applied'', ''needs_review''}
      then Inl (StoreError ''status_not_terminal'')
      else if st_request_id st \<noteq> rid then Inl (StoreError ''status_request_mismatch'')
      else case find_request rid db of
        None \<Rightarrow> Inl (StoreError ''request_not_found'')
      | Some row \<Rightarrow>
          if Some source \<noteq> resolved_address row then Inl (StoreError ''source_host_mismatch'')
          else if req_state row \<in> {Complete, Retryable, Needs_review} then
            (if recorded_terminal row = JStr (st_state st) then Inr (request_result row, db)
             else Inl (StoreError ''terminal_status_conflict''))
          else if req_state row \<notin> set claim_states
          then Inl (StoreError ''status_not_adoptable'')
          else adopt_row flen now st row db)"

section \<open>Failures before a claim, reviews, registry changes\<close>

definition no_claim_authority :: "request_row \<Rightarrow> bool" where
  "no_claim_authority r \<longleftrightarrow>
     ticket_status r = None \<and> issued_at r = None \<and> redeemed_at r = None"

definition fail_before_claim ::
    "time \<Rightarrow> string \<Rightarrow> request_state \<Rightarrow> string \<Rightarrow> repair_db \<Rightarrow> unit outcome" where
  "fail_before_claim now rid target code db = transaction db
     (if target \<notin> {Retryable, Needs_review, Hub_update_required}
      then Inl (ValueError ''invalid preclaim state'')
      else case safe_error (Some code) of
        Inl e \<Rightarrow> Inl e
      | Inr err \<Rightarrow>
     case find_request rid db of
        None \<Rightarrow> Inl (StoreError ''request_not_found'')
      | Some row \<Rightarrow>
          (case update_one
                  (\<lambda>r. request_id r = rid \<and> no_claim_authority r
                       \<and> req_state r \<in> {Queued, Checking, Hub_update_required, Updating_hub})
                  (\<lambda>r. r\<lparr>req_state := target, error_code := err, dispatch_slot := False,
                         updated_at := now\<rparr>)
                  ''request_has_claim_authority'' db of
             Inl e \<Rightarrow> Inl e
           | Inr db' \<Rightarrow> Inr ((), refresh_batch (batch_id row) now db')))"

definition preclaim_review :: "request_row \<Rightarrow> bool" where
  "preclaim_review r \<longleftrightarrow>
     req_state r = Needs_review \<and> ticket_status r = None \<and> ticket_digest r = None
     \<and> issued_at r = None \<and> redeemed_at r = None"

definition resolve_preclaim_review ::
    "(rat \<Rightarrow> nat) \<Rightarrow> time \<Rightarrow> string \<Rightarrow> string \<Rightarrow> repair_db \<Rightarrow> unit outcome" where
  "resolve_preclaim_review flen now rid code db = transaction db
     (case safe_error (Some code) of
        Inl e \<Rightarrow> Inl e
      | Inr ev_code \<Rightarrow>
     case find_request rid db of
        None \<Rightarrow> Inl (StoreError ''request_not_found'')
      | Some row \<Rightarrow>
          if \<not> preclaim_review row then Inl (StoreError ''review_not_preclaim'')
          else case pack_json flen (JObj [(''preclaim_resolution'', jstr_opt ev_code)]) of
            Inl e \<Rightarrow> Inl e
          | Inr ev \<Rightarrow>
              (case update_one (\<lambda>r. request_id r = rid \<and> preclaim_review r)
                      (\<lambda>r. r\<lparr>req_state := Retryable, error_code := None, evidence := Some ev,
                             updated_at := now\<rparr>)
                      ''review_not_preclaim'' db of
                 Inl e \<Rightarrow> Inl e
               | Inr db' \<Rightarrow> Inr ((), refresh_batch (batch_id row) now db')))"

definition expired_review :: "time \<Rightarrow> request_row \<Rightarrow> bool" where
  "expired_review moment r \<longleftrightarrow>
     req_state r = Needs_review \<and> redeemed_at r = None \<and> issued_at r \<noteq> None
     \<and> (case redemption_expires_at r of None \<Rightarrow> False | Some t \<Rightarrow> t \<le> moment)"

definition resolve_expired_unredeemed_review ::
    "(rat \<Rightarrow> nat) \<Rightarrow> time \<Rightarrow> string \<Rightarrow> repair_db \<Rightarrow> unit outcome" where
  "resolve_expired_unredeemed_review flen moment rid db = transaction db
     (case find_request rid db of
        None \<Rightarrow> Inl (StoreError ''request_not_found'')
      | Some row \<Rightarrow>
          if \<not> expired_review moment row then Inl (StoreError ''review_not_expired'')
          else case merge_evidence flen (evidence row)
                      [(''review_resolution'', JStr ''ticket_expired_unredeemed''),
                       (''prior_error_code'', jstr_opt (error_code row))] of
            Inl e \<Rightarrow> Inl e
          | Inr ev \<Rightarrow>
              (case update_one (\<lambda>r. request_id r = rid \<and> expired_review moment r)
                      (\<lambda>r. r\<lparr>req_state := Retryable, error_code := None,
                             ticket_status := Some Expired, evidence := Some ev,
                             updated_at := moment\<rparr>)
                      ''review_not_expired'' db of
                 Inl e \<Rightarrow> Inl e
               | Inr db' \<Rightarrow> Inr ((), refresh_batch (batch_id row) moment db')))"

definition flag_registry_changed ::
    "(rat \<Rightarrow> nat) \<Rightarrow> time \<Rightarrow> string \<Rightarrow> string \<Rightarrow> repair_db \<Rightarrow> unit outcome" where
  "flag_registry_changed flen now rid code db = transaction db
     (case safe_error (Some code) of
        Inl e \<Rightarrow> Inl e
      | Inr ev_code \<Rightarrow>
     case find_request rid db of
        None \<Rightarrow> Inl (StoreError ''request_not_found'')
      | Some row \<Rightarrow>
          if \<not> live_claim (req_state row) \<or> ticket_status row \<noteq> Some Ticket_redeemed
          then Inl (StoreError ''request_has_no_live_claim'')
          else case merge_evidence flen (evidence row)
                      [(''registry_changed_pending'', JBool True),
                       (''registry_changed_code'', jstr_opt ev_code)] of
            Inl e \<Rightarrow> Inl e
          | Inr ev \<Rightarrow>
              (case update_one
                      (\<lambda>r. request_id r = rid \<and> req_state r = req_state row
                           \<and> ticket_status r = Some Ticket_redeemed)
                      (\<lambda>r. r\<lparr>evidence := Some ev, updated_at := now\<rparr>)
                      ''request_has_no_live_claim'' db of
                 Inl e \<Rightarrow> Inl e
               | Inr db' \<Rightarrow> Inr ((), refresh_batch (batch_id row) now db')))"

section \<open>Recovery of the scheduling slot\<close>

definition recover_row :: "time \<Rightarrow> request_row \<Rightarrow> repair_db \<Rightarrow> repair_error + repair_db" where
  "recover_row now row db =
     (let done = (\<lambda>r. case r of Inl e \<Rightarrow> Inl e
                    | Inr db' \<Rightarrow> Inr (refresh_batch (batch_id row) now db'))
      in if req_state row \<in> {Ticket_issued, Dispatched, Redeemed, Verifying} then
           done (update_one
             (\<lambda>r. request_id r = request_id row \<and> dispatch_slot r \<and> req_state r = req_state row)
             (\<lambda>r. r\<lparr>req_state := Confirmation_pending,
                    error_code := Some ''confirmation_pending'', dispatch_slot := False,
                    updated_at := now\<rparr>)
             ''dispatch_slot_conflict'' db)
         else if req_state row = Checking \<and> ticket_status row = None then
           done (update_one
             (\<lambda>r. request_id r = request_id row \<and> dispatch_slot r \<and> req_state r = Checking
                  \<and> ticket_status r = None)
             (\<lambda>r. r\<lparr>req_state := Queued, dispatch_slot := False, updated_at := now\<rparr>)
             ''dispatch_slot_conflict'' db)
         else Inl (StoreError ''dispatch_slot_state_invalid''))"

fun recover_rows ::
    "time \<Rightarrow> request_row list \<Rightarrow> nat \<Rightarrow> repair_db \<Rightarrow> repair_error + nat \<times> repair_db" where
  "recover_rows now [] n db = Inr (n, db)"
| "recover_rows now (row # rows) n db =
     (case recover_row now row db of
        Inl e \<Rightarrow> Inl e
      | Inr db' \<Rightarrow> recover_rows now rows (n + 1) db')"

definition recover_scheduling_slot :: "time \<Rightarrow> repair_db \<Rightarrow> nat outcome" where
  "recover_scheduling_slot now db = transaction db
     (recover_rows now (filter dispatch_slot (requests db)) 0 db)"

end
