(* ===== verification/Repair_Lifecycle.thy ===== *)
theory Repair_Lifecycle
  imports Repair_Ops
begin

text \<open>
  The abstract contract of the repair store: the life of one request as a transition relation on
  (state, ticket, slot), its invariant, and the refinement - every operation of the store moves
  every stored row by at most one transition of that relation.  The invariants of the whole
  database follow from it.
\<close>

type_synonym life = "request_state \<times> ticket_state option \<times> bool"

definition life_of :: "request_row \<Rightarrow> life" where
  "life_of r = (req_state r, ticket_status r, dispatch_slot r)"

definition closed_ticket :: "ticket_state option \<Rightarrow> ticket_state option" where
  "closed_ticket t = (if t = Some Issued then Some Expired else t)"

inductive life_step :: "life \<Rightarrow> life \<Rightarrow> bool" where
  claim: "life_step (Queued, None, False) (Checking, None, True)"
| release: "life_step (Checking, None, True) (Queued, None, False)"
| issue: "s \<in> {Queued, Checking} \<Longrightarrow>
    life_step (s, None, sl) (Ticket_issued, Some Issued, sl)"
| dispatch: "life_step (Ticket_issued, Some Issued, sl) (Dispatched, Some Issued, sl)"
| redeem: "s \<in> {Ticket_issued, Dispatched} \<Longrightarrow>
    life_step (s, Some Issued, sl) (Redeemed, Some Ticket_redeemed, sl)"
| expire: "s \<in> {Ticket_issued, Dispatched} \<Longrightarrow>
    life_step (s, Some Issued, sl) (Confirmation_pending, Some Expired, False)"
| park: "s \<in> set claim_states \<Longrightarrow> life_step (s, t, sl) (Confirmation_pending, t, False)"
| complete: "s \<in> set claim_states \<Longrightarrow>
    life_step (s, Some Ticket_redeemed, sl) (Complete, Some Ticket_redeemed, False)"
| abandon: "s \<in> set claim_states \<Longrightarrow> s' \<in> {Retryable, Needs_review} \<Longrightarrow>
    life_step (s, t, sl) (s', closed_ticket t, False)"
| fail: "s \<in> {Queued, Checking, Hub_update_required, Updating_hub} \<Longrightarrow>
    s' \<in> {Retryable, Needs_review, Hub_update_required} \<Longrightarrow>
    life_step (s, None, sl) (s', None, False)"
| review_preclaim: "life_step (Needs_review, None, sl) (Retryable, None, sl)"
| review_expired: "t \<noteq> None \<Longrightarrow> t \<noteq> Some Ticket_redeemed \<Longrightarrow>
    life_step (Needs_review, t, sl) (Retryable, Some Expired, sl)"

inductive_cases complete_stepE: "life_step (Complete, t, sl) l"
inductive_cases redeemed_stepE: "life_step (s, Some Ticket_redeemed, sl) l"

definition life_ok :: "life \<Rightarrow> bool" where
  "life_ok l = (case l of (s, t, sl) \<Rightarrow>
     s \<notin> {Verifying, Updating_hub}
     \<and> (s \<in> {Queued, Checking, Hub_update_required} \<longrightarrow> t = None)
     \<and> (s \<in> {Ticket_issued, Dispatched} \<longrightarrow> t = Some Issued)
     \<and> (s \<in> {Redeemed, Complete} \<longrightarrow> t = Some Ticket_redeemed)
     \<and> (s = Confirmation_pending \<longrightarrow> t \<noteq> None)
     \<and> (s \<in> {Retryable, Needs_review} \<longrightarrow> t \<noteq> Some Issued)
     \<and> (sl \<longrightarrow> s \<in> {Checking, Ticket_issued, Dispatched, Redeemed}))"

lemma life_step_ok: "life_step l l' \<Longrightarrow> life_ok l \<Longrightarrow> life_ok l'"
  by (induction rule: life_step.induct)
    (auto simp: life_ok_def claim_states_def closed_ticket_def)

lemma life_step_redeemed:
  "life_step l l' \<Longrightarrow> fst (snd l) = Some Ticket_redeemed \<Longrightarrow> fst (snd l') = Some Ticket_redeemed"
  by (induction rule: life_step.induct) (auto simp: closed_ticket_def)

lemma life_step_complete: "life_step l l' \<Longrightarrow> fst l \<noteq> Complete"
  by (induction rule: life_step.induct) (auto simp: claim_states_def)

lemma life_step_ticketed:
  "life_step l l' \<Longrightarrow> fst (snd l) \<noteq> None \<Longrightarrow> fst (snd l') \<noteq> None"
  by (induction rule: life_step.induct) (auto simp: closed_ticket_def)

section \<open>Rows\<close>

definition coherent :: "request_row \<Rightarrow> bool" where
  \<comment> \<open>the ticket columns agree with the ticket status\<close>
  "coherent r \<longleftrightarrow>
     (issued_at r = None \<longleftrightarrow> ticket_status r = None)
     \<and> (ticket_digest r = None \<longleftrightarrow> ticket_status r = None)
     \<and> (redemption_expires_at r = None \<longleftrightarrow> ticket_status r = None)
     \<and> (resolved_address r = None \<longleftrightarrow> ticket_status r = None)
     \<and> (redeemed_at r \<noteq> None \<longleftrightarrow> ticket_status r = Some Ticket_redeemed)"

definition request_ok :: "request_row \<Rightarrow> bool" where
  "request_ok r \<longleftrightarrow> life_ok (life_of r) \<and> coherent r"

definition same_identity :: "request_row \<Rightarrow> request_row \<Rightarrow> bool" where
  "same_identity r r' \<longleftrightarrow>
     request_id r' = request_id r \<and> batch_id r' = batch_id r \<and> ordinal r' = ordinal r
     \<and> target_machine r' = target_machine r \<and> created_at r' = created_at r"

definition row_evolves :: "request_row \<Rightarrow> request_row \<Rightarrow> bool" where
  "row_evolves r r' \<longleftrightarrow>
     same_identity r r' \<and> coherent r'
     \<and> (life_of r' = life_of r \<or> life_step (life_of r) (life_of r'))"

lemma row_evolves_refl: "coherent r \<Longrightarrow> row_evolves r r"
  by (simp add: row_evolves_def same_identity_def)

lemma row_evolves_ok: "row_evolves r r' \<Longrightarrow> request_ok r \<Longrightarrow> request_ok r'"
  unfolding row_evolves_def request_ok_def by (metis life_step_ok)

definition new_row :: "request_row \<Rightarrow> bool" where
  "new_row r \<longleftrightarrow> life_of r = (Queued, None, False) \<and> coherent r"

lemma new_row_ok: "new_row r \<Longrightarrow> request_ok r"
  by (simp add: new_row_def request_ok_def life_ok_def)

lemma new_row_fresh_request: "new_row (fresh_request rid bid n m now)"
  by (simp add: new_row_def fresh_request_def life_of_def coherent_def)

definition db_evolves :: "repair_db \<Rightarrow> repair_db \<Rightarrow> bool" where
  "db_evolves db db' \<longleftrightarrow>
     (\<exists>old new. requests db' = old @ new \<and> list_all2 row_evolves (requests db) old
        \<and> list_all new_row new)"

definition rows_ok :: "repair_db \<Rightarrow> bool" where
  "rows_ok db \<longleftrightarrow> (\<forall>r\<in>set (requests db). request_ok r)"

lemma db_evolves_back:
  assumes "db_evolves db db'" and "r' \<in> set (requests db')"
  shows "new_row r' \<or> (\<exists>r\<in>set (requests db). row_evolves r r')"
proof -
  obtain old new where split: "requests db' = old @ new"
    and rel: "list_all2 row_evolves (requests db) old" and fresh: "list_all new_row new"
    using assms(1) unfolding db_evolves_def by blast
  from assms(2) split have "r' \<in> set old \<or> r' \<in> set new" by simp
  then show ?thesis
  proof
    assume "r' \<in> set old"
    then obtain i where "i < length old" "r' = old ! i" by (auto simp: in_set_conv_nth)
    with rel show ?thesis by (auto simp: list_all2_conv_all_nth intro: nth_mem)
  next
    assume "r' \<in> set new"
    with fresh show ?thesis by (auto simp: list_all_iff)
  qed
qed

lemma db_evolves_rows_ok: "db_evolves db db' \<Longrightarrow> rows_ok db \<Longrightarrow> rows_ok db'"
  unfolding rows_ok_def
  by (blast dest: db_evolves_back intro: row_evolves_ok new_row_ok)

lemma db_evolves_refl:
  assumes "rows_ok db" and "requests db' = requests db"
  shows "db_evolves db db'"
  unfolding db_evolves_def
proof (intro exI conjI)
  show "requests db' = requests db @ []" using assms(2) by simp
  show "list_all2 row_evolves (requests db) (requests db)"
    using assms(1) unfolding rows_ok_def request_ok_def
    by (auto intro!: list.rel_refl_strong row_evolves_refl)
qed simp

lemma db_evolves_row:
  assumes "db_evolves db db'" and "r \<in> set (requests db)"
  obtains r' where "r' \<in> set (requests db')" and "row_evolves r r'"
proof -
  obtain old new where split: "requests db' = old @ new"
    and rel: "list_all2 row_evolves (requests db) old"
    using assms(1) unfolding db_evolves_def by blast
  obtain i where i: "i < length (requests db)" "r = requests db ! i"
    using assms(2) by (auto simp: in_set_conv_nth)
  with rel have "i < length old" and ev: "row_evolves r (old ! i)"
    by (auto simp: list_all2_conv_all_nth)
  then have "old ! i \<in> set (requests db')" using split by simp
  with ev show ?thesis by (rule that [rotated])
qed

lemma requests_refresh [simp]: "requests (refresh_batch bid now db) = requests db"
  by (simp add: refresh_batch_def Let_def)

lemma find_request_Some:
  "find_request rid db = Some r \<Longrightarrow> r \<in> set (requests db) \<and> request_id r = rid"
  unfolding find_request_def by (drule select_first_Some)

lemma find_request_refresh [simp]: "find_request rid (refresh_batch bid now db) = find_request rid db"
  by (simp add: find_request_def)

lemma update_one_Inr:
  "update_one p f code db = Inr db' \<Longrightarrow>
     db' = db\<lparr>requests := update_where p f (requests db)\<rparr> \<and> indexes_ok (requests db')
     \<and> count_where p (requests db) = 1"
  by (auto simp: update_one_def Let_def split: if_splits)

lemma update_where_evolves:
  assumes "rows_ok db"
    and "\<And>r. r \<in> set (requests db) \<Longrightarrow> p r \<Longrightarrow> request_ok r \<Longrightarrow> row_evolves r (f r)"
    and "requests db' = update_where p f (requests db)"
  shows "db_evolves db db'"
  unfolding db_evolves_def
proof (intro exI conjI)
  show "requests db' = update_where p f (requests db) @ []" using assms(3) by simp
  show "list_all2 row_evolves (requests db) (update_where p f (requests db))"
    using assms(1,2) unfolding update_where_def rows_ok_def
    by (auto simp: list_all2_conv_all_nth request_ok_def intro: row_evolves_refl)
qed simp

section \<open>Refinement of the operations\<close>

text \<open>Every row an operation rewrites makes one transition of its life.\<close>

lemmas evolve_simps = row_evolves_def same_identity_def request_ok_def coherent_def life_of_def

lemma row_issue:
  "req_state r \<in> {Queued, Checking} \<Longrightarrow> ticket_status r = None \<Longrightarrow> request_ok r \<Longrightarrow>
   row_evolves r (issued_row tgt ctrl fleet tick now expires r)"
  by (auto simp: evolve_simps issued_row_def intro: life_step.intros)

lemma row_claim:
  "req_state r = Queued \<Longrightarrow> \<not> dispatch_slot r \<Longrightarrow> request_ok r \<Longrightarrow>
   row_evolves r (r\<lparr>req_state := Checking, dispatch_slot := True, updated_at := now\<rparr>)"
  by (auto simp: evolve_simps life_ok_def intro: life_step.intros)

lemma row_dispatch:
  "req_state r = Ticket_issued \<Longrightarrow> ticket_status r = Some Issued \<Longrightarrow> request_ok r \<Longrightarrow>
   row_evolves r (r\<lparr>req_state := Dispatched, dispatched_at := Some now, updated_at := now\<rparr>)"
  by (auto simp: evolve_simps intro: life_step.intros)

lemma row_expire:
  "req_state r \<in> {Ticket_issued, Dispatched} \<Longrightarrow> ticket_status r = Some Issued \<Longrightarrow> request_ok r \<Longrightarrow>
   row_evolves r (r\<lparr>ticket_status := Some Expired, req_state := Confirmation_pending,
     error_code := Some c, dispatch_slot := False, updated_at := now\<rparr>)"
  by (auto simp: evolve_simps intro: life_step.intros)

lemma row_redeem:
  "req_state r \<in> {Ticket_issued, Dispatched} \<Longrightarrow> ticket_status r = Some Issued \<Longrightarrow> request_ok r \<Longrightarrow>
   row_evolves r (r\<lparr>ticket_status := Some Ticket_redeemed, req_state := Redeemed,
     direct_source := Some a, redeemed_at := Some now, observed_identity := Some b,
     registry_snapshot := Some c, updated_at := now, error_code := None\<rparr>)"
  by (auto simp: evolve_simps intro: life_step.intros)

lemma row_park:
  "req_state r \<in> set claim_states \<Longrightarrow> request_ok r \<Longrightarrow>
   row_evolves r (r\<lparr>req_state := Confirmation_pending, error_code := err, dispatch_slot := False,
     updated_at := now\<rparr>)"
  by (auto simp: evolve_simps intro: life_step.intros)

lemma row_adopt:
  assumes "terminal_columns st row = Inr (stored, err, ticket)"
    and "req_state row \<in> set claim_states" and "request_ok row"
  shows "row_evolves row (row\<lparr>req_state := stored, ticket_status := ticket, error_code := err,
    evidence := Some ev, dispatch_slot := False, updated_at := now\<rparr>)"
proof -
  consider "stored = Complete" "ticket = Some Ticket_redeemed"
      "ticket_status row = Some Ticket_redeemed"
    | "stored \<in> {Retryable, Needs_review}" "ticket = closed_ticket (ticket_status row)"
    using assms(1)
    by (fastforce simp: terminal_columns_def closed_ticket_def Let_def split: if_splits sum.splits)
  then show ?thesis
  proof cases
    case 1
    with assms(2,3) show ?thesis by (auto simp: evolve_simps intro: life_step.complete)
  next
    case 2
    have "life_step (life_of row) (stored, closed_ticket (ticket_status row), False)"
      unfolding life_of_def using assms(2) 2(1) by (rule life_step.abandon)
    with assms(3) 2 show ?thesis by (auto simp: evolve_simps closed_ticket_def)
  qed
qed

lemma row_fail:
  "req_state r \<in> {Queued, Checking, Hub_update_required, Updating_hub} \<Longrightarrow>
   no_claim_authority r \<Longrightarrow> tgt \<in> {Retryable, Needs_review, Hub_update_required} \<Longrightarrow> request_ok r \<Longrightarrow>
   row_evolves r (r\<lparr>req_state := tgt, error_code := err, dispatch_slot := False,
     updated_at := now\<rparr>)"
  unfolding no_claim_authority_def
  by (auto simp: evolve_simps intro: life_step.fail)

lemma row_preclaim_review:
  "preclaim_review r \<Longrightarrow> request_ok r \<Longrightarrow>
   row_evolves r (r\<lparr>req_state := Retryable, error_code := None, evidence := Some ev,
     updated_at := now\<rparr>)"
  by (auto simp: evolve_simps preclaim_review_def intro: life_step.intros)

lemma row_expired_review:
  "expired_review moment r \<Longrightarrow> request_ok r \<Longrightarrow>
   row_evolves r (r\<lparr>req_state := Retryable, error_code := None, ticket_status := Some Expired,
     evidence := Some ev, updated_at := moment\<rparr>)"
  by (auto simp: evolve_simps expired_review_def intro!: life_step.review_expired)

lemma row_evidence:
  "request_ok r \<Longrightarrow> row_evolves r (r\<lparr>evidence := Some ev, updated_at := now\<rparr>)"
  "request_ok r \<Longrightarrow> row_evolves r (r\<lparr>evidence := Some ev\<rparr>)"
  by (auto simp: evolve_simps)

lemma row_release:
  "dispatch_slot r \<Longrightarrow> req_state r = Checking \<Longrightarrow> ticket_status r = None \<Longrightarrow> request_ok r \<Longrightarrow>
   row_evolves r (r\<lparr>req_state := Queued, dispatch_slot := False, updated_at := now\<rparr>)"
  by (auto simp: evolve_simps intro: life_step.intros)

lemmas row_transitions = row_issue row_claim row_dispatch row_expire row_redeem row_park row_fail
  row_preclaim_review row_expired_review row_evidence row_release

end
