(* ===== verification/Repair_Safety.thy ===== *)
theory Repair_Safety
  imports Repair_Lifecycle
begin

text \<open>
  The invariant of the whole repair database - unique keys, one scheduling slot, one unresolved
  request per machine, well-formed rows, foreign keys and batch counters that are never stale -
  and its preservation by every operation, with the refinement of each operation to the life
  cycle of a request.
\<close>

definition states_of :: "string \<Rightarrow> repair_db \<Rightarrow> request_state list" where
  "states_of bid db = map req_state (filter (\<lambda>r. batch_id r = bid) (requests db))"

definition counters_ok :: "repair_db \<Rightarrow> bool" where
  \<comment> \<open>every stored summary is the one a refresh would compute now\<close>
  "counters_ok db \<longleftrightarrow>
     (\<forall>b\<in>set (batches db). refreshed_batch (states_of (b_id b) db) (b_updated_at b) b = b)"

definition foreign_keys_ok :: "repair_db \<Rightarrow> bool" where
  "foreign_keys_ok db \<longleftrightarrow>
     distinct (map b_id (batches db))
     \<and> (\<forall>r\<in>set (requests db). batch_id r \<in> set (map b_id (batches db)))"

definition db_ok :: "repair_db \<Rightarrow> bool" where
  "db_ok db \<longleftrightarrow> indexes_ok (requests db) \<and> rows_ok db \<and> foreign_keys_ok db \<and> counters_ok db"

lemma db_ok_empty: "db_ok empty_db"
  by (simp add: db_ok_def indexes_ok_def rows_ok_def foreign_keys_ok_def counters_ok_def
      empty_db_def count_where_def)

interpretation request_table: keyed_rows request_id .

interpretation batch_table: keyed_rows b_id .

lemma refreshed_batch_id [simp]: "b_id (refreshed_batch st now b) = b_id b"
  by (simp add: refreshed_batch_def Let_def)

lemma refreshed_batch_updated [simp]: "b_updated_at (refreshed_batch st now b) = now"
  by (simp add: refreshed_batch_def Let_def)

lemma refreshed_batch_idem [simp]:
  "refreshed_batch st now (refreshed_batch st now' b) = refreshed_batch st now b"
  by (simp add: refreshed_batch_def Let_def)

lemma states_of_refresh [simp]: "states_of bid (refresh_batch bid' now db) = states_of bid db"
  by (simp add: states_of_def)

lemma batches_refresh:
  "batches (refresh_batch bid now db)
     = update_where (\<lambda>b. b_id b = bid) (refreshed_batch (states_of bid db) now) (batches db)"
  by (simp add: refresh_batch_def states_of_def Let_def)

lemma batch_ids_refresh [simp]:
  "map b_id (batches (refresh_batch bid now db)) = map b_id (batches db)"
  unfolding batches_refresh by (rule batch_table.keys_update_where) simp

lemma set_batch_ids_refresh [simp]:
  "b_id ` set (batches (refresh_batch bid now db)) = b_id ` set (batches db)"
  by (metis batch_ids_refresh list.set_map)

lemma counters_refresh:
  assumes "counters_ok db" and "batches db' = batches db"
    and "\<And>bid'. bid' \<noteq> bid \<Longrightarrow> states_of bid' db' = states_of bid' db"
  shows "counters_ok (refresh_batch bid now db')"
  unfolding counters_ok_def
proof
  fix b assume "b \<in> set (batches (refresh_batch bid now db'))"
  then obtain b0 where b0: "b0 \<in> set (batches db)"
    "b = (if b_id b0 = bid then refreshed_batch (states_of bid db') now b0 else b0)"
    using assms(2) by (auto simp: batches_refresh set_update_where)
  show "refreshed_batch (states_of (b_id b) (refresh_batch bid now db')) (b_updated_at b) b = b"
    using b0 assms(1,3) by (auto simp: counters_ok_def)
qed

section \<open>The shape all single-row operations share\<close>

lemma states_of_update_other:
  assumes "\<And>r. r \<in> set rows \<Longrightarrow> p r \<Longrightarrow> batch_id r = bid \<and> batch_id (f r) = bid" and "bid' \<noteq> bid"
  shows "map req_state (filter (\<lambda>r. batch_id r = bid') (update_where p f rows))
       = map req_state (filter (\<lambda>r. batch_id r = bid') rows)"
  using assms unfolding update_where_def by (induction rows) auto

lemma foreign_keys_update:
  assumes "foreign_keys_ok db" and "batches db' = batches db"
    and "requests db' = update_where p f (requests db)"
    and "\<And>r. r \<in> set (requests db) \<Longrightarrow> p r \<Longrightarrow> batch_id (f r) = batch_id r"
  shows "foreign_keys_ok db'"
  using assms by (auto simp: foreign_keys_ok_def set_update_where)

lemma foreign_keys_refresh [simp]:
  "foreign_keys_ok (refresh_batch bid now db) = foreign_keys_ok db"
  by (simp add: foreign_keys_ok_def)

definition good_step :: "repair_db \<Rightarrow> repair_db \<Rightarrow> bool" where
  "good_step db db' \<longleftrightarrow> db_evolves db db' \<and> db_ok db'"

lemma good_step_refl: "db_ok db \<Longrightarrow> good_step db db"
  by (simp add: good_step_def db_ok_def db_evolves_refl)

lemma rows_ok_refresh [simp]: "rows_ok (refresh_batch bid now db) = rows_ok db"
  by (simp add: rows_ok_def)

lemma db_evolves_refresh [simp]:
  "db_evolves db (refresh_batch bid now db') = db_evolves db db'"
  by (simp add: db_evolves_def)

lemma one_row_update:
  assumes ok: "db_ok db" and upd: "update_one p f code db = Inr db1"
    and row: "row \<in> set (requests db)" and key: "\<And>r. p r \<Longrightarrow> request_id r = request_id row"
    and evolves: "p row \<Longrightarrow> request_ok row \<Longrightarrow> row_evolves row (f row)"
  shows "good_step db (refresh_batch (batch_id row) now db1)"
proof -
  have db1: "db1 = db\<lparr>requests := update_where p f (requests db)\<rparr>"
    and idx: "indexes_ok (requests db1)"
    using update_one_Inr [OF upd] by auto
  have only: "r = row" if "r \<in> set (requests db)" "p r" for r
    using request_table.unique_row [of "requests db" r row] ok row key [OF that(2)] that(1)
    by (simp add: db_ok_def indexes_ok_def)
  have step: "row_evolves r (f r)" if "r \<in> set (requests db)" "p r" for r
    using only [OF that] evolves that ok by (auto simp: db_ok_def rows_ok_def)
  have bid: "batch_id r = batch_id row \<and> batch_id (f r) = batch_id row"
    if "r \<in> set (requests db)" "p r" for r
    using step [OF that] only [OF that] by (simp add: row_evolves_def same_identity_def)
  have ev: "db_evolves db db1"
    by (rule update_where_evolves [where p = p and f = f]) (use ok step db1 in \<open>auto simp: db_ok_def\<close>)
  have "foreign_keys_ok db1"
    by (rule foreign_keys_update [where db = db and p = p and f = f])
      (use ok db1 bid in \<open>auto simp: db_ok_def\<close>)
  moreover have "counters_ok (refresh_batch (batch_id row) now db1)"
  proof (rule counters_refresh [where db = db])
    show "states_of bid' db1 = states_of bid' db" if "bid' \<noteq> batch_id row" for bid'
      unfolding states_of_def db1 using states_of_update_other [OF bid that] by simp
  qed (use ok db1 in \<open>auto simp: db_ok_def\<close>)
  ultimately show ?thesis
    using ok ev idx db_evolves_rows_ok [OF ev] by (simp add: good_step_def db_ok_def)
qed

lemma good_transaction:
  "db_ok db \<Longrightarrow> (\<And>x db'. r = Inr (x, db') \<Longrightarrow> good_step db db') \<Longrightarrow>
     good_step db (snd (transaction db r))"
  by (auto simp: transaction_def good_step_refl split: sum.splits)

lemma found_row:
  "find_request rid db = Some row \<Longrightarrow> row \<in> set (requests db)"
  "find_request rid db = Some row \<Longrightarrow> request_id row = rid"
  by (auto dest: find_request_Some)

section \<open>Every operation\<close>

lemma issue_ticket_good:
  assumes ok: "db_ok db"
  shows "good_step db (snd (issue_ticket now rid tgt ctrl fd td ex db))"
  unfolding issue_ticket_def
proof (rule good_transaction [OF ok], goal_cases)
  case (1 x db')
  let ?p = "\<lambda>r. request_id r = rid \<and> target_machine r = ti_machine tgt
                 \<and> req_state r \<in> {Queued, Checking} \<and> ticket_status r = None"
  let ?f = "issued_row tgt ctrl fd td now ex"
  from 1 obtain db1 row' where upd: "update_one ?p ?f ''request_not_issuable'' db = Inr db1"
    and row': "find_request rid db1 = Some row'"
    and db': "db' = refresh_batch (batch_id row') now db1"
    by (auto simp: require_digest_def split: sum.splits option.splits if_splits)
  have f: "\<And>r. ?p r \<Longrightarrow> request_ok r \<Longrightarrow> row_evolves r (?f r)"
    by (rule row_issue) auto
  obtain row where row: "row \<in> set (requests db)" "?p row"
    using update_one_Inr [OF upd] count_where_0 [of ?p "requests db"] by force
  have db1: "requests db1 = update_where ?p ?f (requests db)" and idx: "indexes_ok (requests db1)"
    using update_one_Inr [OF upd] by auto
  have "?f row \<in> set (requests db1)" unfolding db1 using row by (force simp: set_update_where)
  moreover have "request_id (?f row) = request_id row'"
    using row(2) found_row(2) [OF row'] by (simp add: issued_row_def)
  ultimately have "row' = ?f row"
    using request_table.unique_row [of "requests db1" row' "?f row"] found_row(1) [OF row'] idx
    by (simp add: indexes_ok_def)
  then have "batch_id row' = batch_id row"
    by (simp add: issued_row_def)
  then show ?case
    unfolding db' using one_row_update [OF ok upd row(1)] row(2) f by auto
qed

lemma mark_dispatched_good:
  assumes ok: "db_ok db"
  shows "good_step db (snd (mark_dispatched now rid db))"
  unfolding mark_dispatched_def
  by (rule good_transaction [OF ok])
    (auto split: option.splits if_splits sum.splits dest!: find_request_Some
      intro!: good_step_refl [OF ok] one_row_update [OF ok] row_dispatch)

lemma park_good:
  assumes ok: "db_ok db"
  shows "good_step db (snd (park now rid code db))"
  unfolding park_def
  by (rule good_transaction [OF ok])
    (auto split: option.splits if_splits sum.splits dest!: find_request_Some
      intro!: one_row_update [OF ok] row_park)

lemma fail_before_claim_good:
  assumes ok: "db_ok db"
  shows "good_step db (snd (fail_before_claim now rid tgt code db))"
  unfolding fail_before_claim_def
  by (rule good_transaction [OF ok])
    (auto split: option.splits if_splits sum.splits dest!: find_request_Some
      intro!: one_row_update [OF ok] row_fail)

lemma resolve_preclaim_review_good:
  assumes ok: "db_ok db"
  shows "good_step db (snd (resolve_preclaim_review flen now rid code db))"
  unfolding resolve_preclaim_review_def
  by (rule good_transaction [OF ok])
    (auto split: option.splits if_splits sum.splits dest!: find_request_Some
      intro!: one_row_update [OF ok] row_preclaim_review)

lemma resolve_expired_good:
  assumes ok: "db_ok db"
  shows "good_step db (snd (resolve_expired_unredeemed_review flen now rid db))"
  unfolding resolve_expired_unredeemed_review_def
  by (rule good_transaction [OF ok])
    (auto split: option.splits if_splits sum.splits dest!: find_request_Some
      intro!: one_row_update [OF ok] row_expired_review)

lemma flag_registry_changed_good:
  assumes ok: "db_ok db"
  shows "good_step db (snd (flag_registry_changed flen now rid code db))"
  unfolding flag_registry_changed_def
  by (rule good_transaction [OF ok])
    (auto split: option.splits if_splits sum.splits dest!: find_request_Some
      intro!: one_row_update [OF ok] row_evidence)

lemma adopt_row_good:
  assumes ok: "db_ok db" and row: "row \<in> set (requests db)" "req_state row \<in> set claim_states"
    and res: "adopt_row flen now st row db = Inr (v, db')"
  shows "good_step db db'"
  using res unfolding adopt_row_def
  by (auto split: sum.splits option.splits simp: Let_def
      intro!: one_row_update [OF ok _ row(1)] row_adopt [OF _ row(2)])

lemma adopt_status_good:
  assumes ok: "db_ok db"
  shows "good_step db (snd (adopt_status flen now rid st source db))"
  unfolding adopt_status_def
  by (rule good_transaction [OF ok])
    (auto split: option.splits if_splits dest: find_request_Some
      intro: adopt_row_good [OF ok] good_step_refl [OF ok])

lemma dispatch_queue_row:
  "row \<in> set (dispatch_queue db) \<longleftrightarrow>
     row \<in> set (requests db) \<and> req_state row = Queued \<and> \<not> dispatch_slot row
     \<and> batch_id row \<in> set (map b_id (batches db))"
  by (auto simp: dispatch_queue_def)

lemma claim_next_dispatch_good:
  assumes ok: "db_ok db"
  shows "good_step db (snd (claim_next_dispatch now db))"
proof (cases "dispatch_queue db")
  case Nil
  then show ?thesis by (simp add: claim_next_dispatch_def good_step_refl [OF ok])
next
  case (Cons row rest)
  then have "row \<in> set (dispatch_queue db)" by simp
  then have row: "row \<in> set (requests db)" "req_state row = Queued" "\<not> dispatch_slot row"
    by (auto simp: dispatch_queue_row)
  show ?thesis
    unfolding claim_next_dispatch_def using Cons row
    by (auto simp: Let_def good_step_refl [OF ok] split: sum.splits repair_error.splits
        intro!: one_row_update [OF ok _ row(1)] row_claim)
qed

lemma expire_ticket_good:
  assumes ok: "db_ok db" and row: "row \<in> set (requests db)"
    "req_state row \<in> {Ticket_issued, Dispatched}" and res: "expire_ticket now row db = Inr db'"
  shows "good_step db db'"
  using res row(2) unfolding expire_ticket_def
  by (auto split: sum.splits intro!: one_row_update [OF ok _ row(1)] row_expire)

lemma consume_ticket_good:
  assumes ok: "db_ok db" and row: "row \<in> set (requests db)"
    and res: "consume_ticket now d obs snap row db = Inr db'"
  shows "good_step db db'"
  using res unfolding consume_ticket_def
  by (auto split: sum.splits intro!: one_row_update [OF ok _ row(1)] row_redeem)

lemma redeem_good:
  assumes ok: "db_ok db"
  shows "good_step db (snd (redeem sha256 flen now rid d db))"
  unfolding redeem_def redeem_row_def
  by (auto split: sum.splits option.splits simp: good_step_refl [OF ok] dest!: find_request_Some
      intro: expire_ticket_good [OF ok] consume_ticket_good [OF ok])

lemma recover_row_good:
  assumes ok: "db_ok db" and row: "row \<in> set (requests db)"
    and res: "recover_row now row db = Inr db'"
  shows "good_step db db'"
  using res unfolding recover_row_def Let_def
  by (auto split: sum.splits if_splits simp: claim_states_def
      intro!: one_row_update [OF ok _ row] row_park row_release)

lemma at_most_one:
  "count_where p xs \<le> 1 \<Longrightarrow> filter p xs = [] \<or> (\<exists>x. filter p xs = [x])"
  unfolding count_where_def by (cases "filter p xs") (auto simp: le_Suc_eq)

lemma slot_rows:
  assumes "db_ok db"
  obtains "filter dispatch_slot (requests db) = []"
    | row where "filter dispatch_slot (requests db) = [row]" "row \<in> set (requests db)"
        "dispatch_slot row"
proof -
  have "count_where dispatch_slot (requests db) \<le> 1"
    using assms by (simp add: db_ok_def indexes_ok_def)
  then consider "filter dispatch_slot (requests db) = []"
    | row where "filter dispatch_slot (requests db) = [row]"
    using at_most_one by blast
  then show thesis
  proof cases
    case 1
    then show thesis by (rule that(1))
  next
    case (2 row)
    then have "row \<in> {r \<in> set (requests db). dispatch_slot r}"
      by (metis list.set_intros(1) set_filter)
    with 2 show thesis by (intro that(2)) auto
  qed
qed

lemma recover_good:
  assumes ok: "db_ok db"
  shows "good_step db (snd (recover_scheduling_slot now db))"
  unfolding recover_scheduling_slot_def
proof (rule good_transaction [OF ok])
  fix n db' assume res: "recover_rows now (filter dispatch_slot (requests db)) 0 db = Inr (n, db')"
  from ok show "good_step db db'"
  proof (cases rule: slot_rows)
    case 1
    with res ok show ?thesis by (simp add: good_step_refl)
  next
    case (2 row)
    with res show ?thesis by (auto split: sum.splits intro: recover_row_good [OF ok])
  qed
qed

lemma evidence_update_columns:
  fixes rows :: "request_row list" and rid :: string and ev :: json
  defines "rows' \<equiv> update_where (\<lambda>r. request_id r = rid) (\<lambda>r. r\<lparr>evidence := Some ev\<rparr>) rows"
  shows "map request_id rows' = map request_id rows"
    and "map (\<lambda>r. (batch_id r, ordinal r)) rows' = map (\<lambda>r. (batch_id r, ordinal r)) rows"
    and "map target_machine (filter (\<lambda>r. unresolved (req_state r)) rows')
       = map target_machine (filter (\<lambda>r. unresolved (req_state r)) rows)"
    and "count_where dispatch_slot rows' = count_where dispatch_slot rows"
    and "map req_state (filter (\<lambda>r. batch_id r = bid) rows')
       = map req_state (filter (\<lambda>r. batch_id r = bid) rows)"
  unfolding rows'_def update_where_def count_where_def by (induction rows) auto

lemma evidence_update_good:
  assumes ok: "db_ok db"
  shows "good_step db (db\<lparr>requests :=
    update_where (\<lambda>r. request_id r = rid) (\<lambda>r. r\<lparr>evidence := Some ev\<rparr>) (requests db)\<rparr>)"
    (is "good_step db ?db'")
proof -
  have states: "states_of bid ?db' = states_of bid db" for bid
    by (simp add: states_of_def evidence_update_columns)
  have ev: "db_evolves db ?db'"
    by (rule update_where_evolves [where p = "\<lambda>r. request_id r = rid"
          and f = "\<lambda>r. r\<lparr>evidence := Some ev\<rparr>"])
      (use ok in \<open>auto simp: db_ok_def intro: row_evidence\<close>)
  have "foreign_keys_ok ?db'"
    by (rule foreign_keys_update [where db = db and p = "\<lambda>r. request_id r = rid"
          and f = "\<lambda>r. r\<lparr>evidence := Some ev\<rparr>"]) (use ok in \<open>auto simp: db_ok_def\<close>)
  with ok ev states db_evolves_rows_ok [OF ev] show ?thesis
    by (simp add: good_step_def db_ok_def indexes_ok_def counters_ok_def evidence_update_columns)
qed

lemma record_refusal_good:
  assumes ok: "db_ok db"
  shows "good_step db (snd (record_redemption_refusal flen now rid code st src m db))"
  unfolding record_redemption_refusal_def
  by (rule good_transaction [OF ok])
    (auto split: option.splits sum.splits intro: evidence_update_good [OF ok])

section \<open>Creating batches\<close>

lemma refreshed_fresh_batch:
  "refreshed_batch (map (\<lambda>_. Queued) ms) now (fresh_batch bid ms now) = fresh_batch bid ms now"
  by (simp add: refreshed_batch_def fresh_batch_def batch_state_of_def count_state_def
      count_where_def pending_states_def Let_def filter_empty_conv list_all_iff filter_id_conv)

lemma fresh_rows_states:
  "map req_state (filter (\<lambda>r. batch_id r = bid)
     (map (\<lambda>(n, m). fresh_request (rids n) bid n m now) (enumerate k ms))) = map (\<lambda>_. Queued) ms"
  by (induction ms arbitrary: k) (auto simp: fresh_request_def)

lemma fresh_rows_other:
  "bid' \<noteq> bid \<Longrightarrow> filter (\<lambda>r. batch_id r = bid')
     (map (\<lambda>(n, m). fresh_request (rids n) bid n m now) (enumerate k ms)) = []"
  by (auto simp: filter_empty_conv fresh_request_def)

lemma insert_batch_good:
  assumes ok: "db_ok db" and res: "insert_batch bid rids now ms existing db = Inr db'"
  shows "good_step db db'"
proof -
  let ?new = "map (\<lambda>(n, m). fresh_request (rids n) bid n m now) (enumerate 0 ms)"
  from res have rq: "requests db' = requests db @ ?new"
    and bs: "batches db' = batches db @ [fresh_batch bid ms now]"
    and fresh: "bid \<notin> set (map b_id (batches db))" and idx: "indexes_ok (requests db')"
    by (auto simp: insert_batch_def Let_def split: if_splits)
  have none: "filter (\<lambda>r. batch_id r = bid) (requests db) = []"
    using ok fresh by (auto simp: db_ok_def foreign_keys_ok_def filter_empty_conv)
  have ev: "db_evolves db db'"
    unfolding db_evolves_def rq using ok
    by (intro exI [of _ "requests db"] exI [of _ ?new])
      (auto simp: list_all_iff db_ok_def rows_ok_def request_ok_def
        intro!: list.rel_refl_strong row_evolves_refl new_row_fresh_request)
  have mine: "states_of bid db' = map (\<lambda>_. Queued) ms"
    using none by (simp add: states_of_def rq fresh_rows_states)
  have other: "states_of bid' db' = states_of bid' db" if "bid' \<noteq> bid" for bid'
    using fresh_rows_other [OF that] by (simp add: states_of_def rq)
  have "counters_ok db'"
    unfolding counters_ok_def
  proof
    fix b assume "b \<in> set (batches db')"
    then consider "b = fresh_batch bid ms now" | "b \<in> set (batches db)" by (auto simp: bs)
    then show "refreshed_batch (states_of (b_id b) db') (b_updated_at b) b = b"
    proof cases
      case 1
      then show ?thesis using mine refreshed_fresh_batch [of ms now bid] by (simp add: fresh_batch_def)
    next
      case 2
      with fresh have "b_id b \<noteq> bid" by auto
      with 2 ok show ?thesis by (simp add: other db_ok_def counters_ok_def)
    qed
  qed
  moreover have "foreign_keys_ok db'"
    using ok fresh by (auto simp: db_ok_def foreign_keys_ok_def rq bs fresh_batch_def fresh_request_def)
  ultimately show ?thesis
    using ok idx ev db_evolves_rows_ok [OF ev] by (simp add: good_step_def db_ok_def)
qed

lemma create_or_adopt_batch_good:
  assumes ok: "db_ok db"
  shows "good_step db (snd (create_or_adopt_batch order bid rids now machines db))"
  unfolding create_or_adopt_batch_def
  by (auto simp: Let_def good_step_refl [OF ok] split: sum.splits intro: insert_batch_good [OF ok])

end
