(* ===== verification/Repair_Properties.thy ===== *)
theory Repair_Properties
  imports Repair_Safety
begin

text \<open>
  The repair store as a machine: its state-changing operations as a datatype, runs as folds, and
  the properties of the store.
\<close>

datatype repair_op =
    Op_create "string list \<Rightarrow> string list" string "nat \<Rightarrow> string" time "string list"
  | Op_refusal time string string int "string option" "string option"
  | Op_issue time string target_identity controller_identity string string time
  | Op_claim time
  | Op_dispatched time string
  | Op_redeem time string redemption
  | Op_park time string string
  | Op_adopt time string status_report string
  | Op_fail time string request_state string
  | Op_resolve_preclaim time string string
  | Op_resolve_expired time string
  | Op_flag time string string
  | Op_recover time

fun repair_step ::
    "(string \<Rightarrow> string) \<Rightarrow> (rat \<Rightarrow> nat) \<Rightarrow> repair_op \<Rightarrow> repair_db \<Rightarrow> repair_db" where
  "repair_step sha256 flen (Op_create order bid rids now ms) db =
     snd (create_or_adopt_batch order bid rids now ms db)"
| "repair_step sha256 flen (Op_refusal now rid code st src m) db =
     snd (record_redemption_refusal flen now rid code st src m db)"
| "repair_step sha256 flen (Op_issue now rid tgt ctrl fd td ex) db =
     snd (issue_ticket now rid tgt ctrl fd td ex db)"
| "repair_step sha256 flen (Op_claim now) db = snd (claim_next_dispatch now db)"
| "repair_step sha256 flen (Op_dispatched now rid) db = snd (mark_dispatched now rid db)"
| "repair_step sha256 flen (Op_redeem now rid d) db = snd (redeem sha256 flen now rid d db)"
| "repair_step sha256 flen (Op_park now rid code) db = snd (park now rid code db)"
| "repair_step sha256 flen (Op_adopt now rid st src) db = snd (adopt_status flen now rid st src db)"
| "repair_step sha256 flen (Op_fail now rid s code) db = snd (fail_before_claim now rid s code db)"
| "repair_step sha256 flen (Op_resolve_preclaim now rid code) db =
     snd (resolve_preclaim_review flen now rid code db)"
| "repair_step sha256 flen (Op_resolve_expired now rid) db =
     snd (resolve_expired_unredeemed_review flen now rid db)"
| "repair_step sha256 flen (Op_flag now rid code) db = snd (flag_registry_changed flen now rid code db)"
| "repair_step sha256 flen (Op_recover now) db = snd (recover_scheduling_slot now db)"

lemmas operations_good = create_or_adopt_batch_good record_refusal_good issue_ticket_good
  claim_next_dispatch_good mark_dispatched_good redeem_good park_good adopt_status_good
  fail_before_claim_good resolve_preclaim_review_good resolve_expired_good
  flag_registry_changed_good recover_good

lemma repair_step_good: "db_ok db \<Longrightarrow> good_step db (repair_step sha256 flen e db)"
  by (cases e) (simp_all add: operations_good)

interpretation repair: invariant_machine "repair_step sha256 flen" db_ok empty_db for sha256 flen
  by unfold_locales (use repair_step_good in \<open>auto simp: good_step_def db_ok_empty\<close>)

text \<open>A column of one request that every step of a life keeps, kept by runs.\<close>

definition keeps_life :: "(life \<Rightarrow> bool) \<Rightarrow> bool" where
  "keeps_life Q \<longleftrightarrow> (\<forall>l l'. life_step l l' \<longrightarrow> Q l \<longrightarrow> Q l')"

definition has_request :: "string \<Rightarrow> (life \<Rightarrow> bool) \<Rightarrow> repair_db \<Rightarrow> bool" where
  "has_request rid Q db \<longleftrightarrow>
     db_ok db \<and> (\<exists>r\<in>set (requests db). request_id r = rid \<and> Q (life_of r))"

lemma has_request_step:
  assumes Q: "keeps_life Q" and has: "has_request rid Q db"
  shows "has_request rid Q (repair_step sha256 flen e db)"
proof -
  obtain r where r: "r \<in> set (requests db)" "request_id r = rid" "Q (life_of r)" and ok: "db_ok db"
    using has by (auto simp: has_request_def)
  have good: "good_step db (repair_step sha256 flen e db)" by (rule repair_step_good [OF ok])
  then obtain r' where "r' \<in> set (requests (repair_step sha256 flen e db))" "row_evolves r r'"
    unfolding good_step_def using r(1) by (blast elim: db_evolves_row)
  moreover from this have "Q (life_of r')"
    using Q r(3) unfolding row_evolves_def keeps_life_def by metis
  ultimately show ?thesis
    using good r(2) by (auto simp: has_request_def good_step_def row_evolves_def same_identity_def)
qed

lemma keeps_redeemed: "keeps_life (\<lambda>l. fst (snd l) = Some Ticket_redeemed)"
  unfolding keeps_life_def using life_step_redeemed by blast

lemma keeps_complete: "keeps_life (\<lambda>l. fst l = Complete)"
  unfolding keeps_life_def using life_step_complete by blast

interpretation redeemed_forever:
  kept_by_steps "repair_step sha256 flen"
    "has_request rid (\<lambda>l. fst (snd l) = Some Ticket_redeemed)" for sha256 flen rid
  by unfold_locales (rule has_request_step [OF keeps_redeemed])

interpretation complete_forever:
  kept_by_steps "repair_step sha256 flen" "has_request rid (\<lambda>l. fst l = Complete)" for sha256 flen rid
  by unfold_locales (rule has_request_step [OF keeps_complete])

section \<open>Reading one row\<close>

lemma find_request_unique:
  assumes "db_ok db" and "r \<in> set (requests db)"
  shows "find_request (request_id r) db = Some r"
  unfolding find_request_def
  by (rule request_table.find_row_unique) (use assms in \<open>auto simp: db_ok_def indexes_ok_def\<close>)

lemma redeemed_not_redeemable:
  assumes "has_request rid (\<lambda>l. fst (snd l) = Some Ticket_redeemed) db"
  shows "\<exists>e. fst (redeem sha256 flen now rid d db) = Inl e"
proof -
  obtain r where "find_request rid db = Some r" "ticket_status r = Some Ticket_redeemed"
    using assms find_request_unique by (auto simp: has_request_def life_of_def)
  then show ?thesis by (auto simp: redeem_def redeem_row_def split: sum.splits)
qed

lemma redeem_Inr:
  assumes "redeem sha256 flen now rid d db = (Inr c, db')"
  obtains row observed snapshot db1 expiry where "find_request rid db = Some row"
    "ticket_status row = Some Issued" "req_state row \<in> {Ticket_issued, Dispatched}"
    "redemption_expires_at row = Some expiry" "rd_expires_at d = expiry" "now < expiry"
    "binding_error sha256 d (rd_fleet_digest d) row db = None"
    "consume_ticket now d observed snapshot row db = Inr db'" "c = claim_of rid d"
  using assms
  by (auto simp: redeem_def redeem_row_def require_digest_def not_le
      dest!: find_request_Some(1)
      split: sum.splits option.splits if_splits)

lemma consume_ticket_redeems:
  assumes "db_ok db" and "row \<in> set (requests db)" and "ticket_status row = Some Issued"
    and "req_state row \<in> {Ticket_issued, Dispatched}"
    and "consume_ticket now d obs snap row db = Inr db'"
  shows "has_request (request_id row) (\<lambda>l. fst (snd l) = Some Ticket_redeemed) db'"
proof -
  have "db_ok db'" using consume_ticket_good [OF assms(1,2,5)] by (simp add: good_step_def)
  moreover obtain p f db1 where upd: "update_one p f ''ticket_replayed'' db = Inr db1"
    and "requests db' = requests db1" and "p row"
    and "request_id (f row) = request_id row" and "ticket_status (f row) = Some Ticket_redeemed"
    using assms(3-5) unfolding consume_ticket_def by (auto split: sum.splits)
  then have "f row \<in> set (requests db')"
    using update_one_Inr [OF upd] assms(2) by (force simp: set_update_where)
  ultimately show ?thesis
    using \<open>request_id (f row) = request_id row\<close> \<open>ticket_status (f row) = Some Ticket_redeemed\<close>
    by (auto simp: has_request_def life_of_def)
qed

section \<open>A concrete store\<close>

text \<open>One machine whose repair was created, claimed, ticketed and dispatched; used by the witnesses.\<close>

definition demo_sha :: "string \<Rightarrow> string" where
  "demo_sha s = replicate 64 CHR ''b''"

definition demo_flen :: "rat \<Rightarrow> nat" where
  "demo_flen r = 3"

definition demo_target :: target_identity where
  "demo_target = \<lparr>ti_machine = ''mac'', ti_registry_host = ''host'', ti_resolved_address = ''addr'',
     ti_controller_url = ''url''\<rparr>"

definition demo_controller :: controller_identity where
  "demo_controller = \<lparr>ci_role = ''controller'', ci_site_id = ''site'', ci_site_name = ''Site'',
     ci_controller_id = ''ctrl''\<rparr>"

definition demo_redemption :: redemption where
  "demo_redemption = \<lparr>rd_ticket = ''t'', rd_expires_at = 100, rd_target_machine = ''mac'',
     rd_direct_source = ''addr'', rd_observed = [], rd_snapshot = demo_target,
     rd_controller = demo_controller, rd_fleet_digest = replicate 64 CHR ''a''\<rparr>"

definition demo_report :: status_report where
  "demo_report = \<lparr>st_state = ''complete'', st_request_id = ''r0'', st_error_code = None,
     st_identity = JObj [(''role'', JStr ''agent''), (''site_id'', JStr ''site''),
       (''site_name'', JStr ''Site''), (''controller_id'', JStr ''mac'')],
     st_conflict = JNull, st_callback_error = JNull\<rparr>"

definition demo_issued_ops :: "repair_op list" where
  "demo_issued_ops =
     [Op_create (\<lambda>xs. xs) ''b0'' (\<lambda>n. ''r0'') 1 [''mac''], Op_claim 2,
      Op_issue 3 ''r0'' demo_target demo_controller (replicate 64 CHR ''a'')
        (replicate 64 CHR ''b'') 100,
      Op_dispatched 4 ''r0'']"

definition demo_db :: repair_db where
  "demo_db = fold (repair_step demo_sha demo_flen) demo_issued_ops empty_db"

lemma demo_db_ok: "db_ok demo_db"
  unfolding demo_db_def by (rule repair.reachable_holds)

lemma demo_redeem: "fst (redeem demo_sha demo_flen 5 ''r0'' demo_redemption demo_db)
    = Inr (claim_of ''r0'' demo_redemption)"
  by code_simp

end
