(* ===== verification/Repair_Theorems.thy ===== *)
theory Repair_Theorems
  imports Repair_Properties
begin

text \<open>
  The properties of the repair store: invariant and refinement over all runs, soundness and
  single use of a redemption, totality of slot recovery, work conservation of the dispatcher,
  exact batch counters, bounded refusal evidence and idempotent adoption of a terminal status.
\<close>

text \<open>C3: Every database the store can reach from an empty one satisfies the store invariant: primary keys unique, at most one scheduling slot, at most one unresolved request per machine, ticket columns that agree with the ticket status, foreign keys, and batch counters that are never stale.\<close>

theorem repair_runs_ok:
  "db_ok (fold (repair_step sha256 flen) ops empty_db)"
  by (rule repair.reachable_holds)

text \<open>C4: In every reachable database each operation refines the abstract life cycle of a request: every stored row is kept or makes one transition of that relation, keeping its identity, and every added row is a fresh queued request.\<close>

theorem repair_refines_lifecycle:
  "db_evolves (fold (repair_step sha256 flen) ops empty_db)
     (repair_step sha256 flen e (fold (repair_step sha256 flen) ops empty_db))"
  using repair_step_good [OF repair.reachable_holds] by (simp add: good_step_def)

text \<open>C2: A redemption succeeds only for a stored request whose ticket is issued and unexpired, whose digests, target and controller snapshot are exactly those presented; the claim returned is the one bound to that request.\<close>

theorem redeem_sound:
  assumes "fst (redeem sha256 flen now rid d db) = Inr c"
  shows "\<exists>row expiry. find_request rid db = Some row \<and> ticket_status row = Some Issued
     \<and> redemption_expires_at row = Some expiry \<and> rd_expires_at d = expiry \<and> now < expiry
     \<and> str_or_empty (ticket_digest row) = sha256 (rd_ticket d)
     \<and> str_or_empty (fleet_token_digest row) = rd_fleet_digest d
     \<and> exact_target row d \<and> exact_controller row d \<and> c = claim_of rid d"
proof -
  obtain db' where "redeem sha256 flen now rid d db = (Inr c, db')"
    using assms by (metis prod.collapse)
  then show ?thesis
    by (rule redeem_Inr) (auto simp: binding_error_def split: if_splits)
qed

text \<open>C1: After a redemption succeeded, no later redemption of the same request succeeds, whatever operations run in between.\<close>

theorem redeem_at_most_once:
  assumes ok: "db_ok db" and first: "fst (redeem sha256 flen now rid d db) = Inr c"
  shows "\<exists>e. fst (redeem sha256 flen now' rid d'
     (fold (repair_step sha256 flen) ops (snd (redeem sha256 flen now rid d db)))) = Inl e"
proof -
  let ?db' = "snd (redeem sha256 flen now rid d db)"
  have "redeem sha256 flen now rid d db = (Inr c, ?db')" using first by (metis prod.collapse)
  then have "has_request rid (\<lambda>l. fst (snd l) = Some Ticket_redeemed) ?db'"
  proof (rule redeem_Inr)
    fix row observed snapshot expiry
    assume found: "find_request rid db = Some row" and status: "ticket_status row = Some Issued"
      "req_state row \<in> {Ticket_issued, Dispatched}"
      and consume: "consume_ticket now d observed snapshot row db = Inr ?db'"
    show ?thesis
      using consume_ticket_redeems [OF ok found_row(1) [OF found] status consume]
      unfolding found_row(2) [OF found] .
  qed
  then show ?thesis by (intro redeemed_not_redeemable redeemed_forever.run_keeps)
qed

lemma filter_update_where_same:
  assumes "\<And>r. r \<in> set rows \<Longrightarrow> p r \<Longrightarrow> unresolved (req_state (f r)) = unresolved (req_state r)
      \<and> target_machine (f r) = target_machine r"
  shows "map target_machine (filter (\<lambda>r. unresolved (req_state r)) (update_where p f rows))
       = map target_machine (filter (\<lambda>r. unresolved (req_state r)) rows)"
  using assms unfolding update_where_def by (induction rows) auto

lemma slots_after_claiming:
  assumes "count_where dispatch_slot rows = 0" and "distinct (map request_id rows)"
    and "\<And>r. p r \<Longrightarrow> request_id r = k"
  shows "count_where dispatch_slot (update_where p f rows) \<le> 1"
proof -
  have "count_where dispatch_slot (update_where p f rows)
      \<le> count_where (\<lambda>r. request_id r = k \<and> True) rows"
    using assms(1,3) unfolding count_where_def update_where_def
    by (induction rows) (auto split: if_splits)
  also have "\<dots> \<le> 1" by (rule request_table.count_where_key_le [OF assms(2)])
  finally show ?thesis .
qed

lemma slots_after_release:
  "(\<And>r. p r \<Longrightarrow> \<not> dispatch_slot (f r)) \<Longrightarrow>
     count_where dispatch_slot (update_where p f rows) \<le> count_where dispatch_slot rows"
  unfolding count_where_def update_where_def by (induction rows) auto


lemma update_one_succeeds:
  assumes ok: "db_ok db" and row: "row \<in> set (requests db)" "p row"
    and key: "\<And>r. p r \<Longrightarrow> request_id r = request_id row"
    and same: "\<And>r. p r \<Longrightarrow> same_identity r (f r)
        \<and> unresolved (req_state (f r)) = unresolved (req_state r)"
    and slots: "count_where dispatch_slot (update_where p f (requests db)) \<le> 1"
  shows "update_one p f code db = Inr (db\<lparr>requests := update_where p f (requests db)\<rparr>)"
proof -
  have idx: "indexes_ok (requests db)" using ok by (simp add: db_ok_def)
  have "map request_id (update_where p f (requests db)) = map request_id (requests db)"
    by (rule request_table.keys_update_where) (use same in \<open>simp add: same_identity_def\<close>)
  moreover have "map (\<lambda>r. (batch_id r, ordinal r)) (update_where p f (requests db))
      = map (\<lambda>r. (batch_id r, ordinal r)) (requests db)"
    by (rule keyed_rows.keys_update_where) (use same in \<open>simp add: same_identity_def\<close>)
  moreover have "map target_machine
        (filter (\<lambda>r. unresolved (req_state r)) (update_where p f (requests db)))
      = map target_machine (filter (\<lambda>r. unresolved (req_state r)) (requests db))"
    by (rule filter_update_where_same) (use same in \<open>simp add: same_identity_def\<close>)
  ultimately have "indexes_ok (update_where p f (requests db))"
    using idx slots by (simp add: indexes_ok_def)
  moreover have "count_where p (requests db) = 1"
  proof -
    have "p = (\<lambda>r. request_id r = request_id row \<and> p r)" using key by auto
    moreover have "count_where (\<lambda>r. request_id r = request_id row \<and> p r) (requests db) = 1"
      by (rule request_table.count_where_key_one [where q = p, OF _ row])
        (use idx in \<open>simp add: indexes_ok_def\<close>)
    ultimately show ?thesis by metis
  qed
  ultimately show ?thesis by (simp add: update_one_def Let_def)
qed

lemma recover_row_succeeds:
  assumes ok: "db_ok db" and row: "row \<in> set (requests db)" "dispatch_slot row"
    and only: "filter dispatch_slot (requests db) = [row]"
  shows "\<exists>db'. recover_row now row db = Inr db' \<and> \<not> list_ex dispatch_slot (requests db')"
proof -
  have life: "req_state row \<in> {Checking, Ticket_issued, Dispatched, Redeemed}"
    "req_state row = Checking \<Longrightarrow> ticket_status row = None"
    using ok row by (auto simp: db_ok_def rows_ok_def request_ok_def life_ok_def life_of_def)
  have one: "count_where dispatch_slot (requests db) \<le> 1"
    using ok by (simp add: db_ok_def indexes_ok_def)
  have slotrow: "r = row" if "r \<in> set (requests db)" "dispatch_slot r" for r
    using only that by (metis (mono_tags, lifting) empty_iff insert_iff list.set(1) list.set(2)
        mem_Collect_eq set_filter)
  have free: "\<not> list_ex dispatch_slot (update_where p f (requests db))"
    if "p row" "\<And>r. \<not> dispatch_slot (f r)" for p f
    using that slotrow by (auto simp: list_ex_iff set_update_where split: if_splits) metis
  have slots: "count_where dispatch_slot (update_where p f (requests db)) \<le> 1"
    if "\<And>r. \<not> dispatch_slot (f r)" for p f
    using slots_after_release [of p f "requests db"] that one by simp
  have upd: "update_one p f code db = Inr (db\<lparr>requests := update_where p f (requests db)\<rparr>)"
    if "p row" "\<And>r. p r \<Longrightarrow> request_id r = request_id row"
      "\<And>r. p r \<Longrightarrow> same_identity r (f r) \<and> unresolved (req_state (f r)) = unresolved (req_state r)"
      "\<And>r. \<not> dispatch_slot (f r)" for p f code
    by (rule update_one_succeeds [where p = p and f = f, OF ok row(1) that(1) that(2) that(3) slots])
      (assumption+, rule that(4))
  show ?thesis
  proof (cases "req_state row = Checking")
    case True
    let ?p = "\<lambda>r. request_id r = request_id row \<and> dispatch_slot r \<and> req_state r = Checking
        \<and> ticket_status r = None"
    let ?f = "\<lambda>r. r\<lparr>req_state := Queued, dispatch_slot := False, updated_at := now\<rparr>"
    have p: "?p row" using True life(2) row by simp
    have "update_one ?p ?f ''dispatch_slot_conflict'' db
        = Inr (db\<lparr>requests := update_where ?p ?f (requests db)\<rparr>)"
      by (rule upd [where p = ?p and f = ?f]) (use p in \<open>auto simp: same_identity_def unresolved_def\<close>)
    moreover have "\<not> list_ex dispatch_slot (update_where ?p ?f (requests db))"
      by (rule free [where p = ?p and f = ?f]) (use p in simp_all)
    ultimately show ?thesis using p True by (simp add: recover_row_def)
  next
    case False
    let ?p = "\<lambda>r. request_id r = request_id row \<and> dispatch_slot r \<and> req_state r = req_state row"
    let ?f = "\<lambda>r. r\<lparr>req_state := Confirmation_pending,
      error_code := Some ''confirmation_pending'', dispatch_slot := False, updated_at := now\<rparr>"
    have p: "?p row" using row by simp
    have "update_one ?p ?f ''dispatch_slot_conflict'' db
        = Inr (db\<lparr>requests := update_where ?p ?f (requests db)\<rparr>)"
      by (rule upd [where p = ?p and f = ?f]) (use p life(1) in \<open>auto simp: same_identity_def unresolved_def\<close>)
    moreover have "\<not> list_ex dispatch_slot (update_where ?p ?f (requests db))"
      by (rule free [where p = ?p and f = ?f]) (use p in simp_all)
    ultimately show ?thesis using life(1) False by (auto simp: recover_row_def)
  qed
qed

text \<open>C5: In every reachable database recovery of a crash-orphaned scheduling slot succeeds (it never meets an invalid slot state) and leaves no slot taken.\<close>

theorem slot_recovery_total:
  "\<exists>n db'. recover_scheduling_slot now (fold (repair_step sha256 flen) ops empty_db) = (Inr n, db')
     \<and> \<not> list_ex dispatch_slot (requests db')"
proof -
  have "db_ok (fold (repair_step sha256 flen) ops empty_db)" (is "db_ok ?db")
    by (rule repair.reachable_holds)
  then show ?thesis
  proof (cases rule: slot_rows)
    case 1
    then show ?thesis
      by (auto simp: recover_scheduling_slot_def transaction_def list_ex_iff filter_empty_conv)
  next
    case (2 row)
    then obtain db' where "recover_row now row ?db = Inr db'"
      "\<not> list_ex dispatch_slot (requests db')"
      using recover_row_succeeds [OF \<open>db_ok ?db\<close>] by blast
    with 2(1) show ?thesis by (simp add: recover_scheduling_slot_def transaction_def)
  qed
qed

lemma claim_succeeds:
  assumes ok: "db_ok db" and free: "\<not> list_ex dispatch_slot (requests db)"
    and queue: "dispatch_queue db = row # rest"
  shows "\<exists>v. fst (claim_next_dispatch now db) = Inr (Some v)"
proof -
  have "row \<in> set (dispatch_queue db)" using queue by simp
  then have row: "row \<in> set (requests db)" "req_state row = Queued" "\<not> dispatch_slot row"
    by (auto simp: dispatch_queue_row)
  let ?p = "\<lambda>r. request_id r = request_id row \<and> req_state r = Queued \<and> \<not> dispatch_slot r"
  let ?f = "\<lambda>r. r\<lparr>req_state := Checking, dispatch_slot := True, updated_at := now\<rparr>"
  let ?db' = "db\<lparr>requests := update_where ?p ?f (requests db)\<rparr>"
  have upd: "update_one ?p ?f '''' db = Inr ?db'"
  proof (rule update_one_succeeds [OF ok row(1)])
    show "count_where dispatch_slot (update_where ?p ?f (requests db)) \<le> 1"
      by (rule slots_after_claiming [where k = "request_id row"])
        (use ok free in \<open>auto simp: db_ok_def indexes_ok_def count_where_0 list_ex_iff\<close>)
  qed (use row in \<open>auto simp: same_identity_def unresolved_def\<close>)
  have mem: "?f row \<in> set (requests ?db')"
    using row by (force simp: set_update_where)
  have "find_request (request_id row) ?db' \<noteq> None"
  proof
    assume "find_request (request_id row) ?db' = None"
    then have "\<forall>r\<in>set (requests ?db'). request_id r \<noteq> request_id row"
      by (simp add: find_request_def select_first_None)
    with mem have "request_id (?f row) \<noteq> request_id row" by (rule bspec [rotated])
    then show False by simp
  qed
  then show ?thesis
    using free queue upd by (auto simp: claim_next_dispatch_def Let_def request_def)
qed

text \<open>C6: In every reachable database the cheap probe for dispatchable work is true exactly when claiming the next dispatch returns a request.\<close>

theorem dispatch_work_conserving:
  "has_dispatchable_request (fold (repair_step sha256 flen) ops empty_db)
     \<longleftrightarrow> (\<exists>v. fst (claim_next_dispatch now (fold (repair_step sha256 flen) ops empty_db))
               = Inr (Some v))"
proof -
  have ok: "db_ok (fold (repair_step sha256 flen) ops empty_db)" (is "db_ok ?db")
    by (rule repair.reachable_holds)
  have fk: "\<forall>r\<in>set (requests ?db). batch_id r \<in> set (map b_id (batches ?db))"
    using ok by (simp add: db_ok_def foreign_keys_ok_def)
  have nonempty: "set (dispatch_queue ?db)
      = {r \<in> set (requests ?db). req_state r = Queued \<and> \<not> dispatch_slot r}"
    using fk by (auto simp: dispatch_queue_row)
  show ?thesis
  proof (cases "list_ex dispatch_slot (requests ?db)")
    case True
    then show ?thesis by (simp add: has_dispatchable_request_def claim_next_dispatch_def)
  next
    case False
    show ?thesis
    proof (cases "dispatch_queue ?db")
      case Nil
      with nonempty show ?thesis
        by (auto simp: has_dispatchable_request_def claim_next_dispatch_def list_ex_iff)
    next
      case (Cons row rest)
      then have "row \<in> set (dispatch_queue ?db)" by simp
      with nonempty False have "has_dispatchable_request ?db"
        by (auto simp: has_dispatchable_request_def list_ex_iff)
      with claim_succeeds [OF ok False Cons] show ?thesis by blast
    qed
  qed
qed


lemma partition_counts:
  "count_state [Queued, Checking] states + count_state [Complete] states
     + count_state [Retryable] states
     + (count_state [Needs_review] states + count_state [Hub_update_required] states)
     + count_state pending_states states = length states"
  unfolding count_state_def count_where_def pending_states_def
proof (induction states)
  case Nil
  then show ?case by simp
next
  case (Cons s states)
  then show ?case by (cases s) auto
qed

text \<open>In every reachable database the stored summary of each batch counts exactly its requests, its counters partition them, and it is complete exactly when it is non-empty and all its requests are complete.\<close>

theorem batch_counters_partition:
  "list_all (\<lambda>b. b_total b = count_where (\<lambda>r. batch_id r = b_id b) (requests db)
      \<and> b_queued b + b_complete b + b_retryable b + b_review b + b_pending b = b_total b
      \<and> (b_state b = Batch_complete
           \<longleftrightarrow> 0 < b_total b \<and> b_complete b = b_total b)) (batches db)"
  if "db = fold (repair_step sha256 flen) ops empty_db"
  unfolding list_all_iff
proof
  fix b assume b: "b \<in> set (batches db)"
  have "counters_ok db"
    unfolding that using repair.reachable_holds by (auto simp: db_ok_def)
  with b have fresh: "refreshed_batch (states_of (b_id b) db) (b_updated_at b) b = b"
    by (simp add: counters_ok_def)
  let ?st = "states_of (b_id b) db"
  have "b_total b = length ?st" "b_queued b = count_state [Queued, Checking] ?st"
    "b_complete b = count_state [Complete] ?st" "b_retryable b = count_state [Retryable] ?st"
    "b_review b = count_state [Needs_review] ?st + count_state [Hub_update_required] ?st"
    "b_pending b = count_state pending_states ?st" "b_state b = batch_state_of ?st"
    by (subst fresh [symmetric], simp add: refreshed_batch_def Let_def)+
  then show "b_total b = count_where (\<lambda>r. batch_id r = b_id b) (requests db)
      \<and> b_queued b + b_complete b + b_retryable b + b_review b + b_pending b = b_total b
      \<and> (b_state b = Batch_complete \<longleftrightarrow> 0 < b_total b \<and> b_complete b = b_total b)"
    using partition_counts [of ?st]
    by (auto simp: states_of_def count_where_def batch_state_of_def Let_def)
qed

lemma length_last_n: "length (last_n n xs) \<le> n"
  by (simp add: last_n_def)

lemma last_last_n: "0 < n \<Longrightarrow> last_n n (xs @ [x]) \<noteq> [] \<and> last (last_n n (xs @ [x])) = x"
  by (auto simp: last_n_def)

text \<open>Recording a refused redemption changes only the evidence of that request: at most five refusals are kept, the newest last, and the evidence stays within the byte limit.\<close>

theorem refusal_is_bounded_evidence:
  assumes "record_redemption_refusal flen now rid code st src m db = (Inr (), db')"
  shows "\<exists>row d. find_request rid db = Some row
     \<and> (let entries = last_n redemption_refusal_limit
            (prior_refusals (evidence row) @ [refusal_entry now code st src m])
        in db' = db\<lparr>requests := update_where (\<lambda>r. request_id r = rid)
                    (\<lambda>r. r\<lparr>evidence := Some (JObj d)\<rparr>) (requests db)\<rparr>
           \<and> jget d ''redemption_refusals'' = JList entries
           \<and> length entries \<le> 5 \<and> last entries = refusal_entry now code st src m
           \<and> json_text_len flen (JObj d) \<le> max_evidence_bytes)"
proof -
  from assms obtain row where row: "find_request rid db = Some row"
    by (auto simp: record_redemption_refusal_def transaction_def split: option.splits)
  let ?entries = "last_n redemption_refusal_limit
    (prior_refusals (evidence row) @ [refusal_entry now code st src m])"
  let ?d = "dupdate (case evidence row of Some (JObj d) \<Rightarrow> d | _ \<Rightarrow> [])
    [(''redemption_refusals'', JList ?entries)]"
  from assms row have fits: "json_text_len flen (JObj ?d) \<le> max_evidence_bytes"
    and db': "db' = db\<lparr>requests := update_where (\<lambda>r. request_id r = rid)
                    (\<lambda>r. r\<lparr>evidence := Some (JObj ?d)\<rparr>) (requests db)\<rparr>"
    by (auto simp: record_redemption_refusal_def transaction_def merge_evidence_def pack_json_def
        Let_def split: if_splits)
  have "jget ?d ''redemption_refusals'' = JList ?entries"
    by (simp add: jget_def dupdate_def)
  moreover have "length ?entries \<le> 5"
    using length_last_n by (simp add: redemption_refusal_limit_def)
  moreover have "last ?entries = refusal_entry now code st src m"
    using last_last_n [of 5 "prior_refusals (evidence row)" "refusal_entry now code st src m"]
    by (simp add: redemption_refusal_limit_def)
  ultimately show ?thesis using row fits db' by (auto simp: Let_def)
qed

lemma adopt_status_cases:
  assumes "adopt_status flen now rid st src db = (Inr v, db')"
  obtains row where "find_request rid db = Some row" "Some src = resolved_address row"
    "st_state st \<in> {''complete'', ''never_applied'', ''needs_review''}" "st_request_id st = rid"
    "(db' = db \<and> v = request_result row \<and> recorded_terminal row = JStr (st_state st)
        \<and> req_state row \<in> {Complete, Retryable, Needs_review})
     \<or> (req_state row \<in> set claim_states \<and> adopt_row flen now st row db = Inr (v, db'))"
  using assms
  by (auto simp: adopt_status_def transaction_def split: option.splits sum.splits if_splits)

lemma prior_repair_keys:
  "set (map fst (prior_repair_evidence c)) \<subseteq>
     {''prior_repair_state'', ''prior_repair_error_code'', ''prior_repair_request_id'',
      ''prior_repair_updated_at''}"
  unfolding prior_repair_evidence_def copied_field_def by (auto split: option.splits)

lemma merged_evidence_head:
  assumes "k \<notin> set (map fst rest)" and "merge_evidence flen raw ((k, v) # rest) = Inr ev"
  shows "\<exists>d. ev = JObj d \<and> dget d k = Some v"
proof -
  define base where "base = (case raw of Some (JObj d) \<Rightarrow> d | _ \<Rightarrow> [])"
  have "ev = JObj (dupdate base ((k, v) # rest))"
    using assms(2) by (simp add: merge_evidence_def pack_json_def base_def Let_def split: if_splits)
  moreover have "dupdate base ((k, v) # rest) = dupdate (dset k v base) rest"
    by (simp add: dupdate_def)
  moreover have "dget (dupdate (dset k v base) rest) k = Some v"
    using dget_dupdate_notin [OF assms(1)] by simp
  ultimately show ?thesis by simp
qed

lemma adopt_row_result:
  assumes ok: "db_ok db" and row: "row \<in> set (requests db)" "req_state row \<in> set claim_states"
    and res: "adopt_row flen now st row db = Inr (v, db')"
    and st: "st_state st \<in> {''complete'', ''never_applied'', ''needs_review''}"
  obtains r where "find_request (request_id row) db' = Some r" "v = request_result r"
    "resolved_address r = resolved_address row" "recorded_terminal r = JStr (st_state st)"
    "req_state r \<in> {Complete, Retryable, Needs_review}"
proof -
  from res obtain stored err ticket ev db1 where cols: "terminal_columns st row = Inr (stored, err, ticket)"
    and ev: "terminal_evidence flen st row = Inr ev"
    and upd: "update_one (\<lambda>r. request_id r = request_id row \<and> req_state r = req_state row)
        (\<lambda>r. r\<lparr>req_state := stored, ticket_status := ticket, error_code := err,
               evidence := Some ev, dispatch_slot := False, updated_at := now\<rparr>)
        ''terminal_status_conflict'' db = Inr db1"
    and db': "db' = refresh_batch (batch_id row) now db1"
    and v: "\<exists>r. find_request (request_id row) db' = Some r \<and> v = request_result r"
    by (auto simp: adopt_row_def Let_def split: sum.splits option.splits)
  let ?r = "row\<lparr>req_state := stored, ticket_status := ticket, error_code := err,
               evidence := Some ev, dispatch_slot := False, updated_at := now\<rparr>"
  have "db_ok db'" using adopt_row_good [OF ok row res] by (simp add: good_step_def)
  moreover have "?r \<in> set (requests db')"
    using update_one_Inr [OF upd] row(1) unfolding db' by (force simp: set_update_where)
  ultimately have "find_request (request_id row) db' = Some ?r"
    using find_request_unique [of db' ?r] by simp
  moreover have "stored \<in> {Complete, Retryable, Needs_review}"
    using cols by (auto simp: terminal_columns_def Let_def split: if_splits sum.splits)
  moreover have "recorded_terminal ?r = JStr (st_state st)"
  proof -
    obtain cb where cb: "agent_callback_evidence (st_callback_error st) = Inr cb"
      using ev by (auto simp: terminal_evidence_def split: sum.splits)
    have "''agent_terminal_state'' \<notin> set (map fst (prior_repair_evidence (st_conflict st)))"
      using prior_repair_keys [of "st_conflict st"] by auto
    moreover have "''agent_terminal_state'' \<notin> set (map fst cb)"
      using cb by (auto simp: agent_callback_evidence_def split: option.splits if_splits)
    ultimately have "''agent_terminal_state''
        \<notin> set (map fst (prior_repair_evidence (st_conflict st) @ cb))"
      by (simp only: map_append set_append Un_iff not_False_eq_True simp_thms)
    moreover have "merge_evidence flen (evidence row) ((''agent_terminal_state'', JStr (st_state st))
        # prior_repair_evidence (st_conflict st) @ cb) = Inr ev"
      using ev by (simp add: terminal_evidence_def cb)
    ultimately have "\<exists>d. ev = JObj d \<and> dget d ''agent_terminal_state'' = Some (JStr (st_state st))"
      by (rule merged_evidence_head)
    then show ?thesis by (auto simp: recorded_terminal_def jget_def)
  qed
  ultimately show thesis using v by (intro that [of ?r]) auto
qed

text \<open>Adopting a terminal status report a second time, at any later clock, returns the same view and changes nothing.\<close>

theorem adoption_idempotent:
  assumes "db_ok db" and "adopt_status flen now rid st src db = (Inr v, db')"
  shows "adopt_status flen now' rid st src db' = (Inr v, db')"
  using assms(2)
proof (rule adopt_status_cases)
  fix row
  assume found: "find_request rid db = Some row" and src: "Some src = resolved_address row"
    and st: "st_state st \<in> {''complete'', ''never_applied'', ''needs_review''}" "st_request_id st = rid"
    and alt: "(db' = db \<and> v = request_result row \<and> recorded_terminal row = JStr (st_state st)
        \<and> req_state row \<in> {Complete, Retryable, Needs_review})
     \<or> (req_state row \<in> set claim_states \<and> adopt_row flen now st row db = Inr (v, db'))"
  from alt obtain r where "find_request rid db' = Some r" "v = request_result r"
    "resolved_address r = resolved_address row" "recorded_terminal r = JStr (st_state st)"
    "req_state r \<in> {Complete, Retryable, Needs_review}"
    using found found_row [OF found] assms(1) st by (metis adopt_row_result)
  then show ?thesis
    using st src by (auto simp: adopt_status_def transaction_def)
qed


theorem redeem_sound_witness:
  "\<exists>row expiry. find_request ''r0'' demo_db = Some row \<and> ticket_status row = Some Issued
     \<and> redemption_expires_at row = Some expiry \<and> rd_expires_at demo_redemption = expiry
     \<and> 5 < expiry \<and> str_or_empty (ticket_digest row) = demo_sha (rd_ticket demo_redemption)
     \<and> str_or_empty (fleet_token_digest row) = rd_fleet_digest demo_redemption
     \<and> exact_target row demo_redemption \<and> exact_controller row demo_redemption
     \<and> claim_of ''r0'' demo_redemption = claim_of ''r0'' demo_redemption"
  by (rule redeem_sound [OF demo_redeem])

theorem redeem_at_most_once_witness:
  "\<exists>e. fst (redeem demo_sha demo_flen 7 ''r0'' demo_redemption
     (fold (repair_step demo_sha demo_flen) [Op_park 6 ''r0'' ''x'']
        (snd (redeem demo_sha demo_flen 5 ''r0'' demo_redemption demo_db)))) = Inl e"
  by (rule redeem_at_most_once [OF demo_db_ok demo_redeem])

theorem batch_counters_partition_witness:
  "list_all (\<lambda>b. b_total b = count_where (\<lambda>r. batch_id r = b_id b) (requests demo_db)
      \<and> b_queued b + b_complete b + b_retryable b + b_review b + b_pending b = b_total b
      \<and> (b_state b = Batch_complete
           \<longleftrightarrow> 0 < b_total b \<and> b_complete b = b_total b)) (batches demo_db)"
  by (rule batch_counters_partition [OF demo_db_def])

definition demo_refused :: repair_db where
  "demo_refused =
     snd (record_redemption_refusal demo_flen 5 ''r0'' ''ticket_mismatch'' 409 None None demo_db)"

lemma demo_refusal:
  "record_redemption_refusal demo_flen 5 ''r0'' ''ticket_mismatch'' 409 None None demo_db
     = (Inr (), demo_refused)"
proof -
  have "fst (record_redemption_refusal demo_flen 5 ''r0'' ''ticket_mismatch'' 409 None None demo_db)
      = Inr ()"
    by code_simp
  then show ?thesis by (simp add: demo_refused_def prod_eq_iff)
qed


theorem refusal_is_bounded_evidence_witness:
  "\<exists>row d. find_request ''r0'' demo_db = Some row
     \<and> (let entries = last_n redemption_refusal_limit
            (prior_refusals (evidence row)
              @ [refusal_entry 5 ''ticket_mismatch'' 409 None None])
        in demo_refused = demo_db\<lparr>requests := update_where (\<lambda>r. request_id r = ''r0'')
                    (\<lambda>r. r\<lparr>evidence := Some (JObj d)\<rparr>) (requests demo_db)\<rparr>
           \<and> jget d ''redemption_refusals'' = JList entries
           \<and> length entries \<le> 5 \<and> last entries = refusal_entry 5 ''ticket_mismatch'' 409 None None
           \<and> json_text_len demo_flen (JObj d) \<le> max_evidence_bytes)"
  by (rule refusal_is_bounded_evidence [OF demo_refusal])

definition demo_redeemed :: repair_db where
  "demo_redeemed = snd (redeem demo_sha demo_flen 5 ''r0'' demo_redemption demo_db)"

definition demo_adopted :: repair_db where
  "demo_adopted = snd (adopt_status demo_flen 6 ''r0'' demo_report ''addr'' demo_redeemed)"

lemma demo_redeemed_ok: "db_ok demo_redeemed"
  unfolding demo_redeemed_def using redeem_good [OF demo_db_ok] by (simp add: good_step_def)

lemma demo_adoption:
  "\<exists>v. adopt_status demo_flen 6 ''r0'' demo_report ''addr'' demo_redeemed = (Inr v, demo_adopted)"
proof -
  have "isl (fst (adopt_status demo_flen 6 ''r0'' demo_report ''addr'' demo_redeemed)) = False"
    by code_simp
  then obtain v where
    "fst (adopt_status demo_flen 6 ''r0'' demo_report ''addr'' demo_redeemed) = Inr v"
    by (cases "fst (adopt_status demo_flen 6 ''r0'' demo_report ''addr'' demo_redeemed)") auto
  then show ?thesis by (intro exI [of _ v]) (simp add: demo_adopted_def prod_eq_iff)
qed

theorem adoption_idempotent_witness:
  "\<exists>v. adopt_status demo_flen 6 ''r0'' demo_report ''addr'' demo_redeemed = (Inr v, demo_adopted)
     \<and> adopt_status demo_flen 9 ''r0'' demo_report ''addr'' demo_adopted = (Inr v, demo_adopted)"
  using demo_adoption adoption_idempotent [OF demo_redeemed_ok] by blast

end
