(* ===== verification/Py_Text.thy ===== *)
theory Py_Text
  imports Py_Json "HOL-Library.Multiset"
begin

text \<open>
  Python's \<open>str(value)\<close> and \<open>int(value)\<close> on JSON values, and the text \<open>json.dumps\<close> writes with
  \<open>sort_keys=True\<close>, compact separators and \<open>ensure_ascii=False\<close>.  What depends on the shortest
  decimal of a float, or on the \<open>repr\<close> of a container, is a parameter (\<open>rp\<close>, \<open>ft\<close>).
\<close>

section \<open>Numbers as text\<close>

definition digit_char :: "nat \<Rightarrow> char" where
  "digit_char d = char_of (48 + d)"

definition is_digit :: "char \<Rightarrow> bool" where
  "is_digit c \<longleftrightarrow> 48 \<le> (of_char c :: nat) \<and> (of_char c :: nat) \<le> 57"

definition is_lower :: "char \<Rightarrow> bool" where
  "is_lower c \<longleftrightarrow> 97 \<le> (of_char c :: nat) \<and> (of_char c :: nat) \<le> 122"

definition is_upper :: "char \<Rightarrow> bool" where
  "is_upper c \<longleftrightarrow> 65 \<le> (of_char c :: nat) \<and> (of_char c :: nat) \<le> 90"

text \<open>Equations by which the kernel evaluates these tests quickly.\<close>

lemma char_range_set:
  assumes "b < 256"
  shows "a \<le> (of_char c :: nat) \<and> of_char c \<le> b \<longleftrightarrow> c \<in> set (map char_of [a..<Suc b])"
proof
  assume "a \<le> (of_char c :: nat) \<and> of_char c \<le> b"
  then have "of_char c \<in> set [a..<Suc b]" by auto
  then show "c \<in> set (map char_of [a..<Suc b])" by (metis char_of_char imageI list.set_map)
next
  assume "c \<in> set (map char_of [a..<Suc b])"
  then show "a \<le> (of_char c :: nat) \<and> of_char c \<le> b" using assms by auto
qed

lemma is_digit_code [code]: "is_digit c = List.member ''0123456789'' c"
proof -
  have "map char_of [48..<Suc 57] = ''0123456789''" by code_simp
  moreover have "is_digit c \<longleftrightarrow> c \<in> set (map char_of [48..<Suc 57])"
    unfolding is_digit_def by (rule char_range_set) simp
  ultimately show ?thesis by (simp only: List.member_iff)
qed

lemma is_lower_code [code]: "is_lower c = List.member ''abcdefghijklmnopqrstuvwxyz'' c"
proof -
  have "map char_of [97..<Suc 122] = ''abcdefghijklmnopqrstuvwxyz''" by code_simp
  moreover have "is_lower c \<longleftrightarrow> c \<in> set (map char_of [97..<Suc 122])"
    unfolding is_lower_def by (rule char_range_set) simp
  ultimately show ?thesis by (simp only: List.member_iff)
qed

lemma is_upper_code [code]: "is_upper c = List.member ''ABCDEFGHIJKLMNOPQRSTUVWXYZ'' c"
proof -
  have "map char_of [65..<Suc 90] = ''ABCDEFGHIJKLMNOPQRSTUVWXYZ''" by code_simp
  moreover have "is_upper c \<longleftrightarrow> c \<in> set (map char_of [65..<Suc 90])"
    unfolding is_upper_def by (rule char_range_set) simp
  ultimately show ?thesis by (simp only: List.member_iff)
qed

lemma py_space_range:
  "py_space c \<longleftrightarrow> (9 \<le> (of_char c :: nat) \<and> of_char c \<le> (13::nat)) \<or> (28 \<le> (of_char c :: nat) \<and> of_char c \<le> (32::nat))"
proof -
  have "map char_of [9..<Suc 13] = [CHR 0x09, CHR 0x0A, CHR 0x0B, CHR 0x0C, CHR 0x0D]"
    and "map char_of [28..<Suc 32] = [CHR 0x1C, CHR 0x1D, CHR 0x1E, CHR 0x1F, CHR '' '']"
    by code_simp+
  moreover have "(9 \<le> (of_char c :: nat) \<and> of_char c \<le> (13::nat)) \<longleftrightarrow> c \<in> set (map char_of [9..<Suc 13])"
    and "(28 \<le> (of_char c :: nat) \<and> of_char c \<le> (32::nat)) \<longleftrightarrow> c \<in> set (map char_of [28..<Suc 32])"
    by (rule char_range_set, simp)+
  ultimately have "(9 \<le> (of_char c :: nat) \<and> of_char c \<le> (13::nat)) \<longleftrightarrow>
        c \<in> set [CHR 0x09, CHR 0x0A, CHR 0x0B, CHR 0x0C, CHR 0x0D]"
    and "(28 \<le> (of_char c :: nat) \<and> of_char c \<le> (32::nat)) \<longleftrightarrow>
        c \<in> set [CHR 0x1C, CHR 0x1D, CHR 0x1E, CHR 0x1F, CHR '' '']"
    by (simp_all only:)
  then show ?thesis by (auto simp: py_space_def)
qed

lemma py_lower_char_code [code]: "py_lower_char c = (if is_upper c then char_of (of_char c + (32::nat)) else c)"
  by (simp add: py_lower_char_def is_upper_def Let_def)

fun nat_text :: "nat \<Rightarrow> string" where
  "nat_text n = (if n < 10 then [digit_char n] else nat_text (n div 10) @ [digit_char (n mod 10)])"

declare nat_text.simps [simp del]

definition int_text :: "int \<Rightarrow> string" where
  "int_text i = (if i < 0 then ''-'' else []) @ nat_text (nat \<bar>i\<bar>)"

text \<open>\<open>int(text)\<close>: blanks stripped, a sign, decimal digits with single underscores between.\<close>

primrec digits_value :: "nat \<Rightarrow> bool \<Rightarrow> string \<Rightarrow> nat option" where
  "digits_value acc gap [] = (if gap then None else Some acc)"
| "digits_value acc gap (c # cs) =
     (if is_digit c then digits_value (acc * 10 + (of_char c - 48)) False cs
      else if c = CHR ''_'' \<and> \<not> gap then digits_value acc True cs
      else None)"

definition int_of_text :: "string \<Rightarrow> int option" where
  "int_of_text text =
     (let s = py_strip text;
          (sign, body) = (case s of
               [] \<Rightarrow> (1, s)
             | c # cs \<Rightarrow> if c = CHR ''-'' then (- 1, cs) else if c = CHR ''+'' then (1, cs) else (1, s))
      in if 4300 < length (filter is_digit body) then None
         else map_option (\<lambda>n. sign * int n) (digits_value 0 True body))"

datatype int_result = Int_ok int | Int_value_error | Int_type_error | Int_overflow_error

fun py_int :: "json \<Rightarrow> int_result" where
  \<comment> \<open>\<open>int(value)\<close>, with the exception it raises otherwise\<close>
  "py_int JNull = Int_type_error"
| "py_int (JBool b) = Int_ok (if b then 1 else 0)"
| "py_int (JInt i) = Int_ok i"
| "py_int (JFloat r) = Int_ok (if r < 0 then \<lceil>r\<rceil> else \<lfloor>r\<rfloor>)"
| "py_int JNan = Int_value_error"
| "py_int (JInf _) = Int_overflow_error"
| "py_int (JStr s) = (case int_of_text s of Some i \<Rightarrow> Int_ok i | None \<Rightarrow> Int_value_error)"
| "py_int (JList _) = Int_type_error"
| "py_int (JObj _) = Int_type_error"

definition py_str :: "(json \<Rightarrow> string) \<Rightarrow> json \<Rightarrow> string" where
  "py_str rp v = (case v of
       JStr s \<Rightarrow> s
     | JNull \<Rightarrow> ''None''
     | JBool b \<Rightarrow> if b then ''True'' else ''False''
     | JInt i \<Rightarrow> int_text i
     | _ \<Rightarrow> rp v)"

definition text_or_empty :: "(json \<Rightarrow> string) \<Rightarrow> json \<Rightarrow> string" where
  \<comment> \<open>\<open>str(value or "")\<close>\<close>
  "text_or_empty rp v = (if truthy v then py_str rp v else [])"

lemma py_str_JStr [simp]: "py_str rp (JStr s) = s"
  by (simp add: py_str_def)

lemma text_or_empty_JStr [simp]: "text_or_empty rp (JStr s) = s"
  by (simp add: text_or_empty_def)

lemma text_or_empty_JNull [simp]: "text_or_empty rp JNull = []"
  by (simp add: text_or_empty_def)

lemma nat_text_digits: "c \<in> set (nat_text n) \<Longrightarrow> is_digit c"
proof (induction n rule: nat_text.induct)
  case (1 n)
  have small: "is_digit (digit_char d)" if "d < 10" for d
    using that by (simp add: is_digit_def digit_char_def)
  show ?case
  proof (cases "n < 10")
    case True
    with 1 show ?thesis by (simp add: nat_text.simps small)
  next
    case False
    with 1 show ?thesis by (subst (asm) (2) nat_text.simps) (auto simp: small)
  qed
qed

lemma digits_value_snoc:
  "d < 10 \<Longrightarrow> digits_value acc gap s = Some m \<Longrightarrow>
     digits_value acc gap (s @ [digit_char d]) = Some (m * 10 + d)"
  by (induction s arbitrary: acc gap)
     (auto simp: is_digit_def digit_char_def split: if_splits)

lemma digits_value_nat_text: "digits_value 0 True (nat_text n) = Some n"
proof (induction n rule: nat_text.induct)
  case (1 n)
  show ?case
  proof (cases "n < 10")
    case True
    then show ?thesis by (simp add: nat_text.simps is_digit_def digit_char_def)
  next
    case False
    with 1 have "digits_value 0 True (nat_text (n div 10) @ [digit_char (n mod 10)])
                 = Some (n div 10 * 10 + n mod 10)"
      by (intro digits_value_snoc) auto
    with False show ?thesis by (subst nat_text.simps) simp
  qed
qed

text \<open>Printing a decimal and reading it back is the identity, within Python's digit limit.\<close>

lemma py_strip_unchanged: "(\<forall>c\<in>set s. \<not> py_space c) \<Longrightarrow> py_strip s = s"
proof -
  assume a: "\<forall>c\<in>set s. \<not> py_space c"
  then have "dropWhile py_space s = s" by (cases s) auto
  moreover have "dropWhile py_space (rev s) = rev s"
    using a dropWhile_fix [of "rev s" py_space] by (metis hd_in_set set_rev)
  ultimately show ?thesis by (simp add: py_strip_def)
qed

lemma digit_not_space: "is_digit c \<Longrightarrow> \<not> py_space c"
  by (auto simp: is_digit_def py_space_def)

lemma int_of_text_int_text:
  assumes "length (nat_text (nat \<bar>i\<bar>)) \<le> 4300"
  shows "int_of_text (int_text i) = Some i"
proof -
  let ?t = "nat_text (nat \<bar>i\<bar>)"
  have d: "\<forall>c\<in>set ?t. is_digit c" using nat_text_digits by blast
  have f: "filter is_digit ?t = ?t" using d by (simp add: filter_id_conv)
  have ne: "?t \<noteq> []" by (subst nat_text.simps) simp
  have "\<not> py_space c" if "c \<in> set (int_text i)" for c
  proof (cases "c = CHR ''-''")
    case True
    then show ?thesis by (simp add: py_space_def)
  next
    case False
    with that d have "is_digit c" by (auto simp: int_text_def split: if_splits)
    then show ?thesis by (rule digit_not_space)
  qed
  then have strip: "py_strip (int_text i) = int_text i"
    by (intro py_strip_unchanged) blast
  obtain c cs where c: "?t = c # cs" using ne by (cases ?t) auto
  have notsign: "c \<noteq> CHR ''-''" "c \<noteq> CHR ''+''"
    using d c by (auto simp: is_digit_def)
  have "digits_value 0 True ?t = Some (nat \<bar>i\<bar>)" by (rule digits_value_nat_text)
  then show ?thesis
    using assms f c notsign strip
    by (cases "i < 0") (auto simp: int_of_text_def int_text_def Let_def)
qed

text \<open>\<open>text.split(sep)\<close> with a separator of one character.\<close>

fun split_on :: "char \<Rightarrow> string \<Rightarrow> string list" where
  "split_on sep [] = [[]]"
| "split_on sep (c # s) = (if c = sep then [] # split_on sep s
     else case split_on sep s of [] \<Rightarrow> [[c]] | w # ws \<Rightarrow> (c # w) # ws)"

section \<open>Canonical JSON text\<close>

definition hex_nibble :: "nat \<Rightarrow> char" where
  "hex_nibble d = (if d < 10 then char_of (48 + d) else char_of (87 + d))"

definition is_control :: "char \<Rightarrow> bool" where
  \<comment> \<open>a code below 32\<close>
  "is_control c \<longleftrightarrow> \<not> digit5 c \<and> \<not> digit6 c \<and> \<not> digit7 c"

lemma is_control_iff: "is_control c \<longleftrightarrow> (of_char c :: nat) < 32"
  by (cases c) (simp add: is_control_def)

definition unicode_escape :: "char \<Rightarrow> string" where
  \<comment> \<open>\<open>\u00hh\<close>\<close>
  "unicode_escape c = (let n = of_char c :: nat in
     [CHR 0x5C, CHR ''u'', CHR ''0'', CHR ''0'', hex_nibble (n div 16), hex_nibble (n mod 16)])"

definition escape_char :: "char \<Rightarrow> string" where
  "escape_char c =
     (if c = CHR 0x22 then [CHR 0x5C, CHR 0x22]
      else if c = CHR 0x5C then [CHR 0x5C, CHR 0x5C]
      else if \<not> is_control c then [c]
      else if c = CHR 0x0A then [CHR 0x5C, CHR ''n'']
      else if c = CHR 0x0D then [CHR 0x5C, CHR ''r'']
      else if c = CHR 0x09 then [CHR 0x5C, CHR ''t'']
      else if c = CHR 0x0C then [CHR 0x5C, CHR ''f'']
      else if c = CHR 0x08 then [CHR 0x5C, CHR ''b'']
      else unicode_escape c)"

definition quoted :: "string \<Rightarrow> string" where
  "quoted s = CHR 0x22 # concat (map escape_char s) @ [CHR 0x22]"

definition ascii_escaped :: "string \<Rightarrow> string" where
  \<comment> \<open>what \<open>ensure_ascii\<close> adds to an encoded text: every character outside the printable ones is written
    as an escape; the encoding has dealt with the codes below 32\<close>
  "ascii_escaped s = concat (map (\<lambda>c. if 126 < (of_char c :: nat) then unicode_escape c else [c]) s)"

fun join_with :: "string \<Rightarrow> string list \<Rightarrow> string" where
  "join_with sep [] = []"
| "join_with sep [x] = x"
| "join_with sep (x # y # zs) = x @ sep @ join_with sep (y # zs)"

fun json_text :: "(rat \<Rightarrow> string) \<Rightarrow> json \<Rightarrow> string" where
  "json_text ft JNull = ''null''"
| "json_text ft (JBool b) = (if b then ''true'' else ''false'')"
| "json_text ft (JInt i) = int_text i"
| "json_text ft (JFloat r) = ft r"
| "json_text ft JNan = ''NaN''"
| "json_text ft (JInf neg) = (if neg then ''-Infinity'' else ''Infinity'')"
| "json_text ft (JStr s) = quoted s"
| "json_text ft (JList xs) = ''['' @ join_with '','' (map (json_text ft) xs) @ '']''"
| "json_text ft (JObj d) =
     ''{'' @ join_with '','' (map (\<lambda>kv. quoted (fst kv) @ '':'' @ snd kv)
         (sort_key fst (map (\<lambda>kv. (fst kv, json_text ft (snd kv))) d))) @ ''}''"

lemma sort_key_fst_perm:
  assumes "distinct (map fst d)" and "distinct (map fst e)" and "set d = set e"
  shows "sort_key fst d = sort_key fst e"
proof -
  have "mset d = mset e"
    using assms by (metis distinct_map set_eq_iff_mset_eq_distinct)
  moreover have "inj_on fst (set d)" using assms(1) by (simp add: distinct_map)
  ultimately show ?thesis by (rule sort_key_eq_sort_key)
qed

lemma json_text_key_order:
  assumes d: "distinct (map fst d)" and e: "distinct (map fst e)"
    and same: "\<And>k. map_of d k = map_of e k"
  shows "json_text ft (JObj d) = json_text ft (JObj e)"
proof -
  have "set d = set e"
    using d e same by (metis map_of_eq_Some_iff pred_equals_eq2 subrelI subset_antisym)
  then have s: "set (map (\<lambda>kv. (fst kv, json_text ft (snd kv))) d)
            = set (map (\<lambda>kv. (fst kv, json_text ft (snd kv))) e)"
    by simp
  have k: "map fst (map (\<lambda>kv. (fst kv, json_text ft (snd kv))) x) = map fst x" for x
    by simp
  show ?thesis
    using sort_key_fst_perm [OF _ _ s] d e unfolding k json_text.simps by (simp add: o_def)
qed

end
