(* ===== verification/Execution_Identity.thy ===== *)
theory Execution_Identity
  imports Py_Text
begin

text \<open>
  The guard of externally assigned work: \<open>app/backend/execution_identity.py\<close>, with the two
  validators it calls in \<open>app/backend/model_exposure.py\<close>.

  The SQLite file is the record \<open>fence_db\<close> of its three tables.  \<open>BEGIN IMMEDIATE\<close> serialises the
  writers and an exception inside \<open>with _conn()\<close> rolls the transaction back, so an operation that
  answers \<open>Inl\<close> leaves the database as it was.  Every exception is a constructor of
  \<open>identity_error\<close>; the last five are those that are not an \<open>ExecutionIdentityError\<close>
  (\<open>OverflowError\<close> of \<open>int(inf)\<close>, of an SQLite integer and of \<open>astimezone\<close>, and a \<open>TypeError\<close>).

  What lies outside the repository is the record \<open>exec_host\<close>: the configured site, \<open>sha256\<close> of the
  text, \<open>datetime.fromisoformat\<close> followed by \<open>astimezone(UTC)\<close>, the shortest text of a float and the
  \<open>repr\<close> of a container.  The clock is an argument of each operation.
\<close>

section \<open>Results\<close>

definition bind_err :: "'e + 'a \<Rightarrow> ('a \<Rightarrow> 'e + 'b) \<Rightarrow> 'e + 'b" where
  "bind_err m f = (case m of Inl e \<Rightarrow> Inl e | Inr x \<Rightarrow> f x)"

definition require :: "bool \<Rightarrow> 'e \<Rightarrow> 'e + unit" where
  "require b e = (if b then Inr () else Inl e)"

lemma bind_err_simps [simp]: "bind_err (Inl e) f = Inl e" "bind_err (Inr x) f = f x"
  by (simp_all add: bind_err_def)

lemma bind_err_Inr: "bind_err m f = Inr y \<longleftrightarrow> (\<exists>x. m = Inr x \<and> f x = Inr y)"
  by (cases m) auto

lemma require_Inr [simp]: "require b e = Inr u \<longleftrightarrow> b"
  by (simp add: require_def)

lemma require_True [simp]: "require True e = Inr ()"
  by (simp add: require_def)

lemma require_False [simp]: "require False e = Inl e"
  by (simp add: require_def)

section \<open>Data\<close>

datatype iso_result = Not_iso | Naive_time | Aware_time string time | Aware_overflow

record exec_host =
  eh_site :: string
  eh_sha256 :: "string \<Rightarrow> string"
  eh_iso :: "string \<Rightarrow> iso_result"
  eh_repr :: "json \<Rightarrow> string"
  eh_float :: "rat \<Rightarrow> string"

datatype identity_error =
    Missing_fields "string list" | Bad_id string | Wrong_site string string | Bad_token
  | Bad_operation | Identity_not_object | Not_transcription | Revision_missing
  | Revision_mutable | Contract_not_hash | Lease_not_iso | Lease_naive | Key_length
  | Lease_in_past | Stale_token int int | Token_reused | Attempt_stale int int
  | Attempt_reassigned | Lease_not_revivable | Key_reused | Renewal_in_past
  | Unknown_attempt | Lease_of_stale_token | No_renewable_lease
  | Binding_none | Token_infinite | Token_too_large | Lease_unrepresentable

record fence_row =
  fr_job :: string
  fr_highest :: int
  fr_attempt :: string
  fr_idem :: string
  fr_payload :: string
  fr_operation :: string
  fr_updated :: time

record idem_row =
  ir_job :: string
  ir_idem :: string
  ir_attempt :: string
  ir_payload :: string
  ir_batch :: "string option"
  ir_accepted :: time
  ir_updated :: time

record attempt_row =
  ar_attempt :: string
  ar_job :: string
  ar_highest :: int
  ar_idem :: string
  ar_payload :: string
  ar_lease :: "time option"
  ar_updated :: time

record fence_db =
  fences :: "fence_row list"
  idems :: "idem_row list"
  attempts :: "attempt_row list"

definition empty_fence_db :: fence_db where
  "empty_fence_db = \<lparr>fences = [], idems = [], attempts = []\<rparr>"

record identity =
  id_job :: string
  id_attempt :: string
  id_key :: string
  id_token :: int
  id_site :: string
  id_operation :: string
  id_model :: "string option"
  id_voice :: "string option"
  id_contract :: "string option"
  id_lease :: "string option"

record evidence =
  ev_identity :: identity
  ev_idem :: string
  ev_payload :: string

record prepared =
  pr_envelope :: jdict
  pr_evidence :: "evidence option"
  pr_replay :: "string option"

section \<open>Field validators\<close>

definition is_alnum :: "char \<Rightarrow> bool" where
  "is_alnum c \<longleftrightarrow> is_digit c \<or> is_lower c \<or> is_upper c"

definition id_pattern :: "string \<Rightarrow> bool" where
  "id_pattern s = (case s of
       [] \<Rightarrow> False
     | c # cs \<Rightarrow> is_alnum c \<and> length cs \<le> 199
         \<and> list_all (\<lambda>d. is_alnum d \<or> d \<in> set ''._:-'') cs)"

definition operation_pattern :: "string \<Rightarrow> bool" where
  "operation_pattern s = (case s of
       [] \<Rightarrow> False
     | c # cs \<Rightarrow> is_lower c \<and> length cs \<le> 79
         \<and> list_all (\<lambda>d. is_lower d \<or> is_digit d \<or> d \<in> set ''._:-'') cs)"

definition clean_id :: "exec_host \<Rightarrow> string \<Rightarrow> json \<Rightarrow> identity_error + string" where
  "clean_id h name v =
     (let t = py_strip (text_or_empty (eh_repr h) v)
      in if id_pattern t then Inr t else Inl (Bad_id name))"

definition zulu_to_offset :: "string \<Rightarrow> string" where
  "zulu_to_offset s = concat (map (\<lambda>c. if c = CHR ''Z'' then ''+00:00'' else [c]) s)"

definition lease_timestamp :: "exec_host \<Rightarrow> json \<Rightarrow> identity_error + (string \<times> time)" where
  "lease_timestamp h v =
     (case eh_iso h (zulu_to_offset (py_strip (text_or_empty (eh_repr h) v))) of
        Not_iso \<Rightarrow> Inl Lease_not_iso
      | Naive_time \<Rightarrow> Inl Lease_naive
      | Aware_overflow \<Rightarrow> Inl Lease_unrepresentable
      | Aware_time text epoch \<Rightarrow> Inr (text, epoch))"

definition clean_text :: "exec_host \<Rightarrow> json \<Rightarrow> nat \<Rightarrow> string" where
  "clean_text h v limit = take limit (py_strip (text_or_empty (eh_repr h) v))"

definition is_hex :: "char \<Rightarrow> bool" where
  "is_hex c = (let n = of_char c :: nat
     in (48 \<le> n \<and> n \<le> 57) \<or> (97 \<le> n \<and> n \<le> 102) \<or> (65 \<le> n \<and> n \<le> 70))"

lemma is_hex_code [code]: "is_hex c \<longleftrightarrow> is_digit c \<or> List.member ''abcdefABCDEF'' c"
proof -
  have "map char_of [97..<Suc 102] = ''abcdef''" and "map char_of [65..<Suc 70] = ''ABCDEF''"
    by code_simp+
  moreover have "is_hex c \<longleftrightarrow> is_digit c \<or> c \<in> set (map char_of [97..<Suc 102])
      \<or> c \<in> set (map char_of [65..<Suc 70])"
    unfolding is_hex_def is_digit_def Let_def
    using char_range_set [of 102 97 c] char_range_set [of 70 65 c] by auto
  ultimately have "is_hex c \<longleftrightarrow> is_digit c \<or> c \<in> set ''abcdef'' \<or> c \<in> set ''ABCDEF''"
    by (simp only:)
  then show ?thesis by auto
qed

definition sha_prefix :: string where
  "sha_prefix = ''sha256:''"

definition remove_prefix :: "string \<Rightarrow> string \<Rightarrow> string" where
  "remove_prefix p s = (if prefix p s then drop (length p) s else s)"

definition immutable_pattern :: "string \<Rightarrow> bool" where
  "immutable_pattern s =
     (let r = remove_prefix sha_prefix s
      in 40 \<le> length r \<and> length r \<le> 64 \<and> list_all is_hex r)"

definition contract_pattern :: "string \<Rightarrow> bool" where
  "contract_pattern s \<longleftrightarrow> prefix sha_prefix s
     \<and> length (drop (length sha_prefix) s) = 64 \<and> list_all is_hex (drop (length sha_prefix) s)"

definition normalized_immutable_revision :: "exec_host \<Rightarrow> json \<Rightarrow> string option" where
  "normalized_immutable_revision h v =
     (let revision = clean_text h v 80
      in if immutable_pattern revision then Some (py_lower (remove_prefix sha_prefix revision))
         else None)"

definition is_immutable_revision :: "exec_host \<Rightarrow> json \<Rightarrow> bool" where
  "is_immutable_revision h v \<longleftrightarrow> normalized_immutable_revision h v \<noteq> None"

definition is_contract_hash :: "exec_host \<Rightarrow> json \<Rightarrow> bool" where
  "is_contract_hash h v \<longleftrightarrow> contract_pattern (py_lower (clean_text h v 80))"

definition validated_execution_binding ::
  "exec_host \<Rightarrow> json \<Rightarrow> json \<Rightarrow> json \<Rightarrow> (string \<times> string) option" where
  "validated_execution_binding h operation model_revision contract_hash =
     (let normalized_operation = py_lower (clean_text h operation 120);
          contract = py_lower (clean_text h contract_hash 80)
      in case normalized_immutable_revision h model_revision of
           None \<Rightarrow> None
         | Some revision \<Rightarrow>
             if normalized_operation \<noteq> ''audio.transcription'' \<or> \<not> is_contract_hash h (JStr contract)
             then None else Some (revision, contract))"

definition validate_transcription_identity ::
  "exec_host \<Rightarrow> json \<Rightarrow> identity_error + (string \<times> string) option" where
  "validate_transcription_identity h execution = (case as_dict execution of
       None \<Rightarrow> Inl Identity_not_object
     | Some d \<Rightarrow>
         (let rp = eh_repr h;
              operation = py_lower (py_strip (text_or_empty rp (jget d ''operation'')));
              revision = py_strip (text_or_empty rp (jget d ''model_revision''));
              contract_hash = py_strip (text_or_empty rp (jget d ''contract_hash''));
              binding = validated_execution_binding h (JStr operation) (JStr revision) (JStr contract_hash)
          in if operation \<noteq> ''audio.transcription'' then Inl Not_transcription
             else if revision = [] then Inl Revision_missing
             else if \<not> is_immutable_revision h (JStr revision) then Inl Revision_mutable
             else if \<not> is_contract_hash h (JStr contract_hash) then Inl Contract_not_hash
             else Inr binding))"

section \<open>Reading the assignment of an envelope\<close>

definition identity_fields :: "string list" where
  "identity_fields = [''genstudio_job_id'', ''genstudio_attempt_id'', ''idempotency_key'',
     ''fencing_token'', ''site_id'', ''operation'', ''model_revision'', ''voice_revision'',
     ''contract_hash'', ''lease_expires_at'']"

definition required_fields :: "string list" where
  "required_fields = [''genstudio_job_id'', ''genstudio_attempt_id'', ''idempotency_key'',
     ''fencing_token'', ''site_id'', ''operation'']"

definition supplied_identity :: "jdict \<Rightarrow> jdict" where
  "supplied_identity envelope =
     (let top = List.map_filter (\<lambda>k. map_option (Pair k) (dget envelope k)) identity_fields
      in case as_dict (jget envelope ''genstudio_execution'') of
           Some nested \<Rightarrow> dupdate nested top
         | None \<Rightarrow> top)"

definition missing_fields :: "exec_host \<Rightarrow> jdict \<Rightarrow> string list" where
  "missing_fields h supplied = filter (\<lambda>k. jget supplied k = JNull
     \<or> py_strip (py_str (eh_repr h) (jget supplied k)) = []) required_fields"

fun is_bool :: "json \<Rightarrow> bool" where
  "is_bool (JBool _) = True"
| "is_bool _ = False"

definition fencing_token :: "json \<Rightarrow> identity_error + int" where
  "fencing_token v = (case py_int v of
       Int_value_error \<Rightarrow> Inl Bad_token
     | Int_type_error \<Rightarrow> Inl Bad_token
     | Int_overflow_error \<Rightarrow> Inl Token_infinite
     | Int_ok token \<Rightarrow>
         if is_bool v \<or> token < 1 then Inl Bad_token else Inr token)"

definition optional_text :: "exec_host \<Rightarrow> json \<Rightarrow> string option" where
  "optional_text h v = (if v = JNull then None else Some (py_strip (py_str (eh_repr h) v)))"

definition model_binding ::
  "exec_host \<Rightarrow> string \<Rightarrow> string option \<Rightarrow> string option
     \<Rightarrow> identity_error + (string option \<times> string option)" where
  "model_binding h operation model_revision contract_hash =
     (if operation = ''audio.transcription''
      then bind_err (validate_transcription_identity h
             (JObj [(''operation'', JStr operation), (''model_revision'', jstr_opt model_revision),
                    (''contract_hash'', jstr_opt contract_hash)]))
           (\<lambda>b. case b of None \<Rightarrow> Inl Binding_none | Some (r, c) \<Rightarrow> Inr (Some r, Some c))
      else Inr (model_revision, contract_hash))"

definition lease_text :: "exec_host \<Rightarrow> json \<Rightarrow> identity_error + string option" where
  "lease_text h v =
     (if v = JNull then Inr None else bind_err (lease_timestamp h v) (\<lambda>(t, _). Inr (Some t)))"

definition extract_identity :: "exec_host \<Rightarrow> jdict \<Rightarrow> identity_error + identity option" where
  "extract_identity h envelope =
     (let s = supplied_identity envelope; rp = eh_repr h in
      if s = [] then Inr None
      else if missing_fields h s \<noteq> [] then Inl (Missing_fields (missing_fields h s))
      else bind_err (clean_id h ''site_id'' (jget s ''site_id'')) (\<lambda>site.
        bind_err (require (site = eh_site h) (Wrong_site site (eh_site h))) (\<lambda>_.
        bind_err (fencing_token (jget s ''fencing_token'')) (\<lambda>token.
        let operation = py_lower (py_strip (py_str rp (jget s ''operation''))) in
        bind_err (require (operation_pattern operation) Bad_operation) (\<lambda>_.
        bind_err (model_binding h operation (optional_text h (jget s ''model_revision''))
                   (map_option py_lower (optional_text h (jget s ''contract_hash'')))) (\<lambda>(model, contract).
        bind_err (lease_text h (jget s ''lease_expires_at'')) (\<lambda>lease.
        bind_err (clean_id h ''genstudio_job_id'' (jget s ''genstudio_job_id'')) (\<lambda>job.
        bind_err (clean_id h ''genstudio_attempt_id'' (jget s ''genstudio_attempt_id'')) (\<lambda>attempt.
        Inr (Some \<lparr>id_job = job, id_attempt = attempt,
                   id_key = py_strip (py_str rp (jget s ''idempotency_key'')), id_token = token,
                   id_site = site, id_operation = operation, id_model = model,
                   id_voice = optional_text h (jget s ''voice_revision''),
                   id_contract = contract, id_lease = lease\<rparr>))))))))))"

definition canonical_payload :: "jdict \<Rightarrow> identity \<Rightarrow> jdict" where
  "canonical_payload envelope i =
     dset ''contract_hash'' (jstr_opt (id_contract i))
      (dset ''voice_revision'' (jstr_opt (id_voice i))
       (dset ''model_revision'' (jstr_opt (id_model i))
        (dset ''operation'' (JStr (id_operation i))
         (dset ''site_id'' (JStr (id_site i))
          (dset ''genstudio_attempt_id'' (JStr (id_attempt i))
           (dset ''genstudio_job_id'' (JStr (id_job i))
            (filter (\<lambda>(k, v). k \<notin> set identity_fields \<and> k \<noteq> ''clientRequestId''
               \<and> k \<noteq> ''genstudio_execution'') envelope)))))))"

definition payload_hash :: "exec_host \<Rightarrow> jdict \<Rightarrow> identity \<Rightarrow> string" where
  "payload_hash h envelope i = eh_sha256 h (json_text (eh_float h) (JObj (canonical_payload envelope i)))"

definition evidence_of :: "exec_host \<Rightarrow> jdict \<Rightarrow> identity \<Rightarrow> evidence" where
  "evidence_of h envelope i =
     \<lparr>ev_identity = i, ev_idem = eh_sha256 h (id_key i), ev_payload = payload_hash h envelope i\<rparr>"

definition evidence_dict :: "evidence \<Rightarrow> jdict" where
  \<comment> \<open>the identity without its raw key, as it is written into the envelope\<close>
  "evidence_dict ev = (let i = ev_identity ev in
     [(''genstudio_job_id'', JStr (id_job i)), (''genstudio_attempt_id'', JStr (id_attempt i)),
      (''fencing_token'', JInt (id_token i)), (''site_id'', JStr (id_site i)),
      (''operation'', JStr (id_operation i)), (''model_revision'', jstr_opt (id_model i)),
      (''voice_revision'', jstr_opt (id_voice i)), (''contract_hash'', jstr_opt (id_contract i)),
      (''lease_expires_at'', jstr_opt (id_lease i)), (''idempotency_hash'', JStr (ev_idem ev)),
      (''payload_hash'', JStr (ev_payload ev)), (''authority'', JStr ''genstudio'')])"

section \<open>Accepting an assignment\<close>

definition fence_of :: "fence_db \<Rightarrow> string \<Rightarrow> fence_row option" where
  "fence_of db job = select_first (\<lambda>r. fr_job r = job) (fences db)"

definition attempt_of :: "fence_db \<Rightarrow> string \<Rightarrow> attempt_row option" where
  "attempt_of db attempt = select_first (\<lambda>r. ar_attempt r = attempt) (attempts db)"

definition idem_of :: "fence_db \<Rightarrow> string \<Rightarrow> string \<Rightarrow> idem_row option" where
  "idem_of db job idem = select_first (\<lambda>r. ir_job r = job \<and> ir_idem r = idem) (idems db)"

definition fence_check :: "evidence \<Rightarrow> fence_row option \<Rightarrow> identity_error + unit" where
  "fence_check ev fence = (let i = ev_identity ev in case fence of
       None \<Rightarrow> Inr ()
     | Some f \<Rightarrow>
         if id_token i < fr_highest f then Inl (Stale_token (id_token i) (fr_highest f))
         else if id_token i = fr_highest f \<and> (fr_attempt f \<noteq> id_attempt i
              \<or> fr_idem f \<noteq> ev_idem ev \<or> fr_payload f \<noteq> ev_payload ev) then Inl Token_reused
         else Inr ())"

definition attempt_check :: "time \<Rightarrow> evidence \<Rightarrow> attempt_row option \<Rightarrow> identity_error + unit" where
  "attempt_check now ev attempt = (let i = ev_identity ev in case attempt of
       None \<Rightarrow> Inr ()
     | Some a \<Rightarrow>
         if id_token i < ar_highest a then Inl (Attempt_stale (id_token i) (ar_highest a))
         else if ar_job a \<noteq> id_job i \<or> ar_idem a \<noteq> ev_idem ev \<or> ar_payload a \<noteq> ev_payload ev
         then Inl Attempt_reassigned
         else (case ar_lease a of
                 None \<Rightarrow> Inr ()
               | Some e \<Rightarrow> if e \<le> now then Inl Lease_not_revivable else Inr ()))"

definition idem_check :: "evidence \<Rightarrow> idem_row option \<Rightarrow> identity_error + string option" where
  "idem_check ev existing = (case existing of
       None \<Rightarrow> Inr None
     | Some r \<Rightarrow>
         if ir_attempt r \<noteq> id_attempt (ev_identity ev) \<or> ir_payload r \<noteq> ev_payload ev
         then Inl Key_reused else Inr (ir_batch r))"

definition advances :: "int \<Rightarrow> int option \<Rightarrow> bool" where
  "advances token highest = (case highest of None \<Rightarrow> True | Some h \<Rightarrow> h < token)"

definition write_fence :: "time \<Rightarrow> evidence \<Rightarrow> fence_db \<Rightarrow> fence_db" where
  "write_fence now ev db = (let i = ev_identity ev in
     if advances (id_token i) (map_option fr_highest (fence_of db (id_job i)))
     then db\<lparr>fences := upsert (\<lambda>r. fr_job r = id_job i)
            \<lparr>fr_job = id_job i, fr_highest = id_token i, fr_attempt = id_attempt i,
             fr_idem = ev_idem ev, fr_payload = ev_payload ev, fr_operation = id_operation i,
             fr_updated = now\<rparr>
            (\<lambda>r. r\<lparr>fr_highest := id_token i, fr_attempt := id_attempt i, fr_idem := ev_idem ev,
                   fr_payload := ev_payload ev, fr_operation := id_operation i, fr_updated := now\<rparr>)
            (fences db)\<rparr>
     else db)"

definition write_attempt :: "time \<Rightarrow> evidence \<Rightarrow> time option \<Rightarrow> fence_db \<Rightarrow> fence_db" where
  "write_attempt now ev lease db = (let i = ev_identity ev in
     if advances (id_token i) (map_option ar_highest (attempt_of db (id_attempt i)))
     then db\<lparr>attempts := upsert (\<lambda>r. ar_attempt r = id_attempt i)
            \<lparr>ar_attempt = id_attempt i, ar_job = id_job i, ar_highest = id_token i,
             ar_idem = ev_idem ev, ar_payload = ev_payload ev, ar_lease = lease, ar_updated = now\<rparr>
            (\<lambda>r. r\<lparr>ar_highest := id_token i, ar_lease := lease, ar_updated := now\<rparr>)
            (attempts db)\<rparr>
     else if lease \<noteq> None
     then db\<lparr>attempts := update_where (\<lambda>r. ar_attempt r = id_attempt i)
            (\<lambda>r. r\<lparr>ar_lease := lease, ar_updated := now\<rparr>) (attempts db)\<rparr>
     else db)"

definition write_idem :: "time \<Rightarrow> evidence \<Rightarrow> fence_db \<Rightarrow> fence_db" where
  "write_idem now ev db = (let i = ev_identity ev in
     db\<lparr>idems := upsert (\<lambda>r. ir_job r = id_job i \<and> ir_idem r = ev_idem ev)
        \<lparr>ir_job = id_job i, ir_idem = ev_idem ev, ir_attempt = id_attempt i,
         ir_payload = ev_payload ev, ir_batch = None, ir_accepted = now, ir_updated = now\<rparr>
        (\<lambda>r. r\<lparr>ir_updated := now\<rparr>) (idems db)\<rparr>)"

definition accept_assignment ::
  "time \<Rightarrow> evidence \<Rightarrow> time option \<Rightarrow> fence_db \<Rightarrow> identity_error + (string option \<times> fence_db)" where
  "accept_assignment now ev lease db = (let i = ev_identity ev in
     bind_err (fence_check ev (fence_of db (id_job i))) (\<lambda>_.
     bind_err (attempt_check now ev (attempt_of db (id_attempt i))) (\<lambda>_.
     bind_err (idem_check ev (idem_of db (id_job i) (ev_idem ev))) (\<lambda>replay.
     bind_err (require (id_token i < 2 ^ 63) Token_too_large) (\<lambda>_.
     Inr (replay, write_idem now ev (write_attempt now ev lease (write_fence now ev db))))))))"

definition lease_deadline :: "exec_host \<Rightarrow> time \<Rightarrow> identity \<Rightarrow> identity_error + time option" where
  "lease_deadline h now i = (case id_lease i of
       None \<Rightarrow> Inr None
     | Some t \<Rightarrow>
         if t = [] then Inr None
         else bind_err (lease_timestamp h (JStr t)) (\<lambda>(_, epoch).
                bind_err (require (now < epoch) Lease_in_past) (\<lambda>_. Inr (Some epoch))))"

definition normalized_envelope :: "exec_host \<Rightarrow> jdict \<Rightarrow> evidence \<Rightarrow> jdict" where
  "normalized_envelope h envelope ev = (let i = ev_identity ev in
     dset ''clientRequestId''
       (JStr (''genstudio:'' @ take 40 (eh_sha256 h (id_job i @ '':'' @ id_attempt i @ '':'' @ ev_idem ev))))
       (dset ''genstudio_execution'' (JObj (evidence_dict ev))
         (fold dpop identity_fields (dpop ''genstudio_execution'' envelope))))"

definition prepare ::
  "exec_host \<Rightarrow> time \<Rightarrow> jdict \<Rightarrow> fence_db \<Rightarrow> identity_error + (prepared \<times> fence_db)" where
  "prepare h now envelope db =
     bind_err (extract_identity h envelope) (\<lambda>found. case found of
       None \<Rightarrow> Inr (\<lparr>pr_envelope = envelope, pr_evidence = None, pr_replay = None\<rparr>, db)
     | Some i \<Rightarrow>
         bind_err (require (id_key i \<noteq> [] \<and> length (id_key i) \<le> 512) Key_length) (\<lambda>_.
         let ev = evidence_of h envelope i in
         bind_err (lease_deadline h now i) (\<lambda>lease.
         bind_err (accept_assignment now ev lease db) (\<lambda>(replay, db').
         Inr (\<lparr>pr_envelope = normalized_envelope h envelope ev, pr_evidence = Some ev,
               pr_replay = replay\<rparr>, db')))))"

section \<open>Binding the local batch, reading and renewing the lease\<close>

definition bind_local_batch :: "evidence option \<Rightarrow> string \<Rightarrow> time \<Rightarrow> fence_db \<Rightarrow> fence_db" where
  "bind_local_batch evidence batch now db = (case evidence of
       None \<Rightarrow> db
     | Some ev \<Rightarrow>
         db\<lparr>idems := update_where (\<lambda>r. ir_job r = id_job (ev_identity ev) \<and> ir_idem r = ev_idem ev)
              (\<lambda>r. r\<lparr>ir_batch := Some batch, ir_updated := now\<rparr>) (idems db)\<rparr>)"

definition lease_expired :: "exec_host \<Rightarrow> time \<Rightarrow> string option \<Rightarrow> identity_error + bool" where
  \<comment> \<open>the argument is the lease text of the evidence; \<open>Inl\<close> is the \<open>OverflowError\<close> of \<open>astimezone\<close>,
     which the handler of \<open>ExecutionIdentityError\<close> does not catch\<close>
  "lease_expired h now lease = (case lease of
       None \<Rightarrow> Inr False
     | Some t \<Rightarrow>
         if t = [] then Inr False
         else (case lease_timestamp h (JStr t) of
                 Inr (_, deadline) \<Rightarrow> Inr (deadline \<le> now)
               | Inl Lease_unrepresentable \<Rightarrow> Inl Lease_unrepresentable
               | Inl _ \<Rightarrow> Inr True))"

record renewal =
  rn_job :: string
  rn_attempt :: string
  rn_token :: int
  rn_lease :: string
  rn_batch :: "string option"

definition newest_binding :: "string \<Rightarrow> fence_db \<Rightarrow> string option" where
  "newest_binding attempt db =
     (case rev (sort_key ir_accepted (rev (filter (\<lambda>r. ir_attempt r = attempt) (idems db)))) of
        [] \<Rightarrow> None
      | r # _ \<Rightarrow> ir_batch r)"

definition renewal_check ::
  "time \<Rightarrow> string \<Rightarrow> string \<Rightarrow> int \<Rightarrow> attempt_row option \<Rightarrow> fence_row option
     \<Rightarrow> identity_error + unit" where
  "renewal_check now job attempt token found fence = (case (found, fence) of
       (Some a, Some f) \<Rightarrow>
         if ar_job a \<noteq> job \<or> ar_highest a \<noteq> token \<or> fr_attempt f \<noteq> attempt \<or> fr_highest f \<noteq> token
         then Inl Lease_of_stale_token
         else (case ar_lease a of
                 None \<Rightarrow> Inl No_renewable_lease
               | Some deadline \<Rightarrow> require (now < deadline) Lease_not_revivable)
     | _ \<Rightarrow> Inl Unknown_attempt)"

definition renew_lease ::
  "exec_host \<Rightarrow> time \<Rightarrow> jdict \<Rightarrow> fence_db \<Rightarrow> identity_error + (renewal \<times> fence_db)" where
  "renew_lease h now payload db =
     bind_err (clean_id h ''genstudio_job_id'' (jget payload ''genstudio_job_id'')) (\<lambda>job.
     bind_err (clean_id h ''genstudio_attempt_id'' (jget payload ''genstudio_attempt_id'')) (\<lambda>attempt.
     bind_err (fencing_token (jget payload ''fencing_token'')) (\<lambda>token.
     bind_err (lease_timestamp h (jget payload ''lease_expires_at'')) (\<lambda>(text, epoch).
     bind_err (require (now < epoch) Renewal_in_past) (\<lambda>_.
     bind_err (renewal_check now job attempt token (attempt_of db attempt) (fence_of db job)) (\<lambda>_.
     let db' = db\<lparr>attempts := update_where (\<lambda>r. ar_attempt r = attempt)
                    (\<lambda>r. r\<lparr>ar_lease := Some epoch, ar_updated := now\<rparr>) (attempts db)\<rparr>
     in Inr (\<lparr>rn_job = job, rn_attempt = attempt, rn_token = token, rn_lease = text,
              rn_batch = newest_binding attempt db'\<rparr>, db')))))))"

section \<open>Runs\<close>

datatype exec_op =
    Prepare time jdict
  | Bind_batch "evidence option" string time
  | Renew time jdict

fun op_clock :: "exec_op \<Rightarrow> time" where
  "op_clock (Prepare now _) = now"
| "op_clock (Bind_batch _ _ now) = now"
| "op_clock (Renew now _) = now"

definition committed :: "fence_db \<Rightarrow> 'e + ('a \<times> fence_db) \<Rightarrow> fence_db" where
  \<comment> \<open>an exception rolls back\<close>
  "committed db r = (case r of Inl _ \<Rightarrow> db | Inr (_, db') \<Rightarrow> db')"

fun exec_step :: "exec_host \<Rightarrow> exec_op \<Rightarrow> fence_db \<Rightarrow> fence_db" where
  "exec_step h (Prepare now envelope) db = committed db (prepare h now envelope db)"
| "exec_step h (Bind_batch ev batch now) db = bind_local_batch ev batch now db"
| "exec_step h (Renew now payload) db = committed db (renew_lease h now payload db)"

lemmas exec_write_defs = write_fence_def write_attempt_def write_idem_def Let_def

end
