(* ===== verification/Execution_Safety.thy ===== *)
theory Execution_Safety
  imports Execution_Identity
begin

text \<open>
  Lemmas on the assignment guard: what each write does to the rows a lookup returns, the
  invariant \<open>fence_ok\<close> of the three tables and its preservation, the fence that never moves back
  (an instance of \<open>monotone_quantity\<close>), and the lease row that nothing touches once it is over.
\<close>

interpretation fence_table: keyed_rows fr_job .
interpretation attempt_table: keyed_rows ar_attempt .
interpretation idem_table: keyed_rows "\<lambda>r. (ir_job r, ir_idem r)" .

section \<open>Lookups after a write\<close>

lemma fence_of_attempts [simp]: "fence_of (db\<lparr>attempts := x\<rparr>) j = fence_of db j"
  and fence_of_idems [simp]: "fence_of (db\<lparr>idems := y\<rparr>) j = fence_of db j"
  by (simp_all add: fence_of_def)

lemma attempt_of_fences [simp]: "attempt_of (db\<lparr>fences := x\<rparr>) j = attempt_of db j"
  and attempt_of_idems [simp]: "attempt_of (db\<lparr>idems := y\<rparr>) j = attempt_of db j"
  by (simp_all add: attempt_of_def)

lemma idem_of_fences [simp]: "idem_of (db\<lparr>fences := x\<rparr>) j k = idem_of db j k"
  and idem_of_attempts [simp]: "idem_of (db\<lparr>attempts := y\<rparr>) j k = idem_of db j k"
  by (simp_all add: idem_of_def)

lemma fence_of_key: "fence_of db j = Some f \<Longrightarrow> fr_job f = j"
  by (auto simp: fence_of_def dest: select_first_Some)

lemma attempt_of_key: "attempt_of db j = Some a \<Longrightarrow> ar_attempt a = j"
  by (auto simp: attempt_of_def dest: select_first_Some)

lemma idem_of_key: "idem_of db j k = Some r \<Longrightarrow> ir_job r = j \<and> ir_idem r = k"
  by (auto simp: idem_of_def dest: select_first_Some)

definition new_fence :: "time \<Rightarrow> evidence \<Rightarrow> fence_row" where
  "new_fence now ev = (let i = ev_identity ev in
     \<lparr>fr_job = id_job i, fr_highest = id_token i, fr_attempt = id_attempt i,
      fr_idem = ev_idem ev, fr_payload = ev_payload ev, fr_operation = id_operation i,
      fr_updated = now\<rparr>)"

lemma new_fence_fields [simp]:
  "fr_job (new_fence now ev) = id_job (ev_identity ev)"
  "fr_highest (new_fence now ev) = id_token (ev_identity ev)"
  "fr_attempt (new_fence now ev) = id_attempt (ev_identity ev)"
  "fr_idem (new_fence now ev) = ev_idem ev"
  "fr_payload (new_fence now ev) = ev_payload ev"
  by (simp_all add: new_fence_def Let_def)

lemma fence_of_write_fence:
  "fence_of (write_fence now ev db) j =
     (if j = id_job (ev_identity ev)
         \<and> advances (id_token (ev_identity ev)) (map_option fr_highest (fence_of db j))
      then Some (new_fence now ev) else fence_of db j)"
proof (cases "advances (id_token (ev_identity ev))
    (map_option fr_highest (fence_of db (id_job (ev_identity ev))))")
  case False
  then show ?thesis by (auto simp: write_fence_def Let_def)
next
  case True
  let ?i = "ev_identity ev"
  let ?f = "\<lambda>r. r\<lparr>fr_highest := id_token ?i, fr_attempt := id_attempt ?i, fr_idem := ev_idem ev,
                   fr_payload := ev_payload ev, fr_operation := id_operation ?i, fr_updated := now\<rparr>"
  have w: "write_fence now ev db
      = db\<lparr>fences := upsert (\<lambda>r. fr_job r = id_job ?i) (new_fence now ev) ?f (fences db)\<rparr>"
    using True by (simp add: write_fence_def Let_def new_fence_def)
  have "?f r = new_fence now ev" if "fr_job r = id_job ?i" for r
    using that by (cases r) (simp add: new_fence_def Let_def)
  then have "(case fence_of db (id_job ?i) of None \<Rightarrow> new_fence now ev | Some r \<Rightarrow> ?f r) = new_fence now ev"
    by (auto split: option.split dest: fence_of_key)
  moreover have "fence_of (write_fence now ev db) j
      = (if j = id_job ?i
         then Some (case fence_of db (id_job ?i) of None \<Rightarrow> new_fence now ev | Some r \<Rightarrow> ?f r)
         else fence_of db j)"
    unfolding w fence_of_def by (simp add: fence_table.lookup_upsert)
  ultimately show ?thesis using True by auto
qed

lemma attempt_of_write_fence [simp]: "attempt_of (write_fence now ev db) a = attempt_of db a"
  and idem_of_write_fence [simp]: "idem_of (write_fence now ev db) j k = idem_of db j k"
  by (simp_all add: write_fence_def Let_def)

lemma fence_of_write_attempt [simp]: "fence_of (write_attempt now ev l db) j = fence_of db j"
  and idem_of_write_attempt [simp]: "idem_of (write_attempt now ev l db) j k = idem_of db j k"
  by (simp_all add: write_attempt_def Let_def)

lemma fence_of_write_idem [simp]: "fence_of (write_idem now ev db) j = fence_of db j"
  and attempt_of_write_idem [simp]: "attempt_of (write_idem now ev db) a = attempt_of db a"
  by (simp_all add: write_idem_def Let_def)

definition new_attempt :: "time \<Rightarrow> evidence \<Rightarrow> time option \<Rightarrow> attempt_row" where
  "new_attempt now ev lease = (let i = ev_identity ev in
     \<lparr>ar_attempt = id_attempt i, ar_job = id_job i, ar_highest = id_token i,
      ar_idem = ev_idem ev, ar_payload = ev_payload ev, ar_lease = lease, ar_updated = now\<rparr>)"

lemma new_attempt_fields [simp]:
  "ar_attempt (new_attempt now ev lease) = id_attempt (ev_identity ev)"
  "ar_job (new_attempt now ev lease) = id_job (ev_identity ev)"
  "ar_highest (new_attempt now ev lease) = id_token (ev_identity ev)"
  "ar_idem (new_attempt now ev lease) = ev_idem ev"
  "ar_payload (new_attempt now ev lease) = ev_payload ev"
  "ar_lease (new_attempt now ev lease) = lease"
  by (simp_all add: new_attempt_def Let_def)

lemma attempt_of_write_attempt:
  "attempt_of (write_attempt now ev lease db) a =
     (if a \<noteq> id_attempt (ev_identity ev) then attempt_of db a
      else case attempt_of db a of
          None \<Rightarrow> Some (new_attempt now ev lease)
        | Some r \<Rightarrow>
            if ar_highest r < id_token (ev_identity ev)
            then Some (r\<lparr>ar_highest := id_token (ev_identity ev), ar_lease := lease, ar_updated := now\<rparr>)
            else if lease \<noteq> None then Some (r\<lparr>ar_lease := lease, ar_updated := now\<rparr>)
            else Some r)"
  by (auto simp: write_attempt_def Let_def new_attempt_def attempt_of_def advances_def
      attempt_table.lookup_upsert attempt_table.lookup_update_where split: option.splits)

lemma idem_of_table: "idem_of db j k = select_first (\<lambda>r. (ir_job r, ir_idem r) = (j, k)) (idems db)"
  by (simp add: idem_of_def)

definition new_idem :: "time \<Rightarrow> evidence \<Rightarrow> idem_row" where
  "new_idem now ev = (let i = ev_identity ev in
     \<lparr>ir_job = id_job i, ir_idem = ev_idem ev, ir_attempt = id_attempt i,
      ir_payload = ev_payload ev, ir_batch = None, ir_accepted = now, ir_updated = now\<rparr>)"

lemma new_idem_fields [simp]:
  "ir_job (new_idem now ev) = id_job (ev_identity ev)"
  "ir_idem (new_idem now ev) = ev_idem ev"
  "ir_attempt (new_idem now ev) = id_attempt (ev_identity ev)"
  "ir_payload (new_idem now ev) = ev_payload ev"
  "ir_batch (new_idem now ev) = None"
  "ir_accepted (new_idem now ev) = now"
  by (simp_all add: new_idem_def Let_def)

lemma write_idem_pair:
  "write_idem now ev db =
     db\<lparr>idems := upsert (\<lambda>r. (ir_job r, ir_idem r) = (id_job (ev_identity ev), ev_idem ev))
        (new_idem now ev) (\<lambda>r. r\<lparr>ir_updated := now\<rparr>) (idems db)\<rparr>"
  by (simp add: write_idem_def new_idem_def Let_def)

lemma idem_of_write_idem:
  "idem_of (write_idem now ev db) j k =
     (if (j, k) = (id_job (ev_identity ev), ev_idem ev)
      then Some (case idem_of db j k of None \<Rightarrow> new_idem now ev | Some r \<Rightarrow> r\<lparr>ir_updated := now\<rparr>)
      else idem_of db j k)"
  unfolding write_idem_pair idem_of_table
  by (simp add: idem_table.lookup_upsert del: prod.inject)

lemma bind_local_batch_pair:
  "bind_local_batch (Some ev) batch now db =
     db\<lparr>idems := update_where (\<lambda>r. (ir_job r, ir_idem r) = (id_job (ev_identity ev), ev_idem ev))
        (\<lambda>r. r\<lparr>ir_batch := Some batch, ir_updated := now\<rparr>) (idems db)\<rparr>"
  by (simp add: bind_local_batch_def)

lemma idem_of_bind:
  "idem_of (bind_local_batch (Some ev) batch now db) j k =
     (if (j, k) = (id_job (ev_identity ev), ev_idem ev)
      then map_option (\<lambda>r. r\<lparr>ir_batch := Some batch, ir_updated := now\<rparr>) (idem_of db j k)
      else idem_of db j k)"
  unfolding bind_local_batch_pair idem_of_table by (simp add: idem_table.lookup_update_where del: prod.inject)

lemma fence_of_bind [simp]: "fence_of (bind_local_batch ev batch now db) j = fence_of db j"
  and attempt_of_bind [simp]: "attempt_of (bind_local_batch ev batch now db) a = attempt_of db a"
  by (simp_all add: bind_local_batch_def split: option.splits)

section \<open>What a successful operation says\<close>

lemma accept_assignment_Inr:
  "accept_assignment now ev lease db = Inr (replay, db') \<longleftrightarrow>
     fence_check ev (fence_of db (id_job (ev_identity ev))) = Inr ()
     \<and> attempt_check now ev (attempt_of db (id_attempt (ev_identity ev))) = Inr ()
     \<and> idem_check ev (idem_of db (id_job (ev_identity ev)) (ev_idem ev)) = Inr replay
     \<and> id_token (ev_identity ev) < 2 ^ 63
     \<and> db' = write_idem now ev (write_attempt now ev lease (write_fence now ev db))"
  by (auto simp: accept_assignment_def Let_def bind_err_Inr)

lemma prepare_Inr:
  "prepare h now envelope db = Inr (p, db') \<longleftrightarrow>
     (extract_identity h envelope = Inr None
        \<and> p = \<lparr>pr_envelope = envelope, pr_evidence = None, pr_replay = None\<rparr> \<and> db' = db)
     \<or> (\<exists>i lease replay. extract_identity h envelope = Inr (Some i) \<and> id_key i \<noteq> []
        \<and> length (id_key i) \<le> 512 \<and> lease_deadline h now i = Inr lease
        \<and> accept_assignment now (evidence_of h envelope i) lease db = Inr (replay, db')
        \<and> p = \<lparr>pr_envelope = normalized_envelope h envelope (evidence_of h envelope i),
               pr_evidence = Some (evidence_of h envelope i), pr_replay = replay\<rparr>)"
  by (auto simp: prepare_def bind_err_Inr Let_def split: option.splits)

lemma prepare_accepted:
  assumes "prepare h now envelope db = Inr (p, db')" and "pr_evidence p = Some ev"
  obtains lease where "accept_assignment now ev lease db = Inr (pr_replay p, db')"
    and "ev = evidence_of h envelope (ev_identity ev)"
    and "extract_identity h envelope = Inr (Some (ev_identity ev))"
    and "lease_deadline h now (ev_identity ev) = Inr lease"
  using assms by (auto simp: prepare_Inr evidence_of_def)

lemma renew_lease_Inr:
  "renew_lease h now payload db = Inr (r, db') \<longleftrightarrow>
     (\<exists>job attempt token text epoch.
        clean_id h ''genstudio_job_id'' (jget payload ''genstudio_job_id'') = Inr job
        \<and> clean_id h ''genstudio_attempt_id'' (jget payload ''genstudio_attempt_id'') = Inr attempt
        \<and> fencing_token (jget payload ''fencing_token'') = Inr token
        \<and> lease_timestamp h (jget payload ''lease_expires_at'') = Inr (text, epoch)
        \<and> now < epoch
        \<and> renewal_check now job attempt token (attempt_of db attempt) (fence_of db job) = Inr ()
        \<and> db' = db\<lparr>attempts := update_where (\<lambda>r. ar_attempt r = attempt)
                    (\<lambda>r. r\<lparr>ar_lease := Some epoch, ar_updated := now\<rparr>) (attempts db)\<rparr>
        \<and> r = \<lparr>rn_job = job, rn_attempt = attempt, rn_token = token, rn_lease = text,
               rn_batch = newest_binding attempt db'\<rparr>)"
  by (auto simp: renew_lease_def bind_err_Inr Let_def split: prod.splits)

lemma renewal_check_Inr:
  "renewal_check now job attempt token found fence = Inr u \<longleftrightarrow>
     (\<exists>a f deadline. found = Some a \<and> fence = Some f \<and> ar_job a = job \<and> ar_highest a = token
        \<and> fr_attempt f = attempt \<and> fr_highest f = token \<and> ar_lease a = Some deadline
        \<and> now < deadline)"
  by (auto simp: renewal_check_def split: option.splits if_splits)

lemma fencing_token_pos: "fencing_token v = Inr t \<Longrightarrow> 1 \<le> t"
  by (auto simp: fencing_token_def split: int_result.splits if_splits)

lemma attempt_of_renewed:
  "attempt_of (db\<lparr>attempts := update_where (\<lambda>r. ar_attempt r = attempt)
       (\<lambda>r. r\<lparr>ar_lease := Some epoch, ar_updated := now\<rparr>) (attempts db)\<rparr>) a =
     (if a = attempt
      then map_option (\<lambda>r. r\<lparr>ar_lease := Some epoch, ar_updated := now\<rparr>) (attempt_of db a)
      else attempt_of db a)"
  by (simp add: attempt_of_def attempt_table.lookup_update_where)

section \<open>The tables after an accepted assignment\<close>

lemma fence_check_Inr:
  "fence_check ev fence = Inr () \<longleftrightarrow> (\<forall>f. fence = Some f \<longrightarrow>
     fr_highest f < id_token (ev_identity ev)
     \<or> (fr_highest f = id_token (ev_identity ev) \<and> fr_attempt f = id_attempt (ev_identity ev)
        \<and> fr_idem f = ev_idem ev \<and> fr_payload f = ev_payload ev))"
  by (auto simp: fence_check_def Let_def split: option.splits)

lemma attempt_check_Inr:
  "attempt_check now ev found = Inr () \<longleftrightarrow> (\<forall>a. found = Some a \<longrightarrow>
     ar_highest a \<le> id_token (ev_identity ev) \<and> ar_job a = id_job (ev_identity ev)
     \<and> ar_idem a = ev_idem ev \<and> ar_payload a = ev_payload ev
     \<and> (\<forall>e. ar_lease a = Some e \<longrightarrow> now < e))"
  by (auto simp: attempt_check_def Let_def split: option.splits)

lemma idem_check_Inr:
  "idem_check ev found = Inr replay \<longleftrightarrow>
     (found = None \<and> replay = None)
     \<or> (\<exists>r. found = Some r \<and> ir_attempt r = id_attempt (ev_identity ev)
          \<and> ir_payload r = ev_payload ev \<and> replay = ir_batch r)"
  by (auto simp: idem_check_def split: option.splits)

definition assigned_fence :: "evidence \<Rightarrow> fence_row \<Rightarrow> bool" where
  "assigned_fence ev f \<longleftrightarrow> fr_highest f = id_token (ev_identity ev)
     \<and> fr_attempt f = id_attempt (ev_identity ev) \<and> fr_idem f = ev_idem ev \<and> fr_payload f = ev_payload ev"

definition assigned_attempt :: "evidence \<Rightarrow> attempt_row \<Rightarrow> bool" where
  "assigned_attempt ev a \<longleftrightarrow> ar_highest a = id_token (ev_identity ev)
     \<and> ar_job a = id_job (ev_identity ev) \<and> ar_idem a = ev_idem ev \<and> ar_payload a = ev_payload ev"

definition assigned_idem :: "evidence \<Rightarrow> idem_row \<Rightarrow> bool" where
  "assigned_idem ev r \<longleftrightarrow> ir_attempt r = id_attempt (ev_identity ev) \<and> ir_payload r = ev_payload ev"

lemmas assigned_defs = assigned_fence_def assigned_attempt_def assigned_idem_def

lemma accepted_fence:
  assumes "accept_assignment now ev lease db = Inr (replay, db')"
  shows "\<exists>f. fence_of db' (id_job (ev_identity ev)) = Some f \<and> assigned_fence ev f"
    and "j \<noteq> id_job (ev_identity ev) \<Longrightarrow> fence_of db' j = fence_of db j"
    and "fence_of db j = Some f \<Longrightarrow> \<exists>f'. fence_of db' j = Some f' \<and> fr_highest f \<le> fr_highest f'"
  using assms
  by (cases "fence_of db (id_job (ev_identity ev))";
      force simp: accept_assignment_Inr fence_check_Inr fence_of_write_fence advances_def
        assigned_fence_def)+

lemma accepted_attempt:
  assumes "accept_assignment now ev lease db = Inr (replay, db')"
  shows "\<exists>a. attempt_of db' (id_attempt (ev_identity ev)) = Some a \<and> assigned_attempt ev a"
    and "n \<noteq> id_attempt (ev_identity ev) \<Longrightarrow> attempt_of db' n = attempt_of db n"
    and "attempt_of db (id_attempt (ev_identity ev)) = Some a \<Longrightarrow>
           ar_job a = id_job (ev_identity ev) \<and> ar_idem a = ev_idem ev \<and> ar_payload a = ev_payload ev"
  using assms
  by (cases "attempt_of db (id_attempt (ev_identity ev))";
      force simp: accept_assignment_Inr attempt_check_Inr attempt_of_write_attempt
        assigned_attempt_def)+

lemma accepted_idem:
  assumes "accept_assignment now ev lease db = Inr (replay, db')"
  shows "\<exists>r. idem_of db' (id_job (ev_identity ev)) (ev_idem ev) = Some r \<and> assigned_idem ev r
             \<and> ir_batch r = replay"
    and "(j, k) \<noteq> (id_job (ev_identity ev), ev_idem ev) \<Longrightarrow> idem_of db' j k = idem_of db j k"
    and "idem_of db (id_job (ev_identity ev)) (ev_idem ev) = Some r \<Longrightarrow> assigned_idem ev r \<and> ir_batch r = replay"
proof -
  let ?found = "idem_of db (id_job (ev_identity ev)) (ev_idem ev)"
  have chk: "idem_check ev ?found = Inr replay"
    and db': "db' = write_idem now ev (write_attempt now ev lease (write_fence now ev db))"
    using assms by (simp_all add: accept_assignment_Inr)
  show "\<exists>r. idem_of db' (id_job (ev_identity ev)) (ev_idem ev) = Some r \<and> assigned_idem ev r
             \<and> ir_batch r = replay"
    using chk by (cases ?found) (auto simp: db' idem_check_Inr idem_of_write_idem assigned_idem_def)
  show "(j, k) \<noteq> (id_job (ev_identity ev), ev_idem ev) \<Longrightarrow> idem_of db' j k = idem_of db j k"
    unfolding db' idem_of_write_idem by auto
  show "?found = Some r \<Longrightarrow> assigned_idem ev r \<and> ir_batch r = replay"
    using chk by (auto simp: idem_check_Inr assigned_idem_def)
qed

section \<open>The invariant of the tables\<close>

definition keys_ok :: "fence_db \<Rightarrow> bool" where
  "keys_ok db \<longleftrightarrow> distinct (map fr_job (fences db)) \<and> distinct (map ar_attempt (attempts db))
     \<and> distinct (map (\<lambda>r. (ir_job r, ir_idem r)) (idems db))"

definition fences_ok :: "fence_db \<Rightarrow> bool" where
  \<comment> \<open>the newest fence of a job is the token of the attempt it names\<close>
  "fences_ok db \<longleftrightarrow> (\<forall>j f. fence_of db j = Some f \<longrightarrow>
     1 \<le> fr_highest f \<and> fr_highest f < 2 ^ 63
     \<and> (\<exists>a. attempt_of db (fr_attempt f) = Some a \<and> ar_job a = j \<and> ar_highest a = fr_highest f
          \<and> ar_idem a = fr_idem f \<and> ar_payload a = fr_payload f))"

definition attempts_ok :: "fence_db \<Rightarrow> bool" where
  \<comment> \<open>no attempt is ahead of its job, and its idempotency row is its own\<close>
  "attempts_ok db \<longleftrightarrow> (\<forall>n a. attempt_of db n = Some a \<longrightarrow>
     (\<exists>f. fence_of db (ar_job a) = Some f \<and> ar_highest a \<le> fr_highest f)
     \<and> (\<exists>r. idem_of db (ar_job a) (ar_idem a) = Some r \<and> ir_attempt r = n \<and> ir_payload r = ar_payload a))"

definition idems_ok :: "fence_db \<Rightarrow> bool" where
  "idems_ok db \<longleftrightarrow> (\<forall>j k r. idem_of db j k = Some r \<longrightarrow>
     (\<exists>a. attempt_of db (ir_attempt r) = Some a \<and> ar_job a = j \<and> ar_idem a = k))"

definition fence_ok :: "fence_db \<Rightarrow> bool" where
  "fence_ok db \<longleftrightarrow> keys_ok db \<and> fences_ok db \<and> attempts_ok db \<and> idems_ok db"

lemma fences_okD:
  "fences_ok db \<Longrightarrow> fence_of db j = Some f \<Longrightarrow>
     1 \<le> fr_highest f \<and> fr_highest f < 2 ^ 63
     \<and> (\<exists>a. attempt_of db (fr_attempt f) = Some a \<and> ar_job a = j \<and> ar_highest a = fr_highest f
          \<and> ar_idem a = fr_idem f \<and> ar_payload a = fr_payload f)"
  unfolding fences_ok_def by blast

lemma attempts_okD:
  "attempts_ok db \<Longrightarrow> attempt_of db n = Some a \<Longrightarrow>
     (\<exists>f. fence_of db (ar_job a) = Some f \<and> ar_highest a \<le> fr_highest f)
     \<and> (\<exists>r. idem_of db (ar_job a) (ar_idem a) = Some r \<and> ir_attempt r = n \<and> ir_payload r = ar_payload a)"
  unfolding attempts_ok_def by blast

lemma idems_okD:
  "idems_ok db \<Longrightarrow> idem_of db j k = Some r \<Longrightarrow>
     \<exists>a. attempt_of db (ir_attempt r) = Some a \<and> ar_job a = j \<and> ar_idem a = k"
  unfolding idems_ok_def by blast

lemma fence_okD:
  assumes "fence_ok db"
  shows "keys_ok db" and "fences_ok db" and "attempts_ok db" and "idems_ok db"
  using assms by (simp_all add: fence_ok_def)

lemma keys_ok_accept:
  assumes "keys_ok db" and "accept_assignment now ev lease db = Inr (replay, db')"
  shows "keys_ok db'"
proof -
  let ?d1 = "write_fence now ev db" and ?d2 = "write_attempt now ev lease (write_fence now ev db)"
  have "keys_ok ?d1"
    using assms(1)
    by (auto simp: keys_ok_def write_fence_def Let_def intro!: fence_table.distinct_upsert)
  then have "keys_ok ?d2"
    by (auto simp: keys_ok_def write_attempt_def Let_def attempt_table.keys_update_where
        intro!: attempt_table.distinct_upsert)
  moreover have "distinct (map (\<lambda>r. (ir_job r, ir_idem r)) (idems (write_idem now ev d)))"
    if "distinct (map (\<lambda>r. (ir_job r, ir_idem r)) (idems d))" for d
    using idem_table.distinct_upsert [of "idems d" "\<lambda>r. r\<lparr>ir_updated := now\<rparr>" "new_idem now ev"
        "(id_job (ev_identity ev), ev_idem ev)"] that
    by (simp add: write_idem_pair)
  ultimately show ?thesis
    using assms(2) by (auto simp: keys_ok_def accept_assignment_Inr write_idem_pair)
qed

lemma fences_ok_accept:
  assumes ok: "fence_ok db" and pos: "1 \<le> id_token (ev_identity ev)"
    and acc: "accept_assignment now ev lease db = Inr (replay, db')"
  shows "fences_ok db'"
  unfolding fences_ok_def
proof (intro allI impI)
  fix j f assume f: "fence_of db' j = Some f"
  show "1 \<le> fr_highest f \<and> fr_highest f < 2 ^ 63
     \<and> (\<exists>a. attempt_of db' (fr_attempt f) = Some a \<and> ar_job a = j \<and> ar_highest a = fr_highest f
          \<and> ar_idem a = fr_idem f \<and> ar_payload a = fr_payload f)"
  proof (cases "j = id_job (ev_identity ev)")
    case True
    have "assigned_fence ev f" using accepted_fence(1) [OF acc] f True by auto
    moreover have "id_token (ev_identity ev) < 2 ^ 63" using acc by (simp add: accept_assignment_Inr)
    ultimately show ?thesis
      using accepted_attempt(1) [OF acc] True pos by (auto simp: assigned_defs)
  next
    case False
    then have "fence_of db j = Some f" using accepted_fence(2) [OF acc] f by simp
    with ok obtain a where a: "attempt_of db (fr_attempt f) = Some a" "ar_job a = j"
      and r: "1 \<le> fr_highest f \<and> fr_highest f < 2 ^ 63 \<and> ar_highest a = fr_highest f
          \<and> ar_idem a = fr_idem f \<and> ar_payload a = fr_payload f"
      using fences_okD [OF fence_okD(2) [OF ok]] by blast
    have "fr_attempt f \<noteq> id_attempt (ev_identity ev)"
      using accepted_attempt(3) [OF acc] a False by auto
    then show ?thesis using accepted_attempt(2) [OF acc] a r by auto
  qed
qed

lemma attempts_ok_accept:
  assumes ok: "fence_ok db" and acc: "accept_assignment now ev lease db = Inr (replay, db')"
  shows "attempts_ok db'"
  unfolding attempts_ok_def
proof (intro allI impI)
  fix n a assume n: "attempt_of db' n = Some a"
  show "(\<exists>f. fence_of db' (ar_job a) = Some f \<and> ar_highest a \<le> fr_highest f)
     \<and> (\<exists>r. idem_of db' (ar_job a) (ar_idem a) = Some r \<and> ir_attempt r = n \<and> ir_payload r = ar_payload a)"
  proof (cases "n = id_attempt (ev_identity ev)")
    case True
    then have "assigned_attempt ev a" using accepted_attempt(1) [OF acc] n by auto
    then show ?thesis
      using accepted_fence(1) [OF acc] accepted_idem(1) [OF acc] True by (auto simp: assigned_defs)
  next
    case False
    then have "attempt_of db n = Some a" using accepted_attempt(2) [OF acc] n by simp
    with ok obtain f r where f: "fence_of db (ar_job a) = Some f" "ar_highest a \<le> fr_highest f"
      and r: "idem_of db (ar_job a) (ar_idem a) = Some r" "ir_attempt r = n" "ir_payload r = ar_payload a"
      using attempts_okD [OF fence_okD(3) [OF ok]] by blast
    have "(ar_job a, ar_idem a) \<noteq> (id_job (ev_identity ev), ev_idem ev)"
      using accepted_idem(3) [OF acc] r False by (auto simp: assigned_idem_def)
    then have "idem_of db' (ar_job a) (ar_idem a) = Some r" using accepted_idem(2) [OF acc] r by metis
    then show ?thesis using accepted_fence(3) [OF acc f(1)] f(2) r by force
  qed
qed

lemma idems_ok_accept:
  assumes ok: "fence_ok db" and acc: "accept_assignment now ev lease db = Inr (replay, db')"
  shows "idems_ok db'"
  unfolding idems_ok_def
proof (intro allI impI)
  fix j k r assume r: "idem_of db' j k = Some r"
  show "\<exists>a. attempt_of db' (ir_attempt r) = Some a \<and> ar_job a = j \<and> ar_idem a = k"
  proof (cases "(j, k) = (id_job (ev_identity ev), ev_idem ev)")
    case True
    then show ?thesis
      using accepted_idem(1) [OF acc] accepted_attempt(1) [OF acc] r by (auto simp: assigned_defs)
  next
    case False
    then have "idem_of db j k = Some r" using accepted_idem(2) [OF acc False] r by simp
    with ok obtain a where a: "attempt_of db (ir_attempt r) = Some a" "ar_job a = j" "ar_idem a = k"
      using idems_okD [OF fence_okD(4) [OF ok]] by blast
    then have "ir_attempt r \<noteq> id_attempt (ev_identity ev)"
      using accepted_attempt(3) [OF acc] False by auto
    then show ?thesis using accepted_attempt(2) [OF acc] a by auto
  qed
qed

lemma token_pos: "extract_identity h envelope = Inr (Some i) \<Longrightarrow> 1 \<le> id_token i"
  by (auto simp: extract_identity_def Let_def bind_err_Inr split: if_splits dest: fencing_token_pos)

lemma fence_ok_accept:
  "fence_ok db \<Longrightarrow> 1 \<le> id_token (ev_identity ev) \<Longrightarrow>
     accept_assignment now ev lease db = Inr (replay, db') \<Longrightarrow> fence_ok db'"
  unfolding fence_ok_def [of db']
  by (intro conjI keys_ok_accept [OF fence_okD(1)] fences_ok_accept attempts_ok_accept idems_ok_accept)

lemma fence_ok_prepare:
  assumes "fence_ok db" and "prepare h now envelope db = Inr (p, db')"
  shows "fence_ok db'"
proof (cases "pr_evidence p")
  case None
  with assms show ?thesis by (auto simp: prepare_Inr)
next
  case (Some ev)
  obtain lease where acc: "accept_assignment now ev lease db = Inr (pr_replay p, db')"
    and ex: "extract_identity h envelope = Inr (Some (ev_identity ev))"
    by (rule prepare_accepted [OF assms(2) Some])
  show ?thesis by (rule fence_ok_accept [OF assms(1) token_pos [OF ex] acc])
qed

lemma fence_ok_bind:
  assumes ok: "fence_ok db"
  shows "fence_ok (bind_local_batch evidence batch now db)"
proof (cases evidence)
  case None
  with ok show ?thesis by (simp add: bind_local_batch_def)
next
  case (Some ev)
  let ?d = "bind_local_batch (Some ev) batch now db"
  have idem: "idem_of ?d j k = map_option (\<lambda>r. if (j, k) = (id_job (ev_identity ev), ev_idem ev)
      then r\<lparr>ir_batch := Some batch, ir_updated := now\<rparr> else r) (idem_of db j k)" for j k
    unfolding idem_of_bind by (cases "idem_of db j k") auto
  have "keys_ok ?d"
    using fence_okD(1) [OF ok]
    by (simp add: keys_ok_def bind_local_batch_pair idem_table.keys_update_where del: prod.inject)
  moreover have "fences_ok ?d" using fence_okD(2) [OF ok] by (simp add: fences_ok_def)
  moreover have "attempts_ok ?d"
    unfolding attempts_ok_def
  proof (intro allI impI)
    fix n a assume "attempt_of ?d n = Some a"
    then have "attempt_of db n = Some a" by simp
    from attempts_okD [OF fence_okD(3) [OF ok] this] obtain f r where
      "fence_of db (ar_job a) = Some f" "ar_highest a \<le> fr_highest f"
      "idem_of db (ar_job a) (ar_idem a) = Some r" "ir_attempt r = n" "ir_payload r = ar_payload a"
      by blast
    then show "(\<exists>f. fence_of ?d (ar_job a) = Some f \<and> ar_highest a \<le> fr_highest f)
        \<and> (\<exists>r. idem_of ?d (ar_job a) (ar_idem a) = Some r \<and> ir_attempt r = n \<and> ir_payload r = ar_payload a)"
      by (simp add: idem)
  qed
  moreover have "idems_ok ?d"
    unfolding idems_ok_def
  proof (intro allI impI)
    fix j k r assume "idem_of ?d j k = Some r"
    then obtain r0 where "idem_of db j k = Some r0" and "ir_attempt r = ir_attempt r0"
      by (auto simp: idem split: if_splits)
    then show "\<exists>a. attempt_of ?d (ir_attempt r) = Some a \<and> ar_job a = j \<and> ar_idem a = k"
      using idems_okD [OF fence_okD(4) [OF ok]] by auto
  qed
  ultimately show ?thesis by (simp add: Some fence_ok_def)
qed

definition relet :: "string \<Rightarrow> time \<Rightarrow> time \<Rightarrow> fence_db \<Rightarrow> fence_db" where
  \<comment> \<open>the UPDATE of a renewal\<close>
  "relet attempt epoch now db = db\<lparr>attempts := update_where (\<lambda>r. ar_attempt r = attempt)
     (\<lambda>r. r\<lparr>ar_lease := Some epoch, ar_updated := now\<rparr>) (attempts db)\<rparr>"

lemma attempt_of_relet:
  "attempt_of (relet attempt epoch now db) n =
     map_option (\<lambda>r. if n = attempt then r\<lparr>ar_lease := Some epoch, ar_updated := now\<rparr> else r)
       (attempt_of db n)"
  unfolding relet_def attempt_of_renewed by (cases "attempt_of db n") auto

lemma relet_others [simp]:
  "fence_of (relet attempt epoch now db) j = fence_of db j"
  "idem_of (relet attempt epoch now db) j k = idem_of db j k"
  "idems (relet attempt epoch now db) = idems db"
  by (simp_all add: relet_def)

lemma attempt_of_relet_same:
  "attempt_of db n = Some a \<Longrightarrow> \<exists>a'. attempt_of (relet attempt epoch now db) n = Some a'
     \<and> ar_job a' = ar_job a \<and> ar_highest a' = ar_highest a \<and> ar_idem a' = ar_idem a
     \<and> ar_payload a' = ar_payload a"
  by (simp add: attempt_of_relet)

lemma fence_ok_relet:
  assumes ok: "fence_ok db"
  shows "fence_ok (relet attempt epoch now db)" (is "fence_ok ?d")
proof -
  have "keys_ok ?d"
    using fence_okD(1) [OF ok] by (simp add: keys_ok_def relet_def attempt_table.keys_update_where)
  moreover have "fences_ok ?d"
    unfolding fences_ok_def
  proof (intro allI impI)
    fix j f assume "fence_of ?d j = Some f"
    then have "fence_of db j = Some f" by simp
    from fences_okD [OF fence_okD(2) [OF ok] this]
    show "1 \<le> fr_highest f \<and> fr_highest f < 2 ^ 63
        \<and> (\<exists>a. attempt_of ?d (fr_attempt f) = Some a \<and> ar_job a = j \<and> ar_highest a = fr_highest f
             \<and> ar_idem a = fr_idem f \<and> ar_payload a = fr_payload f)"
      using attempt_of_relet_same by metis
  qed
  moreover have "attempts_ok ?d"
    unfolding attempts_ok_def
  proof (intro allI impI)
    fix n a assume "attempt_of ?d n = Some a"
    then obtain a0 where a0: "attempt_of db n = Some a0"
      and same: "ar_job a = ar_job a0" "ar_idem a = ar_idem a0" "ar_highest a = ar_highest a0"
        "ar_payload a = ar_payload a0"
      by (auto simp: attempt_of_relet)
    show "(\<exists>f. fence_of ?d (ar_job a) = Some f \<and> ar_highest a \<le> fr_highest f)
        \<and> (\<exists>r. idem_of ?d (ar_job a) (ar_idem a) = Some r \<and> ir_attempt r = n \<and> ir_payload r = ar_payload a)"
      using attempts_okD [OF fence_okD(3) [OF ok] a0] by (simp add: same)
  qed
  moreover have "idems_ok ?d"
    unfolding idems_ok_def
  proof (intro allI impI)
    fix j k r assume "idem_of ?d j k = Some r"
    then have "idem_of db j k = Some r" by simp
    from idems_okD [OF fence_okD(4) [OF ok] this]
    show "\<exists>a. attempt_of ?d (ir_attempt r) = Some a \<and> ar_job a = j \<and> ar_idem a = k"
      using attempt_of_relet_same by metis
  qed
  ultimately show ?thesis by (simp add: fence_ok_def)
qed

lemma renewed_relet:
  "renew_lease h now payload db = Inr (r, db') \<Longrightarrow>
     \<exists>epoch. now < epoch \<and> db' = relet (rn_attempt r) epoch now db"
  by (auto simp: renew_lease_Inr relet_def)

lemma exec_step_cases:
  obtains (same) "exec_step h e db = db"
  | (accepted) now envelope ev lease replay where "e = Prepare now envelope"
      and "1 \<le> id_token (ev_identity ev)"
      and "accept_assignment now ev lease db = Inr (replay, exec_step h e db)"
  | (bound) ev batch now where "e = Bind_batch (Some ev) batch now"
      and "exec_step h e db = bind_local_batch (Some ev) batch now db"
  | (renewed) now payload r epoch where "e = Renew now payload"
      and "renew_lease h now payload db = Inr (r, exec_step h e db)"
      and "exec_step h e db = relet (rn_attempt r) epoch now db"
proof (cases e)
  case (Prepare now envelope)
  show ?thesis
  proof (cases "prepare h now envelope db")
    case (Inl x)
    then have "exec_step h e db = db" by (simp add: Prepare committed_def)
    then show ?thesis by (rule same)
  next
    case (Inr y)
    obtain p db' where y: "y = (p, db')" by (cases y) auto
    have st: "exec_step h e db = db'" by (simp add: Prepare committed_def Inr y)
    show ?thesis
    proof (cases "pr_evidence p")
      case None
      then have "db' = db" using Inr by (auto simp: prepare_Inr y)
      then show ?thesis using st same by simp
    next
      case (Some ev)
      obtain lease where acc: "accept_assignment now ev lease db = Inr (pr_replay p, db')"
        and ex: "extract_identity h envelope = Inr (Some (ev_identity ev))"
        by (rule prepare_accepted [OF Inr [unfolded y] Some])
      show ?thesis by (rule accepted [OF Prepare token_pos [OF ex] acc [folded st]])
    qed
  qed
next
  case (Bind_batch evidence batch now)
  then show ?thesis
    using same bound by (cases evidence) (auto simp: bind_local_batch_def)
next
  case (Renew now payload)
  show ?thesis
  proof (cases "renew_lease h now payload db")
    case (Inl x)
    then have "exec_step h e db = db" by (simp add: Renew committed_def)
    then show ?thesis by (rule same)
  next
    case (Inr y)
    obtain r db' where y: "y = (r, db')" by (cases y) auto
    have st: "exec_step h e db = db'" by (simp add: Renew committed_def Inr y)
    obtain epoch where "db' = relet (rn_attempt r) epoch now db"
      using renewed_relet [OF Inr [unfolded y]] by blast
    then show ?thesis using renewed [OF Renew, of r epoch] Inr st by (simp add: y)
  qed
qed

lemma fence_ok_step: "fence_ok db \<Longrightarrow> fence_ok (exec_step h e db)"
  by (cases e db rule: exec_step_cases [where h = h])
     (auto intro: fence_ok_accept fence_ok_relet simp: fence_ok_bind)

lemma fence_ok_empty: "fence_ok empty_fence_db"
  by (simp add: fence_ok_def keys_ok_def fences_ok_def attempts_ok_def idems_ok_def
      empty_fence_db_def fence_of_def attempt_of_def idem_of_def select_first_def)

interpretation exec_runs: invariant_machine "exec_step h" fence_ok empty_fence_db for h
  by unfold_locales (simp_all add: fence_ok_step fence_ok_empty)

section \<open>The fence of a job never moves back\<close>

definition fence_level :: "string \<Rightarrow> fence_db \<Rightarrow> int option" where
  "fence_level job db = map_option fr_highest (fence_of db job)"

lemma fence_level_step: "fence_level job db \<le> fence_level job (exec_step h e db)"
proof (cases e db rule: exec_step_cases [where h = h])
  case (accepted now envelope ev lease replay)
  then show ?thesis
    using accepted_fence(3) [OF accepted(3), of job]
    by (cases "fence_of db job") (auto simp: fence_level_def less_eq_option_def)
qed (simp_all add: fence_level_def)

interpretation fence_clock: monotone_quantity "exec_step h" "fence_level job" for h job
  by unfold_locales (rule fence_level_step)

section \<open>An expired lease\<close>

lemma expired_lease_refused:
  assumes "attempt_of db n = Some a" and "ar_lease a = Some e" and "e \<le> now"
  shows "accept_assignment now ev lease db = Inr x \<Longrightarrow> id_attempt (ev_identity ev) \<noteq> n"
    and "renew_lease h now payload db = Inr (r, db') \<Longrightarrow> rn_attempt r \<noteq> n"
proof -
  show "id_attempt (ev_identity ev) \<noteq> n" if "accept_assignment now ev lease db = Inr x"
    using that assms by (cases x) (auto simp: accept_assignment_Inr attempt_check_Inr)
  show "rn_attempt r \<noteq> n" if "renew_lease h now payload db = Inr (r, db')"
    using that assms by (auto simp: renew_lease_Inr renewal_check_Inr)
qed

lemma expired_lease_step:
  assumes a: "attempt_of db n = Some a" "ar_lease a = Some e" and now: "e \<le> op_clock x"
  shows "attempt_of (exec_step h x db) n = Some a"
proof (cases x db rule: exec_step_cases [where h = h])
  case (accepted now envelope ev lease replay)
  have "n \<noteq> id_attempt (ev_identity ev)"
    using expired_lease_refused(1) [OF a _ accepted(3)] now accepted(1) by auto
  then show ?thesis using accepted_attempt(2) [OF accepted(3)] a by simp
next
  case (renewed now payload r epoch)
  have "rn_attempt r \<noteq> n"
    using expired_lease_refused(2) [OF a _ renewed(2)] now renewed(1) by auto
  then show ?thesis using a by (simp add: renewed(3) attempt_of_relet)
qed (simp_all add: a)

lemma expired_lease_run:
  assumes "attempt_of db n = Some a" and "ar_lease a = Some e" and "\<forall>x\<in>set xs. e \<le> op_clock x"
  shows "attempt_of (fold (exec_step h) xs db) n = Some a"
  using assms by (induction xs arbitrary: db) (auto simp: expired_lease_step)

section \<open>A key stays with its attempt and payload\<close>

definition key_owner :: "string \<Rightarrow> string \<Rightarrow> fence_db \<Rightarrow> (string \<times> string) option" where
  "key_owner job idem db = map_option (\<lambda>r. (ir_attempt r, ir_payload r)) (idem_of db job idem)"

definition bound_batch :: "string \<Rightarrow> string \<Rightarrow> fence_db \<Rightarrow> string option" where
  "bound_batch job idem db = Option.bind (idem_of db job idem) ir_batch"

definition binds_key :: "string \<Rightarrow> string \<Rightarrow> exec_op \<Rightarrow> bool" where
  "binds_key job idem e = (case e of
       Bind_batch (Some ev) _ _ \<Rightarrow> id_job (ev_identity ev) = job \<and> ev_idem ev = idem
     | _ \<Rightarrow> False)"

lemma key_owner_accept:
  assumes acc: "accept_assignment now ev lease db = Inr (replay, db')"
    and own: "key_owner job idem db = Some w"
  shows "key_owner job idem db' = Some w" and "bound_batch job idem db' = bound_batch job idem db"
proof -
  obtain r where r: "idem_of db job idem = Some r" using own by (auto simp: key_owner_def)
  have "key_owner job idem db' = Some w \<and> bound_batch job idem db' = bound_batch job idem db"
  proof (cases "(job, idem) = (id_job (ev_identity ev), ev_idem ev)")
    case True
    then show ?thesis
      using accepted_idem(1,3) [OF acc] own r
      by (auto simp: key_owner_def bound_batch_def assigned_idem_def)
  next
    case False
    then show ?thesis using accepted_idem(2) [OF acc False] own by (simp add: key_owner_def bound_batch_def)
  qed
  then show "key_owner job idem db' = Some w" and "bound_batch job idem db' = bound_batch job idem db" by auto
qed

lemma key_owner_step:
  assumes own: "key_owner job idem db = Some w"
  shows "key_owner job idem (exec_step h e db) = Some w
      \<and> (\<not> binds_key job idem e \<longrightarrow> bound_batch job idem (exec_step h e db) = bound_batch job idem db)"
proof (cases e db rule: exec_step_cases [where h = h])
  case (accepted now envelope ev lease replay)
  then show ?thesis using key_owner_accept [OF accepted(3) own] by simp
next
  case (bound ev batch now)
  with own show ?thesis
    by (auto simp: binds_key_def key_owner_def bound_batch_def idem_of_bind simp del: exec_step.simps)
next
  case (renewed now payload r epoch)
  with own show ?thesis by (simp add: key_owner_def bound_batch_def)
qed (use own in simp)

lemma key_owner_run:
  assumes "key_owner job idem db = Some w"
  shows "key_owner job idem (fold (exec_step h) xs db) = Some w"
    and "(\<forall>e\<in>set xs. \<not> binds_key job idem e) \<Longrightarrow>
           bound_batch job idem (fold (exec_step h) xs db) = bound_batch job idem db"
  using assms by (induction xs arbitrary: db) (auto simp: key_owner_step)

lemma replay_of_owner:
  assumes acc: "accept_assignment now ev lease db = Inr (replay, db')"
    and own: "key_owner (id_job (ev_identity ev)) (ev_idem ev) db = Some w"
  shows "w = (id_attempt (ev_identity ev), ev_payload ev)"
    and "replay = bound_batch (id_job (ev_identity ev)) (ev_idem ev) db"
proof -
  obtain r where r: "idem_of db (id_job (ev_identity ev)) (ev_idem ev) = Some r"
    and w: "w = (ir_attempt r, ir_payload r)"
    using own by (auto simp: key_owner_def)
  note a = accepted_idem(3) [OF acc r]
  show "w = (id_attempt (ev_identity ev), ev_payload ev)" using a by (simp add: w assigned_idem_def)
  show "replay = bound_batch (id_job (ev_identity ev)) (ev_idem ev) db"
    using a by (simp add: bound_batch_def r)
qed

lemma owner_after_accept:
  "accept_assignment now ev lease db = Inr (replay, db') \<Longrightarrow>
     key_owner (id_job (ev_identity ev)) (ev_idem ev) db' = Some (id_attempt (ev_identity ev), ev_payload ev)"
  using accepted_idem(1) by (fastforce simp: key_owner_def assigned_idem_def)

end
