(* ===== verification/Execution_Theorems.thy ===== *)
theory Execution_Theorems
  imports Execution_Safety
begin

text \<open>
  The properties of the assignment guard, with the concrete host, envelopes and runs on which
  they are evaluated.  The demonstration host keeps text as its own digest, which is injective,
  and knows three timestamps.
\<close>

section \<open>A concrete host\<close>

definition demo_iso :: "string \<Rightarrow> iso_result" where
  "demo_iso s = (if s = ''2030-01-01T00:00:00+00:00'' then Aware_time s 1000
     else if s = ''2031-01-01T00:00:00+00:00'' then Aware_time s 2000
     else if s = ''2030-01-01'' then Naive_time else Not_iso)"

definition demo_exec_host :: exec_host where
  "demo_exec_host = \<lparr>eh_site = ''local-site'', eh_sha256 = (\<lambda>s. nat_text (length s)), eh_iso = demo_iso,
     eh_repr = (\<lambda>_. ''?''), eh_float = (\<lambda>_. ''0.5'')\<rparr>"

definition demo_envelope :: "string \<Rightarrow> int \<Rightarrow> jdict" where
  "demo_envelope attempt token =
     [(''modality'', JStr ''voice''), (''genstudio_execution'', JObj
        [(''genstudio_job_id'', JStr ''job-1''), (''genstudio_attempt_id'', JStr attempt),
         (''idempotency_key'', JStr (''key-'' @ attempt)), (''fencing_token'', JInt token),
         (''site_id'', JStr ''local-site''), (''operation'', JStr ''audio.speech''),
         (''lease_expires_at'', JStr ''2030-01-01T00:00:00Z'')])]"

definition demo_renewal :: jdict where
  "demo_renewal = [(''genstudio_job_id'', JStr ''job-1''), (''genstudio_attempt_id'', JStr ''a1''),
     (''fencing_token'', JInt 5), (''lease_expires_at'', JStr ''2031-01-01T00:00:00Z'')]"

definition demo_identity :: "int \<Rightarrow> identity" where
  "demo_identity token = \<lparr>id_job = ''job-1'', id_attempt = ''a1'', id_key = ''key-a1'',
     id_token = token, id_site = ''local-site'', id_operation = ''audio.speech'', id_model = None,
     id_voice = None, id_contract = None, id_lease = Some ''2030-01-01T00:00:00+00:00''\<rparr>"

definition demo_evidence :: "int \<Rightarrow> evidence" where
  "demo_evidence token = \<lparr>ev_identity = demo_identity token, ev_idem = ''6'', ev_payload = ''190''\<rparr>"

definition demo_prepared :: "int \<Rightarrow> string option \<Rightarrow> prepared" where
  "demo_prepared token replay =
     \<lparr>pr_envelope = normalized_envelope demo_exec_host (demo_envelope ''a1'' token) (demo_evidence token),
      pr_evidence = Some (demo_evidence token), pr_replay = replay\<rparr>"

definition demo_lease_row :: attempt_row where
  "demo_lease_row = \<lparr>ar_attempt = ''a1'', ar_job = ''job-1'', ar_highest = 5, ar_idem = ''6'',
     ar_payload = ''190'', ar_lease = Some 1000, ar_updated = 10\<rparr>"

definition demo_fence_db :: fence_db where
  "demo_fence_db =
     \<lparr>fences = [\<lparr>fr_job = ''job-1'', fr_highest = 5, fr_attempt = ''a1'', fr_idem = ''6'',
        fr_payload = ''190'', fr_operation = ''audio.speech'', fr_updated = 10\<rparr>],
      idems = [\<lparr>ir_job = ''job-1'', ir_idem = ''6'', ir_attempt = ''a1'', ir_payload = ''190'',
        ir_batch = None, ir_accepted = 10, ir_updated = 10\<rparr>],
      attempts = [demo_lease_row]\<rparr>"

lemma demo_extracted:
  "extract_identity demo_exec_host (demo_envelope ''a1'' 5) = Inr (Some (demo_identity 5))
   \<and> extract_identity demo_exec_host (demo_envelope ''a1'' 6) = Inr (Some (demo_identity 6))
   \<and> extract_identity demo_exec_host (demo_envelope ''a0'' 4) =
       Inr (Some ((demo_identity 4)\<lparr>id_attempt := ''a0'', id_key := ''key-a0''\<rparr>))
   \<and> evidence_of demo_exec_host (demo_envelope ''a1'' 5) (demo_identity 5) = demo_evidence 5
   \<and> evidence_of demo_exec_host (demo_envelope ''a1'' 6) (demo_identity 6) = demo_evidence 6
   \<and> lease_deadline demo_exec_host 10 (demo_identity 5) = Inr (Some 1000)
   \<and> lease_deadline demo_exec_host 10 (demo_identity 6) = Inr (Some 1000)"
  by code_simp

lemma demo_first_accepted:
  "prepare demo_exec_host 10 (demo_envelope ''a1'' 5) empty_fence_db
     = Inr (demo_prepared 5 None, demo_fence_db)"
proof -
  have "accept_assignment 10 (demo_evidence 5) (Some 1000) empty_fence_db = Inr (None, demo_fence_db)"
    by code_simp
  then show ?thesis
    using demo_extracted unfolding prepare_Inr by (simp add: demo_prepared_def demo_identity_def)
qed

lemma demo_first_evidence: "pr_evidence (demo_prepared 5 None) = Some (demo_evidence 5)"
  by (simp add: demo_prepared_def)

section \<open>Invariant\<close>

text \<open>C10: Every database of the guard that is reached from the empty one, by any sequence of
  prepare, bind and renew with any payloads and clocks, satisfies the invariant: primary keys
  are unique, the newest fence of a job is the token of the attempt it names, no attempt is ahead
  of its job, and idempotency rows and attempts correspond one to one.\<close>

theorem guard_runs_ok: "fence_ok (fold (exec_step h) es empty_fence_db)"
  by (rule exec_runs.reachable_holds)

section \<open>Fencing\<close>

text \<open>C7: After an assignment of a job was accepted with some fencing token, no assignment of that
  job with a smaller token is ever accepted again and no lease of that job is renewed under a
  smaller token, whatever operations run in between.\<close>

theorem stale_token_rejected_forever:
  assumes acc: "prepare h now envelope db = Inr (p, db1)" "pr_evidence p = Some ev"
    and run: "db2 = fold (exec_step h) es db1"
    and later: "extract_identity h envelope' = Inr (Some i)" "id_job i = id_job (ev_identity ev)"
      "id_token i < id_token (ev_identity ev)"
  shows "(\<exists>e. prepare h now' envelope' db2 = Inl e)
     \<and> (\<forall>r db3. renew_lease h now' payload db2 = Inr (r, db3) \<and> rn_job r = id_job (ev_identity ev)
          \<longrightarrow> id_token (ev_identity ev) \<le> rn_token r)"
proof -
  obtain lease where a: "accept_assignment now ev lease db = Inr (pr_replay p, db1)"
    by (rule prepare_accepted [OF acc])
  have "fence_level (id_job (ev_identity ev)) db1 = Some (id_token (ev_identity ev))"
    using accepted_fence(1) [OF a] by (auto simp: fence_level_def assigned_fence_def)
  then have "Some (id_token (ev_identity ev)) \<le> fence_level (id_job (ev_identity ev)) db2"
    unfolding run by (metis fence_clock.run_mono)
  then obtain f where f: "fence_of db2 (id_job (ev_identity ev)) = Some f"
    and le: "id_token (ev_identity ev) \<le> fr_highest f"
    by (cases "fence_of db2 (id_job (ev_identity ev))") (auto simp: fence_level_def less_eq_option_def)
  have "\<exists>e. prepare h now' envelope' db2 = Inl e"
  proof (cases "prepare h now' envelope' db2")
    case (Inr y)
    obtain q db4 where y: "y = (q, db4)" by (cases y) auto
    have "\<exists>lease. accept_assignment now' (evidence_of h envelope' i) lease db2 = Inr (pr_replay q, db4)"
      using Inr later(1) by (auto simp: y prepare_Inr)
    then have False
      using f le later by (auto simp: accept_assignment_Inr fence_check_Inr evidence_of_def)
    then show ?thesis ..
  qed blast
  moreover have "id_token (ev_identity ev) \<le> rn_token r"
    if "renew_lease h now' payload db2 = Inr (r, db3)" "rn_job r = id_job (ev_identity ev)" for r db3
    using that f le by (auto simp: renew_lease_Inr renewal_check_Inr)
  ultimately show ?thesis by blast
qed

theorem stale_token_rejected_forever_witness:
  "\<exists>e. prepare demo_exec_host 20 (demo_envelope ''a0'' 4)
     (fold (exec_step demo_exec_host) [Renew 11 demo_renewal] demo_fence_db) = Inl e"
  using stale_token_rejected_forever [OF demo_first_accepted demo_first_evidence refl
      demo_extracted [THEN conjunct2, THEN conjunct2, THEN conjunct1],
      where es = "[Renew 11 demo_renewal]" and now' = 20]
  by (simp add: demo_evidence_def demo_identity_def)

section \<open>Idempotency\<close>

text \<open>C8: Once an assignment was accepted and its local batch bound, any later accepted
  assignment with the same job and idempotency key, after any operations that do not bind that key
  to another batch, is the same attempt with the same payload and is answered with that very
  batch: no second batch is created for it.\<close>

theorem replay_returns_bound_batch:
  assumes acc: "prepare h now envelope db = Inr (p, db1)" "pr_evidence p = Some ev"
    and run: "db2 = fold (exec_step h) es (bind_local_batch (Some ev) batch now1 db1)"
    and only: "\<forall>e\<in>set es. \<not> binds_key (id_job (ev_identity ev)) (ev_idem ev) e"
    and again: "prepare h now2 envelope' db2 = Inr (p', db3)" "pr_evidence p' = Some ev'"
      "id_job (ev_identity ev') = id_job (ev_identity ev)" "ev_idem ev' = ev_idem ev"
  shows "pr_replay p' = Some batch \<and> id_attempt (ev_identity ev') = id_attempt (ev_identity ev)
     \<and> ev_payload ev' = ev_payload ev"
proof -
  let ?j = "id_job (ev_identity ev)" and ?k = "ev_idem ev"
  let ?w = "(id_attempt (ev_identity ev), ev_payload ev)"
  obtain l where a: "accept_assignment now ev l db = Inr (pr_replay p, db1)"
    by (rule prepare_accepted [OF acc])
  obtain l' where a': "accept_assignment now2 ev' l' db2 = Inr (pr_replay p', db3)"
    by (rule prepare_accepted [OF again(1,2)])
  have "key_owner ?j ?k db1 = Some ?w" by (rule owner_after_accept [OF a])
  then have own: "key_owner ?j ?k (bind_local_batch (Some ev) batch now1 db1) = Some ?w"
    and bound: "bound_batch ?j ?k (bind_local_batch (Some ev) batch now1 db1) = Some batch"
    by (auto simp: key_owner_def bound_batch_def idem_of_bind)
  have "key_owner ?j ?k db2 = Some ?w" and "bound_batch ?j ?k db2 = Some batch"
    using key_owner_run [OF own, where h = h and xs = es] only bound by (simp_all add: run)
  then show ?thesis
    using replay_of_owner [OF a'] again(3,4) by simp
qed

definition demo_bound_db :: fence_db where
  "demo_bound_db = bind_local_batch (Some (demo_evidence 5)) ''batch-9'' 10 demo_fence_db"

theorem replay_returns_bound_batch_witness:
  "\<exists>db3. prepare demo_exec_host 10 (demo_envelope ''a1'' 6) demo_bound_db
     = Inr (demo_prepared 6 (Some ''batch-9''), db3)"
proof -
  let ?r = "accept_assignment 10 (demo_evidence 6) (Some 1000) demo_bound_db"
  have "\<not> isl ?r" by code_simp
  then have "?r = Inr (fst (projr ?r), snd (projr ?r))" by (cases ?r) auto
  then have p: "prepare demo_exec_host 10 (demo_envelope ''a1'' 6) demo_bound_db
      = Inr (demo_prepared 6 (fst (projr ?r)), snd (projr ?r))"
    using demo_extracted unfolding prepare_Inr by (simp add: demo_prepared_def demo_identity_def)
  have e: "pr_evidence (demo_prepared 6 x) = Some (demo_evidence 6)" for x
    by (simp add: demo_prepared_def)
  have b: "demo_bound_db = fold (exec_step demo_exec_host) []
      (bind_local_batch (Some (demo_evidence 5)) ''batch-9'' 10 demo_fence_db)"
    by (simp add: demo_bound_db_def)
  have same: "id_job (ev_identity (demo_evidence 6)) = id_job (ev_identity (demo_evidence 5))"
    "ev_idem (demo_evidence 6) = ev_idem (demo_evidence 5)"
    by (simp_all add: demo_evidence_def demo_identity_def)
  have "fst (projr ?r) = Some ''batch-9''"
    using replay_returns_bound_batch [OF demo_first_accepted demo_first_evidence b _ p e same]
    by (simp add: demo_prepared_def)
  with p show ?thesis by metis
qed

section \<open>Leases\<close>

text \<open>C9: A lease that ran out stays over: while the clock of every operation is past the deadline
  recorded for an attempt, no operation changes the row of that attempt, no assignment for it is
  accepted and its lease is not renewed.\<close>

theorem expired_lease_never_revived:
  assumes row: "attempt_of db n = Some a" "ar_lease a = Some e"
    and clocks: "\<forall>x\<in>set es. e \<le> op_clock x" and now: "e \<le> now"
  shows "attempt_of (fold (exec_step h) es db) n = Some a
     \<and> (\<forall>envelope p db' ev. prepare h now envelope (fold (exec_step h) es db) = Inr (p, db')
          \<and> pr_evidence p = Some ev \<longrightarrow> id_attempt (ev_identity ev) \<noteq> n)
     \<and> (\<forall>payload r db'. renew_lease h now payload (fold (exec_step h) es db) = Inr (r, db')
          \<longrightarrow> rn_attempt r \<noteq> n)"
proof -
  have kept: "attempt_of (fold (exec_step h) es db) n = Some a"
    by (rule expired_lease_run [OF row clocks])
  moreover have "id_attempt (ev_identity ev) \<noteq> n"
    if p: "prepare h now envelope (fold (exec_step h) es db) = Inr (p, db')" "pr_evidence p = Some ev"
    for envelope p db' ev
  proof -
    obtain l where "accept_assignment now ev l (fold (exec_step h) es db) = Inr (pr_replay p, db')"
      by (rule prepare_accepted [OF p])
    then show ?thesis by (rule expired_lease_refused(1) [OF kept row(2) now])
  qed
  ultimately show ?thesis using expired_lease_refused(2) [OF kept row(2) now] by blast
qed

theorem expired_lease_never_revived_witness:
  "attempt_of (fold (exec_step demo_exec_host) [Renew 1001 demo_renewal] demo_fence_db) ''a1''
     = Some demo_lease_row"
proof -
  have "attempt_of demo_fence_db ''a1'' = Some demo_lease_row" and "ar_lease demo_lease_row = Some 1000"
    by (simp_all add: attempt_of_def select_first_def demo_fence_db_def demo_lease_row_def)
  then show ?thesis
    using expired_lease_never_revived [where h = demo_exec_host and es = "[Renew 1001 demo_renewal]"
        and now = 1001] by simp
qed

lemma one_idem_of_attempt:
  assumes ok: "fence_ok db" and a: "attempt_of db n = Some a"
  obtains r where "filter (\<lambda>r. ir_attempt r = n) (idems db) = [r]"
    and "idem_of db (ar_job a) (ar_idem a) = Some r"
proof -
  obtain r where r: "idem_of db (ar_job a) (ar_idem a) = Some r" "ir_attempt r = n"
    using attempts_okD [OF fence_okD(3) [OF ok] a] by blast
  have dist: "distinct (map (\<lambda>r. (ir_job r, ir_idem r)) (idems db))"
    using fence_okD(1) [OF ok] by (simp add: keys_ok_def)
  have in_r: "r \<in> set (idems db)" using r(1) by (auto simp: idem_of_def dest: select_first_Some)
  have "s = r" if s: "s \<in> set (idems db)" "ir_attempt s = n" for s
  proof -
    have "idem_of db (ir_job s) (ir_idem s) = Some s"
      using idem_table.find_row_unique [OF dist s(1)] by (simp add: idem_of_table)
    from idems_okD [OF fence_okD(4) [OF ok] this] s(2) a
    have "(ir_job s, ir_idem s) = (ar_job a, ar_idem a)" by auto
    then show ?thesis
      using \<open>idem_of db (ir_job s) (ir_idem s) = Some s\<close> r(1) by simp
  qed
  moreover have "distinct (idems db)" using dist by (simp add: distinct_map)
  ultimately have "filter (\<lambda>r. ir_attempt r = n) (idems db) = filter (\<lambda>s. s = r) (idems db)"
    using r(2) by (intro filter_cong) auto
  also have "\<dots> = [r]"
    using \<open>distinct (idems db)\<close> in_r by (rule filter_eq_single)
  finally show ?thesis using that r(1) by blast
qed

text \<open>C31: In every reachable database a renewal succeeds only for the token that is the newest
  fence of its job, held by that very attempt, whose recorded lease is still running; it moves the
  deadline of that attempt to a later instant than the clock, changes no fence and no idempotency
  row, and reports the batch bound to the one key of the attempt.\<close>

theorem renewal_only_for_current_holder:
  assumes db: "db = fold (exec_step h) es empty_fence_db"
    and renew: "renew_lease h now payload db = Inr (r, db')"
  shows "\<exists>a deadline epoch. attempt_of db (rn_attempt r) = Some a \<and> ar_job a = rn_job r
     \<and> ar_lease a = Some deadline \<and> now < deadline \<and> now < epoch
     \<and> fence_level (rn_job r) db = Some (rn_token r)
     \<and> map_option fr_attempt (fence_of db (rn_job r)) = Some (rn_attempt r)
     \<and> attempt_of db' (rn_attempt r) = Some (a\<lparr>ar_lease := Some epoch, ar_updated := now\<rparr>)
     \<and> fences db' = fences db \<and> idems db' = idems db
     \<and> rn_batch r = bound_batch (rn_job r) (ar_idem a) db"
proof -
  have ok: "fence_ok db" unfolding db by (rule exec_runs.reachable_holds)
  obtain job attempt token epoch
    where chk: "renewal_check now job attempt token (attempt_of db attempt) (fence_of db job) = Inr ()"
      and e: "now < epoch" and db0: "db' = relet attempt epoch now db"
      and names: "job = rn_job r" "attempt = rn_attempt r" "token = rn_token r"
      and batch: "rn_batch r = newest_binding (rn_attempt r) db'"
    using renew unfolding renew_lease_Inr by (elim exE conjE) (rule that; simp add: relet_def)
  note db' = db0 [unfolded names]
  obtain a f deadline where a: "attempt_of db (rn_attempt r) = Some a" and f: "fence_of db (rn_job r) = Some f"
    and rest: "ar_job a = rn_job r" "fr_attempt f = rn_attempt r" "fr_highest f = rn_token r"
      "ar_lease a = Some deadline" "now < deadline"
    using chk unfolding renewal_check_Inr names by metis
  obtain row where "filter (\<lambda>x. ir_attempt x = rn_attempt r) (idems db) = [row]"
    and "idem_of db (ar_job a) (ar_idem a) = Some row"
    by (rule one_idem_of_attempt [OF ok a])
  then have "newest_binding (rn_attempt r) db' = bound_batch (rn_job r) (ar_idem a) db"
    by (simp add: newest_binding_def db' bound_batch_def rest)
  then show ?thesis
    using e a f rest batch
    by (intro exI [of _ a] exI [of _ deadline] exI [of _ epoch])
       (simp add: attempt_of_relet fence_level_def db', simp add: relet_def)
qed

theorem renewal_only_for_current_holder_witness:
  "fence_level ''job-1'' (fold (exec_step demo_exec_host) [Prepare 10 (demo_envelope ''a1'' 5)] empty_fence_db) = Some 5"
proof -
  have db: "demo_fence_db = fold (exec_step demo_exec_host) [Prepare 10 (demo_envelope ''a1'' 5)] empty_fence_db"
    by (simp add: demo_first_accepted committed_def)
  let ?r = "renew_lease demo_exec_host 20 demo_renewal demo_fence_db"
  have v: "\<not> isl ?r \<and> rn_job (fst (projr ?r)) = ''job-1'' \<and> rn_token (fst (projr ?r)) = 5"
    by code_simp
  then have "?r = Inr (fst (projr ?r), snd (projr ?r))" by (cases ?r) auto
  from renewal_only_for_current_holder [OF db this] v show ?thesis unfolding db by auto
qed

section \<open>What the payload fingerprint covers\<close>

lemma map_of_filter_keys:
  "map_of (filter (\<lambda>(k, v). P k) xs) k = (if P k then map_of xs k else None)"
  by (induction xs) auto

lemma dget_canonical_payload:
  "dget (canonical_payload envelope i) k =
     (if k = ''contract_hash'' then Some (jstr_opt (id_contract i))
      else if k = ''voice_revision'' then Some (jstr_opt (id_voice i))
      else if k = ''model_revision'' then Some (jstr_opt (id_model i))
      else if k = ''operation'' then Some (JStr (id_operation i))
      else if k = ''site_id'' then Some (JStr (id_site i))
      else if k = ''genstudio_attempt_id'' then Some (JStr (id_attempt i))
      else if k = ''genstudio_job_id'' then Some (JStr (id_job i))
      else if k \<in> set identity_fields \<or> k = ''clientRequestId'' \<or> k = ''genstudio_execution'' then None
      else dget envelope k)"
  unfolding canonical_payload_def dget_dset map_of_filter_keys by simp

lemma distinct_canonical_payload:
  "distinct (map fst envelope) \<Longrightarrow> distinct (map fst (canonical_payload envelope i))"
  unfolding canonical_payload_def
  by (intro distinct_update) (induction envelope, auto)

text \<open>The payload fingerprint depends only on what is dispatched: two envelopes that agree on
  every key outside the identity fields, whatever the order of their keys, and whose identities
  agree on job, attempt, site, operation, revisions and contract have the same fingerprint, although
  fencing token, idempotency key and lease may differ.  So an attempt re-sent under a newer fence is
  not mistaken for another payload.\<close>

theorem fingerprint_ignores_transport:
  assumes "distinct (map fst env1)" and "distinct (map fst env2)"
    and payload: "\<forall>k. k \<notin> set identity_fields \<and> k \<noteq> ''clientRequestId'' \<and> k \<noteq> ''genstudio_execution''
      \<longrightarrow> dget env1 k = dget env2 k"
    and same: "id_job i1 = id_job i2" "id_attempt i1 = id_attempt i2" "id_site i1 = id_site i2"
      "id_operation i1 = id_operation i2" "id_model i1 = id_model i2" "id_voice i1 = id_voice i2"
      "id_contract i1 = id_contract i2"
  shows "payload_hash h env1 i1 = payload_hash h env2 i2"
proof -
  have "dget (canonical_payload env1 i1) k = dget (canonical_payload env2 i2) k" for k
    unfolding dget_canonical_payload same using payload by simp
  then show ?thesis
    unfolding payload_hash_def
    using json_text_key_order [OF distinct_canonical_payload [OF assms(1)] distinct_canonical_payload [OF assms(2)]]
    by simp
qed

theorem fingerprint_ignores_transport_witness:
  "payload_hash demo_exec_host (demo_envelope ''a1'' 5) (demo_identity 5)
     = payload_hash demo_exec_host (demo_envelope ''a1'' 9) (demo_identity 9)"
  by (rule fingerprint_ignores_transport) (simp_all add: demo_envelope_def demo_identity_def)

section \<open>The transcription binding\<close>

lemma list_all_is_hex_lower: "list_all is_hex s \<Longrightarrow> list_all is_hex (py_lower s)"
  by (auto simp: list_all_iff py_lower_def is_hex_def py_lower_char_def Let_def)

lemma clean_text_JStr [simp]: "clean_text h (JStr s) n = take n (py_strip s)"
  by (simp add: clean_text_def)

lemma is_hex_not_space: "is_hex c \<Longrightarrow> \<not> py_space c"
  by (auto simp: is_hex_def py_space_def Let_def)

lemma contract_pattern_clean:
  assumes "contract_pattern s"
  shows "py_strip s = s" and "length s = 71"
proof -
  obtain t where s: "s = sha_prefix @ t" and t: "length t = 64" "list_all is_hex t"
    using assms by (auto simp: contract_pattern_def prefix_def)
  have "\<not> py_space c" if "c \<in> set sha_prefix" for c
    using that by (auto simp: sha_prefix_def py_space_def)
  then show "py_strip s = s"
    using t(2) by (intro py_strip_unchanged) (auto simp: s list_all_iff is_hex_not_space)
  show "length s = 71" by (simp add: s t(1)) (simp add: sha_prefix_def)
qed

lemma normalized_revision_form:
  "normalized_immutable_revision h v = Some r \<Longrightarrow>
     py_lower r = r \<and> 40 \<le> length r \<and> length r \<le> 64 \<and> list_all is_hex r"
  by (auto simp: normalized_immutable_revision_def immutable_pattern_def Let_def py_lower_def
      dest: list_all_is_hex_lower [unfolded py_lower_def] split: if_splits)

text \<open>The validator of transcription identities never answers without a binding: whenever it
  does not raise, it returns an immutable revision in lower case without its prefix, of 40 to 64
  hexadecimal digits, and a canonical sha256 contract hash in lower case.\<close>

theorem transcription_binding_defined:
  assumes "validate_transcription_identity h execution = Inr b"
  shows "\<exists>r c. b = Some (r, c) \<and> py_lower r = r \<and> 40 \<le> length r \<and> length r \<le> 64
     \<and> list_all is_hex r \<and> contract_pattern c \<and> py_lower c = c"
proof -
  obtain revision contract where im: "is_immutable_revision h (JStr revision)"
    and ch: "is_contract_hash h (JStr contract)"
    and b: "b = validated_execution_binding h (JStr ''audio.transcription'') (JStr revision) (JStr contract)"
    using assms by (auto simp: validate_transcription_identity_def Let_def split: option.splits if_splits)
  let ?c = "py_lower (take 80 (py_strip contract))"
  have op: "py_lower (take 120 (py_strip ''audio.transcription'')) = ''audio.transcription''"
    by code_simp
  have c: "contract_pattern ?c" using ch by (simp add: is_contract_hash_def)
  then have c2: "is_contract_hash h (JStr ?c)"
    by (simp add: is_contract_hash_def contract_pattern_clean)
  obtain r where r: "normalized_immutable_revision h (JStr revision) = Some r"
    using im by (auto simp: is_immutable_revision_def)
  have "b = Some (r, ?c)"
    unfolding b validated_execution_binding_def Let_def clean_text_JStr r op using c2 by simp
  then show ?thesis using normalized_revision_form [OF r] c by simp
qed

theorem transcription_binding_defined_witness:
  "\<exists>r c. validate_transcription_identity demo_exec_host
     (JObj [(''operation'', JStr ''Audio.Transcription''), (''model_revision'', JStr (replicate 40 (CHR ''A''))),
            (''contract_hash'', JStr (sha_prefix @ replicate 64 (CHR ''f'')))]) = Inr (Some (r, c))"
proof -
  let ?v = "validate_transcription_identity demo_exec_host
     (JObj [(''operation'', JStr ''Audio.Transcription''), (''model_revision'', JStr (replicate 40 (CHR ''A''))),
            (''contract_hash'', JStr (sha_prefix @ replicate 64 (CHR ''f'')))])"
  have "\<not> isl ?v" by code_simp
  then have "?v = Inr (projr ?v)" by (cases ?v) auto
  then show ?thesis using transcription_binding_defined [of demo_exec_host _ "projr ?v"] by metis
qed

end
