(* ===== verification/Py_Float.thy ===== *)
theory Py_Float
  imports Py_Text
begin

text \<open>
  Python floats with the values JSON can carry: an exact rational stands for a finite float (no
  rounding), with the two infinities and NaN beside it.  Comparisons are those of IEEE: every
  comparison with NaN is false, so Python's \<open>max\<close> depends on the order of its arguments, which the
  definitions keep.
\<close>

datatype fnum = Fin rat | Pos_inf | Neg_inf | Not_num

fun flt :: "fnum \<Rightarrow> fnum \<Rightarrow> bool" where
  "flt (Fin a) (Fin b) = (a < b)"
| "flt (Fin _) Pos_inf = True"
| "flt Neg_inf (Fin _) = True"
| "flt Neg_inf Pos_inf = True"
| "flt _ _ = False"

fun feq :: "fnum \<Rightarrow> fnum \<Rightarrow> bool" where
  "feq Not_num _ = False"
| "feq (Fin a) b = (b = Fin a)"
| "feq Pos_inf b = (b = Pos_inf)"
| "feq Neg_inf b = (b = Neg_inf)"

definition fle :: "fnum \<Rightarrow> fnum \<Rightarrow> bool" where
  "fle a b \<longleftrightarrow> flt a b \<or> feq a b"

definition fzero :: "fnum \<Rightarrow> bool" where
  "fzero a \<longleftrightarrow> a = Fin 0"

definition fmax :: "fnum \<Rightarrow> fnum \<Rightarrow> fnum" where
  \<comment> \<open>\<open>max(a, b)\<close>: the first unless the second is greater\<close>
  "fmax a b = (if flt a b then b else a)"

definition fmax_list :: "fnum list \<Rightarrow> fnum option" where
  \<comment> \<open>\<open>max(values) if values else None\<close>\<close>
  "fmax_list xs = (case xs of [] \<Rightarrow> None | y # ys \<Rightarrow> Some (foldl fmax y ys))"

fun fsub :: "fnum \<Rightarrow> rat \<Rightarrow> fnum" where
  "fsub (Fin a) b = Fin (a - b)"
| "fsub x _ = x"

fun py_float :: "(string \<Rightarrow> fnum option) \<Rightarrow> json \<Rightarrow> fnum option" where
  \<comment> \<open>\<open>float(value)\<close>, None for a TypeError or ValueError; \<open>tf\<close> reads a text\<close>
  "py_float tf (JBool b) = Some (Fin (if b then 1 else 0))"
| "py_float tf (JInt i) = Some (Fin (of_int i))"
| "py_float tf (JFloat r) = Some (Fin r)"
| "py_float tf JNan = Some Not_num"
| "py_float tf (JInf neg) = Some (if neg then Neg_inf else Pos_inf)"
| "py_float tf (JStr s) = tf s"
| "py_float tf _ = None"

fun fnum_json :: "fnum \<Rightarrow> json" where
  "fnum_json (Fin r) = JFloat r"
| "fnum_json Pos_inf = JInf False"
| "fnum_json Neg_inf = JInf True"
| "fnum_json Not_num = JNan"

lemma py_float_fnum_json [simp]: "py_float tf (fnum_json x) = Some x"
  by (cases x) auto

lemma fle_Fin [simp]: "fle (Fin a) (Fin b) \<longleftrightarrow> a \<le> b"
  by (auto simp: fle_def)

lemma fle_refl: "x \<noteq> Not_num \<Longrightarrow> fle x x"
  by (cases x) (auto simp: fle_def)

lemma fle_trans: "fle x y \<Longrightarrow> fle y z \<Longrightarrow> fle x z"
  by (cases x; cases y; cases z) (auto simp: fle_def)

lemma fmax_ge1: "x \<noteq> Not_num \<Longrightarrow> fle x (fmax x y)"
  by (cases x; cases y) (auto simp: fmax_def fle_def)

lemma fmax_ge2: "x \<noteq> Not_num \<Longrightarrow> y \<noteq> Not_num \<Longrightarrow> fle y (fmax x y)"
  by (cases x; cases y) (auto simp: fmax_def fle_def)

lemma fmax_num: "x \<noteq> Not_num \<Longrightarrow> fmax x y \<noteq> Not_num"
  by (cases x; cases y) (auto simp: fmax_def)

lemma foldl_fmax_num: "x \<noteq> Not_num \<Longrightarrow> foldl fmax x ys \<noteq> Not_num"
  by (induction ys arbitrary: x) (auto simp: fmax_num)

lemma foldl_fmax_ge: "x \<noteq> Not_num \<Longrightarrow> fle x (foldl fmax x ys)"
proof (induction ys arbitrary: x)
  case Nil
  then show ?case by (simp add: fle_refl)
next
  case (Cons y ys)
  have "fle (fmax x y) (foldl fmax (fmax x y) ys)" using Cons by (simp add: fmax_num)
  with fmax_ge1 [OF Cons.prems] show ?case by (auto intro: fle_trans)
qed

lemma foldl_fmax_ge_member:
  "x \<noteq> Not_num \<Longrightarrow> y \<in> set ys \<Longrightarrow> y \<noteq> Not_num \<Longrightarrow> fle y (foldl fmax x ys)"
proof (induction ys arbitrary: x)
  case Nil
  then show ?case by simp
next
  case (Cons z ys)
  show ?case
  proof (cases "y = z")
    case True
    have "fle z (fmax x z)" using Cons.prems True by (intro fmax_ge2) auto
    moreover have "fle (fmax x z) (foldl fmax (fmax x z) ys)"
      using Cons.prems by (intro foldl_fmax_ge fmax_num)
    ultimately show ?thesis using True by (auto intro: fle_trans)
  next
    case False
    with Cons show ?thesis by (auto simp: fmax_num)
  qed
qed

text \<open>Over numbers, \<open>max\<close> is an upper bound of the list.\<close>

lemma fmax_list_ge:
  assumes "fmax_list xs = Some m" and "Not_num \<notin> set xs" and "y \<in> set xs"
  shows "fle y m \<and> m \<noteq> Not_num"
proof -
  obtain x ys where xs: "xs = x # ys" and m: "m = foldl fmax x ys"
    using assms(1) by (cases xs) (auto simp: fmax_list_def)
  have x: "x \<noteq> Not_num" using assms(2) xs by auto
  then have "fle x m" and "m \<noteq> Not_num" by (auto simp: m foldl_fmax_ge foldl_fmax_num)
  moreover have "fle y m" if "y \<in> set ys"
    using that x assms(2) xs unfolding m by (intro foldl_fmax_ge_member) auto
  ultimately show ?thesis using assms(3) xs by auto
qed

end
