(* ===== verification/Memory_Admission.thy ===== *)
theory Memory_Admission
  imports Py_Float
begin

text \<open>
  The memory floors of dispatch: \<open>app/backend/workload_policy.py\<close> (the production floors by
  repository prefix) and \<open>app/backend/memory_admission.py\<close> (catalog, fleet default and operator
  override, with the overrides file).  A catalog entry is the JSON object a worker published, so
  every field may be missing or of any type.  \<open>None\<close> as the answer of a definition is the
  \<open>TypeError\<close> of iterating an \<open>aliases\<close> value that is truthy and not iterable.  \<open>text_host\<close> holds what
  lies outside: \<open>float(text)\<close> and the \<open>repr\<close> of floats and containers.
\<close>

record text_host =
  th_float :: "string \<Rightarrow> fnum option"
  th_repr :: "json \<Rightarrow> string"

section \<open>Workload policy\<close>

definition machine_memory_prefixes :: "(string \<times> fnum) list" where
  "machine_memory_prefixes =
     [(''mlx-community/qwen3-tts-12hz-0.6b-'', Fin 8), (''qwen/qwen3-tts-12hz-0.6b-'', Fin 8)]"

definition free_memory_prefixes :: "(string \<times> fnum) list" where
  "free_memory_prefixes =
     [(''mlx-community/qwen3-tts-12hz-0.6b-'', Fin (16 / 5)), (''qwen/qwen3-tts-12hz-0.6b-'', Fin (16 / 5))]"

fun alias_values :: "json \<Rightarrow> json list option" where
  \<comment> \<open>\<open>*(value or [])\<close>\<close>
  "alias_values (JList xs) = Some xs"
| "alias_values (JStr s) = Some (map (\<lambda>c. JStr [c]) s)"
| "alias_values (JObj d) = Some (map (JStr \<circ> fst) d)"
| "alias_values v = (if truthy v then None else Some [])"

definition identifiers :: "text_host \<Rightarrow> json \<Rightarrow> jdict \<Rightarrow> string list option" where
  "identifiers h requested entry =
     map_option (\<lambda>aliases. map (\<lambda>v. py_lower (py_strip (text_or_empty (th_repr h) v)))
         (requested # jget entry ''repo'' # aliases))
       (alias_values (jget entry ''aliases''))"

definition catalog_number :: "text_host \<Rightarrow> jdict \<Rightarrow> string \<Rightarrow> fnum list" where
  "catalog_number h entry field =
     (if jget entry field = JNull then []
      else case py_float (th_float h) (jget entry field) of None \<Rightarrow> [] | Some x \<Rightarrow> [x])"

definition prefix_minima :: "(string \<times> fnum) list \<Rightarrow> string list \<Rightarrow> fnum list" where
  "prefix_minima table names =
     concat (map (\<lambda>n. map snd (filter (\<lambda>p. prefix (fst p) n) table)) names)"

definition required_memory ::
  "(string \<times> fnum) list \<Rightarrow> string \<Rightarrow> text_host \<Rightarrow> json \<Rightarrow> jdict \<Rightarrow> fnum option option" where
  "required_memory table field h requested entry =
     map_option (\<lambda>names. fmax_list (catalog_number h entry field @ prefix_minima table names))
       (identifiers h requested entry)"

definition required_total_memory_gb :: "text_host \<Rightarrow> json \<Rightarrow> jdict \<Rightarrow> fnum option option" where
  "required_total_memory_gb = required_memory machine_memory_prefixes ''min_unified_memory_gb''"

definition required_free_memory_gb :: "text_host \<Rightarrow> json \<Rightarrow> jdict \<Rightarrow> fnum option option" where
  "required_free_memory_gb = required_memory free_memory_prefixes ''min_free_memory_gb''"

section \<open>Admission policy\<close>

definition default_min_free_memory_gb :: fnum where
  "default_min_free_memory_gb = Fin 2"

definition supported_modalities :: "string list" where
  "supported_modalities = [''image'', ''voice'', ''transcription'', ''music'', ''video'']"

definition applies_to :: "string option \<Rightarrow> bool" where
  "applies_to modality \<longleftrightarrow> str_or_empty modality \<in> set supported_modalities"

record fleet_default =
  fd_total :: fnum
  fd_free :: fnum
  fd_reason :: string

definition fleet_defaults :: "(string, fleet_default) dict" where
  "fleet_defaults = [(''aitrader/flux2-klein-4b-mlx-4bit'',
     \<lparr>fd_total = Fin 8, fd_free = Fin 2, fd_reason = ''Fleet-qualified on 8 GB Apple-silicon Macs''\<rparr>)]"

record override =
  ov_model :: string
  ov_total :: fnum
  ov_free :: fnum
  ov_updated :: fnum

type_synonym overrides = "(string, override) dict"

definition normalized :: "text_host \<Rightarrow> json \<Rightarrow> string" where
  "normalized h model = py_lower (py_strip (text_or_empty (th_repr h) model))"

definition number :: "text_host \<Rightarrow> json \<Rightarrow> fnum option" where
  "number h v = (case py_float (th_float h) v of
       None \<Rightarrow> None
     | Some x \<Rightarrow> if fle (Fin 0) x then Some x else None)"

text \<open>The file as it is on disk, and what \<open>_read\<close> keeps of it.\<close>

datatype settings_file = No_file | Unreadable_file | Json_file json

definition settings_json :: "settings_file \<Rightarrow> json" where
  "settings_json f = (case f of Json_file j \<Rightarrow> j | _ \<Rightarrow> JObj [])"

definition read_row :: "text_host \<Rightarrow> string \<Rightarrow> json \<Rightarrow> (string \<times> override) option" where
  "read_row h key value = (case as_dict value of
       None \<Rightarrow> None
     | Some d \<Rightarrow>
         (case (number h (jget d ''min_total_memory_gb''), number h (jget d ''min_free_memory_gb'')) of
            (Some tot, Some free) \<Rightarrow> Some (normalized h (JStr key),
              \<lparr>ov_model = (if truthy (jget d ''model'') then py_str (th_repr h) (jget d ''model'') else key),
               ov_total = tot, ov_free = free,
               ov_updated = (case number h (jget d ''updated_at'') of
                   None \<Rightarrow> Fin 0 | Some u \<Rightarrow> if fzero u then Fin 0 else u)\<rparr>)
          | _ \<Rightarrow> None))"

definition read_overrides :: "text_host \<Rightarrow> settings_file \<Rightarrow> overrides" where
  "read_overrides h file = (case as_dict (settings_json file) of
       None \<Rightarrow> []
     | Some raw \<Rightarrow> dupdate [] (List.map_filter (\<lambda>(k, v). read_row h k v) raw))"

definition override_json :: "override \<Rightarrow> json" where
  "override_json v = JObj
     [(''model'', JStr (ov_model v)), (''min_total_memory_gb'', fnum_json (ov_total v)),
      (''min_free_memory_gb'', fnum_json (ov_free v)), (''updated_at'', fnum_json (ov_updated v))]"

definition write_overrides :: "overrides \<Rightarrow> settings_file" where
  \<comment> \<open>\<open>json.dump(values, sort_keys=True)\<close> and the atomic replacement of the file\<close>
  "write_overrides values = Json_file (JObj (map (\<lambda>(k, v). (k, override_json v)) (sort_key fst values)))"

record admission_state =
  am_cache :: "overrides option"
  am_file :: settings_file

definition loaded :: "text_host \<Rightarrow> admission_state \<Rightarrow> overrides" where
  \<comment> \<open>what \<open>_read()\<close> returns\<close>
  "loaded h s = (case am_cache s of Some c \<Rightarrow> c | None \<Rightarrow> read_overrides h (am_file s))"

record floors =
  fl_model :: string
  fl_catalog_total :: "fnum option"
  fl_catalog_free :: "fnum option"
  fl_default_total :: "fnum option"
  fl_default_free :: fnum
  fl_total :: "fnum option"
  fl_free :: fnum
  fl_source :: string
  fl_reason :: string
  fl_overridden :: bool
  fl_updated :: "fnum option"

definition differs :: "fnum option \<Rightarrow> fnum option \<Rightarrow> bool" where
  \<comment> \<open>\<open>q is not None and q != c\<close>\<close>
  "differs q c = (case (q, c) of
       (None, _) \<Rightarrow> False | (Some _, None) \<Rightarrow> True | (Some x, Some y) \<Rightarrow> \<not> feq x y)"

definition qualified_or_zero :: "fnum option \<Rightarrow> fnum" where
  "qualified_or_zero q = (case q of None \<Rightarrow> Fin 0 | Some x \<Rightarrow> if fzero x then Fin 0 else x)"

definition policy_key :: "text_host \<Rightarrow> json \<Rightarrow> jdict \<Rightarrow> string" where
  "policy_key h model entry = normalized h (if truthy model then model else jget entry ''repo'')"

definition describe_floors ::
  "text_host \<Rightarrow> overrides \<Rightarrow> json \<Rightarrow> jdict \<Rightarrow> fnum option \<Rightarrow> fnum option \<Rightarrow> floors" where
  "describe_floors h values model entry qualified_total qualified_free =
     (let key = policy_key h model entry;
          catalog_total = number h (jget entry ''min_unified_memory_gb'');
          catalog_free = number h (jget entry ''min_free_memory_gb'');
          fleet = dget fleet_defaults key;
          workload_default = (differs qualified_total catalog_total \<or> differs qualified_free catalog_free);
          default_total = (case fleet of Some f \<Rightarrow> Some (fd_total f) | None \<Rightarrow> qualified_total);
          default_free = (case fleet of Some f \<Rightarrow> fd_free f
            | None \<Rightarrow> fmax default_min_free_memory_gb (qualified_or_zero qualified_free));
          ov = dget values key
      in \<lparr>fl_model = text_or_empty (th_repr h) (if truthy model then model else jget entry ''repo''),
          fl_catalog_total = catalog_total, fl_catalog_free = catalog_free,
          fl_default_total = default_total, fl_default_free = default_free,
          fl_total = (case ov of Some v \<Rightarrow> Some (ov_total v) | None \<Rightarrow> default_total),
          fl_free = (case ov of Some v \<Rightarrow> ov_free v | None \<Rightarrow> default_free),
          fl_source = (if ov \<noteq> None then ''operator_override''
             else if fleet \<noteq> None \<or> workload_default then ''fleet_default'' else ''catalog''),
          fl_reason = (case fleet of Some f \<Rightarrow> fd_reason f
             | None \<Rightarrow> if workload_default then ''Hub production qualification''
                       else ''Studio catalog requirement''),
          fl_overridden = (ov \<noteq> None), fl_updated = map_option ov_updated ov\<rparr>)"

definition describe :: "text_host \<Rightarrow> overrides \<Rightarrow> json \<Rightarrow> jdict \<Rightarrow> floors option" where
  "describe h values model entry =
     (case (required_total_memory_gb h model entry, required_free_memory_gb h model entry) of
        (Some tot, Some free) \<Rightarrow> Some (describe_floors h values model entry tot free)
      | _ \<Rightarrow> None)"

text \<open>\<open>set_override\<close> raises on a blank model; both return the new state.\<close>

definition set_override ::
  "text_host \<Rightarrow> time \<Rightarrow> string \<Rightarrow> fnum \<Rightarrow> fnum \<Rightarrow> admission_state \<Rightarrow> admission_state option" where
  "set_override h now model tot free s =
     (let key = normalized h (JStr model);
          values = dset key \<lparr>ov_model = model, ov_total = tot, ov_free = free, ov_updated = Fin now\<rparr>
                     (loaded h s)
      in if key = [] then None else Some \<lparr>am_cache = Some values, am_file = write_overrides values\<rparr>)"

definition reset_override :: "text_host \<Rightarrow> string \<Rightarrow> admission_state \<Rightarrow> admission_state" where
  "reset_override h model s =
     (let values = dpop (normalized h (JStr model)) (loaded h s)
      in \<lparr>am_cache = Some values, am_file = (if values \<noteq> [] then write_overrides values else No_file)\<rparr>)"

definition restart :: "admission_state \<Rightarrow> admission_state" where
  \<comment> \<open>a new process starts without a cache\<close>
  "restart s = s\<lparr>am_cache := None\<rparr>"

section \<open>Lemmas\<close>

lemma identifiers_requested:
  "identifiers h requested entry = Some names \<Longrightarrow> normalized h requested \<in> set names"
  by (auto simp: identifiers_def normalized_def)

lemma prefix_minima_member:
  "n \<in> set names \<Longrightarrow> (p, m) \<in> set table \<Longrightarrow> prefix p n \<Longrightarrow> m \<in> set (prefix_minima table names)"
  by (force simp: prefix_minima_def)

lemma required_memory_ge:
  assumes r: "required_memory table field h requested entry = Some q"
    and p: "(p, m) \<in> set table" "prefix p (normalized h requested)"
    and num: "Not_num \<notin> snd ` set table" "Not_num \<notin> set (catalog_number h entry field)"
  shows "\<exists>x. q = Some x \<and> fle m x \<and> x \<noteq> Not_num"
proof -
  obtain names where names: "identifiers h requested entry = Some names"
    and q: "q = fmax_list (catalog_number h entry field @ prefix_minima table names)"
    using r by (auto simp: required_memory_def)
  have mem: "m \<in> set (catalog_number h entry field @ prefix_minima table names)"
    using prefix_minima_member [OF identifiers_requested [OF names] p] by simp
  have "Not_num \<notin> set (catalog_number h entry field @ prefix_minima table names)"
    using num by (auto simp: prefix_minima_def image_iff)
  moreover obtain x where "q = Some x"
    using mem q by (cases "catalog_number h entry field @ prefix_minima table names")
      (auto simp: fmax_list_def)
  ultimately show ?thesis using fmax_list_ge [OF _ _ mem] q by auto
qed

lemma normalized_JStr [simp]: "normalized h (JStr s) = py_lower (py_strip s)"
  by (simp add: normalized_def)

end
