(* ===== verification/Admission_Theorems.thy ===== *)
theory Admission_Theorems
  imports Memory_Admission
begin

text \<open>
  Properties of the memory admission policy: overrides survive a restart, an override decides its
  own model and no other, and without one the production floors hold.
\<close>

section \<open>Overrides on disk\<close>

lemma py_space_lower [simp]: "py_space (py_lower_char c) = py_space c"
  by (auto simp: py_space_range py_lower_char_def Let_def)

lemma dropWhile_lower: "dropWhile py_space (py_lower s) = py_lower (dropWhile py_space s)"
  by (induction s) (auto simp: py_lower_def)

lemma py_lower_rev: "rev (py_lower s) = py_lower (rev s)"
  by (simp add: py_lower_def rev_map)

lemma py_strip_lower [simp]: "py_strip (py_lower s) = py_lower (py_strip s)"
  by (simp add: py_strip_def dropWhile_lower py_lower_rev)

definition good_row :: "string \<Rightarrow> override \<Rightarrow> bool" where
  "good_row k v \<longleftrightarrow> py_lower (py_strip k) = k \<and> (ov_model v \<noteq> [] \<or> ov_model v = k)
     \<and> fle (Fin 0) (ov_total v) \<and> fle (Fin 0) (ov_free v) \<and> fle (Fin 0) (ov_updated v)"

definition good_rows :: "overrides \<Rightarrow> bool" where
  "good_rows vals \<longleftrightarrow> distinct (map fst vals) \<and> (\<forall>k v. dget vals k = Some v \<longrightarrow> good_row k v)"

lemma number_fnum_json [simp]: "number h (fnum_json x) = (if fle (Fin 0) x then Some x else None)"
  by (simp add: number_def)

lemma number_nonneg: "number h v = Some x \<Longrightarrow> fle (Fin 0) x"
  by (auto simp: number_def split: option.splits if_splits)

lemma read_row_override_json: "good_row k v \<Longrightarrow> read_row h k (override_json v) = Some (k, v)"
  by (auto simp: good_row_def read_row_def override_json_def jget_def fzero_def)

definition repr_ok :: "text_host \<Rightarrow> bool" where
  \<comment> \<open>the \<open>repr\<close> of a float or a container is never the empty text\<close>
  "repr_ok h \<longleftrightarrow> (\<forall>v. th_repr h v \<noteq> [])"

lemma nat_text_nonempty [simp]: "nat_text n \<noteq> []"
  by (subst nat_text.simps) simp

lemma py_str_nonempty: "repr_ok h \<Longrightarrow> truthy v \<Longrightarrow> py_str (th_repr h) v \<noteq> []"
  by (auto simp: repr_ok_def py_str_def int_text_def split: json.splits)

lemma read_row_good: "repr_ok h \<Longrightarrow> read_row h k v = Some (k', r) \<Longrightarrow> good_row k' r"
  using py_str_nonempty [of h]
  by (auto simp: read_row_def good_row_def split: option.splits if_splits
      dest: number_nonneg) (simp_all add: py_strip_def py_lower_def)

lemma good_rows_dset: "good_rows vals \<Longrightarrow> good_row k v \<Longrightarrow> good_rows (dset k v vals)"
  by (auto simp: good_rows_def distinct_dset)

lemma good_rows_dpop: "good_rows vals \<Longrightarrow> good_rows (dpop k vals)"
  by (auto simp: good_rows_def distinct_delete)

lemma good_rows_dupdate:
  "good_rows vals \<Longrightarrow> (\<forall>(k, v)\<in>set rows. good_row k v) \<Longrightarrow> good_rows (dupdate vals rows)"
  unfolding dupdate_def by (induction rows arbitrary: vals) (auto simp: good_rows_dset)

lemma good_rows_Nil [simp]: "good_rows []"
  by (simp add: good_rows_def)

lemma good_rows_read: "repr_ok h \<Longrightarrow> good_rows (read_overrides h file)"
proof (cases "as_dict (settings_json file)")
  case None
  then show ?thesis by (simp add: read_overrides_def)
next
  case (Some raw)
  assume "repr_ok h"
  then have "\<forall>(k, v)\<in>set (List.map_filter (\<lambda>(k, v). read_row h k v) raw). good_row k v"
    by (auto simp: List.map_filter_def split: prod.splits dest: read_row_good)
  then have "good_rows (dupdate [] (List.map_filter (\<lambda>(k, v). read_row h k v) raw))"
    by (intro good_rows_dupdate) auto
  then show ?thesis unfolding read_overrides_def Some by simp
qed

lemma dget_dupdate_distinct:
  "distinct (map fst rows) \<Longrightarrow> dget (dupdate d rows) k =
     (case dget rows k of None \<Rightarrow> dget d k | Some v \<Rightarrow> Some v)"
  unfolding dupdate_def
proof (induction rows arbitrary: d)
  case Nil
  then show ?case by simp
next
  case (Cons r rows)
  obtain a b where r: "r = (a, b)" by (cases r)
  have "dget rows a = None" using Cons.prems r by (auto simp: map_of_eq_None_iff)
  with Cons r show ?case by (auto split: option.splits)
qed

lemma read_write_overrides:
  assumes good: "good_rows vals"
  shows "dget (read_overrides h (write_overrides vals)) k = dget vals k"
proof -
  let ?s = "sort_key fst vals"
  have dist: "distinct (map fst vals)" using good by (simp add: good_rows_def)
  have rows: "\<forall>(k, v)\<in>set ?s. good_row k v"
    using good dist by (auto simp: good_rows_def)
  have "List.map_filter (\<lambda>(k, v). read_row h k v) (map (\<lambda>(k, v). (k, override_json v)) xs) = xs"
    if "\<forall>(k, v)\<in>set xs. good_row k v" for xs
    using that by (induction xs) (auto simp: List.map_filter_def read_row_override_json)
  then have r: "read_overrides h (write_overrides vals) = dupdate [] ?s"
    using rows by (simp add: read_overrides_def write_overrides_def settings_json_def)
  have dist_s: "distinct (map fst ?s)"
    using dist by (simp add: distinct_map)
  then have "dget (dupdate [] ?s) k = dget ?s k"
    by (simp add: dget_dupdate_distinct split: option.split)
  also have "dget ?s k = dget vals k"
    using dist dist_s by (intro map_of_inject_set [THEN iffD2, THEN fun_cong]) auto
  finally show ?thesis by (simp add: r)
qed

datatype admission_op =
    Set_override time string fnum fnum
  | Reset_override string
  | Load
  | Restart

fun admission_step :: "text_host \<Rightarrow> admission_op \<Rightarrow> admission_state \<Rightarrow> admission_state" where
  "admission_step h (Set_override now model tot free) s =
     (case set_override h now model tot free s of None \<Rightarrow> s | Some s' \<Rightarrow> s')"
| "admission_step h (Reset_override model) s = reset_override h model s"
| "admission_step h Load s = s\<lparr>am_cache := Some (loaded h s)\<rparr>"
| "admission_step h Restart s = restart s"

fun validated_op :: "admission_op \<Rightarrow> bool" where
  \<comment> \<open>the bounds the request body enforces, of which only the sign matters here\<close>
  "validated_op (Set_override now _ tot free) \<longleftrightarrow> 0 \<le> now \<and> fle (Fin 0) tot \<and> fle (Fin 0) free"
| "validated_op _ \<longleftrightarrow> True"

definition admission_ok :: "text_host \<Rightarrow> admission_state \<Rightarrow> bool" where
  "admission_ok h s \<longleftrightarrow> (case am_cache s of None \<Rightarrow> True
     | Some c \<Rightarrow> good_rows c \<and> dget (read_overrides h (am_file s)) = dget c)"

lemma good_rows_loaded: "repr_ok h \<Longrightarrow> admission_ok h s \<Longrightarrow> good_rows (loaded h s)"
  by (auto simp: admission_ok_def loaded_def good_rows_read split: option.splits)

lemma dpop_Nil_read: "vals = [] \<Longrightarrow> dget (read_overrides h No_file) = dget vals"
  by (simp add: read_overrides_def settings_json_def List.map_filter_def dupdate_def)

lemma admission_step_ok:
  assumes r: "repr_ok h" and ok: "admission_ok h s" and v: "validated_op e"
  shows "admission_ok h (admission_step h e s)"
proof (cases e)
  case (Set_override now model tot free)
  have "good_row (normalized h (JStr model)) \<lparr>ov_model = model, ov_total = tot, ov_free = free, ov_updated = Fin now\<rparr>"
    if "normalized h (JStr model) \<noteq> []"
    using v that by (auto simp: Set_override good_row_def) (simp add: py_strip_def py_lower_def)
  note g = good_rows_dset [OF good_rows_loaded [OF r ok] this]
  show ?thesis
  proof (cases "normalized h (JStr model) = []")
    case True
    with ok show ?thesis by (simp add: Set_override set_override_def)
  next
    case False
    then show ?thesis
      using g [OF False]
      by (simp add: Set_override set_override_def Let_def admission_ok_def fun_eq_iff read_write_overrides
          del: normalized_JStr)
  qed
next
  case (Reset_override model)
  have g: "good_rows (dpop (normalized h (JStr model)) (loaded h s))"
    by (rule good_rows_dpop [OF good_rows_loaded [OF r ok]])
  show ?thesis
  proof (cases "dpop (normalized h (JStr model)) (loaded h s) = []")
    case True
    then show ?thesis
      by (simp add: Reset_override reset_override_def admission_ok_def dpop_Nil_read)
  next
    case False
    have "dget (read_overrides h (write_overrides (dpop (normalized h (JStr model)) (loaded h s))))
        = dget (dpop (normalized h (JStr model)) (loaded h s))"
      by (rule ext) (rule read_write_overrides [OF g])
    with False g show ?thesis
      by (simp add: Reset_override reset_override_def admission_ok_def Let_def fun_eq_iff)
  qed
next
  case Load
  then show ?thesis
    using ok good_rows_loaded [OF r ok] by (auto simp: admission_ok_def loaded_def split: option.splits)
next
  case Restart
  then show ?thesis by (simp add: restart_def admission_ok_def)
qed

text \<open>Overrides survive a restart: whatever the settings file held when the Hub started, after
  any sequence of validated override changes, reads and restarts, restarting once more changes no
  override.\<close>

theorem overrides_survive_restart:
  assumes r: "repr_ok h" and "\<forall>e\<in>set es. validated_op e"
    and "s = fold (admission_step h) es \<lparr>am_cache = None, am_file = file\<rparr>"
  shows "dget (loaded h (restart s)) = dget (loaded h s)"
proof -
  have "admission_ok h (fold (admission_step h) xs s0)"
    if "admission_ok h s0" "\<forall>e\<in>set xs. validated_op e" for xs s0
    using that by (induction xs arbitrary: s0) (auto simp: admission_step_ok [OF r])
  then have "admission_ok h s"
    using assms(2,3) by (simp add: admission_ok_def)
  then show ?thesis
    by (auto simp: admission_ok_def loaded_def restart_def split: option.splits)
qed

definition demo_text_host :: text_host where
  "demo_text_host = \<lparr>th_float = (\<lambda>_. None), th_repr = (\<lambda>_. ''?'')\<rparr>"

definition demo_overridden :: admission_state where
  "demo_overridden = fold (admission_step demo_text_host)
     [Set_override 5 '' Org/Model-A '' (Fin 16) (Fin 4), Set_override 6 ''org/b'' (Fin 8) (Fin 1),
      Reset_override ''ORG/B''] \<lparr>am_cache = None, am_file = Unreadable_file\<rparr>"

theorem overrides_survive_restart_witness:
  "dget (loaded demo_text_host (restart demo_overridden)) ''org/model-a''
     = dget (loaded demo_text_host demo_overridden) ''org/model-a''"
  by (subst overrides_survive_restart [OF _ _ demo_overridden_def]) (simp_all add: repr_ok_def demo_text_host_def)

section \<open>Precedence\<close>

text \<open>C32: An override decides the floors of its own model, whatever the catalog and the fleet
  defaults say, leaves the floors of every model with another key as they were, and resetting it
  gives the floors that hold without any override.\<close>

theorem override_decides_its_model:
  assumes set: "set_override h now model tot free s = Some s'"
    and d: "describe h (loaded h s') (JStr model) entry = Some d"
  shows "fl_total d = Some tot \<and> fl_free d = free \<and> fl_source d = ''operator_override'' \<and> fl_overridden d
     \<and> (\<forall>other entry'. policy_key h other entry' \<noteq> normalized h (JStr model) \<longrightarrow>
          describe h (loaded h s') other entry' = describe h (loaded h s) other entry')
     \<and> describe h (loaded h (reset_override h model s')) (JStr model) entry = describe h [] (JStr model) entry"
proof -
  let ?k = "normalized h (JStr model)"
  have ne: "?k \<noteq> []" and s': "loaded h s' = dset ?k
      \<lparr>ov_model = model, ov_total = tot, ov_free = free, ov_updated = Fin now\<rparr> (loaded h s)"
    using set by (auto simp: set_override_def Let_def loaded_def split: if_splits)
  have "model \<noteq> []" using ne by (auto simp: py_lower_def py_strip_def)
  then have key: "policy_key h (JStr model) entry' = ?k" for entry' by (simp add: policy_key_def)
  have r: "dget (loaded h (reset_override h model s')) ?k = None"
    by (simp add: reset_override_def Let_def loaded_def)
  have same: "describe h v1 m e = describe h v2 m e" if "dget v1 (policy_key h m e) = dget v2 (policy_key h m e)"
    for v1 v2 m e
    using that by (simp add: describe_def describe_floors_def Let_def split: option.splits)
  show ?thesis
  proof (intro conjI allI impI)
    show "describe h (loaded h s') other entry' = describe h (loaded h s) other entry'"
      if "policy_key h other entry' \<noteq> ?k" for other entry'
      using that by (intro same) (simp add: s')
    show "describe h (loaded h (reset_override h model s')) (JStr model) entry = describe h [] (JStr model) entry"
      using r by (intro same) (simp add: key)
  qed (use d in \<open>auto simp: describe_def describe_floors_def Let_def key s' split: option.splits\<close>)
qed

theorem override_decides_its_model_witness:
  "map_option fl_free (describe demo_text_host
     (loaded demo_text_host (admission_step demo_text_host (Set_override 5 ''m'' (Fin 16) (Fin 4)) \<lparr>am_cache = None, am_file = No_file\<rparr>))
     (JStr ''m'') []) = Some (Fin 4)"
proof -
  let ?s = "\<lparr>am_cache = None, am_file = No_file\<rparr>"
  let ?r = "set_override demo_text_host 5 ''m'' (Fin 16) (Fin 4) ?s"
  let ?d = "describe demo_text_host (loaded demo_text_host (the ?r)) (JStr ''m'') []"
  have a: "?r \<noteq> None \<and> ?d \<noteq> None" by code_simp
  have 1: "?r = Some (the ?r)" and 2: "?d = Some (the ?d)" using a by auto
  have 3: "admission_step demo_text_host (Set_override 5 ''m'' (Fin 16) (Fin 4)) ?s = the ?r"
    using 1 by (metis admission_step.simps(1) option.simps(5))
  show ?thesis unfolding 3 using override_decides_its_model [OF 1 2] 2 by (metis option.simps(9))
qed

section \<open>Production floors\<close>

lemma policy_key_model: "policy_key h model entry = (if truthy model then normalized h model else normalized h (jget entry ''repo''))"
  by (simp add: policy_key_def)

text \<open>Without an operator override and outside the fleet defaults, the effective floors are
  never below the Hub's: at least 2 GB must be free, and a model whose identifier starts with one
  of the production prefixes needs the machine and free memory listed for that prefix, whatever
  (numeric) floors its worker publishes.\<close>

theorem production_floors_hold:
  assumes d: "describe h vals model entry = Some d"
    and plain: "dget vals (policy_key h model entry) = None" "dget fleet_defaults (policy_key h model entry) = None"
    and num: "Not_num \<notin> set (catalog_number h entry ''min_unified_memory_gb'')"
      "Not_num \<notin> set (catalog_number h entry ''min_free_memory_gb'')"
  shows "fle (Fin 2) (fl_free d)
     \<and> (\<forall>(p, m)\<in>set free_memory_prefixes. prefix p (normalized h model) \<longrightarrow> fle m (fl_free d))
     \<and> (\<forall>(p, m)\<in>set machine_memory_prefixes. prefix p (normalized h model) \<longrightarrow>
          (\<exists>x. fl_total d = Some x \<and> fle m x))"
proof -
  obtain qt qf where qt: "required_total_memory_gb h model entry = Some qt"
    and qf: "required_free_memory_gb h model entry = Some qf"
    and dd: "d = describe_floors h vals model entry qt qf"
    using d by (auto simp: describe_def split: option.splits)
  have free: "fl_free d = fmax (Fin 2) (qualified_or_zero qf)" and tot: "fl_total d = qt"
    using plain by (simp_all add: dd describe_floors_def Let_def default_min_free_memory_gb_def)
  have "fle m (fl_free d)" if p: "(p, m) \<in> set free_memory_prefixes" "prefix p (normalized h model)" for p m
  proof -
    obtain x where x: "qf = Some x" "fle m x" "x \<noteq> Not_num"
      using required_memory_ge [OF qf [unfolded required_free_memory_gb_def] p _ num(2)]
      by (auto simp: free_memory_prefixes_def)
    have "m = Fin (16 / 5)" using p by (auto simp: free_memory_prefixes_def)
    then have "qualified_or_zero qf = x" using x by (auto simp: qualified_or_zero_def fzero_def)
    then show ?thesis using x fmax_ge2 [of "Fin 2" x] unfolding free by (auto intro: fle_trans)
  qed
  moreover have "\<exists>x. fl_total d = Some x \<and> fle m x"
    if p: "(p, m) \<in> set machine_memory_prefixes" "prefix p (normalized h model)" for p m
    using required_memory_ge [OF qt [unfolded required_total_memory_gb_def] p _ num(1)]
    unfolding tot by (auto simp: machine_memory_prefixes_def)
  ultimately show ?thesis using fmax_ge1 [of "Fin 2"] by (auto simp: free)
qed

theorem production_floors_hold_witness:
  "\<exists>d. describe demo_text_host [] (JStr ''Qwen/Qwen3-TTS-12Hz-0.6B-Base'') [(''min_free_memory_gb'', JFloat 1)] = Some d
     \<and> fle (Fin (16 / 5)) (fl_free d)"
proof -
  let ?m = "JStr ''Qwen/Qwen3-TTS-12Hz-0.6B-Base''" and ?e = "[(''min_free_memory_gb'', JFloat 1)] :: jdict"
  let ?d = "describe demo_text_host [] ?m ?e"
  have a: "?d \<noteq> None \<and> dget fleet_defaults (policy_key demo_text_host ?m ?e) = None
      \<and> prefix ''qwen/qwen3-tts-12hz-0.6b-'' (normalized demo_text_host ?m)" by code_simp
  then have 1: "?d = Some (the ?d)" by auto
  have "Not_num \<notin> set (catalog_number demo_text_host ?e f)" for f
    by (simp add: catalog_number_def jget_def)
  from production_floors_hold [OF 1 _ conjunct1 [OF conjunct2 [OF a]] this this] a 1 show ?thesis
    by (auto simp: free_memory_prefixes_def)
qed

end
