(* ===== verification/Broker_Circuits.thy ===== *)
theory Broker_Circuits
  imports Memory_Admission
begin

text \<open>
  The guards of dispatch in \<open>app/backend/broker.py\<close>: the memory gate of one machine, the idle
  sibling handoff, the circuit breaker per machine and per model, and the classification of worker
  failures.  Machine names are those of \<open>studio.get("machine", "local")\<close>; a host is a snapshot of two
  numbers.  Notes for the operator are values of \<open>gate_note\<close> instead of formatted text.  Inside one
  operation the clock is read once.
\<close>

record studio =
  st_id :: string
  st_machine :: string
  st_modality :: string

abbreviation local_machine :: string where
  "local_machine \<equiv> ''local''"

section \<open>Memory gate\<close>

record host =
  ho_total :: fnum
  ho_available :: fnum

record requirement =
  rq_total :: "fnum option"
  rq_free :: "fnum option"

datatype gate_note =
    Needs_machine fnum fnum
  | Waiting_memory fnum fnum
  | Sibling_busy
  | Fresh_telemetry
  | Released_then nat gate_note

datatype gate = Run | Wait gate_note | Skip gate_note

definition required_free_memory :: "requirement \<Rightarrow> fnum" where
  \<comment> \<open>\<open>float(None)\<close> is the TypeError that selects the default\<close>
  "required_free_memory mem = (case rq_free mem of
       None \<Rightarrow> default_min_free_memory_gb
     | Some explicit \<Rightarrow> fmax (Fin 0) explicit)"

definition memory_gate :: "requirement \<Rightarrow> host \<Rightarrow> rat \<Rightarrow> gate" where
  "memory_gate mem host reserved_gb =
     (case rq_total mem of
        Some m \<Rightarrow>
          if \<not> fzero m \<and> flt (ho_total host) m then Skip (Needs_machine m (ho_total host))
          else (let need = required_free_memory mem; effective = fsub (ho_available host) reserved_gb
                in if flt effective need then Wait (Waiting_memory need (fmax (Fin 0) effective)) else Run)
      | None \<Rightarrow>
          (let need = required_free_memory mem; effective = fsub (ho_available host) reserved_gb
           in if flt effective need then Wait (Waiting_memory need (fmax (Fin 0) effective)) else Run))"

definition admission_requirements ::
  "text_host \<Rightarrow> overrides \<Rightarrow> json \<Rightarrow> jdict \<Rightarrow> requirement option option" where
  \<comment> \<open>\<open>Some None\<close> for a cloud entry; \<open>None\<close> when the policy raises\<close>
  "admission_requirements h vals model entry =
     (if truthy (jget entry ''is_cloud'') then Some None
      else map_option (\<lambda>d. Some \<lparr>rq_total = fl_total d, rq_free = Some (fl_free d)\<rparr>)
             (describe h vals model entry))"

section \<open>Idle sibling handoff\<close>

record release_row =
  rr_id :: string
  rr_ok :: bool
  rr_busy :: bool
  rr_still_loaded :: bool

record handoff =
  hf_attempted :: nat
  hf_released :: nat
  hf_busy :: "string list"
  hf_failed :: "string list"
  hf_deferred :: bool

type_synonym handoff_state = "(string, time \<times> handoff) dict"

definition handoff_retry_s :: time where
  "handoff_retry_s = 15"

definition siblings_of :: "string list \<Rightarrow> studio list \<Rightarrow> studio \<Rightarrow> studio list" where
  "siblings_of modalities registry target = filter (\<lambda>s. st_machine s = st_machine target
     \<and> st_id s \<noteq> st_id target \<and> st_modality s \<in> set modalities) registry"

definition handoff_result ::
  "string list \<Rightarrow> studio list \<Rightarrow> string list \<Rightarrow> (string list \<Rightarrow> release_row list) \<Rightarrow> studio \<Rightarrow> handoff" where
  "handoff_result modalities registry known_busy release target =
     (let siblings = siblings_of modalities registry target;
          releasable = map st_id (filter (\<lambda>s. st_id s \<notin> set known_busy) siblings);
          rows = (if releasable = [] then [] else release releasable);
          still = map rr_id (filter (\<lambda>r. rr_ok r \<and> rr_still_loaded r) rows)
      in \<lparr>hf_attempted = length siblings,
          hf_released = length (filter (\<lambda>r. rr_ok r \<and> rr_id r \<notin> set still) rows),
          hf_busy = map st_id (filter (\<lambda>s. st_id s \<in> set known_busy) siblings)
            @ map rr_id (filter rr_busy rows),
          hf_failed = map rr_id (filter (\<lambda>r. (\<not> rr_ok r \<and> \<not> rr_busy r) \<or> rr_id r \<in> set still) rows),
          hf_deferred = False\<rparr>)"

definition handoff_in_progress :: handoff where
  "handoff_in_progress = \<lparr>hf_attempted = 0, hf_released = 0, hf_busy = [''handoff_in_progress''],
     hf_failed = [], hf_deferred = False\<rparr>"

definition begin_handoff :: "time \<Rightarrow> studio \<Rightarrow> handoff_state \<Rightarrow> (handoff_state \<times> handoff option) option" where
  \<comment> \<open>up to the request to the workers: an answer when the machine was handed off less than 15 seconds
     ago, else the marker that another caller finds meanwhile; \<open>now\<close> is the monotonic clock; \<open>None\<close> is
     the KeyError of \<open>previous["result"]\<close> when there is no previous handoff\<close>
  "begin_handoff now target state =
     (let machine = st_machine target; previous = dget state machine;
          last = (case previous of None \<Rightarrow> 0 | Some (t, _) \<Rightarrow> t)
      in if now - last < handoff_retry_s
         then map_option (\<lambda>(_, r). (state, Some (r\<lparr>hf_deferred := True\<rparr>))) previous
         else Some (dset machine (now, handoff_in_progress) state, None))"

definition release_idle_siblings ::
  "string list \<Rightarrow> studio list \<Rightarrow> string list \<Rightarrow> (string list \<Rightarrow> release_row list) \<Rightarrow> time
     \<Rightarrow> studio \<Rightarrow> handoff_state \<Rightarrow> (handoff_state \<times> handoff) option" where
  \<comment> \<open>the whole call when no other runs meanwhile; \<open>release\<close> is the answer of the workers, through
     \<open>FleetMemoryControl.release\<close>\<close>
  "release_idle_siblings modalities registry known_busy release now target state =
     (case begin_handoff now target state of
        None \<Rightarrow> None
      | Some (marked, Some answer) \<Rightarrow> Some (marked, answer)
      | Some (marked, None) \<Rightarrow>
          (let result = handoff_result modalities registry known_busy release target
           in Some (dset (st_machine target) (now, result) marked, result)))"

definition prepare_machine_memory ::
  "requirement option \<Rightarrow> host option \<Rightarrow> rat \<Rightarrow> handoff \<Rightarrow> host option \<Rightarrow> gate" where
  \<comment> \<open>the snapshot before, the reservation that applies to this machine, the result of the handoff
     and the snapshot after it\<close>
  "prepare_machine_memory mem before reserved_gb handoff after =
     (case mem of None \<Rightarrow> Run
      | Some m \<Rightarrow> (case before of None \<Rightarrow> Run
      | Some host \<Rightarrow> (case memory_gate m host reserved_gb of
            Wait note \<Rightarrow>
              if hf_busy handoff \<noteq> [] then Wait Sibling_busy
              else if hf_released handoff = 0 then Wait note
              else (case after of
                  None \<Rightarrow> Wait Fresh_telemetry
                | Some refreshed \<Rightarrow> (case memory_gate m refreshed reserved_gb of
                      Wait n \<Rightarrow> Wait (Released_then (hf_released handoff) n)
                    | d \<Rightarrow> d))
          | d \<Rightarrow> d)))"

definition memory_admission_dispatchable ::
  "text_host \<Rightarrow> requirement option \<Rightarrow> jdict option \<Rightarrow> rat \<Rightarrow> bool" where
  "memory_admission_dispatchable h mem raw_host reserved_gb =
     (case mem of None \<Rightarrow> True
      | Some m \<Rightarrow> (case raw_host of None \<Rightarrow> True
      | Some host \<Rightarrow>
          (case (py_float (th_float h) (jget host ''total_gb''), py_float (th_float h) (jget host ''available_gb'')) of
             (Some tot, Some available) \<Rightarrow>
               if fle tot (Fin 0) \<or> flt available (Fin 0) then True
               else memory_gate m \<lparr>ho_total = tot, ho_available = available\<rparr> reserved_gb = Run
           | _ \<Rightarrow> True)))"

section \<open>Circuit breaker per machine\<close>

definition machine_failure_threshold :: nat where
  "machine_failure_threshold = 2"

definition machine_cooldown_s :: time where
  "machine_cooldown_s = 120"

record protection =
  pt_failures :: nat
  pt_cooldown :: "time option"
  pt_reason :: "string option"
  pt_last_failure :: "time option"
  pt_last_success :: "time option"

type_synonym protections = "(string, protection) dict"

definition new_protection :: protection where
  "new_protection = \<lparr>pt_failures = 0, pt_cooldown = None, pt_reason = None,
     pt_last_failure = None, pt_last_success = None\<rparr>"

definition protection_of :: "string \<Rightarrow> protections \<Rightarrow> protection" where
  "protection_of machine ps = (case dget ps machine of None \<Rightarrow> new_protection | Some p \<Rightarrow> p)"

definition cooldown_until :: "string \<Rightarrow> protections \<Rightarrow> time" where
  \<comment> \<open>\<open>(... or {}).get("cooldown_until") or 0\<close>\<close>
  "cooldown_until machine ps = (case dget ps machine of
       None \<Rightarrow> 0 | Some p \<Rightarrow> (case pt_cooldown p of None \<Rightarrow> 0 | Some u \<Rightarrow> u))"

definition machine_blocked :: "time \<Rightarrow> string \<Rightarrow> protections \<Rightarrow> bool" where
  "machine_blocked now machine ps \<longleftrightarrow> now < cooldown_until machine ps"

definition mark_machine_failure ::
  "time \<Rightarrow> string \<Rightarrow> string \<Rightarrow> protections \<Rightarrow> protections \<times> bool" where
  \<comment> \<open>the second component: whether the alert is emitted\<close>
  "mark_machine_failure now machine message ps =
     (let state = protection_of machine ps;
          failures = pt_failures state + 1;
          state1 = state\<lparr>pt_failures := failures, pt_reason := Some (take 240 message),
                         pt_last_failure := Some now\<rparr>
      in if failures < machine_failure_threshold then (dset machine state1 ps, False)
         else (dset machine (state1\<lparr>pt_cooldown := Some (now + machine_cooldown_s)\<rparr>) ps,
               \<not> machine_blocked now machine ps))"

definition mark_machine_success :: "time \<Rightarrow> string \<Rightarrow> protections \<Rightarrow> protections \<times> bool" where
  "mark_machine_success now machine ps = (case dget ps machine of
       None \<Rightarrow> (ps, False)
     | Some state \<Rightarrow>
         (let had_cooldown = (pt_cooldown state \<noteq> None);
              had_failures = (pt_failures state \<noteq> 0);
              ps1 = dset machine (state\<lparr>pt_failures := 0, pt_cooldown := None, pt_reason := None,
                                        pt_last_success := Some now\<rparr>) ps
          in if had_cooldown then (ps1, True)
             else if \<not> had_failures then (dpop machine ps1, False)
             else (ps1, False)))"

record protection_view =
  pv_state :: protection
  pv_quarantined :: bool
  pv_retry_in :: time

definition machine_protection_snapshot :: "time \<Rightarrow> protections \<Rightarrow> (string \<times> protection_view) list" where
  "machine_protection_snapshot now ps = map (\<lambda>(machine, state).
     let until = (case pt_cooldown state of None \<Rightarrow> 0 | Some u \<Rightarrow> u)
     in (machine, \<lparr>pv_state = state, pv_quarantined = (now < until), pv_retry_in = py_round 1 (max 0 (until - now))\<rparr>)) ps"

section \<open>Circuit breaker per model\<close>

definition model_failure_window_s :: time where
  "model_failure_window_s = 300"

definition model_failure_threshold :: nat where
  "model_failure_threshold = 3"

definition files_unavailable :: string where
  "files_unavailable = ''MODEL_FILES_UNAVAILABLE''"

record model_row =
  mr_studio :: string
  mr_model :: string
  mr_revision :: "string option"
  mr_reason :: string
  mr_code :: string
  mr_failures :: nat
  mr_last_failure :: time
  mr_window :: time
  mr_blocked :: bool
  mr_blocked_at :: "time option"

type_synonym model_protections = "(string \<times> string, model_row) dict"

definition mark_model_failure ::
  "time \<Rightarrow> string \<Rightarrow> string \<Rightarrow> string option \<Rightarrow> string \<Rightarrow> string \<Rightarrow> model_protections
     \<Rightarrow> model_protections \<times> bool" where
  \<comment> \<open>\<open>reason\<close> is the sanitised text; the second component: whether the alert is emitted\<close>
  "mark_model_failure now studio model revision code reason ps =
     (let previous = dget ps (studio, model);
          was_blocked = (case previous of None \<Rightarrow> False | Some p \<Rightarrow> mr_blocked p);
          window = (case previous of None \<Rightarrow> now | Some p \<Rightarrow> mr_window p);
          recent = (0 \<le> now - window \<and> now - window < model_failure_window_s);
          same_revision = ((case previous of None \<Rightarrow> None | Some p \<Rightarrow> mr_revision p) = revision);
          failures = (if recent \<and> same_revision
                      then (case previous of None \<Rightarrow> 0 | Some p \<Rightarrow> mr_failures p) + 1 else 1);
          blocked = (was_blocked \<or> code = files_unavailable \<or> model_failure_threshold \<le> failures);
          blocked_at = (case previous of
              Some p \<Rightarrow> (case mr_blocked_at p of
                  Some b \<Rightarrow> if b = 0 then (if blocked then Some now else None) else Some b
                | None \<Rightarrow> if blocked then Some now else None)
            | None \<Rightarrow> if blocked then Some now else None)
      in (dset (studio, model)
            \<lparr>mr_studio = studio, mr_model = model, mr_revision = revision, mr_reason = reason,
             mr_code = code, mr_failures = failures, mr_last_failure = now,
             mr_window = (if recent \<and> same_revision then window else now),
             mr_blocked = blocked, mr_blocked_at = blocked_at\<rparr> ps,
          blocked \<and> \<not> was_blocked))"

definition save_model_protection :: "model_protections \<Rightarrow> model_row list" where
  "save_model_protection ps = map snd ps"

definition load_model_protection :: "model_row list \<Rightarrow> model_protections" where
  "load_model_protection rows = dupdate [] (map (\<lambda>r. ((mr_studio r, mr_model r), r)) rows)"

datatype block_note = Not_ready string | Execution_not_ready | Paused string

definition model_block_note ::
  "(json \<Rightarrow> string) \<Rightarrow> string \<Rightarrow> string \<Rightarrow> jdict \<Rightarrow> model_protections \<Rightarrow> block_note option" where
  "model_block_note rp studio model entry ps =
     (let readiness = (case as_dict (jget entry ''readiness'') of None \<Rightarrow> [] | Some d \<Rightarrow> d);
          reason = jget readiness ''reason''
      in if jget readiness ''ready'' = JBool False
         then Some (Not_ready (if truthy reason then py_str rp reason
                else ''Required model files or dependencies are unavailable''))
         else if jget entry ''execution_ready'' = JBool False then Some Execution_not_ready
         else (case dget ps (studio, model) of
             Some row \<Rightarrow> if mr_blocked row
               then Some (Paused (if mr_reason row \<noteq> [] then mr_reason row
                                  else ''Model paused; repair and recheck readiness''))
               else None
           | None \<Rightarrow> None))"

text \<open>
  \<open>recheck_model_protection\<close>: the row seen before the worker was asked, the catalog entry the worker
  answered, and the rows at commit time.  \<open>None\<close> is a \<open>ValueError\<close>.
\<close>

definition recheck_readiness :: "model_row option \<Rightarrow> jdict option \<Rightarrow> jdict option" where
  "recheck_readiness previous entry = (case entry of None \<Rightarrow> None
     | Some e \<Rightarrow> (case as_dict (jget e ''readiness'') of
         Some r \<Rightarrow> Some r
       | None \<Rightarrow>
           (if map_option mr_code previous \<noteq> Some files_unavailable
                \<and> jget e ''runtime_ready'' = JBool True \<and> jget e ''available'' = JBool True
                \<and> (case as_dict (jget e ''cache'') of None \<Rightarrow> False
                    | Some c \<Rightarrow> jget c ''state'' = JStr ''cached'')
            then Some [(''ready'', JBool True), (''checks'', JStr ''runtime_dependencies_and_companion_cache'')]
            else None)))"

definition recheck_model_protection ::
  "string \<Rightarrow> string \<Rightarrow> model_row option \<Rightarrow> jdict option \<Rightarrow> model_protections \<Rightarrow> model_protections option" where
  "recheck_model_protection studio model previous entry ps =
     (case recheck_readiness previous entry of None \<Rightarrow> None
      | Some r \<Rightarrow>
          if jget r ''ready'' \<noteq> JBool True \<or> jget (the entry) ''execution_ready'' = JBool False then None
          else if dget ps (studio, model) \<noteq> previous then None
          else Some (dpop (studio, model) ps))"

section \<open>Classification of failures\<close>

definition any_token :: "string list \<Rightarrow> string \<Rightarrow> bool" where
  "any_token tokens text = list_ex (\<lambda>t. py_contains t text) tokens"

definition model_file_failure :: "string \<Rightarrow> string option \<Rightarrow> bool" where
  "model_file_failure message code \<longleftrightarrow> code = Some files_unavailable
     \<or> (py_contains ''load_safetensors'' (py_lower message) \<and> py_contains ''failed to open'' (py_lower message))"

definition is_capacity_failure :: "string \<Rightarrow> bool" where
  "is_capacity_failure message = any_token [''memoryguarderror'', ''memory guard paused'',
     ''waiting for memory'', ''not enough memory'', ''insufficient memory''] (py_lower message)"

record failure =
  fa_message :: string
  fa_http_transport :: bool
  fa_status :: "int option"
  fa_model_unavailable :: bool
  fa_terminal :: bool
  fa_retryable :: bool

definition is_transport_failure :: "failure \<Rightarrow> string \<Rightarrow> bool" where
  "is_transport_failure e message =
     (if fa_model_unavailable e then False
      else if fa_http_transport e then True
      else if fa_status e \<in> {Some 502, Some 503, Some 504} then True
      else any_token [''readerror'', ''read error'', ''connection dropped'', ''connection reset'',
             ''connection refused'', ''server disconnected'', ''remote protocol error'',
             ''timed out'', ''timeout'', ''network is unreachable'', ''broken pipe'']
             (py_strip (py_lower message)))"

definition worker_http_error :: "(json \<Rightarrow> string) \<Rightarrow> int \<Rightarrow> json \<Rightarrow> failure" where
  "worker_http_error rp status detail =
     (let code = (case as_dict detail of None \<Rightarrow> JNull
                  | Some d \<Rightarrow> if truthy (jget d ''error_code'') then jget d ''error_code'' else jget d ''code'');
          unavailable = model_file_failure (py_str rp detail) (as_str code)
      in \<lparr>fa_message = ''HTTP '' @ int_text status @ '': '' @ py_str rp detail,
          fa_http_transport = False, fa_status = Some status, fa_model_unavailable = unavailable,
          fa_terminal = False,
          fa_retryable = (unavailable \<or> status \<in> {408, 425, 429} \<or> 500 \<le> status)\<rparr>)"

definition worker_terminal_error :: "string \<Rightarrow> string option \<Rightarrow> failure" where
  "worker_terminal_error message code =
     \<lparr>fa_message = message, fa_http_transport = False, fa_status = None,
      fa_model_unavailable = model_file_failure message code, fa_terminal = True, fa_retryable = True\<rparr>"

section \<open>Lemmas\<close>

lemma memory_gate_Run:
  "memory_gate mem host r = Run \<longleftrightarrow>
     (\<forall>m. rq_total mem = Some m \<longrightarrow> fzero m \<or> \<not> flt (ho_total host) m)
     \<and> \<not> flt (fsub (ho_available host) r) (required_free_memory mem)"
  by (auto simp: memory_gate_def Let_def split: option.splits)

lemma prepare_Run:
  "prepare_machine_memory (Some m) (Some b) r hf after = Run \<longleftrightarrow>
     memory_gate m b r = Run
     \<or> ((\<exists>note. memory_gate m b r = Wait note) \<and> hf_busy hf = [] \<and> hf_released hf \<noteq> 0
        \<and> (\<exists>a. after = Some a \<and> memory_gate m a r = Run))"
  by (auto simp: prepare_machine_memory_def split: gate.splits option.splits if_splits)

lemma blocked_dset [simp]:
  "machine_blocked now m (dset m' p ps) =
     (if m = m' then (case pt_cooldown p of None \<Rightarrow> now < 0 | Some u \<Rightarrow> now < u) else machine_blocked now m ps)"
  by (simp add: machine_blocked_def cooldown_until_def split: option.split)

lemma other_machine_untouched:
  "m \<noteq> m' \<Longrightarrow> dget (fst (mark_machine_failure now m' msg ps)) m = dget ps m"
  "m \<noteq> m' \<Longrightarrow> dget (fst (mark_machine_success now m' ps)) m = dget ps m"
  by (auto simp: mark_machine_failure_def mark_machine_success_def Let_def split: option.splits)

end
