(* ===== verification/Broker_Items.thy ===== *)
theory Broker_Items
  imports Broker_Circuits Execution_Identity
begin

text \<open>
  Items and batches of \<open>app/backend/broker.py\<close> and the operations on them that need no scheduler:
  worker evidence, lease expiry, voice recovery, cancellation, the batch summary and the terminal
  notification.  An item dictionary is the record \<open>item\<close>; a key that may be missing is an option.
  The facts of a finished artifact (size, digest, media type, reference evidence) are not modelled.
\<close>

datatype item_state = Queued | Running | Cancel_requested | Done | Errored | Cancelled | Uncertain

definition unfinished :: "item_state \<Rightarrow> bool" where
  "unfinished s \<longleftrightarrow> s \<in> {Queued, Running, Cancel_requested, Uncertain}"

definition terminal :: "item_state \<Rightarrow> bool" where
  "terminal s \<longleftrightarrow> s \<in> {Done, Errored, Cancelled}"

lemma unfinished_iff: "unfinished s \<longleftrightarrow> \<not> terminal s"
  by (cases s) (auto simp: unfinished_def terminal_def)

record recovery =
  rc_phase :: string
  rc_reason :: string
  rc_updated :: time

record item =
  it_index :: nat
  it_prompt :: json
  it_seed :: json
  it_params :: json
  it_state :: item_state
  it_tries :: int
  it_studio :: "string option"
  it_job :: "string option"
  it_client_request :: "string option"
  it_asset :: "string option"
  it_error :: "string option"
  it_retry_at :: "time option"
  it_code :: "string option"
  it_infra :: nat
  it_infra_since :: "time option"
  it_avoid :: "(string, time) dict"
  it_capacity_since :: "time option"
  it_recovery :: "recovery option"
  it_reserved :: rat
  it_generation :: "int option"
  it_run_started :: "time option"
  it_started_proof :: "json option"
  it_progress :: "rat option"
  it_last_progress :: "time option"
  it_finished :: "time option"
  it_runtime :: "rat option"
  it_machine :: "string option"
  it_worker :: "string option"
  it_model_revision :: "string option"
  it_runtime_revision :: "string option"
  it_usage :: "jdict option"
  it_notified :: bool
  it_cancel_sent :: "time option"
  it_cancel_error :: "string option"

record execution =
  ex_job :: "string option"
  ex_attempt :: "string option"
  ex_token :: "int option"
  ex_model_revision :: "string option"
  ex_lease :: "string option"

record batch =
  ba_id :: string
  ba_client_request :: "string option"
  ba_fingerprint :: "string option"
  ba_execution :: "execution option"
  ba_modality :: string
  ba_model :: string
  ba_shared :: json
  ba_routing :: string
  ba_label :: json
  ba_webhook :: bool
  ba_item_webhook :: bool
  ba_webhook_sent :: bool
  ba_created :: time
  ba_cancelled :: bool
  ba_items :: "item list"
  ba_last_dispatched :: "time option"
  ba_note :: "string option"
  ba_lease_expired :: bool
  ba_finished :: "time option"
  ba_done_notified :: bool

definition update_item :: "nat \<Rightarrow> (item \<Rightarrow> item) \<Rightarrow> batch \<Rightarrow> batch" where
  "update_item i f b = b\<lparr>ba_items := update_where (\<lambda>it. it_index it = i) f (ba_items b)\<rparr>"

definition item_of :: "nat \<Rightarrow> batch \<Rightarrow> item option" where
  "item_of i b = select_first (\<lambda>it. it_index it = i) (ba_items b)"

section \<open>Worker evidence\<close>

definition clear_worker_attempt_evidence :: "item \<Rightarrow> item" where
  "clear_worker_attempt_evidence it = it\<lparr>it_error := None, it_code := None, it_finished := None,
     it_runtime := None, it_machine := None, it_worker := None, it_model_revision := None,
     it_runtime_revision := None, it_usage := None\<rparr>"

definition revision_text :: "json \<Rightarrow> string option \<Rightarrow> string option" where
  "revision_text v old = (case v of
       JStr s \<Rightarrow> if py_strip s \<noteq> [] then Some (take 500 (py_strip s)) else old
     | _ \<Rightarrow> old)"

definition record_worker_identity :: "(json \<Rightarrow> string) \<Rightarrow> studio \<Rightarrow> jdict \<Rightarrow> item \<Rightarrow> item" where
  "record_worker_identity rp s job it =
     it\<lparr>it_machine := Some (take 500 (if st_machine s = [] then local_machine else st_machine s)),
        it_worker := Some (if jget job ''worker_id'' \<noteq> JNull
           then take 500 (py_strip (py_str rp (jget job ''worker_id'')))
           else take 500 (if st_id s = [] then ''unknown'' else st_id s)),
        it_model_revision := revision_text (jget job ''model_revision'') (it_model_revision it),
        it_runtime_revision := revision_text (jget job ''runtime_revision'') (it_runtime_revision it)\<rparr>"

fun real_number :: "json \<Rightarrow> rat option" where
  \<comment> \<open>\<open>type(v) in (int, float)\<close> and finite\<close>
  "real_number (JInt i) = Some (of_int i)"
| "real_number (JFloat r) = Some r"
| "real_number _ = None"

definition record_execution_started :: "jdict \<Rightarrow> item \<Rightarrow> item \<times> bool" where
  "record_execution_started job it =
     (if it_started_proof it \<noteq> None then (it, False)
      else if jget job ''state'' \<notin> {JStr ''running'', JStr ''done'', JStr ''error'', JStr ''cancelled''} then (it, False)
      else (case real_number (jget job ''started_at'') of
              None \<Rightarrow> (it, False)
            | Some t \<Rightarrow> if t \<le> 0 then (it, False)
                else (it\<lparr>it_started_proof := Some (jget job ''started_at'')\<rparr>, True)))"

definition record_worker_progress :: "time \<Rightarrow> json \<Rightarrow> item \<Rightarrow> item" where
  \<comment> \<open>a bool counts as 0 or 1; a NaN is clamped to 1, the infinities to the ends\<close>
  "record_worker_progress now progress it =
     (let clamp = (case progress of
            JBool b \<Rightarrow> Some (if b then 1 else 0)
          | JInt i \<Rightarrow> Some (max 0 (min 1 (of_int i)))
          | JFloat r \<Rightarrow> Some (max 0 (min 1 r))
          | JNan \<Rightarrow> Some 1
          | JInf neg \<Rightarrow> Some (if neg then 0 else 1)
          | _ \<Rightarrow> None)
      in case clamp of
           None \<Rightarrow> it
         | Some value \<Rightarrow>
             (let it1 = it\<lparr>it_progress := Some value\<rparr>
              in (case it_progress it of
                    None \<Rightarrow> it1\<lparr>it_last_progress := Some now\<rparr>
                  | Some p \<Rightarrow> if p + 1 / 1000 < value then it1\<lparr>it_last_progress := Some now\<rparr> else it1)))"

text \<open>The whitelist of worker telemetry.\<close>

definition usage_fields :: "(string, string list) dict" where
  "usage_fields =
     [(''sampling'', [''interval_seconds'', ''samples'', ''started_at'', ''finished_at'']),
      (''host'', [''total_gb'', ''available_gb_start'', ''minimum_available_gb'', ''available_gb_end'',
         ''maximum_used_gb'', ''maximum_used_percent'', ''pressure_level_start'', ''peak_pressure_level'',
         ''peak_pressure_raw'', ''pressure_level_end'', ''swap_used_gb_start'', ''maximum_swap_used_gb'',
         ''swap_used_gb_end'', ''swap_used_delta_gb'', ''swap_in_delta_bytes'', ''swap_out_delta_bytes'']),
      (''worker'', [''rss_gb_start'', ''peak_rss_gb'', ''rss_gb_end'', ''peak_process_count'']),
      (''mlx'', [''supported'', ''active_gb_start'', ''peak_active_gb'', ''peak_cache_gb'',
         ''reported_peak_gb'', ''active_gb_end'', ''cache_gb_end'']),
      (''outcome'', [''state'', ''memory_failure'', ''restart_scheduled'', ''model_retained''])]"

definition usage_schemas :: "string list" where
  "usage_schemas = [''imagestudio.resource-telemetry'', ''voicestudio.resource-telemetry'']"

definition usage_text_fields :: "(string, string list) dict" where
  "usage_text_fields =
     [(''host'', [''pressure_level_start'', ''peak_pressure_level'', ''pressure_level_end'']), (''outcome'', [''state''])]"

definition usage_bool_fields :: "(string, string list) dict" where
  "usage_bool_fields =
     [(''mlx'', [''supported'']), (''outcome'', [''memory_failure'', ''restart_scheduled'', ''model_retained''])]"

definition usage_integer_fields :: "(string, string list) dict" where
  "usage_integer_fields =
     [(''sampling'', [''samples'']), (''worker'', [''peak_process_count'']),
      (''host'', [''peak_pressure_raw'', ''swap_in_delta_bytes'', ''swap_out_delta_bytes''])]"

definition pressure_levels :: "string list" where
  "pressure_levels = [''normal'', ''warning'', ''urgent'', ''critical'', ''unknown'', ''unavailable'']"

definition outcome_states :: "string list" where
  "outcome_states = [''done'', ''error'', ''cancelled'']"

definition field_in :: "(string, string list) dict \<Rightarrow> string \<Rightarrow> string \<Rightarrow> bool" where
  "field_in table section key = (case dget table section of None \<Rightarrow> False | Some fs \<Rightarrow> key \<in> set fs)"

definition keep_usage :: "string \<Rightarrow> string \<Rightarrow> json \<Rightarrow> bool" where
  \<comment> \<open>whether a value of a whitelisted key is retained\<close>
  "keep_usage sect key value =
     (if value = JNull then True
      else if field_in usage_bool_fields sect key then (case value of JBool _ \<Rightarrow> True | _ \<Rightarrow> False)
      else if field_in usage_integer_fields sect key then (case value of JInt i \<Rightarrow> 0 \<le> i | _ \<Rightarrow> False)
      else if field_in usage_text_fields sect key
      then (case value of
              JStr s \<Rightarrow> (sect = ''host'' \<and> s \<in> set pressure_levels) \<or> (sect = ''outcome'' \<and> s \<in> set outcome_states)
            | _ \<Rightarrow> False)
      else (case real_number value of
              Some r \<Rightarrow> 0 \<le> r \<or> key = ''swap_used_delta_gb''
            | None \<Rightarrow> False))"

definition clean_section :: "string \<Rightarrow> string list \<Rightarrow> jdict \<Rightarrow> jdict" where
  "clean_section sect names vals =
     filter (\<lambda>(key, value). key \<in> set names \<and> keep_usage sect key value) vals"

definition clean_usage :: "jdict \<Rightarrow> jdict \<Rightarrow> jdict" where
  "clean_usage head raw = foldl (\<lambda>clean (sect, names).
       case as_dict (jget raw sect) of
         None \<Rightarrow> clean
       | Some vals \<Rightarrow> dset sect (JObj (clean_section sect names vals)) clean)
     head usage_fields"

definition record_worker_resource_usage :: "jdict \<Rightarrow> item \<Rightarrow> item option" where
  \<comment> \<open>\<open>None\<close> is the TypeError of looking up an unhashable \<open>schema\<close>\<close>
  "record_worker_resource_usage job it =
     (case (case as_dict (jget job ''resource_usage'') of Some d \<Rightarrow> Some d
            | None \<Rightarrow> as_dict (jget job ''resource_telemetry'')) of
        None \<Rightarrow> Some it
      | Some raw \<Rightarrow>
          (let schema = jget raw ''schema''
           in if \<not> hashable schema then None
              else if schema \<notin> set (map JStr usage_schemas) \<or> jget raw ''schema_version'' \<noteq> JInt 1 then Some it
              else Some (it\<lparr>it_usage := Some (clean_usage
                      [(''schema'', schema), (''schema_version'', JInt 1)] raw)\<rparr>)))"

definition public_code_char :: "char \<Rightarrow> bool" where
  "public_code_char c \<longleftrightarrow> is_alnum c \<or> c \<in> set ''._:-''"

definition sanitize_public_error_code :: "(json \<Rightarrow> string) \<Rightarrow> json \<Rightarrow> string" where
  "sanitize_public_error_code rp v =
     (let code = take 128 (py_strip (py_str rp v))
      in if code \<noteq> [] \<and> list_all public_code_char code then code else ''WORKER_TERMINAL_ERROR'')"

definition job_runtime :: "jdict \<Rightarrow> json" where
  \<comment> \<open>nested \<open>get\<close>: the first of the three keys that is present\<close>
  "job_runtime job = (case dget job ''runtime_s'' of Some v \<Rightarrow> v
     | None \<Rightarrow> (case dget job ''generation_seconds'' of Some v \<Rightarrow> v
     | None \<Rightarrow> jget job ''duration_seconds''))"

definition worker_runtime :: "text_host \<Rightarrow> time \<Rightarrow> jdict \<Rightarrow> fnum" where
  \<comment> \<open>the worker's own runtime, else the elapsed time\<close>
  "worker_runtime h elapsed job =
     (if job_runtime job = JNull then Fin (py_round 2 elapsed)
      else case py_float (th_float h) (job_runtime job) of
             Some x \<Rightarrow> x | None \<Rightarrow> Fin (py_round 2 elapsed))"

definition failed_runtime :: "text_host \<Rightarrow> time \<Rightarrow> jdict \<Rightarrow> rat" where
  "failed_runtime h elapsed job = (case worker_runtime h elapsed job of
       Fin r \<Rightarrow> if r < 0 then max 0 (py_round 2 elapsed) else r
     | _ \<Rightarrow> max 0 (py_round 2 elapsed))"

definition record_worker_failure ::
  "text_host \<Rightarrow> time \<Rightarrow> studio \<Rightarrow> jdict \<Rightarrow> time \<Rightarrow> item \<Rightarrow> item option" where
  "record_worker_failure h now s job t_start it =
     map_option (\<lambda>it1.
       (let code = jget job ''error_code'';
            it2 = (if code \<noteq> JNull then it1\<lparr>it_code := Some (sanitize_public_error_code (th_repr h) code)\<rparr> else it1)
        in it2\<lparr>it_runtime := Some (failed_runtime h (now - t_start) job)\<rparr>))
     (record_worker_resource_usage job
        (record_worker_identity (th_repr h) s job (fst (record_execution_started job it))))"

definition classify_worker_failure ::
  "text_host \<Rightarrow> (string \<Rightarrow> string) \<Rightarrow> time \<Rightarrow> string \<Rightarrow> studio \<Rightarrow> jdict \<Rightarrow> time \<Rightarrow> item \<Rightarrow> model_protections
     \<Rightarrow> (item \<times> model_protections \<times> failure) option" where
  \<comment> \<open>\<open>sanitize\<close> is \<open>_sanitize_public_error\<close>; a code that is not text never equals the special one\<close>
  "classify_worker_failure h sanitize now model s job t_start it ps =
     (case record_worker_failure h now s job t_start it of None \<Rightarrow> None
      | Some it1 \<Rightarrow>
         (let message = (if truthy (jget job ''error'') then py_str (th_repr h) (jget job ''error'')
                         else ''studio job '' @ py_str (th_repr h) (jget job ''state''));
              code = (if truthy (jget job ''error_code'') then py_str (th_repr h) (jget job ''error_code'')
                      else ''WORKER_TERMINAL_ERROR'');
              missing = model_file_failure message (Some code);
              broken = (jget job ''state'' \<noteq> JStr ''cancelled'' \<and> \<not> is_capacity_failure message
                 \<and> (missing \<or> (prefix ''RuntimeError:'' message \<and> \<not> py_contains ''ValueError:'' message)));
              code' = (if broken \<and> missing then files_unavailable else code);
              it2 = (if broken \<and> missing then it1\<lparr>it_code := Some files_unavailable\<rparr> else it1);
              ps' = (if broken then fst (mark_model_failure now (st_id s) model
                       (as_str (jget job ''model_revision'')) code' (sanitize message) ps) else ps)
          in Some (it2, ps', worker_terminal_error message (Some code'))))"

section \<open>Voice recovery\<close>

definition voice_recovery_owns :: "item \<Rightarrow> bool" where
  "voice_recovery_owns it \<longleftrightarrow> it_state it = Uncertain \<or> it_recovery it \<noteq> None"

definition mark_voice_uncertain :: "time \<Rightarrow> string \<Rightarrow> item \<Rightarrow> item" where
  "mark_voice_uncertain now reason it = it\<lparr>it_state := Uncertain, it_retry_at := None,
     it_recovery := Some \<lparr>rc_phase = ''uncertain'', rc_reason = reason, rc_updated = now\<rparr>\<rparr>"

definition recovery_phases :: "string list" where
  "recovery_phases = [''uncertain'', ''draining'', ''cancel_requested'', ''restart_requested'',
     ''health_wait'', ''reconciled'', ''manual_action_required'']"

definition set_voice_recovery :: "time \<Rightarrow> string \<Rightarrow> string \<Rightarrow> item \<Rightarrow> item option" where
  "set_voice_recovery now phase reason it =
     (if phase \<notin> set recovery_phases then None
      else Some (it\<lparr>it_recovery := Some \<lparr>rc_phase = phase, rc_reason = take 500 reason, rc_updated = now\<rparr>\<rparr>))"

datatype recovery_error =
    Unknown_batch | Not_voice | Unknown_item | Not_active | No_identity

definition identity_gone :: string where
  "identity_gone = ''The original Voice Studio identity is unavailable; manual action is required.''"

definition give_up_identity :: "time \<Rightarrow> item \<Rightarrow> item" where
  "give_up_identity now it = the (set_voice_recovery now ''manual_action_required'' identity_gone
     (mark_voice_uncertain now identity_gone it))"

definition voice_recovery_item :: "time \<Rightarrow> nat \<Rightarrow> batch option \<Rightarrow> (recovery_error + item) \<times> batch option" where
  \<comment> \<open>the answer, and the batch that is put back into memory (and saved, on \<open>No_identity\<close>)\<close>
  "voice_recovery_item now i found = (case found of
       None \<Rightarrow> (Inl Unknown_batch, None)
     | Some b \<Rightarrow>
         if ba_modality b \<noteq> ''voice'' then (Inl Not_voice, None)
         else (case item_of i b of
             None \<Rightarrow> (Inl Unknown_item, None)
           | Some it \<Rightarrow>
               if it_state it \<notin> {Running, Cancel_requested, Uncertain} then (Inl Not_active, None)
               else if str_or_empty (it_studio it) = [] \<or> str_or_empty (it_job it) = []
               then (Inl No_identity, Some (update_item i (give_up_identity now) b))
               else (Inr it, Some b)))"

section \<open>Leases\<close>

definition lease_expired_text :: string where
  "lease_expired_text = ''GenStudio execution lease expired''"

definition in_flight :: "item_state \<Rightarrow> bool" where
  "in_flight s \<longleftrightarrow> s \<in> {Queued, Running, Cancel_requested}"

definition batch_lease_over :: "exec_host \<Rightarrow> time \<Rightarrow> batch \<Rightarrow> identity_error + bool" where
  "batch_lease_over h now b = (case ba_execution b of
       None \<Rightarrow> Inr False | Some e \<Rightarrow> lease_expired h now (ex_lease e))"

definition expire_item :: "time \<Rightarrow> item \<Rightarrow> item" where
  "expire_item now it = it\<lparr>it_state := Cancelled, it_error := Some lease_expired_text,
     it_finished := Some now, it_retry_at := None\<rparr>"

definition expire_genstudio_batch :: "exec_host \<Rightarrow> time \<Rightarrow> batch \<Rightarrow> identity_error + (batch \<times> bool)" where
  \<comment> \<open>the batch and whether it was fenced; the alert on the first expiry is left out\<close>
  "expire_genstudio_batch h now b = (case batch_lease_over h now b of
       Inl e \<Rightarrow> Inl e
     | Inr over \<Rightarrow>
         if \<not> over \<or> \<not> list_ex (\<lambda>it. in_flight (it_state it)) (ba_items b) then Inr (b, False)
         else Inr (b\<lparr>ba_cancelled := True, ba_lease_expired := True, ba_note := Some lease_expired_text,
                     ba_items := update_where (\<lambda>it. in_flight (it_state it)) (expire_item now) (ba_items b)\<rparr>, True))"

definition renew_batch_lease :: "string \<Rightarrow> batch \<Rightarrow> batch" where
  "renew_batch_lease lease b = b\<lparr>ba_execution := Some (case ba_execution b of
       None \<Rightarrow> \<lparr>ex_job = None, ex_attempt = None, ex_token = None, ex_model_revision = None, ex_lease = Some lease\<rparr>
     | Some e \<Rightarrow> e\<lparr>ex_lease := Some lease\<rparr>)\<rparr>"

section \<open>Cancellation and completion\<close>

definition cancel_queued_item :: "item \<Rightarrow> item" where
  "cancel_queued_item it = it\<lparr>it_state := Cancelled, it_error := Some ''Cancelled by user'', it_retry_at := None\<rparr>"

definition cancel_queued :: "batch \<Rightarrow> batch" where
  "cancel_queued b = b\<lparr>ba_cancelled := True,
     ba_items := update_where (\<lambda>it. it_state it = Queued) cancel_queued_item (ba_items b)\<rparr>"

definition cancel_counts :: "batch \<Rightarrow> nat \<times> nat list" where
  \<comment> \<open>\<open>queued_cancelled\<close>, and the indices of the running items that are signalled\<close>
  "cancel_counts b = (count_where (\<lambda>it. it_state it = Queued) (ba_items b),
     map it_index (filter (\<lambda>it. it_state it = Running) (ba_items b)))"

definition post_item_webhook :: "batch \<Rightarrow> item \<Rightarrow> item \<times> bool" where
  \<comment> \<open>the item afterwards and whether the client is notified\<close>
  "post_item_webhook b it =
     (if \<not> ba_item_webhook b \<or> it_notified it \<or> \<not> terminal (it_state it) then (it, False)
      else (it\<lparr>it_notified := True\<rparr>, True))"

record finish_events =
  fe_alert :: bool
  fe_webhook :: bool

definition maybe_finish :: "time \<Rightarrow> batch \<Rightarrow> batch \<times> finish_events" where
  \<comment> \<open>the batch as it is saved, and what is sent: the alert on failed items, the batch webhook\<close>
  "maybe_finish now b =
     (if ba_done_notified b \<or> list_ex (\<lambda>it. unfinished (it_state it)) (ba_items b)
      then (b, \<lparr>fe_alert = False, fe_webhook = False\<rparr>)
      else (let b1 = b\<lparr>ba_finished := (case ba_finished b of None \<Rightarrow> Some now
                         | Some t \<Rightarrow> if t = 0 then Some now else Some t),
                       ba_done_notified := True\<rparr>;
                failed = list_ex (\<lambda>it. it_state it = Errored) (ba_items b);
                send = (ba_webhook b \<and> \<not> ba_webhook_sent b)
            in (if send then b1\<lparr>ba_webhook_sent := True\<rparr> else b1, \<lparr>fe_alert = failed, fe_webhook = send\<rparr>)))"

definition clearable :: "string option \<Rightarrow> string option \<Rightarrow> batch \<Rightarrow> bool" where
  "clearable modality only b \<longleftrightarrow> (only = None \<or> only = Some (ba_id b))
     \<and> (modality = None \<or> modality = Some (ba_modality b))
     \<and> \<not> list_ex (\<lambda>it. unfinished (it_state it)) (ba_items b)"

definition clear_finished_batches ::
  "string option \<Rightarrow> string option \<Rightarrow> batch list \<Rightarrow> batch list \<Rightarrow> string list \<times> batch list \<times> batch list" where
  \<comment> \<open>the ids cleared, then memory and ledger; a batch in memory hides its saved copy\<close>
  "clear_finished_batches modality only memory ledger =
     (let finished = filter (\<lambda>b. \<not> list_ex (\<lambda>it. unfinished (it_state it)) (ba_items b)) ledger;
          known = dupdate (dupdate [] (map (\<lambda>b. (ba_id b, b)) finished)) (map (\<lambda>b. (ba_id b, b)) memory);
          selected = map fst (filter (\<lambda>(_, b). clearable modality only b) known)
      in (selected, filter (\<lambda>b. ba_id b \<notin> set selected) memory,
          filter (\<lambda>b. ba_id b \<notin> set selected) ledger))"

section \<open>Batch summary\<close>

record running_view =
  rv_index :: nat
  rv_studio :: string
  rv_machine :: string
  rv_progress :: "rat option"
  rv_elapsed :: "time option"

record summary =
  su_total :: nat
  su_queued :: int
  su_retrying :: nat
  su_next_retry :: "time option"
  su_running :: nat
  su_cancel_requested :: nat
  su_done :: nat
  su_error :: nat
  su_cancelled_items :: nat
  su_uncertain :: nat
  su_avg :: "rat option"
  su_running_items :: "running_view list"
  su_processing_started :: "time option"
  su_processing_elapsed :: "time option"
  su_last_activity :: time
  su_no_progress :: "time option"
  su_stalled_after :: rat
  su_stalled :: bool

definition opt_list :: "'a option \<Rightarrow> 'a list" where
  "opt_list v = (case v of None \<Rightarrow> [] | Some x \<Rightarrow> [x])"

definition mean_rounded :: "rat list \<Rightarrow> rat option" where
  "mean_rounded ds = (if ds = [] then None else Some (py_round 1 (sum_list ds / of_nat (length ds))))"

definition done_durations :: "item list \<Rightarrow> rat list" where
  "done_durations items = concat (map (\<lambda>it. if it_state it = Done then opt_list (it_runtime it) else []) items)"

definition recent_avg :: "batch list \<Rightarrow> string \<Rightarrow> string \<Rightarrow> rat option" where
  "recent_avg all modality model =
     (let durs = concat (map (\<lambda>b. done_durations (ba_items b))
            (filter (\<lambda>b. ba_modality b = modality \<and> ba_model b = model) all))
      in mean_rounded (drop (length durs - 50) durs))"

definition activity_times :: "item \<Rightarrow> time list" where
  "activity_times it = opt_list (it_run_started it) @ opt_list (it_last_progress it) @ opt_list (it_finished it)
     @ (case (it_state it, it_run_started it, it_runtime it) of
          (Done, Some s, Some r) \<Rightarrow> [s + r] | _ \<Rightarrow> [])"

definition studio_machine_part :: "string \<Rightarrow> string" where
  \<comment> \<open>\<open>sid.split("@", 1)[1] if "@" in sid else "local"\<close>\<close>
  "studio_machine_part sid = (case dropWhile (\<lambda>c. c \<noteq> CHR ''@'') sid of [] \<Rightarrow> local_machine | _ # m \<Rightarrow> m)"

definition running_view_of :: "time \<Rightarrow> item \<Rightarrow> running_view" where
  "running_view_of now it = \<lparr>rv_index = it_index it, rv_studio = str_or_empty (it_studio it),
     rv_machine = studio_machine_part (str_or_empty (it_studio it)), rv_progress = it_progress it,
     rv_elapsed = (case it_run_started it of None \<Rightarrow> None
        | Some s \<Rightarrow> if s = 0 then None else Some (py_round 1 (now - s)))\<rparr>"

definition is_retrying :: "time \<Rightarrow> item \<Rightarrow> bool" where
  "is_retrying now it \<longleftrightarrow> it_state it = Queued \<and> now < (case it_retry_at it of None \<Rightarrow> 0 | Some t \<Rightarrow> t)"

definition in_state :: "item_state \<Rightarrow> batch \<Rightarrow> nat" where
  "in_state st b = count_where (\<lambda>it. it_state it = st) (ba_items b)"

definition batch_summary :: "batch list \<Rightarrow> time \<Rightarrow> batch \<Rightarrow> summary" where
  "batch_summary all now b =
     (let items = ba_items b;
          avg = (if done_durations items \<noteq> [] then mean_rounded (done_durations items)
                 else recent_avg all (ba_modality b) (ba_model b));
          started = concat (map (\<lambda>it. opt_list (it_run_started it)) items);
          activity = [ba_created b, case ba_last_dispatched b of None \<Rightarrow> 0 | Some t \<Rightarrow> t]
            @ concat (map activity_times items);
          retrying = filter (is_retrying now) items;
          active = (in_state Queued b \<noteq> 0 \<or> in_state Running b \<noteq> 0
             \<or> in_state Cancel_requested b \<noteq> 0 \<or> in_state Uncertain b \<noteq> 0);
          last_activity = fold max activity (ba_created b);
          processing = (case started of [] \<Rightarrow> None | t # ts \<Rightarrow> Some (fold min ts t));
          stalled_after = max 900 (of_int (round_half_even ((case avg of None \<Rightarrow> 0 | Some a \<Rightarrow> a) * 5)));
          no_progress = (if active then Some (py_round 1 (max 0 (now - last_activity))) else None)
      in \<lparr>su_total = length items,
          su_queued = int (in_state Queued b) - int (length retrying),
          su_retrying = length retrying,
          su_next_retry = (case concat (map (\<lambda>it. opt_list (it_retry_at it)) retrying) of
              [] \<Rightarrow> None | t # ts \<Rightarrow> Some (fold min ts t)),
          su_running = in_state Running b, su_cancel_requested = in_state Cancel_requested b,
          su_done = in_state Done b, su_error = in_state Errored b,
          su_cancelled_items = in_state Cancelled b, su_uncertain = in_state Uncertain b,
          su_avg = avg,
          su_running_items = map (running_view_of now) (filter (\<lambda>it. it_state it = Running) items),
          su_processing_started = processing,
          su_processing_elapsed = (case processing of None \<Rightarrow> None
            | Some p \<Rightarrow> if active \<and> p \<noteq> 0 then Some (py_round 1 (max 0 (now - p))) else None),
          su_last_activity = last_activity, su_no_progress = no_progress,
          su_stalled_after = stalled_after,
          su_stalled = (case no_progress of None \<Rightarrow> False | Some p \<Rightarrow> stalled_after \<le> p)\<rparr>)"

end
