(* ===== verification/Broker_Queue.thy ===== *)
theory Broker_Queue
  imports Broker_Items
begin

text \<open>
  Placement in \<open>app/backend/broker.py\<close>: the physical-machine leases and turn tokens shared with the
  chat and transcription queues, maintenance drains, the choice and order of eligible studios, the
  order of queued batches, and the decision for one queued item and one studio.  What the monitor,
  the peer table and the registry flags answer is the snapshot \<open>fleet_view\<close>.
\<close>

section \<open>Machine leases\<close>

type_synonym leases = "(string, string) dict"

definition machine_of :: "studio list \<Rightarrow> string \<Rightarrow> string option" where
  \<comment> \<open>\<open>{s["id"]: s}\<close>: the last studio of an id wins\<close>
  "machine_of registry sid = map_of (rev (map (\<lambda>s. (st_id s, st_machine s)) registry)) sid"

definition busy_machines :: "studio list \<Rightarrow> string list \<Rightarrow> leases \<Rightarrow> string set" where
  "busy_machines registry busy leases = set (map fst leases) \<union> set (List.map_filter (machine_of registry) busy)"

record fleet_view =
  fv_ready :: "string \<Rightarrow> bool"
  fv_machine_on :: "string \<Rightarrow> bool"
  fv_studio_on :: "string \<Rightarrow> string \<Rightarrow> bool"
  fv_up :: "string \<Rightarrow> bool"
  fv_render_score :: "string \<Rightarrow> rat"
  fv_chip :: "string \<Rightarrow> string"
  fv_total :: "string \<Rightarrow> fnum option"
  fv_version :: "string \<Rightarrow> string"

definition pending_render_for_machine :: "studio list \<Rightarrow> fleet_view \<Rightarrow> batch list \<Rightarrow> string \<Rightarrow> bool" where
  "pending_render_for_machine registry v all machine \<longleftrightarrow>
     list_ex (\<lambda>b. ba_modality b = ''render'' \<and> \<not> ba_cancelled b
        \<and> list_ex (\<lambda>it. it_state it = Queued) (ba_items b)) all
     \<and> list_ex (\<lambda>s. st_modality s = ''render'' \<and> st_machine s = machine \<and> fv_machine_on v machine
        \<and> fv_studio_on v machine (st_id s) \<and> fv_up v (st_id s)) registry"

definition acquire_external_machine ::
  "studio list \<Rightarrow> fleet_view \<Rightarrow> batch list \<Rightarrow> string list \<Rightarrow> string \<Rightarrow> string \<Rightarrow> leases \<Rightarrow> leases \<times> bool" where
  "acquire_external_machine registry v all busy machine owner leases =
     (if machine \<in> busy_machines registry busy leases then (leases, False)
      else if \<not> prefix ''render:'' owner \<and> pending_render_for_machine registry v all machine then (leases, False)
      else (dset machine owner leases, True))"

definition release_external_machine :: "string \<Rightarrow> string \<Rightarrow> leases \<Rightarrow> leases" where
  "release_external_machine machine owner leases =
     (if dget leases machine = Some owner then dpop machine leases else leases)"

definition set_maintenance :: "string \<Rightarrow> bool \<Rightarrow> string list \<Rightarrow> string list" where
  "set_maintenance sid enabled drained =
     (if enabled then List.insert sid drained else removeAll sid drained)"

section \<open>Turn tokens of the auxiliary lanes\<close>

type_synonym turns = "(string, string) dict"

definition external_lanes :: "string list" where
  "external_lanes = [''chat'', ''transcription'']"

definition external_dispatch_allowed :: "string \<Rightarrow> string \<Rightarrow> bool \<Rightarrow> turns \<Rightarrow> bool option" where
  \<comment> \<open>\<open>None\<close> is the ValueError for an unknown lane\<close>
  "external_dispatch_allowed machine lane other_has_work turns =
     (if lane \<notin> set external_lanes then None
      else if \<not> other_has_work then Some True
      else Some (dget turns machine \<in> {None, Some lane}))"

definition other_lane :: "string \<Rightarrow> string" where
  "other_lane lane = hd (removeAll lane external_lanes)"

definition note_external_dispatch :: "string \<Rightarrow> string \<Rightarrow> turns \<Rightarrow> turns option" where
  "note_external_dispatch machine lane turns =
     (if lane \<notin> set external_lanes then None else Some (dset machine (other_lane lane) turns))"

definition note_external_memory_block :: "string \<Rightarrow> string \<Rightarrow> turns \<Rightarrow> turns option" where
  "note_external_memory_block machine lane turns =
     (if lane \<notin> set external_lanes then None else Some (dset machine (other_lane lane) turns))"

section \<open>Ranking of studios\<close>

text \<open>\<open>re.search(r"\\bM([1-9])\\b", chip.upper())\<close>\<close>

definition py_upper_char :: "char \<Rightarrow> char" where
  "py_upper_char c = (if is_lower c then char_of (of_char c - (32::nat)) else c)"

definition word_char :: "char \<Rightarrow> bool" where
  "word_char c \<longleftrightarrow> is_alnum c \<or> c = CHR ''_''"

fun chip_search :: "bool \<Rightarrow> string \<Rightarrow> nat" where
  \<comment> \<open>the flag: the previous character is a word character\<close>
  "chip_search after_word (m # d # rest) =
     (if m = CHR ''M'' \<and> \<not> after_word \<and> is_digit d \<and> d \<noteq> CHR ''0''
         \<and> (case rest of [] \<Rightarrow> True | c # _ \<Rightarrow> \<not> word_char c)
      then of_char d - 48 else chip_search (word_char m) (d # rest))"
| "chip_search after_word _ = 0"

definition studio_speed_score :: "fleet_view \<Rightarrow> studio \<Rightarrow> fnum" where
  "studio_speed_score v s =
     (let generation = chip_search False (map py_upper_char (fv_chip v (st_machine s)))
      in case fv_total v (st_machine s) of
           None \<Rightarrow> Fin (of_nat generation * 100)
         | Some t \<Rightarrow> (case fmax (Fin 0) t of
               Fin r \<Rightarrow> Fin (of_nat generation * 100 + r) | x \<Rightarrow> x))"

definition descending :: "fnum \<Rightarrow> bool \<times> rat" where
  \<comment> \<open>the sort key \<open>-score\<close> for a score that is a number or infinite\<close>
  "descending x = (case x of Pos_inf \<Rightarrow> (False, 0) | Fin r \<Rightarrow> (True, - r) | _ \<Rightarrow> (True, 0))"

definition studio_total_memory_gb :: "fleet_view \<Rightarrow> studio \<Rightarrow> bool \<times> rat" where
  \<comment> \<open>the sort key of a capacity whose unknown value is infinite\<close>
  "studio_total_memory_gb v s = (case fv_total v (st_machine s) of
       Some (Fin r) \<Rightarrow> if 0 < r then (False, r) else (True, 0) | _ \<Rightarrow> (True, 0))"

definition routing_allows :: "string \<Rightarrow> studio \<Rightarrow> bool" where
  "routing_allows routing s \<longleftrightarrow>
     (prefix ''studio:'' routing \<longrightarrow> st_id s = drop (length ''studio:'') routing)
     \<and> (routing = ''remote'' \<longrightarrow> st_machine s \<noteq> local_machine)"

definition studio_eligible ::
  "studio list \<Rightarrow> fleet_view \<Rightarrow> string list \<Rightarrow> string list \<Rightarrow> leases \<Rightarrow> protections \<Rightarrow> time
     \<Rightarrow> string \<Rightarrow> string \<Rightarrow> studio \<Rightarrow> bool" where
  "studio_eligible registry v busy drained leases prot now modality routing s \<longleftrightarrow>
     routing_allows routing s
     \<and> st_modality s = modality \<and> st_id s \<notin> set busy \<and> st_id s \<notin> set drained
     \<and> st_machine s \<notin> busy_machines registry busy leases
     \<and> fv_ready v (st_id s) \<and> fv_machine_on v (st_machine s) \<and> fv_studio_on v (st_machine s) (st_id s)
     \<and> \<not> machine_blocked now (st_machine s) prot \<and> fv_up v (st_id s)"

definition placement_key :: "fleet_view \<Rightarrow> string \<Rightarrow> studio \<Rightarrow> (bool \<times> rat) \<times> string" where
  "placement_key v modality s =
     (if modality = ''render'' then ((True, - fv_render_score v (st_id s)), st_id s)
      else if modality = ''image'' then (descending (studio_speed_score v s), st_id s)
      else (studio_total_memory_gb v s, st_id s))"

definition eligible_studios ::
  "studio list \<Rightarrow> fleet_view \<Rightarrow> string list \<Rightarrow> string list \<Rightarrow> leases \<Rightarrow> protections \<Rightarrow> time
     \<Rightarrow> string \<Rightarrow> string \<Rightarrow> studio list" where
  "eligible_studios registry v busy drained leases prot now modality routing =
     sort_key (placement_key v modality)
       (filter (studio_eligible registry v busy drained leases prot now modality routing) registry)"

section \<open>Order of queued batches\<close>

definition modality_priority :: "string \<Rightarrow> nat" where
  "modality_priority m = (if m = ''render'' then 0 else if m \<in> {''music'', ''voice''} then 5 else 10)"

definition batch_memory_constraint_gb ::
  "text_host \<Rightarrow> overrides \<Rightarrow> (string \<Rightarrow> string \<Rightarrow> jdict list) \<Rightarrow> batch \<Rightarrow> fnum option" where
  \<comment> \<open>\<open>catalog model modality\<close> is \<open>monitor.scheduling_catalog_entries\<close>; \<open>None\<close> when the policy raises\<close>
  "batch_memory_constraint_gb h vals catalog b =
     (if ba_model b = [] then Some (Fin 0)
      else fold (\<lambda>entry acc. case acc of None \<Rightarrow> None
        | Some m \<Rightarrow>
            if truthy (jget entry ''is_cloud'') \<or> \<not> applies_to (Some (ba_modality b)) then acc
            else (case admission_requirements h vals (JStr (ba_model b)) entry of
                None \<Rightarrow> None
              | Some None \<Rightarrow> acc
              | Some (Some r) \<Rightarrow> (case rq_total r of
                    None \<Rightarrow> acc
                  | Some x \<Rightarrow> if flt (Fin 0) x then Some (fmax m x) else acc)))
        (catalog (ba_model b) (ba_modality b)) (Some (Fin 0)))"

definition queue_key :: "(batch \<Rightarrow> fnum) \<Rightarrow> batch \<Rightarrow> nat \<times> (bool \<times> rat) \<times> time \<times> time" where
  "queue_key constraint b = (modality_priority (ba_modality b), descending (constraint b),
     (case ba_last_dispatched b of None \<Rightarrow> 0 | Some t \<Rightarrow> t), ba_created b)"

definition has_queued :: "batch \<Rightarrow> bool" where
  "has_queued b \<longleftrightarrow> list_ex (\<lambda>it. it_state it = Queued) (ba_items b)"

definition queued_batches :: "(batch \<Rightarrow> fnum) \<Rightarrow> batch list \<Rightarrow> batch list" where
  "queued_batches constraint all = sort_key (queue_key constraint) (filter has_queued all)"

section \<open>One item and one studio\<close>

definition ready_items :: "time \<Rightarrow> batch \<Rightarrow> item list" where
  "ready_items now b = filter (\<lambda>it. it_state it = Queued \<and> (case it_retry_at it of None \<Rightarrow> 0 | Some t \<Rightarrow> t) \<le> now) (ba_items b)"

definition item_allows_studio :: "time \<Rightarrow> studio \<Rightarrow> item \<Rightarrow> bool" where
  "item_allows_studio now s it \<longleftrightarrow>
     (case dget (it_avoid it) (st_machine s) of None \<Rightarrow> 0 | Some t \<Rightarrow> t) \<le> now"

definition merged_params :: "batch \<Rightarrow> item \<Rightarrow> jdict" where
  \<comment> \<open>\<open>dict(shared_params or {})\<close> updated with the item's own\<close>
  "merged_params b it =
     dupdate (case as_dict (ba_shared b) of None \<Rightarrow> [] | Some d \<Rightarrow> d)
             (case as_dict (it_params it) of None \<Rightarrow> [] | Some d \<Rightarrow> d)"

definition shared_voice_allows_studio ::
  "(json \<Rightarrow> string) \<Rightarrow> (string \<Rightarrow> string list option) \<Rightarrow> batch \<Rightarrow> studio \<Rightarrow> item \<Rightarrow> bool" where
  \<comment> \<open>\<open>synced\<close> is \<open>shared_voices.synced_studio_ids\<close>\<close>
  "shared_voice_allows_studio rp synced b s it \<longleftrightarrow>
     ba_modality b \<noteq> ''voice''
     \<or> (let voice = py_strip (text_or_empty rp (jget (merged_params b it) ''voice_library_id''))
        in voice = [] \<or> (case synced voice of None \<Rightarrow> True | Some ids \<Rightarrow> st_id s \<in> set ids))"

definition leading_digits :: "string \<Rightarrow> string" where
  "leading_digits s = takeWhile is_digit s"

definition version_tuple :: "string \<Rightarrow> (nat \<times> nat \<times> nat) option" where
  \<comment> \<open>\<open>re.match(r"^(\\d+)\\.(\\d+)\\.(\\d+)", text)\<close>\<close>
  "version_tuple s =
     (let a = leading_digits s; r1 = drop (length a) s;
          b = leading_digits (tl r1); r2 = drop (length b) (tl r1);
          c = leading_digits (tl r2)
      in if a \<noteq> [] \<and> r1 \<noteq> [] \<and> hd r1 = CHR ''.'' \<and> b \<noteq> [] \<and> r2 \<noteq> [] \<and> hd r2 = CHR ''.'' \<and> c \<noteq> []
         then (case (digits_value 0 True a, digits_value 0 True b, digits_value 0 True c) of
                 (Some x, Some y, Some z) \<Rightarrow> Some (x, y, z) | _ \<Rightarrow> None)
         else None)"

definition supports_genstudio_voice_evidence :: "(json \<Rightarrow> string) \<Rightarrow> fleet_view \<Rightarrow> batch \<Rightarrow> studio \<Rightarrow> bool" where
  "supports_genstudio_voice_evidence rp v b s \<longleftrightarrow>
     ba_modality b \<noteq> ''voice'' \<or> \<not> prefix ''genstudio-kh:'' (text_or_empty rp (ba_label b))
     \<or> (case version_tuple (fv_version v (st_id s)) of None \<Rightarrow> False | Some t \<Rightarrow> (1, 20, 13) \<le> t)"

definition revision_fields :: "string list" where
  "revision_fields = [''runtime_revision'', ''model_revision'', ''snapshot_revision'', ''commit_sha'', ''revision'']"

definition normalized_revision :: "(json \<Rightarrow> string) \<Rightarrow> json \<Rightarrow> string option" where
  "normalized_revision rp v =
     (let t = py_strip (text_or_empty rp v)
      in if immutable_pattern t then Some (py_lower (remove_prefix sha_prefix t)) else None)"

definition catalog_immutable_revision :: "(json \<Rightarrow> string) \<Rightarrow> jdict \<Rightarrow> string option" where
  "catalog_immutable_revision rp entry =
     (let sources = entry # (case as_dict (jget entry ''cache'') of None \<Rightarrow> [] | Some c \<Rightarrow> [c])
      in case concat (map (\<lambda>d. List.map_filter (\<lambda>f. normalized_revision rp (jget d f)) revision_fields) sources) of
           [] \<Rightarrow> None | r # _ \<Rightarrow> Some r)"

definition catalog_matches_revision :: "(json \<Rightarrow> string) \<Rightarrow> batch \<Rightarrow> jdict \<Rightarrow> bool" where
  "catalog_matches_revision rp b entry = (case ba_execution b of
       None \<Rightarrow> True
     | Some e \<Rightarrow> (case ex_model_revision e of
         None \<Rightarrow> True
       | Some r \<Rightarrow> r = []
           \<or> (normalized_revision rp (JStr r) \<noteq> None
              \<and> catalog_immutable_revision rp entry = normalized_revision rp (JStr r))))"

record offer =
  of_entry :: "jdict option"
  of_cached :: bool
  of_requirement :: "requirement option"
  of_gate :: gate
  of_machine_busy :: bool
  of_generation :: "int option"
  of_still_ready :: bool

datatype verdict =
    Not_in_catalog | Wrong_revision | Model_paused block_note | Not_downloaded
  | Memory_blocked gate | Machine_taken | Peer_changed | Assign rat

definition offer_verdict ::
  "(json \<Rightarrow> string) \<Rightarrow> model_protections \<Rightarrow> batch \<Rightarrow> studio \<Rightarrow> offer \<Rightarrow> verdict" where
  \<comment> \<open>the guards of the dispatch loop for a compatible item; the reservation is 0 off this machine\<close>
  "offer_verdict rp models b s off = (case of_entry off of
       None \<Rightarrow> Not_in_catalog
     | Some entry \<Rightarrow>
         if \<not> catalog_matches_revision rp b entry then Wrong_revision
         else (case model_block_note rp (st_id s) (ba_model b) entry models of
             Some note \<Rightarrow> Model_paused note
           | None \<Rightarrow>
               if \<not> truthy (jget entry ''is_cloud'') \<and> \<not> of_cached off then Not_downloaded
               else if of_requirement off \<noteq> None \<and> of_gate off \<noteq> Run then Memory_blocked (of_gate off)
               else if of_machine_busy off then Machine_taken
               else if \<not> of_still_ready off then Peer_changed
               else Assign (case of_requirement off of
                   Some mem \<Rightarrow> if st_machine s = local_machine
                     then (case required_free_memory mem of Fin r \<Rightarrow> r | _ \<Rightarrow> 0) else 0
                 | None \<Rightarrow> 0)))"

lemma set_eligible:
  "s \<in> set (eligible_studios registry v busy drained leases prot now modality routing) \<longleftrightarrow>
     s \<in> set registry \<and> studio_eligible registry v busy drained leases prot now modality routing s"
  by (auto simp: eligible_studios_def)

lemma machine_of_registered:
  assumes "distinct (map st_id registry)" and "s \<in> set registry"
  shows "machine_of registry (st_id s) = Some (st_machine s)"
proof -
  have "distinct (map fst (rev (map (\<lambda>s. (st_id s, st_machine s)) registry)))"
    using assms(1) by (simp add: rev_map [symmetric] o_def)
  moreover have "(st_id s, st_machine s) \<in> set (rev (map (\<lambda>s. (st_id s, st_machine s)) registry))"
    using assms(2) by auto
  ultimately show ?thesis unfolding machine_of_def by (rule map_of_is_SomeI)
qed

lemma required_free_nonneg: "required_free_memory mem = Fin r \<Longrightarrow> 0 \<le> r"
  by (cases "rq_free mem"; cases "the (rq_free mem)")
     (auto simp: required_free_memory_def default_min_free_memory_gb_def fmax_def split: if_splits)

lemma assign_nonneg: "offer_verdict rp models b s off = Assign r \<Longrightarrow> 0 \<le> r"
  by (auto simp: offer_verdict_def required_free_nonneg split: option.splits if_splits fnum.splits)

end
