(* ===== verification/Broker_Run.thy ===== *)
theory Broker_Run
  imports Broker_Queue
begin

text \<open>
  The running broker of \<open>app/backend/broker.py\<close>.  The state holds the batches in memory and their
  saved copies in the ledger (\<open>ledger.save_batch\<close> replaces by id), the busy studios, leases,
  circuits, the reserved memory, and the tasks: one coroutine \<open>_run_item\<close> per dispatched item, with
  the await at which it is suspended as its phase.  Each definition below is the code between two
  awaits, so every interleaving of the coroutines, the dispatch loop and the API handlers is a
  sequence of these steps.  The worker's answers are arguments.

  The dispatch loop keeps its place in \<open>br_plan\<close>: the batch it is serving, the queued items it
  listed and the eligible studios it has still to try, because it awaits the catalog and the memory
  check of each studio and the rest of the broker may move meanwhile.

  Phases of a task: \<open>Created\<close> (before the request), \<open>Posting\<close> (request sent), \<open>Polling\<close> (asleep),
  \<open>Asking\<close> (poll sent), \<open>Adopting\<close> (fetching a finished voice artifact), \<open>Recovering\<close> (reconciling after an exception), \<open>Handing_off\<close>
  (releasing siblings after a capacity failure).  The webhook posts are not awaited steps here:
  \<open>finally\<close> is one step.  Governor notes are modelled only where they are cleared or set by a fence, and
  alerts are left out.
\<close>

section \<open>State\<close>

datatype phase = Created | Posting | Polling | Asking | Adopting | Recovering failure | Handing_off time string

record task =
  tk_batch :: string
  tk_index :: nat
  tk_studio :: studio
  tk_started :: time
  tk_phase :: phase

record plan =
  pl_batch :: string
  pl_queued :: "nat list"
  pl_studios :: "studio list"
  pl_now :: time

record broker =
  br_batches :: "batch list"
  br_ledger :: "batch list"
  br_busy :: "string list"
  br_drained :: "string list"
  br_leases :: leases
  br_turns :: turns
  br_prot :: protections
  br_models :: model_protections
  br_reserved :: rat
  br_tasks :: "task list"
  br_plan :: "plan option"

definition batch_of :: "broker \<Rightarrow> string \<Rightarrow> batch option" where
  "batch_of st bid = select_first (\<lambda>b. ba_id b = bid) (br_batches st)"

definition find_item :: "broker \<Rightarrow> string \<Rightarrow> nat \<Rightarrow> item option" where
  "find_item st bid i = Option.bind (batch_of st bid) (item_of i)"

definition map_batch :: "string \<Rightarrow> (batch \<Rightarrow> batch) \<Rightarrow> broker \<Rightarrow> broker" where
  "map_batch bid f st = st\<lparr>br_batches := update_where (\<lambda>b. ba_id b = bid) f (br_batches st)\<rparr>"

definition map_item :: "string \<Rightarrow> nat \<Rightarrow> (item \<Rightarrow> item) \<Rightarrow> broker \<Rightarrow> broker" where
  "map_item bid i f st = map_batch bid (update_item i f) st"

definition save_row :: "batch \<Rightarrow> batch list \<Rightarrow> batch list" where
  \<comment> \<open>\<open>INSERT OR REPLACE INTO batches\<close>; SQLite moves the replaced row to the end of the table, here it
    keeps its place: the order of the rows is not part of the model\<close>
  "save_row b ledger = upsert (\<lambda>r. ba_id r = ba_id b) b (\<lambda>_. b) ledger"

definition save_batch :: "string \<Rightarrow> broker \<Rightarrow> broker" where
  "save_batch bid st = (case batch_of st bid of
       None \<Rightarrow> st | Some b \<Rightarrow> st\<lparr>br_ledger := save_row b (br_ledger st)\<rparr>)"

definition task_key :: "task \<Rightarrow> string \<times> nat" where
  "task_key t = (tk_batch t, tk_index t)"

definition set_phase :: "task \<Rightarrow> phase \<Rightarrow> broker \<Rightarrow> broker" where
  "set_phase t p st = st\<lparr>br_tasks := update_where (\<lambda>u. task_key u = task_key t)
     (\<lambda>u. u\<lparr>tk_phase := p\<rparr>) (br_tasks st)\<rparr>"

definition on_item :: "task \<Rightarrow> (item \<Rightarrow> item) \<Rightarrow> broker \<Rightarrow> broker" where
  "on_item t f st = map_item (tk_batch t) (tk_index t) f st"

definition task_item :: "task \<Rightarrow> broker \<Rightarrow> item option" where
  "task_item t st = find_item st (tk_batch t) (tk_index t)"

section \<open>Dispatch\<close>

definition dispatched_item :: "time \<Rightarrow> studio \<Rightarrow> rat \<Rightarrow> int option \<Rightarrow> item \<Rightarrow> item" where
  "dispatched_item now s reserve generation it =
     (clear_worker_attempt_evidence it)\<lparr>it_state := Running, it_tries := it_tries it + 1,
        it_studio := Some (st_id s), it_job := None, it_retry_at := None, it_reserved := reserve,
        it_generation := generation\<rparr>"

definition assign_item :: "time \<Rightarrow> string \<Rightarrow> nat \<Rightarrow> studio \<Rightarrow> rat \<Rightarrow> int option \<Rightarrow> broker \<Rightarrow> broker" where
  "assign_item now bid i s reserve generation st =
     (map_item bid i (dispatched_item now s reserve generation)
       (map_batch bid (\<lambda>b. b\<lparr>ba_last_dispatched := Some now, ba_note := None\<rparr>) st))
     \<lparr>br_busy := List.insert (st_id s) (br_busy st), br_reserved := br_reserved st + reserve,
      br_tasks := br_tasks st @ [\<lparr>tk_batch = bid, tk_index = i, tk_studio = s, tk_started = now, tk_phase = Created\<rparr>]\<rparr>"

record dispatch_context =
  dc_registry :: "studio list"
  dc_text :: text_host
  dc_exec :: exec_host
  dc_sanitize :: "string \<Rightarrow> string"

definition fence_batch :: "dispatch_context \<Rightarrow> time \<Rightarrow> string \<Rightarrow> broker \<Rightarrow> identity_error + (broker \<times> bool)" where
  \<comment> \<open>\<open>_expire_genstudio_batch\<close> on the batch object\<close>
  "fence_batch c now bid st = (case batch_of st bid of
       None \<Rightarrow> Inr (st, False)
     | Some b \<Rightarrow> (case expire_genstudio_batch (dc_exec c) now b of
         Inl e \<Rightarrow> Inl e
       | Inr (b', fenced) \<Rightarrow> Inr (map_batch bid (\<lambda>_. b') st, fenced)))"

definition scan_batch :: "dispatch_context \<Rightarrow> fleet_view \<Rightarrow> time \<Rightarrow> string \<Rightarrow> broker \<Rightarrow> broker" where
  \<comment> \<open>the head of the loop body for one batch, up to the first await\<close>
  "scan_batch c v now bid st = (case fence_batch c now bid st of
       Inl _ \<Rightarrow> st
     | Inr (st1, fenced) \<Rightarrow>
         if fenced then save_batch bid st1
         else (case batch_of st1 bid of
             None \<Rightarrow> st1
           | Some b \<Rightarrow>
               if ba_cancelled b \<or> ready_items now b = [] then st1
               else st1\<lparr>br_plan := Some \<lparr>pl_batch = bid, pl_queued = map it_index (ready_items now b),
                   pl_studios = filter (supports_genstudio_voice_evidence (th_repr (dc_text c)) v b)
                     (eligible_studios (dc_registry c) v (br_busy st1) (br_drained st1) (br_leases st1)
                        (br_prot st1) now (ba_modality b) (ba_routing b)),
                   pl_now = now\<rparr>\<rparr>))"

definition first_compatible ::
  "dispatch_context \<Rightarrow> (string \<Rightarrow> string list option) \<Rightarrow> plan \<Rightarrow> batch \<Rightarrow> studio \<Rightarrow> nat option" where
  "first_compatible c synced p b s = List.find (\<lambda>i. case item_of i b of
       None \<Rightarrow> False
     | Some it \<Rightarrow> shared_voice_allows_studio (th_repr (dc_text c)) synced b s it
                  \<and> item_allows_studio (pl_now p) s it) (pl_queued p)"

definition offer_next ::
  "dispatch_context \<Rightarrow> (string \<Rightarrow> string list option) \<Rightarrow> time \<Rightarrow> offer \<Rightarrow> broker \<Rightarrow> broker" where
  \<comment> \<open>one turn of the loop over the studios; the lease is rechecked against the holders of now\<close>
  "offer_next c synced now off st = (case br_plan st of
       None \<Rightarrow> st
     | Some p \<Rightarrow> (case (pl_studios p, pl_queued p, batch_of st (pl_batch p)) of
         (s # rest, _ # _, Some b) \<Rightarrow>
           (let moved = st\<lparr>br_plan := Some (p\<lparr>pl_studios := rest\<rparr>)\<rparr>
            in case first_compatible c synced p b s of
                 None \<Rightarrow> moved
               | Some i \<Rightarrow>
                   (case offer_verdict (th_repr (dc_text c)) (br_models st) b s
                      (off\<lparr>of_machine_busy :=
                         (st_machine s \<in> busy_machines (dc_registry c) (br_busy st) (br_leases st))\<rparr>) of
                      Assign reserve \<Rightarrow>
                        (assign_item now (pl_batch p) i s reserve (of_generation off) st)
                          \<lparr>br_plan := Some (p\<lparr>pl_studios := rest, pl_queued := remove1 i (pl_queued p)\<rparr>)\<rparr>
                    | _ \<Rightarrow> moved))
       | _ \<Rightarrow> st\<lparr>br_plan := None\<rparr>))"

section \<open>The finally clause\<close>

definition terminal_defaults :: "time \<Rightarrow> studio \<Rightarrow> time \<Rightarrow> item \<Rightarrow> item" where
  "terminal_defaults now s t_start it =
     (if terminal (it_state it)
      then it\<lparr>it_code := (if it_state it = Errored \<and> it_code it = None
                           then Some ''WORKER_TERMINAL_ERROR'' else it_code it),
              it_last_progress := Some (case it_finished it of None \<Rightarrow> now | Some f \<Rightarrow> f),
              it_finished := Some (case it_finished it of None \<Rightarrow> now | Some f \<Rightarrow> f),
              it_runtime := Some (case it_runtime it of None \<Rightarrow> py_round 2 (now - t_start) | Some r \<Rightarrow> r),
              it_machine := Some (case it_machine it of
                  None \<Rightarrow> take 500 (if st_machine s = [] then local_machine else st_machine s) | Some m \<Rightarrow> m),
              it_worker := Some (case it_worker it of
                  None \<Rightarrow> take 500 (if st_id s = [] then ''unknown'' else st_id s) | Some w \<Rightarrow> w)\<rparr>
      else it)"

definition release_item :: "item \<Rightarrow> item" where
  "release_item it = it\<lparr>it_reserved := 0, it_generation := None\<rparr>"

definition notify_item :: "string \<Rightarrow> nat \<Rightarrow> broker \<Rightarrow> broker" where
  "notify_item bid i st = map_batch bid (\<lambda>b. update_item i (\<lambda>it. fst (post_item_webhook b it)) b) st"

definition finish_batch :: "time \<Rightarrow> string \<Rightarrow> broker \<Rightarrow> broker" where
  "finish_batch now bid st = save_batch bid (map_batch bid (\<lambda>b. fst (maybe_finish now b)) st)"

definition finish_task :: "time \<Rightarrow> task \<Rightarrow> broker \<Rightarrow> broker" where
  "finish_task now t st =
     (let held = (case task_item t st of None \<Rightarrow> 0 | Some it \<Rightarrow> it_reserved it);
          st1 = on_item t (release_item \<circ> terminal_defaults now (tk_studio t) (tk_started t)) st
      in finish_batch now (tk_batch t) (notify_item (tk_batch t) (tk_index t)
           (st1\<lparr>br_busy := removeAll (st_id (tk_studio t)) (br_busy st1),
                br_reserved := max 0 (br_reserved st1 - held),
                br_tasks := filter (\<lambda>u. task_key u \<noteq> task_key t) (br_tasks st1)\<rparr>)))"

section \<open>One attempt\<close>

definition cancelled_item :: "string \<Rightarrow> item \<Rightarrow> item" where
  "cancelled_item reason it = it\<lparr>it_state := Cancelled, it_error := Some reason\<rparr>"

definition cancel_reason :: "batch \<Rightarrow> string" where
  "cancel_reason b = (if ba_lease_expired b then lease_expired_text else ''Cancelled by user'')"

definition stop_if_fenced ::
  "dispatch_context \<Rightarrow> time \<Rightarrow> task \<Rightarrow> (broker \<Rightarrow> broker) \<Rightarrow> broker \<Rightarrow> broker" where
  \<comment> \<open>\<open>if _expire_genstudio_batch(b) or b["cancelled"]\<close>: cancel the item and leave; the await
    of \<open>_signal_worker_cancel\<close> is no step of its own, and its marks on the item are left out\<close>
  "stop_if_fenced c now t go_on st = (case fence_batch c now (tk_batch t) st of
       Inl _ \<Rightarrow> st
     | Inr (st1, fenced) \<Rightarrow> (case batch_of st1 (tk_batch t) of
         None \<Rightarrow> st
       | Some b \<Rightarrow> if fenced \<or> ba_cancelled b
           then finish_task now t (on_item t (cancelled_item (cancel_reason b)) st1)
           else go_on st1))"

definition started_item :: "time \<Rightarrow> item \<Rightarrow> item" where
  "started_item now it = it\<lparr>it_run_started := Some now, it_progress := None, it_last_progress := Some now\<rparr>"

definition requeued_item :: "item \<Rightarrow> item" where
  "requeued_item it = it\<lparr>it_state := Queued, it_studio := None, it_job := None,
     it_tries := max 0 (it_tries it - 1),
     it_error := Some ''worker authentication changed before dispatch''\<rparr>"

definition rejected_item :: "string option \<Rightarrow> string \<Rightarrow> item \<Rightarrow> item" where
  "rejected_item code reason it = it\<lparr>it_state := Errored,
     it_code := (case code of None \<Rightarrow> it_code it | Some c \<Rightarrow> Some c), it_error := Some reason\<rparr>"

datatype preflight = Clear | Peer_gone | Refused "string option" string

definition begin_attempt :: "dispatch_context \<Rightarrow> time \<Rightarrow> preflight \<Rightarrow> task \<Rightarrow> broker \<Rightarrow> broker" where
  \<comment> \<open>up to the POST; \<open>Refused\<close> is a reference image or voice reference that cannot be used\<close>
  "begin_attempt c now check t st =
     (let st1 = (on_item t (started_item now) st)\<lparr>br_tasks :=
            update_where (\<lambda>u. task_key u = task_key t) (\<lambda>u. u\<lparr>tk_started := now\<rparr>) (br_tasks st)\<rparr>;
          t1 = t\<lparr>tk_started := now\<rparr>
      in case task_item t1 st1 of
           None \<Rightarrow> st
         | Some it \<Rightarrow>
             if voice_recovery_owns it then finish_task now t1 st1
             else (case fence_batch c now (tk_batch t) st1 of
                 Inl _ \<Rightarrow> st
               | Inr (st2, fenced) \<Rightarrow>
                   if fenced then finish_task now t1 (on_item t1 (cancelled_item lease_expired_text) st2)
                   else (case check of
                       Clear \<Rightarrow> set_phase t1 Posting st2
                     | Peer_gone \<Rightarrow> finish_task now t1 (on_item t1 requeued_item st2)
                     | Refused code reason \<Rightarrow> finish_task now t1 (on_item t1 (rejected_item code reason) st2))))"

definition observe_job :: "dispatch_context \<Rightarrow> task \<Rightarrow> jdict \<Rightarrow> broker \<Rightarrow> broker option" where
  \<comment> \<open>execution proof (saved when new), identity and telemetry of a worker answer\<close>
  "observe_job c t job st = (case task_item t st of
       None \<Rightarrow> None
     | Some it \<Rightarrow>
         (let proof = record_execution_started job it;
              st1 = on_item t (\<lambda>_. fst proof) st;
              st2 = (if snd proof then save_batch (tk_batch t) st1 else st1)
          in map_option (\<lambda>it'. on_item t (\<lambda>_. it') st2)
               (record_worker_resource_usage job
                  (record_worker_identity (th_repr (dc_text c)) (tk_studio t) job (fst proof)))))"

definition accept_job :: "dispatch_context \<Rightarrow> time \<Rightarrow> string \<Rightarrow> jdict \<Rightarrow> task \<Rightarrow> broker \<Rightarrow> broker" where
  \<comment> \<open>the worker accepted: \<open>job_id\<close> is \<open>job["id"]\<close>\<close>
  "accept_job c now job_id job t st = (case observe_job c t job st of
       None \<Rightarrow> st
     | Some st1 \<Rightarrow> stop_if_fenced c now t (set_phase t Polling)
                     (on_item t (\<lambda>it. it\<lparr>it_job := Some job_id\<rparr>) st1))"

definition poll_check :: "dispatch_context \<Rightarrow> time \<Rightarrow> task \<Rightarrow> broker \<Rightarrow> broker" where
  \<comment> \<open>awake again, before the next request\<close>
  "poll_check c now t st = (case task_item t st of
       None \<Rightarrow> st
     | Some it \<Rightarrow> if voice_recovery_owns it then finish_task now t st
                 else stop_if_fenced c now t (set_phase t Asking) st)"

definition poll_job :: "dispatch_context \<Rightarrow> time \<Rightarrow> jdict \<Rightarrow> task \<Rightarrow> broker \<Rightarrow> broker" where
  \<comment> \<open>the answer says queued, running or cancel_requested\<close>
  "poll_job c now job t st = (case task_item t st of
       None \<Rightarrow> st
     | Some it \<Rightarrow>
         if voice_recovery_owns it then finish_task now t st
         else (case observe_job c t job st of
               None \<Rightarrow> st
             | Some st1 \<Rightarrow> set_phase t Polling (on_item t (record_worker_progress now (jget job ''progress'')) st1)))"

section \<open>Success\<close>

definition identity_matches :: "batch \<Rightarrow> jdict \<Rightarrow> item \<Rightarrow> bool" where
  "identity_matches b job it \<longleftrightarrow> ba_modality b \<noteq> ''voice''
     \<or> (str_or_empty (it_job it) \<noteq> [] \<and> as_str (jget job ''id'') = it_job it)"

definition adopt_result :: "time \<Rightarrow> rat \<Rightarrow> item \<Rightarrow> item" where
  "adopt_result now runtime it = it\<lparr>it_runtime := Some runtime\<rparr>"

definition published_item :: "time \<Rightarrow> string \<Rightarrow> item \<Rightarrow> item" where
  "published_item now asset it = it\<lparr>it_state := Done, it_asset := Some asset,
     it_last_progress := Some now, it_finished := Some now\<rparr>"

definition succeed_task :: "time \<Rightarrow> task \<Rightarrow> broker \<Rightarrow> broker" where
  \<comment> \<open>\<open>_mark_machine_success(studio); return\<close>\<close>
  "succeed_task now t st = finish_task now t
     (st\<lparr>br_prot := fst (mark_machine_success now (st_machine (tk_studio t)) (br_prot st))\<rparr>)"

definition leave_or_succeed :: "time \<Rightarrow> task \<Rightarrow> broker \<Rightarrow> broker" where
  "leave_or_succeed now t st = (case task_item t st of
       None \<Rightarrow> st
     | Some it \<Rightarrow> if voice_recovery_owns it then finish_task now t st else succeed_task now t st)"

definition complete_job ::
  "dispatch_context \<Rightarrow> time \<Rightarrow> jdict \<Rightarrow> rat \<Rightarrow> string \<Rightarrow> bool \<Rightarrow> task \<Rightarrow> broker \<Rightarrow> broker" where
  \<comment> \<open>\<open>_record_worker_success\<close> for a matching job; \<open>fetch\<close>: a voice artifact has to be downloaded first\<close>
  "complete_job c now job runtime asset fetch t st = (case fence_batch c now (tk_batch t) st of
       Inl _ \<Rightarrow> st
     | Inr (st1, fenced) \<Rightarrow> (case task_item t st1 of
         None \<Rightarrow> st
       | Some it \<Rightarrow>
           if fenced \<or> voice_recovery_owns it then leave_or_succeed now t st1
           else (case observe_job c t job st1 of
               None \<Rightarrow> st1
             | Some st2 \<Rightarrow>
                 if it_state it = Done \<and> it_asset it \<noteq> None then leave_or_succeed now t st2
                 else (let st3 = on_item t (adopt_result now runtime) st2
                       in if fetch then set_phase t Adopting st3
                          else leave_or_succeed now t (on_item t (published_item now asset) st3)))))"

definition adopt_artifact :: "time \<Rightarrow> string \<Rightarrow> task \<Rightarrow> broker \<Rightarrow> broker" where
  \<comment> \<open>after the download of a voice artifact, whether it was verified or not\<close>
  "adopt_artifact now asset t st = (case task_item t st of
       None \<Rightarrow> st
     | Some it \<Rightarrow> leave_or_succeed now t
         (if voice_recovery_owns it then st else on_item t (published_item now asset) st))"

section \<open>Failure\<close>

definition max_tries :: int where
  "max_tries = 3"

definition max_infra_tries :: nat where
  "max_infra_tries = 8"

definition infra_retry_window_s :: time where
  "infra_retry_window_s = 1800"

definition retry_delays_s :: "time list" where
  "retry_delays_s = [3, 10]"

definition infra_retry_delays_s :: "time list" where
  "infra_retry_delays_s = [5, 15, 30, 60, 120, 300, 300]"

definition capacity_retry_s :: time where
  "capacity_retry_s = 30"

definition failed_worker_avoid_s :: time where
  "failed_worker_avoid_s = 90"

definition avoid_machine :: "time \<Rightarrow> string \<Rightarrow> item \<Rightarrow> item" where
  "avoid_machine now machine it = it\<lparr>it_avoid := dset machine (now + failed_worker_avoid_s) (it_avoid it)\<rparr>"

definition capacity_item :: "time \<Rightarrow> string \<Rightarrow> string \<Rightarrow> bool \<Rightarrow> item \<Rightarrow> item" where
  "capacity_item now machine message released it = avoid_machine now machine
     (it\<lparr>it_state := Queued, it_tries := max 0 (it_tries it - 1),
         it_error := Some (''waiting for capacity: '' @ message),
         it_retry_at := Some (now + (if released then 3 else capacity_retry_s)),
         it_capacity_since := Some (case it_capacity_since it of None \<Rightarrow> now | Some t \<Rightarrow> t)\<rparr>)"

definition infra_item :: "time \<Rightarrow> string \<Rightarrow> string \<Rightarrow> item \<Rightarrow> item" where
  "infra_item now machine message it =
     (let failures = it_infra it + 1;
          started = (case it_infra_since it of None \<Rightarrow> now | Some t \<Rightarrow> if t = 0 then now else t);
          it1 = avoid_machine now machine (it\<lparr>it_infra := failures, it_infra_since := Some started\<rparr>)
      in if failures < max_infra_tries \<and> now - started < infra_retry_window_s
         then it1\<lparr>it_state := Queued,
                  it_error := Some (''connection failure '' @ nat_text failures @ ''/8; recovering automatically: '' @ message),
                  it_retry_at := Some (now + infra_retry_delays_s ! min (failures - 1) 6)\<rparr>
         else it1\<lparr>it_state := Errored, it_error := Some (''connection recovery exhausted: '' @ message),
                  it_retry_at := None\<rparr>)"

definition retry_item :: "time \<Rightarrow> string \<Rightarrow> item \<Rightarrow> item" where
  "retry_item now message it = it\<lparr>it_state := Queued,
     it_error := Some (''try '' @ int_text (it_tries it) @ '' failed: '' @ message),
     it_retry_at := Some (now + retry_delays_s ! min (nat (it_tries it - 1)) 1)\<rparr>"

definition failed_item :: "string \<Rightarrow> item \<Rightarrow> item" where
  "failed_item message it = it\<lparr>it_state := Errored, it_error := Some message, it_retry_at := None\<rparr>"

definition settle_failure :: "time \<Rightarrow> failure \<Rightarrow> task \<Rightarrow> broker \<Rightarrow> broker" where
  \<comment> \<open>the branches of the exception handler once recovery found nothing to adopt\<close>
  "settle_failure now e t st = (case (batch_of st (tk_batch t), task_item t st) of
       (Some b, Some it) \<Rightarrow>
         (let message = fa_message e; machine = st_machine (tk_studio t);
              touched = on_item t (\<lambda>it. it\<lparr>it_last_progress := Some now\<rparr>) st
          in if ba_modality b = ''voice'' \<and> str_or_empty (it_job it) \<noteq> [] \<and> is_transport_failure e message
             then finish_task now t (on_item t (mark_voice_uncertain now
                    ''The accepted Voice Studio job could not be reconciled; it was not retried automatically.'') st)
             else if fa_retryable e \<and> is_capacity_failure message \<and> \<not> ba_cancelled b
             then set_phase t (Handing_off now message) touched
             else if fa_retryable e \<and> is_transport_failure e message \<and> \<not> ba_cancelled b
             then finish_task now t (on_item t (infra_item now machine message)
                    (touched\<lparr>br_prot := fst (mark_machine_failure now machine message (br_prot st))\<rparr>))
             else if fa_retryable e \<and> it_tries it < max_tries \<and> \<not> ba_cancelled b
             then finish_task now t (on_item t (retry_item now message) touched)
             else finish_task now t (on_item t (failed_item message) touched))
     | _ \<Rightarrow> st)"

definition fail_attempt :: "time \<Rightarrow> failure \<Rightarrow> task \<Rightarrow> broker \<Rightarrow> broker" where
  \<comment> \<open>entry of the exception handler\<close>
  "fail_attempt now e t st = (case (batch_of st (tk_batch t), task_item t st) of
       (Some b, Some it) \<Rightarrow>
         if voice_recovery_owns it then finish_task now t st
         else if ba_cancelled b then finish_task now t (on_item t (cancelled_item ''Cancelled by user'') st)
         else if fa_terminal e then settle_failure now e t st
         else set_phase t (Recovering e) st
     | _ \<Rightarrow> st)"

definition unreconciled :: "time \<Rightarrow> failure \<Rightarrow> task \<Rightarrow> broker \<Rightarrow> broker" where
  \<comment> \<open>\<open>_recover_worker_job\<close> answered False\<close>
  "unreconciled now e t st = (case task_item t st of
       None \<Rightarrow> st
     | Some it \<Rightarrow> if voice_recovery_owns it then finish_task now t st else settle_failure now e t st)"

definition recover_probe :: "dispatch_context \<Rightarrow> time \<Rightarrow> task \<Rightarrow> broker \<Rightarrow> broker" where
  \<comment> \<open>the head of the recovery loop: an expired lease makes it answer False\<close>
  "recover_probe c now t st = (case fence_batch c now (tk_batch t) st of
       Inl _ \<Rightarrow> st
     | Inr (st1, fenced) \<Rightarrow> (case tk_phase t of
         Recovering e \<Rightarrow> if fenced then unreconciled now e t st1 else st1
       | _ \<Rightarrow> st1))"

definition noted_item :: "time \<Rightarrow> jdict \<Rightarrow> item \<Rightarrow> item" where
  \<comment> \<open>telemetry and progress; an exception in the telemetry leaves the item as it was\<close>
  "noted_item now job it = (case record_worker_resource_usage job it of
       None \<Rightarrow> it | Some it' \<Rightarrow> record_worker_progress now (jget job ''progress'') it')"

definition proven_item :: "jdict \<Rightarrow> task \<Rightarrow> broker \<Rightarrow> broker" where
  \<comment> \<open>\<open>_persist_worker_execution_started_at\<close>\<close>
  "proven_item job t st = (case task_item t st of
       None \<Rightarrow> st
     | Some it \<Rightarrow>
         (let st1 = on_item t (\<lambda>x. fst (record_execution_started job x)) st
          in if snd (record_execution_started job it) then save_batch (tk_batch t) st1 else st1))"

definition recover_waiting :: "time \<Rightarrow> jdict \<Rightarrow> task \<Rightarrow> broker \<Rightarrow> broker" where
  \<comment> \<open>the worker still has the job and has not finished it\<close>
  "recover_waiting now job t st = (case task_item t st of
       None \<Rightarrow> st
     | Some it \<Rightarrow> if voice_recovery_owns it then finish_task now t st
                 else on_item t (noted_item now job) (proven_item job t st))"

definition reconciled_failure :: "dispatch_context \<Rightarrow> time \<Rightarrow> jdict \<Rightarrow> task \<Rightarrow> broker \<Rightarrow> broker" where
  \<comment> \<open>the worker's job ended in error or was cancelled, found by a poll (where the exception handler
     looks at the batch first) or by recovery\<close>
  "reconciled_failure c now job t st = (case (batch_of st (tk_batch t), task_item t st) of
       (Some b, Some it) \<Rightarrow>
         if voice_recovery_owns it then finish_task now t st
         else (case observe_job c t job st of
             None \<Rightarrow> st
           | Some st1 \<Rightarrow> (case task_item t st1 of
               None \<Rightarrow> st
             | Some it1 \<Rightarrow>
                 (case classify_worker_failure (dc_text c) (dc_sanitize c) now (ba_model b) (tk_studio t) job
                     (tk_started t) it1 (br_models st1) of
                    None \<Rightarrow> st
                  | Some (it', models, e) \<Rightarrow>
                      (let st2 = (on_item t (\<lambda>_. it') st1)\<lparr>br_models := models\<rparr>
                       in if ba_cancelled b \<and> tk_phase t = Asking
                          then finish_task now t (on_item t (cancelled_item ''Cancelled by user'') st2)
                          else settle_failure now e t st2))))
     | _ \<Rightarrow> st)"

definition handed_off :: "time \<Rightarrow> bool \<Rightarrow> task \<Rightarrow> broker \<Rightarrow> broker" where
  \<comment> \<open>after \<open>release_idle_siblings\<close>, with the clock read before it\<close>
  "handed_off now released t st = (case tk_phase t of
       Handing_off before message \<Rightarrow>
         finish_task now t (on_item t (capacity_item before (st_machine (tk_studio t)) message released) st)
     | _ \<Rightarrow> st)"

section \<open>Handlers and restart\<close>

definition cancel_batch :: "time \<Rightarrow> (nat \<Rightarrow> string option) \<Rightarrow> string \<Rightarrow> broker \<Rightarrow> broker" where
  \<comment> \<open>queued items are cancelled and saved; \<open>answers\<close> gives, for each running item with a worker job,
     None when the worker took the signal and otherwise the error; then webhooks and completion.  The awaits of those signals are
     gathered into this one step: what other steps do between the save and the answers comes before it or
     after it here\<close>
  "cancel_batch now answers bid st = (case batch_of st bid of
       None \<Rightarrow> st
     | Some b \<Rightarrow>
         (let st1 = save_batch bid (map_batch bid cancel_queued st);
              signal = (\<lambda>it. if it_state it = Running \<and> str_or_empty (it_studio it) \<noteq> [] \<and> str_or_empty (it_job it) \<noteq> []
                 then (case answers (it_index it) of
                     None \<Rightarrow> it\<lparr>it_cancel_sent := Some now, it_cancel_error := None\<rparr>
                   | Some e \<Rightarrow> it\<lparr>it_cancel_error := Some e\<rparr>)
                 else it);
              notify = (\<lambda>b. b\<lparr>ba_items := map (\<lambda>it. if it_state it = Cancelled then fst (post_item_webhook b it) else it) (ba_items b)\<rparr>)
          in finish_batch now bid (map_batch bid (notify \<circ> (\<lambda>b. b\<lparr>ba_items := map signal (ba_items b)\<rparr>)) st1)))"

definition renew_execution_lease :: "string \<Rightarrow> string \<Rightarrow> string \<Rightarrow> broker \<Rightarrow> broker \<times> bool" where
  \<comment> \<open>local batch id (empty for None), attempt id and lease text of a validated renewal\<close>
  "renew_execution_lease bid attempt lease st =
     (let found = (case (if bid = [] then None else batch_of st bid) of
            Some b \<Rightarrow> Some b
          | None \<Rightarrow> (case (if bid = [] then None else select_first (\<lambda>b. ba_id b = bid) (br_ledger st)) of
              Some b \<Rightarrow> Some b
            | None \<Rightarrow> select_first (\<lambda>b. (case ba_execution b of None \<Rightarrow> None | Some e \<Rightarrow> ex_attempt e) = Some attempt)
                        (br_batches st)))
      in case found of
           None \<Rightarrow> (st, False)
         | Some b \<Rightarrow>
             (let b' = renew_batch_lease lease b
              in (st\<lparr>br_batches := save_row b' (br_batches st), br_ledger := save_row b' (br_ledger st)\<rparr>, True)))"

definition restored_item :: "time \<Rightarrow> batch \<Rightarrow> item \<Rightarrow> item" where
  "restored_item now b it =
     (if it_state it \<in> {Running, Cancel_requested} \<and> ba_modality b = ''voice''
      then mark_voice_uncertain now
        ''Hub restarted while Voice Studio work was active; the original job must be reconciled before any retry.'' it
      else if it_state it = Running then it\<lparr>it_state := Queued, it_studio := None, it_job := None\<rparr>
      else it)"

definition restored_batch :: "dispatch_context \<Rightarrow> time \<Rightarrow> batch \<Rightarrow> batch" where
  \<comment> \<open>a lease text of the ledger that \<open>astimezone\<close> cannot represent would abort the restart; it is
     treated as not fenced here\<close>
  "restored_batch c now b = (case expire_genstudio_batch (dc_exec c) now b of
       Inr (b', True) \<Rightarrow> b'
     | _ \<Rightarrow> b\<lparr>ba_items := map (restored_item now b) (ba_items b)\<rparr>)"

definition restore_batches :: "dispatch_context \<Rightarrow> time \<Rightarrow> broker \<Rightarrow> broker" where
  \<comment> \<open>a new process: memory is empty, the unfinished batches of the ledger are loaded, adjusted and saved\<close>
  "restore_batches c now st =
     (let unfinished_rows = filter (\<lambda>b. list_ex (\<lambda>it. unfinished (it_state it)) (ba_items b)) (br_ledger st);
          loaded = map (restored_batch c now) unfinished_rows
      in st\<lparr>br_batches := loaded, br_ledger := fold save_row loaded (br_ledger st), br_busy := [],
            br_drained := [], br_leases := [], br_turns := [], br_prot := [], br_reserved := 0,
            br_tasks := [], br_plan := None\<rparr>)"

definition recover_voice_item :: "time \<Rightarrow> string \<Rightarrow> nat \<Rightarrow> broker \<Rightarrow> broker" where
  "recover_voice_item now bid i st =
     (let found = (case batch_of st bid of Some b \<Rightarrow> Some b | None \<Rightarrow> select_first (\<lambda>b. ba_id b = bid) (br_ledger st))
      in case voice_recovery_item now i found of
           (_, None) \<Rightarrow> st
         | (Inl _, Some b) \<Rightarrow> st\<lparr>br_batches := save_row b (br_batches st), br_ledger := save_row b (br_ledger st)\<rparr>
         | (Inr _, Some b) \<Rightarrow> st\<lparr>br_batches := save_row b (br_batches st)\<rparr>)"

definition note_recovery :: "time \<Rightarrow> string \<Rightarrow> string \<Rightarrow> nat \<Rightarrow> string \<Rightarrow> broker \<Rightarrow> broker" where
  "note_recovery now phase reason i bid st =
     (if phase \<notin> set recovery_phases then st
      else map_item bid i (\<lambda>it. the (set_voice_recovery now phase reason it)) st)"

end
