(* ===== verification/Broker_Steps.thy ===== *)
theory Broker_Steps
  imports Broker_Run
begin

text \<open>
  The steps of the running broker as one operation type: submission of a validated batch, the turns
  of the dispatch loop, the segments of the tasks, the handlers, leases and a restart.  A step whose
  program counter does not match (no such task, another phase, a plan still open) does nothing, so
  every list of operations is an interleaving.  Clearing of finished batches is a step of theory
  Submit_Runs; the routes of \<open>main.py\<close> that reconcile a voice job by hand are not steps.
\<close>

definition fresh_item :: "string \<Rightarrow> string \<Rightarrow> nat \<Rightarrow> jdict \<Rightarrow> item" where
  "fresh_item bid modality i it =
     \<lparr>it_index = i,
      it_prompt = (if truthy (jget it ''prompt'') then jget it ''prompt''
                   else if truthy (jget it ''text'') then jget it ''text'' else JStr []),
      it_seed = jget it ''seed'',
      it_params = (if truthy (jget it ''params'') then jget it ''params'' else JObj []),
      it_state = Queued, it_tries = 0, it_studio = None, it_job = None,
      it_client_request = (if modality = ''voice'' then Some (''studiohub:'' @ bid @ '':'' @ nat_text i) else None),
      it_asset = None, it_error = None, it_retry_at = None, it_code = None, it_infra = 0, it_infra_since = None,
      it_avoid = [], it_capacity_since = None, it_recovery = None, it_reserved = 0, it_generation = None,
      it_run_started = None, it_started_proof = None, it_progress = None, it_last_progress = None,
      it_finished = None, it_runtime = None, it_machine = None, it_worker = None, it_model_revision = None,
      it_runtime_revision = None, it_usage = None, it_notified = False, it_cancel_sent = None,
      it_cancel_error = None\<rparr>"

record submission =
  sb_id :: string
  sb_now :: time
  sb_client_request :: "string option"
  sb_fingerprint :: "string option"
  sb_execution :: "execution option"
  sb_modality :: string
  sb_model :: string
  sb_shared :: json
  sb_routing :: string
  sb_label :: json
  sb_webhook :: bool
  sb_item_webhook :: bool
  sb_items :: "jdict list"

definition new_batch :: "submission \<Rightarrow> batch" where
  "new_batch s =
     \<lparr>ba_id = sb_id s, ba_client_request = sb_client_request s, ba_fingerprint = sb_fingerprint s,
      ba_execution = sb_execution s, ba_modality = sb_modality s, ba_model = sb_model s,
      ba_shared = sb_shared s, ba_routing = sb_routing s, ba_label = sb_label s, ba_webhook = sb_webhook s,
      ba_item_webhook = sb_item_webhook s, ba_webhook_sent = False, ba_created = sb_now s,
      ba_cancelled = False,
      ba_items = map (\<lambda>(i, it). fresh_item (sb_id s) (sb_modality s) i it) (enumerate 0 (sb_items s)),
      ba_last_dispatched = None, ba_note = None, ba_lease_expired = False, ba_finished = None,
      ba_done_notified = False\<rparr>"

definition add_batch :: "batch \<Rightarrow> broker \<Rightarrow> broker" where
  "add_batch b st = st\<lparr>br_batches := save_row b (br_batches st), br_ledger := save_row b (br_ledger st)\<rparr>"

definition known_batch :: "string \<Rightarrow> broker \<Rightarrow> bool" where
  "known_batch bid st \<longleftrightarrow> list_ex (\<lambda>b. ba_id b = bid) (br_batches st) \<or> list_ex (\<lambda>b. ba_id b = bid) (br_ledger st)"

definition http_rejected :: "dispatch_context \<Rightarrow> time \<Rightarrow> int \<Rightarrow> json \<Rightarrow> task \<Rightarrow> broker \<Rightarrow> broker" where
  \<comment> \<open>an error status of the generation request\<close>
  "http_rejected c now status detail t st = (case batch_of st (tk_batch t) of
       None \<Rightarrow> st
     | Some b \<Rightarrow>
         (let e = worker_http_error (th_repr (dc_text c)) status detail
          in if fa_model_unavailable e
             then fail_attempt now e t ((on_item t (\<lambda>it. it\<lparr>it_code := Some files_unavailable\<rparr>) st)
                 \<lparr>br_models := fst (mark_model_failure now (st_id (tk_studio t)) (ba_model b) None files_unavailable
                     (dc_sanitize c (fa_message e)) (br_models st))\<rparr>)
             else fail_attempt now e t st))"

datatype broker_op =
    Submit submission
  | Expire time string
  | Scan fleet_view time string
  | Offer "string \<Rightarrow> string list option" time offer
  | Begin "string \<times> nat" time preflight
  | Accept "string \<times> nat" time string jdict
  | Reject "string \<times> nat" time int json
  | Raise "string \<times> nat" time failure
  | Check "string \<times> nat" time
  | Progress "string \<times> nat" time jdict
  | Complete "string \<times> nat" time jdict rat string bool
  | Artifact "string \<times> nat" time string
  | Job_failed "string \<times> nat" time jdict
  | Probe "string \<times> nat" time
  | Still_running "string \<times> nat" time jdict
  | Unreconciled "string \<times> nat" time
  | Handed "string \<times> nat" time bool
  | Cancel time "nat \<Rightarrow> string option" string
  | Renew_lease string string string
  | Acquire fleet_view string string
  | Release string string
  | Drain string bool
  | Dispatched_external string string
  | Recover_voice time string nat
  | Note_recovery time string string nat string
  | Restart_hub time

definition with_task :: "string \<times> nat \<Rightarrow> (phase \<Rightarrow> bool) \<Rightarrow> (task \<Rightarrow> broker \<Rightarrow> broker) \<Rightarrow> broker \<Rightarrow> broker" where
  "with_task k ok f st = (case select_first (\<lambda>t. task_key t = k) (br_tasks st) of
       None \<Rightarrow> st
     | Some t \<Rightarrow> if ok (tk_phase t) then f t st else st)"

fun is_recovering :: "phase \<Rightarrow> bool" where
  "is_recovering (Recovering _) = True"
| "is_recovering _ = False"

definition job_matches :: "jdict \<Rightarrow> task \<Rightarrow> broker \<Rightarrow> bool" where
  "job_matches job t st = (case (batch_of st (tk_batch t), task_item t st) of
       (Some b, Some it) \<Rightarrow> identity_matches b job it | _ \<Rightarrow> False)"

fun broker_step :: "dispatch_context \<Rightarrow> broker_op \<Rightarrow> broker \<Rightarrow> broker" where
  "broker_step c (Submit s) st = (if known_batch (sb_id s) st then st else add_batch (new_batch s) st)"
| "broker_step c (Expire now bid) st = (case fence_batch c now bid st of
       Inl _ \<Rightarrow> st | Inr (st1, fenced) \<Rightarrow> if fenced then save_batch bid st1 else st)"
| "broker_step c (Scan v now bid) st = (if br_plan st = None then scan_batch c v now bid st else st)"
| "broker_step c (Offer synced now off) st = offer_next c synced now off st"
| "broker_step c (Begin k now check) st = with_task k (\<lambda>p. p = Created) (begin_attempt c now check) st"
| "broker_step c (Accept k now job_id job) st = with_task k (\<lambda>p. p = Posting) (accept_job c now job_id job) st"
| "broker_step c (Reject k now status detail) st = with_task k (\<lambda>p. p = Posting) (http_rejected c now status detail) st"
| "broker_step c (Raise k now e) st =
     with_task k (\<lambda>p. p \<in> {Created, Posting, Asking, Adopting}) (fail_attempt now e) st"
| "broker_step c (Check k now) st = with_task k (\<lambda>p. p = Polling) (poll_check c now) st"
| "broker_step c (Progress k now job) st = with_task k (\<lambda>p. p = Asking) (poll_job c now job) st"
| "broker_step c (Complete k now job runtime asset fetch) st =
     with_task k (\<lambda>p. p = Asking \<or> is_recovering p)
       (\<lambda>t st. if job_matches job t st then complete_job c now job runtime asset fetch t st else st) st"
| "broker_step c (Artifact k now asset) st = with_task k (\<lambda>p. p = Adopting) (adopt_artifact now asset) st"
| "broker_step c (Job_failed k now job) st =
     with_task k (\<lambda>p. p = Asking \<or> is_recovering p) (reconciled_failure c now job) st"
| "broker_step c (Probe k now) st = with_task k is_recovering (recover_probe c now) st"
| "broker_step c (Still_running k now job) st = with_task k is_recovering (recover_waiting now job) st"
| "broker_step c (Unreconciled k now) st = with_task k is_recovering
     (\<lambda>t st. case tk_phase t of Recovering e \<Rightarrow> unreconciled now e t st | _ \<Rightarrow> st) st"
| "broker_step c (Handed k now released) st = with_task k (\<lambda>_. True) (handed_off now released) st"
| "broker_step c (Cancel now answers bid) st = cancel_batch now answers bid st"
| "broker_step c (Renew_lease bid attempt lease) st = fst (renew_execution_lease bid attempt lease st)"
| "broker_step c (Acquire v machine owner) st = st\<lparr>br_leases := fst (acquire_external_machine (dc_registry c) v
     (br_batches st) (br_busy st) machine owner (br_leases st))\<rparr>"
| "broker_step c (Release machine owner) st = st\<lparr>br_leases := release_external_machine machine owner (br_leases st)\<rparr>"
| "broker_step c (Drain sid enabled) st = st\<lparr>br_drained := set_maintenance sid enabled (br_drained st)\<rparr>"
| "broker_step c (Dispatched_external machine lane) st =
     (case note_external_dispatch machine lane (br_turns st) of None \<Rightarrow> st | Some ts \<Rightarrow> st\<lparr>br_turns := ts\<rparr>)"
| "broker_step c (Recover_voice now bid i) st = recover_voice_item now bid i st"
| "broker_step c (Note_recovery now phase reason i bid) st = note_recovery now phase reason i bid st"
| "broker_step c (Restart_hub now) st = restore_batches c now st"

definition empty_broker :: broker where
  "empty_broker = \<lparr>br_batches = [], br_ledger = [], br_busy = [], br_drained = [], br_leases = [],
     br_turns = [], br_prot = [], br_models = [], br_reserved = 0, br_tasks = [], br_plan = None\<rparr>"

definition is_restart :: "broker_op \<Rightarrow> bool" where
  "is_restart e = (case e of Restart_hub _ \<Rightarrow> True | _ \<Rightarrow> False)"

section \<open>Frame lemmas\<close>

lemma update_item_simps [simp]:
  "ba_id (update_item i f b) = ba_id b" "ba_modality (update_item i f b) = ba_modality b"
  "ba_cancelled (update_item i f b) = ba_cancelled b"
  by (simp_all add: update_item_def)

interpretation batch_rows: keyed_rows ba_id .
interpretation item_rows: keyed_rows it_index .

lemma batch_of_map_batch:
  assumes "\<And>b. ba_id (f b) = ba_id b"
  shows "batch_of (map_batch bid f st) b = (if b = bid then map_option f (batch_of st b) else batch_of st b)"
  unfolding batch_of_def map_batch_def using batch_rows.lookup_update_where [of bid f] assms by simp

lemma item_of_update_item:
  assumes "\<And>it. it_index it = j \<Longrightarrow> it_index (f it) = j"
  shows "item_of i (update_item j f b) = (if i = j then map_option f (item_of i b) else item_of i b)"
  unfolding item_of_def update_item_def using item_rows.lookup_update_where [of j f] assms by simp

lemma find_item_map_item:
  assumes "\<And>it. it_index it = i \<Longrightarrow> it_index (f it) = i"
  shows "find_item (map_item bid i f st) b j =
     (if b = bid \<and> j = i then map_option f (find_item st b j) else find_item st b j)"
  by (simp add: find_item_def map_item_def batch_of_map_batch item_of_update_item [OF assms] split: Option.bind_split)

lemma map_batch_others [simp]:
  "br_ledger (map_batch bid f st) = br_ledger st" "br_busy (map_batch bid f st) = br_busy st"
  "br_drained (map_batch bid f st) = br_drained st" "br_leases (map_batch bid f st) = br_leases st"
  "br_reserved (map_batch bid f st) = br_reserved st" "br_tasks (map_batch bid f st) = br_tasks st"
  "br_plan (map_batch bid f st) = br_plan st" "br_models (map_batch bid f st) = br_models st"
  "br_prot (map_batch bid f st) = br_prot st"
  by (simp_all add: map_batch_def)

lemma map_item_others [simp]:
  "br_ledger (map_item bid i f st) = br_ledger st" "br_busy (map_item bid i f st) = br_busy st"
  "br_drained (map_item bid i f st) = br_drained st" "br_leases (map_item bid i f st) = br_leases st"
  "br_reserved (map_item bid i f st) = br_reserved st" "br_tasks (map_item bid i f st) = br_tasks st"
  "br_plan (map_item bid i f st) = br_plan st" "br_models (map_item bid i f st) = br_models st"
  "br_prot (map_item bid i f st) = br_prot st"
  by (simp_all add: map_item_def)

lemma save_batch_others [simp]:
  "br_batches (save_batch bid st) = br_batches st" "br_busy (save_batch bid st) = br_busy st"
  "br_drained (save_batch bid st) = br_drained st" "br_leases (save_batch bid st) = br_leases st"
  "br_reserved (save_batch bid st) = br_reserved st" "br_tasks (save_batch bid st) = br_tasks st"
  "br_plan (save_batch bid st) = br_plan st" "br_models (save_batch bid st) = br_models st"
  "br_prot (save_batch bid st) = br_prot st"
  by (simp_all add: save_batch_def split: option.splits)

lemma batch_of_cong: "br_batches st = br_batches st' \<Longrightarrow> batch_of st b = batch_of st' b"
  by (simp add: batch_of_def)

lemma find_item_cong: "br_batches st = br_batches st' \<Longrightarrow> find_item st b i = find_item st' b i"
  by (simp add: find_item_def batch_of_def)

lemma find_item_save [simp]: "find_item (save_batch bid st) b i = find_item st b i"
  by (rule find_item_cong) simp

lemma batch_of_save [simp]: "batch_of (save_batch bid st) b = batch_of st b"
  by (rule batch_of_cong) simp

lemma batch_of_key: "batch_of st bid = Some b \<Longrightarrow> ba_id b = bid \<and> b \<in> set (br_batches st)"
  by (auto simp: batch_of_def dest: select_first_Some)

lemma item_of_key: "item_of i b = Some it \<Longrightarrow> it_index it = i \<and> it \<in> set (ba_items b)"
  by (auto simp: item_of_def dest: select_first_Some)

end
