(* ===== verification/Broker_Invariant.thy ===== *)
theory Broker_Invariant
  imports Broker_Steps
begin

text \<open>
  The invariant of the running broker, and the tame steps that keep it.  Most of the code between
  two awaits is \<open>tame\<close>: it neither moves an item back to the queue nor makes it run, and touches
  neither its counters nor its reservation.  A tame step keeps the invariant whatever else it does;
  the primitives shared by the coroutines (evidence, fencing, notification, saving) are shown tame here.
\<close>

section \<open>The invariant\<close>

definition item_ok :: "nat \<Rightarrow> item \<Rightarrow> bool" where
  "item_ok R it \<longleftrightarrow> 0 \<le> it_tries it \<and> it_tries it \<le> max_tries + int (it_infra it) + int R
     \<and> it_infra it \<le> max_infra_tries
     \<and> (it_state it = Queued \<longrightarrow> it_tries it < max_tries + int (it_infra it) + int R)
     \<and> (it_state it \<in> {Queued, Running} \<longrightarrow> it_infra it < max_infra_tries)"

definition batch_ok :: "nat \<Rightarrow> batch \<Rightarrow> bool" where
  "batch_ok R b \<longleftrightarrow> distinct (map it_index (ba_items b)) \<and> (\<forall>it\<in>set (ba_items b). item_ok R it)"

definition batches_ok :: "nat \<Rightarrow> batch list \<Rightarrow> bool" where
  "batches_ok R rows \<longleftrightarrow> distinct (map ba_id rows) \<and> (\<forall>b\<in>set rows. batch_ok R b)"

definition held_by :: "broker \<Rightarrow> string \<times> nat \<Rightarrow> rat" where
  "held_by st k = (case find_item st (fst k) (snd k) of None \<Rightarrow> 0 | Some it \<Rightarrow> it_reserved it)"

definition working :: "broker \<Rightarrow> string \<times> nat \<Rightarrow> bool" where
  \<comment> \<open>the item of a task\<close>
  "working st k \<longleftrightarrow> (case find_item st (fst k) (snd k) of None \<Rightarrow> False
     | Some it \<Rightarrow> it_state it \<noteq> Queued \<and> it_infra it < max_infra_tries \<and> 0 \<le> it_reserved it)"

definition waiting :: "nat \<Rightarrow> broker \<Rightarrow> string \<times> nat \<Rightarrow> bool" where
  \<comment> \<open>an item the dispatch loop has listed\<close>
  "waiting R st k \<longleftrightarrow> (case find_item st (fst k) (snd k) of None \<Rightarrow> False
     | Some it \<Rightarrow> 0 \<le> it_tries it \<and> it_tries it < max_tries + int (it_infra it) + int R
                 \<and> it_infra it < max_infra_tries)"

definition tasks_ok :: "broker \<Rightarrow> bool" where
  "tasks_ok st \<longleftrightarrow> distinct (map task_key (br_tasks st)) \<and> (\<forall>t\<in>set (br_tasks st). working st (task_key t))"

definition machines_ok :: "studio list \<Rightarrow> broker \<Rightarrow> bool" where
  "machines_ok registry st \<longleftrightarrow> set (br_busy st) = set (map (\<lambda>t. st_id (tk_studio t)) (br_tasks st))
     \<and> distinct (map (\<lambda>t. st_machine (tk_studio t)) (br_tasks st))
     \<and> (\<forall>t\<in>set (br_tasks st). tk_studio t \<in> set registry \<and> st_machine (tk_studio t) \<notin> set (map fst (br_leases st)))"

definition reserve_ok :: "broker \<Rightarrow> bool" where
  "reserve_ok st \<longleftrightarrow> br_reserved st = sum_list (map (held_by st \<circ> task_key) (br_tasks st))"

definition plan_ok :: "studio list \<Rightarrow> nat \<Rightarrow> broker \<Rightarrow> bool" where
  "plan_ok registry R st \<longleftrightarrow> (\<forall>p. br_plan st = Some p \<longrightarrow> distinct (pl_queued p) \<and> set (pl_studios p) \<subseteq> set registry
     \<and> (\<forall>i\<in>set (pl_queued p). (pl_batch p, i) \<notin> task_key ` set (br_tasks st) \<and> waiting R st (pl_batch p, i)))"

definition broker_ok :: "studio list \<Rightarrow> nat \<Rightarrow> broker \<Rightarrow> bool" where
  "broker_ok registry R st \<longleftrightarrow> batches_ok R (br_batches st) \<and> batches_ok R (br_ledger st) \<and> tasks_ok st
     \<and> machines_ok registry st \<and> reserve_ok st \<and> plan_ok registry R st"

lemma broker_okI:
  assumes "batches_ok R (br_batches st)" "batches_ok R (br_ledger st)" "tasks_ok st" "machines_ok registry st"
    "reserve_ok st" "plan_ok registry R st"
  shows "broker_ok registry R st"
  using assms by (simp add: broker_ok_def)

lemma broker_okD:
  assumes "broker_ok registry R st"
  shows "batches_ok R (br_batches st)" "batches_ok R (br_ledger st)" "tasks_ok st" "machines_ok registry st"
    "reserve_ok st" "plan_ok registry R st"
  using assms by (simp_all add: broker_ok_def)

section \<open>Finding items\<close>

lemma batch_of_unique:
  assumes "batches_ok R (br_batches st)" and "b \<in> set (br_batches st)"
  shows "batch_of st (ba_id b) = Some b"
  unfolding batch_of_def using assms by (intro batch_rows.find_row_unique) (simp_all add: batches_ok_def)

lemma item_of_unique:
  assumes "batch_ok R b" and "it \<in> set (ba_items b)"
  shows "item_of (it_index it) b = Some it"
  unfolding item_of_def using assms by (intro item_rows.find_row_unique) (simp_all add: batch_ok_def)

lemma batches_okD: "batches_ok R rows \<Longrightarrow> b \<in> set rows \<Longrightarrow> batch_ok R b"
  by (simp add: batches_ok_def)

lemma find_item_ok:
  assumes "batches_ok R (br_batches st)" and "find_item st bid i = Some it"
  shows "item_ok R it"
proof -
  from assms(2) obtain b where b: "batch_of st bid = Some b" and it: "item_of i b = Some it"
    by (auto simp: find_item_def split: Option.bind_splits)
  then have "batch_ok R b" using assms(1) batch_of_key batches_okD by blast
  then show ?thesis using item_of_key [OF it] by (simp add: batch_ok_def)
qed

lemma find_itemI:
  assumes "batches_ok R (br_batches st)" and "batch_of st bid = Some b" and "it \<in> set (ba_items b)"
  shows "find_item st bid (it_index it) = Some it"
proof -
  have "batch_ok R b" using assms(1) batch_of_key [OF assms(2)] batches_okD by blast
  then show ?thesis using item_of_unique assms(3) by (simp add: find_item_def assms(2))
qed

lemma batches_ok_map_item:
  assumes ok: "batches_ok R (br_batches st)" and key: "\<And>it. it_index (f it) = it_index it"
    and good: "\<And>it. find_item st bid i = Some it \<Longrightarrow> item_ok R (f it)"
  shows "batches_ok R (br_batches (map_item bid i f st))"
proof -
  have new: "batch_ok R (update_item i f b)" if b: "b \<in> set (br_batches st)" and id: "ba_id b = bid" for b
  proof -
    have bo: "batch_of st bid = Some b" using batch_of_unique [OF ok b] id by simp
    have okb: "batch_ok R b" using ok b by (rule batches_okD)
    have "item_ok R it'" if it': "it' \<in> set (ba_items (update_item i f b))" for it'
    proof -
      obtain it where it: "it \<in> set (ba_items b)" and it'_eq: "it' = (if it_index it = i then f it else it)"
        using it' by (auto simp: update_item_def set_update_where)
      show ?thesis
      proof (cases "it_index it = i")
        case True
        then have "find_item st bid i = Some it" using find_itemI [OF ok bo it] by simp
        with good it'_eq True show ?thesis by simp
      next
        case False
        with it'_eq okb it show ?thesis by (simp add: batch_ok_def)
      qed
    qed
    moreover have "distinct (map it_index (ba_items (update_item i f b)))"
      using okb by (simp add: batch_ok_def update_item_def item_rows.keys_update_where key)
    ultimately show ?thesis by (simp add: batch_ok_def)
  qed
  have "map ba_id (br_batches (map_item bid i f st)) = map ba_id (br_batches st)"
    by (simp add: map_item_def map_batch_def batch_rows.keys_update_where)
  with ok new show ?thesis
    by (auto simp: batches_ok_def map_item_def map_batch_def set_update_where)
qed

lemma batches_ok_save_row:
  assumes "batches_ok R rows" and "batch_ok R b"
  shows "batches_ok R (save_row b rows)"
proof -
  have "distinct (map ba_id (save_row b rows))"
    using assms(1) batch_rows.keys_update_where [of rows "\<lambda>r. ba_id r = ba_id b" "\<lambda>_. b"]
    by (auto simp: save_row_def upsert_def batches_ok_def list_ex_iff)
  moreover have "set (save_row b rows) \<subseteq> insert b (set rows)"
    by (auto simp: save_row_def upsert_def update_where_def)
  ultimately show ?thesis using assms by (auto simp: batches_ok_def)
qed

lemma find_item_index: "find_item st bid i = Some it \<Longrightarrow> it_index it = i"
  by (auto simp: find_item_def dest: item_of_key split: Option.bind_splits)

section \<open>Tame steps\<close>

definition tame_item :: "item \<Rightarrow> item \<Rightarrow> bool" where
  "tame_item it it' \<longleftrightarrow> it_index it' = it_index it \<and> it_tries it' = it_tries it \<and> it_infra it' = it_infra it
     \<and> it_reserved it' = it_reserved it
     \<and> (it_state it' \<in> {Queued, Running} \<longrightarrow> it_state it' = it_state it)"

definition tame_batch :: "batch \<Rightarrow> batch \<Rightarrow> bool" where
  "tame_batch b b' \<longleftrightarrow> ba_id b' = ba_id b \<and> list_all2 tame_item (ba_items b) (ba_items b')"

definition task_place :: "task \<Rightarrow> (string \<times> nat) \<times> studio" where
  "task_place t = (task_key t, tk_studio t)"

definition tame :: "broker \<Rightarrow> broker \<Rightarrow> bool" where
  "tame st st' \<longleftrightarrow> list_all2 tame_batch (br_batches st) (br_batches st')
     \<and> (\<forall>R. batches_ok R (br_batches st) \<longrightarrow> batches_ok R (br_ledger st) \<longrightarrow> batches_ok R (br_ledger st'))
     \<and> map task_place (br_tasks st') = map task_place (br_tasks st)
     \<and> br_busy st' = br_busy st \<and> br_leases st' = br_leases st
     \<and> br_reserved st' = br_reserved st \<and> br_plan st' = br_plan st"

lemma tame_item_refl [simp, intro]: "tame_item it it"
  by (simp add: tame_item_def)

lemma tame_item_trans: "tame_item a b \<Longrightarrow> tame_item b c \<Longrightarrow> tame_item a c"
  by (auto simp: tame_item_def)

lemma tame_batch_refl [simp, intro]: "tame_batch b b"
  by (simp add: tame_batch_def list_all2_refl)

lemma tame_batch_trans: "tame_batch a b \<Longrightarrow> tame_batch b c \<Longrightarrow> tame_batch a c"
  unfolding tame_batch_def using list_all2_trans [of tame_item tame_item tame_item] tame_item_trans by metis

lemma tame_item_ok: "tame_item it it' \<Longrightarrow> item_ok R it \<Longrightarrow> item_ok R it'"
  by (auto simp: tame_item_def item_ok_def)

lemma all2_right: "list_all2 P xs ys \<Longrightarrow> y \<in> set ys \<Longrightarrow> \<exists>x\<in>set xs. P x y"
  by (induction rule: list_all2_induct) auto

lemma all2_map_eq: "list_all2 P xs ys \<Longrightarrow> (\<And>x y. P x y \<Longrightarrow> f y = f x) \<Longrightarrow> map f ys = map f xs"
  by (induction rule: list_all2_induct) auto

lemma tame_batch_ok:
  assumes "tame_batch b b'" and "batch_ok R b"
  shows "batch_ok R b'"
proof -
  have "map it_index (ba_items b') = map it_index (ba_items b)"
    using all2_map_eq [of tame_item "ba_items b" "ba_items b'" it_index] assms(1)
    by (simp add: tame_batch_def tame_item_def)
  moreover have "item_ok R it'" if it': "it' \<in> set (ba_items b')" for it'
  proof -
    obtain it where "it \<in> set (ba_items b)" "tame_item it it'"
      using all2_right [OF _ it'] assms(1) unfolding tame_batch_def by blast
    with assms(2) show ?thesis unfolding batch_ok_def by (blast intro: tame_item_ok)
  qed
  ultimately show ?thesis using assms(2) by (simp add: batch_ok_def)
qed

lemma tame_batches_ok:
  assumes "list_all2 tame_batch rows rows'" and "batches_ok R rows"
  shows "batches_ok R rows'"
proof -
  have "map ba_id rows' = map ba_id rows"
    using assms(1) by (rule all2_map_eq) (simp add: tame_batch_def)
  moreover have "batch_ok R b'" if b': "b' \<in> set rows'" for b'
    using all2_right [OF assms(1) b'] assms(2) unfolding batches_ok_def by (blast intro: tame_batch_ok)
  ultimately show ?thesis using assms(2) by (simp add: batches_ok_def)
qed

lemma select_first_all2:
  assumes "list_all2 P xs ys" and "\<And>x y. P x y \<Longrightarrow> q x = q y"
  shows "rel_option P (select_first q xs) (select_first q ys)"
  using assms(1) by (induction rule: list_all2_induct) (auto simp: select_first_def assms(2))

lemma tame_find_item:
  assumes "list_all2 tame_batch (br_batches st) (br_batches st')"
  shows "rel_option tame_item (find_item st bid i) (find_item st' bid i)"
proof -
  have "rel_option tame_batch (batch_of st bid) (batch_of st' bid)"
    unfolding batch_of_def using assms by (rule select_first_all2) (simp add: tame_batch_def)
  moreover have "rel_option tame_item (item_of i b) (item_of i b')" if "tame_batch b b'" for b b'
    unfolding item_of_def using that
    by (intro select_first_all2) (auto simp: tame_batch_def tame_item_def)
  ultimately show ?thesis
    by (cases "batch_of st bid"; cases "batch_of st' bid") (auto simp: find_item_def)
qed

lemma tame_refl [simp, intro]: "tame st st"
  by (simp add: tame_def list_all2_refl)

lemma tame_trans: "tame a b \<Longrightarrow> tame b c \<Longrightarrow> tame a c"
  unfolding tame_def using list_all2_trans [of tame_batch tame_batch tame_batch] tame_batch_trans tame_batches_ok
  by metis

lemma tame_held:
  assumes "tame st st'" shows "held_by st' k = held_by st k"
  using tame_find_item [of st st' "fst k" "snd k"] assms
  by (auto simp: tame_def held_by_def tame_item_def elim!: option.rel_cases split: option.splits)

lemma tame_working:
  assumes "tame st st'" and "working st k" shows "working st' k"
  using tame_find_item [of st st' "fst k" "snd k"] assms
  by (auto simp: tame_def working_def tame_item_def elim!: option.rel_cases split: option.splits)

lemma tame_waiting:
  assumes "tame st st'" and "waiting R st k" shows "waiting R st' k"
  using tame_find_item [of st st' "fst k" "snd k"] assms
  by (auto simp: tame_def waiting_def tame_item_def elim!: option.rel_cases split: option.splits)

lemma task_place_maps:
  assumes "map task_place ts = map task_place us"
  shows "map task_key ts = map task_key us" "map tk_studio ts = map tk_studio us"
proof -
  have "map fst (map task_place ts) = map fst (map task_place us)"
    "map snd (map task_place ts) = map snd (map task_place us)" using assms by simp_all
  then show "map task_key ts = map task_key us" "map tk_studio ts = map tk_studio us"
    by (simp_all add: task_place_def o_def)
qed

lemma map_key_set: "map f xs = map f ys \<Longrightarrow> f ` set xs = f ` set ys"
  by (metis list.set_map)

theorem tame_ok:
  assumes t: "tame st st'" and ok: "broker_ok registry R st"
  shows "broker_ok registry R st'"
proof (rule broker_okI)
  note parts = broker_okD [OF ok]
  have places: "map task_place (br_tasks st') = map task_place (br_tasks st)" using t by (simp add: tame_def)
  note keys = task_place_maps(1) [OF places] and studios = task_place_maps(2) [OF places]
  show "batches_ok R (br_batches st')" using t parts(1) tame_batches_ok by (auto simp: tame_def)
  show "batches_ok R (br_ledger st')" using t parts(1,2) by (auto simp: tame_def)
  have "working st' k" if "k \<in> task_key ` set (br_tasks st')" for k
  proof -
    from that have "k \<in> task_key ` set (br_tasks st)" using map_key_set [OF keys] by simp
    with parts(3) have "working st k" unfolding tasks_ok_def by blast
    then show ?thesis by (rule tame_working [OF t])
  qed
  then show "tasks_ok st'" using parts(3) keys by (simp add: tasks_ok_def)
  have "map (f \<circ> tk_studio) (br_tasks st') = map (f \<circ> tk_studio) (br_tasks st)" for f :: "studio \<Rightarrow> 'x"
    using studios by (metis map_map)
  note byst = this [unfolded o_def]
  have "s \<in> set registry \<and> st_machine s \<notin> set (map fst (br_leases st))" if "s \<in> tk_studio ` set (br_tasks st')" for s
    using that map_key_set [OF studios] parts(4) by (auto simp: machines_ok_def)
  moreover have "br_busy st' = br_busy st" "br_leases st' = br_leases st" using t by (simp_all add: tame_def)
  ultimately show "machines_ok registry st'"
    using parts(4) by (simp add: machines_ok_def byst)
  have "map (held_by st' \<circ> task_key) (br_tasks st') = map (held_by st \<circ> task_key) (br_tasks st)"
    using keys by (metis map_map tame_held [OF t] ext)
  then show "reserve_ok st'" using parts(5) t by (simp add: reserve_ok_def tame_def)
  have "task_key ` set (br_tasks st') = task_key ` set (br_tasks st)" using keys by (rule map_key_set)
  then show "plan_ok registry R st'"
    using parts(6) t tame_waiting [OF t] by (auto simp: plan_ok_def tame_def)
qed

section \<open>Tame primitives\<close>

lemma tame_batches: "tame st st' \<Longrightarrow> batches_ok R (br_batches st) \<Longrightarrow> batches_ok R (br_batches st')"
  unfolding tame_def using tame_batches_ok by blast

lemma tame_then:
  assumes "batches_ok R (br_batches st)" and "tame st st1" and "batches_ok R (br_batches st1) \<Longrightarrow> tame st1 st2"
  shows "tame st st2"
  using assms tame_batches tame_trans by blast

lemma all2_update_where:
  "(\<And>x. x \<in> set xs \<Longrightarrow> P x x) \<Longrightarrow> (\<And>x. x \<in> set xs \<Longrightarrow> q x \<Longrightarrow> P x (f x)) \<Longrightarrow> list_all2 P xs (update_where q f xs)"
  by (induction xs) (auto simp: update_where_def)

lemma tame_map_batch:
  assumes ok: "batches_ok R (br_batches st)" and f: "\<And>b. batch_of st bid = Some b \<Longrightarrow> tame_batch b (f b)"
  shows "tame st (map_batch bid f st)"
proof -
  have "tame_batch b (f b)" if "b \<in> set (br_batches st)" "ba_id b = bid" for b
    using f batch_of_unique [OF ok that(1)] that(2) by simp
  then have "list_all2 tame_batch (br_batches st) (br_batches (map_batch bid f st))"
    by (auto simp: map_batch_def intro: all2_update_where)
  then show ?thesis by (simp add: tame_def)
qed

lemma tame_update_item:
  assumes "batch_ok R b" and "\<And>it. item_of i b = Some it \<Longrightarrow> tame_item it (f it)"
  shows "tame_batch b (update_item i f b)"
proof -
  have "tame_item it (f it)" if "it \<in> set (ba_items b)" "it_index it = i" for it
    using assms(2) item_of_unique [OF assms(1) that(1)] that(2) by simp
  then show ?thesis by (auto simp: tame_batch_def update_item_def intro: all2_update_where)
qed

lemma tame_map_item:
  assumes ok: "batches_ok R (br_batches st)" and f: "\<And>it. find_item st bid i = Some it \<Longrightarrow> tame_item it (f it)"
  shows "tame st (map_item bid i f st)"
  unfolding map_item_def
proof (rule tame_map_batch [OF ok])
  fix b assume b: "batch_of st bid = Some b"
  then have "batch_ok R b" using ok batch_of_key batches_okD by blast
  then show "tame_batch b (update_item i f b)"
    using f by (intro tame_update_item) (auto simp: find_item_def b)
qed

lemma tame_save: "tame st (save_batch bid st)"
proof -
  have "batches_ok R (br_ledger (save_batch bid st))"
    if ok: "batches_ok R (br_batches st)" and led: "batches_ok R (br_ledger st)" for R
  proof (cases "batch_of st bid")
    case None
    then show ?thesis using led by (simp add: save_batch_def)
  next
    case (Some b)
    then have "batch_ok R b" using ok batch_of_key batches_okD by blast
    then show ?thesis using led Some by (simp add: save_batch_def batches_ok_save_row)
  qed
  then show ?thesis by (simp add: tame_def list_all2_refl)
qed

lemma tame_fields [simp, intro]:
  "tame st (st\<lparr>br_prot := p\<rparr>)" "tame st (st\<lparr>br_models := m\<rparr>)" "tame st (st\<lparr>br_turns := ts\<rparr>)"
  "tame st (st\<lparr>br_drained := d\<rparr>)"
  by (simp_all add: tame_def list_all2_refl)

lemma tame_tasks: "map task_place us = map task_place (br_tasks st) \<Longrightarrow> tame st (st\<lparr>br_tasks := us\<rparr>)"
  by (simp add: tame_def list_all2_refl)

lemma place_update: "(\<And>u. task_place (f u) = task_place u) \<Longrightarrow> map task_place (update_where q f us) = map task_place us"
  by (simp add: update_where_def)

lemma task_place_simps [simp]:
  "task_place (u\<lparr>tk_phase := p\<rparr>) = task_place u" "task_place (u\<lparr>tk_started := n\<rparr>) = task_place u"
  by (simp_all add: task_place_def task_key_def)

lemma tame_set_phase [simp, intro]: "tame st (set_phase t p st)"
  unfolding set_phase_def by (rule tame_tasks) (simp add: place_update)

text \<open>Fencing, notification and completion.\<close>

lemma tame_expire:
  assumes "expire_genstudio_batch h now b = Inr (b', fenced)"
  shows "tame_batch b b'"
  using assms
  by (auto simp: expire_genstudio_batch_def tame_batch_def expire_item_def tame_item_def list_all2_refl
      split: sum.splits if_splits intro!: all2_update_where)

lemma tame_fence:
  assumes "batches_ok R (br_batches st)" and "fence_batch c now bid st = Inr (st', fenced)"
  shows "tame st st'"
proof (cases "batch_of st bid")
  case None
  then show ?thesis using assms(2) by (simp add: fence_batch_def)
next
  case (Some b)
  then obtain b' where b': "expire_genstudio_batch (dc_exec c) now b = Inr (b', fenced)"
    and st': "st' = map_batch bid (\<lambda>_. b') st"
    using assms(2) by (auto simp: fence_batch_def split: sum.splits)
  show ?thesis unfolding st'
    using tame_expire [OF b'] Some by (intro tame_map_batch [OF assms(1)]) simp
qed

lemma tame_post_webhook: "tame_item it (fst (post_item_webhook b it))"
  by (simp add: post_item_webhook_def tame_item_def)

lemma tame_notify: "batches_ok R (br_batches st) \<Longrightarrow> tame st (notify_item bid i st)"
  unfolding notify_item_def
  by (rule tame_map_batch) (auto intro!: tame_update_item tame_post_webhook dest: batch_of_key batches_okD)

lemma tame_maybe_finish: "tame_batch b (fst (maybe_finish now b))"
  by (simp add: maybe_finish_def tame_batch_def Let_def list_all2_refl)

lemma tame_finish_batch: "batches_ok R (br_batches st) \<Longrightarrow> tame st (finish_batch now bid st)"
  unfolding finish_batch_def
  by (rule tame_trans [OF tame_map_batch tame_save]) (auto intro: tame_maybe_finish)

text \<open>Evidence of a worker answer.\<close>

lemma tame_identity: "tame_item it (record_worker_identity rp s job it)"
  by (simp add: record_worker_identity_def tame_item_def)

lemma tame_proof: "tame_item it (fst (record_execution_started job it))"
  by (simp add: record_execution_started_def tame_item_def split: option.splits)

lemma tame_usage: "record_worker_resource_usage job it = Some it' \<Longrightarrow> tame_item it it'"
  by (auto simp: record_worker_resource_usage_def tame_item_def Let_def split: option.splits if_splits)

lemma tame_progress: "tame_item it (record_worker_progress now p it)"
  by (auto simp: record_worker_progress_def tame_item_def Let_def split: option.splits)

lemma tame_observe:
  assumes ok: "batches_ok R (br_batches st)" and ob: "observe_job c t job st = Some st'"
  shows "tame st st'"
proof -
  obtain it where it: "find_item st (tk_batch t) (tk_index t) = Some it"
    using ob by (auto simp: observe_job_def task_item_def split: option.splits)
  define started where "started = fst (record_execution_started job it)"
  define st1 where "st1 = on_item t (\<lambda>_. started) st"
  define st2 where "st2 = (if snd (record_execution_started job it) then save_batch (tk_batch t) st1 else st1)"
  obtain it' where it': "record_worker_resource_usage job
      (record_worker_identity (th_repr (dc_text c)) (tk_studio t) job started) = Some it'"
    and st': "st' = on_item t (\<lambda>_. it') st2"
    using ob it by (auto simp: observe_job_def task_item_def Let_def started_def st1_def st2_def)
  have s: "tame_item it started" unfolding started_def by (rule tame_proof)
  have i: "tame_item started it'" using tame_identity tame_usage [OF it'] by (rule tame_item_trans)
  have 1: "tame st st1" unfolding st1_def on_item_def using it s by (intro tame_map_item [OF ok]) simp
  have 2: "tame st st2" using 1 tame_save tame_trans by (simp add: st2_def)
  have "it_index it = tk_index t" using it by (rule find_item_index)
  then have "find_item st2 (tk_batch t) (tk_index t) = Some started"
    using s it by (simp add: st2_def st1_def on_item_def find_item_map_item tame_item_def)
  then have "tame st2 st'" unfolding st' on_item_def
    using i by (intro tame_map_item [OF tame_batches [OF 2 ok]]) simp
  with 2 show ?thesis by (rule tame_trans)
qed

end
