(* ===== verification/Broker_Tasks.thy ===== *)
theory Broker_Tasks
  imports Broker_Invariant
begin

text \<open>
  The two steps that are not tame inside a run, dispatch and the end of a task, and with them every
  segment of the coroutine \<open>_run_item\<close>.  What an ending may do to its item is the predicate \<open>settles\<close>.
\<close>

section \<open>The end of a task\<close>

lemma map_item_twice:
  assumes "\<And>it. it_index (f it) = it_index it"
  shows "map_item bid i g (map_item bid i f st) = map_item bid i (g \<circ> f) st"
proof -
  have "update_item i g (update_item i f b) = update_item i (g \<circ> f) b" for b
    using assms by (simp add: update_item_def update_where_def)
  then show ?thesis by (simp add: map_item_def map_batch_def update_where_def)
qed

lemma terminal_defaults_simps [simp]:
  "it_index (terminal_defaults now s t0 it) = it_index it" "it_tries (terminal_defaults now s t0 it) = it_tries it"
  "it_infra (terminal_defaults now s t0 it) = it_infra it" "it_state (terminal_defaults now s t0 it) = it_state it"
  "it_reserved (terminal_defaults now s t0 it) = it_reserved it"
  by (simp_all add: terminal_defaults_def)

lemma release_item_simps [simp]:
  "it_index (release_item it) = it_index it" "it_tries (release_item it) = it_tries it"
  "it_infra (release_item it) = it_infra it" "it_state (release_item it) = it_state it"
  by (simp_all add: release_item_def)

lemma sum_list_others:
  assumes "distinct (map f us)" and "t \<in> set us"
  shows "sum_list (map g us) = (g t :: rat) + sum_list (map g (filter (\<lambda>u. f u \<noteq> f t) us))"
  using assms
proof (induction us)
  case Nil
  then show ?case by simp
next
  case (Cons a us)
  show ?case
  proof (cases "a = t")
    case True
    then have "f u \<noteq> f t" if "u \<in> set us" for u using that Cons.prems by (metis distinct.simps(2) image_eqI list.set_map list.simps(9))
    then have "filter (\<lambda>u. f u \<noteq> f t) us = us" by (simp add: filter_id_conv)
    with True show ?thesis by simp
  next
    case False
    then have "t \<in> set us" "f a \<noteq> f t" using Cons.prems by auto
    with Cons show ?thesis by simp
  qed
qed

lemma map_item_find_other: "(\<And>it. it_index (f it) = it_index it) \<Longrightarrow> (b, j) \<noteq> (bid, i) \<Longrightarrow>
    find_item (map_item bid i f st) b j = find_item st b j"
  by (subst find_item_map_item) auto

lemma studio_of_id:
  "distinct (map st_id registry) \<Longrightarrow> s \<in> set registry \<Longrightarrow> s' \<in> set registry \<Longrightarrow> st_id s = st_id s' \<Longrightarrow> s = s'"
  by (metis distinct_map inj_on_eq_iff)

lemma task_machine_unique:
  assumes "machines_ok registry st" "t \<in> set (br_tasks st)" "u \<in> set (br_tasks st)"
    and "st_machine (tk_studio u) = st_machine (tk_studio t)"
  shows "u = t"
  using assms unfolding machines_ok_def distinct_map by (metis (no_types, lifting) inj_onD)

lemma end_task_ok:
  fixes g :: "item \<Rightarrow> item"
  assumes reg: "distinct (map st_id registry)" and ok: "broker_ok registry R st" and t: "t \<in> set (br_tasks st)"
    and key: "\<And>it. it_index (g it) = it_index it"
    and good: "\<And>it. task_item t st = Some it \<Longrightarrow> item_ok R (g it)"
  shows "broker_ok registry R ((on_item t g st)\<lparr>
     br_busy := removeAll (st_id (tk_studio t)) (br_busy st),
     br_reserved := max 0 (br_reserved st - held_by st (task_key t)),
     br_tasks := filter (\<lambda>u. task_key u \<noteq> task_key t) (br_tasks st)\<rparr>)" (is "broker_ok _ _ ?st'")
proof (rule broker_okI)
  note parts = broker_okD [OF ok]
  let ?k = "task_key t" and ?us = "filter (\<lambda>u. task_key u \<noteq> task_key t) (br_tasks st)"
  have dk: "distinct (map task_key (br_tasks st))" using parts(3) by (simp add: tasks_ok_def)
  have k: "?k = (tk_batch t, tk_index t)" by (simp add: task_key_def)
  have other: "find_item ?st' b j = find_item st b j" if "(b, j) \<noteq> ?k" for b j
  proof -
    have "find_item ?st' b j = find_item (on_item t g st) b j" by (rule find_item_cong) simp
    also have "\<dots> = find_item st b j" using that k by (simp add: on_item_def map_item_find_other [OF key])
    finally show ?thesis .
  qed
  show "batches_ok R (br_batches ?st')"
    using batches_ok_map_item [OF parts(1) key] good by (simp add: on_item_def task_item_def)
  show "batches_ok R (br_ledger ?st')" using parts(2) by (simp add: on_item_def)
  show "tasks_ok ?st'"
    using parts(3) other by (auto simp: tasks_ok_def working_def distinct_map_filter)
  have same_id: "u = t" if "u \<in> set (br_tasks st)" "st_id (tk_studio u) = st_id (tk_studio t)" for u
    using that t parts(4) studio_of_id [OF reg, of "tk_studio u" "tk_studio t"] task_machine_unique [OF parts(4) t that(1)]
    by (simp add: machines_ok_def)
  have set_us: "set ?us = set (br_tasks st) - {t}"
    using dk t by (auto simp: distinct_map dest: inj_onD)
  have "set (br_busy st) - {st_id (tk_studio t)} = (\<lambda>u. st_id (tk_studio u)) ` (set (br_tasks st) - {t})"
    using parts(4) same_id t by (auto simp: machines_ok_def)
  then have "set (br_busy ?st') = set (map (\<lambda>u. st_id (tk_studio u)) ?us)"
    by (simp add: set_us del: set_filter)
  then show "machines_ok registry ?st'"
    using parts(4) by (auto simp: machines_ok_def on_item_def distinct_map_filter)
  have held: "held_by ?st' (task_key u) = held_by st (task_key u)" if "u \<in> set ?us" for u
    using that other [of "fst (task_key u)" "snd (task_key u)"] by (simp add: held_by_def)
  have "0 \<le> held_by st (task_key u)" if "u \<in> set (br_tasks st)" for u
    using that parts(3) by (auto simp: tasks_ok_def working_def held_by_def split: option.splits)
  then have "0 \<le> sum_list (map (held_by st \<circ> task_key) ?us)"
    by (intro sum_list_nonneg) auto
  moreover have "br_reserved st = held_by st ?k + sum_list (map (held_by st \<circ> task_key) ?us)"
    using parts(5) sum_list_others [OF dk t, of "held_by st \<circ> task_key"] by (simp add: reserve_ok_def)
  ultimately have left: "max 0 (br_reserved st - held_by st ?k) = sum_list (map (held_by st \<circ> task_key) ?us)" by simp
  define s' where "s' = ?st'"
  have same: "map (held_by s' \<circ> task_key) ?us = map (held_by st \<circ> task_key) ?us"
    using held by (intro map_cong) (simp_all del: set_filter add: s'_def)
  have fields: "br_tasks s' = ?us" "br_reserved s' = max 0 (br_reserved st - held_by st ?k)" by (simp_all add: s'_def)
  have "reserve_ok s'" by (simp only: reserve_ok_def fields left same)
  then show "reserve_ok ?st'" by (simp only: s'_def)
  show "plan_ok registry R ?st'"
    unfolding plan_ok_def
  proof (intro allI impI conjI ballI)
    fix p assume "br_plan ?st' = Some p"
    then have p: "br_plan st = Some p" by (simp add: on_item_def)
    then show "distinct (pl_queued p)" "set (pl_studios p) \<subseteq> set registry"
      using parts(6) by (simp_all add: plan_ok_def)
    fix i assume i: "i \<in> set (pl_queued p)"
    have n: "(pl_batch p, i) \<notin> task_key ` set (br_tasks st)" and w: "waiting R st (pl_batch p, i)"
      using parts(6) p i by (simp_all add: plan_ok_def)
    then show "(pl_batch p, i) \<notin> task_key ` set (br_tasks ?st')" by auto
    have "(pl_batch p, i) \<noteq> ?k" using n t by auto
    then show "waiting R ?st' (pl_batch p, i)" using w other by (simp add: waiting_def)
  qed
qed

lemma finish_task_ok:
  assumes reg: "distinct (map st_id registry)" and ok: "broker_ok registry R st"
    and t: "u \<in> set (br_tasks st)" "task_place u = task_place t"
    and key: "\<And>it. it_index (f it) = it_index it \<and> it_reserved (f it) = it_reserved it"
    and good: "\<And>it. task_item t st = Some it \<Longrightarrow> item_ok R (f it)"
  shows "broker_ok registry R (finish_task now t (on_item t f st))"
proof -
  have place: "task_key u = task_key t" "tk_studio u = tk_studio t"
    using t(2) by (simp_all add: task_place_def)
  have on: "on_item u = on_item t" "task_item u = task_item t"
    using place(1) by (auto simp: on_item_def task_item_def task_key_def fun_eq_iff)
  let ?e = "release_item \<circ> terminal_defaults now (tk_studio t) (tk_started t)"
  let ?core = "(on_item u (?e \<circ> f) st)\<lparr>
     br_busy := removeAll (st_id (tk_studio u)) (br_busy st),
     br_reserved := max 0 (br_reserved st - held_by st (task_key u)),
     br_tasks := filter (\<lambda>w. task_key w \<noteq> task_key u) (br_tasks st)\<rparr>"
  have "item_ok R ((?e \<circ> f) it)" if "task_item u st = Some it" for it
    using good [of it] that on by (simp add: item_ok_def)
  then have core: "broker_ok registry R ?core"
    using key by (intro end_task_ok [OF reg ok t(1)]) simp_all
  have "(case task_item t (on_item t f st) of None \<Rightarrow> 0 | Some it \<Rightarrow> it_reserved it) = held_by st (task_key u)"
    using key find_item_index [of st "tk_batch t" "tk_index t"]
    by (simp add: task_item_def on_item_def find_item_map_item held_by_def place(1))
      (simp add: task_key_def split: option.split)
  moreover have "on_item t ?e (on_item t f st) = on_item u (?e \<circ> f) st"
    using key by (simp add: on_item_def map_item_twice on(1) [symmetric])
  ultimately have "finish_task now t (on_item t f st)
      = finish_batch now (tk_batch t) (notify_item (tk_batch t) (tk_index t) ?core)"
    by (simp add: finish_task_def Let_def place on_item_def)
  moreover have "tame ?core (finish_batch now (tk_batch t) (notify_item (tk_batch t) (tk_index t) ?core))"
    using broker_okD(1) [OF core] tame_notify tame_finish_batch tame_then by blast
  ultimately show ?thesis using tame_ok core by simp
qed

section \<open>Dispatch\<close>

lemma dispatched_simps [simp]:
  "it_index (dispatched_item now s r gen it) = it_index it" "it_tries (dispatched_item now s r gen it) = it_tries it + 1"
  "it_infra (dispatched_item now s r gen it) = it_infra it" "it_state (dispatched_item now s r gen it) = Running"
  "it_reserved (dispatched_item now s r gen it) = r"
  by (simp_all add: dispatched_item_def clear_worker_attempt_evidence_def)

lemma tame_unplanned:
  assumes "tame st st'" shows "tame (st\<lparr>br_plan := p\<rparr>) (st'\<lparr>br_plan := p\<rparr>)"
  using assms by (simp add: tame_def)

lemma offer_ok:
  assumes reg: "distinct (map st_id registry)" and ok: "broker_ok registry R st"
    and p: "br_plan st = Some p" and i: "i \<in> set (pl_queued p)" and s: "s \<in> set registry"
    and rest: "set rest \<subseteq> set registry"
    and free: "st_machine s \<notin> busy_machines registry (br_busy st) (br_leases st)" and r: "0 \<le> r"
  shows "broker_ok registry R ((assign_item now (pl_batch p) i s r gen st)
     \<lparr>br_plan := Some (p\<lparr>pl_studios := rest, pl_queued := remove1 i (pl_queued p)\<rparr>)\<rparr>)"
    (is "broker_ok _ _ (_\<lparr>br_plan := Some ?p'\<rparr>)")
proof -
  define st0 where "st0 = map_batch (pl_batch p) (\<lambda>b. b\<lparr>ba_last_dispatched := Some now, ba_note := None\<rparr>) st"
  have "tame st st0" unfolding st0_def
    by (rule tame_map_batch [OF broker_okD(1) [OF ok]]) (simp add: tame_batch_def list_all2_refl)
  then have ok0: "broker_ok registry R st0" using ok by (rule tame_ok)
  note parts = broker_okD [OF ok0]
  have p0: "br_plan st0 = Some p" and busy0: "br_busy st0 = br_busy st" "br_leases st0 = br_leases st"
    using p by (simp_all add: st0_def)
  let ?bid = "pl_batch p" and ?f = "dispatched_item now s r gen"
  let ?k = "(?bid, i)" and ?t = "\<lparr>tk_batch = pl_batch p, tk_index = i, tk_studio = s, tk_started = now, tk_phase = Created\<rparr>"
  define st' where "st' = (assign_item now ?bid i s r gen st)\<lparr>br_plan := Some ?p'\<rparr>"
  have st': "br_batches st' = br_batches (map_item ?bid i ?f st0)" "br_ledger st' = br_ledger st0"
    "br_busy st' = List.insert (st_id s) (br_busy st0)" "br_leases st' = br_leases st0"
    "br_reserved st' = br_reserved st0 + r" "br_tasks st' = br_tasks st0 @ [?t]" "br_plan st' = Some ?p'"
    by (simp_all add: st'_def assign_item_def st0_def)
  have k: "task_key ?t = ?k" by (simp add: task_key_def)
  have fresh: "?k \<notin> task_key ` set (br_tasks st0)" and w: "waiting R st0 ?k"
    using parts(6) p0 i by (auto simp: plan_ok_def)
  obtain it where it: "find_item st0 ?bid i = Some it" and bounds: "0 \<le> it_tries it"
      "it_tries it < max_tries + int (it_infra it) + int R" "it_infra it < max_infra_tries"
    using w by (auto simp: waiting_def split: option.splits)
  have find: "find_item st' b j = (if (b, j) = ?k then Some (?f it) else find_item st0 b j)" for b j
  proof -
    have "find_item st' b j = find_item (map_item ?bid i ?f st0) b j" by (rule find_item_cong) (simp add: st')
    also have "\<dots> = (if (b, j) = ?k then Some (?f it) else find_item st0 b j)"
      using it by (subst find_item_map_item) auto
    finally show ?thesis .
  qed
  have "broker_ok registry R st'"
  proof (rule broker_okI)
    show "batches_ok R (br_batches st')"
      unfolding st' using it bounds by (intro batches_ok_map_item [OF parts(1)]) (auto simp: item_ok_def)
    show "batches_ok R (br_ledger st')" using parts(2) by (simp add: st')
    have "working st' (task_key u)" if "u \<in> set (br_tasks st0)" for u
    proof -
      have "(fst (task_key u), snd (task_key u)) \<noteq> ?k" using that fresh by (metis image_eqI prod.collapse)
      then have "find_item st' (fst (task_key u)) (snd (task_key u)) = find_item st0 (fst (task_key u)) (snd (task_key u))"
        by (simp only: find if_False)
      then show ?thesis using that parts(3) by (simp add: tasks_ok_def working_def)
    qed
    moreover have "working st' ?k" using find [of ?bid i] bounds r by (simp add: working_def)
    ultimately show "tasks_ok st'" using parts(3) fresh k by (simp add: tasks_ok_def st')
    have new: "st_machine s \<notin> (\<lambda>u. st_machine (tk_studio u)) ` set (br_tasks st0)"
    proof
      assume "st_machine s \<in> (\<lambda>u. st_machine (tk_studio u)) ` set (br_tasks st0)"
      then obtain u where u: "u \<in> set (br_tasks st0)" "st_machine (tk_studio u) = st_machine s" by auto
      then have "tk_studio u \<in> set registry" "st_id (tk_studio u) \<in> set (br_busy st)"
        using parts(4) busy0 by (auto simp: machines_ok_def)
      then have "st_machine s \<in> busy_machines registry (br_busy st) (br_leases st)"
        using machine_of_registered [OF reg, of "tk_studio u"] u(2)
        by (force simp: busy_machines_def List.map_filter_def)
      with free show False by simp
    qed
    have "st_machine s \<notin> set (map fst (br_leases st0))" using free busy0 by (simp add: busy_machines_def)
    then show "machines_ok registry st'" using parts(4) new s by (auto simp: machines_ok_def st')
    have "map (held_by st' \<circ> task_key) (br_tasks st0) = map (held_by st0 \<circ> task_key) (br_tasks st0)"
    proof (intro map_cong refl)
      fix u assume "u \<in> set (br_tasks st0)"
      then have "(fst (task_key u), snd (task_key u)) \<noteq> ?k" using fresh by (metis image_eqI prod.collapse)
      then show "(held_by st' \<circ> task_key) u = (held_by st0 \<circ> task_key) u"
        by (simp only: held_by_def find if_False comp_apply)
    qed
    then have "sum_list (map (held_by st' \<circ> task_key) (br_tasks st0)) = br_reserved st0"
      using parts(5) by (simp only: reserve_ok_def)
    moreover have "held_by st' ?k = r" using find [of ?bid i] by (simp add: held_by_def)
    ultimately show "reserve_ok st'" using k by (simp add: reserve_ok_def st')
    have dq: "distinct (pl_queued p)" using parts(6) p0 by (simp add: plan_ok_def)
    show "plan_ok registry R st'"
      unfolding plan_ok_def
    proof (intro allI impI conjI ballI)
      fix q assume "br_plan st' = Some q"
      then have q: "q = ?p'" using st'(7) by simp
      show "distinct (pl_queued q)" "set (pl_studios q) \<subseteq> set registry" using dq rest by (simp_all add: q)
      fix j assume "j \<in> set (pl_queued q)"
      then have j: "j \<in> set (pl_queued p)" "j \<noteq> i" using dq by (auto simp: q)
      then have "(?bid, j) \<notin> task_key ` set (br_tasks st0)" "waiting R st0 (?bid, j)"
        using parts(6) p0 by (auto simp: plan_ok_def)
      then show "(pl_batch q, j) \<notin> task_key ` set (br_tasks st')" "waiting R st' (pl_batch q, j)"
        using j k find [of ?bid j] by (auto simp: q st' waiting_def)
    qed
  qed
  then show ?thesis by (simp add: st'_def)
qed

section \<open>Segments of a task\<close>

text \<open>What the end of a task may do to its item: keep its identity and its reservation.\<close>

definition settles :: "nat \<Rightarrow> (item \<Rightarrow> item) \<Rightarrow> bool" where
  "settles R f \<longleftrightarrow> (\<forall>it. it_index (f it) = it_index it \<and> it_reserved (f it) = it_reserved it
     \<and> (item_ok R it \<and> it_infra it < max_infra_tries \<longrightarrow> item_ok R (f it)))"

lemma settlesI:
  assumes "\<And>it. it_index (f it) = it_index it \<and> it_reserved (f it) = it_reserved it"
    and "\<And>it. item_ok R it \<Longrightarrow> it_infra it < max_infra_tries \<Longrightarrow> item_ok R (f it)"
  shows "settles R f"
  using assms by (simp add: settles_def)

lemma settles_id [simp]: "settles R (\<lambda>it. it)" "settles R id"
  by (simp_all add: settles_def)

lemma settles_cancelled: "settles R (cancelled_item reason)"
  by (simp add: settles_def item_ok_def cancelled_item_def)

lemma settles_requeued: "settles R requeued_item"
  by (auto simp: settles_def item_ok_def requeued_item_def max_tries_def)

lemma settles_rejected: "settles R (rejected_item code reason)"
  by (simp add: settles_def item_ok_def rejected_item_def)

lemma settles_published: "settles R (published_item now asset)"
  by (simp add: settles_def item_ok_def published_item_def)

lemma settles_uncertain: "settles R (mark_voice_uncertain now reason)"
  by (simp add: settles_def item_ok_def mark_voice_uncertain_def)

lemma settles_failed: "settles R (failed_item message)"
  by (simp add: settles_def item_ok_def failed_item_def)

lemma settles_capacity: "settles R (capacity_item now m message released)"
  by (simp add: settles_def item_ok_def capacity_item_def avoid_machine_def max_tries_def)

lemma settles_infra: "settles R (infra_item now m message)"
  by (auto simp: settles_def item_ok_def infra_item_def avoid_machine_def Let_def max_infra_tries_def)

text \<open>A task in the list, possibly with its clock just set.\<close>

definition runs :: "broker \<Rightarrow> task \<Rightarrow> bool" where
  "runs st t \<longleftrightarrow> task_place t \<in> task_place ` set (br_tasks st)"

lemma tame_runs: "tame st st' \<Longrightarrow> runs st' t = runs st t"
  unfolding tame_def runs_def by (metis list.set_map)

lemma runs_working:
  assumes "broker_ok registry R st" and "runs st t" and "task_item t st = Some it"
  shows "item_ok R it" "it_infra it < max_infra_tries"
proof -
  show "item_ok R it" using find_item_ok broker_okD(1) [OF assms(1)] assms(3) by (simp add: task_item_def)
  obtain u where "u \<in> set (br_tasks st)" "task_key u = task_key t"
    using assms(2) by (auto simp: runs_def task_place_def)
  then have "working st (task_key t)" using broker_okD(3) [OF assms(1)] unfolding tasks_ok_def by metis
  then show "it_infra it < max_infra_tries" using assms(3) by (simp add: working_def task_item_def task_key_def)
qed

lemma finish_ok:
  assumes reg: "distinct (map st_id registry)" and ok: "broker_ok registry R st" and run: "runs st t"
    and f: "settles R f"
  shows "broker_ok registry R (finish_task now t (on_item t f st))"
proof -
  obtain u where u: "u \<in> set (br_tasks st)" "task_place u = task_place t" using run by (auto simp: runs_def)
  have "item_ok R (f it)" if "task_item t st = Some it" for it
    using runs_working [OF ok run that] f by (simp add: settles_def)
  then show ?thesis using f by (intro finish_task_ok [OF reg ok u]) (simp_all add: settles_def)
qed

lemma finish_retry_ok:
  assumes reg: "distinct (map st_id registry)" and ok: "broker_ok registry R st" and run: "runs st t"
    and it: "task_item t st = Some it" "it_tries it < max_tries"
  shows "broker_ok registry R (finish_task now t (on_item t (retry_item now message) st))"
proof -
  obtain u where u: "u \<in> set (br_tasks st)" "task_place u = task_place t" using run by (auto simp: runs_def)
  show ?thesis
    using runs_working [OF ok run it(1)] it
    by (intro finish_task_ok [OF reg ok u]) (simp_all add: retry_item_def item_ok_def)
qed

lemma on_item_id: "on_item t (\<lambda>it. it) st = st"
proof -
  have same: "update_where q (\<lambda>x. x) xs = xs" for q :: "'a \<Rightarrow> bool" and xs by (simp add: update_where_def)
  moreover have "update_item i (\<lambda>x. x) = (\<lambda>b. b)" for i
    by (rule ext) (simp add: update_item_def update_where_def)
  moreover have "update_where q (\<lambda>x. x) xs = xs" for q :: "batch \<Rightarrow> bool" and xs by (rule same)
  ultimately show ?thesis by (simp add: on_item_def map_item_def map_batch_def)
qed

lemma leave_ok:
  assumes "distinct (map st_id registry)" "broker_ok registry R st" "runs st t"
  shows "broker_ok registry R (finish_task now t st)"
  using finish_ok [OF assms settles_id(1), of now] by (simp add: on_item_id)

lemma fenced_ok:
  assumes "broker_ok registry R st" and "fence_batch c now bid st = Inr (st', fenced)"
  shows "broker_ok registry R st'" "runs st' t = runs st t"
proof -
  have "tame st st'" using tame_fence broker_okD(1) [OF assms(1)] assms(2) by blast
  then show "broker_ok registry R st'" "runs st' t = runs st t" using tame_ok assms(1) tame_runs by blast+
qed

lemma observed_ok:
  assumes "broker_ok registry R st" and "observe_job c t job st = Some st'"
  shows "broker_ok registry R st'" "runs st' u = runs st u"
proof -
  have "tame st st'" using tame_observe broker_okD(1) [OF assms(1)] assms(2) by blast
  then show "broker_ok registry R st'" "runs st' u = runs st u" using tame_ok assms(1) tame_runs by blast+
qed

lemma on_item_ok:
  assumes "broker_ok registry R st" and "\<And>it. task_item t st = Some it \<Longrightarrow> tame_item it (f it)"
  shows "broker_ok registry R (on_item t f st)" "runs (on_item t f st) u = runs st u"
proof -
  have "tame st (on_item t f st)"
    using assms(2) unfolding on_item_def task_item_def by (rule tame_map_item [OF broker_okD(1) [OF assms(1)]])
  then show "broker_ok registry R (on_item t f st)" "runs (on_item t f st) u = runs st u"
    using tame_ok assms(1) tame_runs by blast+
qed

lemma field_ok:
  assumes "broker_ok registry R st"
  shows "broker_ok registry R (st\<lparr>br_prot := x\<rparr>)" "broker_ok registry R (st\<lparr>br_models := m\<rparr>)"
    "broker_ok registry R (st\<lparr>br_turns := ts\<rparr>)" "broker_ok registry R (st\<lparr>br_drained := d\<rparr>)"
    "broker_ok registry R (set_phase t p st)" "broker_ok registry R (save_batch bid st)"
  using tame_ok [OF _ assms] tame_fields tame_set_phase tame_save by blast+

lemma runs_fields [simp]:
  "runs (st\<lparr>br_prot := x\<rparr>) t = runs st t" "runs (st\<lparr>br_models := m\<rparr>) t = runs st t"
  "runs (set_phase u p st) t = runs st t"
  by (simp_all add: runs_def) (simp add: tame_runs [unfolded runs_def] tame_set_phase)

lemma stop_if_fenced_ok:
  assumes reg: "distinct (map st_id registry)" and ok: "broker_ok registry R st" and run: "runs st t"
    and go: "\<And>st1. broker_ok registry R st1 \<Longrightarrow> runs st1 t \<Longrightarrow> broker_ok registry R (go_on st1)"
  shows "broker_ok registry R (stop_if_fenced c now t go_on st)"
proof (cases "fence_batch c now (tk_batch t) st")
  case (Inl e)
  then show ?thesis using ok by (simp add: stop_if_fenced_def)
next
  case (Inr r)
  obtain st1 fenced where r: "fence_batch c now (tk_batch t) st = Inr (st1, fenced)" using Inr by (cases r) simp
  note ok1 = fenced_ok [OF ok r]
  have "runs st1 t" using ok1(2) run by simp
  then show ?thesis
    using r ok go [OF ok1(1)] finish_ok [OF reg ok1(1) _ settles_cancelled]
    by (simp add: stop_if_fenced_def split: option.split)
qed

lemma begin_attempt_ok:
  assumes reg: "distinct (map st_id registry)" and ok: "broker_ok registry R st" and run: "runs st t"
  shows "broker_ok registry R (begin_attempt c now check t st)"
proof -
  let ?t = "t\<lparr>tk_started := now\<rparr>"
  define st1 where "st1 = (on_item t (started_item now) st)\<lparr>br_tasks :=
     update_where (\<lambda>u. task_key u = task_key t) (\<lambda>u. u\<lparr>tk_started := now\<rparr>) (br_tasks st)\<rparr>"
  have s: "broker_ok registry R (on_item t (started_item now) st)" "runs (on_item t (started_item now) st) t"
    using on_item_ok [OF ok, of t "started_item now"] run by (auto simp: started_item_def tame_item_def)
  have "tame (on_item t (started_item now) st) st1"
    unfolding st1_def by (rule tame_tasks) (simp add: place_update on_item_def)
  then have ok1: "broker_ok registry R st1" and run1: "runs st1 ?t"
    using tame_ok s tame_runs by (auto simp: runs_def)
  show ?thesis
  proof (cases "task_item ?t st1")
    case None
    then show ?thesis using ok by (simp add: begin_attempt_def Let_def st1_def)
  next
    case (Some it)
    show ?thesis
    proof (cases "voice_recovery_owns it")
      case True
      then show ?thesis using Some leave_ok [OF reg ok1 run1] by (simp add: begin_attempt_def Let_def st1_def)
    next
      case False
      show ?thesis
      proof (cases "fence_batch c now (tk_batch t) st1")
        case (Inl e)
        then show ?thesis using Some False ok by (simp add: begin_attempt_def Let_def st1_def)
      next
        case (Inr r)
        obtain st2 fenced where r: "fence_batch c now (tk_batch t) st1 = Inr (st2, fenced)" using Inr by (cases r) simp
        note ok2 = fenced_ok [OF ok1 r]
        have run2: "runs st2 ?t" using ok2(2) run1 by simp
        note fin = finish_ok [OF reg ok2(1) run2]
        have "begin_attempt c now check t st =
           (if fenced then finish_task now ?t (on_item ?t (cancelled_item lease_expired_text) st2)
            else (case check of Clear \<Rightarrow> set_phase ?t Posting st2
              | Peer_gone \<Rightarrow> finish_task now ?t (on_item ?t requeued_item st2)
              | Refused code reason \<Rightarrow> finish_task now ?t (on_item ?t (rejected_item code reason) st2)))"
          using Some False r by (simp add: begin_attempt_def Let_def st1_def)
        then show ?thesis
          using fin [OF settles_cancelled] fin [OF settles_requeued] fin [OF settles_rejected] field_ok(5) [OF ok2(1)]
          by (simp split: preflight.split)
      qed
    qed
  qed
qed

lemma accept_job_ok:
  assumes reg: "distinct (map st_id registry)" and ok: "broker_ok registry R st" and run: "runs st t"
  shows "broker_ok registry R (accept_job c now job_id job t st)"
proof (cases "observe_job c t job st")
  case None
  then show ?thesis using ok by (simp add: accept_job_def)
next
  case (Some st1)
  note ok1 = observed_ok [OF ok Some]
  note ok2 = on_item_ok [OF ok1(1), of t "\<lambda>it. it\<lparr>it_job := Some job_id\<rparr>"]
  have "broker_ok registry R (on_item t (\<lambda>it. it\<lparr>it_job := Some job_id\<rparr>) st1)"
    "runs (on_item t (\<lambda>it. it\<lparr>it_job := Some job_id\<rparr>) st1) t"
    using ok2 ok1(2) run by (simp_all add: tame_item_def)
  then show ?thesis
    using Some by (simp add: accept_job_def stop_if_fenced_ok [OF reg] field_ok)
qed

lemma poll_check_ok:
  assumes reg: "distinct (map st_id registry)" and ok: "broker_ok registry R st" and run: "runs st t"
  shows "broker_ok registry R (poll_check c now t st)"
  using leave_ok [OF reg ok run] stop_if_fenced_ok [OF reg ok run] ok
  by (simp add: poll_check_def field_ok split: option.split)

lemma poll_job_ok:
  assumes reg: "distinct (map st_id registry)" and ok: "broker_ok registry R st" and run: "runs st t"
  shows "broker_ok registry R (poll_job c now job t st)"
proof -
  have "broker_ok registry R (on_item t (record_worker_progress now p) st1)"
    if "observe_job c t job st = Some st1" for st1 p
    using on_item_ok(1) [OF observed_ok(1) [OF ok that]] tame_progress by blast
  then show ?thesis
    using leave_ok [OF reg ok run] ok by (simp add: poll_job_def field_ok split: option.split)
qed

lemma leave_or_succeed_ok:
  assumes reg: "distinct (map st_id registry)" and ok: "broker_ok registry R st" and run: "runs st t"
  shows "broker_ok registry R (leave_or_succeed now t st)"
  using leave_ok [OF reg ok run] leave_ok [OF reg field_ok(1) [OF ok], of _ t] run ok
  by (simp add: leave_or_succeed_def succeed_task_def split: option.split)

lemma publish_ok:
  assumes reg: "distinct (map st_id registry)" and ok: "broker_ok registry R st" and run: "runs st t"
  shows "broker_ok registry R (leave_or_succeed now t (on_item t (published_item now asset) st))"
proof -
  have 1: "broker_ok registry R (on_item t (published_item now asset) st)"
    "runs (on_item t (published_item now asset) st) t"
    using on_item_ok [OF ok, of t "published_item now asset"] run by (auto simp: published_item_def tame_item_def)
  show ?thesis by (rule leave_or_succeed_ok [OF reg 1])
qed

lemma complete_job_ok:
  assumes reg: "distinct (map st_id registry)" and ok: "broker_ok registry R st" and run: "runs st t"
  shows "broker_ok registry R (complete_job c now job runtime asset fetch t st)"
proof (cases "fence_batch c now (tk_batch t) st")
  case (Inl e)
  then show ?thesis using ok by (simp add: complete_job_def)
next
  case (Inr r)
  obtain st1 fenced where r: "fence_batch c now (tk_batch t) st = Inr (st1, fenced)" using Inr by (cases r) simp
  note ok1 = fenced_ok [OF ok r]
  have run1: "runs st1 t" using ok1(2) run by simp
  have adopt: "broker_ok registry R (on_item t (adopt_result now runtime) st2)"
      "runs (on_item t (adopt_result now runtime) st2) t"
    and seen: "broker_ok registry R st2" "runs st2 t" if "observe_job c t job st1 = Some st2" for st2
    using observed_ok [OF ok1(1) that] on_item_ok [OF observed_ok(1) [OF ok1(1) that], of t "adopt_result now runtime"]
      run1 by (auto simp: adopt_result_def tame_item_def)
  show ?thesis
    using r ok ok1(1) leave_or_succeed_ok [OF reg ok1(1) run1] leave_or_succeed_ok [OF reg seen]
      publish_ok [OF reg adopt] field_ok(5) [OF adopt(1)]
    by (simp add: complete_job_def Let_def split: option.split)
qed

lemma adopt_artifact_ok:
  assumes reg: "distinct (map st_id registry)" and ok: "broker_ok registry R st" and run: "runs st t"
  shows "broker_ok registry R (adopt_artifact now asset t st)"
  using publish_ok [OF reg ok run] leave_or_succeed_ok [OF reg ok run] ok
  by (simp add: adopt_artifact_def split: option.split)

lemma settle_failure_ok:
  assumes reg: "distinct (map st_id registry)" and ok: "broker_ok registry R st" and run: "runs st t"
  shows "broker_ok registry R (settle_failure now e t st)"
proof (cases "task_item t st")
  case None
  then show ?thesis using ok by (simp add: settle_failure_def split: option.split)
next
  case (Some it)
  let ?f = "\<lambda>it. it\<lparr>it_last_progress := Some now\<rparr>"
  have t: "broker_ok registry R (on_item t ?f st)" "runs (on_item t ?f st) t"
    using on_item_ok [OF ok, of t ?f] run by (simp_all add: tame_item_def)
  have it': "task_item t (on_item t ?f st) = Some (?f it)"
    using Some by (simp add: task_item_def on_item_def find_item_map_item)
  have retry: "broker_ok registry R (finish_task now t (on_item t (retry_item now m) (on_item t ?f st)))"
    if "it_tries it < max_tries" for m
    using finish_retry_ok [OF reg t it'] that by simp
  have infra: "broker_ok registry R (finish_task now t (on_item t (infra_item now k m)
      ((on_item t ?f st)\<lparr>br_prot := x\<rparr>)))" for k m x
    using finish_ok [OF reg field_ok(1) [OF t(1)] _ settles_infra] t(2) by simp
  show ?thesis
    using Some ok finish_ok [OF reg ok run settles_uncertain] infra retry finish_ok [OF reg t settles_failed] field_ok(5) [OF t(1)]
    by (simp add: settle_failure_def Let_def split: option.split)
qed

lemma fail_attempt_ok:
  assumes reg: "distinct (map st_id registry)" and ok: "broker_ok registry R st" and run: "runs st t"
  shows "broker_ok registry R (fail_attempt now e t st)"
  using leave_ok [OF reg ok run] finish_ok [OF reg ok run settles_cancelled] settle_failure_ok [OF reg ok run]
    field_ok(5) [OF ok] ok
  by (simp add: fail_attempt_def split: option.split)

lemma unreconciled_ok:
  assumes reg: "distinct (map st_id registry)" and ok: "broker_ok registry R st" and run: "runs st t"
  shows "broker_ok registry R (unreconciled now e t st)"
  using leave_ok [OF reg ok run] settle_failure_ok [OF reg ok run] ok
  by (simp add: unreconciled_def split: option.split)

lemma recover_probe_ok:
  assumes reg: "distinct (map st_id registry)" and ok: "broker_ok registry R st" and run: "runs st t"
  shows "broker_ok registry R (recover_probe c now t st)"
  using fenced_ok [OF ok] unreconciled_ok [OF reg] run ok
  by (simp add: recover_probe_def split: sum.split prod.split phase.split)

lemma tame_noted: "tame_item it (noted_item now job it)"
  using tame_usage [of job it] tame_progress tame_item_trans
  by (auto simp: noted_item_def split: option.split)

lemma recover_waiting_ok:
  assumes reg: "distinct (map st_id registry)" and ok: "broker_ok registry R st" and run: "runs st t"
  shows "broker_ok registry R (recover_waiting now job t st)"
proof -
  have "broker_ok registry R (proven_item job t st)"
    using field_ok(6) [OF on_item_ok(1) [OF ok tame_proof]] on_item_ok(1) [OF ok tame_proof] ok
    by (simp add: proven_item_def Let_def split: option.split)
  from on_item_ok(1) [OF this tame_noted] show ?thesis
    using leave_ok [OF reg ok run] ok by (simp add: recover_waiting_def split: option.split)
qed

lemma tame_failure:
  assumes "record_worker_failure h now s job t0 it = Some it'"
  shows "tame_item it it'"
proof -
  obtain it1 where u: "record_worker_resource_usage job
      (record_worker_identity (th_repr h) s job (fst (record_execution_started job it))) = Some it1"
    and it': "tame_item it1 it'"
    using assms by (auto simp: record_worker_failure_def Let_def tame_item_def)
  then show ?thesis by (metis tame_item_trans tame_proof tame_identity tame_usage)
qed

lemma tame_classified:
  assumes "classify_worker_failure h sz now model s job t0 it ps = Some (it', ps', e)"
  shows "tame_item it it'"
proof -
  obtain it1 where "record_worker_failure h now s job t0 it = Some it1" and "tame_item it1 it'"
    using assms by (auto simp: classify_worker_failure_def Let_def tame_item_def split: option.splits if_splits)
  then show ?thesis using tame_failure tame_item_trans by blast
qed

lemma reconciled_failure_ok:
  assumes reg: "distinct (map st_id registry)" and ok: "broker_ok registry R st" and run: "runs st t"
  shows "broker_ok registry R (reconciled_failure c now job t st)"
proof (cases "observe_job c t job st")
  case None
  then show ?thesis
    using ok leave_ok [OF reg ok run] by (simp add: reconciled_failure_def split: option.split)
next
  case (Some st1)
  note ok1 = observed_ok(1) [OF ok Some]
  have run1: "runs st1 t" using observed_ok(2) [OF ok Some] run by simp
  have "broker_ok registry R ((on_item t (\<lambda>_. it') st1)\<lparr>br_models := m\<rparr>)"
      "runs ((on_item t (\<lambda>_. it') st1)\<lparr>br_models := m\<rparr>) t"
    if "task_item t st1 = Some it1"
      "classify_worker_failure h sz now model s job t0 it1 ps = Some (it', m, e)"
    for it1 h sz model s t0 ps it' m e
    using on_item_ok [OF ok1, of t "\<lambda>_. it'"] that tame_classified [OF that(2)] run1 field_ok(2) by auto
  note after = this
  show ?thesis
    using ok Some leave_ok [OF reg ok run] settle_failure_ok [OF reg after] finish_ok [OF reg after settles_cancelled]
    by (simp add: reconciled_failure_def Let_def split: option.split prod.split)
qed

lemma handed_off_ok:
  assumes reg: "distinct (map st_id registry)" and ok: "broker_ok registry R st" and run: "runs st t"
  shows "broker_ok registry R (handed_off now released t st)"
  using finish_ok [OF reg ok run settles_capacity] ok by (simp add: handed_off_def split: phase.split)

lemma http_rejected_ok:
  assumes reg: "distinct (map st_id registry)" and ok: "broker_ok registry R st" and run: "runs st t"
  shows "broker_ok registry R (http_rejected c now status detail t st)"
proof -
  let ?st1 = "on_item t (\<lambda>it. it\<lparr>it_code := Some files_unavailable\<rparr>) st"
  have "broker_ok registry R (?st1\<lparr>br_models := m\<rparr>)" "runs (?st1\<lparr>br_models := m\<rparr>) t" for m
    using on_item_ok [OF ok, of t "\<lambda>it. it\<lparr>it_code := Some files_unavailable\<rparr>"] run field_ok(2)
    by (auto simp: tame_item_def)
  then show ?thesis
    using fail_attempt_ok [OF reg ok run] fail_attempt_ok [OF reg] ok
    by (simp add: http_rejected_def Let_def split: option.split)
qed

lemma with_task_ok:
  assumes "broker_ok registry R st" and "\<And>t. runs st t \<Longrightarrow> broker_ok registry R (f t st)"
  shows "broker_ok registry R (with_task k p f st)"
proof -
  have "runs st t" if "select_first (\<lambda>t. task_key t = k) (br_tasks st) = Some t" for t
    using select_first_Some [OF that] by (auto simp: runs_def)
  then show ?thesis using assms by (simp add: with_task_def split: option.split)
qed

end
