(* ===== verification/Broker_Safety.thy ===== *)
theory Broker_Safety
  imports Broker_Tasks
begin

text \<open>
  The handlers, the dispatch loop and a restart of the Hub, and the theorem that every step of the
  broker keeps the invariant; a restart raises by one the number of attempts an item may have had.
\<close>

section \<open>Handlers, the dispatch loop and a restart\<close>

lemma tame_map_all:
  assumes "\<And>it. tame_item it (f it)"
  shows "tame_batch b (b\<lparr>ba_items := map f (ba_items b)\<rparr>)"
proof -
  have "list_all2 tame_item xs (map f xs)" for xs using assms by (induction xs) auto
  then show ?thesis by (simp add: tame_batch_def)
qed

lemma tame_cancel_batch:
  assumes ok: "batches_ok R (br_batches st)"
  shows "tame st (cancel_batch now answers bid st)"
proof (cases "batch_of st bid")
  case None
  then show ?thesis by (simp add: cancel_batch_def)
next
  case (Some b)
  define st1 where "st1 = save_batch bid (map_batch bid cancel_queued st)"
  define signal :: "item \<Rightarrow> item" where "signal = (\<lambda>it. if it_state it = Running \<and> str_or_empty (it_studio it) \<noteq> [] \<and> str_or_empty (it_job it) \<noteq> []
      then (case answers (it_index it) of
          None \<Rightarrow> it\<lparr>it_cancel_sent := Some now, it_cancel_error := None\<rparr>
        | Some e \<Rightarrow> it\<lparr>it_cancel_error := Some e\<rparr>)
      else it)"
  define signalled :: "batch \<Rightarrow> batch" where "signalled = (\<lambda>b. b\<lparr>ba_items := map signal (ba_items b)\<rparr>)"
  define notify :: "batch \<Rightarrow> batch" where "notify = (\<lambda>b. b\<lparr>ba_items := map (\<lambda>it. if it_state it = Cancelled
      then fst (post_item_webhook b it) else it) (ba_items b)\<rparr>)"
  have "tame st (map_batch bid cancel_queued st)"
    by (rule tame_map_batch [OF ok])
      (auto simp: cancel_queued_def tame_batch_def cancel_queued_item_def tame_item_def intro!: all2_update_where)
  then have 1: "tame st st1" unfolding st1_def by (rule tame_trans [OF _ tame_save])
  have "tame_batch b (signalled b)" for b
    unfolding signalled_def by (rule tame_map_all) (simp add: signal_def tame_item_def split: option.split)
  moreover have "tame_batch b (notify b)" for b
    unfolding notify_def by (rule tame_map_all) (simp add: tame_post_webhook)
  ultimately have both: "tame_batch b ((notify \<circ> signalled) b)" for b
    using tame_batch_trans by (metis comp_apply)
  note ok1 = tame_batches [OF 1 ok]
  have 2: "tame st1 (map_batch bid (notify \<circ> signalled) st1)" by (rule tame_map_batch [OF ok1 both])
  have 3: "tame (map_batch bid (notify \<circ> signalled) st1) (finish_batch now bid (map_batch bid (notify \<circ> signalled) st1))"
    by (rule tame_finish_batch [OF tame_batches [OF 2 ok1]])
  have "cancel_batch now answers bid st = finish_batch now bid (map_batch bid (notify \<circ> signalled) st1)"
    by (simp add: cancel_batch_def Some st1_def signal_def signalled_def notify_def Let_def)
  then show ?thesis using 1 2 3 tame_trans by metis
qed

text \<open>A batch put into memory replaces its old version or is appended.\<close>

lemma appended_ok:
  assumes ok: "broker_ok registry R st" and b': "batch_ok R b'" and new: "batch_of st (ba_id b') = None"
  shows "broker_ok registry R (st\<lparr>br_batches := br_batches st @ [b']\<rparr>)" (is "broker_ok _ _ ?st'")
proof (rule broker_okI)
  note parts = broker_okD [OF ok]
  have find_append: "List.find q (xs @ ys) = (case List.find q xs of None \<Rightarrow> List.find q ys | Some x \<Rightarrow> Some x)"
    for q :: "batch \<Rightarrow> bool" and xs ys by (induction xs) auto
  have find: "find_item ?st' b i = Some it" if "find_item st b i = Some it" for b i it
    using that by (auto simp: find_item_def batch_of_def select_first_def find_append split: option.splits Option.bind_splits)
  show "batches_ok R (br_batches ?st')"
    using parts(1) b' new by (auto simp: batches_ok_def batch_of_def select_first_None)
  show "batches_ok R (br_ledger ?st')" using parts(2) by simp
  have "working ?st' k" if "working st k" for k
    using that find by (auto simp: working_def split: option.splits)
  then show "tasks_ok ?st'" using parts(3) by (simp add: tasks_ok_def)
  show "machines_ok registry ?st'" using parts(4) by (simp add: machines_ok_def)
  define s' where "s' = ?st'"
  have "held_by s' k = held_by st k" if "working st k" for k
    using that find by (auto simp: working_def held_by_def s'_def split: option.splits)
  then have "map (held_by s' \<circ> task_key) (br_tasks st) = map (held_by st \<circ> task_key) (br_tasks st)"
    using parts(3) by (intro map_cong refl) (simp add: tasks_ok_def)
  moreover have "br_tasks s' = br_tasks st" "br_reserved s' = br_reserved st" by (simp_all add: s'_def)
  ultimately have "reserve_ok s'" using parts(5) by (simp only: reserve_ok_def)
  then show "reserve_ok ?st'" by (simp only: s'_def)
  have "waiting R ?st' k" if "waiting R st k" for k
    using that find by (auto simp: waiting_def split: option.splits)
  then show "plan_ok registry R ?st'" using parts(6) by (simp add: plan_ok_def)
qed

lemma remembered_ok:
  assumes ok: "broker_ok registry R st" and b': "batch_ok R b'"
    and same: "\<And>b. batch_of st (ba_id b') = Some b \<Longrightarrow> tame_batch b b'"
  shows "broker_ok registry R (st\<lparr>br_batches := save_row b' (br_batches st)\<rparr>)"
proof (cases "batch_of st (ba_id b')")
  case None
  then have "save_row b' (br_batches st) = br_batches st @ [b']"
    by (auto simp: save_row_def upsert_def batch_of_def select_first_None list_ex_iff)
  then show ?thesis using appended_ok [OF ok b' None] by simp
next
  case (Some b)
  then have "st\<lparr>br_batches := save_row b' (br_batches st)\<rparr> = map_batch (ba_id b') (\<lambda>_. b') st"
    using batch_of_key by (force simp: save_row_def upsert_def map_batch_def list_ex_iff)
  moreover have "tame st (map_batch (ba_id b') (\<lambda>_. b') st)"
    using same by (rule tame_map_batch [OF broker_okD(1) [OF ok]])
  ultimately show ?thesis using tame_ok [OF _ ok] by simp
qed

lemma ledger_ok:
  assumes ok: "broker_ok registry R st" and b': "batch_ok R b'"
  shows "broker_ok registry R (st\<lparr>br_ledger := save_row b' (br_ledger st)\<rparr>)"
proof -
  have same: "find_item (st\<lparr>br_ledger := l\<rparr>) b i = find_item st b i" for l b i by (rule find_item_cong) simp
  then have "held_by (st\<lparr>br_ledger := l\<rparr>) = held_by st" "working (st\<lparr>br_ledger := l\<rparr>) = working st"
    "waiting R (st\<lparr>br_ledger := l\<rparr>) = waiting R st" for l
    by (simp_all add: held_by_def working_def waiting_def fun_eq_iff)
  then show ?thesis
    using ok batches_ok_save_row [OF _ b']
    by (simp add: broker_ok_def tasks_ok_def machines_ok_def reserve_ok_def plan_ok_def)
qed

lemma lease_frame:
  assumes ok: "broker_ok registry R st" and m: "machines_ok registry (st\<lparr>br_leases := l\<rparr>)"
  shows "broker_ok registry R (st\<lparr>br_leases := l\<rparr>)"
proof -
  have same: "find_item (st\<lparr>br_leases := l\<rparr>) b i = find_item st b i" for b i by (rule find_item_cong) simp
  then have "held_by (st\<lparr>br_leases := l\<rparr>) = held_by st" "working (st\<lparr>br_leases := l\<rparr>) = working st"
    "waiting R (st\<lparr>br_leases := l\<rparr>) = waiting R st"
    by (simp_all add: held_by_def working_def waiting_def fun_eq_iff)
  then show ?thesis using ok m by (simp add: broker_ok_def tasks_ok_def reserve_ok_def plan_ok_def)
qed

lemma both_ok:
  assumes ok: "broker_ok registry R st" and b': "batch_ok R b'"
    and same: "\<And>b. batch_of st (ba_id b') = Some b \<Longrightarrow> tame_batch b b'"
  shows "broker_ok registry R (st\<lparr>br_batches := save_row b' (br_batches st), br_ledger := save_row b' (br_ledger st)\<rparr>)"
  using ledger_ok [OF remembered_ok [OF ok b' same] b'] by simp

lemma ledger_batch_ok:
  assumes "broker_ok registry R st" and "select_first p (br_ledger st) = Some b"
  shows "batch_ok R b"
  using select_first_Some [OF assms(2)] broker_okD(2) [OF assms(1)] batches_okD by blast

lemma memory_batch_ok:
  assumes "broker_ok registry R st" and "batch_of st bid = Some b"
  shows "batch_ok R b"
  using batch_of_key [OF assms(2)] broker_okD(1) [OF assms(1)] batches_okD by blast

lemma renew_ok:
  assumes ok: "broker_ok registry R st"
  shows "broker_ok registry R (fst (renew_execution_lease bid attempt lease st))"
proof -
  define found where "found = (case (if bid = [] then None else batch_of st bid) of
            Some b \<Rightarrow> Some b
          | None \<Rightarrow> (case (if bid = [] then None else select_first (\<lambda>b. ba_id b = bid) (br_ledger st)) of
              Some b \<Rightarrow> Some b
            | None \<Rightarrow> select_first (\<lambda>b. (case ba_execution b of None \<Rightarrow> None | Some e \<Rightarrow> ex_attempt e) = Some attempt)
                        (br_batches st)))"
  show ?thesis
  proof (cases found)
    case None
    then show ?thesis using ok by (simp add: renew_execution_lease_def found_def [symmetric])
  next
    case (Some b)
    have tame: "tame_batch b (renew_batch_lease lease b)"
      by (simp add: renew_batch_lease_def tame_batch_def list_all2_refl)
    have b: "batch_of st (ba_id b) = Some b \<or> (batch_of st (ba_id b) = None \<and> batch_ok R b)"
    proof (cases "bid \<noteq> [] \<and> batch_of st bid = None \<and> select_first (\<lambda>b. ba_id b = bid) (br_ledger st) \<noteq> None")
      case True
      then have "select_first (\<lambda>b. ba_id b = bid) (br_ledger st) = Some b"
        using Some by (auto simp: found_def)
      then show ?thesis using True ledger_batch_ok [OF ok] select_first_Some by fastforce
    next
      case False
      then have "b \<in> set (br_batches st)"
        using Some by (auto simp: found_def dest: batch_of_key select_first_Some split: if_splits option.splits)
      then show ?thesis using batch_of_unique broker_okD(1) [OF ok] by blast
    qed
    then have "batch_ok R b" using memory_batch_ok [OF ok] by blast
    then have "batch_ok R (renew_batch_lease lease b)" using tame tame_batch_ok by blast
    moreover have "ba_id (renew_batch_lease lease b) = ba_id b" by (simp add: renew_batch_lease_def)
    ultimately show ?thesis
      using Some b tame both_ok [OF ok, of "renew_batch_lease lease b"]
      by (auto simp: renew_execution_lease_def found_def [symmetric] Let_def)
  qed
qed

lemma tame_give_up: "tame_item it (give_up_identity now it)"
  by (simp add: give_up_identity_def set_voice_recovery_def recovery_phases_def mark_voice_uncertain_def tame_item_def)

lemma recover_voice_ok:
  assumes ok: "broker_ok registry R st"
  shows "broker_ok registry R (recover_voice_item now bid i st)"
proof -
  define found where "found = (case batch_of st bid of Some b \<Rightarrow> Some b
     | None \<Rightarrow> select_first (\<lambda>b. ba_id b = bid) (br_ledger st))"
  show ?thesis
  proof (cases found)
    case None
    then show ?thesis using ok by (simp add: recover_voice_item_def found_def [symmetric] voice_recovery_item_def)
  next
    case (Some b)
    have b: "ba_id b = bid" "batch_ok R b" "\<And>m. batch_of st bid = Some m \<Longrightarrow> m = b"
      using Some ledger_batch_ok [OF ok] memory_batch_ok [OF ok]
      by (auto simp: found_def dest: batch_of_key select_first_Some split: option.splits)
    have tame: "tame_batch b (update_item i (give_up_identity now) b)"
      by (rule tame_update_item [OF b(2) tame_give_up])
    have 1: "broker_ok registry R (st\<lparr>br_batches := save_row b (br_batches st)\<rparr>)"
      using b by (intro remembered_ok [OF ok b(2)]) auto
    have 2: "broker_ok registry R (st\<lparr>br_batches := save_row b' (br_batches st), br_ledger := save_row b' (br_ledger st)\<rparr>)"
      if "b' = update_item i (give_up_identity now) b" for b'
      using that b tame tame_batch_ok [OF tame b(2)] by (intro both_ok [OF ok]) auto
    show ?thesis
      using ok Some 1 2
      by (simp add: recover_voice_item_def found_def [symmetric] voice_recovery_item_def split: option.split)
  qed
qed

lemma note_recovery_ok:
  assumes ok: "broker_ok registry R st"
  shows "broker_ok registry R (note_recovery now phase reason i bid st)"
proof -
  have "tame st (map_item bid i (\<lambda>it. the (set_voice_recovery now phase reason it)) st)" if "phase \<in> set recovery_phases"
    using that by (intro tame_map_item [OF broker_okD(1) [OF ok]]) (simp add: set_voice_recovery_def tame_item_def)
  then show ?thesis using ok tame_ok by (auto simp: note_recovery_def)
qed

lemma fresh_items: "item_ok R (fresh_item bid m i it)" "it_index (fresh_item bid m i it) = i"
  by (simp_all add: fresh_item_def item_ok_def max_tries_def max_infra_tries_def)

lemma new_batch_ok: "batch_ok R (new_batch s)"
proof -
  have "map it_index (ba_items (new_batch s)) = map fst (enumerate 0 (sb_items s))"
    by (simp add: new_batch_def split_def o_def fresh_items)
  then have "distinct (map it_index (ba_items (new_batch s)))" by simp
  then show ?thesis by (auto simp: batch_ok_def new_batch_def fresh_items)
qed

lemma submit_ok:
  assumes ok: "broker_ok registry R st" and "\<not> known_batch (sb_id s) st"
  shows "broker_ok registry R (add_batch (new_batch s) st)"
proof -
  have "ba_id (new_batch s) = sb_id s" by (simp add: new_batch_def)
  moreover have "batch_of st (sb_id s) = None"
    using assms(2) by (auto simp: known_batch_def batch_of_def select_first_None list_ex_iff)
  ultimately show ?thesis
    unfolding add_batch_def by (intro both_ok [OF ok new_batch_ok]) simp
qed

lemma dset_keys: "set (map fst (dset k v d)) = insert k (set (map fst d))"
  by (simp add: dom_update dom_map_of_conv_image_fst [symmetric] update_conv')

lemma acquire_ok:
  assumes reg: "distinct (map st_id registry)" and ok: "broker_ok registry R st"
  shows "broker_ok registry R (st\<lparr>br_leases := fst (acquire_external_machine registry v (br_batches st) (br_busy st)
     machine owner (br_leases st))\<rparr>)"
proof -
  define leases where "leases = fst (acquire_external_machine registry v (br_batches st) (br_busy st) machine owner (br_leases st))"
  have "st_machine (tk_studio t) \<notin> set (map fst leases)" if t: "t \<in> set (br_tasks st)" for t
  proof -
    have m: "tk_studio t \<in> set registry" "st_id (tk_studio t) \<in> set (br_busy st)"
        "st_machine (tk_studio t) \<notin> set (map fst (br_leases st))"
      using t broker_okD(4) [OF ok] by (auto simp: machines_ok_def)
    then have "st_machine (tk_studio t) \<in> busy_machines registry (br_busy st) (br_leases st)"
      using machine_of_registered [OF reg, of "tk_studio t"] by (force simp: busy_machines_def List.map_filter_def)
    then show ?thesis
      using m(3) by (auto simp: leases_def acquire_external_machine_def dset_keys [unfolded list.set_map])
  qed
  then have "machines_ok registry (st\<lparr>br_leases := leases\<rparr>)"
    using broker_okD(4) [OF ok] by (simp add: machines_ok_def)
  then show ?thesis using lease_frame [OF ok] by (simp add: leases_def)
qed

lemma release_ok:
  assumes ok: "broker_ok registry R st"
  shows "broker_ok registry R (st\<lparr>br_leases := release_external_machine machine owner (br_leases st)\<rparr>)"
proof (rule lease_frame [OF ok])
  have "set (map fst (dpop machine (br_leases st))) \<subseteq> set (map fst (br_leases st))"
    by (auto simp: AList.delete_eq)
  then show "machines_ok registry (st\<lparr>br_leases := release_external_machine machine owner (br_leases st)\<rparr>)"
    using broker_okD(4) [OF ok] by (auto simp: machines_ok_def release_external_machine_def)
qed

lemma replan_ok:
  assumes ok: "broker_ok registry R st"
    and plan: "\<And>p. q = Some p \<Longrightarrow> distinct (pl_queued p) \<and> set (pl_studios p) \<subseteq> set registry
      \<and> (\<forall>i\<in>set (pl_queued p). (pl_batch p, i) \<notin> task_key ` set (br_tasks st) \<and> waiting R st (pl_batch p, i))"
  shows "broker_ok registry R (st\<lparr>br_plan := q\<rparr>)"
proof -
  have same: "find_item (st\<lparr>br_plan := x\<rparr>) b i = find_item st b i" for x b i by (rule find_item_cong) simp
  then have "held_by (st\<lparr>br_plan := x\<rparr>) = held_by st" "working (st\<lparr>br_plan := x\<rparr>) = working st"
    "waiting R (st\<lparr>br_plan := x\<rparr>) = waiting R st" for x
    by (simp_all add: held_by_def working_def waiting_def fun_eq_iff)
  then show ?thesis
    using ok plan by (simp add: broker_ok_def tasks_ok_def reserve_ok_def machines_ok_def plan_ok_def)
qed

lemma listed_item:
  assumes ok: "broker_ok registry R st" and b: "batch_of st bid = Some b" and it: "it \<in> set (ready_items now b)"
  shows "(bid, it_index it) \<notin> task_key ` set (br_tasks st)" "waiting R st (bid, it_index it)"
proof -
  have mem: "it \<in> set (ba_items b)" and q: "it_state it = Queued" using it by (auto simp: ready_items_def)
  have f: "find_item st bid (it_index it) = Some it" using find_itemI [OF broker_okD(1) [OF ok] b mem] .
  have "item_ok R it" using find_item_ok [OF broker_okD(1) [OF ok] f] .
  then show "waiting R st (bid, it_index it)" using f q by (simp add: waiting_def item_ok_def)
  show "(bid, it_index it) \<notin> task_key ` set (br_tasks st)"
  proof
    assume "(bid, it_index it) \<in> task_key ` set (br_tasks st)"
    then have "working st (bid, it_index it)" using broker_okD(3) [OF ok] by (auto simp: tasks_ok_def)
    then show False using f q by (simp add: working_def)
  qed
qed

lemma distinct_ready: "batch_ok R b \<Longrightarrow> distinct (map it_index (ready_items now b))"
  by (simp add: batch_ok_def ready_items_def distinct_map_filter)

lemma scan_ok:
  assumes ok: "broker_ok (dc_registry c) R st"
  shows "broker_ok (dc_registry c) R (scan_batch c v now bid st)"
proof (cases "fence_batch c now bid st")
  case (Inl e)
  then show ?thesis using ok by (simp add: scan_batch_def)
next
  case (Inr r)
  obtain st1 fenced where r: "fence_batch c now bid st = Inr (st1, fenced)" using Inr by (cases r) simp
  note ok1 = fenced_ok(1) [OF ok r]
  have "broker_ok (dc_registry c) R (st1\<lparr>br_plan := Some \<lparr>pl_batch = bid, pl_queued = map it_index (ready_items now b),
      pl_studios = filter P (eligible_studios (dc_registry c) v (br_busy st1) (br_drained st1) (br_leases st1)
        (br_prot st1) now m rt), pl_now = now\<rparr>\<rparr>)" if b: "batch_of st1 bid = Some b" for b P m rt
  proof (rule replan_ok [OF ok1])
    have listed: "\<forall>i\<in>set (map it_index (ready_items now b)).
        (bid, i) \<notin> task_key ` set (br_tasks st1) \<and> waiting R st1 (bid, i)"
      using listed_item [OF ok1 b] by simp
    fix q assume "Some \<lparr>pl_batch = bid, pl_queued = map it_index (ready_items now b),
      pl_studios = filter P (eligible_studios (dc_registry c) v (br_busy st1) (br_drained st1) (br_leases st1)
        (br_prot st1) now m rt), pl_now = now\<rparr> = Some q"
    then have q: "pl_batch q = bid" "pl_queued q = map it_index (ready_items now b)"
      "set (pl_studios q) \<subseteq> set (dc_registry c)" by (auto simp: set_eligible)
    show "distinct (pl_queued q) \<and> set (pl_studios q) \<subseteq> set (dc_registry c)
        \<and> (\<forall>i\<in>set (pl_queued q). (pl_batch q, i) \<notin> task_key ` set (br_tasks st1) \<and> waiting R st1 (pl_batch q, i))"
      unfolding q(1,2) using q(3) listed distinct_ready [OF memory_batch_ok [OF ok1 b]] by blast
  qed
  then show ?thesis
    using r ok1 field_ok(6) [OF ok1] by (simp add: scan_batch_def split: option.split)
qed

lemma offer_next_ok:
  assumes reg: "distinct (map st_id (dc_registry c))" and ok: "broker_ok (dc_registry c) R st"
  shows "broker_ok (dc_registry c) R (offer_next c synced now off st)"
proof (cases "br_plan st")
  case None
  then show ?thesis using ok by (simp add: offer_next_def)
next
  case (Some p)
  have drop: "broker_ok (dc_registry c) R (st\<lparr>br_plan := None\<rparr>)" by (rule replan_ok [OF ok]) simp
  have moved: "broker_ok (dc_registry c) R (st\<lparr>br_plan := Some (p\<lparr>pl_studios := rest\<rparr>)\<rparr>)"
    if "pl_studios p = s # rest" for s rest
  proof (rule replan_ok [OF ok])
    fix q assume "Some (p\<lparr>pl_studios := rest\<rparr>) = Some q"
    then have "q = p\<lparr>pl_studios := rest\<rparr>" by simp
    then show "distinct (pl_queued q) \<and> set (pl_studios q) \<subseteq> set (dc_registry c)
        \<and> (\<forall>i\<in>set (pl_queued q). (pl_batch q, i) \<notin> task_key ` set (br_tasks st) \<and> waiting R st (pl_batch q, i))"
      using that broker_okD(6) [OF ok] Some by (simp add: plan_ok_def)
  qed
  have go: "broker_ok (dc_registry c) R ((assign_item now (pl_batch p) i s r gen st)
      \<lparr>br_plan := Some (p\<lparr>pl_studios := rest, pl_queued := remove1 i (pl_queued p)\<rparr>)\<rparr>)"
    if p: "pl_studios p = s # rest" and i: "first_compatible c synced p b s = Some i"
      and v: "offer_verdict rp ms b s (off\<lparr>of_machine_busy :=
        (st_machine s \<in> busy_machines (dc_registry c) (br_busy st) (br_leases st))\<rparr>) = Assign r"
    for s rest i b rp ms r gen
  proof -
    have "s \<in> set (dc_registry c)" "set rest \<subseteq> set (dc_registry c)"
      using p broker_okD(6) [OF ok] Some by (auto simp: plan_ok_def)
    moreover have "i \<in> set (pl_queued p)" using i by (auto simp: first_compatible_def find_Some_iff)
    moreover have "st_machine s \<notin> busy_machines (dc_registry c) (br_busy st) (br_leases st)"
      using v by (auto simp: offer_verdict_def split: option.splits if_splits)
    ultimately show ?thesis using Some assign_nonneg [OF v] by (intro offer_ok [OF reg ok]) auto
  qed
  show ?thesis
    using Some drop moved go
    by (auto simp: offer_next_def Let_def split: list.split option.split verdict.split)
qed

lemma restored_item_ok:
  assumes "item_ok R it" shows "item_ok (Suc R) (restored_item now b it)" "it_index (restored_item now b it) = it_index it"
  using assms by (auto simp: restored_item_def item_ok_def mark_voice_uncertain_def)

lemma item_ok_Suc: "item_ok R it \<Longrightarrow> item_ok (Suc R) it"
  by (auto simp: item_ok_def)

lemma batches_ok_Suc: "batches_ok R rows \<Longrightarrow> batches_ok (Suc R) rows"
  by (auto simp: batches_ok_def batch_ok_def item_ok_Suc)

lemma restored_batch_ok:
  assumes "batch_ok R b" shows "batch_ok (Suc R) (restored_batch c now b)" "ba_id (restored_batch c now b) = ba_id b"
proof -
  have plain: "batch_ok (Suc R) (b\<lparr>ba_items := map (restored_item now b) (ba_items b)\<rparr>)"
  proof -
    have "map it_index (map (restored_item now b) (ba_items b)) = map it_index (ba_items b)"
      using assms by (auto simp: restored_item_ok batch_ok_def)
    then show ?thesis using assms by (auto simp: batch_ok_def restored_item_ok simp del: map_map)
  qed
  have expired: "batch_ok (Suc R) b' \<and> ba_id b' = ba_id b"
    if "expire_genstudio_batch (dc_exec c) now b = Inr (b', True)" for b'
    using tame_batch_ok [OF tame_expire [OF that] assms] tame_expire [OF that]
    by (auto simp: batch_ok_def item_ok_Suc tame_batch_def)
  show "batch_ok (Suc R) (restored_batch c now b)" "ba_id (restored_batch c now b) = ba_id b"
  proof -
    have "batch_ok (Suc R) (restored_batch c now b) \<and> ba_id (restored_batch c now b) = ba_id b"
    proof (cases "\<exists>b'. expire_genstudio_batch (dc_exec c) now b = Inr (b', True)")
      case True
      then obtain b' where "expire_genstudio_batch (dc_exec c) now b = Inr (b', True)" by blast
      then show ?thesis using expired by (simp add: restored_batch_def)
    next
      case False
      then have "restored_batch c now b = b\<lparr>ba_items := map (restored_item now b) (ba_items b)\<rparr>"
        by (simp add: restored_batch_def split: sum.split prod.split bool.split)
      then show ?thesis using plain by simp
    qed
    then show "batch_ok (Suc R) (restored_batch c now b)" "ba_id (restored_batch c now b) = ba_id b" by simp_all
  qed
qed

lemma fold_save_rows:
  "batches_ok R rows \<Longrightarrow> (\<And>b. b \<in> set bs \<Longrightarrow> batch_ok R b) \<Longrightarrow> batches_ok R (fold save_row bs rows)"
  by (induction bs arbitrary: rows) (auto simp: batches_ok_save_row)

lemma restart_ok:
  assumes ok: "broker_ok registry R st"
  shows "broker_ok registry (Suc R) (restore_batches c now st)"
proof -
  let ?rows = "filter (\<lambda>b. list_ex (\<lambda>it. unfinished (it_state it)) (ba_items b)) (br_ledger st)"
  let ?loaded = "map (restored_batch c now) ?rows"
  have led: "batches_ok R (br_ledger st)" using broker_okD(2) [OF ok] .
  have good: "batch_ok (Suc R) b'" if "b' \<in> set ?loaded" for b'
    using that led by (auto simp: batches_ok_def restored_batch_ok)
  have "map ba_id ?loaded = map ba_id ?rows"
    using led by (auto simp: batches_ok_def restored_batch_ok)
  then have "distinct (map ba_id ?loaded)"
    using led by (simp add: batches_ok_def distinct_map_filter del: map_map)
  then have mem: "batches_ok (Suc R) ?loaded" using good by (simp add: batches_ok_def)
  have "batches_ok (Suc R) (fold save_row ?loaded (br_ledger st))"
    by (rule fold_save_rows [OF batches_ok_Suc [OF led] good])
  with mem show ?thesis
    by (simp add: restore_batches_def Let_def broker_ok_def tasks_ok_def machines_ok_def reserve_ok_def plan_ok_def)
qed

section \<open>Every step keeps the invariant\<close>

theorem broker_step_ok:
  assumes reg: "distinct (map st_id (dc_registry c))" and ok: "broker_ok (dc_registry c) R st"
  shows "broker_ok (dc_registry c) (R + (if is_restart e then 1 else 0)) (broker_step c e st)"
proof (cases e)
  case (Submit s) then show ?thesis using ok submit_ok by (simp add: is_restart_def)
next
  case (Expire now bid)
  then show ?thesis using ok fenced_ok(1) [OF ok] field_ok(6) by (auto simp: is_restart_def split: sum.split)
next
  case (Scan v now bid) then show ?thesis using ok scan_ok by (simp add: is_restart_def)
next
  case (Offer synced now off) then show ?thesis using offer_next_ok [OF reg ok] by (simp add: is_restart_def)
next
  case (Begin k now check)
  then show ?thesis using begin_attempt_ok [OF reg ok] by (auto simp: is_restart_def intro!: with_task_ok [OF ok])
next
  case (Accept k now j job)
  then show ?thesis using accept_job_ok [OF reg ok] by (auto simp: is_restart_def intro!: with_task_ok [OF ok])
next
  case (Reject k now status detail)
  then show ?thesis using http_rejected_ok [OF reg ok] by (auto simp: is_restart_def intro!: with_task_ok [OF ok])
next
  case (Raise k now err)
  then show ?thesis using fail_attempt_ok [OF reg ok] by (auto simp: is_restart_def intro!: with_task_ok [OF ok])
next
  case (Check k now)
  then show ?thesis using poll_check_ok [OF reg ok] by (auto simp: is_restart_def intro!: with_task_ok [OF ok])
next
  case (Progress k now job)
  then show ?thesis using poll_job_ok [OF reg ok] by (auto simp: is_restart_def intro!: with_task_ok [OF ok])
next
  case (Complete k now job runtime asset fetch)
  then show ?thesis using complete_job_ok [OF reg ok] ok by (auto simp: is_restart_def intro!: with_task_ok [OF ok])
next
  case (Artifact k now asset)
  then show ?thesis using adopt_artifact_ok [OF reg ok] by (auto simp: is_restart_def intro!: with_task_ok [OF ok])
next
  case (Job_failed k now job)
  then show ?thesis using reconciled_failure_ok [OF reg ok] by (auto simp: is_restart_def intro!: with_task_ok [OF ok])
next
  case (Probe k now)
  then show ?thesis using recover_probe_ok [OF reg ok] by (auto simp: is_restart_def intro!: with_task_ok [OF ok])
next
  case (Still_running k now job)
  then show ?thesis using recover_waiting_ok [OF reg ok] by (auto simp: is_restart_def intro!: with_task_ok [OF ok])
next
  case (Unreconciled k now)
  then show ?thesis using unreconciled_ok [OF reg ok] ok
    by (auto simp: is_restart_def intro!: with_task_ok [OF ok] split: phase.split)
next
  case (Handed k now released)
  then show ?thesis using handed_off_ok [OF reg ok] by (auto simp: is_restart_def intro!: with_task_ok [OF ok])
next
  case (Cancel now answers bid)
  then show ?thesis using tame_ok [OF tame_cancel_batch [OF broker_okD(1) [OF ok]] ok] by (simp add: is_restart_def)
next
  case (Renew_lease bid attempt lease) then show ?thesis using renew_ok [OF ok] by (simp add: is_restart_def)
next
  case (Acquire v machine owner) then show ?thesis using acquire_ok [OF reg ok] by (simp add: is_restart_def)
next
  case (Release machine owner) then show ?thesis using release_ok [OF ok] by (simp add: is_restart_def)
next
  case (Drain sid enabled) then show ?thesis using field_ok(4) [OF ok] by (simp add: is_restart_def)
next
  case (Dispatched_external machine lane)
  then show ?thesis using field_ok(3) [OF ok] ok by (simp add: is_restart_def split: option.split)
next
  case (Recover_voice now bid i) then show ?thesis using recover_voice_ok [OF ok] by (simp add: is_restart_def)
next
  case (Note_recovery now phase reason i bid) then show ?thesis using note_recovery_ok [OF ok] by (simp add: is_restart_def)
next
  case (Restart_hub now) then show ?thesis using restart_ok [OF ok] by (simp add: is_restart_def)
qed

lemma empty_broker_ok: "broker_ok registry R empty_broker"
  by (simp add: empty_broker_def broker_ok_def batches_ok_def tasks_ok_def machines_ok_def reserve_ok_def plan_ok_def)

definition restarts :: "broker_op list \<Rightarrow> nat" where
  "restarts es = count_where is_restart es"

definition broker_run :: "dispatch_context \<Rightarrow> broker_op list \<Rightarrow> broker" where
  "broker_run c es = fold (broker_step c) es empty_broker"

theorem reachable_ok:
  assumes reg: "distinct (map st_id (dc_registry c))"
  shows "broker_ok (dc_registry c) (restarts es) (broker_run c es)"
proof (induction es rule: rev_induct)
  case Nil
  then show ?case by (simp add: broker_run_def restarts_def count_where_def empty_broker_ok)
next
  case (snoc e es)
  show ?case
    using broker_step_ok [OF reg snoc, of e]
    by (cases "is_restart e") (simp_all add: broker_run_def restarts_def count_where_def)
qed

end
