(* ===== verification/Broker_Settled.thy ===== *)
theory Broker_Settled
  imports Broker_Safety
begin

text \<open>
  What the steps do to the items they are not about: a segment of a task changes no finished item but
  its own, and no handler or turn of the dispatch loop changes a finished item at all.
\<close>

section \<open>Finished items\<close>

definition calm_item :: "item \<Rightarrow> item \<Rightarrow> bool" where
  "calm_item it it' \<longleftrightarrow> it_index it' = it_index it
     \<and> (terminal (it_state it) \<longrightarrow> it_state it' = it_state it \<and> it_asset it' = it_asset it)"

definition calm_batch :: "batch \<Rightarrow> batch \<Rightarrow> bool" where
  "calm_batch b b' \<longleftrightarrow> ba_id b' = ba_id b \<and> list_all2 calm_item (ba_items b) (ba_items b')"

definition quiet :: "(string \<times> nat) set \<Rightarrow> broker \<Rightarrow> broker \<Rightarrow> bool" where
  \<comment> \<open>outside the keys K\<close>
  "quiet K st st' \<longleftrightarrow> (\<forall>b i. (b, i) \<notin> K \<longrightarrow> rel_option calm_item (find_item st b i) (find_item st' b i))
     \<and> task_key ` set (br_tasks st') \<subseteq> task_key ` set (br_tasks st) \<and> br_plan st' = br_plan st"

lemma calm_item_refl [simp, intro]: "calm_item it it"
  by (simp add: calm_item_def)

lemma calm_item_trans: "calm_item a b \<Longrightarrow> calm_item b c \<Longrightarrow> calm_item a c"
  by (auto simp: calm_item_def)

lemma calm_batch_refl [simp, intro]: "calm_batch b b"
  by (simp add: calm_batch_def list_all2_refl)

lemma rel_option_calm_refl [simp]: "rel_option calm_item x x"
  by (cases x) auto

lemma quiet_refl [simp, intro]: "quiet K st st"
  by (simp add: quiet_def)

lemma quiet_trans: "quiet K a b \<Longrightarrow> quiet K b c \<Longrightarrow> quiet K a c"
proof -
  have "rel_option calm_item x z" if "rel_option calm_item x y" "rel_option calm_item y z" for x y z
    using that by (cases x; cases y; cases z) (auto intro: calm_item_trans)
  then show "quiet K a b \<Longrightarrow> quiet K b c \<Longrightarrow> quiet K a c"
    unfolding quiet_def by (metis (no_types, lifting) order_trans)
qed

lemma quiet_mono: "quiet K a b \<Longrightarrow> K \<subseteq> K' \<Longrightarrow> quiet K' a b"
  unfolding quiet_def by blast

lemma quiet_same:
  assumes "br_batches st' = br_batches st" "task_key ` set (br_tasks st') \<subseteq> task_key ` set (br_tasks st)" "br_plan st' = br_plan st"
  shows "quiet K st st'"
  using assms find_item_cong [OF assms(1)] by (simp add: quiet_def)

lemma quiet_fields [simp, intro]:
  "quiet K st (st\<lparr>br_prot := p\<rparr>)" "quiet K st (st\<lparr>br_models := m\<rparr>)" "quiet K st (st\<lparr>br_turns := ts\<rparr>)"
  "quiet K st (st\<lparr>br_drained := d\<rparr>)" "quiet K st (st\<lparr>br_leases := l\<rparr>)" "quiet K st (st\<lparr>br_ledger := led\<rparr>)"
  "quiet K st (save_batch bid st)"
  by (rule quiet_same; simp)+

lemma quiet_set_phase [simp, intro]: "quiet K st (set_phase t p st)"
proof (rule quiet_same)
  have e: "map task_key (br_tasks (set_phase t p st)) = map task_key (br_tasks st)"
    by (simp add: set_phase_def update_where_def task_key_def)
  show "task_key ` set (br_tasks (set_phase t p st)) \<subseteq> task_key ` set (br_tasks st)"
    using arg_cong [OF e, of set] by simp
qed (simp_all add: set_phase_def)

lemma quiet_all2:
  assumes "list_all2 calm_batch (br_batches st) (br_batches st')"
    "task_key ` set (br_tasks st') \<subseteq> task_key ` set (br_tasks st)" "br_plan st' = br_plan st"
  shows "quiet K st st'"
proof -
  have "rel_option calm_item (find_item st bid i) (find_item st' bid i)" for bid i
  proof -
    have "rel_option calm_batch (batch_of st bid) (batch_of st' bid)"
      unfolding batch_of_def using assms(1) by (rule select_first_all2) (simp add: calm_batch_def)
    moreover have "rel_option calm_item (item_of i b) (item_of i b')" if "calm_batch b b'" for b b'
      unfolding item_of_def using that by (intro select_first_all2) (auto simp: calm_batch_def calm_item_def)
    ultimately show ?thesis
      by (cases "batch_of st bid"; cases "batch_of st' bid") (auto simp: find_item_def)
  qed
  then show ?thesis using assms(2,3) by (simp add: quiet_def)
qed

lemma quiet_map_batch:
  assumes "\<And>b. ba_id b = bid \<Longrightarrow> calm_batch b (f b)"
  shows "quiet K st (map_batch bid f st)"
  by (rule quiet_all2) (use assms in \<open>auto simp: map_batch_def intro!: all2_update_where\<close>)

lemma calm_update_item: "(\<And>it. calm_item it (f it)) \<Longrightarrow> calm_batch b (update_item i f b)"
  by (auto simp: calm_batch_def update_item_def intro!: all2_update_where)

lemma calm_map_all: "(\<And>it. calm_item it (f it)) \<Longrightarrow> calm_batch b (b\<lparr>ba_items := map f (ba_items b)\<rparr>)"
  by (simp add: calm_batch_def list_all2_map2 list_all2_refl)

text \<open>The item of the task itself may change in any way.\<close>

lemma quiet_on_item:
  assumes "\<And>it. it_index it = tk_index t \<Longrightarrow> it_index (f it) = tk_index t" and "task_key t \<in> K"
  shows "quiet K st (on_item t f st)"
proof -
  have "find_item (on_item t f st) b i = find_item st b i" if "(b, i) \<notin> K" for b i
    using that assms unfolding on_item_def by (subst find_item_map_item) (auto simp: task_key_def)
  then show ?thesis by (simp add: quiet_def on_item_def)
qed

lemma calm_expire: "expire_genstudio_batch h now b = Inr (b', fenced) \<Longrightarrow> calm_batch b b'"
  by (auto simp: expire_genstudio_batch_def calm_batch_def expire_item_def calm_item_def list_all2_refl
      in_flight_def terminal_def split: sum.splits if_splits intro!: all2_update_where)

lemma quiet_fence:
  assumes "batches_ok R (br_batches st)" and "fence_batch c now bid st = Inr (st', fenced)"
  shows "quiet K st st'"
proof (cases "batch_of st bid")
  case None
  then show ?thesis using assms(2) by (simp add: fence_batch_def)
next
  case (Some b)
  then obtain b' where b': "expire_genstudio_batch (dc_exec c) now b = Inr (b', fenced)"
    and st': "st' = map_batch bid (\<lambda>_. b') st"
    using assms(2) by (auto simp: fence_batch_def split: sum.splits)
  have "calm_batch b2 b'" if "b2 \<in> set (br_batches st)" "ba_id b2 = bid" for b2
    using that batch_of_unique [OF assms(1)] Some calm_expire [OF b'] by fastforce
  then show ?thesis unfolding st'
    by (intro quiet_all2) (auto simp: map_batch_def intro!: all2_update_where)
qed

lemma calm_post_webhook: "calm_item it (fst (post_item_webhook b it))"
  by (simp add: post_item_webhook_def calm_item_def)

lemma quiet_finish_batch: "quiet K st (finish_batch now bid st)"
proof -
  have "calm_batch b (fst (maybe_finish now b))" for b
    by (simp add: maybe_finish_def calm_batch_def Let_def list_all2_refl)
  then have "quiet K st (map_batch bid (\<lambda>b. fst (maybe_finish now b)) st)" by (rule quiet_map_batch)
  then show ?thesis unfolding finish_batch_def by (rule quiet_trans) (rule quiet_fields)
qed

lemma quiet_notify: "quiet K st (notify_item bid i st)"
  unfolding notify_item_def by (rule quiet_map_batch) (rule calm_update_item, rule calm_post_webhook)

lemma quiet_finish_task:
  assumes "task_key t \<in> K"
  shows "quiet K st (finish_task now t st)" "task_key t \<notin> task_key ` set (br_tasks (finish_task now t st))"
proof -
  let ?f = "release_item \<circ> terminal_defaults now (tk_studio t) (tk_started t)"
  have 1: "quiet K st (on_item t ?f st)"
    by (rule quiet_on_item [OF _ assms]) simp
  have 2: "quiet K s (s\<lparr>br_busy := x, br_reserved := r, br_tasks := filter p (br_tasks s)\<rparr>)" for s x r p
    by (rule quiet_same) auto
  show "quiet K st (finish_task now t st)"
    unfolding finish_task_def Let_def
    by (rule quiet_trans [OF 1 quiet_trans [OF 2 quiet_trans [OF quiet_notify quiet_finish_batch]]])
  show "task_key t \<notin> task_key ` set (br_tasks (finish_task now t st))"
    by (auto simp: finish_task_def finish_batch_def notify_item_def Let_def)
qed

section \<open>The segments of a task\<close>

lemma quiet_finish_on:
  assumes "\<And>it. it_index (f it) = it_index it" and "task_key t \<in> K"
  shows "quiet K st (finish_task now t (on_item t f st))"
  using assms by (intro quiet_trans [OF quiet_on_item quiet_finish_task(1)]) auto

lemma quiet_observe:
  assumes ob: "observe_job c t job st = Some st'" and k: "task_key t \<in> K"
  shows "quiet K st st'"
proof -
  obtain it where it: "find_item st (tk_batch t) (tk_index t) = Some it"
    using ob by (auto simp: observe_job_def task_item_def split: option.splits)
  have ix: "it_index it = tk_index t" using it by (rule find_item_index)
  define started where "started = fst (record_execution_started job it)"
  define st2 where "st2 = (if snd (record_execution_started job it)
     then save_batch (tk_batch t) (on_item t (\<lambda>_. started) st) else on_item t (\<lambda>_. started) st)"
  obtain it' where it': "record_worker_resource_usage job
      (record_worker_identity (th_repr (dc_text c)) (tk_studio t) job started) = Some it'"
    and st': "st' = on_item t (\<lambda>_. it') st2"
    using ob it by (auto simp: observe_job_def task_item_def Let_def started_def st2_def)
  have s: "it_index started = tk_index t"
    using ix tame_proof [of it job] by (simp add: started_def tame_item_def)
  then have i: "it_index it' = tk_index t"
    using tame_usage [OF it'] tame_identity [of started "th_repr (dc_text c)" "tk_studio t" job]
    by (simp add: tame_item_def)
  have 1: "quiet K st (on_item t (\<lambda>_. started) st)" using s k by (intro quiet_on_item) auto
  have "quiet K st st2" using 1 quiet_trans [OF 1 quiet_fields(7)] by (simp add: st2_def)
  moreover have "quiet K st2 st'" unfolding st' using i k by (intro quiet_on_item) auto
  ultimately show ?thesis by (rule quiet_trans)
qed

lemma quiet_stop:
  assumes ok: "batches_ok R (br_batches st)" and k: "task_key t \<in> K" and go: "\<And>s. quiet K s (go_on s)"
  shows "quiet K st (stop_if_fenced c now t go_on st)"
proof (cases "fence_batch c now (tk_batch t) st")
  case (Inl e)
  then show ?thesis by (simp add: stop_if_fenced_def)
next
  case (Inr r)
  obtain st1 fenced where r: "fence_batch c now (tk_batch t) st = Inr (st1, fenced)" using Inr by (cases r) simp
  have 1: "quiet K st st1" by (rule quiet_fence [OF ok r])
  have "quiet K st1 (finish_task now t (on_item t (cancelled_item x) st1))" for x
    by (rule quiet_finish_on [OF _ k]) (simp add: cancelled_item_def)
  then show ?thesis
    using r quiet_trans [OF 1] go by (simp add: stop_if_fenced_def split: option.split)
qed

lemma quiet_leave_or_succeed:
  assumes k: "task_key t \<in> K"
  shows "quiet K st (leave_or_succeed now t st)"
proof -
  have "quiet K st (succeed_task now t st)"
    unfolding succeed_task_def by (rule quiet_trans [OF quiet_fields(1) quiet_finish_task(1) [OF k]])
  then show ?thesis
    using quiet_finish_task(1) [OF k] by (simp add: leave_or_succeed_def split: option.split)
qed

lemma quiet_publish: "task_key t \<in> K \<Longrightarrow> quiet K st (leave_or_succeed now t (on_item t (published_item now asset) st))"
  by (rule quiet_trans [OF quiet_on_item quiet_leave_or_succeed]) (auto simp: published_item_def)

lemma quiet_begin:
  assumes ok: "broker_ok registry R st" and k: "task_key t \<in> K"
  shows "quiet K st (begin_attempt c now check t st)"
proof -
  let ?t = "t\<lparr>tk_started := now\<rparr>"
  have k': "task_key ?t \<in> K" using k by (simp add: task_key_def)
  define st1 where "st1 = (on_item t (started_item now) st)\<lparr>br_tasks :=
     update_where (\<lambda>u. task_key u = task_key t) (\<lambda>u. u\<lparr>tk_started := now\<rparr>) (br_tasks st)\<rparr>"
  have mid: "quiet K st (on_item t (started_item now) st)"
    by (rule quiet_on_item [OF _ k]) (simp add: started_item_def)
  have e: "map task_key (br_tasks st1) = map task_key (br_tasks st)"
    by (simp add: st1_def update_where_def task_key_def)
  have "quiet K (on_item t (started_item now) st) st1"
    using arg_cong [OF e, of set] by (intro quiet_same) (simp_all add: st1_def on_item_def)
  then have 1: "quiet K st st1" by (rule quiet_trans [OF mid])
  have "tame st (on_item t (started_item now) st)"
    unfolding on_item_def by (rule tame_map_item [OF broker_okD(1) [OF ok]]) (simp add: started_item_def tame_item_def)
  then have "batches_ok R (br_batches (on_item t (started_item now) st))" by (rule tame_batches) (rule broker_okD(1) [OF ok])
  then have ok1: "batches_ok R (br_batches st1)" by (simp add: st1_def)
  show ?thesis
  proof (cases "task_item ?t st1")
    case None
    then show ?thesis by (simp add: begin_attempt_def Let_def st1_def)
  next
    case (Some it)
    show ?thesis
    proof (cases "voice_recovery_owns it")
      case True
      then show ?thesis using Some quiet_trans [OF 1 quiet_finish_task(1) [OF k']]
        by (simp add: begin_attempt_def Let_def st1_def)
    next
      case False
      show ?thesis
      proof (cases "fence_batch c now (tk_batch t) st1")
        case (Inl e)
        then show ?thesis using Some False by (simp add: begin_attempt_def Let_def st1_def)
      next
        case (Inr r)
        obtain st2 fenced where r: "fence_batch c now (tk_batch t) st1 = Inr (st2, fenced)" using Inr by (cases r) simp
        have 2: "quiet K st st2" by (rule quiet_trans [OF 1 quiet_fence [OF ok1 r]])
        have fin: "quiet K st (finish_task now ?t (on_item ?t f st2))" if "\<And>it. it_index (f it) = it_index it" for f
          by (rule quiet_trans [OF 2 quiet_finish_on [OF that k']])
        have "begin_attempt c now check t st =
           (if fenced then finish_task now ?t (on_item ?t (cancelled_item lease_expired_text) st2)
            else (case check of Clear \<Rightarrow> set_phase ?t Posting st2
              | Peer_gone \<Rightarrow> finish_task now ?t (on_item ?t requeued_item st2)
              | Refused code reason \<Rightarrow> finish_task now ?t (on_item ?t (rejected_item code reason) st2)))"
          using Some False r by (simp add: begin_attempt_def Let_def st1_def)
        then show ?thesis
          using quiet_trans [OF 2 quiet_set_phase]
          by (auto simp: cancelled_item_def requeued_item_def rejected_item_def intro!: fin split: preflight.split)
      qed
    qed
  qed
qed

lemma quiet_accept:
  assumes ok: "broker_ok registry R st" and k: "task_key t \<in> K"
  shows "quiet K st (accept_job c now job_id job t st)"
proof (cases "observe_job c t job st")
  case None
  then show ?thesis by (simp add: accept_job_def)
next
  case (Some st1)
  let ?f = "\<lambda>it. it\<lparr>it_job := Some job_id\<rparr>"
  have "broker_ok registry R (on_item t ?f st1)"
    using on_item_ok(1) [OF observed_ok(1) [OF ok Some], of t ?f] by (simp add: tame_item_def)
  then have "quiet K (on_item t ?f st1) (stop_if_fenced c now t (set_phase t Polling) (on_item t ?f st1))"
    by (intro quiet_stop [OF broker_okD(1)] k) auto
  moreover have "quiet K st (on_item t ?f st1)"
    by (rule quiet_trans [OF quiet_observe [OF Some k] quiet_on_item [OF _ k]]) simp
  ultimately show ?thesis using Some quiet_trans by (simp add: accept_job_def)
qed

lemma quiet_poll_check:
  assumes ok: "broker_ok registry R st" and k: "task_key t \<in> K"
  shows "quiet K st (poll_check c now t st)"
  using quiet_finish_task(1) [OF k] quiet_stop [OF broker_okD(1) [OF ok] k, of "set_phase t Asking"]
  by (simp add: poll_check_def split: option.split)

lemma quiet_poll_job:
  assumes k: "task_key t \<in> K"
  shows "quiet K st (poll_job c now job t st)"
proof -
  have "quiet K st (set_phase t Polling (on_item t (record_worker_progress now p) st1))"
    if "observe_job c t job st = Some st1" for st1 p
    using tame_progress
    by (intro quiet_trans [OF quiet_observe [OF that k] quiet_trans [OF quiet_on_item [OF _ k] quiet_set_phase]])
      (auto simp: tame_item_def)
  then show ?thesis
    using quiet_finish_task(1) [OF k] by (simp add: poll_job_def split: option.split)
qed

lemma quiet_complete:
  assumes ok: "broker_ok registry R st" and k: "task_key t \<in> K"
  shows "quiet K st (complete_job c now job runtime asset fetch t st)"
proof (cases "fence_batch c now (tk_batch t) st")
  case (Inl e)
  then show ?thesis by (simp add: complete_job_def)
next
  case (Inr r)
  obtain st1 fenced where r: "fence_batch c now (tk_batch t) st = Inr (st1, fenced)" using Inr by (cases r) simp
  have 1: "quiet K st st1" by (rule quiet_fence [OF broker_okD(1) [OF ok] r])
  have seen: "quiet K st st2" if "observe_job c t job st1 = Some st2" for st2
    by (rule quiet_trans [OF 1 quiet_observe [OF that k]])
  have adopt: "quiet K st (on_item t (adopt_result now runtime) st2)" if "observe_job c t job st1 = Some st2" for st2
    by (rule quiet_trans [OF seen [OF that] quiet_on_item [OF _ k]]) (simp add: adopt_result_def)
  show ?thesis
    using r 1 quiet_trans [OF 1 quiet_leave_or_succeed [OF k]] quiet_trans [OF seen quiet_leave_or_succeed [OF k]]
      quiet_trans [OF adopt quiet_publish [OF k]] quiet_trans [OF adopt quiet_set_phase]
    by (simp add: complete_job_def Let_def split: option.split)
qed

lemma quiet_settle:
  assumes k: "task_key t \<in> K"
  shows "quiet K st (settle_failure now e t st)"
proof -
  let ?f = "\<lambda>it. it\<lparr>it_last_progress := Some now\<rparr>"
  have 1: "quiet K st (on_item t ?f st)" by (rule quiet_on_item [OF _ k]) simp
  have 2: "quiet K st ((on_item t ?f st)\<lparr>br_prot := x\<rparr>)" for x by (rule quiet_trans [OF 1 quiet_fields(1)])
  have "quiet K st (finish_task now t (on_item t (infra_item now m msg) ((on_item t ?f st)\<lparr>br_prot := x\<rparr>)))" for m msg x
    by (rule quiet_trans [OF 2 quiet_finish_on [OF _ k]]) (simp add: infra_item_def avoid_machine_def Let_def)
  moreover have "quiet K st (finish_task now t (on_item t (retry_item now msg) (on_item t ?f st)))" for msg
    by (rule quiet_trans [OF 1 quiet_finish_on [OF _ k]]) (simp add: retry_item_def)
  moreover have "quiet K st (finish_task now t (on_item t (failed_item msg) (on_item t ?f st)))" for msg
    by (rule quiet_trans [OF 1 quiet_finish_on [OF _ k]]) (simp add: failed_item_def)
  moreover have "quiet K st (finish_task now t (on_item t (mark_voice_uncertain now r) st))" for r
    by (rule quiet_finish_on [OF _ k]) (simp add: mark_voice_uncertain_def)
  ultimately show ?thesis
    using quiet_trans [OF 1 quiet_set_phase] by (simp add: settle_failure_def Let_def split: option.split)
qed

lemma quiet_fail:
  assumes k: "task_key t \<in> K"
  shows "quiet K st (fail_attempt now e t st)"
proof -
  have "quiet K st (finish_task now t (on_item t (cancelled_item r) st))" for r
    by (rule quiet_finish_on [OF _ k]) (simp add: cancelled_item_def)
  then show ?thesis
    using quiet_finish_task(1) [OF k] quiet_settle [OF k] by (simp add: fail_attempt_def split: option.split)
qed

lemma quiet_unreconciled: "task_key t \<in> K \<Longrightarrow> quiet K st (unreconciled now e t st)"
  using quiet_finish_task(1) quiet_settle by (simp add: unreconciled_def split: option.split)

lemma quiet_recover_probe:
  assumes ok: "broker_ok registry R st" and k: "task_key t \<in> K"
  shows "quiet K st (recover_probe c now t st)"
proof -
  have "quiet K st st1 \<and> quiet K st (unreconciled now e t st1)" if "fence_batch c now (tk_batch t) st = Inr (st1, fenced)" for st1 fenced e
    using quiet_fence [OF broker_okD(1) [OF ok] that] quiet_trans quiet_unreconciled [OF k] by blast
  then show ?thesis by (simp add: recover_probe_def split: sum.split prod.split phase.split)
qed

lemma quiet_recover_waiting:
  assumes k: "task_key t \<in> K"
  shows "quiet K st (recover_waiting now job t st)"
proof -
  have 1: "quiet K s (on_item t (\<lambda>x. fst (record_execution_started job x)) s)" for s
    using tame_proof by (intro quiet_on_item [OF _ k]) (simp add: tame_item_def)
  then have 2: "quiet K st (proven_item job t st)"
    using quiet_trans [OF 1 quiet_fields(7)] by (simp add: proven_item_def Let_def split: option.split)
  have "quiet K s (on_item t (noted_item now job) s)" for s
    using tame_noted by (intro quiet_on_item [OF _ k]) (simp add: tame_item_def)
  then have "quiet K st (on_item t (noted_item now job) (proven_item job t st))" by (rule quiet_trans [OF 2])
  then show ?thesis using quiet_finish_task(1) [OF k] by (simp add: recover_waiting_def split: option.split)
qed

lemma quiet_reconciled:
  assumes k: "task_key t \<in> K"
  shows "quiet K st (reconciled_failure c now job t st)"
proof (cases "observe_job c t job st")
  case None
  then show ?thesis using quiet_finish_task(1) [OF k] by (simp add: reconciled_failure_def split: option.split)
next
  case (Some st1)
  have 1: "quiet K st st1" by (rule quiet_observe [OF Some k])
  have after: "quiet K st ((on_item t (\<lambda>_. it') st1)\<lparr>br_models := m\<rparr>)"
    if "task_item t st1 = Some it1" "classify_worker_failure h sz now model s job t0 it1 ps = Some (it', m, e)"
    for it1 h sz model s t0 ps it' m e
  proof -
    have "it_index it' = tk_index t"
      using tame_classified [OF that(2)] find_item_index that(1) by (auto simp: tame_item_def task_item_def)
    then show ?thesis
      by (intro quiet_trans [OF 1 quiet_trans [OF quiet_on_item [OF _ k] quiet_fields(2)]]) auto
  qed
  have "quiet K s (finish_task now t (on_item t (cancelled_item r) s))" for r s
    by (rule quiet_finish_on [OF _ k]) (simp add: cancelled_item_def)
  then show ?thesis
    using Some quiet_finish_task(1) [OF k] quiet_trans [OF after quiet_settle [OF k]] quiet_trans [OF after]
    by (simp add: reconciled_failure_def Let_def split: option.split prod.split)
qed

lemma quiet_handed: "task_key t \<in> K \<Longrightarrow> quiet K st (handed_off now released t st)"
  using quiet_finish_on [of "capacity_item b m msg released" for b m msg]
  by (simp add: handed_off_def capacity_item_def avoid_machine_def split: phase.split)

lemma quiet_http_rejected:
  assumes k: "task_key t \<in> K"
  shows "quiet K st (http_rejected c now status detail t st)"
proof -
  have "quiet K st ((on_item t (\<lambda>it. it\<lparr>it_code := x\<rparr>) st)\<lparr>br_models := m\<rparr>)" for x m
    by (intro quiet_trans [OF quiet_on_item [OF _ k] quiet_fields(2)]) simp
  then show ?thesis
    using quiet_fail [OF k] quiet_trans by (simp add: http_rejected_def Let_def split: option.split) blast
qed

lemma quiet_adopt: "task_key t \<in> K \<Longrightarrow> quiet K st (adopt_artifact now asset t st)"
  using quiet_publish quiet_leave_or_succeed by (simp add: adopt_artifact_def split: option.split)

section \<open>Settled items\<close>

definition settled :: "broker \<Rightarrow> string \<times> nat \<Rightarrow> item_state \<Rightarrow> string option \<Rightarrow> bool" where
  \<comment> \<open>finished with this result, no coroutine at work on it, not listed by the dispatch loop\<close>
  "settled st k s a \<longleftrightarrow> terminal s
     \<and> (case find_item st (fst k) (snd k) of None \<Rightarrow> False | Some it \<Rightarrow> it_state it = s \<and> it_asset it = a)
     \<and> k \<notin> task_key ` set (br_tasks st)
     \<and> (case br_plan st of None \<Rightarrow> True | Some p \<Rightarrow> fst k = pl_batch p \<longrightarrow> snd k \<notin> set (pl_queued p))"

lemma calm_result:
  "rel_option calm_item x y \<Longrightarrow> terminal s \<Longrightarrow>
     (case x of None \<Rightarrow> False | Some it \<Rightarrow> it_state it = s \<and> it_asset it = a) \<Longrightarrow>
     (case y of None \<Rightarrow> False | Some it \<Rightarrow> it_state it = s \<and> it_asset it = a)"
  by (cases x; cases y) (auto simp: calm_item_def)

lemma settled_quiet:
  assumes s: "settled st k s a" and q: "quiet K st st'" and k: "k \<notin> K"
  shows "settled st' k s a"
proof -
  have "rel_option calm_item (find_item st (fst k) (snd k)) (find_item st' (fst k) (snd k))"
    using q k by (simp add: quiet_def)
  then have "case find_item st' (fst k) (snd k) of None \<Rightarrow> False | Some it \<Rightarrow> it_state it = s \<and> it_asset it = a"
    by (rule calm_result) (use s in \<open>simp_all add: settled_def\<close>)
  moreover have "k \<notin> task_key ` set (br_tasks st')" "br_plan st' = br_plan st"
    using q s unfolding quiet_def settled_def by blast+
  ultimately show ?thesis using s by (simp add: settled_def)
qed

lemma settled_with_task:
  assumes "settled st k s a" and "\<And>t. task_key t \<noteq> k \<Longrightarrow> quiet {task_key t} st (f t st)"
  shows "settled (with_task j p f st) k s a"
proof (cases "select_first (\<lambda>t. task_key t = j) (br_tasks st)")
  case None
  then show ?thesis using assms(1) by (simp add: with_task_def)
next
  case (Some t)
  then have "t \<in> set (br_tasks st)" using select_first_Some by fast
  then have "task_key t \<noteq> k" using assms(1) by (auto simp: settled_def)
  then have "settled (f t st) k s a" using settled_quiet [OF assms(1) assms(2)] by simp
  then show ?thesis using Some assms(1) by (simp add: with_task_def)
qed

lemma settled_remembered:
  assumes ok: "broker_ok registry R st" and s: "settled st k s a"
    and calm: "\<And>b. batch_of st (ba_id b') = Some b \<Longrightarrow> calm_batch b b'"
  shows "settled (st\<lparr>br_batches := save_row b' (br_batches st)\<rparr>) k s a"
proof (cases "batch_of st (ba_id b')")
  case None
  then have app: "save_row b' (br_batches st) = br_batches st @ [b']"
    by (auto simp: save_row_def upsert_def batch_of_def select_first_None list_ex_iff)
  have find_append: "List.find q (xs @ ys) = (case List.find q xs of None \<Rightarrow> List.find q ys | Some x \<Rightarrow> Some x)"
    for q :: "batch \<Rightarrow> bool" and xs ys by (induction xs) auto
  have "find_item (st\<lparr>br_batches := br_batches st @ [b']\<rparr>) b i = Some it" if "find_item st b i = Some it" for b i it
    using that by (auto simp: find_item_def batch_of_def select_first_def find_append split: option.splits Option.bind_splits)
  then show ?thesis using s by (auto simp: settled_def app split: option.splits)
next
  case (Some b)
  have "calm_batch b2 b'" if "b2 \<in> set (br_batches st)" "ba_id b2 = ba_id b'" for b2
    using that batch_of_unique [OF broker_okD(1) [OF ok]] calm by metis
  moreover have "\<exists>b2\<in>set (br_batches st). ba_id b2 = ba_id b'" using batch_of_key [OF Some] by blast
  ultimately have "quiet {} st (st\<lparr>br_batches := save_row b' (br_batches st)\<rparr>)"
    by (intro quiet_all2) (auto simp: save_row_def upsert_def list_ex_iff intro!: all2_update_where)
  then show ?thesis using settled_quiet [OF s] by blast
qed

lemma settled_ledger: "settled (st\<lparr>br_ledger := l\<rparr>) k s a = settled st k s a"
  using find_item_cong [of "st\<lparr>br_ledger := l\<rparr>" st] by (simp add: settled_def)

lemma settled_plan:
  assumes "settled st k s a"
    and "\<And>p. q = Some p \<Longrightarrow> fst k = pl_batch p \<Longrightarrow> snd k \<notin> set (pl_queued p)"
  shows "settled (st\<lparr>br_plan := q\<rparr>) k s a"
  using assms find_item_cong [of "st\<lparr>br_plan := q\<rparr>" st] by (auto simp: settled_def split: option.split)

lemma settled_scan:
  assumes ok: "broker_ok registry R st" and s: "settled st k s a"
  shows "settled (scan_batch c v now bid st) k s a"
proof (cases "fence_batch c now bid st")
  case (Inl e)
  then show ?thesis using s by (simp add: scan_batch_def)
next
  case (Inr r)
  obtain st1 fenced where r: "fence_batch c now bid st = Inr (st1, fenced)" using Inr by (cases r) simp
  have s1: "settled st1 k s a" by (rule settled_quiet [OF s quiet_fence [OF broker_okD(1) [OF ok] r, of "{}"]]) simp
  note ok1 = fenced_ok(1) [OF ok r]
  have fresh: "snd k \<notin> it_index ` set (ready_items now b)" if b: "batch_of st1 bid = Some b" and "fst k = bid" for b
  proof
    assume "snd k \<in> it_index ` set (ready_items now b)"
    then obtain it where it: "it \<in> set (ba_items b)" "it_index it = snd k" "it_state it = Queued"
      by (auto simp: ready_items_def)
    have "find_item st1 (fst k) (snd k) = Some it"
      using find_itemI [OF broker_okD(1) [OF ok1] b it(1)] it(2) that(2) by simp
    then show False using s1 it(3) by (auto simp: settled_def terminal_def)
  qed
  have "settled (st1\<lparr>br_plan := Some \<lparr>pl_batch = bid, pl_queued = map it_index (ready_items now b),
      pl_studios = xs, pl_now = now\<rparr>\<rparr>) k s a" if "batch_of st1 bid = Some b" for b xs
    using fresh [OF that] by (intro settled_plan [OF s1]) auto
  moreover have "settled (save_batch bid st1) k s a" by (rule settled_quiet [OF s1 quiet_fields(7) [of "{}"]]) simp
  ultimately show ?thesis using r s1 by (simp add: scan_batch_def split: option.split)
qed

lemma settled_assign:
  assumes s: "settled st k s a" and k: "k \<noteq> (bid, i)"
  shows "settled (assign_item now bid i x r gen st) k s a"
proof -
  define st1 where "st1 = map_item bid i (dispatched_item now x r gen)
       (map_batch bid (\<lambda>b. b\<lparr>ba_last_dispatched := Some now, ba_note := None\<rparr>) st)"
  have "quiet {} st (map_batch bid (\<lambda>b. b\<lparr>ba_last_dispatched := Some now, ba_note := None\<rparr>) st)"
    by (rule quiet_map_batch) (simp add: calm_batch_def list_all2_refl)
  then have 1: "settled (map_batch bid (\<lambda>b. b\<lparr>ba_last_dispatched := Some now, ba_note := None\<rparr>) st) k s a"
    using settled_quiet [OF s] by blast
  let ?t = "\<lparr>tk_batch = bid, tk_index = i, tk_studio = x, tk_started = now, tk_phase = Created\<rparr>"
  have "quiet {(bid, i)} (map_batch bid (\<lambda>b. b\<lparr>ba_last_dispatched := Some now, ba_note := None\<rparr>) st) st1"
    using quiet_on_item [of ?t "dispatched_item now x r gen" "{(bid, i)}"] by (simp add: st1_def on_item_def task_key_def)
  then have 2: "settled st1 k s a" using settled_quiet [OF 1] k by blast
  have "find_item (assign_item now bid i x r gen st) b j = find_item st1 b j" for b j
    by (rule find_item_cong) (simp add: assign_item_def st1_def)
  then show ?thesis
    using 2 k by (simp add: settled_def assign_item_def st1_def task_key_def)
qed

lemma settled_offer:
  assumes s: "settled st k s a"
  shows "settled (offer_next c synced now off st) k s a"
proof (cases "br_plan st")
  case None
  then show ?thesis using s by (simp add: offer_next_def)
next
  case (Some p)
  have listed: "fst k = pl_batch p \<Longrightarrow> snd k \<notin> set (pl_queued p)" using s Some by (simp add: settled_def)
  have moved: "settled (st\<lparr>br_plan := Some (p\<lparr>pl_studios := rest\<rparr>)\<rparr>) k s a" for rest
    using listed by (intro settled_plan [OF s]) auto
  have drop: "settled (st\<lparr>br_plan := None\<rparr>) k s a" by (rule settled_plan [OF s]) simp
  have "settled ((assign_item now (pl_batch p) i x r gen st)
      \<lparr>br_plan := Some (p\<lparr>pl_studios := rest, pl_queued := remove1 i (pl_queued p)\<rparr>)\<rparr>) k s a"
    if "first_compatible c synced p b x = Some i" for b x i r gen rest
  proof -
    have "i \<in> set (pl_queued p)" using that by (auto simp: first_compatible_def find_Some_iff)
    then have "k \<noteq> (pl_batch p, i)" using listed by auto
    then show ?thesis using listed by (intro settled_plan [OF settled_assign [OF s]]) auto
  qed
  then show ?thesis
    using Some s moved drop by (auto simp: offer_next_def Let_def split: list.split option.split verdict.split)
qed

lemma settled_cancel:
  assumes "settled st k s a"
  shows "settled (cancel_batch now answers bid st) k s a"
proof (cases "batch_of st bid")
  case None
  then show ?thesis using assms by (simp add: cancel_batch_def)
next
  case (Some b)
  define signal :: "item \<Rightarrow> item" where "signal = (\<lambda>it. if it_state it = Running \<and> str_or_empty (it_studio it) \<noteq> [] \<and> str_or_empty (it_job it) \<noteq> []
      then (case answers (it_index it) of
          None \<Rightarrow> it\<lparr>it_cancel_sent := Some now, it_cancel_error := None\<rparr>
        | Some e \<Rightarrow> it\<lparr>it_cancel_error := Some e\<rparr>)
      else it)"
  define signalled :: "batch \<Rightarrow> batch" where "signalled = (\<lambda>b. b\<lparr>ba_items := map signal (ba_items b)\<rparr>)"
  define notify :: "batch \<Rightarrow> batch" where "notify = (\<lambda>b. b\<lparr>ba_items := map (\<lambda>it. if it_state it = Cancelled
      then fst (post_item_webhook b it) else it) (ba_items b)\<rparr>)"
  have 1: "quiet {} st (map_batch bid cancel_queued st)"
    by (rule quiet_map_batch) (auto simp: cancel_queued_def calm_batch_def cancel_queued_item_def calm_item_def
        terminal_def intro!: all2_update_where)
  have "calm_batch b (signalled b)" for b
    unfolding signalled_def by (rule calm_map_all) (simp add: signal_def calm_item_def split: option.split)
  moreover have "calm_batch b (notify b)" for b
    unfolding notify_def by (rule calm_map_all) (simp add: calm_post_webhook)
  ultimately have 2: "quiet {} st' (map_batch bid notify (map_batch bid signalled st'))" for st'
    by (intro quiet_trans [OF quiet_map_batch quiet_map_batch])
  have "map_batch bid notify (map_batch bid signalled st') = map_batch bid (notify \<circ> signalled) st'" for st'
    by (simp add: map_batch_def update_where_def signalled_def)
  then have "cancel_batch now answers bid st
      = finish_batch now bid (map_batch bid notify (map_batch bid signalled (save_batch bid (map_batch bid cancel_queued st))))"
    by (simp add: cancel_batch_def Some signal_def signalled_def notify_def Let_def)
  moreover have "quiet {} st (finish_batch now bid (map_batch bid notify (map_batch bid signalled (save_batch bid (map_batch bid cancel_queued st)))))"
    by (rule quiet_trans [OF 1 quiet_trans [OF quiet_fields(7) quiet_trans [OF 2 quiet_finish_batch]]])
  ultimately show ?thesis using settled_quiet [OF assms] by auto
qed

lemma settled_renew:
  assumes ok: "broker_ok registry R st" and s: "settled st k s a"
  shows "settled (fst (renew_execution_lease bid attempt lease st)) k s a"
proof -
  define found where "found = (case (if bid = [] then None else batch_of st bid) of
            Some b \<Rightarrow> Some b
          | None \<Rightarrow> (case (if bid = [] then None else select_first (\<lambda>b. ba_id b = bid) (br_ledger st)) of
              Some b \<Rightarrow> Some b
            | None \<Rightarrow> select_first (\<lambda>b. (case ba_execution b of None \<Rightarrow> None | Some e \<Rightarrow> ex_attempt e) = Some attempt)
                        (br_batches st)))"
  show ?thesis
  proof (cases found)
    case None
    then show ?thesis using s by (simp add: renew_execution_lease_def found_def [symmetric])
  next
    case (Some b)
    have "b2 = b" if b2: "batch_of st (ba_id b) = Some b2" for b2
    proof (cases "bid \<noteq> [] \<and> batch_of st bid = None \<and> select_first (\<lambda>b. ba_id b = bid) (br_ledger st) \<noteq> None")
      case True
      then have "select_first (\<lambda>b. ba_id b = bid) (br_ledger st) = Some b"
        using Some by (auto simp: found_def)
      then have "ba_id b = bid" using select_first_Some by fast
      then show ?thesis using True b2 by simp
    next
      case False
      then have "b \<in> set (br_batches st)"
        using Some by (auto simp: found_def dest: batch_of_key select_first_Some split: if_splits option.splits)
      then show ?thesis using batch_of_unique [OF broker_okD(1) [OF ok]] b2 by fastforce
    qed
    moreover have "calm_batch b (renew_batch_lease lease b)" "ba_id (renew_batch_lease lease b) = ba_id b"
      by (simp_all add: renew_batch_lease_def calm_batch_def list_all2_refl)
    ultimately have "settled (st\<lparr>br_batches := save_row (renew_batch_lease lease b) (br_batches st)\<rparr>) k s a"
      by (intro settled_remembered [OF ok s]) auto
    then show ?thesis
      using Some settled_ledger [where st = "st\<lparr>br_batches := save_row (renew_batch_lease lease b) (br_batches st)\<rparr>"]
      by (simp add: renew_execution_lease_def found_def [symmetric] Let_def)
  qed
qed

lemma calm_give_up_at:
  assumes b: "batch_ok R b" and it: "item_of i b = Some it" and live: "\<not> terminal (it_state it)"
  shows "calm_batch b (update_item i (give_up_identity now) b)"
proof -
  have "calm_item it2 (give_up_identity now it2)" if "it2 \<in> set (ba_items b)" "it_index it2 = i" for it2
  proof -
    have "it2 = it" using item_of_unique [OF b that(1)] that(2) it by simp
    then show ?thesis using live tame_give_up [of it now] by (simp add: calm_item_def tame_item_def)
  qed
  then show ?thesis by (auto simp: calm_batch_def update_item_def intro!: all2_update_where)
qed

lemma settled_recover:
  assumes ok: "broker_ok registry R st" and s: "settled st k s a"
  shows "settled (recover_voice_item now bid i st) k s a"
proof -
  define found where "found = (case batch_of st bid of Some b \<Rightarrow> Some b
     | None \<Rightarrow> select_first (\<lambda>b. ba_id b = bid) (br_ledger st))"
  show ?thesis
  proof (cases found)
    case None
    then show ?thesis using s by (simp add: recover_voice_item_def found_def [symmetric] voice_recovery_item_def)
  next
    case (Some b)
    have b: "ba_id b = bid" "batch_ok R b" "\<And>m. batch_of st bid = Some m \<Longrightarrow> m = b"
      using Some ledger_batch_ok [OF ok] memory_batch_ok [OF ok]
      by (auto simp: found_def dest: batch_of_key select_first_Some split: option.splits)
    have 1: "settled (st\<lparr>br_batches := save_row b (br_batches st)\<rparr>) k s a"
      using b by (intro settled_remembered [OF ok s]) auto
    have 2: "settled (st\<lparr>br_batches := save_row b' (br_batches st), br_ledger := l\<rparr>) k s a"
      if "b' = update_item i (give_up_identity now) b" "item_of i b = Some it"
        "it_state it \<in> {Running, Cancel_requested, Uncertain}" for b' it l
    proof -
      have "calm_batch b b'" unfolding that(1) using that(3)
        by (intro calm_give_up_at [OF b(2) that(2)]) (auto simp: terminal_def)
      then have "settled (st\<lparr>br_batches := save_row b' (br_batches st)\<rparr>) k s a"
        using b that(1) by (intro settled_remembered [OF ok s]) auto
      then show ?thesis using settled_ledger [where st = "st\<lparr>br_batches := save_row b' (br_batches st)\<rparr>"] by simp
    qed
    show ?thesis
      using s Some 1 2
      by (simp add: recover_voice_item_def found_def [symmetric] voice_recovery_item_def split: option.split)
  qed
qed

lemma settled_note:
  assumes "settled st k s a"
  shows "settled (note_recovery now phase reason i bid st) k s a"
proof -
  have "quiet {} st (map_item bid i (\<lambda>it. the (set_voice_recovery now phase reason it)) st)" if "phase \<in> set recovery_phases"
    unfolding map_item_def using that
    by (intro quiet_map_batch calm_update_item) (simp add: set_voice_recovery_def calm_item_def)
  then show ?thesis using assms settled_quiet [OF assms, of "{}"] by (simp add: note_recovery_def)
qed

lemma settled_submit:
  assumes ok: "broker_ok registry R st" and s: "settled st k s a" and new: "\<not> known_batch (sb_id x) st"
  shows "settled (add_batch (new_batch x) st) k s a"
proof -
  have "batch_of st (ba_id (new_batch x)) = None"
    using new by (auto simp: known_batch_def batch_of_def select_first_None list_ex_iff new_batch_def)
  then have "settled (st\<lparr>br_batches := save_row (new_batch x) (br_batches st)\<rparr>) k s a"
    by (intro settled_remembered [OF ok s]) simp
  then show ?thesis
    using settled_ledger [where st = "st\<lparr>br_batches := save_row (new_batch x) (br_batches st)\<rparr>"] by (simp add: add_batch_def)
qed

lemma settled_step:
  assumes ok: "broker_ok (dc_registry c) R st" and s: "settled st k s a" and e: "\<not> is_restart e"
  shows "settled (broker_step c e st) k s a"
proof -
  note task = settled_with_task [OF s] and quiet = settled_quiet [OF s, of "{}"]
  show ?thesis
  proof (cases e)
    case (Submit x) then show ?thesis using s settled_submit [OF ok s] by simp
  next
    case (Expire now bid)
    have "settled (save_batch bid st1) k s a" if "fence_batch c now bid st = Inr (st1, fenced)" for st1 fenced
      using quiet_trans [OF quiet_fence [OF broker_okD(1) [OF ok] that, of "{}"] quiet_fields(7)] quiet by blast
    then show ?thesis using s Expire by (auto split: sum.split)
  next
    case (Scan v now bid) then show ?thesis using s settled_scan [OF ok s] by simp
  next
    case (Offer synced now off) then show ?thesis using settled_offer [OF s] by simp
  next
    case (Begin j now check) then show ?thesis using quiet_begin [OF ok] by (auto intro!: task)
  next
    case (Accept j now jid job) then show ?thesis using quiet_accept [OF ok] by (auto intro!: task)
  next
    case (Reject j now status detail) then show ?thesis using quiet_http_rejected by (auto intro!: task)
  next
    case (Raise j now err) then show ?thesis using quiet_fail by (auto intro!: task)
  next
    case (Check j now) then show ?thesis using quiet_poll_check [OF ok] by (auto intro!: task)
  next
    case (Progress j now job) then show ?thesis using quiet_poll_job by (auto intro!: task)
  next
    case (Complete j now job runtime asset fetch) then show ?thesis using quiet_complete [OF ok] by (auto intro!: task)
  next
    case (Artifact j now asset) then show ?thesis using quiet_adopt by (auto intro!: task)
  next
    case (Job_failed j now job) then show ?thesis using quiet_reconciled by (auto intro!: task)
  next
    case (Probe j now) then show ?thesis using quiet_recover_probe [OF ok] by (auto intro!: task)
  next
    case (Still_running j now job) then show ?thesis using quiet_recover_waiting by (auto intro!: task)
  next
    case (Unreconciled j now) then show ?thesis using quiet_unreconciled by (auto intro!: task split: phase.split)
  next
    case (Handed j now released) then show ?thesis using quiet_handed by (auto intro!: task)
  next
    case (Cancel now answers bid) then show ?thesis using settled_cancel [OF s] by simp
  next
    case (Renew_lease bid attempt lease) then show ?thesis using settled_renew [OF ok s] by simp
  next
    case (Acquire v machine owner) then show ?thesis using quiet [OF quiet_fields(5)] by simp
  next
    case (Release machine owner) then show ?thesis using quiet [OF quiet_fields(5)] by simp
  next
    case (Drain sid enabled) then show ?thesis using quiet [OF quiet_fields(4)] by simp
  next
    case (Dispatched_external machine lane)
    then show ?thesis using quiet [OF quiet_fields(3)] s by (simp split: option.split)
  next
    case (Recover_voice now bid i) then show ?thesis using settled_recover [OF ok s] by simp
  next
    case (Note_recovery now phase reason i bid) then show ?thesis using settled_note [OF s] by simp
  next
    case (Restart_hub now) then show ?thesis using e by (simp add: is_restart_def)
  qed
qed

lemma settled_run:
  assumes reg: "distinct (map st_id (dc_registry c))" and ok: "broker_ok (dc_registry c) R st"
    and s: "settled st k s a" and no: "restarts es = 0"
  shows "settled (fold (broker_step c) es st) k s a"
  using ok s no
proof (induction es arbitrary: st R)
  case Nil
  then show ?case by simp
next
  case (Cons e es)
  have e: "\<not> is_restart e" "restarts es = 0"
    using Cons.prems(3) by (auto simp: restarts_def count_where_def split: if_splits)
  show ?case
    using Cons.IH [OF broker_step_ok [OF reg Cons.prems(1), of e] settled_step [OF Cons.prems(1,2) e(1)] e(2)] by simp
qed

end
