(* ===== verification/Broker_Theorems.thy ===== *)
theory Broker_Theorems
  imports Broker_Settled
begin

text \<open>
  Properties of every run of the broker, drawn from the invariant of \<open>Broker_Safety\<close> and the frame of
  \<open>Broker_Settled\<close>: exact memory reservations, bounded counters of attempts, one coroutine per item, and
  results that stay.  \<open>Broker_Registry\<close> adds one heavy job per machine under a changing registry, and
  \<open>Broker_Accounting\<close> bounds the dispatches.
\<close>

section \<open>A concrete run\<close>

definition demo_host :: exec_host where
  "demo_host = \<lparr>eh_site = ''site'', eh_sha256 = (\<lambda>s. s), eh_iso = (\<lambda>_. Not_iso),
     eh_repr = (\<lambda>_. ''x''), eh_float = (\<lambda>_. ''0'')\<rparr>"

definition demo_texts :: text_host where
  "demo_texts = \<lparr>th_float = (\<lambda>_. None), th_repr = (\<lambda>_. ''x'')\<rparr>"

definition demo_studios :: "studio list" where
  "demo_studios = [\<lparr>st_id = ''image'', st_machine = ''local'', st_modality = ''image''\<rparr>,
     \<lparr>st_id = ''image@b'', st_machine = ''b'', st_modality = ''image''\<rparr>]"

definition demo_context :: dispatch_context where
  "demo_context = \<lparr>dc_registry = demo_studios, dc_text = demo_texts, dc_exec = demo_host, dc_sanitize = (\<lambda>s. s)\<rparr>"

definition demo_view :: fleet_view where
  "demo_view = \<lparr>fv_ready = (\<lambda>_. True), fv_machine_on = (\<lambda>_. True), fv_studio_on = (\<lambda>_ _. True),
     fv_up = (\<lambda>_. True), fv_render_score = (\<lambda>_. 0), fv_chip = (\<lambda>_. ''''), fv_total = (\<lambda>_. None), fv_version = (\<lambda>_. '''')\<rparr>"

definition demo_submission :: submission where
  "demo_submission = \<lparr>sb_id = ''b1'', sb_now = 10, sb_client_request = None, sb_fingerprint = None,
     sb_execution = None, sb_modality = ''image'', sb_model = ''m'', sb_shared = JObj [], sb_routing = ''pool'',
     sb_label = JNull, sb_webhook = False, sb_item_webhook = False,
     sb_items = [[(''prompt'', JStr ''a'')], [(''prompt'', JStr ''b'')]]\<rparr>"

definition demo_offer :: offer where
  "demo_offer = \<lparr>of_entry = Some [], of_cached = True, of_requirement = Some \<lparr>rq_total = None, rq_free = Some (Fin 3)\<rparr>,
     of_gate = Run, of_machine_busy = False, of_generation = None, of_still_ready = True\<rparr>"

definition demo_run :: "broker_op list" where
  "demo_run = [Submit demo_submission, Scan demo_view 11 ''b1'', Offer (\<lambda>_. None) 11 demo_offer,
     Offer (\<lambda>_. None) 11 demo_offer, Acquire demo_view ''c'' ''chat'']"

lemma demo_registry: "distinct (map st_id (dc_registry demo_context))"
  by (simp add: demo_context_def demo_studios_def)

lemma demo_state:
  "map task_key (br_tasks (broker_run demo_context demo_run)) = [(''b1'', 0), (''b1'', 1)]
   \<and> br_reserved (broker_run demo_context demo_run) = 3
   \<and> br_leases (broker_run demo_context demo_run) = [(''c'', ''chat'')]"
  by code_simp

section \<open>What the invariant gives\<close>

text \<open>C12: The reserved memory is exactly the sum of the reservations of the running tasks, each of
  them non-negative; so it is released completely when the last task ends, and nothing leaks on any
  path of the exception handler, of a cancellation or of a lost lease.\<close>

theorem reservation_is_exact:
  assumes "distinct (map st_id (dc_registry c))"
  shows "br_reserved (broker_run c es)
       = sum_list (map (\<lambda>t. case task_item t (broker_run c es) of None \<Rightarrow> 0 | Some it \<Rightarrow> it_reserved it)
           (br_tasks (broker_run c es)))
     \<and> (\<forall>t\<in>set (br_tasks (broker_run c es)). \<exists>it. task_item t (broker_run c es) = Some it \<and> 0 \<le> it_reserved it)"
proof -
  note ok = reachable_ok [OF assms, of es]
  have "(\<lambda>t. case task_item t st of None \<Rightarrow> 0 | Some it \<Rightarrow> it_reserved it) = held_by st \<circ> task_key" for st
    by (simp add: fun_eq_iff held_by_def task_item_def task_key_def)
  then show ?thesis
    using broker_okD(5) [OF ok] broker_okD(3) [OF ok]
    by (auto simp: reserve_ok_def tasks_ok_def working_def task_item_def task_key_def split: option.splits)
qed

theorem reservation_is_exact_witness:
  "br_reserved (broker_run demo_context demo_run) = 3
   \<and> br_reserved (broker_run demo_context demo_run)
       = sum_list (map (\<lambda>t. case task_item t (broker_run demo_context demo_run) of None \<Rightarrow> 0 | Some it \<Rightarrow> it_reserved it)
           (br_tasks (broker_run demo_context demo_run)))"
  using demo_state reservation_is_exact [OF demo_registry, of demo_run] by blast

text \<open>
  The counter of attempts of every item, in memory or saved: at most three, plus one for each connection
  failure and one for each restart.  What it says of the dispatches themselves is in \<open>Broker_Accounting\<close>.
\<close>

lemma attempt_counter_bounded:
  assumes "distinct (map st_id (dc_registry c))"
    and "b \<in> set (br_batches (broker_run c es)) \<union> set (br_ledger (broker_run c es))" and "it \<in> set (ba_items b)"
  shows "0 \<le> it_tries it \<and> it_infra it \<le> 8 \<and> it_tries it \<le> 3 + int (it_infra it) + int (restarts es)
     \<and> (it_state it = Queued \<longrightarrow> it_tries it < 3 + int (it_infra it) + int (restarts es))"
proof -
  have "batch_ok (restarts es) b"
    using assms(2) broker_okD(1,2) [OF reachable_ok [OF assms(1), of es]] batches_okD by blast
  then show ?thesis
    using assms(3) by (auto simp: batch_ok_def item_ok_def max_tries_def max_infra_tries_def)
qed

text \<open>C14: One coroutine per item: no item has two tasks, an item with a task is not waiting in the
  queue, the busy studios are exactly those of the tasks, and the items the dispatch loop still holds
  from its last look at the queue have no task - so no item is ever generated twice at once.\<close>

theorem one_task_per_item:
  assumes "distinct (map st_id (dc_registry c))"
  shows "distinct (map task_key (br_tasks (broker_run c es)))
     \<and> set (br_busy (broker_run c es)) = (\<lambda>t. st_id (tk_studio t)) ` set (br_tasks (broker_run c es))
     \<and> (\<forall>t\<in>set (br_tasks (broker_run c es)).
          \<exists>it. task_item t (broker_run c es) = Some it \<and> it_state it \<noteq> Queued)
     \<and> (\<forall>p. br_plan (broker_run c es) = Some p \<longrightarrow>
          (\<forall>i\<in>set (pl_queued p). (pl_batch p, i) \<notin> task_key ` set (br_tasks (broker_run c es))))"
proof -
  note ok = reachable_ok [OF assms, of es]
  have "\<exists>it. task_item t (broker_run c es) = Some it \<and> it_state it \<noteq> Queued"
    if "t \<in> set (br_tasks (broker_run c es))" for t
    using that broker_okD(3) [OF ok]
    by (auto simp: tasks_ok_def working_def task_item_def task_key_def split: option.splits)
  then show ?thesis
    using broker_okD(3,4,6) [OF ok] by (simp add: tasks_ok_def machines_ok_def plan_ok_def)
qed

theorem one_task_per_item_witness:
  "map task_key (br_tasks (broker_run demo_context demo_run)) = [(''b1'', 0), (''b1'', 1)]
   \<and> distinct (map task_key (br_tasks (broker_run demo_context demo_run)))"
  using demo_state one_task_per_item [OF demo_registry, of demo_run] by blast

text \<open>C15: Results stay: once an item is finished, no coroutine works on it and the dispatch loop does
  not hold it, nothing that happens until the Hub restarts - further dispatch, other tasks,
  cancellation, expiry, recovery requests, lease renewals - changes its state or its asset or starts
  it again.\<close>

theorem results_stay:
  assumes "distinct (map st_id (dc_registry c))" and "settled (broker_run c es) k s a" and "restarts es' = 0"
  shows "settled (broker_run c (es @ es')) k s a"
  using settled_run [OF assms(1) reachable_ok [OF assms(1)] assms(2,3)] by (simp add: broker_run_def)

definition demo_done :: "broker_op list" where
  "demo_done = demo_run @ [Offer (\<lambda>_. None) 11 demo_offer, Begin (''b1'', 0) 12 Clear,
     Accept (''b1'', 0) 13 ''j'' [], Check (''b1'', 0) 14, Complete (''b1'', 0) 15 [] 3 ''asset1'' False]"

lemma demo_settled: "settled (broker_run demo_context demo_done) (''b1'', 0) Done (Some ''asset1'')"
  by code_simp

theorem results_stay_witness:
  "settled (broker_run demo_context (demo_done @ [Cancel 30 (\<lambda>_. None) ''b1'', Expire 40 ''b1''])) (''b1'', 0) Done (Some ''asset1'')"
  by (rule results_stay [OF demo_registry demo_settled]) (simp add: restarts_def is_restart_def count_where_def)

end
