(* ===== verification/Broker_Registry.thy ===== *)
theory Broker_Registry
  imports Broker_Theorems
begin

text \<open>
  The broker under a registry that changes.  \<open>monitor.registry\<close> is read again at every await: an
  operator adds, removes and reloads studios while jobs run.  A history gives every step the context
  (and so the registry) of its moment; \<open>registry_safe\<close> says that no edit takes away a studio that has
  a task or stands in the open list of the dispatch loop.  \<open>busy_machines\<close> skips busy studios that are
  no longer registered, so the condition is needed: \<open>removal_frees_busy_machine\<close>.
\<close>

section \<open>Histories\<close>

definition broker_history :: "(dispatch_context \<times> broker_op) list \<Rightarrow> broker" where
  "broker_history ces = fold (\<lambda>(c, e). broker_step c e) ces empty_broker"

definition registry_keeps :: "studio list \<Rightarrow> broker \<Rightarrow> bool" where
  "registry_keeps registry st \<longleftrightarrow> distinct (map st_id registry)
     \<and> tk_studio ` set (br_tasks st) \<subseteq> set registry
     \<and> (case br_plan st of None \<Rightarrow> True | Some p \<Rightarrow> set (pl_studios p) \<subseteq> set registry)"

fun registry_safe :: "broker \<Rightarrow> (dispatch_context \<times> broker_op) list \<Rightarrow> bool" where
  "registry_safe st [] = True"
| "registry_safe st ((c, e) # ces) =
     (registry_keeps (dc_registry c) st \<and> registry_safe (broker_step c e st) ces)"

lemma broker_ok_registry:
  assumes "broker_ok r R st" and "registry_keeps r' st"
  shows "broker_ok r' R st"
  using assms
  by (auto simp: broker_ok_def machines_ok_def plan_ok_def registry_keeps_def split: option.splits)

lemma ok_registry_keeps:
  assumes "broker_ok r R st" and "distinct (map st_id r)"
  shows "registry_keeps r st"
  using assms by (auto simp: broker_ok_def machines_ok_def plan_ok_def registry_keeps_def split: option.split)

lemma safe_history_ok:
  assumes "broker_ok r R st" and "registry_safe st ces"
  shows "\<exists>r' R'. broker_ok r' R' (fold (\<lambda>(c, e). broker_step c e) ces st)"
  using assms
proof (induction ces arbitrary: r R st)
  case Nil
  then show ?case by auto
next
  case (Cons ce ces)
  obtain c e where ce: "ce = (c, e)" by (cases ce)
  then have keeps: "registry_keeps (dc_registry c) st" and rest: "registry_safe (broker_step c e st) ces"
    using Cons.prems(2) by simp_all
  have "distinct (map st_id (dc_registry c))" using keeps by (simp add: registry_keeps_def)
  from broker_step_ok [OF this broker_ok_registry [OF Cons.prems(1) keeps]]
  show ?case using Cons.IH rest by (simp add: ce) blast
qed

text \<open>A registry that never changes is safe, and histories with it are the runs of \<open>broker_run\<close>.\<close>

lemma fixed_registry_safe_from:
  assumes "distinct (map st_id (dc_registry c))" and "broker_ok (dc_registry c) R st"
  shows "registry_safe st (map (Pair c) es)"
  using assms(2)
proof (induction es arbitrary: R st)
  case Nil
  then show ?case by simp
next
  case (Cons e es)
  show ?case
    using Cons.IH [OF broker_step_ok [OF assms(1) Cons.prems]] ok_registry_keeps [OF Cons.prems assms(1)] by simp
qed

lemma fixed_registry_safe:
  "distinct (map st_id (dc_registry c)) \<Longrightarrow> registry_safe empty_broker (map (Pair c) es)"
  using fixed_registry_safe_from [OF _ empty_broker_ok] by blast

lemma fixed_registry_history: "broker_history (map (Pair c) es) = broker_run c es"
  by (simp add: broker_history_def broker_run_def fold_map o_def)

section \<open>One heavy job per machine\<close>

text \<open>C11: One heavy job per physical machine: in every state the broker can reach, under any
  interleaving of dispatch, coroutines, handlers, leases of the other queues and restarts, and with a
  registry that is edited between any two steps, the tasks run on pairwise different machines, and none
  of them on a machine that another queue has leased - as long as every edit leaves in the registry the
  studios that have a task or that the dispatch loop still has to try, and gives no id twice.\<close>

theorem one_heavy_job_per_machine:
  assumes "registry_safe empty_broker ces"
  shows "distinct (map (\<lambda>t. st_machine (tk_studio t)) (br_tasks (broker_history ces)))
     \<and> (\<lambda>t. st_machine (tk_studio t)) ` set (br_tasks (broker_history ces)) \<inter> fst ` set (br_leases (broker_history ces)) = {}"
proof -
  obtain r R where "broker_ok r R (broker_history ces)"
    using safe_history_ok [OF empty_broker_ok assms] unfolding broker_history_def by blast
  from broker_okD(4) [OF this] show ?thesis by (auto simp: machines_ok_def)
qed

text \<open>A registry that gains a machine and then loses an idle one, while two jobs run.\<close>

definition demo_new_studio :: studio where
  "demo_new_studio = \<lparr>st_id = ''voice@d'', st_machine = ''d'', st_modality = ''voice''\<rparr>"

definition demo_history :: "(dispatch_context \<times> broker_op) list" where
  "demo_history =
     map (Pair (demo_context\<lparr>dc_registry := demo_studios @ [demo_new_studio]\<rparr>)) demo_run
     @ map (Pair demo_context) [Begin (''b1'', 0) 12 Clear]"

lemma demo_history_safe:
  "registry_safe empty_broker demo_history
   \<and> map task_key (br_tasks (broker_history demo_history)) = [(''b1'', 0), (''b1'', 1)]"
  by code_simp

theorem one_heavy_job_per_machine_witness:
  "map task_key (br_tasks (broker_history demo_history)) = [(''b1'', 0), (''b1'', 1)]
   \<and> distinct (map (\<lambda>t. st_machine (tk_studio t)) (br_tasks (broker_history demo_history)))"
  using demo_history_safe one_heavy_job_per_machine [of demo_history] by blast

section \<open>Why the condition is needed\<close>

text \<open>
  Removing the registration of a studio that has a job gives its machine to a second job: the busy id
  no longer names a machine.  The machine removal and the registry reload of \<open>main.py\<close> do not look for
  active work.
\<close>

definition demo_neighbour :: studio where
  "demo_neighbour = \<lparr>st_id = ''image2@b'', st_machine = ''b'', st_modality = ''image''\<rparr>"

definition demo_removal :: "(dispatch_context \<times> broker_op) list" where
  "demo_removal =
     (let one = demo_context\<lparr>dc_registry := [demo_studios ! 1]\<rparr>; two = demo_context\<lparr>dc_registry := [demo_neighbour]\<rparr>
      in map (Pair one) [Submit demo_submission, Scan demo_view 11 ''b1'', Offer (\<lambda>_. None) 11 demo_offer,
             Offer (\<lambda>_. None) 11 demo_offer]
         @ map (Pair two) [Scan demo_view 12 ''b1'', Offer (\<lambda>_. None) 12 demo_offer])"

lemma removal_frees_busy_machine:
  "map (\<lambda>t. (task_key t, st_machine (tk_studio t))) (br_tasks (broker_history demo_removal))
   = [((''b1'', 0), ''b''), ((''b1'', 1), ''b'')]"
  by code_simp

end
