(* ===== verification/Broker_Frames.thy ===== *)
theory Broker_Frames
  imports Broker_Settled
begin

text \<open>
  What the steps do to the bookkeeping of items and batches: \<open>steady\<close> steps neither start a task,
  nor lower a counter of attempts (except by one for one named item), nor give any batch, in memory or
  saved, a new identity (its id, client request, fingerprint and number of items).  Every step but
  dispatch, submission, the steps that read a batch back from the ledger, and a restart is steady.
\<close>

definition row_sig :: "batch \<Rightarrow> string \<times> string option \<times> string option \<times> nat" where
  "row_sig b = (ba_id b, ba_client_request b, ba_fingerprint b, length (ba_items b))"

definition row_sigs :: "broker \<Rightarrow> (string \<times> string option \<times> string option \<times> nat) set" where
  "row_sigs st = row_sig ` (set (br_batches st) \<union> set (br_ledger st))"

definition tries_of :: "broker \<Rightarrow> string \<times> nat \<Rightarrow> int" where
  "tries_of st k = (case find_item st (fst k) (snd k) of None \<Rightarrow> 0 | Some it \<Rightarrow> it_tries it)"

definition steady :: "(string \<times> nat) option \<Rightarrow> broker \<Rightarrow> broker \<Rightarrow> bool" where
  "steady r st st' \<longleftrightarrow> row_sigs st' \<subseteq> row_sigs st
     \<and> task_key ` set (br_tasks st') \<subseteq> task_key ` set (br_tasks st)
     \<and> (\<forall>k. tries_of st k - (if r = Some k then 1 else 0) \<le> tries_of st' k)"

lemma steady_refl [simp, intro]: "steady r st st"
  by (simp add: steady_def)

lemma steady_weaken: "steady None st st' \<Longrightarrow> steady r st st'"
  by (auto simp: steady_def) (smt (verit, best))

lemma steady_trans: "steady None a b \<Longrightarrow> steady r b c \<Longrightarrow> steady r a c"
  unfolding steady_def by (auto 0 3) (smt (verit, best))+

lemma steady_then: "steady r a b \<Longrightarrow> steady None b c \<Longrightarrow> steady r a c"
  unfolding steady_def by (auto 0 3) (smt (verit, best))+

section \<open>Primitives\<close>

lemma tries_of_cong: "br_batches st' = br_batches st \<Longrightarrow> tries_of st' k = tries_of st k"
  using find_item_cong [of st' st] by (simp add: tries_of_def)

lemma tries_rel:
  assumes "rel_option (\<lambda>it it'. it_tries it \<le> it_tries it') (find_item st (fst k) (snd k)) (find_item st' (fst k) (snd k))"
  shows "tries_of st k \<le> tries_of st' k"
  using assms by (cases rule: option.rel_cases) (simp_all add: tries_of_def)

lemma set_save_row: "set (save_row b rows) \<subseteq> insert b (set rows)"
  by (auto simp: save_row_def upsert_def update_where_def)

lemma steady_same:
  assumes "br_batches st' = br_batches st" "row_sig ` set (br_ledger st') \<subseteq> row_sigs st"
    "task_key ` set (br_tasks st') \<subseteq> task_key ` set (br_tasks st)"
  shows "steady r st st'"
proof -
  have "row_sigs st' \<subseteq> row_sigs st" using assms(1,2) by (auto simp: row_sigs_def)
  moreover have "tries_of st k - (if r = Some k then 1 else 0) \<le> tries_of st' k" for k
    using tries_of_cong [OF assms(1)] by simp
  ultimately show ?thesis using assms(3) by (simp add: steady_def)
qed

lemma steady_save [simp, intro]: "steady r st (save_batch bid st)"
proof (rule steady_same)
  show "row_sig ` set (br_ledger (save_batch bid st)) \<subseteq> row_sigs st"
    using set_save_row batch_of_key [of st bid] by (fastforce simp: save_batch_def row_sigs_def split: option.splits)
qed simp_all

lemma steady_fields [simp, intro]:
  "steady r st (st\<lparr>br_prot := p\<rparr>)" "steady r st (st\<lparr>br_models := m\<rparr>)" "steady r st (st\<lparr>br_turns := ts\<rparr>)"
  "steady r st (st\<lparr>br_drained := d\<rparr>)" "steady r st (st\<lparr>br_leases := l\<rparr>)" "steady r st (st\<lparr>br_plan := q\<rparr>)"
  by (rule steady_same; force simp: row_sigs_def)+

lemma steady_set_phase [simp, intro]: "steady r st (set_phase t p st)"
proof (rule steady_same)
  have e: "map task_key (br_tasks (set_phase t p st)) = map task_key (br_tasks st)"
    by (simp add: set_phase_def update_where_def task_key_def)
  show "task_key ` set (br_tasks (set_phase t p st)) \<subseteq> task_key ` set (br_tasks st)"
    using arg_cong [OF e, of set] by simp
qed (auto simp: set_phase_def row_sigs_def)

lemma row_sig_update_item [simp]: "row_sig (update_item i f b) = row_sig b"
  by (simp add: row_sig_def update_item_def)

lemma sigs_map_batch:
  assumes "\<And>b. ba_id b = bid \<Longrightarrow> row_sig (f b) \<in> row_sigs st"
  shows "row_sigs (map_batch bid f st) \<subseteq> row_sigs st"
  using assms by (auto simp: row_sigs_def map_batch_def set_update_where)

lemma steady_map_batch:
  assumes sig: "\<And>b. ba_id b = bid \<Longrightarrow> row_sig (f b) = row_sig b"
    and items: "\<And>b i. ba_id b = bid \<Longrightarrow> rel_option (\<lambda>it it'. it_tries it \<le> it_tries it') (item_of i b) (item_of i (f b))"
  shows "steady r st (map_batch bid f st)"
proof -
  have id: "ba_id (f b) = ba_id b" if "ba_id b = bid" for b using sig [OF that] by (simp add: row_sig_def)
  have "batch_of (map_batch bid f st) j = (if j = bid then map_option f (batch_of st j) else batch_of st j)" for j
    unfolding batch_of_def map_batch_def using batch_rows.lookup_update_where [of bid f] id by simp
  then have "rel_option (\<lambda>it it'. it_tries it \<le> it_tries it') (find_item st j i) (find_item (map_batch bid f st) j i)" for j i
    using items batch_of_key [of st bid]
    by (cases "batch_of st j") (auto simp: find_item_def option.rel_refl)
  then have "tries_of st k \<le> tries_of (map_batch bid f st) k" for k by (rule tries_rel)
  moreover have "row_sigs (map_batch bid f st) \<subseteq> row_sigs st"
    using sig by (force simp: row_sigs_def map_batch_def set_update_where)
  moreover have "task_key ` set (br_tasks (map_batch bid f st)) \<subseteq> task_key ` set (br_tasks st)" by simp
  ultimately have "steady None st (map_batch bid f st)" by (simp add: steady_def)
  then show ?thesis by (rule steady_weaken)
qed

lemma items_rel:
  assumes "\<And>it. it_index (f it) = it_index it \<and> it_tries it \<le> it_tries (f it)"
  shows "rel_option (\<lambda>it it'. it_tries it \<le> it_tries it') (item_of i b) (item_of i (update_item j f b))"
    "rel_option (\<lambda>it it'. it_tries it \<le> it_tries it') (item_of i b) (item_of i (b\<lparr>ba_items := map f (ba_items b)\<rparr>))"
proof -
  have r: "list_all2 (\<lambda>it it'. it_index it' = it_index it \<and> it_tries it \<le> it_tries it') xs (map f xs)" for xs
    using assms by (induction xs) auto
  have u: "list_all2 (\<lambda>it it'. it_index it' = it_index it \<and> it_tries it \<le> it_tries it') xs (update_where p f xs)" for p xs
    using assms by (intro all2_update_where) auto
  have "rel_option (\<lambda>it it'. it_index it' = it_index it \<and> it_tries it \<le> it_tries it') (item_of i b) (item_of i (update_item j f b))"
    unfolding item_of_def update_item_def by (rule select_first_all2) (simp_all add: u)
  then show "rel_option (\<lambda>it it'. it_tries it \<le> it_tries it') (item_of i b) (item_of i (update_item j f b))"
    by (rule option.rel_mono_strong) simp
  have "rel_option (\<lambda>it it'. it_index it' = it_index it \<and> it_tries it \<le> it_tries it') (item_of i b)
      (item_of i (b\<lparr>ba_items := map f (ba_items b)\<rparr>))"
    unfolding item_of_def by (rule select_first_all2) (simp_all add: r)
  then show "rel_option (\<lambda>it it'. it_tries it \<le> it_tries it') (item_of i b) (item_of i (b\<lparr>ba_items := map f (ba_items b)\<rparr>))"
    by (rule option.rel_mono_strong) simp
qed

lemma items_same: "ba_items b' = ba_items b \<Longrightarrow> rel_option (\<lambda>it it'. it_tries it \<le> it_tries it') (item_of i b) (item_of i b')"
  by (simp add: item_of_def option.rel_refl)

text \<open>The item of a task: at most one attempt is handed back.\<close>

lemma steady_map_item_by:
  assumes ix: "\<And>it. it_index it = i \<Longrightarrow> it_index (f it) = i"
    and t: "\<And>it. find_item st bid i = Some it \<Longrightarrow> it_tries it - (if r = Some (bid, i) then 1 else 0) \<le> it_tries (f it)"
  shows "steady r st (map_item bid i f st)"
proof -
  have "tries_of st k - (if r = Some k then 1 else 0) \<le> tries_of (map_item bid i f st) k" for k
  proof (cases "k = (bid, i)")
    case True
    then have "find_item (map_item bid i f st) (fst k) (snd k) = map_option f (find_item st bid i)"
      using ix by (subst find_item_map_item) auto
    then show ?thesis using t True by (cases "find_item st bid i") (simp_all add: tries_of_def)
  next
    case False
    then have "find_item (map_item bid i f st) (fst k) (snd k) = find_item st (fst k) (snd k)"
      using ix by (subst find_item_map_item) (auto simp: prod_eq_iff)
    then show ?thesis by (simp add: tries_of_def)
  qed
  moreover have "row_sigs (map_item bid i f st) \<subseteq> row_sigs st"
    by (force simp: map_item_def row_sigs_def map_batch_def set_update_where)
  ultimately show ?thesis by (simp add: steady_def)
qed

lemma steady_on_item_by:
  assumes "\<And>it. it_index it = tk_index t \<Longrightarrow> it_index (f it) = tk_index t"
    and "\<And>it. task_item t st = Some it \<Longrightarrow> it_tries it - (if r = Some (task_key t) then 1 else 0) \<le> it_tries (f it)"
  shows "steady r st (on_item t f st)"
  unfolding on_item_def using assms
  by (intro steady_map_item_by) (auto simp: task_item_def task_key_def)

lemma steady_on_item:
  assumes "\<And>it. it_index (f it) = it_index it \<and> it_tries it \<le> it_tries (f it)"
  shows "steady r st (on_item t f st)"
  by (rule steady_weaken, rule steady_on_item_by) (use assms in auto)

lemma steady_fence:
  assumes "fence_batch c now bid st = Inr (st', fenced)"
  shows "steady r st st'"
proof (cases "batch_of st bid")
  case None
  then show ?thesis using assms by (simp add: fence_batch_def)
next
  case (Some b)
  then obtain b' where b': "expire_genstudio_batch (dc_exec c) now b = Inr (b', fenced)"
    and st': "st' = map_batch bid (\<lambda>_. b') st"
    using assms by (auto simp: fence_batch_def split: sum.splits)
  have id: "ba_id b' = bid" and items: "list_all2 tame_item (ba_items b) (ba_items b')"
    using tame_expire [OF b'] batch_of_key [OF Some] by (auto simp: tame_batch_def)
  have sig: "row_sig b' = row_sig b"
    using b' list_all2_lengthD [OF items] id batch_of_key [OF Some]
    by (auto simp: row_sig_def expire_genstudio_batch_def split: sum.splits if_splits)
  have "batch_of (map_batch bid (\<lambda>_. b') st) j = (if j = bid then Some b' else batch_of st j)" for j
    unfolding batch_of_def map_batch_def using batch_rows.lookup_update_where [of bid "\<lambda>_. b'"] id Some
    by (simp add: batch_of_def)
  moreover have "rel_option tame_item (item_of i b) (item_of i b')" for i
    unfolding item_of_def using items by (rule select_first_all2) (simp add: tame_item_def)
  ultimately have "rel_option tame_item (find_item st j i) (find_item st' j i)" for j i
    using Some by (cases "batch_of st j") (auto simp: find_item_def st' option.rel_refl)
  then have "rel_option (\<lambda>it it'. it_tries it \<le> it_tries it') (find_item st j i) (find_item st' j i)" for j i
    by (rule option.rel_mono_strong) (simp add: tame_item_def)
  then have "tries_of st k \<le> tries_of st' k" for k by (rule tries_rel)
  then have "tries_of st k - (if r = Some k then 1 else 0) \<le> tries_of st' k" for k
    by (rule order_trans [rotated]) simp
  moreover have "row_sigs st' \<subseteq> row_sigs st"
    using sig batch_of_key [OF Some] by (auto simp: st' row_sigs_def map_batch_def set_update_where)
  ultimately show ?thesis by (simp add: steady_def st')
qed

lemma steady_finish_batch: "steady r st (finish_batch now bid st)"
proof -
  have "steady None st (map_batch bid (\<lambda>b. fst (maybe_finish now b)) st)"
    by (rule steady_map_batch) (simp_all add: maybe_finish_def row_sig_def Let_def items_same)
  then show ?thesis unfolding finish_batch_def by (rule steady_trans) (rule steady_save)
qed

lemma steady_notify: "steady r st (notify_item bid i st)"
  unfolding notify_item_def
  by (rule steady_map_batch) (auto simp: post_item_webhook_def intro!: items_rel(1))

lemma steady_finish_task: "steady r st (finish_task now t st)"
proof -
  have 1: "steady None st (on_item t (release_item \<circ> terminal_defaults now (tk_studio t) (tk_started t)) st)"
    by (rule steady_on_item) simp
  have 2: "steady None s (s\<lparr>br_busy := x, br_reserved := y, br_tasks := filter p (br_tasks s)\<rparr>)" for s x y p
    by (rule steady_same) (auto simp: row_sigs_def)
  show ?thesis
    unfolding finish_task_def Let_def
    by (rule steady_trans [OF 1 steady_trans [OF 2 steady_trans [OF steady_notify steady_finish_batch]]])
qed

lemma steady_finish_on:
  assumes "\<And>it. it_index (f it) = it_index it"
    and "\<And>it. it_tries it - (if r = Some (task_key t) then 1 else 0) \<le> it_tries (f it)"
  shows "steady r st (finish_task now t (on_item t f st))"
  by (rule steady_then [OF steady_on_item_by steady_finish_task]) (use assms in auto)

section \<open>The segments of a task\<close>

lemma steady_cancelled: "steady r st (finish_task now t (on_item t (cancelled_item x) st))"
  by (rule steady_finish_on) (simp_all add: cancelled_item_def)

lemma steady_observe:
  assumes ob: "observe_job c t job st = Some st'"
  shows "steady r st st'"
proof -
  obtain it where it: "find_item st (tk_batch t) (tk_index t) = Some it"
    using ob by (auto simp: observe_job_def task_item_def split: option.splits)
  have ix: "it_index it = tk_index t" using it by (rule find_item_index)
  define started where "started = fst (record_execution_started job it)"
  define st1 where "st1 = on_item t (\<lambda>_. started) st"
  define st2 where "st2 = (if snd (record_execution_started job it) then save_batch (tk_batch t) st1 else st1)"
  obtain it' where it': "record_worker_resource_usage job
      (record_worker_identity (th_repr (dc_text c)) (tk_studio t) job started) = Some it'"
    and st': "st' = on_item t (\<lambda>_. it') st2"
    using ob it by (auto simp: observe_job_def task_item_def Let_def started_def st1_def st2_def)
  have s: "it_index started = tk_index t" "it_tries started = it_tries it"
    using ix tame_proof [of it job] by (simp_all add: started_def tame_item_def)
  then have i: "it_index it' = tk_index t" "it_tries it' = it_tries it"
    using tame_usage [OF it'] tame_identity [of started "th_repr (dc_text c)" "tk_studio t" job]
    by (simp_all add: tame_item_def)
  have 1: "steady None st st1"
    unfolding st1_def by (rule steady_on_item_by) (use s it in \<open>simp_all add: task_item_def\<close>)
  have 2: "steady None st st2" using 1 steady_trans [OF 1 steady_save] by (simp add: st2_def)
  have "task_item t st2 = Some started"
    using s it ix by (simp add: st2_def st1_def task_item_def on_item_def find_item_map_item)
  then have "steady None st2 st'"
    unfolding st' by (intro steady_on_item_by) (use s i in simp_all)
  with 2 have "steady None st st'" by (rule steady_trans)
  then show ?thesis by (rule steady_weaken)
qed

lemma steady_stop:
  assumes go: "\<And>s. steady r s (go_on s)"
  shows "steady r st (stop_if_fenced c now t go_on st)"
  using steady_trans [OF steady_fence steady_cancelled] steady_trans [OF steady_fence go]
  by (simp add: stop_if_fenced_def split: sum.split prod.split option.split)

lemma steady_leave_or_succeed: "steady r st (leave_or_succeed now t st)"
  using steady_finish_task steady_trans [OF steady_fields(1) steady_finish_task]
  by (simp add: leave_or_succeed_def succeed_task_def split: option.split)

lemma steady_publish: "steady r st (leave_or_succeed now t (on_item t (published_item now asset) st))"
  by (rule steady_trans [OF steady_on_item steady_leave_or_succeed]) (simp add: published_item_def)

text \<open>A preflight that finds the peer gone hands the attempt back; the other answers do not.\<close>

lemma steady_begin:
  assumes "check = Peer_gone \<Longrightarrow> r = Some (task_key t)"
  shows "steady r st (begin_attempt c now check t st)"
proof -
  let ?t = "t\<lparr>tk_started := now\<rparr>"
  define st1 where "st1 = (on_item t (started_item now) st)\<lparr>br_tasks :=
     update_where (\<lambda>u. task_key u = task_key t) (\<lambda>u. u\<lparr>tk_started := now\<rparr>) (br_tasks st)\<rparr>"
  have mid: "steady None st (on_item t (started_item now) st)"
    by (rule steady_on_item) (simp add: started_item_def)
  have e: "map task_key (br_tasks st1) = map task_key (br_tasks st)"
    by (simp add: st1_def update_where_def task_key_def)
  have "steady None (on_item t (started_item now) st) st1"
    using arg_cong [OF e, of set] by (intro steady_same) (auto simp: st1_def on_item_def row_sigs_def)
  then have 1: "steady None st st1" by (rule steady_trans [OF mid])
  have key: "task_key ?t = task_key t" by (simp add: task_key_def)
  have step: "steady r st (case check of Clear \<Rightarrow> set_phase ?t Posting st2
       | Peer_gone \<Rightarrow> finish_task now ?t (on_item ?t requeued_item st2)
       | Refused code reason \<Rightarrow> finish_task now ?t (on_item ?t (rejected_item code reason) st2))
     \<and> steady r st (finish_task now ?t (on_item ?t (cancelled_item lease_expired_text) st2))"
    if "fence_batch c now (tk_batch t) st1 = Inr (st2, fenced)" for st2 fenced
  proof -
    note 2 = steady_trans [OF 1 steady_fence [OF that]]
    have "steady r st2 (finish_task now ?t (on_item ?t requeued_item st2))" if "check = Peer_gone"
      using assms [OF that] key by (intro steady_finish_on) (auto simp: requeued_item_def)
    moreover have "steady r st2 (finish_task now ?t (on_item ?t (rejected_item code reason) st2))" for code reason
      by (rule steady_finish_on) (simp_all add: rejected_item_def)
    ultimately show ?thesis
      using steady_trans [OF 2] steady_cancelled by (simp split: preflight.split)
  qed
  have leave: "steady r st (finish_task now ?t st1)" by (rule steady_trans [OF 1 steady_finish_task])
  show ?thesis
    unfolding begin_attempt_def Let_def st1_def [symmetric]
    using step leave by (simp split: option.split sum.split prod.split)
qed

lemma steady_accept: "steady r st (accept_job c now job_id job t st)"
proof (cases "observe_job c t job st")
  case None
  then show ?thesis by (simp add: accept_job_def)
next
  case (Some st1)
  have "steady None st (on_item t (\<lambda>it. it\<lparr>it_job := Some job_id\<rparr>) st1)"
    by (rule steady_trans [OF steady_observe [OF Some] steady_on_item]) simp
  then show ?thesis using Some steady_trans [OF _ steady_stop] by (simp add: accept_job_def)
qed

lemma steady_poll_check: "steady r st (poll_check c now t st)"
  using steady_finish_task steady_stop [of r "set_phase t Asking"]
  by (simp add: poll_check_def split: option.split)

lemma steady_poll_job: "steady r st (poll_job c now job t st)"
proof -
  have "steady r st (set_phase t Polling (on_item t (record_worker_progress now p) st1))"
    if "observe_job c t job st = Some st1" for st1 p
    using tame_progress
    by (intro steady_trans [OF steady_observe [OF that] steady_trans [OF steady_on_item steady_set_phase]])
      (auto simp: tame_item_def)
  then show ?thesis
    using steady_finish_task by (simp add: poll_job_def split: option.split)
qed

lemma steady_complete: "steady r st (complete_job c now job runtime asset fetch t st)"
proof (cases "fence_batch c now (tk_batch t) st")
  case (Inl e)
  then show ?thesis by (simp add: complete_job_def)
next
  case (Inr p)
  obtain st1 fenced where p: "fence_batch c now (tk_batch t) st = Inr (st1, fenced)" using Inr by (cases p) simp
  note 1 = steady_fence [OF p]
  have seen: "steady None st st2" if "observe_job c t job st1 = Some st2" for st2
    by (rule steady_trans [OF 1 steady_observe [OF that]])
  have adopt: "steady None st (on_item t (adopt_result now runtime) st2)" if "observe_job c t job st1 = Some st2" for st2
    by (rule steady_trans [OF seen [OF that] steady_on_item]) (simp add: adopt_result_def)
  show ?thesis
    using p 1 steady_trans [OF 1 steady_leave_or_succeed] steady_trans [OF seen steady_leave_or_succeed]
      steady_trans [OF adopt steady_publish] steady_trans [OF adopt steady_set_phase]
    by (simp add: complete_job_def Let_def split: option.split)
qed

lemma steady_settle: "steady r st (settle_failure now e t st)"
proof -
  let ?f = "\<lambda>it. it\<lparr>it_last_progress := Some now\<rparr>"
  have 1: "steady None st (on_item t ?f st)" by (rule steady_on_item) simp
  have 2: "steady None st ((on_item t ?f st)\<lparr>br_prot := x\<rparr>)" for x by (rule steady_trans [OF 1 steady_fields(1)])
  have "steady r st (finish_task now t (on_item t (infra_item now m msg) ((on_item t ?f st)\<lparr>br_prot := x\<rparr>)))" for m msg x
    by (rule steady_trans [OF 2 steady_finish_on]) (simp_all add: infra_item_def avoid_machine_def Let_def)
  moreover have "steady r st (finish_task now t (on_item t (retry_item now msg) (on_item t ?f st)))" for msg
    by (rule steady_trans [OF 1 steady_finish_on]) (simp_all add: retry_item_def)
  moreover have "steady r st (finish_task now t (on_item t (failed_item msg) (on_item t ?f st)))" for msg
    by (rule steady_trans [OF 1 steady_finish_on]) (simp_all add: failed_item_def)
  moreover have "steady r st (finish_task now t (on_item t (mark_voice_uncertain now x) st))" for x
    by (rule steady_finish_on) (simp_all add: mark_voice_uncertain_def)
  ultimately show ?thesis
    using steady_trans [OF 1 steady_set_phase] by (simp add: settle_failure_def Let_def split: option.split)
qed

lemma steady_fail: "steady r st (fail_attempt now e t st)"
  using steady_finish_task steady_cancelled steady_settle by (simp add: fail_attempt_def split: option.split)

lemma steady_unreconciled: "steady r st (unreconciled now e t st)"
  using steady_finish_task steady_settle by (simp add: unreconciled_def split: option.split)

lemma steady_recover_probe: "steady r st (recover_probe c now t st)"
  using steady_fence steady_trans [OF steady_fence steady_unreconciled]
  by (simp add: recover_probe_def split: sum.split prod.split phase.split)

lemma steady_recover_waiting: "steady r st (recover_waiting now job t st)"
proof -
  have 1: "steady None s (on_item t (\<lambda>x. fst (record_execution_started job x)) s)" for s
    using tame_proof by (intro steady_on_item) (auto simp: tame_item_def)
  then have 2: "steady None st (proven_item job t st)"
    using steady_trans [OF 1 steady_save] by (simp add: proven_item_def Let_def split: option.split)
  have "steady r s (on_item t (noted_item now job) s)" for s
    using tame_noted by (intro steady_on_item) (auto simp: tame_item_def)
  then have "steady r st (on_item t (noted_item now job) (proven_item job t st))" by (rule steady_trans [OF 2])
  then show ?thesis using steady_finish_task by (simp add: recover_waiting_def split: option.split)
qed

lemma steady_reconciled: "steady r st (reconciled_failure c now job t st)"
proof (cases "observe_job c t job st")
  case None
  then show ?thesis using steady_finish_task by (simp add: reconciled_failure_def split: option.split)
next
  case (Some st1)
  note 1 = steady_observe [OF Some]
  have after: "steady None st ((on_item t (\<lambda>_. it') st1)\<lparr>br_models := m\<rparr>)"
    if "task_item t st1 = Some it1" "classify_worker_failure h sz now model s job t0 it1 ps = Some (it', m, e)"
    for it1 h sz model s t0 ps it' m e
  proof -
    have "it_index it' = tk_index t" "it_tries it' = it_tries it1"
      using tame_classified [OF that(2)] find_item_index that(1) by (auto simp: tame_item_def task_item_def)
    then show ?thesis
      using that(1) by (intro steady_trans [OF 1 steady_trans [OF steady_on_item_by steady_fields(2)]]) auto
  qed
  show ?thesis
    using Some steady_finish_task steady_trans [OF after steady_settle] steady_trans [OF after steady_cancelled]
    by (simp add: reconciled_failure_def Let_def split: option.split prod.split)
qed

lemma steady_http_rejected: "steady r st (http_rejected c now status detail t st)"
proof -
  have "steady None st ((on_item t (\<lambda>it. it\<lparr>it_code := x\<rparr>) st)\<lparr>br_models := m\<rparr>)" for x m
    by (rule steady_trans [OF steady_on_item steady_fields(2)]) simp
  then show ?thesis
    using steady_fail steady_trans [OF _ steady_fail] by (simp add: http_rejected_def Let_def split: option.split)
qed

lemma steady_adopt: "steady r st (adopt_artifact now asset t st)"
  using steady_publish steady_leave_or_succeed by (simp add: adopt_artifact_def split: option.split)

text \<open>A capacity failure hands the attempt back.\<close>

lemma steady_handed: "r = Some (task_key t) \<Longrightarrow> steady r st (handed_off now released t st)"
proof -
  assume "r = Some (task_key t)"
  then have "steady r st (finish_task now t (on_item t (capacity_item b m msg released) st))" for b m msg
    by (intro steady_finish_on) (auto simp: capacity_item_def avoid_machine_def)
  then show ?thesis by (simp add: handed_off_def split: phase.split)
qed

lemma steady_with_task:
  assumes "\<And>t. task_key t = k \<Longrightarrow> steady r st (f t st)"
  shows "steady r st (with_task k p f st)"
  using assms select_first_Some by (fastforce simp: with_task_def split: option.split)

section \<open>Handlers\<close>

lemma steady_cancel: "steady r st (cancel_batch now answers bid st)"
proof (cases "batch_of st bid")
  case None
  then show ?thesis by (simp add: cancel_batch_def)
next
  case (Some b)
  define signal :: "item \<Rightarrow> item" where "signal = (\<lambda>it. if it_state it = Running \<and> str_or_empty (it_studio it) \<noteq> [] \<and> str_or_empty (it_job it) \<noteq> []
      then (case answers (it_index it) of
          None \<Rightarrow> it\<lparr>it_cancel_sent := Some now, it_cancel_error := None\<rparr>
        | Some e \<Rightarrow> it\<lparr>it_cancel_error := Some e\<rparr>)
      else it)"
  define signalled :: "batch \<Rightarrow> batch" where "signalled = (\<lambda>b. b\<lparr>ba_items := map signal (ba_items b)\<rparr>)"
  define notify :: "batch \<Rightarrow> batch" where "notify = (\<lambda>b. b\<lparr>ba_items := map (\<lambda>it. if it_state it = Cancelled
      then fst (post_item_webhook b it) else it) (ba_items b)\<rparr>)"
  have 1: "steady None st (map_batch bid cancel_queued st)"
  proof (rule steady_map_batch)
    fix b i
    have "list_all2 tame_item (ba_items b) (ba_items (cancel_queued b))"
      by (auto simp: cancel_queued_def cancel_queued_item_def tame_item_def intro!: all2_update_where)
    then have "rel_option tame_item (item_of i b) (item_of i (cancel_queued b))"
      unfolding item_of_def by (rule select_first_all2) (simp add: tame_item_def)
    then show "rel_option (\<lambda>it it'. it_tries it \<le> it_tries it') (item_of i b) (item_of i (cancel_queued b))"
      by (rule option.rel_mono_strong) (simp add: tame_item_def)
  qed (simp add: cancel_queued_def row_sig_def)
  have "steady None s (map_batch bid signalled s)" for s
    unfolding signalled_def
    by (rule steady_map_batch) (auto simp: row_sig_def signal_def split: option.split intro!: items_rel(2))
  moreover have "steady None s (map_batch bid notify s)" for s
    unfolding notify_def
    by (rule steady_map_batch) (auto simp: row_sig_def post_item_webhook_def intro!: items_rel(2))
  ultimately have 2: "steady None s (map_batch bid notify (map_batch bid signalled s))" for s
    using steady_trans by blast
  have "map_batch bid notify (map_batch bid signalled st') = map_batch bid (notify \<circ> signalled) st'" for st'
    by (simp add: map_batch_def update_where_def signalled_def)
  then have e: "cancel_batch now answers bid st
      = finish_batch now bid (map_batch bid notify (map_batch bid signalled (save_batch bid (map_batch bid cancel_queued st))))"
    by (simp add: cancel_batch_def Some signal_def signalled_def notify_def Let_def)
  show ?thesis
    unfolding e by (rule steady_trans [OF 1 steady_trans [OF steady_save steady_trans [OF 2 steady_finish_batch]]])
qed

lemma steady_note: "steady r st (note_recovery now phase reason i bid st)"
proof -
  have "steady r st (map_item bid i (\<lambda>it. the (set_voice_recovery now phase reason it)) st)" if "phase \<in> set recovery_phases"
    by (rule steady_map_item_by) (use that in \<open>simp_all add: set_voice_recovery_def\<close>)
  then show ?thesis by (simp add: note_recovery_def)
qed

lemma steady_scan: "steady r st (scan_batch c v now bid st)"
  using steady_fence steady_trans [OF steady_fence steady_save] steady_trans [OF steady_fence steady_fields(6)]
  by (simp add: scan_batch_def split: sum.split prod.split option.split)

lemma steady_expire: "steady r st (broker_step c (Expire now bid) st)"
  using steady_fence steady_trans [OF steady_fence steady_save] by (auto split: sum.split)

end
