(* ===== verification/Broker_Accounting.thy ===== *)
theory Broker_Accounting
  imports Broker_Frames Broker_Theorems
begin

text \<open>
  The dispatches of an item, counted on the run and not on the item: a dispatch is a step after which
  the item has a coroutine that it did not have before.  The counter of attempts follows them, up to the
  two endings that hand an attempt back (a capacity failure, a worker whose authentication changed
  before the request) and what a restart of the Hub loses because it was not saved.
\<close>

section \<open>Counting steps of a run\<close>

definition has_task :: "broker \<Rightarrow> string \<times> nat \<Rightarrow> bool" where
  "has_task st k \<longleftrightarrow> k \<in> task_key ` set (br_tasks st)"

fun hands_back :: "broker_op \<Rightarrow> (string \<times> nat) option" where
  "hands_back (Begin k now Peer_gone) = Some k"
| "hands_back (Handed k now released) = Some k"
| "hands_back _ = None"

definition dispatch_weight :: "string \<times> nat \<Rightarrow> broker_op \<Rightarrow> broker \<Rightarrow> broker \<Rightarrow> int" where
  "dispatch_weight k e st st' = (if \<not> has_task st k \<and> has_task st' k then 1 else 0)"

definition refusal_weight :: "string \<times> nat \<Rightarrow> broker_op \<Rightarrow> broker \<Rightarrow> broker \<Rightarrow> int" where
  \<comment> \<open>an ending that hands the attempt back\<close>
  "refusal_weight k e st st' = (if hands_back e = Some k \<and> has_task st k \<and> \<not> has_task st' k then 1 else 0)"

definition lost_weight :: "string \<times> nat \<Rightarrow> broker_op \<Rightarrow> broker \<Rightarrow> broker \<Rightarrow> int" where
  \<comment> \<open>attempts a restart does not find in the ledger\<close>
  "lost_weight k e st st' = (if is_restart e then max 0 (tries_of st k - tries_of st' k) else 0)"

fun tally :: "dispatch_context \<Rightarrow> (broker_op \<Rightarrow> broker \<Rightarrow> broker \<Rightarrow> int) \<Rightarrow> broker \<Rightarrow> broker_op list \<Rightarrow> int" where
  "tally c w st [] = 0"
| "tally c w st (e # es) = w e st (broker_step c e st) + tally c w (broker_step c e st) es"

definition dispatches :: "dispatch_context \<Rightarrow> string \<times> nat \<Rightarrow> broker_op list \<Rightarrow> int" where
  "dispatches c k es = tally c (dispatch_weight k) empty_broker es"

definition refusals :: "dispatch_context \<Rightarrow> string \<times> nat \<Rightarrow> broker_op list \<Rightarrow> int" where
  "refusals c k es = tally c (refusal_weight k) empty_broker es"

definition lost_attempts :: "dispatch_context \<Rightarrow> string \<times> nat \<Rightarrow> broker_op list \<Rightarrow> int" where
  "lost_attempts c k es = tally c (lost_weight k) empty_broker es"

section \<open>One step\<close>

definition accounted :: "string \<times> nat \<Rightarrow> broker_op \<Rightarrow> broker \<Rightarrow> broker \<Rightarrow> bool" where
  "accounted k e st st' \<longleftrightarrow>
     tries_of st k + dispatch_weight k e st st' \<le> tries_of st' k + refusal_weight k e st st' + lost_weight k e st st'"

lemma weights_nonneg [simp]: "0 \<le> refusal_weight k e st st'" "0 \<le> lost_weight k e st st'"
  by (simp_all add: refusal_weight_def lost_weight_def)

lemma steadyD:
  assumes "steady r st st'"
  shows "tries_of st k - (if r = Some k then 1 else 0) \<le> tries_of st' k" "dispatch_weight k e st st' = 0"
proof -
  show "tries_of st k - (if r = Some k then 1 else 0) \<le> tries_of st' k"
    using assms unfolding steady_def by blast
  have "has_task st' k \<Longrightarrow> has_task st k" using assms unfolding steady_def has_task_def by blast
  then show "dispatch_weight k e st st' = 0" by (auto simp: dispatch_weight_def)
qed

lemma accounted_steady:
  assumes "steady None st st'"
  shows "accounted k e st st'"
proof -
  have "dispatch_weight k e st st' = 0" "tries_of st k \<le> tries_of st' k"
    using steadyD [OF assms, of k] by simp_all
  then show ?thesis
    using weights_nonneg(1) [of k e st st'] weights_nonneg(2) [of k e st st'] unfolding accounted_def by linarith
qed

lemma accounted_back:
  assumes s: "steady (Some j) st st'" and e: "hands_back e = Some j"
    and ended: "st' = st \<or> (has_task st j \<and> \<not> has_task st' j)"
  shows "accounted k e st st'"
proof (cases "st' = st \<or> k \<noteq> j")
  case True
  then have "dispatch_weight k e st st' = 0" "tries_of st k \<le> tries_of st' k"
    using steadyD [OF s, of k] by auto
  then show ?thesis
    using weights_nonneg(1) [of k e st st'] weights_nonneg(2) [of k e st st'] unfolding accounted_def by linarith
next
  case False
  then have k: "k = j" "has_task st j" "\<not> has_task st' j" using ended by auto
  then have "refusal_weight k e st st' = 1" "dispatch_weight k e st st' = 0" using e
    by (simp_all add: refusal_weight_def dispatch_weight_def)
  moreover have "tries_of st k - 1 \<le> tries_of st' k" using steadyD(1) [OF s, of k] k(1) by simp
  ultimately show ?thesis
    using weights_nonneg(2) [of k e st st'] unfolding accounted_def by linarith
qed

lemma finished_no_task: "task_key t = k \<Longrightarrow> \<not> has_task (finish_task now t st) k"
  using quiet_finish_task(2) [of t "{k}" now st] by (simp add: has_task_def)

lemma with_task_ended:
  assumes "\<And>t. task_key t = k \<Longrightarrow> f t st = st \<or> \<not> has_task (f t st) k"
  shows "with_task k p f st = st \<or> (has_task st k \<and> \<not> has_task (with_task k p f st) k)"
proof (cases "select_first (\<lambda>t. task_key t = k) (br_tasks st)")
  case None
  then show ?thesis by (simp add: with_task_def)
next
  case (Some t)
  then have "t \<in> set (br_tasks st)" "task_key t = k" using select_first_Some by fast+
  then show ?thesis using Some assms [of t] by (auto simp: with_task_def has_task_def)
qed

lemma gone_ended: "begin_attempt c now Peer_gone t st = st \<or> \<not> has_task (begin_attempt c now Peer_gone t st) (task_key t)"
  using finished_no_task [of "t\<lparr>tk_started := now\<rparr>" "task_key t" now]
  by (auto simp: begin_attempt_def Let_def task_key_def split: option.split sum.split prod.split)

lemma handed_ended: "handed_off now released t st = st \<or> \<not> has_task (handed_off now released t st) (task_key t)"
  using finished_no_task [of t "task_key t" now] by (simp add: handed_off_def split: phase.split)

text \<open>A batch put into memory.\<close>

lemma tries_of_save_row:
  "tries_of (st\<lparr>br_batches := save_row b' (br_batches st)\<rparr>) k
   = (if fst k = ba_id b' then (case item_of (snd k) b' of None \<Rightarrow> 0 | Some it \<Rightarrow> it_tries it) else tries_of st k)"
proof -
  have "batch_of (st\<lparr>br_batches := save_row b' (br_batches st)\<rparr>) j = (if j = ba_id b' then Some b' else batch_of st j)" for j
  proof (cases "list_ex (\<lambda>r. ba_id r = ba_id b') (br_batches st)")
    case True
    then have "batch_of st (ba_id b') \<noteq> None"
      by (auto simp: batch_of_def select_first_None list_ex_iff)
    then show ?thesis
      using True batch_rows.lookup_update_where [of "ba_id b'" "\<lambda>_. b'" j "br_batches st"]
      by (auto simp: batch_of_def save_row_def upsert_def)
  next
    case False
    have f: "List.find q (xs @ [b']) = (case List.find q xs of None \<Rightarrow> if q b' then Some b' else None | Some x \<Rightarrow> Some x)"
      for q and xs :: "batch list" by (induction xs) auto
    have "List.find (\<lambda>b. ba_id b = ba_id b') (br_batches st) = None"
      using False by (auto simp: find_None_iff list_ex_iff)
    then show ?thesis using False
      by (auto simp: batch_of_def save_row_def upsert_def select_first_def f split: option.split)
  qed
  then show ?thesis by (simp add: tries_of_def find_item_def)
qed

lemma accounted_loaded:
  assumes t: "br_tasks st' = br_tasks st" and b: "br_batches st' = save_row b' (br_batches st)"
    and up: "\<And>i. (case item_of i b' of None \<Rightarrow> 0 | Some it \<Rightarrow> it_tries it) \<ge> tries_of st (ba_id b', i)"
  shows "accounted k e st st'"
proof -
  have "tries_of st' k = tries_of (st\<lparr>br_batches := save_row b' (br_batches st)\<rparr>) k"
    by (rule tries_of_cong) (simp add: b)
  then have "tries_of st k \<le> tries_of st' k"
    using up [of "snd k"] by (cases k) (simp add: tries_of_save_row)
  moreover have "dispatch_weight k e st st' = 0" using t by (simp add: dispatch_weight_def has_task_def)
  ultimately show ?thesis
    using weights_nonneg(1) [of k e st st'] weights_nonneg(2) [of k e st st'] unfolding accounted_def by linarith
qed

text \<open>The counters of a batch that is not in memory are 0; those of a tame copy are the same.\<close>

lemma loaded_counts:
  assumes ok: "batch_ok R b'"
    and same: "\<And>b. batch_of st (ba_id b') = Some b \<Longrightarrow> list_all2 tame_item (ba_items b) (ba_items b')"
  shows "tries_of st (ba_id b', i) \<le> (case item_of i b' of None \<Rightarrow> 0 | Some it \<Rightarrow> it_tries it)"
proof (cases "batch_of st (ba_id b')")
  case None
  have "0 \<le> it_tries it" if "item_of i b' = Some it" for it
    using item_of_key [OF that] ok by (auto simp: batch_ok_def item_ok_def)
  then show ?thesis using None by (simp add: tries_of_def find_item_def split: option.split)
next
  case (Some b)
  have "rel_option tame_item (item_of i b) (item_of i b')"
    unfolding item_of_def using same [OF Some] by (rule select_first_all2) (simp add: tame_item_def)
  then show ?thesis using Some
    by (cases rule: option.rel_cases) (simp_all add: tries_of_def find_item_def tame_item_def)
qed

lemma accounted_submit:
  assumes "\<not> known_batch (sb_id s) st"
  shows "accounted k e st (add_batch (new_batch s) st)"
proof (rule accounted_loaded)
  have n: "batch_of st (ba_id (new_batch s)) = None"
    using assms by (auto simp: known_batch_def batch_of_def select_first_None list_ex_iff new_batch_def)
  show "tries_of st (ba_id (new_batch s), i) \<le> (case item_of i (new_batch s) of None \<Rightarrow> 0 | Some it \<Rightarrow> it_tries it)" for i
    by (rule loaded_counts [OF new_batch_ok [of 0]]) (simp add: n)
qed (simp_all add: add_batch_def)

lemma accounted_renew:
  assumes ok: "broker_ok registry R st"
  shows "accounted k e st (fst (renew_execution_lease bid attempt lease st))"
proof -
  define found where "found = (case (if bid = [] then None else batch_of st bid) of
            Some b \<Rightarrow> Some b
          | None \<Rightarrow> (case (if bid = [] then None else select_first (\<lambda>b. ba_id b = bid) (br_ledger st)) of
              Some b \<Rightarrow> Some b
            | None \<Rightarrow> select_first (\<lambda>b. (case ba_execution b of None \<Rightarrow> None | Some e \<Rightarrow> ex_attempt e) = Some attempt)
                        (br_batches st)))"
  show ?thesis
  proof (cases found)
    case None
    then show ?thesis by (simp add: renew_execution_lease_def found_def [symmetric] accounted_steady)
  next
    case (Some b)
    have b: "batch_of st (ba_id b) = Some b \<or> (batch_of st (ba_id b) = None \<and> batch_ok R b)"
    proof (cases "bid \<noteq> [] \<and> batch_of st bid = None \<and> select_first (\<lambda>b. ba_id b = bid) (br_ledger st) \<noteq> None")
      case True
      then have "select_first (\<lambda>b. ba_id b = bid) (br_ledger st) = Some b"
        using Some by (auto simp: found_def)
      then show ?thesis using True ledger_batch_ok [OF ok] select_first_Some by fastforce
    next
      case False
      then have "b \<in> set (br_batches st)"
        using Some by (auto simp: found_def dest: batch_of_key select_first_Some split: if_splits option.splits)
      then show ?thesis using batch_of_unique broker_okD(1) [OF ok] by blast
    qed
    then have "batch_ok R b" using memory_batch_ok [OF ok] by blast
    then have ok': "batch_ok R (renew_batch_lease lease b)"
      by (rule tame_batch_ok [rotated]) (simp add: renew_batch_lease_def tame_batch_def list_all2_refl)
    have same: "list_all2 tame_item (ba_items m) (ba_items (renew_batch_lease lease b))"
      if "batch_of st (ba_id (renew_batch_lease lease b)) = Some m" for m
      using that b by (auto simp: renew_batch_lease_def list_all2_refl)
    show ?thesis
      by (rule accounted_loaded [where b' = "renew_batch_lease lease b"])
        (use Some loaded_counts [OF ok' same] in \<open>simp_all add: renew_execution_lease_def found_def [symmetric] Let_def\<close>)
  qed
qed

lemma accounted_recover:
  assumes ok: "broker_ok registry R st"
  shows "accounted k e st (recover_voice_item now bid i st)"
proof -
  define found where "found = (case batch_of st bid of Some b \<Rightarrow> Some b
     | None \<Rightarrow> select_first (\<lambda>b. ba_id b = bid) (br_ledger st))"
  show ?thesis
  proof (cases found)
    case None
    then show ?thesis
      by (simp add: recover_voice_item_def found_def [symmetric] voice_recovery_item_def accounted_steady)
  next
    case (Some b)
    have b: "ba_id b = bid" "batch_ok R b" "\<And>m. batch_of st bid = Some m \<Longrightarrow> m = b"
      using Some ledger_batch_ok [OF ok] memory_batch_ok [OF ok]
      by (auto simp: found_def dest: batch_of_key select_first_Some split: option.splits)
    have tame: "tame_batch b (update_item i (give_up_identity now) b)"
      by (rule tame_update_item [OF b(2) tame_give_up])
    have load: "accounted k e st st'"
      if "br_tasks st' = br_tasks st" "br_batches st' = save_row b' (br_batches st)" "tame_batch b b'" for st' b'
      using loaded_counts [OF tame_batch_ok [OF that(3) b(2)], of st] that(3) b(1,3)
      by (intro accounted_loaded [OF that(1,2)]) (auto simp: tame_batch_def)
    show ?thesis
      using Some load [OF _ _ tame] load [OF _ _ tame_batch_refl]
      by (simp add: recover_voice_item_def found_def [symmetric] voice_recovery_item_def accounted_steady split: option.split)
  qed
qed

text \<open>Dispatch itself.\<close>

lemma accounted_assign:
  assumes find: "find_item st bid i \<noteq> None" and st': "st' = (assign_item now bid i x r gen st)\<lparr>br_plan := q\<rparr>"
  shows "accounted k e st st'"
proof -
  define st0 where "st0 = map_batch bid (\<lambda>b. b\<lparr>ba_last_dispatched := Some now, ba_note := None\<rparr>) st"
  have "find_item st0 b j = find_item st b j" for b j
  proof -
    have "batch_of st0 d = (if d = bid then map_option (\<lambda>b. b\<lparr>ba_last_dispatched := Some now, ba_note := None\<rparr>) (batch_of st d)
        else batch_of st d)" for d
      unfolding st0_def by (subst batch_of_map_batch) auto
    then show ?thesis by (cases "batch_of st b") (auto simp: find_item_def item_of_def)
  qed
  then have same: "tries_of st0 j = tries_of st j" "find_item st0 bid i = find_item st bid i" for j
    by (simp_all add: tries_of_def)
  have "tries_of st' j = tries_of (map_item bid i (dispatched_item now x r gen) st0) j" for j
    by (rule tries_of_cong) (simp add: st' assign_item_def st0_def)
  moreover have "tries_of (map_item bid i (dispatched_item now x r gen) st0) j
      = tries_of st j + (if j = (bid, i) then 1 else 0)" for j
  proof (cases "j = (bid, i)")
    case True
    have "find_item (map_item bid i (dispatched_item now x r gen) st0) bid i
        = map_option (dispatched_item now x r gen) (find_item st bid i)"
      using same(2) by (subst find_item_map_item) auto
    then show ?thesis using True find by (auto simp: tries_of_def)
  next
    case False
    then have "find_item (map_item bid i (dispatched_item now x r gen) st0) (fst j) (snd j) = find_item st0 (fst j) (snd j)"
      by (subst find_item_map_item) (auto simp: prod_eq_iff)
    then show ?thesis using False same(1) [of j] by (simp add: tries_of_def)
  qed
  moreover have "has_task st' k \<longleftrightarrow> has_task st k \<or> k = (bid, i)"
    by (auto simp: has_task_def st' assign_item_def task_key_def)
  then have "dispatch_weight k e st st' \<le> (if k = (bid, i) then 1 else 0)" by (simp add: dispatch_weight_def)
  ultimately have "tries_of st' k = tries_of st k + (if k = (bid, i) then 1 else 0)"
    "dispatch_weight k e st st' \<le> (if k = (bid, i) then 1 else 0)" by simp_all
  then show ?thesis
    using weights_nonneg(1) [of k e st st'] weights_nonneg(2) [of k e st st'] unfolding accounted_def by linarith
qed

lemma accounted_offer:
  assumes ok: "broker_ok registry R st"
  shows "accounted k e st (offer_next c synced now off st)"
proof (cases "br_plan st")
  case None
  then show ?thesis by (simp add: offer_next_def accounted_steady)
next
  case (Some p)
  have plan: "accounted k e st (st\<lparr>br_plan := q\<rparr>)" for q by (rule accounted_steady) simp
  have "accounted k e st ((assign_item now (pl_batch p) i x r gen st)\<lparr>br_plan := q\<rparr>)"
    if "first_compatible c synced p b x = Some i" for b x i r gen q
  proof (rule accounted_assign)
    have "i \<in> set (pl_queued p)" using that by (auto simp: first_compatible_def find_Some_iff)
    then have "waiting R st (pl_batch p, i)" using broker_okD(6) [OF ok] Some by (auto simp: plan_ok_def)
    then show "find_item st (pl_batch p) i \<noteq> None" by (auto simp: waiting_def split: option.splits)
  qed simp
  then show ?thesis
    using Some plan by (auto simp: offer_next_def Let_def accounted_steady split: list.split option.split verdict.split)
qed

lemma accounted_restart:
  assumes "is_restart e" and "br_tasks st' = []"
  shows "accounted k e st st'"
proof -
  have "dispatch_weight k e st st' = 0" "tries_of st k - tries_of st' k \<le> lost_weight k e st st'"
    using assms by (simp_all add: lost_weight_def dispatch_weight_def has_task_def)
  then show ?thesis using weights_nonneg(1) [of k e st st'] unfolding accounted_def by linarith
qed

theorem accounted_step:
  assumes ok: "broker_ok (dc_registry c) R st"
  shows "accounted k e st (broker_step c e st)"
proof -
  note task = accounted_steady [OF steady_with_task]
  show ?thesis
  proof (cases e)
    case (Submit x) then show ?thesis using accounted_submit by (simp add: accounted_steady)
  next
    case (Expire now bid) then show ?thesis using accounted_steady [OF steady_expire] by simp
  next
    case (Scan v now bid) then show ?thesis by (simp add: accounted_steady steady_scan)
  next
    case (Offer synced now off) then show ?thesis using accounted_offer [OF ok] by simp
  next
    case (Begin j now check)
    show ?thesis
    proof (cases "check = Peer_gone")
      case True
      have "steady (Some j) st (broker_step c e st)"
        using Begin by (auto intro!: steady_with_task steady_begin)
      moreover have "broker_step c e st = st \<or> (has_task st j \<and> \<not> has_task (broker_step c e st) j)"
        using Begin True gone_ended by (simp only: broker_step.simps) (rule with_task_ended, blast)
      ultimately show ?thesis by (intro accounted_back [of j]) (simp_all add: Begin True)
    next
      case False then show ?thesis using Begin by (auto intro!: task steady_begin)
    qed
  next
    case (Accept j now jid job) then show ?thesis by (auto intro!: task steady_accept)
  next
    case (Reject j now status detail) then show ?thesis by (auto intro!: task steady_http_rejected)
  next
    case (Raise j now err) then show ?thesis by (auto intro!: task steady_fail)
  next
    case (Check j now) then show ?thesis by (auto intro!: task steady_poll_check)
  next
    case (Progress j now job) then show ?thesis by (auto intro!: task steady_poll_job)
  next
    case (Complete j now job runtime asset fetch) then show ?thesis using steady_complete by (auto intro!: task)
  next
    case (Artifact j now asset) then show ?thesis by (auto intro!: task steady_adopt)
  next
    case (Job_failed j now job) then show ?thesis by (auto intro!: task steady_reconciled)
  next
    case (Probe j now) then show ?thesis by (auto intro!: task steady_recover_probe)
  next
    case (Still_running j now job) then show ?thesis by (auto intro!: task steady_recover_waiting)
  next
    case (Unreconciled j now) then show ?thesis using steady_unreconciled by (auto intro!: task split: phase.split)
  next
    case (Handed j now released)
    have "steady (Some j) st (broker_step c e st)"
      using Handed by (auto intro!: steady_with_task steady_handed)
    moreover have "broker_step c e st = st \<or> (has_task st j \<and> \<not> has_task (broker_step c e st) j)"
      using Handed handed_ended by (simp only: broker_step.simps) (rule with_task_ended, blast)
    ultimately show ?thesis by (intro accounted_back [of j]) (simp_all add: Handed)
  next
    case (Cancel now answers bid) then show ?thesis by (simp add: accounted_steady steady_cancel)
  next
    case (Renew_lease bid attempt lease) then show ?thesis using accounted_renew [OF ok] by simp
  next
    case (Acquire v machine owner) then show ?thesis by (simp add: accounted_steady)
  next
    case (Release machine owner) then show ?thesis by (simp add: accounted_steady)
  next
    case (Drain sid enabled) then show ?thesis by (simp add: accounted_steady)
  next
    case (Dispatched_external machine lane) then show ?thesis by (simp add: accounted_steady split: option.split)
  next
    case (Recover_voice now bid i) then show ?thesis using accounted_recover [OF ok] by simp
  next
    case (Note_recovery now phase reason i bid) then show ?thesis by (simp add: accounted_steady steady_note)
  next
    case (Restart_hub now)
    then show ?thesis by (intro accounted_restart) (simp_all add: is_restart_def restore_batches_def Let_def)
  qed
qed

section \<open>The bound\<close>

lemma accounted_run:
  assumes reg: "distinct (map st_id (dc_registry c))" and ok: "broker_ok (dc_registry c) R st"
  shows "tries_of st k + tally c (dispatch_weight k) st es
     \<le> tries_of (fold (broker_step c) es st) k + tally c (refusal_weight k) st es + tally c (lost_weight k) st es"
  using ok
proof (induction es arbitrary: R st)
  case Nil
  then show ?case by simp
next
  case (Cons e es)
  show ?case
    using Cons.IH [OF broker_step_ok [OF reg Cons.prems, of e]] accounted_step [OF Cons.prems, of k e]
    by (simp add: accounted_def)
qed

text \<open>C13: Dispatches are bounded: in every run, the number of times an item is given to a worker is at
  most three, plus eight (its connection failures), plus one for each restart of the Hub, plus the
  dispatches that ended by handing the attempt back and the attempts a restart did not find in the
  ledger.  Only two endings hand an attempt back, a capacity failure and a worker whose authentication
  changed before the request; no other step lowers the counter, whatever fails.  (Those two are not
  bounded themselves: an item may wait for capacity, and be offered again, as long as it takes.)\<close>

theorem dispatches_bounded:
  assumes "distinct (map st_id (dc_registry c))"
  shows "dispatches c k es \<le> 3 + 8 + int (restarts es) + refusals c k es + lost_attempts c k es"
proof -
  have "tries_of (broker_run c es) k \<le> 3 + 8 + int (restarts es)"
  proof (cases "find_item (broker_run c es) (fst k) (snd k)")
    case None
    then show ?thesis by (simp add: tries_of_def)
  next
    case (Some it)
    have "item_ok (restarts es) it"
      by (rule find_item_ok [OF broker_okD(1) [OF reachable_ok [OF assms]] Some])
    then show ?thesis using Some by (simp add: tries_of_def item_ok_def max_tries_def max_infra_tries_def)
  qed
  moreover have "tries_of empty_broker k = 0" by (simp add: tries_of_def find_item_def batch_of_def empty_broker_def select_first_def)
  ultimately show ?thesis
    using accounted_run [OF assms empty_broker_ok, of k es]
    by (simp add: dispatches_def refusals_def lost_attempts_def broker_run_def)
qed

text \<open>An item whose first worker is gone before the request and that a second one then gets, until the Hub
  restarts: two dispatches, one handed back.\<close>

definition demo_busy_run :: "broker_op list" where
  "demo_busy_run =
     (let give = [Scan demo_view 11 ''b1'', Offer (\<lambda>_. None) 11 demo_offer, Offer (\<lambda>_. None) 11 demo_offer,
             Offer (\<lambda>_. None) 11 demo_offer];
          later = [Scan demo_view 500 ''b1'', Offer (\<lambda>_. None) 500 demo_offer, Offer (\<lambda>_. None) 500 demo_offer,
             Offer (\<lambda>_. None) 500 demo_offer]
      in [Submit demo_submission] @ give @ [Begin (''b1'', 0) 12 Peer_gone] @ later
         @ [Cancel 600 (\<lambda>_. None) ''other'', Begin (''b1'', 1) 601 (Refused None ''bad reference''), Restart_hub 700])"

lemma demo_busy_counts:
  "dispatches demo_context (''b1'', 0) demo_busy_run = 2 \<and> refusals demo_context (''b1'', 0) demo_busy_run = 1
   \<and> lost_attempts demo_context (''b1'', 0) demo_busy_run = 0"
  by code_simp

theorem dispatches_bounded_witness:
  "dispatches demo_context (''b1'', 0) demo_busy_run = 2
   \<and> dispatches demo_context (''b1'', 0) demo_busy_run \<le> 3 + 8 + int (restarts demo_busy_run) + 1"
  using demo_busy_counts dispatches_bounded [OF demo_registry, of "(''b1'', 0)" demo_busy_run] by simp

end
