(* ===== verification/Broker_Contracts.thy ===== *)
theory Broker_Contracts
  imports Broker_Safety
begin

text \<open>
  Contracts of the broker's parts: the circuit breakers against a reference reading of their history,
  the persistence and the recheck of a paused model, the memory gate before dispatch, the turns of the
  auxiliary lanes, the order of the queue, the fence around accepted voice work, cancellation, the
  telemetry whitelist and the counters of the batch summary.
\<close>

section \<open>The circuit of a machine\<close>

datatype worker_event = Worker_failed time string | Worker_answered time

fun circuit_step :: "string \<times> worker_event \<Rightarrow> protections \<Rightarrow> protections" where
  "circuit_step (m, Worker_failed t msg) ps = fst (mark_machine_failure t m msg ps)"
| "circuit_step (m, Worker_answered t) ps = fst (mark_machine_success t m ps)"

text \<open>The reference: the failures of a machine since its last answer, the newest first.\<close>

fun failure_times :: "string \<Rightarrow> (string \<times> worker_event) list \<Rightarrow> time list" where
  \<comment> \<open>of a history with the newest event first\<close>
  "failure_times m [] = []"
| "failure_times m ((m', Worker_failed t msg) # h) = (if m' = m then t # failure_times m h else failure_times m h)"
| "failure_times m ((m', Worker_answered t) # h) = (if m' = m then [] else failure_times m h)"

definition quarantined :: "time \<Rightarrow> time list \<Rightarrow> bool" where
  "quarantined now fails \<longleftrightarrow> (case fails of t # _ # _ \<Rightarrow> now < t + 120 | _ \<Rightarrow> False)"

definition circuit_matches :: "protections \<Rightarrow> (string \<times> worker_event) list \<Rightarrow> bool" where
  "circuit_matches ps h \<longleftrightarrow> (\<forall>m.
     pt_failures (protection_of m ps) = length (failure_times m h)
     \<and> pt_cooldown (protection_of m ps)
       = (case failure_times m h of t # _ # _ \<Rightarrow> Some (t + 120) | _ \<Rightarrow> None))"

lemma protection_failure:
  "protection_of m' (fst (mark_machine_failure t m msg ps)) =
     (if m' = m then (let p = protection_of m ps in
        p\<lparr>pt_failures := pt_failures p + 1, pt_reason := Some (take 240 msg), pt_last_failure := Some t,
          pt_cooldown := (if pt_failures p + 1 < 2 then pt_cooldown p else Some (t + 120))\<rparr>)
      else protection_of m' ps)"
  by (simp add: mark_machine_failure_def protection_of_def Let_def machine_failure_threshold_def machine_cooldown_s_def)

lemma protection_success:
  "pt_failures (protection_of m' (fst (mark_machine_success t m ps))) =
     (if m' = m then 0 else pt_failures (protection_of m' ps))"
  "pt_cooldown (protection_of m' (fst (mark_machine_success t m ps))) =
     (if m' = m then None else pt_cooldown (protection_of m' ps))"
  by (auto simp: mark_machine_success_def protection_of_def new_protection_def Let_def split: option.split)

lemma circuit_matches_step:
  assumes "circuit_matches ps h"
  shows "circuit_matches (circuit_step e ps) (e # h)"
proof -
  obtain m ev where e: "e = (m, ev)" by (cases e)
  show ?thesis
    using assms unfolding e circuit_matches_def
    by (cases ev) (auto simp: protection_failure protection_success Let_def split: list.splits)
qed

lemma circuit_matches_run: "circuit_matches (fold circuit_step es []) (rev es)"
proof (induction es rule: rev_induct)
  case Nil
  then show ?case by (simp add: circuit_matches_def protection_of_def new_protection_def)
next
  case (snoc e es)
  then show ?case using circuit_matches_step by simp
qed

text \<open>The machine circuit agrees with the plain reading of its history: after any sequence of
  worker failures and answers on any machines, a machine is excluded from dispatch exactly when it has
  failed at least twice since its last answer and the last failure is less than 120 seconds old.  In
  particular one lone failure never excludes a machine, and an answer readmits it at once.\<close>

theorem machine_circuit_matches_history:
  assumes "0 \<le> now"
  shows "machine_blocked now m (fold circuit_step es []) = quarantined now (failure_times m (rev es))"
proof -
  have "pt_cooldown (protection_of m (fold circuit_step es []))
      = (case failure_times m (rev es) of t # _ # _ \<Rightarrow> Some (t + 120) | _ \<Rightarrow> None)"
    using circuit_matches_run [of es] by (simp add: circuit_matches_def)
  moreover have "cooldown_until m ps = (case pt_cooldown (protection_of m ps) of None \<Rightarrow> 0 | Some u \<Rightarrow> u)" for ps
    by (simp add: cooldown_until_def protection_of_def new_protection_def split: option.split)
  ultimately show ?thesis
    using assms by (simp add: machine_blocked_def quarantined_def split: list.split)
qed

theorem machine_circuit_matches_history_witness:
  "machine_blocked 200 ''a'' (fold circuit_step [(''a'', Worker_failed 90 ''x''), (''b'', Worker_answered 95), (''a'', Worker_failed 100 ''y'')] [])
   \<and> \<not> machine_blocked 220 ''a'' (fold circuit_step [(''a'', Worker_failed 90 ''x''), (''b'', Worker_answered 95), (''a'', Worker_failed 100 ''y'')] [])"
  using machine_circuit_matches_history [of 200 "''a''" "[(''a'', Worker_failed 90 ''x''), (''b'', Worker_answered 95), (''a'', Worker_failed 100 ''y'')]"]
    machine_circuit_matches_history [of 220 "''a''" "[(''a'', Worker_failed 90 ''x''), (''b'', Worker_answered 95), (''a'', Worker_failed 100 ''y'')]"]
  by (simp add: quarantined_def)

section \<open>The circuit of a model\<close>

record model_failure =
  mf_now :: time
  mf_studio :: string
  mf_model :: string
  mf_revision :: "string option"
  mf_code :: string
  mf_reason :: string

definition model_step :: "model_failure \<Rightarrow> model_protections \<Rightarrow> model_protections" where
  "model_step f ps = fst (mark_model_failure (mf_now f) (mf_studio f) (mf_model f) (mf_revision f) (mf_code f) (mf_reason f) ps)"

definition rows_keyed :: "model_protections \<Rightarrow> bool" where
  "rows_keyed ps \<longleftrightarrow> distinct (map fst ps) \<and> (\<forall>(k, r)\<in>set ps. k = (mr_studio r, mr_model r))"

lemma set_dset: "set (dset k v d) \<subseteq> insert (k, v) (set d)"
  by (induction d) auto

lemma rows_keyed_dset: "rows_keyed ps \<Longrightarrow> k = (mr_studio r, mr_model r) \<Longrightarrow> rows_keyed (dset k r ps)"
  using set_dset [of k r ps] by (auto simp: rows_keyed_def intro: distinct_dset)

lemma rows_keyed_step: "rows_keyed ps \<Longrightarrow> rows_keyed (model_step f ps)"
  by (auto simp: model_step_def mark_model_failure_def Let_def intro!: rows_keyed_dset)

lemma rows_keyed_dpop: "rows_keyed ps \<Longrightarrow> rows_keyed (dpop k ps)"
  by (auto simp: rows_keyed_def AList.delete_eq distinct_map_filter)

lemma rows_keyed_recheck: "rows_keyed ps \<Longrightarrow> recheck_model_protection s m pr e ps = Some ps' \<Longrightarrow> rows_keyed ps'"
  by (auto simp: recheck_model_protection_def rows_keyed_dpop split: option.splits if_splits)

lemma dupdate_fresh:
  "distinct (map fst (d @ e)) \<Longrightarrow> dupdate d e = d @ e"
proof (induction e arbitrary: d)
  case Nil
  then show ?case by (simp add: dupdate_def)
next
  case (Cons p e)
  obtain k v where p: "p = (k, v)" by (cases p)
  have "k \<notin> set (map fst d)" using Cons.prems by (auto simp: p)
  then have "dset k v d = d @ [(k, v)]" by (induction d) auto
  moreover have "dupdate (d @ [(k, v)]) e = (d @ [(k, v)]) @ e"
    using Cons.prems by (intro Cons.IH) (simp add: p)
  ultimately show ?case by (simp add: dupdate_def p)
qed

text \<open>A step of the protections: a failure, or a recheck by the operator (with the row seen before the
  worker was asked and its answer).\<close>

datatype model_event = Model_failed model_failure | Rechecked string string "model_row option" "jdict option"

fun protect_step :: "model_event \<Rightarrow> model_protections \<Rightarrow> model_protections" where
  "protect_step (Model_failed f) ps = model_step f ps"
| "protect_step (Rechecked s m seen entry) ps =
     (case recheck_model_protection s m seen entry ps of None \<Rightarrow> ps | Some ps' \<Rightarrow> ps')"

interpretation model_rows: invariant_machine protect_step rows_keyed "[]"
proof unfold_locales
  show "rows_keyed ps \<Longrightarrow> rows_keyed (protect_step e ps)" for ps e
    by (cases e) (auto simp: rows_keyed_step rows_keyed_recheck split: option.split)
qed (simp add: rows_keyed_def)

text \<open>The model protections survive a restart of the Hub: whatever failures and rechecks led to
  them, loading the saved rows gives back exactly the protections that were saved, so a paused model
  stays paused.\<close>

theorem model_protections_survive_restart:
  "load_model_protection (save_model_protection (fold protect_step es [])) = fold protect_step es []"
proof -
  let ?ps = "fold protect_step es []"
  have k: "rows_keyed ?ps" by (rule model_rows.reachable_holds)
  then have "map (\<lambda>r. ((mr_studio r, mr_model r), r)) (map snd ?ps) = ?ps"
    unfolding rows_keyed_def map_map by (intro map_idI) (auto simp: o_def)
  moreover have "dupdate [] ?ps = ?ps" using dupdate_fresh [of "[]" ?ps] k by (simp add: rows_keyed_def)
  ultimately show ?thesis by (simp only: load_model_protection_def save_model_protection_def)
qed

definition paused :: "string \<Rightarrow> string \<Rightarrow> model_protections \<Rightarrow> bool" where
  "paused s m ps \<longleftrightarrow> (case dget ps (s, m) of None \<Rightarrow> False | Some r \<Rightarrow> mr_blocked r)"

lemma paused_step: "paused s m ps \<Longrightarrow> paused s m (model_step f ps)"
  by (auto simp: paused_def model_step_def mark_model_failure_def Let_def split: option.splits)

lemma recheck_other:
  "recheck_model_protection s m seen entry ps = Some ps' \<Longrightarrow> k \<noteq> (s, m) \<Longrightarrow> dget ps' k = dget ps k"
  by (auto simp: recheck_model_protection_def split: option.splits if_splits)

text \<open>A paused model stays paused: whatever failures of any models follow and whichever other
  models are rechecked, its studio is offered no work for it, until a recheck of exactly this model on
  this studio succeeds.\<close>

theorem paused_until_rechecked:
  assumes "paused s m ps" and "\<forall>e\<in>set es. case e of Rechecked s' m' _ _ \<Rightarrow> (s', m') \<noteq> (s, m) | _ \<Rightarrow> True"
  shows "\<exists>note. model_block_note rp s m entry (fold protect_step es ps) = Some note"
proof -
  have "paused s m (fold protect_step es ps)"
    using assms
  proof (induction es arbitrary: ps)
    case Nil
    then show ?case by simp
  next
    case (Cons e es)
    have "paused s m (protect_step e ps)"
      using Cons.prems paused_step recheck_other
      by (cases e) (auto simp: paused_def split: option.splits)
    with Cons show ?case by simp
  qed
  then show ?thesis by (auto simp: model_block_note_def paused_def Let_def split: option.splits)
qed

definition demo_missing :: model_failure where
  "demo_missing = \<lparr>mf_now = 5, mf_studio = ''voice'', mf_model = ''m'', mf_revision = None,
     mf_code = files_unavailable, mf_reason = ''gone''\<rparr>"

theorem paused_until_rechecked_witness:
  "\<exists>note. model_block_note (\<lambda>_. []) ''voice'' ''m'' []
     (fold protect_step [Rechecked ''voice'' ''other'' None None] (model_step demo_missing [])) = Some note"
  by (rule paused_until_rechecked) (simp_all add: paused_def model_step_def mark_model_failure_def demo_missing_def Let_def)

text \<open>A recheck loses no failure: if the worker failed on the model while its readiness was being
  read, the recheck is refused whatever the worker answered, so the newer failure stays on record.\<close>

theorem recheck_loses_no_failure:
  "recheck_model_protection s m (dget ps (s, m)) entry
     (fst (mark_model_failure now s m revision code reason ps)) = None"
proof -
  have "dget (fst (mark_model_failure now s m revision code reason ps)) (s, m) \<noteq> dget ps (s, m)"
  proof (cases "dget ps (s, m)")
    case None
    then show ?thesis by (simp add: mark_model_failure_def Let_def)
  next
    case (Some p)
    then show ?thesis
      by (cases p) (auto simp: mark_model_failure_def Let_def model_failure_window_s_def)
  qed
  then show ?thesis by (auto simp: recheck_model_protection_def split: option.split)
qed

section \<open>Memory before dispatch\<close>

definition enough_memory :: "requirement \<Rightarrow> host \<Rightarrow> rat \<Rightarrow> bool" where
  \<comment> \<open>physical memory for the model, and the live floor on top of what is reserved already\<close>
  "enough_memory m h reserved \<longleftrightarrow>
     (\<forall>need. rq_total m = Some need \<longrightarrow> fzero need \<or> \<not> flt (ho_total h) need)
     \<and> \<not> flt (fsub (ho_available h) reserved) (required_free_memory m)"

text \<open>No dispatch without memory: when a machine's telemetry is known, an item with a local
  memory requirement is assigned to it only if the newest snapshot - the one before the idle siblings
  were asked to let go, or the one read after they did - has the physical memory of the model and the
  free memory floor beyond what running tasks have reserved; and the amount then reserved is exactly
  that floor on the Hub's own machine and nothing elsewhere.\<close>

theorem dispatch_needs_memory:
  assumes "of_requirement off = Some m"
    and "of_gate off = prepare_machine_memory (Some m) (Some before) reserved handoff after"
    and "offer_verdict rp models b s off = Assign r"
  shows "(\<exists>h. (h = before \<or> after = Some h) \<and> enough_memory m h reserved)
     \<and> r = (if st_machine s = local_machine then (case required_free_memory m of Fin x \<Rightarrow> x | _ \<Rightarrow> 0) else 0)"
proof -
  have "of_gate off = Run" and r: "r = (if st_machine s = local_machine
      then (case required_free_memory m of Fin x \<Rightarrow> x | _ \<Rightarrow> 0) else 0)"
    using assms(1,3) by (auto simp: offer_verdict_def split: option.splits if_splits)
  then have "prepare_machine_memory (Some m) (Some before) reserved handoff after = Run" using assms(2) by simp
  then have "\<exists>h. (h = before \<or> after = Some h) \<and> memory_gate m h reserved = Run"
    unfolding prepare_Run by blast
  with r show ?thesis by (auto simp: memory_gate_Run enough_memory_def)
qed

definition demo_need :: requirement where
  "demo_need = \<lparr>rq_total = Some (Fin 8), rq_free = Some (Fin 3)\<rparr>"

definition demo_before :: host where
  "demo_before = \<lparr>ho_total = Fin 16, ho_available = Fin 2\<rparr>"

definition demo_after :: host where
  "demo_after = \<lparr>ho_total = Fin 16, ho_available = Fin 6\<rparr>"

definition demo_handoff :: handoff where
  "demo_handoff = \<lparr>hf_attempted = 1, hf_released = 1, hf_busy = [], hf_failed = [], hf_deferred = False\<rparr>"

definition demo_memory_offer :: offer where
  "demo_memory_offer = \<lparr>of_entry = Some [], of_cached = True, of_requirement = Some demo_need,
     of_gate = prepare_machine_memory (Some demo_need) (Some demo_before) 1 demo_handoff (Some demo_after),
     of_machine_busy = False, of_generation = None, of_still_ready = True\<rparr>"

lemma demo_assigned:
  "offer_verdict (\<lambda>_. []) [] (new_batch \<lparr>sb_id = ''b'', sb_now = 0, sb_client_request = None, sb_fingerprint = None,
     sb_execution = None, sb_modality = ''image'', sb_model = ''m'', sb_shared = JNull, sb_routing = ''pool'',
     sb_label = JNull, sb_webhook = False, sb_item_webhook = False, sb_items = []\<rparr>)
     \<lparr>st_id = ''image'', st_machine = ''local'', st_modality = ''image''\<rparr> demo_memory_offer = Assign 3"
  by code_simp

theorem dispatch_needs_memory_witness:
  "\<exists>h. (h = demo_before \<or> Some demo_after = Some h) \<and> enough_memory demo_need h 1"
  using dispatch_needs_memory [OF _ _ demo_assigned, of demo_need demo_before 1 demo_handoff "Some demo_after"]
  by (simp add: demo_memory_offer_def)

section \<open>Turns of the auxiliary lanes\<close>

text \<open>The chat and transcription lanes share a machine fairly: while both have work, exactly one
  of them may dispatch to a given machine unless no turn has been taken there yet, when both may; the
  lane that has just dispatched, or was found short of memory, must let the other go first; other
  machines are not affected; and a lane whose neighbour has no work is never held back.\<close>

theorem lanes_take_turns:
  assumes "lane \<in> set external_lanes"
    and "note_external_dispatch machine lane ts = Some ts' \<or> note_external_memory_block machine lane ts = Some ts'"
  shows "external_dispatch_allowed machine lane True ts' = Some False
     \<and> external_dispatch_allowed machine (other_lane lane) True ts' = Some True
     \<and> (\<forall>m l w. m \<noteq> machine \<longrightarrow> external_dispatch_allowed m l w ts' = external_dispatch_allowed m l w ts)
     \<and> (\<forall>m. \<forall>l\<in>set external_lanes. external_dispatch_allowed m l False ts' = Some True)"
  using assms
  by (auto simp: note_external_dispatch_def note_external_memory_block_def external_dispatch_allowed_def
      external_lanes_def other_lane_def split: if_splits)

theorem lanes_take_turns_witness:
  "external_dispatch_allowed ''mini'' ''chat'' True [(''mini'', ''transcription'')] = Some False
   \<and> external_dispatch_allowed ''mini'' ''transcription'' True [(''mini'', ''transcription'')] = Some True"
  using lanes_take_turns [of "''chat''" "''mini''" "[]" "[(''mini'', ''transcription'')]"]
  by (simp add: note_external_dispatch_def external_lanes_def other_lane_def)

section \<open>Order of the queue\<close>

text \<open>The dispatch loop looks at every batch with queued work exactly once per pass, and at
  renders before audio and audio before everything else; within a class it comes first to the batch
  whose model needs the larger machine.  So queued audio is always offered a free worker before queued
  images are, and no queued batch is left out of the pass.\<close>

theorem queue_order:
  "mset (queued_batches need all) = mset (filter has_queued all)
   \<and> sorted (map (\<lambda>b. modality_priority (ba_modality b)) (queued_batches need all))
   \<and> (\<forall>i j. i < j \<and> j < length (queued_batches need all)
        \<and> modality_priority (ba_modality (queued_batches need all ! i)) = modality_priority (ba_modality (queued_batches need all ! j))
      \<longrightarrow> descending (need (queued_batches need all ! i)) \<le> descending (need (queued_batches need all ! j)))"
proof -
  let ?q = "queued_batches need all"
  have sorted: "sorted (map (queue_key need) ?q)" by (simp add: queued_batches_def)
  have le: "queue_key need (?q ! i) \<le> queue_key need (?q ! j)" if "i < j" "j < length ?q" for i j
    using sorted_nth_mono [OF sorted, of i j] that by simp
  have "sorted (map (\<lambda>b. modality_priority (ba_modality b)) ?q)"
    unfolding sorted_iff_nth_mono_less
  proof (intro allI impI)
    fix i j assume "i < j" "j < length (map (\<lambda>b. modality_priority (ba_modality b)) ?q)"
    then show "map (\<lambda>b. modality_priority (ba_modality b)) ?q ! i \<le> map (\<lambda>b. modality_priority (ba_modality b)) ?q ! j"
      using le [of i j] by (simp add: queue_key_def less_eq_prod_def) auto
  qed
  moreover have "descending (need (?q ! i)) \<le> descending (need (?q ! j))"
    if "i < j" "j < length ?q" "modality_priority (ba_modality (?q ! i)) = modality_priority (ba_modality (?q ! j))" for i j
    using le [OF that(1,2)] that(3) by (auto simp: queue_key_def less_eq_prod_def less_le_not_le)
  moreover have "mset ?q = mset (filter has_queued all)" by (simp add: queued_batches_def)
  ultimately show ?thesis by blast
qed

definition demo_batch :: "string \<Rightarrow> batch" where
  "demo_batch m = new_batch \<lparr>sb_id = m, sb_now = 0, sb_client_request = None, sb_fingerprint = None,
     sb_execution = None, sb_modality = m, sb_model = ''m'', sb_shared = JNull, sb_routing = ''pool'',
     sb_label = JNull, sb_webhook = False, sb_item_webhook = False, sb_items = [[(''prompt'', JStr ''p'')]]\<rparr>"

lemma demo_queue:
  "map ba_modality (queued_batches (\<lambda>_. Fin 0) [demo_batch ''image'', demo_batch ''voice'']) = [''voice'', ''image'']"
  by code_simp

theorem queue_order_witness:
  "map ba_modality (queued_batches (\<lambda>_. Fin 0) [demo_batch ''image'', demo_batch ''voice'']) = [''voice'', ''image'']
   \<and> sorted (map (\<lambda>b. modality_priority (ba_modality b)) (queued_batches (\<lambda>_. Fin 0) [demo_batch ''image'', demo_batch ''voice'']))"
  using queue_order [of "\<lambda>_. Fin 0" "[demo_batch ''image'', demo_batch ''voice'']"] demo_queue by blast

section \<open>Accepted voice work\<close>

lemma find_finish_task:
  assumes "task_item t st = Some it"
  shows "\<exists>it'. task_item t (finish_task now t st) = Some it' \<and> it_state it' = it_state it \<and> it_job it' = it_job it
     \<and> it_tries it' = it_tries it"
proof -
  let ?f = "release_item \<circ> terminal_defaults now (tk_studio t) (tk_started t)"
  have 1: "task_item t (on_item t ?f st) = Some (?f it)"
    using assms by (simp add: task_item_def on_item_def find_item_map_item)
  let ?g = "\<lambda>b it. fst (post_item_webhook b it)"
  define s1 where "s1 = (on_item t ?f st)\<lparr>br_busy := removeAll (st_id (tk_studio t)) (br_busy (on_item t ?f st)),
     br_reserved := max 0 (br_reserved (on_item t ?f st) - it_reserved it),
     br_tasks := filter (\<lambda>u. task_key u \<noteq> task_key t) (br_tasks (on_item t ?f st))\<rparr>"
  have s1: "find_item s1 (tk_batch t) (tk_index t) = Some (?f it)"
    using 1 find_item_cong [of s1 "on_item t ?f st"] by (simp add: s1_def task_item_def)
  then obtain b where b: "batch_of s1 (tk_batch t) = Some b" "item_of (tk_index t) b = Some (?f it)"
    by (auto simp: find_item_def split: Option.bind_splits)
  have post: "find_item (notify_item (tk_batch t) (tk_index t) s1) (tk_batch t) (tk_index t) = Some (?g b (?f it))"
    using b by (simp add: notify_item_def find_item_def batch_of_map_batch item_of_update_item post_item_webhook_def)
  have keep: "find_item (finish_batch now bid s) bid' i = find_item s bid' i" for bid bid' i s
    by (auto simp: finish_batch_def find_item_def batch_of_map_batch maybe_finish_def item_of_def Let_def split: Option.bind_split option.splits)
  have "finish_task now t st = finish_batch now (tk_batch t) (notify_item (tk_batch t) (tk_index t) s1)"
    using assms by (simp add: finish_task_def s1_def Let_def)
  then show ?thesis
    using post keep by (simp add: task_item_def post_item_webhook_def release_item_def terminal_defaults_def)
qed

text \<open>C29: Accepted voice work is never sent twice after a lost connection: when a voice item has the
  identity of an accepted worker job and the attempt ends in a transport failure that could not be
  reconciled, the item is fenced as uncertain - or left as recovery already marked it - keeps that job
  identity and its attempt count, and is not put back on the queue.\<close>

theorem accepted_voice_is_fenced:
  assumes "batch_of st (tk_batch t) = Some b" and "ba_modality b = ''voice''"
    and "task_item t st = Some it" and "it_state it \<noteq> Queued" and "str_or_empty (it_job it) \<noteq> []"
    and "is_transport_failure e (fa_message e)"
  shows "\<exists>it'. task_item t (unreconciled now e t st) = Some it'
     \<and> it_state it' = (if voice_recovery_owns it then it_state it else Uncertain)
     \<and> it_state it' \<noteq> Queued \<and> it_job it' = it_job it \<and> it_tries it' = it_tries it"
proof (cases "voice_recovery_owns it")
  case True
  then show ?thesis using find_finish_task [OF assms(3), of now] assms(3,4) by (auto simp: unreconciled_def)
next
  case False
  let ?r = "''The accepted Voice Studio job could not be reconciled; it was not retried automatically.''"
  have "task_item t (on_item t (mark_voice_uncertain now ?r) st) = Some (mark_voice_uncertain now ?r it)"
    using assms(3) by (simp add: task_item_def on_item_def find_item_map_item mark_voice_uncertain_def)
  from find_finish_task [OF this, of now] show ?thesis
    using False assms by (auto simp: unreconciled_def settle_failure_def Let_def mark_voice_uncertain_def)
qed

definition demo_voice_state :: broker where
  "demo_voice_state = (let b = demo_batch ''voice''
     in empty_broker\<lparr>br_batches := [update_item 0 (\<lambda>it. it\<lparr>it_state := Running, it_job := Some ''j1''\<rparr>) b]\<rparr>)"

definition demo_voice_task :: task where
  "demo_voice_task = \<lparr>tk_batch = ''voice'', tk_index = 0,
     tk_studio = \<lparr>st_id = ''voice'', st_machine = ''local'', st_modality = ''voice''\<rparr>, tk_started = 0, tk_phase = Polling\<rparr>"

definition demo_lost :: failure where
  "demo_lost = \<lparr>fa_message = ''gone'', fa_http_transport = True, fa_status = None, fa_model_unavailable = False,
     fa_terminal = False, fa_retryable = True\<rparr>"

lemma demo_voice:
  "map_option ba_modality (batch_of demo_voice_state ''voice'') = Some ''voice''
   \<and> map_option (\<lambda>it. (it_state it, it_job it)) (task_item demo_voice_task demo_voice_state) = Some (Running, Some ''j1'')
   \<and> tk_batch demo_voice_task = ''voice'' \<and> is_transport_failure demo_lost (fa_message demo_lost)"
  by code_simp

theorem accepted_voice_is_fenced_witness:
  "\<exists>it'. task_item demo_voice_task (unreconciled 9 demo_lost demo_voice_task demo_voice_state) = Some it'
     \<and> it_state it' \<noteq> Queued \<and> it_job it' = Some ''j1''"
proof -
  obtain b it where b: "batch_of demo_voice_state (tk_batch demo_voice_task) = Some b" "ba_modality b = ''voice''"
    and it: "task_item demo_voice_task demo_voice_state = Some it" "it_state it = Running" "it_job it = Some ''j1''"
    using demo_voice by auto
  show ?thesis
    using accepted_voice_is_fenced [OF b it(1) _ _ conjunct2 [OF conjunct2 [OF conjunct2 [OF demo_voice]]], of 9] it
    by (auto simp: str_or_empty_def)
qed

definition held_back :: "item \<Rightarrow> item \<Rightarrow> bool" where
  "held_back it it' \<longleftrightarrow> it_index it' = it_index it \<and> it_job it' = it_job it \<and> it_state it' \<notin> {Running, Cancel_requested}
     \<and> (it_state it' = Queued \<longrightarrow> it_state it = Queued)"

lemma list_all2_map_right: "(\<And>x. P x (f x)) \<Longrightarrow> list_all2 P xs (map f xs)"
  by (induction xs) auto

text \<open>A restart replays no voice work that the ledger knew to be running: every voice batch the
  Hub reloads is one of the ledger, and each of its items waits in the queue only if the saved item
  did; an item saved as running or cancelling comes back uncertain (or cancelled when its lease is
  over) with the identity of its worker job.\<close>

theorem restart_fences_voice:
  assumes "b' \<in> set (br_batches (restore_batches c now st))" and "ba_modality b' = ''voice''"
  shows "\<exists>b\<in>set (br_ledger st). ba_id b' = ba_id b \<and> list_all2 held_back (ba_items b) (ba_items b')"
proof -
  obtain b where b: "b \<in> set (br_ledger st)" and b': "b' = restored_batch c now b"
    using assms(1) by (auto simp: restore_batches_def Let_def)
  have "ba_id b' = ba_id b \<and> list_all2 held_back (ba_items b) (ba_items b')"
  proof (cases "\<exists>x. expire_genstudio_batch (dc_exec c) now b = Inr (x, True)")
    case True
    then show ?thesis
      by (auto simp: b' restored_batch_def expire_genstudio_batch_def update_where_def in_flight_def held_back_def
          expire_item_def split: sum.splits if_splits intro!: list_all2_map_right)
  next
    case False
    then have e: "restored_batch c now b = b\<lparr>ba_items := map (restored_item now b) (ba_items b)\<rparr>"
      by (simp add: restored_batch_def split: sum.split prod.split bool.split)
    then have "ba_modality b = ''voice''" using assms(2) by (simp add: b')
    then show ?thesis
      by (auto simp: b' e held_back_def restored_item_def mark_voice_uncertain_def intro!: list_all2_map_right)
  qed
  with b show ?thesis by blast
qed

definition demo_restarted :: broker where
  "demo_restarted = restore_batches \<lparr>dc_registry = [], dc_text = \<lparr>th_float = (\<lambda>_. None), th_repr = (\<lambda>_. '''')\<rparr>,
      dc_exec = \<lparr>eh_site = [], eh_sha256 = (\<lambda>s. s), eh_iso = (\<lambda>_. Not_iso), eh_repr = (\<lambda>_. []), eh_float = (\<lambda>_. [])\<rparr>,
      dc_sanitize = (\<lambda>s. s)\<rparr> 9 (demo_voice_state\<lparr>br_ledger := br_batches demo_voice_state\<rparr>)"

lemma demo_restarted_batches:
  "map (\<lambda>b. (ba_modality b, map it_state (ba_items b))) (br_batches demo_restarted) = [(''voice'', [Uncertain])]"
  by code_simp

theorem restart_fences_voice_witness:
  "\<exists>b'\<in>set (br_batches demo_restarted). \<exists>b\<in>set (br_batches demo_voice_state).
     ba_id b' = ba_id b \<and> list_all2 held_back (ba_items b) (ba_items b')"
proof -
  obtain b' where b': "b' \<in> set (br_batches demo_restarted)" "ba_modality b' = ''voice''"
    using demo_restarted_batches by (cases "br_batches demo_restarted") auto
  show ?thesis
    using restart_fences_voice [OF b'(1) [unfolded demo_restarted_def] b'(2)] b'(1) by auto
qed

section \<open>Cancellation\<close>

lemma lookup_save_row:
  "select_first (\<lambda>r. ba_id r = k) (save_row b rows) =
     (if k = ba_id b then Some b else select_first (\<lambda>r. ba_id r = k) rows)"
proof (cases "list_ex (\<lambda>r. ba_id r = ba_id b) rows")
  case True
  then have "select_first (\<lambda>r. ba_id r = ba_id b) rows \<noteq> None" unfolding select_first_None by (auto simp: list_ex_iff)
  with True show ?thesis
    using batch_rows.lookup_update_where [of "ba_id b" "\<lambda>_. b" k rows] by (auto simp: save_row_def upsert_def)
next
  case False
  have "select_first (\<lambda>r. ba_id r = k) (rows @ [b]) = (case select_first (\<lambda>r. ba_id r = k) rows of
      None \<Rightarrow> if ba_id b = k then Some b else None | Some r \<Rightarrow> Some r)"
    unfolding select_first_def by (induction rows) auto
  moreover have "select_first (\<lambda>r. ba_id r = ba_id b) rows = None"
    using False by (auto simp: select_first_None list_ex_iff)
  ultimately show ?thesis using False by (auto simp: save_row_def upsert_def split: option.split)
qed

lemma maybe_finish_simps [simp]:
  "ba_id (fst (maybe_finish now b)) = ba_id b" "ba_items (fst (maybe_finish now b)) = ba_items b"
  "ba_cancelled (fst (maybe_finish now b)) = ba_cancelled b"
  by (simp_all add: maybe_finish_def Let_def)

definition cancel_effect :: "item \<Rightarrow> item \<Rightarrow> bool" where
  "cancel_effect it it' \<longleftrightarrow> it_index it' = it_index it \<and> it_tries it' = it_tries it \<and> it_asset it' = it_asset it
     \<and> it_state it' = (if it_state it = Queued then Cancelled else it_state it)"

text \<open>Cancelling a batch cancels exactly its waiting items: afterwards the batch is marked
  cancelled, none of its items is queued, running and finished items keep their state, attempt count
  and asset, every other batch is untouched, and the saved copy is the one in memory.\<close>

theorem cancel_cancels_waiting:
  assumes "batch_of st bid = Some b"
  shows "\<exists>b'. batch_of (cancel_batch now answers bid st) bid = Some b' \<and> ba_cancelled b'
     \<and> list_all2 cancel_effect (ba_items b) (ba_items b')
     \<and> select_first (\<lambda>r. ba_id r = bid) (br_ledger (cancel_batch now answers bid st)) = Some b'
     \<and> (\<forall>k. k \<noteq> bid \<longrightarrow> batch_of (cancel_batch now answers bid st) k = batch_of st k)"
proof -
  define signal :: "item \<Rightarrow> item" where "signal = (\<lambda>it. if it_state it = Running \<and> str_or_empty (it_studio it) \<noteq> [] \<and> str_or_empty (it_job it) \<noteq> []
      then (case answers (it_index it) of
          None \<Rightarrow> it\<lparr>it_cancel_sent := Some now, it_cancel_error := None\<rparr>
        | Some e \<Rightarrow> it\<lparr>it_cancel_error := Some e\<rparr>)
      else it)"
  define signalled :: "batch \<Rightarrow> batch" where "signalled = (\<lambda>b. b\<lparr>ba_items := map signal (ba_items b)\<rparr>)"
  define notify :: "batch \<Rightarrow> batch" where "notify = (\<lambda>b. b\<lparr>ba_items := map (\<lambda>it. if it_state it = Cancelled
      then fst (post_item_webhook b it) else it) (ba_items b)\<rparr>)"
  define finish :: "batch \<Rightarrow> batch" where "finish = (\<lambda>b. fst (maybe_finish now b))"
  define final where "final = map_batch bid finish (map_batch bid (notify \<circ> signalled) (save_batch bid (map_batch bid cancel_queued st)))"
  have run: "cancel_batch now answers bid st = save_batch bid final"
    by (simp add: cancel_batch_def assms final_def signal_def signalled_def notify_def finish_def finish_batch_def Let_def)
  define b' where "b' = finish (notify (signalled (cancel_queued b)))"
  have ids: "ba_id (cancel_queued x) = ba_id x" "ba_id (notify x) = ba_id x" "ba_id (signalled x) = ba_id x"
      "ba_id (finish x) = ba_id x" for x
    by (simp_all add: cancel_queued_def notify_def signalled_def finish_def)
  have batches: "batch_of final k = (if k = bid then Some b' else batch_of st k)" for k
    using assms by (simp add: final_def batch_of_map_batch ids b'_def)
  then have led: "select_first (\<lambda>r. ba_id r = bid) (br_ledger (save_batch bid final)) = Some b'"
    using batch_of_key [of final bid b'] by (simp add: save_batch_def lookup_save_row)
  have effect: "cancel_effect it (if it_state (signal it2) = Cancelled then fst (post_item_webhook x (signal it2)) else signal it2)"
    if "it2 = (if it_state it = Queued then cancel_queued_item it else it)" for it it2 x
    using that by (auto simp: cancel_effect_def signal_def post_item_webhook_def cancel_queued_item_def split: option.split)
  have "list_all2 cancel_effect xs (map (\<lambda>it. if it_state it = Cancelled then fst (post_item_webhook x it) else it)
      (map signal (update_where (\<lambda>it. it_state it = Queued) cancel_queued_item xs)))" for xs x
    unfolding update_where_def map_map o_def by (rule list_all2_map_right) (rule effect [OF refl])
  then have "list_all2 cancel_effect (ba_items b) (ba_items b')"
    by (simp add: b'_def finish_def notify_def signalled_def cancel_queued_def del: map_map)
  moreover have "ba_cancelled b'" by (simp add: b'_def finish_def notify_def signalled_def cancel_queued_def)
  ultimately show ?thesis using batches led run by auto
qed

theorem cancel_cancels_waiting_witness:
  "\<exists>b'. batch_of (cancel_batch 9 (\<lambda>_. None) ''voice'' demo_voice_state) ''voice'' = Some b' \<and> ba_cancelled b'"
proof -
  obtain b where "batch_of demo_voice_state ''voice'' = Some b" using demo_voice by auto
  from cancel_cancels_waiting [OF this, of 9 "\<lambda>_. None"] show ?thesis by blast
qed

section \<open>Telemetry\<close>

definition safe_value :: "json \<Rightarrow> bool" where
  \<comment> \<open>no free text and no nested data: nothing, a flag, a finite number or one of a fixed list of words\<close>
  "safe_value v \<longleftrightarrow> (case v of
       JNull \<Rightarrow> True | JBool _ \<Rightarrow> True | JInt _ \<Rightarrow> True | JFloat _ \<Rightarrow> True
     | JStr w \<Rightarrow> w \<in> set (pressure_levels @ outcome_states) | _ \<Rightarrow> False)"

definition safe_usage :: "jdict \<Rightarrow> bool" where
  "safe_usage d \<longleftrightarrow> (\<forall>k v. dget d k = Some v \<longrightarrow>
       (k = ''schema'' \<and> v \<in> set (map JStr usage_schemas)) \<or> (k = ''schema_version'' \<and> v = JInt 1)
     \<or> (\<exists>names vals. dget usage_fields k = Some names \<and> v = JObj vals
          \<and> (\<forall>(f, x)\<in>set vals. f \<in> set names \<and> safe_value x)))"

lemma keep_usage_safe: "keep_usage sect key v \<Longrightarrow> safe_value v"
  by (cases v) (auto simp: keep_usage_def safe_value_def split: if_splits)

lemma safe_section:
  assumes "safe_usage d" and "dget usage_fields sect = Some names"
  shows "safe_usage (dset sect (JObj (clean_section sect names vals)) d)"
proof -
  have "\<forall>(f, x)\<in>set (clean_section sect names vals). f \<in> set names \<and> safe_value x"
    by (auto simp: clean_section_def keep_usage_safe)
  then show ?thesis using assms by (auto simp: safe_usage_def)
qed

lemma safe_sections:
  assumes "safe_usage d" and "\<forall>(sect, names)\<in>set rows. dget usage_fields sect = Some names"
  shows "safe_usage (foldl (\<lambda>clean (sect, names). case as_dict (jget raw sect) of
         None \<Rightarrow> clean | Some vals \<Rightarrow> dset sect (JObj (clean_section sect names vals)) clean) d rows)"
  using assms
proof (induction rows arbitrary: d)
  case Nil
  then show ?case by simp
next
  case (Cons r rows)
  then show ?case
    by (cases r) (auto simp: safe_section split: option.split)
qed

lemma usage_sections: "\<forall>(sect, names)\<in>set usage_fields. dget usage_fields sect = Some names"
  by (simp add: usage_fields_def)

text \<open>The telemetry of a worker answer leaks nothing: whatever a worker sends as resource usage,
  an item afterwards has the usage it had before, or one whose every entry is a schema name of the
  Hub's own list, the version, or a known section that holds only known fields with flags, finite
  numbers or words of a fixed list - never free text, paths or nested data; and nothing else of the
  item changes.\<close>

theorem telemetry_is_whitelisted:
  assumes "record_worker_resource_usage job it = Some it'"
  shows "it' = it\<lparr>it_usage := it_usage it'\<rparr>
     \<and> (it_usage it' = it_usage it \<or> (\<exists>d. it_usage it' = Some d \<and> safe_usage d))"
proof -
  have safe: "safe_usage (clean_usage [(''schema'', s), (''schema_version'', JInt 1)] raw)"
    if "s \<in> set (map JStr usage_schemas)" for s raw
    unfolding clean_usage_def using that
    by (intro safe_sections usage_sections) (auto simp: safe_usage_def split: if_splits)
  show ?thesis
    using assms safe
    by (auto simp: record_worker_resource_usage_def Let_def split: option.splits if_splits)
qed

definition demo_usage_job :: jdict where
  "demo_usage_job = [(''resource_usage'', JObj [(''schema'', JStr ''imagestudio.resource-telemetry''),
     (''schema_version'', JInt 1), (''host'', JObj [(''total_gb'', JInt 16), (''path'', JStr ''/Users/x''),
        (''peak_pressure_level'', JStr ''secret'')]), (''command'', JStr ''rm'')])]"

lemma demo_usage:
  "map_option it_usage (record_worker_resource_usage demo_usage_job (fresh_item ''b'' ''image'' 0 []))
   = Some (Some [(''schema'', JStr ''imagestudio.resource-telemetry''), (''schema_version'', JInt 1),
        (''host'', JObj [(''total_gb'', JInt 16)])])"
  by code_simp

theorem telemetry_is_whitelisted_witness:
  "\<exists>d. record_worker_resource_usage demo_usage_job (fresh_item ''b'' ''image'' 0 [])
     = Some ((fresh_item ''b'' ''image'' 0 [])\<lparr>it_usage := Some d\<rparr>) \<and> safe_usage d"
proof -
  obtain it' where it': "record_worker_resource_usage demo_usage_job (fresh_item ''b'' ''image'' 0 []) = Some it'"
    and "it_usage it' \<noteq> None" using demo_usage by auto
  then show ?thesis using telemetry_is_whitelisted [OF it'] by (auto simp: fresh_item_def)
qed

section \<open>The counters of a batch\<close>

lemma in_state_sum:
  "length xs = count_where (\<lambda>it. it_state it = Queued) xs + count_where (\<lambda>it. it_state it = Running) xs
     + count_where (\<lambda>it. it_state it = Cancel_requested) xs + count_where (\<lambda>it. it_state it = Done) xs
     + count_where (\<lambda>it. it_state it = Errored) xs + count_where (\<lambda>it. it_state it = Cancelled) xs
     + count_where (\<lambda>it. it_state it = Uncertain) xs"
proof (induction xs)
  case Nil
  then show ?case by (simp add: count_where_def)
next
  case (Cons x xs)
  then show ?case by (cases "it_state x") (simp_all add: count_where_def)
qed

lemma retrying_le: "length (filter (is_retrying now) xs) \<le> count_where (\<lambda>it. it_state it = Queued) xs"
  unfolding count_where_def by (induction xs) (auto simp: is_retrying_def)

text \<open>The batch summary accounts for every item exactly once: its counters are non-negative and
  add up to the number of items, an item is listed as running exactly when it is counted as running,
  and a batch is reported stalled only while something of it is unfinished and it has been without a
  sign of progress for at least fifteen minutes.\<close>

theorem summary_counts_all:
  "int (su_total (batch_summary all now b)) = su_queued (batch_summary all now b)
       + int (su_retrying (batch_summary all now b)) + int (su_running (batch_summary all now b))
       + int (su_cancel_requested (batch_summary all now b)) + int (su_done (batch_summary all now b))
       + int (su_error (batch_summary all now b)) + int (su_cancelled_items (batch_summary all now b))
       + int (su_uncertain (batch_summary all now b))
   \<and> su_total (batch_summary all now b) = length (ba_items b) \<and> 0 \<le> su_queued (batch_summary all now b)
   \<and> length (su_running_items (batch_summary all now b)) = su_running (batch_summary all now b)
   \<and> \<not> (su_stalled (batch_summary all now b)
        \<and> (list_all (\<lambda>it. terminal (it_state it)) (ba_items b) \<or> su_no_progress (batch_summary all now b) = None
             \<or> the (su_no_progress (batch_summary all now b)) < 900))"
proof -
  have idle: "in_state Queued b = 0 \<and> in_state Running b = 0 \<and> in_state Cancel_requested b = 0 \<and> in_state Uncertain b = 0"
    if "list_all (\<lambda>it. terminal (it_state it)) (ba_items b)"
    using that by (auto simp: in_state_def count_where_0 list_all_iff terminal_def)
  have counts: "length (ba_items b) = in_state Queued b + in_state Running b + in_state Cancel_requested b
      + in_state Done b + in_state Errored b + in_state Cancelled b + in_state Uncertain b"
    unfolding in_state_def by (rule in_state_sum)
  have retry: "length (filter (is_retrying now) (ba_items b)) \<le> in_state Queued b"
    unfolding in_state_def by (rule retrying_le)
  have run: "length (filter (\<lambda>it. it_state it = Running) (ba_items b)) = in_state Running b"
    by (simp add: in_state_def count_where_def)
  show ?thesis
    using counts retry run idle by (auto simp: batch_summary_def Let_def)
qed

end
