(* ===== verification/Broker_Recovery.thy ===== *)
theory Broker_Recovery
  imports Broker_Steps
begin

text \<open>
  \<open>_recover_worker_job\<close> of \<open>app/backend/broker.py\<close>: after an exception the worker is asked about the
  accepted job until it answers for it or the recovery window is over.  The loop is bounded by a
  clock and not by a counter, so it is a partial function; that it returns, and after how many
  requests at most, is proved.

  A \<open>probe\<close> is what one turn of the loop meets: the wall clock, how long the request took, the answer
  (or the exception), whether adopting a finished job succeeded, and what the rest of the broker did
  while the request was pending and while the loop slept (any functions on the state).  The state
  changes of each turn are those of \<open>Broker_Run\<close>; the turn that ends the loop includes what the
  exception handler does with its answer.
\<close>

section \<open>One turn\<close>

definition poll_s :: rat where
  "poll_s = 2"

definition recovery_window_s :: rat where
  "recovery_window_s = 120"

datatype probe_answer = Lost | Answer int json

record probe =
  pb_now :: time
  pb_took :: rat
  pb_answer :: probe_answer
  pb_runtime :: rat
  pb_asset :: string
  pb_fetch :: bool
  pb_adopted :: bool
  pb_meanwhile :: "broker \<Rightarrow> broker"
  pb_fetching :: "broker \<Rightarrow> broker"
  pb_asleep :: "broker \<Rightarrow> broker"

datatype recovered = Adopted | Ended jdict | Unknown | Crashed

datatype turn = Poll_again | Back_off | Answered recovered

definition exact_job :: "string \<Rightarrow> json \<Rightarrow> jdict option" where
  \<comment> \<open>\<open>body.get("job") or {}\<close>, when it is the job that was accepted\<close>
  "exact_job job_id body = (case as_dict body of
       None \<Rightarrow> None
     | Some d \<Rightarrow> (case as_dict (jget d ''job'') of
         None \<Rightarrow> None
       | Some job \<Rightarrow> if jget job ''id'' = JStr job_id then Some job else None))"

definition failed_adoption :: "dispatch_context \<Rightarrow> probe \<Rightarrow> jdict \<Rightarrow> task \<Rightarrow> broker \<Rightarrow> broker" where
  \<comment> \<open>the part of \<open>_record_worker_success\<close> before the exception\<close>
  "failed_adoption c w job t st = (case observe_job c t job st of
       None \<Rightarrow> st
     | Some st1 \<Rightarrow> on_item t (adopt_result (pb_now w) (pb_runtime w)) st1)"

definition owned :: "task \<Rightarrow> broker \<Rightarrow> bool" where
  "owned t st = (case task_item t st of None \<Rightarrow> True | Some it \<Rightarrow> voice_recovery_owns it)"

definition adopt_found :: "dispatch_context \<Rightarrow> probe \<Rightarrow> jdict \<Rightarrow> task \<Rightarrow> broker \<Rightarrow> turn \<times> broker" where
  \<comment> \<open>the job is done\<close>
  "adopt_found c w job t st =
     (if \<not> pb_adopted w then (Back_off, failed_adoption c w job t st)
      else (let st1 = complete_job c (pb_now w) job (pb_runtime w) (pb_asset w) (pb_fetch w) t st;
                st2 = (if pb_fetch w then adopt_artifact (pb_now w) (pb_asset w) t (pb_fetching w st1) else st1)
            in (Answered (if owned t st2 then Unknown else Adopted), st2)))"

definition waiting_states :: "string list" where
  "waiting_states = [''queued'', ''running'', ''cancel_requested'']"

definition heard :: "dispatch_context \<Rightarrow> probe \<Rightarrow> failure \<Rightarrow> task \<Rightarrow> jdict \<Rightarrow> broker \<Rightarrow> turn \<times> broker" where
  \<comment> \<open>the worker answered for the accepted job\<close>
  "heard c w e t job st = (case task_item t st of
       None \<Rightarrow> (Answered Unknown, st)
     | Some it \<Rightarrow>
         (let state = jget job ''state''
          in if voice_recovery_owns it then (Answered Unknown, unreconciled (pb_now w) e t st)
             else if record_worker_resource_usage job it = None then (Back_off, proven_item job t st)
             else if state \<in> set (map JStr waiting_states) then (Poll_again, recover_waiting (pb_now w) job t st)
             else if state = JStr ''done'' \<and> \<not> truthy (jget job ''error'') then adopt_found c w job t st
             else if state \<in> {JStr ''error'', JStr ''cancelled''}
             then (Answered (Ended job), reconciled_failure c (pb_now w) job t st)
             else (Answered Unknown, unreconciled (pb_now w) e t (proven_item job t st))))"

definition recover_turn ::
  "dispatch_context \<Rightarrow> probe \<Rightarrow> string \<Rightarrow> failure \<Rightarrow> task \<Rightarrow> broker \<Rightarrow> turn \<times> broker" where
  "recover_turn c w job_id e t st = (case fence_batch c (pb_now w) (tk_batch t) st of
       Inl _ \<Rightarrow> (Answered Crashed, st)
     | Inr (st1, fenced) \<Rightarrow>
         if fenced then (Answered Unknown, unreconciled (pb_now w) e t st1)
         else (let st2 = pb_meanwhile w st1 in case pb_answer w of
             Lost \<Rightarrow> (Back_off, st2)
           | Answer status body \<Rightarrow>
               if 400 \<le> status then (Answered Unknown, unreconciled (pb_now w) e t st2)
               else if as_dict body = None then (Back_off, st2)
               else (case exact_job job_id body of
                   None \<Rightarrow> (Answered Unknown, unreconciled (pb_now w) e t st2)
                 | Some job \<Rightarrow> heard c w e t job st2)))"

section \<open>The loop\<close>

partial_function (option) recover_loop ::
  "dispatch_context \<Rightarrow> (nat \<Rightarrow> probe) \<Rightarrow> string \<Rightarrow> failure \<Rightarrow> task \<Rightarrow> rat \<Rightarrow> nat \<Rightarrow> rat \<Rightarrow> rat \<Rightarrow> broker
     \<Rightarrow> (recovered \<times> nat \<times> broker) option" where
  "recover_loop c w job_id e t deadline i clock delay st =
     (if clock < deadline
      then (case recover_turn c (w i) job_id e t st of
          (Answered r, st1) \<Rightarrow> Some (r, Suc i, st1)
        | (Poll_again, st1) \<Rightarrow> recover_loop c w job_id e t deadline (Suc i)
            (clock + pb_took (w i) + poll_s) delay (pb_asleep (w i) st1)
        | (Back_off, st1) \<Rightarrow> recover_loop c w job_id e t deadline (Suc i)
            (clock + pb_took (w i) + delay) (min (delay * 2) 8) (pb_asleep (w i) st1))
      else Some (Unknown, i, unreconciled (pb_now (w i)) e t st))"

definition recover_worker_job ::
  "dispatch_context \<Rightarrow> (nat \<Rightarrow> probe) \<Rightarrow> rat \<Rightarrow> failure \<Rightarrow> task \<Rightarrow> broker \<Rightarrow> (recovered \<times> nat \<times> broker) option" where
  "recover_worker_job c w clock e t st = (case (batch_of st (tk_batch t), task_item t st) of
       (Some b, Some it) \<Rightarrow>
         if str_or_empty (it_job it) = [] \<or> ba_cancelled b then Some (Unknown, 0, unreconciled (pb_now (w 0)) e t st)
         else recover_loop c w (str_or_empty (it_job it)) e t (clock + recovery_window_s) 0 clock 1 st
     | _ \<Rightarrow> Some (Unknown, 0, st))"

section \<open>It returns\<close>

text \<open>Every turn but one sleeps two seconds or more: the delay is one second until the first back-off.\<close>

definition turns_bounded :: "rat \<Rightarrow> nat \<Rightarrow> rat \<Rightarrow> rat \<Rightarrow> bool" where
  "turns_bounded start i clock delay \<longleftrightarrow> 1 \<le> delay
     \<and> (if delay < 2 then start + 2 * of_nat i \<le> clock else start + 2 * of_nat i - 1 \<le> clock)"

lemma turns_bounded_poll:
  "turns_bounded start i clock delay \<Longrightarrow> 0 \<le> took \<Longrightarrow> turns_bounded start (Suc i) (clock + took + poll_s) delay"
  by (auto simp: turns_bounded_def poll_s_def split: if_splits)

lemma turns_bounded_back_off:
  "turns_bounded start i clock delay \<Longrightarrow> 0 \<le> took
     \<Longrightarrow> turns_bounded start (Suc i) (clock + took + delay) (min (delay * 2) 8)"
  by (auto simp: turns_bounded_def min_def split: if_splits)

lemma recover_turn_answer:
  assumes "recover_turn c p job_id e t st = (Answered r, st1)" "r \<in> {Adopted, Ended job}"
  shows "\<exists>status body. pb_answer p = Answer status body \<and> status < 400 \<and> exact_job job_id body \<noteq> None"
  using assms
  by (auto simp: recover_turn_def Let_def split: sum.splits prod.splits if_splits probe_answer.splits option.splits)

lemma recover_loop_returns:
  assumes took: "\<And>i. 0 \<le> pb_took (w i)"
    and "turns_bounded start i clock delay" "i \<le> 61" "i + n = 62"
  shows "\<exists>r m st'. recover_loop c w job_id e t (start + recovery_window_s) i clock delay st = Some (r, m, st') \<and> m \<le> 61
     \<and> (r \<in> {Unknown, Crashed} \<or> (\<exists>j<m. \<exists>status body. pb_answer (w j) = Answer status body \<and> exact_job job_id body \<noteq> None))"
  using assms(2-)
proof (induction n arbitrary: i clock delay st)
  case 0
  then show ?case by simp
next
  case (Suc n)
  let ?loop = "recover_loop c w job_id e t (start + recovery_window_s)"
  show ?case
  proof (cases "clock < start + recovery_window_s")
    case False
    then show ?thesis using Suc.prems by (simp add: recover_loop.simps [of _ _ _ _ _ _ i])
  next
    case True
    have "i \<le> 60"
      using True Suc.prems(1) by (auto simp: turns_bounded_def recovery_window_s_def split: if_splits)
    then have i: "Suc i \<le> 61" "Suc i + n = 62" using Suc.prems by simp_all
    obtain turn st1 where turn: "recover_turn c (w i) job_id e t st = (turn, st1)" by (rule prod.exhaust)
    show ?thesis
    proof (cases turn)
      case Poll_again
      then show ?thesis
        using Suc.IH [OF turns_bounded_poll [OF Suc.prems(1) took] i] True turn
        by (simp add: recover_loop.simps [of _ _ _ _ _ _ i])
    next
      case Back_off
      then show ?thesis
        using Suc.IH [OF turns_bounded_back_off [OF Suc.prems(1) took] i] True turn
        by (simp add: recover_loop.simps [of _ _ _ _ _ _ i])
    next
      case (Answered r)
      then have "?loop i clock delay st = Some (r, Suc i, st1)"
        using True turn by (simp add: recover_loop.simps [of _ _ _ _ _ _ i])
      moreover have "r \<in> {Unknown, Crashed} \<or> (\<exists>status body. pb_answer (w i) = Answer status body \<and> exact_job job_id body \<noteq> None)"
        using recover_turn_answer [of c "w i" job_id e t st r st1] turn Answered by (cases r) auto
      ultimately show ?thesis using i(1) by (metis lessI)
    qed
  qed
qed

text \<open>C28: Recovery of an accepted job always returns, whatever the worker answers and whatever the rest
  of the broker does meanwhile: within its window of 120 seconds it asks the worker at most 61 times,
  and it ends with an outcome (adopted, or the job's own failure) only when a worker answered for
  exactly the job that had been accepted.\<close>

theorem recovery_returns:
  assumes "\<And>i. 0 \<le> pb_took (w i)"
  shows "\<exists>r n st'. recover_worker_job c w clock e t st = Some (r, n, st') \<and> n \<le> 61
     \<and> (r \<in> {Unknown, Crashed} \<or> (\<exists>j<n. \<exists>it status body. task_item t st = Some it
            \<and> pb_answer (w j) = Answer status body \<and> exact_job (str_or_empty (it_job it)) body \<noteq> None))"
proof (cases "batch_of st (tk_batch t)")
  case None
  then show ?thesis by (simp add: recover_worker_job_def)
next
  case (Some b)
  show ?thesis
  proof (cases "task_item t st")
    case None
    then show ?thesis using Some by (simp add: recover_worker_job_def)
  next
    case (Some it)
    have "turns_bounded clock 0 clock 1" by (simp add: turns_bounded_def)
    from recover_loop_returns [OF assms this, of 62] show ?thesis
      using \<open>batch_of st (tk_batch t) = Some b\<close> Some by (simp add: recover_worker_job_def)
  qed
qed

definition demo_silence :: probe where
  "demo_silence = \<lparr>pb_now = 0, pb_took = 10, pb_answer = Lost, pb_runtime = 0, pb_asset = [], pb_fetch = False,
     pb_adopted = False, pb_meanwhile = id, pb_fetching = id, pb_asleep = id\<rparr>"

theorem recovery_returns_witness:
  "\<forall>c e t st. \<exists>r n st'. recover_worker_job c (\<lambda>_. demo_silence) 0 e t st = Some (r, n, st') \<and> n \<le> 61"
proof -
  have "0 \<le> pb_took ((\<lambda>_. demo_silence) i)" for i :: nat by (simp add: demo_silence_def)
  from recovery_returns [where w = "\<lambda>_. demo_silence", OF this] show ?thesis by blast
qed

end
