(* ===== verification/Cloud_Guard.thy ===== *)
theory Cloud_Guard
  imports Py_Text
begin

text \<open>
  \<open>app/backend/cloud_guard.py\<close>: why a job is cloud work, from its modality, its model id, its cost
  tier and the catalog entries the workers last published; the refusal at submission and the check of
  a pushed catalog row.  Texts are ASCII; \<open>rp\<close> is Python's \<open>repr\<close> of floats and containers, and
  \<open>cached\<close> the answer of the monitor's catalog cache (\<open>None\<close> when reading it fails).
\<close>

definition local_only_modalities :: "string list" where
  "local_only_modalities = [''render'']"

definition refusal_code :: string where
  "refusal_code = ''CLOUD_WORK_RETIRED''"

definition cloud_id_schemes :: "string list" where
  "cloud_id_schemes = [''provider:'', ''fal:'', ''kie:'', ''replicate:'']"

definition cloud_id_namespaces :: "string list" where
  "cloud_id_namespaces = [''cloudflare/'', ''gemini/'', ''together/'', ''nebius/'', ''pollinations/'', ''huggingface/'']"

definition local_provider_values :: "string list" where
  "local_provider_values = ['''', ''local'', ''none'', ''hub'', ''on-device'', ''device'']"

definition cloud_cost_tiers :: "string list" where
  "cloud_cost_tiers = [''free'', ''paid'']"

definition folded :: "(json \<Rightarrow> string) \<Rightarrow> json \<Rightarrow> string" where
  \<comment> \<open>\<open>str(value or "").strip().lower()\<close>\<close>
  "folded rp v = py_lower (py_strip (text_or_empty rp v))"

definition id_cloud_reason :: "string \<Rightarrow> string option" where
  "id_cloud_reason model =
     (let lowered = py_lower (py_strip model)
      in case List.find (\<lambda>scheme. prefix scheme lowered) cloud_id_schemes of
           Some scheme \<Rightarrow> Some (''its id uses the cloud scheme '' @ CHR 0x27 # scheme @ [CHR 0x27])
         | None \<Rightarrow> (case List.find (\<lambda>ns. prefix ns lowered) cloud_id_namespaces of
             Some ns \<Rightarrow> Some (''its id is in the cloud-provider namespace '' @ CHR 0x27 # ns @ [CHR 0x27])
           | None \<Rightarrow> None))"

definition entry_cloud_reason :: "(json \<Rightarrow> string) \<Rightarrow> jdict \<Rightarrow> string option" where
  "entry_cloud_reason rp entry =
     (if truthy (jget entry ''is_cloud'') then Some ''its worker catalogue entry sets is_cloud''
      else if folded rp (jget entry ''kind'') = ''cloud'' then Some ''its worker catalogue entry sets kind=cloud''
      else if folded rp (case as_dict (jget entry ''cache'') of Some c \<Rightarrow> jget c ''state'' | None \<Rightarrow> jget entry ''cache'') = ''cloud''
      then Some ''its worker catalogue entry reports cache.state=cloud''
      else (let provider = folded rp (if truthy (jget entry ''provider'') then jget entry ''provider''
                                      else jget entry ''cloud_provider'')
            in if provider \<noteq> [] \<and> provider \<notin> set local_provider_values
               then Some (''its worker catalogue entry names the external provider '' @ CHR 0x27 # provider @ [CHR 0x27])
               else None))"

fun first_reason :: "('a \<Rightarrow> string option) \<Rightarrow> 'a list \<Rightarrow> string option" where
  "first_reason f [] = None"
| "first_reason f (x # xs) = (case f x of Some r \<Rightarrow> Some r | None \<Rightarrow> first_reason f xs)"

definition cloud_reason :: "(json \<Rightarrow> string) \<Rightarrow> json \<Rightarrow> json \<Rightarrow> json list \<Rightarrow> json \<Rightarrow> string option" where
  \<comment> \<open>model, modality, entries (those that are not dicts are passed over) and cost tier\<close>
  "cloud_reason rp model modality entries cost_tier =
     (if folded rp modality \<in> set local_only_modalities then None
      else case id_cloud_reason (text_or_empty rp model) of
        Some r \<Rightarrow> Some r
      | None \<Rightarrow>
          (let tier = folded rp cost_tier
           in if tier \<in> set cloud_cost_tiers
              then Some (''it was submitted on the '' @ CHR 0x27 # tier @ CHR 0x27 # '' cost tier, which is a provider call'')
              else first_reason (entry_cloud_reason rp) (List.map_filter as_dict entries)))"

definition cached_entries ::
  "(json \<Rightarrow> string) \<Rightarrow> (string \<Rightarrow> string option \<Rightarrow> json list option) \<Rightarrow> json \<Rightarrow> json \<Rightarrow> json list" where
  \<comment> \<open>of the workers' last good catalogs, as the monitor has cached them; no entry while the cache is cold\<close>
  "cached_entries rp cached model modality =
     (case cached (text_or_empty rp model) (if truthy modality then Some (py_str rp modality) else None) of
        None \<Rightarrow> []
      | Some entries \<Rightarrow> filter (\<lambda>e. as_dict e \<noteq> None) entries)"

definition refusal ::
  "(json \<Rightarrow> string) \<Rightarrow> (string \<Rightarrow> string option \<Rightarrow> json list option) \<Rightarrow> json \<Rightarrow> json \<Rightarrow> json \<Rightarrow> string option" where
  "refusal rp cached model modality cost_tier =
     map_option (\<lambda>reason. ''Studio Hub does not accept cloud generation. '' @ CHR 0x27 # py_str rp model @ CHR 0x27 #
         '' is a cloud model because '' @ reason @ ''. Studio Hub runs the local Mac fleet only.'')
       (cloud_reason rp model modality (cached_entries rp cached model modality) cost_tier)"

definition catalog_cloud_reason :: "(json \<Rightarrow> string) \<Rightarrow> json \<Rightarrow> string option" where
  "catalog_cloud_reason rp row = (case as_dict row of
       None \<Rightarrow> None
     | Some d \<Rightarrow> cloud_reason rp (jget d ''repo'')
         (if truthy (jget d ''modality'') then jget d ''modality'' else jget d ''sibling_studio'') [row] JNull)"

section \<open>What is refused\<close>

lemma first_reason_None: "first_reason f xs = None \<longleftrightarrow> (\<forall>x\<in>set xs. f x = None)"
  by (induction xs) (auto split: option.split)

lemma id_cloud_None:
  "id_cloud_reason model = None \<longleftrightarrow>
     (\<forall>s\<in>set (cloud_id_schemes @ cloud_id_namespaces). \<not> prefix s (py_lower (py_strip model)))"
proof -
  let ?l = "py_lower (py_strip model)"
  have found: "\<exists>x\<in>set xs. P x" if "List.find P xs = Some y" for P :: "string \<Rightarrow> bool" and xs y
    using that by (metis find_Some_iff nth_mem)
  show ?thesis
  proof (cases "List.find (\<lambda>s. prefix s ?l) cloud_id_schemes")
    case None
    note n1 = None [unfolded find_None_iff]
    show ?thesis
    proof (cases "List.find (\<lambda>s. prefix s ?l) cloud_id_namespaces")
      case None2: None
      show ?thesis
        using n1 None2 [unfolded find_None_iff] None None2 by (auto simp: id_cloud_reason_def Let_def)
    next
      case (Some x)
      then show ?thesis using found [OF Some] None by (auto simp: id_cloud_reason_def Let_def)
    qed
  next
    case (Some x)
    then show ?thesis using found [OF Some] by (auto simp: id_cloud_reason_def Let_def)
  qed
qed

lemma refusal_None:
  "refusal rp cached model modality tier = None \<longleftrightarrow>
     cloud_reason rp model modality (cached_entries rp cached model modality) tier = None"
  by (simp add: refusal_def)

lemma cloud_reason_None:
  "cloud_reason rp model modality entries tier = None \<longleftrightarrow>
     folded rp modality \<in> set local_only_modalities
     \<or> ((\<forall>s\<in>set (cloud_id_schemes @ cloud_id_namespaces). \<not> prefix s (py_lower (py_strip (text_or_empty rp model))))
        \<and> folded rp tier \<notin> set cloud_cost_tiers
        \<and> (\<forall>d. JObj d \<in> set entries \<longrightarrow> entry_cloud_reason rp d = None))"
proof -
  have "set (List.map_filter as_dict entries) = {d. JObj d \<in> set entries}"
    by (force simp: List.map_filter_def)
  then show ?thesis
    using id_cloud_None [of "text_or_empty rp model"]
    by (cases "id_cloud_reason (text_or_empty rp model)") (auto simp: cloud_reason_def Let_def first_reason_None)
qed

end
