(* ===== verification/Broker_Submit.thy ===== *)
theory Broker_Submit
  imports Broker_Steps Cloud_Guard
begin

text \<open>
  \<open>submit_batch\<close> of \<open>app/backend/broker.py\<close> with the parts it composes: the cloud refusal, the guard of
  externally assigned work (\<open>execution_identity\<close>), the ledger's table of client requests (from
  \<open>save_batch\<close> and \<open>load_batch_by_client_request_id\<close> of \<open>ledger.py\<close>) and the broker's own batches.
  A reply is the error that is returned, the batch that was created or replayed, or an exception that
  is not turned into a reply (\<open>Submit_crash\<close>: a value of a type the code does not expect).  A model
  that is not text is kept as its text.
\<close>

definition modality_names :: "string list" where
  "modality_names = [''image'', ''music'', ''voice'', ''video'', ''render'']"

definition max_batch_items :: nat where
  "max_batch_items = 1000"

definition max_batch_json_bytes :: int where
  "max_batch_json_bytes = 25 * 1024 * 1024"

definition client_request_pattern :: "string \<Rightarrow> bool" where
  "client_request_pattern s \<longleftrightarrow> 8 \<le> length s \<and> length s \<le> 160
     \<and> list_all (\<lambda>c. is_alnum c \<or> c \<in> set ''._:-'') s"

record client_row =
  qr_client :: string
  qr_fingerprint :: string
  qr_batch :: string
  qr_items :: nat

record submit_state =
  ss_broker :: broker
  ss_requests :: "client_row list"
  ss_fences :: fence_db

record submit_host =
  sh_exec :: exec_host
  sh_flen :: "rat \<Rightarrow> nat"
  sh_cached :: "string \<Rightarrow> string option \<Rightarrow> json list option"

datatype submit_error =
    Bad_modality | No_items | Too_many_items | Too_large | No_model | Cloud_work string | Bad_routing
  | Bad_identity identity_error | Bad_request_id | Request_conflict

datatype submit_reply = Rejected submit_error | Submitted string nat bool | Submit_crash

text \<open>\<open>len(value)\<close>, and the dictionaries of a list (a value without \<open>get\<close> is an AttributeError).\<close>

fun py_len :: "json \<Rightarrow> nat option" where
  "py_len (JStr s) = Some (length s)"
| "py_len (JList xs) = Some (length xs)"
| "py_len (JObj d) = Some (length d)"
| "py_len _ = None"

fun all_dicts :: "json list \<Rightarrow> jdict list option" where
  "all_dicts [] = Some []"
| "all_dicts (JObj d # xs) = map_option (Cons d) (all_dicts xs)"
| "all_dicts _ = None"

definition item_dicts :: "json \<Rightarrow> jdict list option" where
  "item_dicts v = (case v of JList xs \<Rightarrow> all_dicts xs | _ \<Rightarrow> None)"

definition routing_text :: "(json \<Rightarrow> string) \<Rightarrow> jdict \<Rightarrow> string" where
  "routing_text rp env = (if truthy (jget env ''routing'') then py_str rp (jget env ''routing'') else ''pool'')"

definition routing_ok :: "string \<Rightarrow> bool" where
  "routing_ok r \<longleftrightarrow> r \<in> set [''pool'', ''remote''] \<or> (prefix ''studio:'' r \<and> drop (length ''studio:'') r \<noteq> [])"

section \<open>Checks at the door\<close>

definition door_check :: "submit_host \<Rightarrow> jdict \<Rightarrow> submit_reply option" where
  \<comment> \<open>everything before the identity is prepared; \<open>None\<close> when nothing is wrong\<close>
  "door_check h env =
     (let rp = eh_repr (sh_exec h); modality = jget env ''modality''; items = jget env ''items''
      in if \<not> hashable modality then Some Submit_crash
         else if modality \<notin> set (map JStr modality_names) then Some (Rejected Bad_modality)
         else if \<not> truthy items then Some (Rejected No_items)
         else case py_len items of
           None \<Rightarrow> Some Submit_crash
         | Some n \<Rightarrow>
             if max_batch_items < n then Some (Rejected Too_many_items)
             else if max_batch_json_bytes < int (json_text_len (sh_flen h) (JObj env)) then Some (Rejected Too_large)
             else if \<not> truthy (jget env ''model'') then Some (Rejected No_model)
             else (case refusal rp (sh_cached h) (jget env ''model'') modality JNull of
                 Some why \<Rightarrow> Some (Rejected (Cloud_work why))
               | None \<Rightarrow> if routing_ok (routing_text rp env) then None else Some (Rejected Bad_routing)))"

section \<open>Idempotent submission\<close>

definition request_fingerprint :: "exec_host \<Rightarrow> jdict \<Rightarrow> string" where
  "request_fingerprint h env =
     (let payload = dpop ''clientRequestId'' env;
          reduced = (case as_dict (jget payload ''genstudio_execution'') of
              None \<Rightarrow> payload
            | Some e \<Rightarrow> dset ''genstudio_execution'' (JObj (dpop ''fencing_token'' e)) payload)
      in eh_sha256 h (ascii_escaped (json_text (eh_float h) (JObj reduced))))"

definition execution_of :: "evidence \<Rightarrow> execution" where
  "execution_of ev = (let i = ev_identity ev in
     \<lparr>ex_job = Some (id_job i), ex_attempt = Some (id_attempt i), ex_token = Some (id_token i),
      ex_model_revision = id_model i, ex_lease = id_lease i\<rparr>)"

datatype known_request = In_memory batch | In_ledger batch | Cleared client_row

definition known_request :: "string \<Rightarrow> submit_state \<Rightarrow> known_request option" where
  "known_request cid ss =
     (case select_first (\<lambda>b. ba_client_request b = Some cid) (br_batches (ss_broker ss)) of
        Some b \<Rightarrow> Some (In_memory b)
      | None \<Rightarrow> (case select_first (\<lambda>r. qr_client r = cid) (ss_requests ss) of
          None \<Rightarrow> None
        | Some r \<Rightarrow> (case select_first (\<lambda>b. ba_id b = qr_batch r) (br_ledger (ss_broker ss)) of
            Some b \<Rightarrow> Some (In_ledger b)
          | None \<Rightarrow> Some (Cleared r))))"

fun known_fingerprint :: "known_request \<Rightarrow> string option" where
  "known_fingerprint (In_memory b) = ba_fingerprint b"
| "known_fingerprint (In_ledger b) = ba_fingerprint b"
| "known_fingerprint (Cleared r) = Some (qr_fingerprint r)"

fun known_id :: "known_request \<Rightarrow> string" where
  "known_id (In_memory b) = ba_id b"
| "known_id (In_ledger b) = ba_id b"
| "known_id (Cleared r) = qr_batch r"

fun known_items :: "known_request \<Rightarrow> nat" where
  "known_items (In_memory b) = length (ba_items b)"
| "known_items (In_ledger b) = length (ba_items b)"
| "known_items (Cleared r) = qr_items r"

definition newer_fence :: "evidence \<Rightarrow> batch \<Rightarrow> bool" where
  "newer_fence ev b = (case ba_execution b of
       None \<Rightarrow> False
     | Some e \<Rightarrow> (case ex_token e of None \<Rightarrow> 0 | Some t \<Rightarrow> t) < id_token (ev_identity ev))"

definition refresh_fence :: "evidence option \<Rightarrow> known_request \<Rightarrow> broker \<Rightarrow> broker" where
  \<comment> \<open>keep the newest fence as evidence on the batch that is replayed\<close>
  "refresh_fence evidence known st = (case (evidence, known) of
       (Some ev, In_memory b) \<Rightarrow>
         if newer_fence ev b
         then (let b' = b\<lparr>ba_execution := Some (execution_of ev)\<rparr>
               in st\<lparr>br_batches := save_row b' (br_batches st), br_ledger := save_row b' (br_ledger st)\<rparr>)
         else st
     | (Some ev, In_ledger b) \<Rightarrow>
         if newer_fence ev b
         then st\<lparr>br_ledger := save_row (b\<lparr>ba_execution := Some (execution_of ev)\<rparr>) (br_ledger st)\<rparr>
         else st
     | _ \<Rightarrow> st)"

definition submission_of ::
  "submit_host \<Rightarrow> string \<Rightarrow> time \<Rightarrow> string option \<Rightarrow> string option \<Rightarrow> evidence option \<Rightarrow> jdict list \<Rightarrow> jdict \<Rightarrow> submission" where
  "submission_of h bid now cid fingerprint evidence items env =
     (let rp = eh_repr (sh_exec h)
      in \<lparr>sb_id = bid, sb_now = now, sb_client_request = cid, sb_fingerprint = fingerprint,
          sb_execution = map_option execution_of evidence, sb_modality = py_str rp (jget env ''modality''),
          sb_model = py_str rp (jget env ''model''),
          sb_shared = (if truthy (jget env ''sharedParams'') then jget env ''sharedParams'' else JObj []),
          sb_routing = routing_text rp env, sb_label = jget env ''label'',
          sb_webhook = truthy (jget env ''webhook''), sb_item_webhook = truthy (jget env ''itemWebhook''),
          sb_items = items\<rparr>)"

definition save_request :: "batch \<Rightarrow> client_row list \<Rightarrow> client_row list" where
  \<comment> \<open>\<open>INSERT OR IGNORE INTO batch_requests\<close>, when the batch has a client request and a fingerprint\<close>
  "save_request b rows = (case (ba_client_request b, ba_fingerprint b) of
       (Some cid, Some fp) \<Rightarrow>
         if cid = [] \<or> fp = [] \<or> list_ex (\<lambda>r. qr_client r = cid) rows then rows
         else rows @ [\<lparr>qr_client = cid, qr_fingerprint = fp, qr_batch = ba_id b, qr_items = length (ba_items b)\<rparr>]
     | _ \<Rightarrow> rows)"

definition create_batch ::
  "submit_host \<Rightarrow> string \<Rightarrow> time \<Rightarrow> string option \<Rightarrow> string option \<Rightarrow> prepared \<Rightarrow> json \<Rightarrow> submit_state
     \<Rightarrow> submit_reply \<times> submit_state" where
  \<comment> \<open>the items are those of the envelope as it was received\<close>
  "create_batch h bid now cid fingerprint prep items ss = (case item_dicts items of
       None \<Rightarrow> (Submit_crash, ss)
     | Some ds \<Rightarrow>
         (let b = new_batch (submission_of h bid now cid fingerprint (pr_evidence prep) ds (pr_envelope prep))
          in (Submitted bid (length ds) False,
              ss\<lparr>ss_broker := add_batch b (ss_broker ss), ss_requests := save_request b (ss_requests ss),
                 ss_fences := bind_local_batch (pr_evidence prep) bid now (ss_fences ss)\<rparr>)))"

definition prepared_batch ::
  "submit_host \<Rightarrow> string \<Rightarrow> time \<Rightarrow> prepared \<Rightarrow> json \<Rightarrow> submit_state \<Rightarrow> submit_reply \<times> submit_state" where
  \<comment> \<open>from the client request id on\<close>
  "prepared_batch h bid now prep items ss =
     (case jget (pr_envelope prep) ''clientRequestId'' of
        JNull \<Rightarrow> create_batch h bid now None None prep items ss
      | JStr cid \<Rightarrow>
          if \<not> client_request_pattern cid then (Rejected Bad_request_id, ss)
          else (let fingerprint = request_fingerprint (sh_exec h) (pr_envelope prep)
                in case known_request cid ss of
                     None \<Rightarrow> create_batch h bid now (Some cid) (Some fingerprint) prep items ss
                   | Some known \<Rightarrow>
                       if known_fingerprint known \<noteq> Some fingerprint then (Rejected Request_conflict, ss)
                       else (Submitted (known_id known) (known_items known) True,
                             ss\<lparr>ss_broker := refresh_fence (pr_evidence prep) known (ss_broker ss),
                                ss_fences := bind_local_batch (pr_evidence prep) (known_id known) now (ss_fences ss)\<rparr>))
      | _ \<Rightarrow> (Rejected Bad_request_id, ss))"

definition not_identity_error :: "identity_error \<Rightarrow> bool" where
  \<comment> \<open>exceptions of other classes that leave \<open>prepare\<close>: they are not turned into a reply\<close>
  "not_identity_error e \<longleftrightarrow> e \<in> {Binding_none, Token_infinite, Token_too_large, Lease_unrepresentable}"

definition submit_batch ::
  "submit_host \<Rightarrow> string \<Rightarrow> time \<Rightarrow> jdict \<Rightarrow> submit_state \<Rightarrow> submit_reply \<times> submit_state" where
  \<comment> \<open>\<open>bid\<close> is the fresh batch id\<close>
  "submit_batch h bid now env ss = (case door_check h env of
       Some reply \<Rightarrow> (reply, ss)
     | None \<Rightarrow> (case prepare (sh_exec h) now env (ss_fences ss) of
         Inl e \<Rightarrow> (if not_identity_error e then Submit_crash else Rejected (Bad_identity e), ss)
       | Inr (prep, db) \<Rightarrow>
           prepared_batch h bid now prep (jget env ''items'') (ss\<lparr>ss_fences := db\<rparr>)))"

end
