(* ===== verification/Submit_Runs.thy ===== *)
theory Submit_Runs
  imports Broker_Submit Broker_Frames
begin

text \<open>
  The life of a client request id.  A queue history interleaves submissions, every step of the running
  broker (restarts included) and the clearing of finished history; throughout, the id of a request that
  created a batch keeps naming that batch: by the batch in memory, by its saved copy, or, once both are
  gone, by its row in the ledger's table of client requests.
\<close>

section \<open>Clearing finished history\<close>

definition clear_history :: "string option \<Rightarrow> string option \<Rightarrow> broker \<Rightarrow> broker" where
  "clear_history modality only st =
     (case clear_finished_batches modality only (br_batches st) (br_ledger st) of
        (_, memory, ledger) \<Rightarrow> st\<lparr>br_batches := memory, br_ledger := ledger\<rparr>)"

section \<open>Histories of the queue\<close>

datatype queue_op =
    Turn dispatch_context broker_op
  | Ask "string \<Rightarrow> string option \<Rightarrow> json list option" string time jdict
  | Clear_finished "string option" "string option"

definition taken :: "string \<Rightarrow> submit_state \<Rightarrow> bool" where
  "taken bid ss \<longleftrightarrow> known_batch bid (ss_broker ss) \<or> list_ex (\<lambda>r. qr_batch r = bid) (ss_requests ss)"

fun is_submit :: "broker_op \<Rightarrow> bool" where
  "is_submit (Submit _) = True"
| "is_submit _ = False"

fun queue_step :: "submit_host \<Rightarrow> queue_op \<Rightarrow> submit_state \<Rightarrow> submit_state" where
  \<comment> \<open>batches enter by \<open>Ask\<close> only, under the catalog cache of its moment; its id is a fresh uuid\<close>
  "queue_step h (Turn c e) ss = (if is_submit e then ss else ss\<lparr>ss_broker := broker_step c e (ss_broker ss)\<rparr>)"
| "queue_step h (Ask cached bid now env) ss =
     (if taken bid ss then ss else snd (submit_batch (h\<lparr>sh_cached := cached\<rparr>) bid now env ss))"
| "queue_step h (Clear_finished modality bid) ss =
     ss\<lparr>ss_broker := clear_history modality bid (ss_broker ss)\<rparr>"

definition empty_queue :: submit_state where
  "empty_queue = \<lparr>ss_broker = empty_broker, ss_requests = [], ss_fences = empty_fence_db\<rparr>"

definition queue_run :: "submit_host \<Rightarrow> queue_op list \<Rightarrow> submit_state" where
  "queue_run h ops = fold (queue_step h) ops empty_queue"

section \<open>No step renames a batch\<close>

lemma sigs_steady: "steady r st st' \<Longrightarrow> row_sigs st' \<subseteq> row_sigs st"
  by (simp add: steady_def)

lemma sigs_with_task:
  "(\<And>t. steady None st (f t st)) \<Longrightarrow> row_sigs (with_task k p f st) \<subseteq> row_sigs st"
  by (rule sigs_steady) (rule steady_with_task)

lemma sigs_save_both:
  assumes "row_sig b \<in> row_sigs st" and "br_batches st' = save_row b (br_batches st) \<or> br_batches st' = br_batches st"
    and "br_ledger st' = save_row b (br_ledger st) \<or> br_ledger st' = br_ledger st"
  shows "row_sigs st' \<subseteq> row_sigs st"
proof -
  have "set (br_batches st') \<subseteq> insert b (set (br_batches st))" "set (br_ledger st') \<subseteq> insert b (set (br_ledger st))"
    using assms(2,3) set_save_row by (metis subset_insertI)+
  then show ?thesis using assms(1) unfolding row_sigs_def by blast
qed

lemma sigs_offer: "row_sigs (offer_next c synced now off st) \<subseteq> row_sigs st"
proof -
  have "row_sigs ((assign_item now bid i x r gen st)\<lparr>br_plan := q\<rparr>) \<subseteq> row_sigs st" for bid i x r gen q
  proof -
    define st0 where "st0 = map_batch bid (\<lambda>b. b\<lparr>ba_last_dispatched := Some now, ba_note := None\<rparr>) st"
    have 0: "row_sigs st0 \<subseteq> row_sigs st"
      unfolding st0_def by (force simp: row_sigs_def row_sig_def map_batch_def set_update_where)
    have 1: "row_sigs (map_item bid i f st0) \<subseteq> row_sigs st0" for f
      by (force simp: row_sigs_def map_item_def map_batch_def set_update_where)
    have "row_sigs ((assign_item now bid i x r gen st)\<lparr>br_plan := q\<rparr>)
        = row_sigs (map_item bid i (dispatched_item now x r gen) st0)"
      by (simp add: row_sigs_def assign_item_def st0_def)
    with 0 1 show ?thesis by blast
  qed
  moreover have "row_sigs (st\<lparr>br_plan := q\<rparr>) \<subseteq> row_sigs st" for q by (simp add: row_sigs_def)
  ultimately show ?thesis
    by (auto simp: offer_next_def Let_def split: option.splits list.splits verdict.splits dest!: subsetD)
qed

lemma sigs_renew: "row_sigs (fst (renew_execution_lease bid attempt lease st)) \<subseteq> row_sigs st"
proof -
  have mem: "row_sig b \<in> row_sigs st" if "batch_of st j = Some b" for j b
    using batch_of_key [OF that] by (simp add: row_sigs_def)
  have led: "row_sig b \<in> row_sigs st" if "select_first p (br_ledger st) = Some b" for p b
    using select_first_Some [OF that] by (simp add: row_sigs_def)
  have own: "row_sig b \<in> row_sigs st" if "select_first p (br_batches st) = Some b" for p b
    using select_first_Some [OF that] by (simp add: row_sigs_def)
  have "row_sig (renew_batch_lease lease b) = row_sig b" for b by (simp add: row_sig_def renew_batch_lease_def)
  then have "row_sigs (st\<lparr>br_batches := save_row (renew_batch_lease lease b) (br_batches st),
      br_ledger := save_row (renew_batch_lease lease b) (br_ledger st)\<rparr>) \<subseteq> row_sigs st" if "row_sig b \<in> row_sigs st" for b
    using that by (intro sigs_save_both [of "renew_batch_lease lease b"]) simp_all
  then show ?thesis
    using mem led own by (simp add: renew_execution_lease_def Let_def split: option.split)
qed

lemma sigs_recover: "row_sigs (recover_voice_item now bid i st) \<subseteq> row_sigs st"
proof -
  define found where "found = (case batch_of st bid of Some b \<Rightarrow> Some b
     | None \<Rightarrow> select_first (\<lambda>b. ba_id b = bid) (br_ledger st))"
  show ?thesis
  proof (cases found)
    case None
    then show ?thesis by (simp add: recover_voice_item_def found_def [symmetric] voice_recovery_item_def)
  next
    case (Some b)
    then have b: "row_sig b \<in> row_sigs st"
      by (auto simp: found_def row_sigs_def dest: batch_of_key select_first_Some split: option.splits)
    have load: "row_sigs st' \<subseteq> row_sigs st"
      if "br_batches st' = save_row b' (br_batches st)" "br_ledger st' = save_row b' (br_ledger st) \<or> br_ledger st' = br_ledger st"
        "row_sig b' = row_sig b" for st' b'
      using that b by (intro sigs_save_both [of b']) simp_all
    have "row_sigs (st\<lparr>br_batches := save_row b' (br_batches st), br_ledger := save_row b' (br_ledger st)\<rparr>) \<subseteq> row_sigs st"
      "row_sigs (st\<lparr>br_batches := save_row b' (br_batches st)\<rparr>) \<subseteq> row_sigs st" if "row_sig b' = row_sig b" for b'
      using that by (auto intro!: load del: subsetI)
    then show ?thesis
      using Some by (simp add: recover_voice_item_def found_def [symmetric] voice_recovery_item_def split: option.split)
  qed
qed

lemma row_sig_restored: "row_sig (restored_batch c now b) = row_sig b"
proof -
  have "row_sig b' = row_sig b" if "expire_genstudio_batch h now b = Inr (b', x)" for h b' x
  proof -
    have "list_all2 tame_item (ba_items b) (ba_items b')" using tame_expire [OF that] by (simp add: tame_batch_def)
    from list_all2_lengthD [OF this] that show ?thesis
      by (auto simp: row_sig_def expire_genstudio_batch_def split: sum.splits if_splits)
  qed
  then show ?thesis by (auto simp: restored_batch_def row_sig_def split: sum.split prod.split bool.split)
qed

lemma sigs_restart: "row_sigs (restore_batches c now st) \<subseteq> row_sigs st"
proof -
  define loaded where "loaded = map (restored_batch c now)
     (filter (\<lambda>b. list_ex (\<lambda>it. unfinished (it_state it)) (ba_items b)) (br_ledger st))"
  have sub: "row_sig ` set loaded \<subseteq> row_sigs st"
    by (auto simp: loaded_def row_sigs_def row_sig_restored)
  have saved: "set (fold save_row bs rows) \<subseteq> set bs \<union> set rows" for bs rows
    using set_save_row by (induction bs arbitrary: rows) (auto, blast)
  show ?thesis
    using sub saved [of loaded "br_ledger st"]
    unfolding restore_batches_def Let_def loaded_def [symmetric] by (auto simp: row_sigs_def)
qed

theorem sigs_step:
  assumes "\<not> is_submit e"
  shows "row_sigs (broker_step c e st) \<subseteq> row_sigs st"
proof (cases e)
  case (Submit s) then show ?thesis using assms by simp
next
  case (Expire now bid) then show ?thesis using sigs_steady [OF steady_expire] by simp
next
  case (Scan v now bid) then show ?thesis using sigs_steady [OF steady_scan] by simp
next
  case (Offer synced now off) then show ?thesis using sigs_offer by simp
next
  case (Begin j now check)
  have "row_sigs (with_task j p (begin_attempt c now check) st) \<subseteq> row_sigs st" for p
    by (rule sigs_steady [of "Some j"]) (auto intro!: steady_with_task steady_begin)
  then show ?thesis using Begin by simp
next
  case (Accept j now jid job) then show ?thesis by (auto simp: steady_accept dest!: subsetD [OF sigs_with_task, rotated])
next
  case (Reject j now status detail)
  then show ?thesis by (auto simp: steady_http_rejected dest!: subsetD [OF sigs_with_task, rotated])
next
  case (Raise j now err) then show ?thesis by (auto simp: steady_fail dest!: subsetD [OF sigs_with_task, rotated])
next
  case (Check j now) then show ?thesis by (auto simp: steady_poll_check dest!: subsetD [OF sigs_with_task, rotated])
next
  case (Progress j now job) then show ?thesis by (auto simp: steady_poll_job dest!: subsetD [OF sigs_with_task, rotated])
next
  case (Complete j now job runtime asset fetch)
  then show ?thesis by (auto simp: steady_complete dest!: subsetD [OF sigs_with_task, rotated])
next
  case (Artifact j now asset) then show ?thesis by (auto simp: steady_adopt dest!: subsetD [OF sigs_with_task, rotated])
next
  case (Job_failed j now job)
  then show ?thesis by (auto simp: steady_reconciled dest!: subsetD [OF sigs_with_task, rotated])
next
  case (Probe j now) then show ?thesis by (auto simp: steady_recover_probe dest!: subsetD [OF sigs_with_task, rotated])
next
  case (Still_running j now job)
  then show ?thesis by (auto simp: steady_recover_waiting dest!: subsetD [OF sigs_with_task, rotated])
next
  case (Unreconciled j now)
  have "steady None st (case tk_phase t of Recovering e \<Rightarrow> unreconciled now e t st | _ \<Rightarrow> st)" for t
    by (simp add: steady_unreconciled split: phase.split)
  then show ?thesis using Unreconciled by (auto dest!: subsetD [OF sigs_with_task, rotated])
next
  case (Handed j now released)
  have "row_sigs (with_task j p (handed_off now released) st) \<subseteq> row_sigs st" for p
    by (rule sigs_steady [of "Some j"]) (auto intro!: steady_with_task steady_handed)
  then show ?thesis using Handed by simp
next
  case (Cancel now answers bid) then show ?thesis using sigs_steady [OF steady_cancel] by simp
next
  case (Renew_lease bid attempt lease) then show ?thesis using sigs_renew by simp
next
  case (Dispatched_external machine lane) then show ?thesis by (simp add: row_sigs_def split: option.split)
next
  case (Recover_voice now bid i) then show ?thesis using sigs_recover by simp
next
  case (Note_recovery now phase reason i bid) then show ?thesis using sigs_steady [OF steady_note] by simp
next
  case (Restart_hub now) then show ?thesis using sigs_restart by simp
qed (simp_all add: row_sigs_def)

section \<open>A request stays bound to its batch\<close>

lemma sigs_cleared: "row_sigs (clear_history m bid st) \<subseteq> row_sigs st"
  by (auto simp: clear_history_def clear_finished_batches_def Let_def row_sigs_def)

lemma known_in_sigs:
  assumes "known_request cid ss = Some (In_memory b) \<or> known_request cid ss = Some (In_ledger b)"
  shows "row_sig b \<in> row_sigs (ss_broker ss)"
  using assms
  by (auto simp: known_request_def row_sigs_def dest!: select_first_Some split: option.splits)

lemma sigs_refresh:
  assumes "known_request cid ss = Some known"
  shows "row_sigs (refresh_fence ev known (ss_broker ss)) \<subseteq> row_sigs (ss_broker ss)"
proof -
  have both: "row_sigs st' \<subseteq> row_sigs (ss_broker ss)"
    if "row_sig b \<in> row_sigs (ss_broker ss)" "br_batches st' = save_row (b\<lparr>ba_execution := x\<rparr>) (br_batches (ss_broker ss))
        \<or> br_batches st' = br_batches (ss_broker ss)"
      "br_ledger st' = save_row (b\<lparr>ba_execution := x\<rparr>) (br_ledger (ss_broker ss))" for b x st'
    using that by (intro sigs_save_both [of "b\<lparr>ba_execution := x\<rparr>"]) (simp_all add: row_sig_def)
  show ?thesis
    using known_in_sigs [of cid ss] assms
    by (cases known) (auto simp: refresh_fence_def Let_def split: option.split intro!: both del: subsetI)
qed

lemma submit_effect:
  assumes "submit_batch h bid now env ss = (reply, ss')"
  obtains (old) "row_sigs (ss_broker ss') \<subseteq> row_sigs (ss_broker ss)" "ss_requests ss' = ss_requests ss"
  | (new) b where "ba_id b = bid" "ss_broker ss' = add_batch b (ss_broker ss)"
      "ss_requests ss' = save_request b (ss_requests ss)"
      "\<And>cid. ba_client_request b = Some cid \<Longrightarrow> known_request cid ss = None \<and> cid \<noteq> []
         \<and> (\<exists>x. ba_fingerprint b = Some (eh_sha256 (sh_exec h) x))"
proof -
  have cr: thesis
    if "create_batch h bid now cid fp prep items (ss\<lparr>ss_fences := db\<rparr>) = (reply, ss')"
      "\<And>x. cid = Some x \<Longrightarrow> known_request x ss = None \<and> x \<noteq> [] \<and> (\<exists>y. fp = Some (eh_sha256 (sh_exec h) y))"
    for cid fp prep items db
  proof (cases "item_dicts items")
    case None
    then show ?thesis using that(1) old by (auto simp: create_batch_def)
  next
    case (Some ds)
    define b where "b = new_batch (submission_of h bid now cid fp (pr_evidence prep) ds (pr_envelope prep))"
    have "ba_id b = bid" "ba_client_request b = cid" "ba_fingerprint b = fp"
      by (simp_all add: b_def new_batch_def submission_of_def Let_def)
    then show ?thesis
      using that Some new [of b] by (auto simp: create_batch_def Let_def b_def [symmetric])
  qed
  have replay: thesis
    if "known_request cid ss = Some known"
      "ss' = ss\<lparr>ss_broker := refresh_fence ev known (ss_broker ss), ss_fences := db\<rparr>" for cid known ev db
    using sigs_refresh [OF that(1)] that(2) old by simp
  have kept: thesis if "ss' = ss\<lparr>ss_fences := db\<rparr>" for db using that old by simp
  have same: thesis if "ss' = ss" using that old by simp
  have known: "known_request cid (ss\<lparr>ss_fences := db\<rparr>) = known_request cid ss" for cid db
    by (simp add: known_request_def split: option.split)
  show thesis
  proof (cases "door_check h env")
    case (Some r)
    then show ?thesis using assms same by (simp add: submit_batch_def)
  next
    case None
    show ?thesis
    proof (cases "prepare (sh_exec h) now env (ss_fences ss)")
      case (Inl x)
      then show ?thesis using None assms same by (simp add: submit_batch_def)
    next
      case (Inr p)
      obtain prep db where p: "p = (prep, db)" by (cases p)
      have run: "prepared_batch h bid now prep (jget env ''items'') (ss\<lparr>ss_fences := db\<rparr>) = (reply, ss')"
        using None assms Inr p by (simp add: submit_batch_def)
      show ?thesis
      proof (cases "jget (pr_envelope prep) ''clientRequestId''")
        case JNull
        then show ?thesis using run cr [of None None prep "jget env ''items''" db] by (simp add: prepared_batch_def)
      next
        case (JStr cid)
        show ?thesis
        proof (cases "client_request_pattern cid")
          case False
          then have "ss' = ss\<lparr>ss_fences := db\<rparr>" using run JStr by (auto simp: prepared_batch_def)
          then show ?thesis by (rule kept)
        next
          case True
          then have "cid \<noteq> []" by (auto simp: client_request_pattern_def)
          let ?fp = "request_fingerprint (sh_exec h) (pr_envelope prep)"
          have fp: "\<exists>y. Some ?fp = Some (eh_sha256 (sh_exec h) y)" by (auto simp: request_fingerprint_def Let_def)
          show ?thesis
          proof (cases "known_request cid ss")
            case None
            then have "create_batch h bid now (Some cid) (Some ?fp) prep (jget env ''items'') (ss\<lparr>ss_fences := db\<rparr>) = (reply, ss')"
              using run JStr True by (simp add: prepared_batch_def Let_def known)
            then show ?thesis using cr None \<open>cid \<noteq> []\<close> fp by blast
          next
            case (Some known')
            then show ?thesis
              using run JStr True replay [OF Some] kept
              by (auto simp: prepared_batch_def Let_def known split: if_splits)
          qed
        qed
      qed (use run kept in \<open>auto simp: prepared_batch_def\<close>)
    qed
  qed
qed

text \<open>Every batch with a client request has a row; a row stays, and so does what it is bound to.\<close>

definition rows_cover :: "submit_state \<Rightarrow> bool" where
  "rows_cover ss \<longleftrightarrow> (\<forall>s\<in>row_sigs (ss_broker ss). \<forall>cid. fst (snd s) = Some cid \<longrightarrow> cid \<in> qr_client ` set (ss_requests ss))"

definition bound_request :: "string \<Rightarrow> string \<Rightarrow> string \<Rightarrow> nat \<Rightarrow> submit_state \<Rightarrow> bool" where
  "bound_request cid fp b0 n ss \<longleftrightarrow>
     select_first (\<lambda>r. qr_client r = cid) (ss_requests ss)
       = Some \<lparr>qr_client = cid, qr_fingerprint = fp, qr_batch = b0, qr_items = n\<rparr>
     \<and> (\<forall>s\<in>row_sigs (ss_broker ss). fst (snd s) = Some cid \<or> fst s = b0 \<longrightarrow> s = (b0, Some cid, Some fp, n))"

lemma bound_known:
  assumes "bound_request cid fp b0 n ss"
  obtains k where "known_request cid ss = Some k" "known_id k = b0" "known_items k = n" "known_fingerprint k = Some fp"
proof -
  note row = assms [unfolded bound_request_def, THEN conjunct1]
  have sig: "row_sig b = (b0, Some cid, Some fp, n)" if "b \<in> set (br_batches (ss_broker ss)) \<union> set (br_ledger (ss_broker ss))"
      "ba_client_request b = Some cid \<or> ba_id b = b0" for b
    using assms that by (auto simp: bound_request_def row_sigs_def row_sig_def)
  show thesis
  proof (cases "select_first (\<lambda>b. ba_client_request b = Some cid) (br_batches (ss_broker ss))")
    case (Some b)
    then have "row_sig b = (b0, Some cid, Some fp, n)" using select_first_Some [OF Some] sig by blast
    then show ?thesis using Some that [of "In_memory b"] by (simp add: known_request_def row_sig_def)
  next
    case mem: None
    show ?thesis
    proof (cases "select_first (\<lambda>b. ba_id b = b0) (br_ledger (ss_broker ss))")
      case (Some b)
      then have "row_sig b = (b0, Some cid, Some fp, n)" using select_first_Some [OF Some] sig by blast
      then show ?thesis using Some mem row that [of "In_ledger b"] by (simp add: known_request_def row_sig_def)
    next
      case None
      then show ?thesis using mem row that [of "Cleared \<lparr>qr_client = cid, qr_fingerprint = fp, qr_batch = b0, qr_items = n\<rparr>"]
        by (simp add: known_request_def)
    qed
  qed
qed

lemma sigs_add_batch: "row_sigs (add_batch b st) \<subseteq> insert (row_sig b) (row_sigs st)"
  using set_save_row by (fastforce simp: add_batch_def row_sigs_def)

lemma requests_grow: "set rows \<subseteq> set (save_request b rows)"
  by (auto simp: save_request_def split: option.split)

lemma select_first_grows:
  "select_first (\<lambda>r. qr_client r = cid) rows = Some r \<Longrightarrow> select_first (\<lambda>r. qr_client r = cid) (save_request b rows) = Some r"
proof -
  have "List.find q xs = Some r \<Longrightarrow> List.find q (xs @ ys) = Some r" for q :: "client_row \<Rightarrow> bool" and xs ys
    by (induction xs) auto
  then show "select_first (\<lambda>r. qr_client r = cid) rows = Some r \<Longrightarrow> select_first (\<lambda>r. qr_client r = cid) (save_request b rows) = Some r"
    by (simp add: save_request_def select_first_def split: option.split)
qed

lemma request_saved:
  assumes "ba_client_request b = Some cid" "ba_fingerprint b = Some fp" "cid \<noteq> []" "fp \<noteq> []"
  shows "cid \<in> qr_client ` set (save_request b rows)"
  using assms by (auto simp: save_request_def list_ex_iff)

lemma queue_step_keeps:
  assumes sha: "\<And>x. eh_sha256 (sh_exec h) x \<noteq> []"
  shows "rows_cover ss \<Longrightarrow> rows_cover (queue_step h op ss)"
    and "bound_request cid fp b0 n ss \<Longrightarrow> bound_request cid fp b0 n (queue_step h op ss)"
proof -
  have sub: "rows_cover ss'" "bound_request cid fp b0 n ss \<Longrightarrow> bound_request cid fp b0 n ss'"
    if "rows_cover ss" "row_sigs (ss_broker ss') \<subseteq> row_sigs (ss_broker ss)" "ss_requests ss' = ss_requests ss" for ss'
    using that unfolding rows_cover_def bound_request_def by (simp_all, blast+)
  have subb: "bound_request cid fp b0 n ss'"
    if "bound_request cid fp b0 n ss" "row_sigs (ss_broker ss') \<subseteq> row_sigs (ss_broker ss)" "ss_requests ss' = ss_requests ss" for ss'
    using that unfolding bound_request_def by (simp, blast)
  have quiet: "row_sigs (ss_broker (queue_step h op ss)) \<subseteq> row_sigs (ss_broker ss) \<and> ss_requests (queue_step h op ss) = ss_requests ss"
    if "\<And>cached bid now env. op \<noteq> Ask cached bid now env"
    using that sigs_step sigs_cleared by (cases op) auto
  show "rows_cover ss \<Longrightarrow> rows_cover (queue_step h op ss)"
  proof (cases op)
    case (Ask cached bid now env)
    assume cover: "rows_cover ss"
    show ?thesis
    proof (cases "taken bid ss")
      case True
      then show ?thesis using Ask cover by simp
    next
      case False
      obtain reply ss' where r: "submit_batch (h\<lparr>sh_cached := cached\<rparr>) bid now env ss = (reply, ss')" by fastforce
      then have s: "queue_step h op ss = ss'" using Ask False by simp
      from r show ?thesis
      proof (cases rule: submit_effect)
        case old then show ?thesis using sub(1) [OF cover] s by simp
      next
        case (new b)
        have "cid \<in> qr_client ` set (ss_requests ss')" if c: "ba_client_request b = Some cid" for cid
        proof -
          obtain x where "ba_fingerprint b = Some (eh_sha256 (sh_exec h) x)" "cid \<noteq> []" using new(4) [OF c] by auto
          then show ?thesis using request_saved [OF c] sha new(3) by simp
        qed
        moreover have "row_sigs (ss_broker ss') \<subseteq> insert (row_sig b) (row_sigs (ss_broker ss))"
          using sigs_add_batch new(2) by simp
        moreover have "set (ss_requests ss) \<subseteq> set (ss_requests ss')" using requests_grow new(3) by simp
        ultimately show ?thesis using cover unfolding s rows_cover_def row_sig_def by fastforce
      qed
    qed
  qed (use quiet sub(1) in auto)
  show "bound_request cid fp b0 n ss \<Longrightarrow> bound_request cid fp b0 n (queue_step h op ss)"
  proof (cases op)
    case (Ask cached bid now env)
    assume bound: "bound_request cid fp b0 n ss"
    show ?thesis
    proof (cases "taken bid ss")
      case True
      then show ?thesis using Ask bound by simp
    next
      case False
      obtain reply ss' where r: "submit_batch (h\<lparr>sh_cached := cached\<rparr>) bid now env ss = (reply, ss')" by fastforce
      then have s: "queue_step h op ss = ss'" using Ask False by simp
      from r show ?thesis
      proof (cases rule: submit_effect)
        case old then show ?thesis using subb [OF bound] s by simp
      next
        case (new b)
        obtain k where "known_request cid ss = Some k" by (rule bound_known [OF bound])
        then have "ba_client_request b \<noteq> Some cid" using new(4) by auto
        moreover have "bid \<noteq> b0"
          using False bound select_first_Some [of "\<lambda>r. qr_client r = cid" "ss_requests ss"]
          by (fastforce simp: bound_request_def taken_def list_ex_iff)
        moreover have "row_sigs (ss_broker ss') \<subseteq> insert (row_sig b) (row_sigs (ss_broker ss))"
          using sigs_add_batch new(2) by simp
        ultimately show ?thesis
          using bound select_first_grows new(1,3) unfolding s bound_request_def row_sig_def by fastforce
      qed
    qed
  qed (use quiet subb in auto)
qed

lemma queue_covers:
  assumes "\<And>x. eh_sha256 (sh_exec h) x \<noteq> []"
  shows "rows_cover (queue_run h ops)"
proof -
  have "rows_cover ss \<Longrightarrow> rows_cover (fold (queue_step h) ops ss)" for ss
    using queue_step_keeps(1) [OF assms] by (induction ops arbitrary: ss) auto
  moreover have "rows_cover empty_queue"
    by (simp add: rows_cover_def row_sigs_def empty_queue_def empty_broker_def)
  ultimately show ?thesis by (simp add: queue_run_def)
qed

lemma queue_keeps_bound:
  assumes "\<And>x. eh_sha256 (sh_exec h) x \<noteq> []" and "bound_request cid fp b0 n ss"
  shows "bound_request cid fp b0 n (fold (queue_step h) ops ss)"
  using assms(2) queue_step_keeps(2) [OF assms(1)] by (induction ops arbitrary: ss) auto

end
