(* ===== verification/Submit_Theorems.thy ===== *)
theory Submit_Theorems
  imports Submit_Runs
begin

text \<open>
  Properties of submission: a refusal leaves no trace, an accepted batch is local and within the
  limits, and sending the same request again, at any later time, returns the same batch and changes
  nothing.
\<close>

section \<open>Refusals\<close>

lemma create_not_rejected: "fst (create_batch h bid now cid fp prep items ss) \<noteq> Rejected e"
  by (simp add: create_batch_def Let_def split: option.split)

lemma door_ok:
  assumes "door_check h env = None"
  shows "\<exists>m. jget env ''modality'' = JStr m \<and> m \<in> set modality_names"
    "\<exists>n. py_len (jget env ''items'') = Some n \<and> n \<le> max_batch_items" "truthy (jget env ''items'')"
    "int (json_text_len (sh_flen h) (JObj env)) \<le> max_batch_json_bytes"
    "cloud_reason (eh_repr (sh_exec h)) (jget env ''model'') (jget env ''modality'')
       (cached_entries (eh_repr (sh_exec h)) (sh_cached h) (jget env ''model'') (jget env ''modality'')) JNull = None"
    "routing_ok (routing_text (eh_repr (sh_exec h)) env)"
  using assms by (auto simp: door_check_def Let_def refusal_None split: if_splits option.splits)

lemma prepared_rejected:
  assumes "prepared_batch h bid now prep items ss = (Rejected e, ss')"
  shows "ss' = ss" "e \<in> {Bad_request_id, Request_conflict}"
  using assms create_not_rejected [of h bid now _ _ prep items ss e]
  by (auto simp: prepared_batch_def Let_def split: json.splits option.splits if_splits) (metis fst_conv)+

text \<open>C20: A refused submission leaves no trace in the queue: the broker and the table of client
  requests are exactly what they were, and unless the request id itself is at fault (malformed, or
  already used for other work) the guard of assigned work is untouched too - so cloud work, bad
  routing, oversized or stale submissions record no fence and no idempotency key.\<close>

theorem refused_submission_leaves_no_trace:
  assumes "submit_batch h bid now env ss = (Rejected e, ss')"
  shows "ss_broker ss' = ss_broker ss \<and> ss_requests ss' = ss_requests ss
     \<and> (e \<in> {Bad_request_id, Request_conflict} \<or> ss' = ss)"
proof (cases "door_check h env")
  case (Some r)
  then show ?thesis using assms by (simp add: submit_batch_def)
next
  case None
  show ?thesis
  proof (cases "prepare (sh_exec h) now env (ss_fences ss)")
    case (Inl x)
    then show ?thesis using None assms by (simp add: submit_batch_def)
  next
    case (Inr p)
    then obtain prep db where "prepare (sh_exec h) now env (ss_fences ss) = Inr (prep, db)" by (cases p) simp
    then have "prepared_batch h bid now prep (jget env ''items'') (ss\<lparr>ss_fences := db\<rparr>) = (Rejected e, ss')"
      using None assms by (simp add: submit_batch_def)
    from prepared_rejected [OF this] show ?thesis by simp
  qed
qed

definition demo_submit_host :: submit_host where
  "demo_submit_host = \<lparr>sh_exec = \<lparr>eh_site = ''site'', eh_sha256 = (\<lambda>s. s), eh_iso = (\<lambda>_. Not_iso),
      eh_repr = (\<lambda>_. ''x''), eh_float = (\<lambda>_. ''0'')\<rparr>, sh_flen = (\<lambda>_. 3), sh_cached = (\<lambda>_ _. None)\<rparr>"

definition demo_empty :: submit_state where
  "demo_empty = \<lparr>ss_broker = empty_broker, ss_requests = [], ss_fences = empty_fence_db\<rparr>"

definition demo_request :: "string \<Rightarrow> jdict" where
  "demo_request model = [(''modality'', JStr ''image''), (''model'', JStr model),
     (''items'', JList [JObj [(''prompt'', JStr ''a'')]]), (''clientRequestId'', JStr ''client-1'')]"

fun is_cloud_refusal :: "submit_reply \<Rightarrow> bool" where
  "is_cloud_refusal (Rejected (Cloud_work _)) = True"
| "is_cloud_refusal _ = False"

lemma demo_refused:
  "is_cloud_refusal (fst (submit_batch demo_submit_host ''b1'' 5 (demo_request ''fal:x'') demo_empty))"
  by code_simp

theorem refused_submission_leaves_no_trace_witness:
  "snd (submit_batch demo_submit_host ''b1'' 5 (demo_request ''fal:x'') demo_empty) = demo_empty"
proof -
  obtain e where f: "fst (submit_batch demo_submit_host ''b1'' 5 (demo_request ''fal:x'') demo_empty) = Rejected e"
    and e: "e \<notin> {Bad_request_id, Request_conflict}"
    using demo_refused by (auto elim: is_cloud_refusal.elims)
  have "submit_batch demo_submit_host ''b1'' 5 (demo_request ''fal:x'') demo_empty
      = (Rejected e, snd (submit_batch demo_submit_host ''b1'' 5 (demo_request ''fal:x'') demo_empty))"
    unfolding f [symmetric] by (rule prod.collapse [symmetric])
  from refused_submission_leaves_no_trace [OF this] e show ?thesis by blast
qed

section \<open>Accepted work\<close>

lemma created_shape:
  assumes "create_batch h bid now cid fp prep items ss = (Submitted b0 n replay, ss')"
  obtains ds where "item_dicts items = Some ds" "b0 = bid" "n = length ds" "\<not> replay"
    "ss' = ss\<lparr>ss_broker := add_batch (new_batch (submission_of h bid now cid fp (pr_evidence prep) ds (pr_envelope prep))) (ss_broker ss),
       ss_requests := save_request (new_batch (submission_of h bid now cid fp (pr_evidence prep) ds (pr_envelope prep))) (ss_requests ss),
       ss_fences := bind_local_batch (pr_evidence prep) bid now (ss_fences ss)\<rparr>"
  using assms by (auto simp: create_batch_def Let_def split: option.splits)

lemma all_dicts_length: "all_dicts xs = Some ds \<Longrightarrow> length ds = length xs"
  by (induction xs arbitrary: ds rule: all_dicts.induct) auto

lemma item_dicts_length: "item_dicts v = Some ds \<Longrightarrow> py_len v = Some (length ds)"
  by (auto simp: item_dicts_def all_dicts_length split: json.splits)

lemma prepared_created:
  assumes "prepared_batch h bid now prep items ss = (Submitted b0 n False, ss')"
  obtains cid fp where "create_batch h bid now cid fp prep items ss = (Submitted b0 n False, ss')"
  using assms that by (auto simp: prepared_batch_def Let_def split: json.splits option.splits if_splits)

text \<open>C30: Only local work within the limits is queued: when a submission creates a batch, neither the
  model's id, nor any entry for it in the Hub's cache of the workers' last good catalogs, marks it as
  hosted (a render is local whatever its entry says), it has between one and 1000 items, its text is at
  most 25 MB, its modality is one the Hub runs and its routing is well formed.  (What a worker publishes
  but the cache does not hold is not looked at: with a cold cache the id alone decides.)\<close>

theorem only_local_work_is_queued:
  assumes "submit_batch h bid now env ss = (Submitted b0 n False, ss')"
  shows "cloud_reason (eh_repr (sh_exec h)) (jget env ''model'') (jget env ''modality'')
       (cached_entries (eh_repr (sh_exec h)) (sh_cached h) (jget env ''model'') (jget env ''modality'')) JNull = None
     \<and> 1 \<le> n \<and> n \<le> 1000 \<and> json_text_len (sh_flen h) (JObj env) \<le> 26214400
     \<and> (\<exists>m\<in>set modality_names. jget env ''modality'' = JStr m)
     \<and> routing_ok (routing_text (eh_repr (sh_exec h)) env)"
proof (cases "door_check h env")
  case (Some r)
  then have "r = Submitted b0 n False" using assms by (simp add: submit_batch_def)
  then show ?thesis using Some by (auto simp: door_check_def Let_def split: if_splits option.splits)
next
  case None
  note door = door_ok [OF None]
  obtain prep db where "prepared_batch h bid now prep (jget env ''items'') (ss\<lparr>ss_fences := db\<rparr>) = (Submitted b0 n False, ss')"
    using None assms by (auto simp: submit_batch_def split: sum.splits if_splits)
  then obtain cid fp where "create_batch h bid now cid fp prep (jget env ''items'') (ss\<lparr>ss_fences := db\<rparr>) = (Submitted b0 n False, ss')"
    by (rule prepared_created)
  then obtain ds where "item_dicts (jget env ''items'') = Some ds" "n = length ds" by (rule created_shape)
  then have n: "py_len (jget env ''items'') = Some n" by (simp add: item_dicts_length)
  have "n \<noteq> 0" using door(3) n by (auto split: json.splits elim!: truthy.elims)
  then show ?thesis
    using door n by (auto simp: max_batch_items_def max_batch_json_bytes_def)
qed

lemma demo_accepted:
  "fst (submit_batch demo_submit_host ''b1'' 5 (demo_request ''flux'') demo_empty) = Submitted ''b1'' 1 False"
  by code_simp

lemma demo_created:
  "submit_batch demo_submit_host ''b1'' 5 (demo_request ''flux'') demo_empty = (Submitted ''b1'' 1 False,
     snd (submit_batch demo_submit_host ''b1'' 5 (demo_request ''flux'') demo_empty))"
  unfolding demo_accepted [symmetric] by (rule prod.collapse [symmetric])

theorem only_local_work_is_queued_witness:
  "cloud_reason (eh_repr (sh_exec demo_submit_host)) (JStr ''flux'') (JStr ''image'') [] JNull = None"
proof -
  have "jget (demo_request ''flux'') ''model'' = JStr ''flux''" "jget (demo_request ''flux'') ''modality'' = JStr ''image''"
    "cached_entries (eh_repr (sh_exec demo_submit_host)) (sh_cached demo_submit_host) (JStr ''flux'') (JStr ''image'') = []"
    by (simp_all add: demo_request_def jget_def cached_entries_def demo_submit_host_def)
  then show ?thesis using only_local_work_is_queued [OF demo_created] by (simp only:)
qed

section \<open>Sending a request again\<close>

lemma local_prepare:
  assumes "extract_identity h env = Inr None"
  shows "prepare h now env db = Inr (\<lparr>pr_envelope = env, pr_evidence = None, pr_replay = None\<rparr>, db)"
  using assms by (simp add: prepare_def bind_err_def)

lemma local_submit:
  assumes "door_check h env = None" "extract_identity (sh_exec h) env = Inr None"
  shows "submit_batch h bid now env ss
     = prepared_batch h bid now \<lparr>pr_envelope = env, pr_evidence = None, pr_replay = None\<rparr> (jget env ''items'') ss"
  using assms by (simp add: submit_batch_def local_prepare)

lemma first_submission:
  assumes first: "submit_batch h bid now env ss = (Submitted b0 n False, ss1)"
    and cid: "jget env ''clientRequestId'' = JStr cid" and plain: "extract_identity (sh_exec h) env = Inr None"
    and sha: "\<And>x. eh_sha256 (sh_exec h) x \<noteq> []" and fresh: "\<not> taken bid ss" and cover: "rows_cover ss"
  shows "client_request_pattern cid" "bound_request cid (request_fingerprint (sh_exec h) env) b0 n ss1"
proof -
  let ?prep = "\<lparr>pr_envelope = env, pr_evidence = None, pr_replay = None\<rparr>" and ?fp = "request_fingerprint (sh_exec h) env"
  have door: "door_check h env = None"
    using first by (auto simp: submit_batch_def door_check_def Let_def split: if_splits option.splits)
  show pat: "client_request_pattern cid"
    using first local_submit [OF door plain, of bid now ss] cid by (auto simp: prepared_batch_def Let_def split: if_splits)
  have none: "known_request cid ss = None"
    and created: "create_batch h bid now (Some cid) (Some ?fp) ?prep (jget env ''items'') ss = (Submitted b0 n False, ss1)"
    using first local_submit [OF door plain, of bid now ss] cid
    by (auto simp: prepared_batch_def Let_def split: if_splits option.splits)
  obtain ds where ds: "b0 = bid" "n = length ds"
    and ss1: "ss1 = ss\<lparr>ss_broker := add_batch (new_batch (submission_of h bid now (Some cid) (Some ?fp) None ds env)) (ss_broker ss),
       ss_requests := save_request (new_batch (submission_of h bid now (Some cid) (Some ?fp) None ds env)) (ss_requests ss),
       ss_fences := bind_local_batch None bid now (ss_fences ss)\<rparr>"
    using created_shape [OF created] by simp metis
  define b where "b = new_batch (submission_of h bid now (Some cid) (Some ?fp) None ds env)"
  have b: "row_sig b = (b0, Some cid, Some ?fp, n)" and cr: "ba_client_request b = Some cid" "ba_fingerprint b = Some ?fp"
    using ds by (simp_all add: b_def row_sig_def new_batch_def submission_of_def Let_def)
  have no_row: "select_first (\<lambda>r. qr_client r = cid) (ss_requests ss) = None"
    using none by (auto simp: known_request_def split: option.splits)
  have "cid \<noteq> []" "?fp \<noteq> []"
    using pat sha by (auto simp: client_request_pattern_def request_fingerprint_def Let_def)
  moreover have "List.find (\<lambda>r. qr_client r = cid) (rows @ [r]) = Some r"
    if "List.find (\<lambda>r. qr_client r = cid) rows = None" "qr_client r = cid" for rows :: "client_row list" and r
    using that by (induction rows) (auto split: if_splits)
  ultimately have "select_first (\<lambda>r. qr_client r = cid) (save_request b (ss_requests ss))
      = Some \<lparr>qr_client = cid, qr_fingerprint = ?fp, qr_batch = b0, qr_items = n\<rparr>"
    using no_row cr b by (auto simp: save_request_def select_first_def row_sig_def list_ex_iff find_None_iff)
  moreover have "s = (b0, Some cid, Some ?fp, n)"
    if s: "s \<in> row_sigs (ss_broker ss1)" and own: "fst (snd s) = Some cid \<or> fst s = b0" for s
  proof -
    have "s \<in> insert (row_sig b) (row_sigs (ss_broker ss))"
      using s sigs_add_batch by (fastforce simp: ss1 b_def)
    moreover have "s \<notin> row_sigs (ss_broker ss)"
    proof
      assume old: "s \<in> row_sigs (ss_broker ss)"
      then have "fst (snd s) = Some cid \<Longrightarrow> False"
        using cover no_row by (auto simp: rows_cover_def select_first_None)
      moreover have "fst s = b0 \<Longrightarrow> False"
        using old fresh ds(1) by (auto simp: row_sigs_def row_sig_def taken_def known_batch_def list_ex_iff)
      ultimately show False using own by blast
    qed
    ultimately show ?thesis using b by simp
  qed
  ultimately show "bound_request cid ?fp b0 n ss1"
    unfolding bound_request_def by (simp add: ss1 b_def)
qed

text \<open>C21: Resubmission is idempotent, for good: once a request with a client id (and no externally
  assigned identity) created a batch, sending the same request again - under any fresh id, at any later
  time: after any steps of the broker, restarts of the Hub, other submissions and the clearing of
  finished history - answers with that batch as a replay and changes nothing at all (unless the checks
  at the door now refuse it, for instance because a catalog marks its model as hosted by then); and a
  different payload under the same client id is refused as a conflict, again without any change.  (New
  batch ids are not reused, and digests are not empty.)\<close>

theorem resubmission_is_idempotent:
  assumes sha: "\<forall>x. eh_sha256 (sh_exec h) x \<noteq> []" and fresh: "\<not> taken bid (queue_run h ops)"
    and first: "submit_batch h bid now env (queue_run h ops) = (Submitted b0 n False, ss1)"
    and cid: "jget env ''clientRequestId'' = JStr cid" and plain: "extract_identity (sh_exec h) env = Inr None"
    and later: "ss2 = fold (queue_step h) later ss1" and h': "h' = h\<lparr>sh_cached := cached\<rparr>"
  shows "submit_batch h' bid' now' env ss2 = (case door_check h' env of None \<Rightarrow> Submitted b0 n True | Some r \<Rightarrow> r, ss2)
     \<and> (\<forall>env'. door_check h' env' = None \<and> extract_identity (sh_exec h) env' = Inr None
          \<and> jget env' ''clientRequestId'' = JStr cid
          \<and> request_fingerprint (sh_exec h) env' \<noteq> request_fingerprint (sh_exec h) env
          \<longrightarrow> submit_batch h' bid' now' env' ss2 = (Rejected Request_conflict, ss2))"
proof -
  have d: "eh_sha256 (sh_exec h) x \<noteq> []" for x using sha by blast
  note at_first = first_submission [OF first cid plain d fresh queue_covers [OF d]]
  let ?fp = "request_fingerprint (sh_exec h) env"
  have exec: "sh_exec h' = sh_exec h" by (simp add: h')
  obtain k where k: "known_request cid ss2 = Some k" "known_id k = b0" "known_items k = n" "known_fingerprint k = Some ?fp"
    using bound_known [OF queue_keeps_bound [OF d at_first(2), of later]] later by blast
  have again: "submit_batch h' bid' now' env2 ss2
      = (if request_fingerprint (sh_exec h) env2 = ?fp then (Submitted b0 n True, ss2) else (Rejected Request_conflict, ss2))"
    if "door_check h' env2 = None" "extract_identity (sh_exec h) env2 = Inr None" "jget env2 ''clientRequestId'' = JStr cid" for env2
    using local_submit [of h' env2 bid' now' ss2] that at_first(1) k
    by (simp add: prepared_batch_def Let_def refresh_fence_def bind_local_batch_def exec)
  have "submit_batch h' bid' now' env ss2 = (case door_check h' env of None \<Rightarrow> Submitted b0 n True | Some r \<Rightarrow> r, ss2)"
    using again [OF _ plain cid] by (cases "door_check h' env") (simp_all add: submit_batch_def)
  then show ?thesis using again by simp
qed

text \<open>The batch is cancelled, the Hub restarts, its finished history is cleared; the request is sent again.\<close>

definition demo_digest_host :: submit_host where
  "demo_digest_host = demo_submit_host\<lparr>sh_exec := (sh_exec demo_submit_host)\<lparr>eh_sha256 := (\<lambda>s. CHR ''d'' # s)\<rparr>\<rparr>"

definition demo_later :: "queue_op list" where
  "demo_later =
     (let c = \<lparr>dc_registry = [], dc_text = \<lparr>th_float = (\<lambda>_. None), th_repr = (\<lambda>_. ''x'')\<rparr>,
          dc_exec = sh_exec demo_digest_host, dc_sanitize = (\<lambda>s. s)\<rparr>
      in [Turn c (Cancel 20 (\<lambda>_. None) ''b1''), Turn c (Restart_hub 30), Clear_finished None None])"

lemma demo_first:
  "fst (submit_batch demo_digest_host ''b1'' 5 (demo_request ''flux'') (queue_run demo_digest_host [])) = Submitted ''b1'' 1 False"
  by code_simp

lemma demo_cleared:
  "(let ss2 = fold (queue_step demo_digest_host) demo_later
       (snd (submit_batch demo_digest_host ''b1'' 5 (demo_request ''flux'') (queue_run demo_digest_host [])))
    in br_batches (ss_broker ss2) = [] \<and> br_ledger (ss_broker ss2) = [])"
  by code_simp

theorem resubmission_is_idempotent_witness:
  "\<exists>ss2. br_batches (ss_broker ss2) = [] \<and> br_ledger (ss_broker ss2) = []
     \<and> submit_batch demo_digest_host ''b2'' 90 (demo_request ''flux'') ss2 = (Submitted ''b1'' 1 True, ss2)"
proof -
  let ?h = demo_digest_host and ?env = "demo_request ''flux''"
  let ?ss1 = "snd (submit_batch ?h ''b1'' 5 ?env (queue_run ?h []))"
  have sha: "\<forall>x. eh_sha256 (sh_exec ?h) x \<noteq> []" by (simp add: demo_digest_host_def)
  have fresh: "\<not> taken ''b1'' (queue_run ?h [])" by code_simp
  have first: "submit_batch ?h ''b1'' 5 ?env (queue_run ?h []) = (Submitted ''b1'' 1 False, ?ss1)"
    unfolding demo_first [symmetric] by (rule prod.collapse [symmetric])
  have cid: "jget ?env ''clientRequestId'' = JStr ''client-1''" by (simp add: demo_request_def jget_def)
  have plain: "extract_identity (sh_exec ?h) ?env = Inr None" by code_simp
  have door: "door_check ?h ?env = None"
    using first by (auto simp: submit_batch_def door_check_def Let_def split: if_splits option.splits)
  have same: "?h = ?h\<lparr>sh_cached := sh_cached ?h\<rparr>" by simp
  from resubmission_is_idempotent [OF sha fresh first cid plain refl same, where later = demo_later
      and bid' = "''b2''" and now' = 90] demo_cleared
  show ?thesis by (auto simp: door Let_def)
qed

end
