(* ===== verification/Broker_Findings.thy ===== *)
theory Broker_Findings
  imports Broker_Theorems Submit_Theorems
begin

text \<open>
  Concrete runs on which the broker does something its comments and documentation do not promise, each
  evaluated on the model.
\<close>

text \<open>A voice item that a worker accepted, but has not proved to have started, is still saved as waiting:
  nothing saves the batch between the dispatch and the first proof of execution.  After a restart it
  waits in the queue again, without the identity of the accepted job.\<close>

definition voice_submission :: submission where
  "voice_submission = demo_submission\<lparr>sb_modality := ''voice'', sb_items := [[(''prompt'', JStr ''a'')]]\<rparr>"

definition voice_context :: dispatch_context where
  "voice_context = demo_context\<lparr>dc_registry := [\<lparr>st_id = ''voice'', st_machine = ''local'', st_modality = ''voice''\<rparr>]\<rparr>"

definition voice_accepted :: "broker_op list" where
  "voice_accepted = [Submit voice_submission, Scan demo_view 11 ''b1'', Offer (\<lambda>_. None) 11 demo_offer,
     Begin (''b1'', 0) 12 Clear, Accept (''b1'', 0) 13 ''j'' []]"

lemma restart_forgets_accepted_voice:
  "map_option (\<lambda>it. (it_state it, it_job it)) (find_item (broker_run voice_context voice_accepted) ''b1'' 0)
     = Some (Running, Some ''j'')
   \<and> map_option (\<lambda>it. (it_state it, it_job it))
       (find_item (broker_run voice_context (voice_accepted @ [Restart_hub 20])) ''b1'' 0) = Some (Queued, None)"
  by code_simp

text \<open>An item whose batch is cancelled while its task hands idle memory back after a capacity failure is
  put back on the queue of the cancelled batch, where nothing takes it any more.\<close>

definition capacity_failure :: failure where
  "capacity_failure = \<lparr>fa_message = ''not enough memory'', fa_http_transport = False, fa_status = None,
     fa_model_unavailable = False, fa_terminal = True, fa_retryable = True\<rparr>"

definition cancelled_handoff :: "broker_op list" where
  "cancelled_handoff = demo_run @ [Begin (''b1'', 0) 12 Clear, Accept (''b1'', 0) 13 ''j'' [], Check (''b1'', 0) 14,
     Raise (''b1'', 0) 15 capacity_failure, Cancel 16 (\<lambda>_. None) ''b1'', Handed (''b1'', 0) 17 True,
     Scan demo_view 60 ''b1'']"

lemma cancelled_item_waits_forever:
  "map_option ba_cancelled (batch_of (broker_run demo_context cancelled_handoff) ''b1'') = Some True
   \<and> map_option it_state (find_item (broker_run demo_context cancelled_handoff) ''b1'' 0) = Some Queued
   \<and> map task_key (br_tasks (broker_run demo_context cancelled_handoff)) = [(''b1'', 1)]"
  by code_simp

text \<open>The first handoff of a machine raises a KeyError while the monotonic clock is below 15 seconds.\<close>

lemma handoff_fails_at_boot: "now < 15 \<Longrightarrow> begin_handoff now target [] = None"
  by (simp add: begin_handoff_def Let_def handoff_retry_s_def)

text \<open>Two envelopes that differ in nothing but the deadline of the lease have different fingerprints, so
  an exact replay under a renewed lease is refused as a different batch.\<close>

definition leased_request :: "string \<Rightarrow> jdict" where
  "leased_request deadline = [(''model'', JStr ''m''), (''genstudio_execution'',
     JObj [(''job_id'', JStr ''j''), (''fencing_token'', JInt 5), (''lease_expires_at'', JStr deadline)])]"

lemma fingerprint_depends_on_lease:
  "request_fingerprint demo_host (leased_request ''t1'') \<noteq> request_fingerprint demo_host (leased_request ''t2'')"
  by code_simp

end
