(* ===== verification/Worker_Activity.thy ===== *)
theory Worker_Activity
  imports Memory_Admission
begin

text \<open>
  What a Studio's worker reports of its activity, as \<open>app/backend/activity.py\<close> checks it
  (\<open>validate_snapshot\<close> with the helpers \<open>_finite\<close>, \<open>_text\<close> and \<open>_job\<close>), and the check of
  \<open>app/backend/main.py\<close> that rests on it: whether fresh activity and downloads allow the Hub to cancel
  one exact job (\<open>_worker_allows_exact_cancel\<close>).  Of a validated snapshot the model keeps the active
  job's identifier, state and operation, which is what the caller reads.

  Every check ends in one of three ways: it raises (an unhashable value tested for membership of a
  set, an integer too large for a float), it refuses, or it gives a value.  An HTTP exchange is an
  exception, undecodable text included, or a status with the parsed body.
\<close>

datatype http_answer = Http_lost | Http int json

datatype 'a reading = Raises | Rejects | Valid 'a

fun and_then :: "'a reading \<Rightarrow> ('a \<Rightarrow> 'b reading) \<Rightarrow> 'b reading" where
  "and_then Raises f = Raises"
| "and_then Rejects f = Rejects"
| "and_then (Valid x) f = f x"

lemma and_then_Valid: "and_then r f = Valid y \<longleftrightarrow> (\<exists>x. r = Valid x \<and> f x = Valid y)"
  by (cases r) simp_all

section \<open>Fields\<close>

definition too_large_for_float :: "int \<Rightarrow> bool" where
  \<comment> \<open>\<open>float(i)\<close> raises OverflowError\<close>
  "too_large_for_float i \<longleftrightarrow> 2 ^ 1024 - 2 ^ 970 \<le> \<bar>i\<bar>"

definition from_zero :: "rat \<Rightarrow> rat reading" where
  "from_zero r = (if 0 \<le> r then Valid r else Rejects)"

fun reported_number :: "json \<Rightarrow> rat reading" where
  \<comment> \<open>\<open>_finite(value, minimum=0)\<close>\<close>
  "reported_number (JInt i) = (if too_large_for_float i then Raises else from_zero (of_int i))"
| "reported_number (JFloat r) = from_zero r"
| "reported_number _ = Rejects"

definition reported_text :: "json \<Rightarrow> nat \<Rightarrow> string option" where
  "reported_text v limit = (case as_str v of
       None \<Rightarrow> None
     | Some s \<Rightarrow> if py_strip s \<noteq> [] \<and> length (py_strip s) \<le> limit then Some (py_strip s) else None)"

definition one_of :: "string list \<Rightarrow> json \<Rightarrow> string reading" where
  \<comment> \<open>\<open>value in {...}\<close>, a set of strings\<close>
  "one_of names v = (if \<not> hashable v then Raises
     else case as_str v of None \<Rightarrow> Rejects | Some s \<Rightarrow> if s \<in> set names then Valid s else Rejects)"

definition or_else :: "jdict \<Rightarrow> string \<Rightarrow> string \<Rightarrow> json" where
  \<comment> \<open>\<open>d.get(k, default)\<close>\<close>
  "or_else d k v = (case dget d k of None \<Rightarrow> JStr v | Some w \<Rightarrow> w)"

definition reporting_states :: "string list" where
  "reporting_states = [''queued'', ''running'', ''cancel_requested'', ''uncertain'']"

definition over_states :: "string list" where
  "over_states = [''done'', ''error'', ''cancelled'']"

section \<open>A reported job\<close>

record reported_job =
  rj_id :: string
  rj_state :: string
  rj_operation :: string
  rj_updated :: "rat option"
  rj_finished :: "rat option"

fun read_times :: "jdict \<Rightarrow> string list \<Rightarrow> (string \<times> rat) list reading" where
  "read_times d [] = Valid []"
| "read_times d (k # ks) =
     (if jget d k = JNull then read_times d ks
      else and_then (reported_number (jget d k)) (\<lambda>r.
           and_then (read_times d ks) (\<lambda>rest. Valid ((k, r) # rest))))"

fun later_than :: "rat option \<Rightarrow> rat option \<Rightarrow> bool" where
  "later_than (Some x) (Some y) = (y < x)"
| "later_than _ _ = False"

definition times_disagree :: "(string \<times> rat) list \<Rightarrow> bool" where
  "times_disagree ts =
     (let created = map_of ts ''created_at''; started = map_of ts ''started_at'';
          updated = map_of ts ''updated_at''; finished = map_of ts ''finished_at''
      in list_ex (later_than created) [started, updated, finished]
         \<or> list_ex (later_than started) [updated, finished] \<or> later_than updated finished
         \<or> (case (map_of ts ''runtime_s'', started, finished) of
              (Some r, Some s, Some f) \<Rightarrow> f - s + 1 < r | _ \<Rightarrow> False))"

definition progress_ok :: "json \<Rightarrow> unit reading" where
  "progress_ok v = (if v = JNull then Valid ()
     else and_then (reported_number v) (\<lambda>r. if r \<le> 1 then Valid () else Rejects))"

definition origin_device_ok :: "jdict \<Rightarrow> bool" where
  "origin_device_ok d = (case dget d ''origin_device'' of
       None \<Rightarrow> True | Some v \<Rightarrow> reported_text v 160 \<noteq> None)"

definition operation_fits :: "string \<Rightarrow> string \<Rightarrow> bool" where
  "operation_fits studio operation \<longleftrightarrow>
     \<not> (studio = ''image'' \<and> operation \<noteq> ''image'') \<and> \<not> (studio = ''voice'' \<and> operation = ''image'')"

definition read_job :: "string \<Rightarrow> jdict \<Rightarrow> reported_job reading" where
  \<comment> \<open>\<open>_job(value, studio=...)\<close> of a dictionary\<close>
  "read_job studio d = (case reported_text (jget d ''id'') 160 of
       None \<Rightarrow> Rejects
     | Some job_id \<Rightarrow> and_then (one_of (reporting_states @ over_states) (jget d ''state'')) (\<lambda>state.
         if reported_text (jget d ''model'') 500 = None then Rejects
         else and_then (one_of [''direct'', ''job''] (jget d ''source'')) (\<lambda>_.
              and_then (one_of [''hub'', ''local_ui'', ''api'', ''unknown''] (or_else d ''origin'' ''unknown'')) (\<lambda>_.
              if \<not> origin_device_ok d then Rejects
              else and_then (progress_ok (jget d ''progress'')) (\<lambda>_.
                   and_then (read_times d [''created_at'', ''started_at'', ''updated_at'', ''finished_at'', ''runtime_s'']) (\<lambda>ts.
                   if state \<in> set over_states \<and> map_of ts ''finished_at'' = None \<or> times_disagree ts then Rejects
                   else and_then (one_of [''image'', ''speech'', ''transcription'']
                                   (or_else d ''operation'' (if studio = ''image'' then ''image'' else ''speech''))) (\<lambda>operation.
                        if operation_fits studio operation
                        then Valid \<lparr>rj_id = job_id, rj_state = state, rj_operation = operation,
                               rj_updated = map_of ts ''updated_at'', rj_finished = map_of ts ''finished_at''\<rparr>
                        else Rejects)))))))"

section \<open>A snapshot\<close>

definition read_slot :: "string \<Rightarrow> rat \<Rightarrow> string list \<Rightarrow> json \<Rightarrow> reported_job option reading" where
  \<comment> \<open>one turn of the loop over \<open>active\<close> and \<open>latest\<close>\<close>
  "read_slot studio seen states v =
     (if v = JNull then Valid None
      else case as_dict v of
        None \<Rightarrow> Rejects
      | Some d \<Rightarrow> and_then (read_job studio d) (\<lambda>j.
          if rj_state j \<notin> set states \<or> later_than (rj_updated j) (Some seen) \<or> later_than (rj_finished j) (Some seen)
          then Rejects else Valid (Some j)))"

definition validate_snapshot :: "string \<Rightarrow> json \<Rightarrow> reported_job option reading" where
  \<comment> \<open>the active job of a valid snapshot\<close>
  "validate_snapshot expected v = (case as_dict v of
       None \<Rightarrow> Rejects
     | Some d \<Rightarrow>
         if jget d ''schema'' \<noteq> JStr ''kh-studio.activity.v1'' then Rejects
         else (case reported_number (jget d ''observed_at'') of
             Raises \<Rightarrow> Raises
           | seen \<Rightarrow> and_then (one_of [''image'', ''voice''] (jget d ''studio'')) (\<lambda>studio.
               and_then seen (\<lambda>now.
               if studio \<noteq> expected then Rejects
               else and_then (read_slot studio now reporting_states (jget d ''active'')) (\<lambda>active.
                    and_then (read_slot studio now over_states (jget d ''latest'')) (\<lambda>_. Valid active))))))"

section \<open>Whether one exact job may be cancelled\<close>

definition moving_downloads :: "string list" where
  "moving_downloads = [''queued'', ''running'', ''paused'', ''cancelling'']"

fun downloads_at_rest :: "json list \<Rightarrow> unit reading" where
  "downloads_at_rest [] = Valid ()"
| "downloads_at_rest (v # vs) = (case as_dict v of
       None \<Rightarrow> Rejects
     | Some d \<Rightarrow> and_then (one_of (moving_downloads @ [''done'', ''error'', ''cancelled'']) (jget d ''state'')) (\<lambda>state.
         if state \<in> set moving_downloads then Rejects else downloads_at_rest vs))"

definition active_is :: "string \<Rightarrow> string \<Rightarrow> reported_job option \<Rightarrow> bool" where
  "active_is modality job_id active = (case active of
       None \<Rightarrow> False
     | Some j \<Rightarrow> rj_id j = job_id \<and> rj_state j = ''running'' \<and> (modality = ''voice'' \<longrightarrow> rj_operation j = ''speech''))"

definition worker_allows :: "string \<Rightarrow> string \<Rightarrow> http_answer \<Rightarrow> http_answer \<Rightarrow> unit reading" where
  \<comment> \<open>\<open>_worker_allows_exact_cancel\<close>; \<open>Valid ()\<close> is True\<close>
  "worker_allows modality job_id activity_answer downloads_answer = (case (activity_answer, downloads_answer) of
       (Http s1 body1, Http s2 body2) \<Rightarrow>
         and_then (case validate_snapshot modality (if s1 = 200 then body1 else JNull) of
             Raises \<Rightarrow> Raises
           | Rejects \<Rightarrow> Rejects
           | Valid active \<Rightarrow> if active_is modality job_id active then Valid () else Rejects) (\<lambda>_.
         case as_dict (if s2 = 200 then body2 else JNull) of
           None \<Rightarrow> Rejects
         | Some d \<Rightarrow> (case jget d ''jobs'' of JList jobs \<Rightarrow> downloads_at_rest jobs | _ \<Rightarrow> Rejects))
     | _ \<Rightarrow> Rejects)"

section \<open>What an allowed cancellation rests on\<close>

lemma downloads_at_rest_over:
  "downloads_at_rest vs = Valid () \<Longrightarrow> v \<in> set vs
   \<Longrightarrow> \<exists>d s. as_dict v = Some d \<and> jget d ''state'' = JStr s \<and> s \<notin> set moving_downloads"
proof (induction vs)
  case (Cons w ws)
  then obtain d s where w: "as_dict w = Some d" "as_str (jget d ''state'') = Some s" "s \<notin> set moving_downloads"
    "downloads_at_rest ws = Valid ()"
    by (auto simp: and_then_Valid one_of_def split: option.splits if_splits)
  have "jget d ''state'' = JStr s" using w(2) by (cases "jget d ''state''") simp_all
  with w Cons show ?case by auto
qed simp

lemma worker_allows_idle:
  assumes "worker_allows modality job_id a b = Valid ()"
  obtains body d jobs j where "a = Http 200 body" "validate_snapshot modality body = Valid (Some j)"
    "rj_id j = job_id" "rj_state j = ''running''" "b = Http 200 (JObj d)" "jget d ''jobs'' = JList jobs"
    "downloads_at_rest jobs = Valid ()"
proof -
  obtain s1 body1 s2 body2 where ab: "a = Http s1 body1" "b = Http s2 body2"
    using assms by (cases a; cases b) (auto simp: worker_allows_def)
  obtain active where act: "validate_snapshot modality (if s1 = 200 then body1 else JNull) = Valid active"
    "active_is modality job_id active"
    using assms by (auto simp: worker_allows_def ab and_then_Valid split: reading.splits if_splits)
  then have s1: "s1 = 200" by (auto simp: validate_snapshot_def split: if_splits)
  obtain j where j: "active = Some j" "rj_id j = job_id" "rj_state j = ''running''"
    using act(2) by (auto simp: active_is_def split: option.splits)
  obtain d jobs where d: "as_dict (if s2 = 200 then body2 else JNull) = Some d" "jget d ''jobs'' = JList jobs"
    "downloads_at_rest jobs = Valid ()"
    using assms by (auto simp: worker_allows_def ab and_then_Valid split: option.splits json.splits reading.splits if_splits)
  have "s2 = 200" "body2 = JObj d" using d(1) by (auto split: if_splits elim!: as_dict.elims)
  with that act(1) s1 j d ab show ?thesis by auto
qed

end
