(* ===== verification/Auto_Recovery.thy ===== *)
theory Auto_Recovery
  imports Worker_Activity
begin

text \<open>
  \<open>app/backend/automatic_recovery.py\<close> and its caller in \<open>app/backend/main.py\<close>: a local Studio's running
  job is watched, and when it has made no progress for long enough under continuous observation, the
  Hub cancels exactly that job.  The state is a JSON file: a row per Studio with what was last seen of
  its job.  A row is kept as the dictionary the code keeps.  Clocks are exact rationals; the session of
  the observer (a random identifier of this process) is an argument of loading.

  The answers of the worker to each HTTP exchange are arguments of \<open>local_recovery\<close>: the exact reads of
  the job, the activity snapshot and the downloads (theory Worker_Activity), the list of jobs.  An
  operation answers \<open>None\<close> when the code raises.
\<close>

section \<open>Python equality of JSON values\<close>

fun num_value :: "json \<Rightarrow> rat option" where
  \<comment> \<open>bools, ints and floats compare by value\<close>
  "num_value (JBool b) = Some (if b then 1 else 0)"
| "num_value (JInt i) = Some (of_int i)"
| "num_value (JFloat r) = Some r"
| "num_value _ = None"

function py_eq :: "json \<Rightarrow> json \<Rightarrow> bool" where
  "py_eq x y = (case (x, y) of
       (JNull, JNull) \<Rightarrow> True
     | (JInf a, JInf b) \<Rightarrow> a = b
     | (JStr s, JStr t) \<Rightarrow> s = t
     | (JList xs, JList ys) \<Rightarrow> length xs = length ys \<and> list_all (\<lambda>(a, b). py_eq a b) (zip xs ys)
     | (JObj d, JObj e) \<Rightarrow> length d = length e
         \<and> list_all (\<lambda>(k, a). case dget e k of None \<Rightarrow> False | Some b \<Rightarrow> py_eq a b) d
     | _ \<Rightarrow> num_value x \<noteq> None \<and> num_value x = num_value y)"
  by pat_completeness auto
termination
  apply (relation "measure (size \<circ> fst)")
    apply simp
  subgoal for x y u v xs ys p
    using size_list_estimation' [of "fst p" xs "size (fst p)" size]
    by (cases p) (auto dest: set_zip_leftD)
  subgoal for x y u v d e p
    using size_list_estimation' [of p d "size_prod (\<lambda>_. 0) size p" "size_prod (\<lambda>_. 0) size"]
    by (cases p) auto
  done

declare py_eq.simps [simp del]

lemma py_eq_str [simp]: "py_eq (JStr s) (JStr t) \<longleftrightarrow> s = t"
  by (simp add: py_eq.simps)


section \<open>Policy\<close>

definition max_stall_s :: time where
  "max_stall_s = 6 * 60 * 60"

definition default_stall_s :: "(string \<times> time) list" where
  "default_stall_s = [(''image'', 60 * 60), (''voice'', 2 * 60 * 60)]"

definition max_observation_gap_s :: time where
  "max_observation_gap_s = 5 * 60"

definition in_progress_phases :: "string list" where
  "in_progress_phases = [''cancel_requested'']"

definition stall_after :: "string \<Rightarrow> time" where
  "stall_after modality = (case dget default_stall_s modality of None \<Rightarrow> max_stall_s | Some t \<Rightarrow> t)"

definition nonneg_number :: "json \<Rightarrow> rat option" where
  "nonneg_number v = (case finite_number v of Some r \<Rightarrow> if 0 \<le> r then Some r else None | None \<Rightarrow> None)"

definition job_signature :: "string \<Rightarrow> jdict \<Rightarrow> json list" where
  "job_signature modality job = map (jget job)
     (if modality = ''image'' then [''state'', ''progress'', ''current_step'', ''total_steps'']
      else [''state'', ''progress'', ''chunk_index'', ''chunk_total''])"

section \<open>State\<close>

datatype state_file = No_file | Unreadable | Readable json

record watch_state =
  ws_jobs :: "(string \<times> jdict) list"
  ws_updated :: json
  ws_healthy :: bool
  ws_session :: string
  ws_file :: state_file

definition file_ok :: "jdict \<Rightarrow> bool" where
  "file_ok d \<longleftrightarrow> py_eq (jget d ''schema_version'') (JInt 1)
     \<and> (case as_dict (jget d ''jobs'') of None \<Rightarrow> False | Some rows \<Rightarrow> list_all (\<lambda>(_, r). as_dict r \<noteq> None) rows)
     \<and> dget d ''state_healthy'' \<in> {None, Some (JBool True)}"

definition file_value :: "state_file \<Rightarrow> jdict \<times> bool" where
  \<comment> \<open>the dictionary that is used, and whether the state is healthy\<close>
  "file_value file = (case file of
       No_file \<Rightarrow> ([], True)
     | Unreadable \<Rightarrow> ([], False)
     | Readable v \<Rightarrow> (case as_dict v of None \<Rightarrow> ([], False) | Some d \<Rightarrow> if file_ok d then (d, True) else ([], False)))"

definition demoted_row :: "jdict \<Rightarrow> jdict" where
  "demoted_row row =
     (if jget row ''phase'' \<in> set (map JStr in_progress_phases)
      then dset ''reason'' (JStr ''The Hub restarted during local recovery; inspect the exact job before acting.'')
             (dset ''phase'' (JStr ''manual_action_required'') row)
      else row)"

definition loaded_rows :: "jdict \<Rightarrow> (string \<times> jdict) list" where
  "loaded_rows d = (case as_dict (jget d ''jobs'') of
       None \<Rightarrow> []
     | Some rows \<Rightarrow> map (\<lambda>(k, r). (k, demoted_row (case as_dict r of None \<Rightarrow> [] | Some x \<Rightarrow> x))) rows)"

definition load_watch :: "string \<Rightarrow> state_file \<Rightarrow> watch_state option" where
  \<comment> \<open>a phase that cannot be hashed raises\<close>
  "load_watch session file =
     (let (d, healthy) = file_value file; rows = loaded_rows d
      in if \<not> list_all (\<lambda>(_, row). hashable (jget row ''phase'')) rows then None
         else Some \<lparr>ws_jobs = rows,
           ws_updated = (case nonneg_number (jget d ''updated_at'') of None \<Rightarrow> JNull | Some r \<Rightarrow> JFloat r),
           ws_healthy = healthy, ws_session = session, ws_file = file\<rparr>)"

definition watch_json :: "watch_state \<Rightarrow> json" where
  "watch_json st = JObj [(''jobs'', JObj (map (\<lambda>(k, r). (k, JObj r)) (ws_jobs st))), (''schema_version'', JInt 1),
     (''state_healthy'', JBool (ws_healthy st)), (''updated_at'', ws_updated st)]"

definition save_watch :: "watch_state \<Rightarrow> watch_state" where
  "save_watch st = st\<lparr>ws_file := Readable (watch_json st)\<rparr>"

definition put_row :: "string \<Rightarrow> jdict \<Rightarrow> time \<Rightarrow> watch_state \<Rightarrow> watch_state" where
  "put_row studio row now st = save_watch (st\<lparr>ws_jobs := dset studio row (ws_jobs st), ws_updated := JFloat now\<rparr>)"

section \<open>Observation\<close>

definition job_identity :: "text_host \<Rightarrow> jdict \<Rightarrow> string" where
  "job_identity h job = text_or_empty (th_repr h) (jget job ''id'')"

definition job_model :: "text_host \<Rightarrow> jdict \<Rightarrow> string option" where
  \<comment> \<open>\<open>None\<close>: \<open>params\<close> has no \<open>get\<close>\<close>
  "job_model h job =
     (if truthy (jget job ''model'') then Some (take 500 (py_str (th_repr h) (jget job ''model'')))
      else (case (if truthy (jget job ''params'') then as_dict (jget job ''params'') else Some []) of
          None \<Rightarrow> None
        | Some params \<Rightarrow> Some (take 500 (text_or_empty (th_repr h) (jget params ''repo'')))))"

definition stage_evidence :: "string \<Rightarrow> jdict \<Rightarrow> bool" where
  "stage_evidence modality job =
     (let (stage_field, total_field) = (if modality = ''image'' then (''current_step'', ''total_steps'')
                                        else (''chunk_index'', ''chunk_total''))
      in case (nonneg_number (jget job stage_field), nonneg_number (jget job total_field)) of
           (Some stage, Some steps) \<Rightarrow> 0 < steps \<and> stage \<le> steps
         | _ \<Rightarrow> False)"

definition float_or :: "text_host \<Rightarrow> json \<Rightarrow> time \<Rightarrow> fnum option" where
  \<comment> \<open>\<open>float(value or now)\<close>\<close>
  "float_or h v now = (if truthy v then py_float (th_float h) v else Some (Fin now))"

definition same_job :: "string \<Rightarrow> jdict option \<Rightarrow> bool" where
  "same_job job_id previous \<longleftrightarrow> (case previous of None \<Rightarrow> False | Some p \<Rightarrow> jget p ''job_id'' = JStr job_id)"

definition seen_recently :: "string \<Rightarrow> time \<Rightarrow> jdict \<Rightarrow> bool" where
  "seen_recently session now p \<longleftrightarrow> jget p ''observer_session'' = JStr session
     \<and> (case nonneg_number (jget p ''last_checked_at'') of
           None \<Rightarrow> False | Some t \<Rightarrow> 0 \<le> now - t \<and> now - t \<le> max_observation_gap_s)"

definition meaningful_since :: "text_host \<Rightarrow> string \<Rightarrow> string \<Rightarrow> json list \<Rightarrow> time \<Rightarrow> jdict option \<Rightarrow> fnum option" where
  "meaningful_since h session job_id signature now previous = (case previous of
       None \<Rightarrow> Some (Fin now)
     | Some p \<Rightarrow>
         if same_job job_id previous \<and> seen_recently session now p \<and> py_eq (jget p ''signature'') (JList signature)
         then float_or h (jget p ''last_meaningful_at'') now
         else Some (Fin now))"

definition open_phases :: "json list" where
  "open_phases = [JNull, JStr ''watching'', JStr ''eligible'']"

definition protected_phase :: "string \<Rightarrow> jdict option \<Rightarrow> json option" where
  \<comment> \<open>\<open>JNull\<close> when nothing protects the job; \<open>None\<close>: the phase cannot be hashed\<close>
  "protected_phase job_id previous = (case previous of
       None \<Rightarrow> Some JNull
     | Some p \<Rightarrow>
         if \<not> same_job job_id previous then Some JNull
         else if \<not> hashable (jget p ''phase'') then None
         else Some (if jget p ''phase'' \<in> set open_phases then JNull else jget p ''phase''))"

definition first_seen :: "text_host \<Rightarrow> string \<Rightarrow> time \<Rightarrow> jdict option \<Rightarrow> fnum option" where
  "first_seen h job_id now previous = (case previous of
       None \<Rightarrow> Some (Fin now)
     | Some p \<Rightarrow> if same_job job_id previous then float_or h (jget p ''first_seen_at'') now else Some (Fin now))"

definition job_elapsed :: "time \<Rightarrow> jdict \<Rightarrow> time" where
  "job_elapsed now job = (case nonneg_number (jget job ''started_at'') of None \<Rightarrow> 0 | Some t \<Rightarrow> now - t)"

definition stalled_job :: "text_host \<Rightarrow> string \<Rightarrow> jdict \<Rightarrow> bool \<Rightarrow> time \<Rightarrow> fnum \<Rightarrow> bool" where
  \<comment> \<open>\<open>eligible\<close> before the protection is looked at\<close>
  "stalled_job h modality job healthy now since \<longleftrightarrow> job_identity h job \<noteq> []
     \<and> modality \<in> set (map fst default_stall_s) \<and> jget job ''state'' = JStr ''running''
     \<and> healthy \<and> stage_evidence modality job
     \<and> stall_after modality \<le> job_elapsed now job
     \<and> (case since of Fin t \<Rightarrow> stall_after modality \<le> now - t | Neg_inf \<Rightarrow> True | _ \<Rightarrow> False)"

definition no_progress_for :: "time \<Rightarrow> fnum \<Rightarrow> fnum" where
  \<comment> \<open>\<open>max(0.0, now - meaningful_at)\<close>\<close>
  "no_progress_for now since = fmax (Fin 0) (case since of
       Fin t \<Rightarrow> Fin (now - t) | Neg_inf \<Rightarrow> Pos_inf | Pos_inf \<Rightarrow> Neg_inf | Not_num \<Rightarrow> Not_num)"

definition observed_row ::
  "string \<Rightarrow> string \<Rightarrow> string \<Rightarrow> string \<Rightarrow> json \<Rightarrow> fnum \<Rightarrow> fnum \<Rightarrow> time \<Rightarrow> jdict \<Rightarrow> string \<Rightarrow> jdict" where
  "observed_row studio modality job_id model phase first since now job session =
     [(''studio'', JStr studio), (''modality'', JStr modality), (''job_id'', JStr job_id),
      (''model'', if model = [] then JNull else JStr model), (''phase'', phase),
      (''first_seen_at'', fnum_json first), (''last_meaningful_at'', fnum_json since),
      (''last_checked_at'', JFloat now), (''stall_after_s'', JFloat (stall_after modality)),
      (''elapsed_s'', JFloat (max 0 (job_elapsed now job))), (''no_progress_s'', fnum_json (no_progress_for now since)),
      (''stage_evidence'', JBool (stage_evidence modality job)),
      (''signature'', JList (job_signature modality job)), (''observer_session'', JStr session)]"

definition observe_job_row ::
  "text_host \<Rightarrow> string \<Rightarrow> string \<Rightarrow> jdict \<Rightarrow> time \<Rightarrow> watch_state \<Rightarrow> (jdict \<times> bool) option" where
  "observe_job_row h studio modality job now st =
     (let job_id = job_identity h job; previous = dget (ws_jobs st) studio
      in case (job_model h job, meaningful_since h (ws_session st) job_id (job_signature modality job) now previous,
               first_seen h job_id now previous, protected_phase job_id previous) of
           (Some model, Some since, Some first, Some prot) \<Rightarrow>
             (let eligible = (stalled_job h modality job (ws_healthy st) now since \<and> \<not> truthy prot);
                  phase = (if truthy prot then prot else JStr (if eligible then ''eligible'' else ''watching''));
                  row = observed_row studio modality job_id model phase first since now job (ws_session st);
                  reason = (case previous of None \<Rightarrow> JNull | Some p \<Rightarrow> jget p ''reason'')
              in Some (if truthy prot \<and> truthy reason then dset ''reason'' reason row else row, eligible))
         | _ \<Rightarrow> None)"

definition observe ::
  "text_host \<Rightarrow> string \<Rightarrow> string \<Rightarrow> jdict \<Rightarrow> time \<Rightarrow> watch_state \<Rightarrow> (watch_state \<times> bool) option" where
  "observe h studio modality job now st = (case observe_job_row h studio modality job now st of
       None \<Rightarrow> None
     | Some (row, eligible) \<Rightarrow> Some (put_row studio row now st, eligible))"

definition marked_row :: "string \<Rightarrow> string \<Rightarrow> string \<Rightarrow> string \<Rightarrow> time \<Rightarrow> jdict option \<Rightarrow> jdict" where
  "marked_row studio job_id phase reason now previous =
     dset ''last_checked_at'' (JFloat now) (dset ''reason'' (JStr (take 500 reason)) (dset ''phase'' (JStr (take 80 phase))
       (if same_job job_id previous then the previous else [(''studio'', JStr studio), (''job_id'', JStr job_id)])))"

definition mark_job :: "string \<Rightarrow> string \<Rightarrow> string \<Rightarrow> string \<Rightarrow> time \<Rightarrow> watch_state \<Rightarrow> watch_state" where
  "mark_job studio job_id phase reason now st =
     put_row studio (marked_row studio job_id phase reason now (dget (ws_jobs st) studio)) now st"


section \<open>What the dashboard is told\<close>

record recovery_view =
  rv_state :: string
  rv_reason :: json
  rv_healthy :: bool
  rv_jobs :: "jdict list"
  rv_updated :: json

definition public_row :: "jdict \<Rightarrow> jdict" where
  "public_row row = filter (\<lambda>(k, _). k \<notin> set [''signature'', ''observer_session'']) row"

definition watch_snapshot :: "watch_state \<Rightarrow> recovery_view" where
  "watch_snapshot st =
     (let rows = map (public_row \<circ> snd) (sort_key fst (ws_jobs st));
          attention = List.find (\<lambda>r. jget r ''phase'' = JStr ''manual_action_required'') rows;
          recovering = List.find (\<lambda>r. jget r ''phase'' \<in> set (map JStr in_progress_phases)) rows;
          reason_or = (\<lambda>r text. if truthy (jget r ''reason'') then jget r ''reason'' else JStr text);
          (state, reason) = (if \<not> ws_healthy st
             then (''attention'', JStr ''Automatic cancellation is disabled because its durable state is invalid.'')
             else case attention of
               Some r \<Rightarrow> (''attention'', reason_or r ''A local recovery needs manual attention.'')
             | None \<Rightarrow> (case recovering of
                 Some r \<Rightarrow> (''recovering'', reason_or r ''A bounded local recovery is in progress.'')
               | None \<Rightarrow> (''watching'',
                   JStr ''Exact Image and Voice jobs are being watched with conservative stall windows.'')))
      in \<lparr>rv_state = state, rv_reason = reason, rv_healthy = ws_healthy st, rv_jobs = rows, rv_updated = ws_updated st\<rparr>)"

section \<open>Cancelling one exact job\<close>

definition read_exact :: "text_host \<Rightarrow> string \<Rightarrow> http_answer \<Rightarrow> string \<times> jdict option" where
  "read_exact h job_id answer = (case answer of
       Http_lost \<Rightarrow> (''unknown'', None)
     | Http status body \<Rightarrow>
         if status = 404 then (''missing'', None)
         else (case Option.bind (as_dict (if status = 200 then body else JNull)) (\<lambda>d. as_dict (jget d ''job'')) of
             None \<Rightarrow> (''unknown'', None)
           | Some job \<Rightarrow>
               if job_identity h job \<noteq> job_id then (''unknown'', None)
               else (if truthy (jget job ''state'') then py_str (th_repr h) (jget job ''state'') else ''unknown'', Some job)))"

datatype others = Alone | Another | Unverified | Scan_raises

definition active_states :: "string list" where
  "active_states = [''queued'', ''running'', ''cancel_requested'']"

definition ended_states :: "string list" where
  "ended_states = [''done'', ''error'', ''cancelled'', ''uncertain'']"

fun scan_others :: "string \<Rightarrow> json list \<Rightarrow> others" where
  "scan_others job_id [] = Alone"
| "scan_others job_id (v # vs) = (case as_dict v of
       None \<Rightarrow> Unverified
     | Some job \<Rightarrow> (case as_str (jget job ''id'') of
         None \<Rightarrow> Unverified
       | Some other \<Rightarrow>
           if other = [] then Unverified
           else if \<not> hashable (jget job ''state'') then Scan_raises
           else if jget job ''state'' \<notin> set (map JStr (active_states @ ended_states)) then Unverified
           else if other \<noteq> job_id \<and> jget job ''state'' \<in> set (map JStr active_states) then Another
           else if other \<noteq> job_id \<and> jget job ''state'' = JStr ''uncertain'' then Unverified
           else scan_others job_id vs))"

definition other_active :: "string \<Rightarrow> http_answer \<Rightarrow> others" where
  "other_active job_id answer = (case answer of
       Http_lost \<Rightarrow> Unverified
     | Http status body \<Rightarrow>
         (case as_dict (if status = 200 then body else JNull) of
            None \<Rightarrow> Unverified
          | Some d \<Rightarrow> (case jget d ''jobs'' of JList jobs \<Rightarrow> scan_others job_id jobs | _ \<Rightarrow> Unverified)))"

datatype cancel_outcome = Cancel_accepted | Cancel_rejected | Cancel_unknown

record worker_talk =
  wt_first :: http_answer
  wt_model :: json
  wt_inflight :: bool
  wt_activity :: http_answer
  wt_downloads :: http_answer
  wt_others :: http_answer
  wt_confirm :: http_answer
  wt_cancel :: cancel_outcome
  wt_exit :: http_answer
  wt_exit_others :: http_answer
  wt_exit_now :: time

record recovery_run =
  rr_state :: watch_state
  rr_sent :: bool
  rr_drained :: bool
  rr_result :: "bool option"

definition hang_model :: "text_host \<Rightarrow> jdict \<Rightarrow> json \<Rightarrow> string option" where
  "hang_model h job active_model =
     (if truthy (jget job ''model'') then Some (py_str (th_repr h) (jget job ''model''))
      else (case (if truthy (jget job ''params'') then as_dict (jget job ''params'') else Some []) of
          None \<Rightarrow> None
        | Some params \<Rightarrow> Some (if truthy (jget params ''repo'') then py_str (th_repr h) (jget params ''repo'')
                               else text_or_empty (th_repr h) active_model)))"

definition manual :: string where
  "manual = ''manual_action_required''"

definition after_cancel ::
  "text_host \<Rightarrow> string \<Rightarrow> string \<Rightarrow> worker_talk \<Rightarrow> bool \<Rightarrow> watch_state \<Rightarrow> recovery_run" where
  \<comment> \<open>the request has been sent\<close>
  "after_cancel h studio job_id w prior st =
     (let keep = (prior \<or> wt_cancel w \<in> {Cancel_accepted, Cancel_unknown});
          exited = fst (read_exact h job_id (wt_exit w)) \<in> set [''done'', ''error'', ''cancelled''];
          rest = other_active job_id (wt_exit_others w);
          stop = (\<lambda>phase reason drained result. \<lparr>rr_state = mark_job studio job_id phase reason (wt_exit_now w) st,
             rr_sent = True, rr_drained = drained, rr_result = Some result\<rparr>)
      in if exited \<and> rest = Scan_raises then \<lparr>rr_state = st, rr_sent = True, rr_drained = keep, rr_result = None\<rparr>
         else if exited \<and> rest = Alone
         then stop ''exit_confirmed'' ''The exact job exited after cancellation; GenStudio may decide whether to retry.'' prior True
         else stop manual (case wt_cancel w of
             Cancel_accepted \<Rightarrow> ''Cancellation was accepted but exact terminal state is still unknown; the Studio remains drained.''
           | Cancel_unknown \<Rightarrow> ''The cancellation outcome is unknown; the Studio remains drained.''
           | Cancel_rejected \<Rightarrow> ''The exact worker job rejected cancellation; use manual recovery.'') keep False)"

definition confirm_cancel ::
  "text_host \<Rightarrow> string \<Rightarrow> string \<Rightarrow> string \<Rightarrow> string \<Rightarrow> worker_talk \<Rightarrow> time \<Rightarrow> bool \<Rightarrow> watch_state \<Rightarrow> recovery_run" where
  \<comment> \<open>the first observation was eligible and the Studio is drained\<close>
  "confirm_cancel h studio modality job_id model w now prior st =
     (let quit = (\<lambda>s result. \<lparr>rr_state = s, rr_sent = False, rr_drained = prior, rr_result = result\<rparr>);
          give_up = (\<lambda>reason. quit (mark_job studio job_id manual reason now st) (Some False))
      in case worker_allows modality job_id (wt_activity w) (wt_downloads w) of
         Raises \<Rightarrow> quit st None
       | Rejects \<Rightarrow> give_up ''Fresh worker activity or download isolation could not be verified; the job was not cancelled.''
       | Valid _ \<Rightarrow> (case other_active job_id (wt_others w) of
           Scan_raises \<Rightarrow> quit st None
         | Another \<Rightarrow> give_up ''Another active job exists or exact job activity could not be verified.''
         | Unverified \<Rightarrow> give_up ''Another active job exists or exact job activity could not be verified.''
         | Alone \<Rightarrow> (case read_exact h job_id (wt_confirm w) of
               (state, Some job) \<Rightarrow>
                 if state \<noteq> ''running'' then quit st (Some False)
                 else (case observe h studio modality (dset ''model'' (JStr model) job) now st of
                     None \<Rightarrow> quit st None
                   | Some (st1, eligible) \<Rightarrow>
                       if \<not> eligible then quit st1 (Some False)
                       else after_cancel h studio job_id w prior (mark_job studio job_id ''cancel_requested''
                              ''Requesting cancellation for the exact continuously stalled worker job.'' now st1))
             | _ \<Rightarrow> quit st (Some False))))"

definition local_recovery ::
  "text_host \<Rightarrow> string \<Rightarrow> string \<Rightarrow> string \<Rightarrow> worker_talk \<Rightarrow> time \<Rightarrow> bool \<Rightarrow> watch_state \<Rightarrow> recovery_run" where
  "local_recovery h studio modality job_id w now prior st =
     (let quit = (\<lambda>s result. \<lparr>rr_state = s, rr_sent = False, rr_drained = prior, rr_result = result\<rparr>)
      in case read_exact h job_id (wt_first w) of
           (state, Some job) \<Rightarrow>
             if state \<noteq> ''running'' then quit st (Some False)
             else (case hang_model h job (wt_model w) of
                 None \<Rightarrow> quit st None
               | Some model \<Rightarrow> (case observe h studio modality (dset ''model'' (JStr model) job) now st of
                   None \<Rightarrow> quit st None
                 | Some (st1, eligible) \<Rightarrow>
                     if \<not> eligible \<or> wt_inflight w then quit st1 (Some False)
                     else confirm_cancel h studio modality job_id model w now prior st1))
         | _ \<Rightarrow> quit st (Some False))"

end
