(* ===== verification/Auto_Recovery_Theorems.thy ===== *)
theory Auto_Recovery_Theorems
  imports Auto_Recovery
begin

text \<open>
  Properties of the bounded automatic recovery over all runs: a job is found eligible only after an
  unbroken chain of observations without progress, and a job whose cancellation was requested is not
  cancelled again.  A run is a list of operations none of which raises; the guards of a step are facts
  of its callers: the clock is positive, \<open>main.py\<close> marks with three phases only, and a new process
  draws a session that no stored row carries.
\<close>

section \<open>Runs\<close>

datatype watch_op =
    Observed string string jdict time
  | Marked string string string string time
  | Hub_started string

definition mark_phases :: "string list" where
  "mark_phases = [''manual_action_required'', ''cancel_requested'', ''exit_confirmed'']"

definition fresh_session :: "string \<Rightarrow> watch_state \<Rightarrow> bool" where
  "fresh_session s st \<longleftrightarrow> list_all (\<lambda>(_, row). jget row ''observer_session'' \<noteq> JStr s) (ws_jobs st)"

fun watch_step :: "text_host \<Rightarrow> watch_op \<Rightarrow> watch_state \<Rightarrow> watch_state option" where
  "watch_step h (Observed studio modality job now) st =
     (if 0 < now then map_option fst (observe h studio modality job now st) else None)"
| "watch_step h (Marked studio job_id phase reason now) st =
     (if phase \<in> set mark_phases then Some (mark_job studio job_id phase reason now st) else None)"
| "watch_step h (Hub_started s) st =
     (case load_watch s (ws_file st) of None \<Rightarrow> None | Some st' \<Rightarrow> if fresh_session s st' then Some st' else None)"

fun watch_run :: "text_host \<Rightarrow> watch_op list \<Rightarrow> watch_state \<Rightarrow> watch_state option" where
  "watch_run h [] st = Some st"
| "watch_run h (e # es) st = Option.bind (watch_step h e st) (watch_run h es)"

lemma watch_run_append: "watch_run h (es @ es') st = Option.bind (watch_run h es st) (watch_run h es')"
  by (induction es arbitrary: st) (auto split: Option.bind_split)

section \<open>The chain of observations\<close>

text \<open>Read from the history, latest operation first: the last check of a studio's job since the Hub
  started and the job was last marked, and the first observation of the unbroken chain that ends there.\<close>

fun last_check :: "text_host \<Rightarrow> string \<Rightarrow> watch_op list \<Rightarrow> (string \<times> json list \<times> time) option" where
  "last_check h studio [] = None"
| "last_check h studio (Observed s modality job now # es) =
     (if s = studio then Some (job_identity h job, job_signature modality job, now) else last_check h studio es)"
| "last_check h studio (Marked s _ _ _ _ # es) = (if s = studio then None else last_check h studio es)"
| "last_check h studio (Hub_started _ # es) = None"

definition watched :: "text_host \<Rightarrow> string \<Rightarrow> string \<Rightarrow> json list \<Rightarrow> time \<Rightarrow> watch_op list \<Rightarrow> bool" where
  \<comment> \<open>the last check was of the same job in the same state, at most five minutes ago\<close>
  "watched h studio job_id signature now es = (case last_check h studio es of
       None \<Rightarrow> False
     | Some (j, sig, t) \<Rightarrow> j = job_id \<and> py_eq (JList sig) (JList signature) \<and> 0 \<le> now - t \<and> now - t \<le> 300)"

fun progress_since :: "text_host \<Rightarrow> string \<Rightarrow> watch_op list \<Rightarrow> time" where
  "progress_since h studio [] = 0"
| "progress_since h studio (Observed s modality job now # es) =
     (if s \<noteq> studio then progress_since h studio es
      else if watched h studio (job_identity h job) (job_signature modality job) now es then progress_since h studio es
      else now)"
| "progress_since h studio (_ # es) = progress_since h studio es"

definition open_row :: "jdict \<Rightarrow> bool" where
  "open_row row \<longleftrightarrow> \<not> truthy (jget row ''phase'') \<or> jget row ''phase'' \<in> set open_phases"

definition in_session :: "watch_state \<Rightarrow> jdict \<Rightarrow> bool" where
  "in_session st row \<longleftrightarrow> jget row ''observer_session'' = JStr (ws_session st)"

definition matches_check :: "jdict \<Rightarrow> (string \<times> json list \<times> time) \<Rightarrow> bool" where
  "matches_check row chk = (case chk of (j, sig, t) \<Rightarrow>
     jget row ''job_id'' = JStr j \<and> jget row ''signature'' = JList sig \<and> jget row ''last_checked_at'' = JFloat t \<and> 0 < t)"

definition tracks :: "text_host \<Rightarrow> watch_op list \<Rightarrow> watch_state \<Rightarrow> string \<Rightarrow> bool" where
  "tracks h es st studio = (case dget (ws_jobs st) studio of
       None \<Rightarrow> last_check h studio es = None
     | Some row \<Rightarrow>
         (case last_check h studio es of
            None \<Rightarrow> \<not> (in_session st row \<and> open_row row)
          | Some chk \<Rightarrow> in_session st row \<and> matches_check row chk
              \<and> (open_row row \<longrightarrow> jget row ''last_meaningful_at'' = JFloat (progress_since h studio es)
                    \<and> 0 < progress_since h studio es)))"

lemma jget_dset [simp]: "jget (dset k v d) k' = (if k' = k then v else jget d k')"
  by (simp add: jget_def)

lemma observed_row_fields [simp]:
  "jget (observed_row s m j mo ph f si now job se) ''job_id'' = JStr j"
  "jget (observed_row s m j mo ph f si now job se) ''phase'' = ph"
  "jget (observed_row s m j mo ph f si now job se) ''last_meaningful_at'' = fnum_json si"
  "jget (observed_row s m j mo ph f si now job se) ''last_checked_at'' = JFloat now"
  "jget (observed_row s m j mo ph f si now job se) ''signature'' = JList (job_signature m job)"
  "jget (observed_row s m j mo ph f si now job se) ''observer_session'' = JStr se"
  by (simp_all add: observed_row_def jget_def)

lemma put_row_fields [simp]:
  "ws_jobs (put_row studio row now st) = dset studio row (ws_jobs st)"
  "ws_healthy (put_row studio row now st) = ws_healthy st" "ws_session (put_row studio row now st) = ws_session st"
  by (simp_all add: put_row_def save_watch_def)

lemma observe_result:
  assumes "observe h studio modality job now st = Some (st', eligible)"
  obtains row since prot where "st' = put_row studio row now st"
    "meaningful_since h (ws_session st) (job_identity h job) (job_signature modality job) now (dget (ws_jobs st) studio) = Some since"
    "protected_phase (job_identity h job) (dget (ws_jobs st) studio) = Some prot"
    "eligible = (stalled_job h modality job (ws_healthy st) now since \<and> \<not> truthy prot)"
    "jget row ''job_id'' = JStr (job_identity h job)" "jget row ''signature'' = JList (job_signature modality job)"
    "jget row ''last_checked_at'' = JFloat now" "jget row ''observer_session'' = JStr (ws_session st)"
    "jget row ''last_meaningful_at'' = fnum_json since"
    "jget row ''phase'' = (if truthy prot then prot else JStr (if eligible then ''eligible'' else ''watching''))"
  using assms
  by (auto simp: observe_def observe_job_row_def Let_def split: option.splits if_splits)

lemma stall_positive: "0 < stall_after modality"
  by (auto simp: stall_after_def default_stall_s_def max_stall_s_def)

text \<open>What the code computes for a job that nothing protects is what the history says.\<close>

lemma since_from_history:
  assumes "tracks h es st studio" "0 < now"
    and "meaningful_since h (ws_session st) j sig now (dget (ws_jobs st) studio) = Some since"
    and "protected_phase j (dget (ws_jobs st) studio) = Some prot" "\<not> truthy prot"
  shows "since = Fin (if watched h studio j sig now es then progress_since h studio es else now)
     \<and> (watched h studio j sig now es \<longrightarrow> 0 < progress_since h studio es)"
proof (cases "dget (ws_jobs st) studio")
  case None
  then show ?thesis using assms by (simp add: tracks_def watched_def meaningful_since_def)
next
  case (Some row)
  show ?thesis
  proof (cases "same_job j (Some row)")
    case False
    then have "\<not> watched h studio j sig now es"
      using assms(1) Some by (auto simp: tracks_def watched_def matches_check_def same_job_def split: option.splits)
    then show ?thesis using False assms(3) Some by (simp add: meaningful_since_def)
  next
    case True
    then have "open_row row"
      using assms(4,5) Some by (auto simp: protected_phase_def open_row_def split: if_splits)
    show ?thesis
    proof (cases "last_check h studio es")
      case None
      then have "\<not> in_session st row" using assms(1) Some \<open>open_row row\<close> by (simp add: tracks_def)
      then show ?thesis
        using None assms(3) Some by (simp add: watched_def meaningful_since_def seen_recently_def in_session_def)
    next
      case c: (Some chk)
      obtain j' sig' t where chk: "chk = (j', sig', t)" by (cases chk)
      have row: "in_session st row" "jget row ''job_id'' = JStr j'" "jget row ''signature'' = JList sig'"
        "jget row ''last_checked_at'' = JFloat t" "0 < t"
        "jget row ''last_meaningful_at'' = JFloat (progress_since h studio es)" "0 < progress_since h studio es"
        using assms(1) Some c \<open>open_row row\<close> by (auto simp: tracks_def matches_check_def chk)
      have "seen_recently (ws_session st) now row \<longleftrightarrow> 0 \<le> now - t \<and> now - t \<le> 300"
        using row by (simp add: seen_recently_def in_session_def nonneg_number_def max_observation_gap_s_def)
      then have "watched h studio j sig now es \<longleftrightarrow> same_job j (Some row) \<and> seen_recently (ws_session st) now row
          \<and> py_eq (jget row ''signature'') (JList sig)"
        using row c by (auto simp: watched_def chk same_job_def)
      then show ?thesis
        using assms(3) Some row by (auto simp: meaningful_since_def float_or_def split: if_splits)
    qed
  qed
qed


lemma tracks_other:
  assumes "tracks h es st studio" and "dget (ws_jobs st') studio = dget (ws_jobs st) studio"
    and "ws_session st' = ws_session st" and "last_check h studio es' = last_check h studio es"
    and "progress_since h studio es' = progress_since h studio es"
  shows "tracks h es' st' studio"
  using assms(1) unfolding tracks_def in_session_def assms(2-5) .

lemma tracks_observed:
  assumes tr: "tracks h es st studio" and now: "0 < now" and ob: "observe h s modality job now st = Some (st', eligible)"
  shows "tracks h (Observed s modality job now # es) st' studio"
proof (cases "s = studio")
  case False
  obtain row where "st' = put_row s row now st" using ob by (rule observe_result)
  then show ?thesis using False by (intro tracks_other [OF tr]) simp_all
next
  case True
  let ?j = "job_identity h job" and ?sig = "job_signature modality job"
  obtain row since prot where st': "st' = put_row s row now st"
    and since: "meaningful_since h (ws_session st) ?j ?sig now (dget (ws_jobs st) s) = Some since"
    and prot: "protected_phase ?j (dget (ws_jobs st) s) = Some prot"
    and row: "jget row ''job_id'' = JStr ?j" "jget row ''signature'' = JList ?sig"
      "jget row ''last_checked_at'' = JFloat now" "jget row ''observer_session'' = JStr (ws_session st)"
      "jget row ''last_meaningful_at'' = fnum_json since"
      "jget row ''phase'' = (if truthy prot then prot else JStr (if eligible then ''eligible'' else ''watching''))"
    using ob by (rule observe_result)
  have "\<not> open_row row" if "truthy prot"
    using that prot row(6) by (auto simp: open_row_def protected_phase_def split: option.splits if_splits)
  moreover have "since = Fin (progress_since h studio (Observed s modality job now # es))
      \<and> 0 < progress_since h studio (Observed s modality job now # es)" if "\<not> truthy prot"
    using since_from_history [OF tr now since [unfolded True] prot [unfolded True] that] True now by simp
  ultimately have "jget row ''last_meaningful_at'' = JFloat (progress_since h studio (Observed s modality job now # es))
      \<and> 0 < progress_since h studio (Observed s modality job now # es)" if "open_row row"
    using that row(5) by (metis fnum_json.simps(1))
  then show ?thesis
    using row(1-4) now True unfolding tracks_def st'
    by (simp del: progress_since.simps add: matches_check_def in_session_def)
qed

lemma tracks_marked:
  assumes "tracks h es st studio" "phase \<in> set mark_phases"
  shows "tracks h (Marked s j phase reason now # es) (mark_job s j phase reason now st) studio"
proof (cases "s = studio")
  case False
  then show ?thesis by (intro tracks_other [OF assms(1)]) (simp_all add: mark_job_def)
next
  case True
  have "\<not> open_row (marked_row s j phase reason now prev)" for prev
    using assms(2) by (auto simp: open_row_def marked_row_def mark_phases_def open_phases_def)
  then show ?thesis using True by (simp add: tracks_def mark_job_def)
qed

lemma fresh_row: "fresh_session s st \<Longrightarrow> dget (ws_jobs st) studio = Some row \<Longrightarrow> jget row ''observer_session'' \<noteq> JStr s"
  by (auto simp: fresh_session_def list_all_iff dest: map_of_SomeD)

lemma load_session: "load_watch s file = Some st \<Longrightarrow> ws_session st = s"
  by (auto simp: load_watch_def Let_def split: prod.splits if_splits)

lemma tracks_started:
  assumes "load_watch s file = Some st'" "fresh_session s st'"
  shows "tracks h (Hub_started s # es) st' studio" "tracks h [] st' studio"
  using fresh_row [OF assms(2)] load_session [OF assms(1)]
  by (auto simp: tracks_def in_session_def split: option.split)

lemma tracks_step:
  assumes "tracks h es st studio" "watch_step h e st = Some st'"
  shows "tracks h (e # es) st' studio"
proof (cases e)
  case (Observed s modality job now)
  then show ?thesis using assms tracks_observed [OF assms(1)] by (auto split: if_splits)
next
  case (Marked s j phase reason now)
  then show ?thesis using assms tracks_marked [OF assms(1)] by (auto split: if_splits)
next
  case (Hub_started s)
  then show ?thesis using assms tracks_started by (auto split: option.splits if_splits)
qed

lemma tracks_run:
  "tracks h es st studio \<Longrightarrow> watch_run h es' st = Some st' \<Longrightarrow> tracks h (rev es' @ es) st' studio"
proof (induction es' arbitrary: es st)
  case Nil
  then show ?case by simp
next
  case (Cons e es')
  obtain st1 where "watch_step h e st = Some st1" "watch_run h es' st1 = Some st'"
    using Cons.prems(2) by (auto split: Option.bind_splits)
  with Cons.IH [OF tracks_step [OF Cons.prems(1)]] show ?case by simp
qed

text \<open>C23: A job is found eligible for cancellation only after a watched stall: in every run of the Hub -
  observations, marks and restarts, from any state file - an eligible answer means that the job says it
  is running, carries evidence of its stage, started at least the stall time ago, and that the same job
  in the same state was last checked at most five minutes ago at the end of an unbroken chain of
  observations that began at least the stall time ago (an hour for images, two for voices).\<close>

theorem eligible_after_watched_stall:
  assumes "load_watch s0 file = Some st0" and "fresh_session s0 st0" and "watch_run h es st0 = Some st"
    and "0 < now" and "observe h studio modality job now st = Some (st', True)"
  shows "watched h studio (job_identity h job) (job_signature modality job) now (rev es)
     \<and> progress_since h studio (rev es) + stall_after modality \<le> now
     \<and> jget job ''state'' = JStr ''running'' \<and> stage_evidence modality job
     \<and> stall_after modality \<le> job_elapsed now job \<and> modality \<in> {''image'', ''voice''}"
proof -
  have tr: "tracks h (rev es) st studio"
    using tracks_run [OF tracks_started(2) [OF assms(1,2)] assms(3)] by simp
  obtain since prot where since: "meaningful_since h (ws_session st) (job_identity h job) (job_signature modality job) now
      (dget (ws_jobs st) studio) = Some since"
    and prot: "protected_phase (job_identity h job) (dget (ws_jobs st) studio) = Some prot" "\<not> truthy prot"
    and stalled: "stalled_job h modality job (ws_healthy st) now since"
    using assms(5) by (rule observe_result) simp
  have "since = Fin (if watched h studio (job_identity h job) (job_signature modality job) now (rev es)
      then progress_since h studio (rev es) else now)"
    using since_from_history [OF tr assms(4) since prot] by simp
  then show ?thesis
    using stalled stall_positive [of modality] by (auto simp: stalled_job_def default_stall_s_def split: if_splits)
qed

section \<open>A handled job\<close>

definition handled :: "string \<Rightarrow> string \<Rightarrow> watch_state \<Rightarrow> bool" where
  "handled studio job_id st \<longleftrightarrow> (case dget (ws_jobs st) studio of
       None \<Rightarrow> False
     | Some row \<Rightarrow> jget row ''job_id'' = JStr job_id \<and> jget row ''phase'' \<in> set (map JStr mark_phases))"

definition stored :: "watch_state \<Rightarrow> bool" where
  \<comment> \<open>the file holds the state\<close>
  "stored st \<longleftrightarrow> ws_file st = Readable (watch_json st)"

definition about_others :: "text_host \<Rightarrow> string \<Rightarrow> string \<Rightarrow> watch_op \<Rightarrow> bool" where
  \<comment> \<open>no other job of this studio is seen\<close>
  "about_others h studio job_id e = (case e of
       Observed s _ job _ \<Rightarrow> s = studio \<longrightarrow> job_identity h job = job_id
     | Marked s j _ _ _ \<Rightarrow> s = studio \<longrightarrow> j = job_id
     | Hub_started _ \<Rightarrow> True)"

definition barred :: "string \<Rightarrow> string \<Rightarrow> watch_state \<Rightarrow> bool" where
  "barred studio job_id st \<longleftrightarrow> handled studio job_id st \<or> \<not> ws_healthy st"

lemma barred_not_eligible:
  assumes "barred studio (job_identity h job) st" "observe h studio modality job now st = Some (st', eligible)"
  shows "\<not> eligible"
proof -
  obtain since prot where prot: "protected_phase (job_identity h job) (dget (ws_jobs st) studio) = Some prot"
    and el: "eligible = (stalled_job h modality job (ws_healthy st) now since \<and> \<not> truthy prot)"
    using assms(2) by (rule observe_result)
  have "truthy prot" if "handled studio (job_identity h job) st"
    using that prot by (auto simp: handled_def protected_phase_def same_job_def mark_phases_def open_phases_def split: option.splits)
  then show ?thesis using assms(1) el by (auto simp: barred_def stalled_job_def)
qed

lemma stored_put [simp]: "stored (put_row s row now st)"
  by (simp add: stored_def put_row_def save_watch_def watch_json_def)

lemma stored_load:
  assumes "stored st" "load_watch s (ws_file st) = Some st'"
  shows "ws_healthy st' = ws_healthy st"
    "ws_healthy st \<Longrightarrow> ws_jobs st' = map (\<lambda>(k, r). (k, demoted_row r)) (ws_jobs st)"
proof -
  let ?d = "[(''jobs'', JObj (map (\<lambda>(k, r). (k, JObj r)) (ws_jobs st))), (''schema_version'', JInt 1),
     (''state_healthy'', JBool (ws_healthy st)), (''updated_at'', ws_updated st)]"
  have ok: "file_ok ?d \<longleftrightarrow> ws_healthy st"
    by (auto simp: file_ok_def jget_def py_eq.simps list_all_iff)
  have fv: "file_value (ws_file st) = (if ws_healthy st then (?d, True) else ([], False))"
    using assms(1) ok by (simp add: stored_def file_value_def watch_json_def)
  show "ws_healthy st' = ws_healthy st"
    using assms(2) fv by (auto simp: load_watch_def Let_def split: if_splits)
  have "loaded_rows ?d = map (\<lambda>(k, r). (k, demoted_row r)) (ws_jobs st)"
    by (simp add: loaded_rows_def jget_def case_prod_unfold)
  then show "ws_jobs st' = map (\<lambda>(k, r). (k, demoted_row r)) (ws_jobs st)" if "ws_healthy st"
    using assms(2) fv that by (auto simp: load_watch_def Let_def split: if_splits)
qed


lemma dget_map_values: "dget (map (\<lambda>(k, r). (k, f r)) d) k = map_option f (dget d k)"
  by (induction d) auto

lemma handled_demoted:
  "jget row ''phase'' \<in> set (map JStr mark_phases) \<Longrightarrow> jget (demoted_row row) ''phase'' \<in> set (map JStr mark_phases)"
  "jget (demoted_row row) ''job_id'' = jget row ''job_id''"
  by (auto simp: demoted_row_def mark_phases_def in_progress_phases_def)

lemma stored_restart:
  assumes "stored st" "load_watch s (ws_file st) = Some st'"
  shows "ws_file st' = ws_file st"
  using assms(2) by (auto simp: load_watch_def Let_def split: prod.splits if_splits)

text \<open>After a restart the file still holds the text of the state before it, so what is kept is that the
  file is the text of a barred state.\<close>

definition barring :: "string \<Rightarrow> string \<Rightarrow> watch_state \<Rightarrow> bool" where
  "barring studio job_id st \<longleftrightarrow> barred studio job_id st
     \<and> (\<exists>st1. stored st1 \<and> barred studio job_id st1 \<and> ws_file st = ws_file st1)"

lemma barring_stored: "stored st \<Longrightarrow> barred studio job_id st \<Longrightarrow> barring studio job_id st"
  by (auto simp: barring_def)

lemma barred_mark: "phase \<in> set mark_phases \<Longrightarrow> barred studio job_id (mark_job studio job_id phase reason now st)"
  by (auto simp: barred_def handled_def mark_job_def marked_row_def same_job_def mark_phases_def jget_def split: option.splits)

lemma barred_observed:
  assumes "barred studio job_id st" "observe h s modality job now st = Some (st', eligible)"
    and "s = studio \<Longrightarrow> job_identity h job = job_id"
  shows "barred studio job_id st'"
proof -
  obtain row since prot where "st' = put_row s row now st"
    and "protected_phase (job_identity h job) (dget (ws_jobs st) s) = Some prot"
    and "jget row ''job_id'' = JStr (job_identity h job)"
    and "jget row ''phase'' = (if truthy prot then prot else JStr (if eligible then ''eligible'' else ''watching''))"
    using assms(2) by (rule observe_result)
  then show ?thesis
    using assms(1,3)
    by (auto simp: barred_def handled_def protected_phase_def same_job_def mark_phases_def open_phases_def split: option.splits)
qed

lemma barring_step:
  assumes "barring studio job_id st" "about_others h studio job_id e" "watch_step h e st = Some st'"
  shows "barring studio job_id st'"
proof (cases e)
  case (Observed s modality job now)
  then obtain eligible where ob: "observe h s modality job now st = Some (st', eligible)"
    using assms(3) by (auto split: if_splits)
  then have "stored st'" using observe_result stored_put by metis
  moreover have "barred studio job_id st'"
    using barred_observed [OF _ ob, of studio job_id] assms(1,2) Observed by (auto simp: barring_def about_others_def)
  ultimately show ?thesis by (rule barring_stored)
next
  case (Marked s j phase reason now)
  then have st': "st' = mark_job s j phase reason now st" and ph: "phase \<in> set mark_phases"
    using assms(3) by (auto split: if_splits)
  have "barred studio job_id st'"
  proof (cases "s = studio")
    case True
    then show ?thesis using barred_mark [OF ph] assms(2) Marked by (simp add: st' about_others_def)
  next
    case False
    then show ?thesis using assms(1) by (simp add: st' barring_def barred_def handled_def mark_job_def)
  qed
  then show ?thesis by (intro barring_stored) (simp_all add: st' mark_job_def)
next
  case (Hub_started s)
  then have load: "load_watch s (ws_file st) = Some st'" using assms(3) by (auto split: option.splits if_splits)
  obtain st1 where st1: "stored st1" "barred studio job_id st1" "ws_file st = ws_file st1"
    using assms(1) by (auto simp: barring_def)
  note l = stored_load [OF st1(1) load [unfolded st1(3)]]
  have "barred studio job_id st'"
    using l st1(2) handled_demoted by (auto simp: barred_def handled_def dget_map_values split: option.splits)
  then show ?thesis using st1 stored_restart [OF st1(1) load [unfolded st1(3)]] by (auto simp: barring_def)
qed

lemma barring_run:
  "barring studio job_id st \<Longrightarrow> \<forall>e\<in>set es. about_others h studio job_id e \<Longrightarrow> watch_run h es st = Some st'
     \<Longrightarrow> barring studio job_id st'"
  by (induction es arbitrary: st) (auto dest: barring_step split: Option.bind_splits)

section \<open>One cancellation\<close>

lemma barring_mark: "phase \<in> set mark_phases \<Longrightarrow> barring studio job_id (mark_job studio job_id phase reason now st)"
  by (intro barring_stored barred_mark) (simp_all add: mark_job_def)

lemma after_cancel_barring:
  assumes "barring studio job_id st"
  shows "barring studio job_id (rr_state (after_cancel h studio job_id w prior st))"
  using assms by (simp add: after_cancel_def Let_def barring_mark mark_phases_def manual_def)

definition drained_unless_over :: "worker_talk \<Rightarrow> recovery_run \<Rightarrow> bool" where
  "drained_unless_over w r \<longleftrightarrow> rr_drained r \<or> rr_result r = Some True \<or> wt_cancel w = Cancel_rejected"

lemma after_cancel_drained: "drained_unless_over w (after_cancel h studio job_id w prior st)"
  by (cases "wt_cancel w") (simp_all add: drained_unless_over_def after_cancel_def Let_def)

lemma confirm_sent:
  assumes "rr_sent (confirm_cancel h studio modality job_id model w now prior st)"
  obtains job st1 where "worker_allows modality job_id (wt_activity w) (wt_downloads w) = Valid ()" "other_active job_id (wt_others w) = Alone"
    "read_exact h job_id (wt_confirm w) = (''running'', Some job)"
    "observe h studio modality (dset ''model'' (JStr model) job) now st = Some (st1, True)"
    "confirm_cancel h studio modality job_id model w now prior st = after_cancel h studio job_id w prior
       (mark_job studio job_id ''cancel_requested''
          ''Requesting cancellation for the exact continuously stalled worker job.'' now st1)"
  using assms
  by (auto simp: confirm_cancel_def Let_def split: reading.splits if_splits others.splits prod.splits option.splits)

lemma recovery_sent:
  assumes "rr_sent (local_recovery h studio modality job_id w now prior st)"
  obtains job model st1 where "read_exact h job_id (wt_first w) = (''running'', Some job)"
    "hang_model h job (wt_model w) = Some model" "\<not> wt_inflight w"
    "observe h studio modality (dset ''model'' (JStr model) job) now st = Some (st1, True)"
    "local_recovery h studio modality job_id w now prior st = confirm_cancel h studio modality job_id model w now prior st1"
  using assms by (auto simp: local_recovery_def Let_def split: if_splits prod.splits option.splits)

lemma read_identity: "read_exact h job_id answer = (state, Some job) \<Longrightarrow> job_identity h (dset ''model'' v job) = job_id"
  by (auto simp: read_exact_def job_identity_def split: http_answer.splits if_splits option.splits)

lemma sent_shape:
  assumes "rr_sent (local_recovery h studio modality job_id w now prior st)"
  obtains job1 model1 job2 st1 st2 where
    "read_exact h job_id (wt_first w) = (''running'', Some job1)" "\<not> wt_inflight w"
    "observe h studio modality (dset ''model'' (JStr model1) job1) now st = Some (st1, True)" 
    "worker_allows modality job_id (wt_activity w) (wt_downloads w) = Valid ()" "other_active job_id (wt_others w) = Alone"
    "read_exact h job_id (wt_confirm w) = (''running'', Some job2)"
    "observe h studio modality (dset ''model'' (JStr model1) job2) now st1 = Some (st2, True)"
    "barring studio job_id (rr_state (local_recovery h studio modality job_id w now prior st))"
    "drained_unless_over w (local_recovery h studio modality job_id w now prior st)"
proof -
  obtain job1 model st1 where 1: "read_exact h job_id (wt_first w) = (''running'', Some job1)" "\<not> wt_inflight w"
    "observe h studio modality (dset ''model'' (JStr model) job1) now st = Some (st1, True)"
    and run: "local_recovery h studio modality job_id w now prior st = confirm_cancel h studio modality job_id model w now prior st1"
    using assms by (rule recovery_sent)
  obtain job2 st2 where 2: "worker_allows modality job_id (wt_activity w) (wt_downloads w) = Valid ()" "other_active job_id (wt_others w) = Alone"
    "read_exact h job_id (wt_confirm w) = (''running'', Some job2)"
    "observe h studio modality (dset ''model'' (JStr model) job2) now st1 = Some (st2, True)"
    and run2: "confirm_cancel h studio modality job_id model w now prior st1 = after_cancel h studio job_id w prior
       (mark_job studio job_id ''cancel_requested''
          ''Requesting cancellation for the exact continuously stalled worker job.'' now st2)"
    using assms [unfolded run] by (rule confirm_sent)
  have "barring studio job_id (rr_state (local_recovery h studio modality job_id w now prior st))"
    "drained_unless_over w (local_recovery h studio modality job_id w now prior st)"
    unfolding run run2
    by (intro after_cancel_barring barring_mark) (simp add: mark_phases_def, rule after_cancel_drained)
  then show ?thesis using that 1 2 by blast
qed

text \<open>C24: A cancellation is sent at most once for a job: after the Hub sent the cancellation of a job,
  whatever it then observes, marks or restarts on that Studio without seeing another job there, it never
  sends a cancellation of that job again, not even when the worker keeps reporting it as stalled.\<close>

theorem cancelled_once:
  assumes "rr_sent (local_recovery h studio modality job_id w now prior st)"
    and "watch_run h es (rr_state (local_recovery h studio modality job_id w now prior st)) = Some st2"
    and "\<forall>e\<in>set es. about_others h studio job_id e"
  shows "\<not> rr_sent (local_recovery h studio modality2 job_id w2 now2 prior2 st2)"
proof
  have "barring studio job_id (rr_state (local_recovery h studio modality job_id w now prior st))"
    using assms(1) by (rule sent_shape)
  from barring_run [OF this assms(3,2)] have "barred studio job_id st2" by (simp add: barring_def)
  moreover assume "rr_sent (local_recovery h studio modality2 job_id w2 now2 prior2 st2)"
  then obtain job model st1 where "read_exact h job_id (wt_first w2) = (''running'', Some job)"
    "observe h studio modality2 (dset ''model'' (JStr model) job) now2 st2 = Some (st1, True)"
    by (rule sent_shape)
  moreover from this(1) have "job_identity h (dset ''model'' (JStr model) job) = job_id" by (rule read_identity)
  ultimately show False using barred_not_eligible [of studio h "dset ''model'' (JStr model) job"] by blast
qed

text \<open>C25: A cancellation is sent only on fresh evidence: the worker twice reported exactly this job as
  running and it was eligible both times, its activity snapshot and its downloads allowed the
  cancellation (\<open>worker_allows\<close>: a valid snapshot whose active job is this one and runs, and no download
  that moves), no other generation was active on the Studio and no other recovery was at work; and afterwards the Studio
  stays drained unless the job's exit was confirmed or the worker rejected the cancellation.\<close>

theorem cancellation_needs_fresh_evidence:
  assumes "rr_sent (local_recovery h studio modality job_id w now prior st)"
  shows "(\<exists>job1 job2 model st1 st2. read_exact h job_id (wt_first w) = (''running'', Some job1)
       \<and> observe h studio modality (dset ''model'' (JStr model) job1) now st = Some (st1, True)
       \<and> read_exact h job_id (wt_confirm w) = (''running'', Some job2)
       \<and> observe h studio modality (dset ''model'' (JStr model) job2) now st1 = Some (st2, True))
     \<and> worker_allows modality job_id (wt_activity w) (wt_downloads w) = Valid ()
     \<and> other_active job_id (wt_others w) = Alone \<and> \<not> wt_inflight w
     \<and> drained_unless_over w (local_recovery h studio modality job_id w now prior st)"
  using assms by (rule sent_shape) blast


section \<open>A concrete stall\<close>

definition hang_texts :: text_host where
  "hang_texts = \<lparr>th_float = (\<lambda>_. None), th_repr = (\<lambda>_. [])\<rparr>"

definition hung_job :: jdict where
  "hung_job = [(''id'', JStr ''j1''), (''state'', JStr ''running''), (''model'', JStr ''flux''),
     (''current_step'', JInt 3), (''total_steps'', JInt 20), (''started_at'', JInt 900)]"

definition hang_watch :: "watch_op list" where
  "hang_watch = map (\<lambda>t. Observed ''image'' ''image'' hung_job t)
     [1000, 1300, 1600, 1900, 2200, 2500, 2800, 3100, 3400, 3700, 4000, 4300]"

definition hang_start :: watch_state where
  "hang_start = \<lparr>ws_jobs = [], ws_updated = JNull, ws_healthy = True, ws_session = ''s1'', ws_file = No_file\<rparr>"

definition hang_state :: watch_state where
  "hang_state = the (watch_run hang_texts hang_watch hang_start)"

definition hang_activity :: jdict where
  "hang_activity = [(''schema'', JStr ''kh-studio.activity.v1''), (''studio'', JStr ''image''), (''observed_at'', JInt 4600),
     (''active'', JObj [(''id'', JStr ''j1''), (''state'', JStr ''running''), (''model'', JStr ''flux''), (''source'', JStr ''job''),
        (''progress'', JFloat (1 / 4)), (''started_at'', JInt 900)]), (''latest'', JNull)]"

definition hang_talk :: worker_talk where
  "hang_talk = \<lparr>wt_first = Http 200 (JObj [(''job'', JObj hung_job)]), wt_model = JNull, wt_inflight = False,
     wt_activity = Http 200 (JObj hang_activity), wt_downloads = Http 200 (JObj [(''jobs'', JList [])]),
     wt_others = Http 200 (JObj [(''jobs'', JList [JObj hung_job])]), wt_confirm = Http 200 (JObj [(''job'', JObj hung_job)]),
     wt_cancel = Cancel_unknown, wt_exit = Http_lost, wt_exit_others = Http_lost, wt_exit_now = 4700\<rparr>"

lemma hang_loaded: "load_watch ''s1'' No_file = Some hang_start \<and> fresh_session ''s1'' hang_start"
  by code_simp

lemma hang_runs: "watch_run hang_texts hang_watch hang_start \<noteq> None"
  by code_simp

lemma hang_eligible: "map_option snd (observe hang_texts ''image'' ''image'' hung_job 4600 hang_state) = Some True"
  by code_simp

lemma hang_sent:
  "rr_sent (local_recovery hang_texts ''image'' ''image'' ''j1'' hang_talk 4600 False hang_state)
   \<and> rr_drained (local_recovery hang_texts ''image'' ''image'' ''j1'' hang_talk 4600 False hang_state)"
  by code_simp

theorem eligible_after_watched_stall_witness:
  "progress_since hang_texts ''image'' (rev hang_watch) + 3600 \<le> 4600"
proof -
  obtain st' where st': "observe hang_texts ''image'' ''image'' hung_job 4600 hang_state = Some (st', True)"
    using hang_eligible by auto
  have "watch_run hang_texts hang_watch hang_start = Some hang_state" using hang_runs by (auto simp: hang_state_def)
  from eligible_after_watched_stall [OF hang_loaded [THEN conjunct1] hang_loaded [THEN conjunct2] this _ st'] show ?thesis
    by (simp add: stall_after_def default_stall_s_def)
qed

theorem cancelled_once_witness:
  "\<not> rr_sent (local_recovery hang_texts ''image'' ''image'' ''j1'' hang_talk 9000 True
      (rr_state (local_recovery hang_texts ''image'' ''image'' ''j1'' hang_talk 4600 False hang_state)))"
  by (rule cancelled_once [where es = "[]"]) (use hang_sent in simp_all)

theorem cancellation_needs_fresh_evidence_witness:
  "other_active ''j1'' (wt_others hang_talk) = Alone
   \<and> drained_unless_over hang_talk (local_recovery hang_texts ''image'' ''image'' ''j1'' hang_talk 4600 False hang_state)"
  using cancellation_needs_fresh_evidence hang_sent by blast

end
