(* ===== verification/Owner_Auth.thy ===== *)
theory Owner_Auth
  imports Auto_Recovery
begin

text \<open>
  \<open>app/backend/auth.py\<close> and the sign-in routes of \<open>app/backend/main.py\<close>: the owner password, the
  sessions of remembered browsers, the throttle of failed sign-ins, and the middleware that admits a
  request.  The two private files are kept as what \<open>_read_private\<close> returns for them: the password record
  as a dictionary (empty when the file is missing or not JSON), the sessions as the value under
  \<open>sessions\<close>.  SHA-256, scrypt (\<open>None\<close>: an exception) and the reading of an address as a private source
  (\<open>ipaddress\<close>) are functions of the environment; a token, a salt and the clock are arguments.  A hash of
  the sessions file is hexadecimal text, so comparing it cannot raise.

  Each operation is one step.  Sign-in and sign-out are plain functions that the server runs in a thread
  pool: two requests at the same moment may both pass the throttle before either of them is counted,
  which these steps do not show.  A write of the password file that is cut off (\<open>_write_private\<close> rewrites
  it in place) is a step of its own, and so is a join that fails and restores the file.
\<close>

section \<open>Text and addresses\<close>

fun hex_value :: "char \<Rightarrow> nat option" where
  "hex_value c =
     (let n = of_char c :: nat
      in if 48 \<le> n \<and> n \<le> 57 then Some (n - 48)
         else if 97 \<le> n \<and> n \<le> 102 then Some (n - 87)
         else if 65 \<le> n \<and> n \<le> 70 then Some (n - 55) else None)"

definition hex_blank :: "char \<Rightarrow> bool" where
  "hex_blank c \<longleftrightarrow> c \<in> set [CHR '' '', CHR 0x09, CHR 0x0A, CHR 0x0B, CHR 0x0C, CHR 0x0D]"

fun from_hex :: "string \<Rightarrow> string option" where
  \<comment> \<open>\<open>bytes.fromhex\<close>: blanks are skipped between bytes\<close>
  "from_hex [] = Some []"
| "from_hex (c # s) =
     (if hex_blank c then from_hex s
      else case s of
        [] \<Rightarrow> None
      | d # s' \<Rightarrow> (case (hex_value c, hex_value d, from_hex s') of
          (Some a, Some b, Some rest) \<Rightarrow> Some (char_of (16 * a + b) # rest) | _ \<Rightarrow> None))"

definition to_hex :: "string \<Rightarrow> string" where
  \<comment> \<open>\<open>bytes.hex()\<close>\<close>
  "to_hex s = concat (map (\<lambda>c. let n = of_char c :: nat in [hex_nibble (n div 16), hex_nibble (n mod 16)]) s)"

definition octet :: "string \<Rightarrow> nat option" where
  \<comment> \<open>one to three digits without a leading zero, at most 255\<close>
  "octet w =
     (if w = [] \<or> 3 < length w \<or> \<not> list_all is_digit w \<or> (hd w = CHR ''0'' \<and> w \<noteq> ''0'') then None
      else (let n = foldl (\<lambda>acc c. 10 * acc + (of_char c - 48)) 0 w in if n \<le> 255 then Some n else None))"

definition tailnet_address :: "string \<Rightarrow> bool" where
  \<comment> \<open>\<open>ip_address(host) in ip_network("100.64.0.0/10")\<close>\<close>
  "tailnet_address host = (case map octet (split_on (CHR ''.'') host) of
       [Some a, Some b, Some _, Some _] \<Rightarrow> a = 100 \<and> 64 \<le> b \<and> b \<le> 127 | _ \<Rightarrow> False)"

definition client_host :: "string option \<Rightarrow> string" where
  "client_host client = (case client of None \<Rightarrow> [] | Some host \<Rightarrow> host)"

definition is_loopback :: "string option \<Rightarrow> bool" where
  "is_loopback client \<longleftrightarrow> client_host client \<in> set [''127.0.0.1'', ''::1'', ''localhost'']"

definition is_tailscale :: "string option \<Rightarrow> bool" where
  "is_tailscale client \<longleftrightarrow> tailnet_address (client_host client)"

definition ascii_text :: "string \<Rightarrow> bool" where
  "ascii_text s = list_all (\<lambda>c. (of_char c :: nat) < 128) s"

definition compare_digest :: "string \<Rightarrow> string \<Rightarrow> bool option" where
  \<comment> \<open>\<open>compare_digest\<close> on two texts; \<open>None\<close>: TypeError, which it raises on text that is not ASCII\<close>
  "compare_digest a b = (if ascii_text a \<and> ascii_text b then Some (a = b) else None)"

section \<open>State\<close>

record auth_env =
  ae_hash :: "string \<Rightarrow> string"
  ae_kdf :: "string \<Rightarrow> string \<Rightarrow> string option"
  ae_source :: "string \<Rightarrow> string option"
  ae_token :: string
  ae_fleet :: string

record auth_state =
  au_password :: jdict
  au_sessions :: json
  au_failures :: "(string \<times> time list) list"

definition session_ttl_s :: time where
  "session_ttl_s = 90 * 24 * 60 * 60"

definition login_window_s :: time where
  "login_window_s = 15 * 60"

definition max_login_failures :: nat where
  "max_login_failures = 5"

definition default_owner_password :: string where
  "default_owner_password = ''123456''"

section \<open>The owner password\<close>

definition filled_text :: "json \<Rightarrow> bool" where
  "filled_text v = (case v of JStr s \<Rightarrow> s \<noteq> [] | _ \<Rightarrow> False)"

definition configured :: "jdict \<Rightarrow> bool" where
  "configured r \<longleftrightarrow> filled_text (jget r ''salt'') \<and> filled_text (jget r ''digest'')"

datatype password_mode = Default_password | Inherited_password | Custom_password

definition password_mode_of :: "jdict \<Rightarrow> password_mode" where
  "password_mode_of r =
     (if \<not> configured r then Default_password
      else if jget r ''source'' = JStr ''controller'' then Inherited_password else Custom_password)"

definition default_password_accepted :: "jdict \<Rightarrow> string \<Rightarrow> bool option" where
  "default_password_accepted r password =
     (if configured r then Some False else compare_digest password default_owner_password)"

definition owner_password_verifier :: "jdict \<Rightarrow> jdict option" where
  "owner_password_verifier r =
     (if \<not> configured r then None
      else Some [(''version'', case jget r ''version'' of JInt i \<Rightarrow> JInt i | _ \<Rightarrow> JInt 1),
                 (''salt'', jget r ''salt''), (''digest'', jget r ''digest'')])"

definition verifier_field :: "nat \<Rightarrow> nat \<Rightarrow> json \<Rightarrow> bool" where
  "verifier_field least most v = (case v of
       JStr s \<Rightarrow> even (length s) \<and> least \<le> length s \<and> length s \<le> most
         \<and> list_all (\<lambda>c. is_digit c \<or> c \<in> set ''abcdef'') s
     | _ \<Rightarrow> False)"

definition validated_password_verifier :: "json \<Rightarrow> jdict option" where
  "validated_password_verifier v = (case as_dict v of
       None \<Rightarrow> None
     | Some d \<Rightarrow>
         if py_eq (jget d ''version'') (JInt 1) \<and> verifier_field 16 256 (jget d ''salt'')
            \<and> verifier_field 32 1024 (jget d ''digest'')
         then Some [(''version'', JInt 1), (''salt'', jget d ''salt''), (''digest'', jget d ''digest'')]
         else None)"

definition clear_browser_sessions :: "auth_state \<Rightarrow> auth_state" where
  "clear_browser_sessions st = st\<lparr>au_sessions := JList []\<rparr>"

definition install_password_verifier :: "json \<Rightarrow> auth_state \<Rightarrow> auth_state \<times> bool" where
  "install_password_verifier v st = (case validated_password_verifier v of
       None \<Rightarrow> (st, False)
     | Some r \<Rightarrow>
         if password_mode_of (au_password st) = Custom_password then (st, False)
         else (clear_browser_sessions (st\<lparr>au_password := dset ''source'' (JStr ''controller'') r\<rparr>), True))"

definition failed_join :: "json \<Rightarrow> bool \<Rightarrow> auth_state \<Rightarrow> auth_state" where
  \<comment> \<open>\<open>configure_joined_agent\<close> of \<open>enrollment.py\<close> when it raises: the password file becomes again what its
     snapshot holds (or is unlinked); \<open>installed\<close>: the failure came after the verifier was installed\<close>
  "failed_join v installed st =
     (if installed then (fst (install_password_verifier v st))\<lparr>au_password := au_password st\<rparr> else st)"

definition torn_password_write :: "auth_state \<Rightarrow> auth_state" where
  \<comment> \<open>\<open>_write_private\<close> cut off in the middle: what is left reads as an empty record\<close>
  "torn_password_write st = st\<lparr>au_password := []\<rparr>"

definition set_owner_password :: "auth_env \<Rightarrow> string \<Rightarrow> string \<Rightarrow> auth_state \<Rightarrow> auth_state option" where
  \<comment> \<open>\<open>None\<close>: ValueError\<close>
  "set_owner_password env salt password st =
     (if password = [] \<or> 1024 < length password then None
      else (case ae_kdf env password salt of
          None \<Rightarrow> None
        | Some digest \<Rightarrow> Some (clear_browser_sessions (st\<lparr>au_password :=
            [(''version'', JInt 1), (''salt'', JStr (to_hex salt)), (''digest'', JStr (to_hex digest))]\<rparr>))))"

definition verify_owner_password :: "auth_env \<Rightarrow> string \<Rightarrow> jdict \<Rightarrow> bool" where
  "verify_owner_password env password r =
     (case (Option.bind (as_str (jget r ''salt'')) from_hex, Option.bind (as_str (jget r ''digest'')) from_hex) of
        (Some salt, Some expected) \<Rightarrow> ae_kdf env password salt = Some expected
      | _ \<Rightarrow> False)"

section \<open>Sessions\<close>

fun expires_after :: "time \<Rightarrow> json \<Rightarrow> bool" where
  \<comment> \<open>a bool is an int\<close>
  "expires_after now (JInt i) = (now < of_int i)"
| "expires_after now (JFloat r) = (now < r)"
| "expires_after now (JBool b) = (now < (if b then 1 else 0))"
| "expires_after now (JInf neg) = (\<not> neg)"
| "expires_after now _ = False"

definition live_row :: "time \<Rightarrow> json \<Rightarrow> bool" where
  "live_row now v = (case as_dict v of
       None \<Rightarrow> False
     | Some row \<Rightarrow> as_str (jget row ''hash'') \<noteq> None \<and> expires_after now (jget row ''expires_at''))"

definition session_rows :: "json \<Rightarrow> json list option" where
  \<comment> \<open>iterating over the stored value; characters and keys are no rows\<close>
  "session_rows v = (case v of
       JList rows \<Rightarrow> Some rows
     | JStr s \<Rightarrow> Some (map (\<lambda>c. JStr [c]) s)
     | JObj d \<Rightarrow> Some (map (\<lambda>kv. JStr (fst kv)) d)
     | _ \<Rightarrow> None)"

definition live_sessions :: "time \<Rightarrow> auth_state \<Rightarrow> (json list \<times> auth_state) option" where
  \<comment> \<open>the file is written when a row was dropped; \<open>None\<close>: TypeError\<close>
  "live_sessions now st = (case session_rows (au_sessions st) of
       None \<Rightarrow> None
     | Some rows \<Rightarrow>
         (let live = filter (live_row now) rows
          in Some (live, if length live \<noteq> length rows then st\<lparr>au_sessions := JList live\<rparr> else st)))"

definition last_rows :: "nat \<Rightarrow> 'a list \<Rightarrow> 'a list" where
  "last_rows n xs = drop (length xs - n) xs"

definition create_browser_session :: "auth_env \<Rightarrow> string \<Rightarrow> time \<Rightarrow> auth_state \<Rightarrow> auth_state option" where
  "create_browser_session env token now st = map_option (\<lambda>(live, st1).
     st1\<lparr>au_sessions := JList (last_rows 20 (live @
       [JObj [(''hash'', JStr (ae_hash env token)), (''expires_at'', JInt \<lfloor>now + session_ttl_s\<rfloor>)]]))\<rparr>) (live_sessions now st)"

definition row_hash :: "json \<Rightarrow> json" where
  "row_hash v = (case as_dict v of None \<Rightarrow> JNull | Some row \<Rightarrow> jget row ''hash'')"

definition valid_browser_session :: "auth_env \<Rightarrow> string option \<Rightarrow> time \<Rightarrow> auth_state \<Rightarrow> (bool \<times> auth_state) option" where
  "valid_browser_session env token now st =
     (if str_or_empty token = [] then Some (False, st)
      else map_option (\<lambda>(live, st1). (list_ex (\<lambda>v. row_hash v = JStr (ae_hash env (str_or_empty token))) live, st1))
             (live_sessions now st))"

definition forget_browser_session :: "auth_env \<Rightarrow> string option \<Rightarrow> time \<Rightarrow> auth_state \<Rightarrow> auth_state option" where
  "forget_browser_session env token now st =
     (if str_or_empty token = [] then Some st
      else map_option (\<lambda>(live, st1). st1\<lparr>au_sessions :=
             JList (filter (\<lambda>v. row_hash v \<noteq> JStr (ae_hash env (str_or_empty token))) live)\<rparr>) (live_sessions now st))"

section \<open>Throttle\<close>

definition throttle_key :: "string option \<Rightarrow> string" where
  "throttle_key client = (case client of None \<Rightarrow> ''unknown'' | Some host \<Rightarrow> host)"

definition recent_stamps :: "string \<Rightarrow> time \<Rightarrow> auth_state \<Rightarrow> time list" where
  "recent_stamps key now st = filter (\<lambda>t. now - login_window_s < t)
     (case dget (au_failures st) key of None \<Rightarrow> [] | Some ts \<Rightarrow> ts)"

definition login_allowed :: "string option \<Rightarrow> time \<Rightarrow> auth_state \<Rightarrow> bool \<times> auth_state" where
  "login_allowed client now st =
     (let key = throttle_key client; failures = recent_stamps key now st
      in (length failures < max_login_failures, st\<lparr>au_failures := dset key failures (au_failures st)\<rparr>))"

definition record_login_failure :: "string option \<Rightarrow> time \<Rightarrow> auth_state \<Rightarrow> auth_state" where
  "record_login_failure client now st =
     (let key = throttle_key client
      in st\<lparr>au_failures := dset key (recent_stamps key now st @ [now]) (au_failures st)\<rparr>)"

definition clear_login_failures :: "string option \<Rightarrow> auth_state \<Rightarrow> auth_state" where
  "clear_login_failures client st = st\<lparr>au_failures := dpop (throttle_key client) (au_failures st)\<rparr>"


section \<open>Sign-in routes\<close>

datatype auth_reply = Ok_reply | Signed_in string | Forbidden | Too_many | Wrong_password | Bad_password

definition password_accepted :: "auth_env \<Rightarrow> string \<Rightarrow> auth_state \<Rightarrow> bool option" where
  "password_accepted env password st =
     (if configured (au_password st) then Some (verify_owner_password env password (au_password st))
      else default_password_accepted (au_password st) password)"

definition auth_login ::
  "auth_env \<Rightarrow> string option \<Rightarrow> string \<Rightarrow> string \<Rightarrow> time \<Rightarrow> auth_state \<Rightarrow> (auth_reply \<times> auth_state) option" where
  "auth_login env client password token now st =
     (if \<not> is_loopback client \<and> \<not> is_tailscale client then Some (Forbidden, st)
      else (let (allowed, st1) = login_allowed client now st
        in if \<not> allowed then Some (Too_many, st1)
           else (case password_accepted env password st1 of
               None \<Rightarrow> None
             | Some False \<Rightarrow> Some (Wrong_password, record_login_failure client now st1)
             | Some True \<Rightarrow> map_option (\<lambda>st2. (Signed_in token, st2))
                  (create_browser_session env token now (clear_login_failures client st1)))))"

definition auth_logout :: "auth_env \<Rightarrow> string option \<Rightarrow> time \<Rightarrow> auth_state \<Rightarrow> (auth_reply \<times> auth_state) option" where
  "auth_logout env token now st = map_option (\<lambda>st1. (Ok_reply, st1)) (forget_browser_session env token now st)"

definition auth_setup ::
  "auth_env \<Rightarrow> string option \<Rightarrow> string option \<Rightarrow> string \<Rightarrow> string \<Rightarrow> time \<Rightarrow> auth_state \<Rightarrow> (auth_reply \<times> auth_state) option" where
  "auth_setup env client token salt password now st =
     (case valid_browser_session env token now st of
        None \<Rightarrow> None
      | Some (owner, st1) \<Rightarrow>
          if \<not> is_loopback client \<and> \<not> owner then Some (Forbidden, st1)
          else (case set_owner_password env salt password st1 of
              None \<Rightarrow> Some (Bad_password, st1) | Some st2 \<Rightarrow> Some (Ok_reply, st2)))"

section \<open>The middleware\<close>

record web_request =
  wr_path :: string
  wr_method :: string
  wr_client :: "string option"
  wr_origin :: "string option"
  wr_host :: string
  wr_session :: "string option"
  wr_authorization :: "string option"
  wr_header :: "string option"
  wr_cookie :: "string option"
  wr_cookies :: bool
  wr_query :: bool
  wr_forwarded :: bool

datatype admission = Admit | Admit_hub | Admit_fleet | Cross_origin | Token_required | Service_refused string int

definition public_paths :: "string list" where
  "public_paths = [''/'', ''/api/health'', ''/api/version'', ''/health/live'', ''/health/ready'', ''/health/capacity'',
     ''/api/auth/status'', ''/api/auth/login'', ''/api/auth/logout'', ''/api/hub/enrollment/claim'', ''/api/hub/enrollment/info'']"

definition strict_fleet_service_paths :: "string list" where
  "strict_fleet_service_paths = [''/api/hub/enrollment-repair/apply'', ''/api/hub/enrollment-repair-tickets/redeem'']"

definition strict_fleet_service_path :: "string \<Rightarrow> bool" where
  "strict_fleet_service_path path \<longleftrightarrow> path \<in> set strict_fleet_service_paths
     \<or> prefix ''/api/hub/enrollment-repair/status/'' path \<or> prefix ''/api/hub/service/startup-services/local/'' path"

definition private_direct_source :: "auth_env \<Rightarrow> string \<Rightarrow> (string \<times> int) + string" where
  "private_direct_source env host = (case ae_source env (takeWhile (\<lambda>c. c \<noteq> CHR ''%'') host) of
       None \<Rightarrow> Inl (''private_source_required'', 403) | Some address \<Rightarrow> Inr address)"

definition require_exact_fleet_service_request ::
  "auth_env \<Rightarrow> web_request \<Rightarrow> string option \<Rightarrow> ((string \<times> int) + (string \<times> string)) option" where
  \<comment> \<open>\<open>None\<close>: TypeError of \<open>compare_digest\<close>\<close>
  "require_exact_fleet_service_request env r expected =
     (if ae_fleet env = [] then Some (Inl (''fleet_token_unavailable'', 503))
      else if wr_cookies r \<or> wr_authorization r \<noteq> None \<or> wr_query r \<or> wr_forwarded r
      then Some (Inl (''credential_substitute_rejected'', 403))
      else if str_or_empty (wr_header r) = [] then Some (Inl (''fleet_token_mismatch'', 401))
      else (case compare_digest (str_or_empty (wr_header r)) (ae_fleet env) of
          None \<Rightarrow> None
        | Some False \<Rightarrow> Some (Inl (''fleet_token_mismatch'', 401))
        | Some True \<Rightarrow> (case private_direct_source env (client_host (wr_client r)) of
            Inl e \<Rightarrow> Some (Inl e)
          | Inr source \<Rightarrow> (case expected of
              None \<Rightarrow> Some (Inr (source, ae_fleet env))
            | Some host \<Rightarrow> (case private_direct_source env host of
                Inl e \<Rightarrow> Some (Inl e)
              | Inr other \<Rightarrow> map_option
                    (\<lambda>same. if same then Inr (source, ae_fleet env) else Inl (''source_host_mismatch'', 403))
                    (compare_digest source other))))))"

definition scheme_char :: "char \<Rightarrow> bool" where
  "scheme_char c \<longleftrightarrow> is_lower c \<or> is_upper c \<or> is_digit c \<or> c \<in> set ''+-.''"

definition url_netloc :: "string \<Rightarrow> string" where
  \<comment> \<open>\<open>urlsplit(url).netloc\<close>\<close>
  "url_netloc url =
     (let scheme = takeWhile (\<lambda>c. c \<noteq> CHR '':'') url;
          rest = (if length scheme < length url \<and> scheme \<noteq> [] \<and> (is_lower (hd scheme) \<or> is_upper (hd scheme))
                     \<and> list_all scheme_char scheme
                  then drop (Suc (length scheme)) url else url)
      in if prefix ''//'' rest then takeWhile (\<lambda>c. c \<notin> set ''/?#'') (drop 2 rest) else [])"

definition cross_origin_write :: "web_request \<Rightarrow> bool" where
  "cross_origin_write r \<longleftrightarrow> wr_method r \<notin> set [''GET'', ''HEAD'', ''OPTIONS''] \<and> str_or_empty (wr_origin r) \<noteq> []
     \<and> (let origin = py_lower (url_netloc (str_or_empty (wr_origin r)))
         in origin = [] \<or> origin \<noteq> py_lower (wr_host r))"

definition bearer_token :: "web_request \<Rightarrow> string option" where
  "bearer_token r = (let auth = str_or_empty (wr_authorization r)
     in if prefix ''bearer '' (py_lower auth) then Some (py_strip (drop 7 auth)) else None)"

definition presented_token :: "web_request \<Rightarrow> string option" where
  "presented_token r = (case bearer_token r of
       Some t \<Rightarrow> Some t
     | None \<Rightarrow> if str_or_empty (wr_header r) \<noteq> [] then map_option py_strip (wr_header r)
               else if str_or_empty (wr_cookie r) \<noteq> [] then map_option py_strip (wr_cookie r) else None)"

definition presented_machine_token :: "web_request \<Rightarrow> string option" where
  "presented_machine_token r = (case bearer_token r of
       Some t \<Rightarrow> Some t
     | None \<Rightarrow> if str_or_empty (wr_header r) \<noteq> [] then map_option py_strip (wr_header r) else None)"

definition valid_machine_token :: "auth_env \<Rightarrow> web_request \<Rightarrow> bool option" where
  "valid_machine_token env r = (let offered = str_or_empty (presented_machine_token r)
     in if offered = [] then Some False
        else (case compare_digest offered (ae_token env) of
            None \<Rightarrow> None
          | Some True \<Rightarrow> Some True
          | Some False \<Rightarrow> if ae_fleet env = [] then Some False else compare_digest offered (ae_fleet env)))"

definition admit :: "auth_env \<Rightarrow> web_request \<Rightarrow> time \<Rightarrow> auth_state \<Rightarrow> (admission \<times> auth_state) option" where
  "admit env r now st =
     (if strict_fleet_service_path (wr_path r)
      then (case require_exact_fleet_service_request env r None of
          None \<Rightarrow> None
        | Some (Inl e) \<Rightarrow> Some (Service_refused (fst e) (snd e), st)
        | Some (Inr _) \<Rightarrow> Some (Admit, st))
      else if cross_origin_write r then Some (Cross_origin, st)
      else if wr_path r \<in> set public_paths \<or> is_loopback (wr_client r) then Some (Admit, st)
      else (case valid_browser_session env (wr_session r) now st of
          None \<Rightarrow> None
        | Some (True, st1) \<Rightarrow> Some (Admit, st1)
        | Some (False, st1) \<Rightarrow> (case presented_token r of
            None \<Rightarrow> Some (Token_required, st1)
          | Some offered \<Rightarrow>
              (case compare_digest offered (ae_token env) of
                 None \<Rightarrow> None
               | Some True \<Rightarrow> Some (Admit_hub, st1)
               | Some False \<Rightarrow>
                   if ae_fleet env = [] then Some (Token_required, st1)
                   else map_option (\<lambda>same. (if same then Admit_fleet else Token_required, st1))
                          (compare_digest offered (ae_fleet env))))))"

definition receive_owner_password ::
  "auth_env \<Rightarrow> web_request \<Rightarrow> bool \<Rightarrow> bool \<Rightarrow> json \<Rightarrow> auth_state \<Rightarrow> ((int + bool) \<times> auth_state) option" where
  \<comment> \<open>\<open>agent\<close>: the role of this Hub; \<open>parent\<close>: the request comes from its controller's host\<close>
  "receive_owner_password env r agent parent verifier st =
     (case valid_machine_token env r of
        None \<Rightarrow> None
      | Some False \<Rightarrow> Some (Inl 401, st)
      | Some True \<Rightarrow>
          if \<not> agent then Some (Inl 409, st)
          else if \<not> parent then Some (Inl 403, st)
          else (let (st1, installed) = install_password_verifier verifier st in Some (Inr installed, st1)))"

end
