(* ===== verification/Owner_Auth_Theorems.thy ===== *)
theory Owner_Auth_Theorems
  imports Owner_Auth
begin

text \<open>
  Properties of owner authentication over runs of the sign-in routes, the password routes and the
  middleware.  A run collects what happened, latest event first; an operation that raises changes
  nothing.
\<close>

section \<open>Runs\<close>

datatype auth_op =
    Login "string option" string string time
  | Logout "string option" time
  | Setup "string option" "string option" string string time
  | Receive web_request bool bool json time
  | Inherit json time
  | Failed_join json bool time
  | Torn_write time
  | Request web_request time

datatype auth_event = Signed string string time | Failed string time | Signed_out string | New_password | Quiet

definition login_event :: "string option \<Rightarrow> time \<Rightarrow> auth_reply \<Rightarrow> auth_event" where
  "login_event client now reply = (case reply of
       Signed_in token \<Rightarrow> Signed (throttle_key client) token now
     | Wrong_password \<Rightarrow> Failed (throttle_key client) now
     | _ \<Rightarrow> Quiet)"

fun auth_step :: "auth_env \<Rightarrow> auth_op \<Rightarrow> auth_state \<Rightarrow> auth_state \<times> auth_event" where
  "auth_step env (Login client password token now) st = (case auth_login env client password token now st of
       None \<Rightarrow> (st, Quiet) | Some (reply, st1) \<Rightarrow> (st1, login_event client now reply))"
| "auth_step env (Logout token now) st = (case auth_logout env token now st of
       None \<Rightarrow> (st, Quiet)
     | Some (_, st1) \<Rightarrow> (st1, if str_or_empty token = [] then Quiet else Signed_out (str_or_empty token)))"
| "auth_step env (Setup client token salt password now) st = (case auth_setup env client token salt password now st of
       None \<Rightarrow> (st, Quiet) | Some (reply, st1) \<Rightarrow> (st1, if reply = Ok_reply then New_password else Quiet))"
| "auth_step env (Receive r agent parent verifier now) st =
     (case receive_owner_password env r agent parent verifier st of
        None \<Rightarrow> (st, Quiet)
      | Some (reply, st1) \<Rightarrow> (st1, if reply = Inr True then New_password else Quiet))"
| "auth_step env (Inherit verifier now) st =
     (case install_password_verifier verifier st of (st1, installed) \<Rightarrow> (st1, if installed then New_password else Quiet))"
| "auth_step env (Failed_join verifier installed now) st = (failed_join verifier installed st,
     if installed \<and> snd (install_password_verifier verifier st) then New_password else Quiet)"
| "auth_step env (Torn_write now) st = (torn_password_write st, Quiet)"
| "auth_step env (Request r now) st = (case admit env r now st of None \<Rightarrow> (st, Quiet) | Some (_, st1) \<Rightarrow> (st1, Quiet))"

definition auth_next :: "auth_env \<Rightarrow> auth_op \<Rightarrow> auth_state \<times> auth_event list \<Rightarrow> auth_state \<times> auth_event list" where
  "auth_next env e s = (case auth_step env e (fst s) of (st, ev) \<Rightarrow> (st, ev # snd s))"

definition auth_run :: "auth_env \<Rightarrow> auth_op list \<Rightarrow> auth_state \<Rightarrow> auth_state \<times> auth_event list" where
  "auth_run env es st = fold (auth_next env) es (st, [])"

section \<open>Cases of the routes\<close>

lemma login_cases:
  assumes "auth_login env client password token now st = Some (reply, st1)"
  obtains "reply = Forbidden" "st1 = st" "\<not> is_loopback client" "\<not> is_tailscale client"
  | "reply = Too_many" "st1 = snd (login_allowed client now st)" "\<not> fst (login_allowed client now st)"
  | "reply = Wrong_password" "st1 = record_login_failure client now (snd (login_allowed client now st))" "fst (login_allowed client now st)"
  | "reply = Signed_in token" "fst (login_allowed client now st)"
    "create_browser_session env token now (clear_login_failures client (snd (login_allowed client now st))) = Some st1"
  using assms by (auto simp: auth_login_def split: if_splits prod.splits option.splits bool.splits)

lemma receive_step:
  "auth_step env (Receive r agent parent verifier now) st \<in> {(st, Quiet), auth_step env (Inherit verifier now) st}"
  by (simp add: receive_owner_password_def split: option.split bool.split prod.split)

section \<open>Sessions come from sign-ins\<close>

fun logins_of :: "string \<Rightarrow> auth_event list \<Rightarrow> time list" where
  \<comment> \<open>the sign-ins that issued this token since the last new password or its sign-out\<close>
  "logins_of token [] = []"
| "logins_of token (Signed _ t now # es) = (if t = token then now # logins_of token es else logins_of token es)"
| "logins_of token (Signed_out t # es) = (if t = token then [] else logins_of token es)"
| "logins_of token (New_password # es) = []"
| "logins_of token (_ # es) = logins_of token es"

definition issued_row :: "auth_env \<Rightarrow> auth_event list \<Rightarrow> json \<Rightarrow> bool" where
  "issued_row env evs v \<longleftrightarrow> (\<forall>token. row_hash v = JStr (ae_hash env token) \<longrightarrow>
     (\<exists>t\<in>set (logins_of token evs). \<forall>now. live_row now v \<longrightarrow> now < t + session_ttl_s))"

definition issued :: "auth_env \<Rightarrow> auth_state \<times> auth_event list \<Rightarrow> bool" where
  "issued env s \<longleftrightarrow> (\<exists>rows. au_sessions (fst s) = JList rows \<and> (\<forall>v\<in>set rows. issued_row env (snd s) v))"

lemma live_sessions_shape:
  assumes "au_sessions st = JList rows"
  shows "\<exists>st1. live_sessions now st = Some (filter (live_row now) rows, st1)
     \<and> au_sessions st1 = JList (filter (live_row now) rows)
     \<and> au_password st1 = au_password st \<and> au_failures st1 = au_failures st"
proof -
  have "filter (live_row now) rows = rows" if "length (filter (live_row now) rows) = length rows"
    using that by (simp add: length_filter_less filter_id_conv) (metis filter_id_conv length_filter_less nat_neq_iff)
  then show ?thesis using assms by (auto simp: live_sessions_def session_rows_def Let_def)
qed

lemma issued_fewer:
  "issued env (st, evs) \<Longrightarrow> au_sessions st = JList rows \<Longrightarrow> au_sessions st1 = JList rows1 \<Longrightarrow> set rows1 \<subseteq> set rows
     \<Longrightarrow> issued env (st1, evs)"
  by (auto simp: issued_def)

lemma issued_row_event:
  assumes "issued_row env evs v" "\<And>token. row_hash v = JStr (ae_hash env token) \<Longrightarrow> set (logins_of token evs) \<subseteq> set (logins_of token (ev # evs))"
  shows "issued_row env (ev # evs) v"
  using assms unfolding issued_row_def by blast

lemma issued_quiet: "issued env (st, evs) \<Longrightarrow> issued env (st, Quiet # evs)" "issued env (st, evs) \<Longrightarrow> issued env (st, Failed k t # evs)"
  by (simp_all add: issued_def issued_row_def)

lemma issued_no_rows: "au_sessions st = JList [] \<Longrightarrow> issued env (st, evs)"
  by (simp add: issued_def)

lemma live_issued:
  assumes "issued env (st, evs)"
  obtains rows st1 where "au_sessions st = JList rows" "live_sessions now st = Some (filter (live_row now) rows, st1)"
    "au_sessions st1 = JList (filter (live_row now) rows)" "issued env (st1, evs)"
    "au_password st1 = au_password st" "au_failures st1 = au_failures st"
proof -
  obtain rows where rows: "au_sessions st = JList rows" using assms by (auto simp: issued_def)
  obtain st1 where st1: "live_sessions now st = Some (filter (live_row now) rows, st1)"
    "au_sessions st1 = JList (filter (live_row now) rows)" "au_password st1 = au_password st" "au_failures st1 = au_failures st"
    using live_sessions_shape [OF rows] by blast
  moreover have "issued env (st1, evs)" using issued_fewer [OF assms rows st1(2)] by auto
  ultimately show ?thesis using that rows by blast
qed

lemma issued_create:
  assumes inj: "inj (ae_hash env)" and iss: "issued env (st, evs)" and cr: "create_browser_session env token now st = Some st2"
  shows "issued env (st2, Signed k token now # evs)"
proof -
  obtain rows st1 where live: "live_sessions now st = Some (filter (live_row now) rows, st1)"
    and st1: "au_sessions st1 = JList (filter (live_row now) rows)" "issued env (st1, evs)"
    using iss by (rule live_issued)
  let ?new = "JObj [(''hash'', JStr (ae_hash env token)), (''expires_at'', JInt \<lfloor>now + session_ttl_s\<rfloor>)]"
  have st2: "au_sessions st2 = JList (last_rows 20 (filter (live_row now) rows @ [?new]))"
    using cr live by (auto simp: create_browser_session_def)
  have "issued_row env (Signed k token now # evs) v" if "v \<in> set (filter (live_row now) rows)" for v
    using st1 that by (intro issued_row_event) (auto simp: issued_def)
  moreover have "issued_row env (Signed k token now # evs) ?new"
  proof -
    have "t = token" if "row_hash ?new = JStr (ae_hash env t)" for t
      using that inj by (simp add: row_hash_def jget_def inj_eq)
    moreover have "u < now + session_ttl_s" if "live_row u ?new" for u
      using that by (simp add: live_row_def jget_def less_floor_iff) linarith
    ultimately show ?thesis by (auto simp: issued_row_def)
  qed
  moreover have "set (last_rows 20 (filter (live_row now) rows @ [?new])) \<subseteq> set (filter (live_row now) rows @ [?new])"
    unfolding last_rows_def by (rule set_drop_subset)
  ultimately show ?thesis using st2 by (auto simp: issued_def)
qed


lemma issued_forget:
  assumes iss: "issued env (st, evs)" and fo: "forget_browser_session env token now st = Some st1"
  shows "issued env (st1, (if str_or_empty token = [] then Quiet else Signed_out (str_or_empty token)) # evs)"
proof (cases "str_or_empty token = []")
  case True
  then show ?thesis using assms issued_quiet(1) by (simp add: forget_browser_session_def)
next
  case False
  obtain rows st2 where live: "live_sessions now st = Some (filter (live_row now) rows, st2)"
    and st2: "au_sessions st2 = JList (filter (live_row now) rows)" "issued env (st2, evs)"
    using iss by (rule live_issued)
  let ?keep = "\<lambda>v. row_hash v \<noteq> JStr (ae_hash env (str_or_empty token))"
  have rows: "au_sessions st1 = JList (filter ?keep (filter (live_row now) rows))"
    using fo live False by (auto simp: forget_browser_session_def)
  have "issued_row env (Signed_out (str_or_empty token) # evs) v" if "v \<in> set (filter ?keep (filter (live_row now) rows))" for v
    using st2 that by (intro issued_row_event) (auto simp: issued_def)
  then show ?thesis using rows False by (auto simp: issued_def)
qed

lemma issued_valid:
  assumes "issued env (st, evs)"
  obtains ok st1 where "valid_browser_session env token now st = Some (ok, st1)" "issued env (st1, evs)"
    "ok \<longrightarrow> (\<exists>t\<in>set (logins_of (str_or_empty token) evs). now < t + session_ttl_s)"
    "au_password st1 = au_password st" "au_failures st1 = au_failures st"
proof (cases "str_or_empty token = []")
  case True
  then show ?thesis using assms that [of False st] by (simp add: valid_browser_session_def)
next
  case False
  obtain rows st2 where rows: "au_sessions st = JList rows"
    and live: "live_sessions now st = Some (filter (live_row now) rows, st2)" "issued env (st2, evs)"
    "au_password st2 = au_password st" "au_failures st2 = au_failures st"
    using assms by (rule live_issued)
  have "\<exists>t\<in>set (logins_of (str_or_empty token) evs). now < t + session_ttl_s"
    if v: "v \<in> set rows" "live_row now v" "row_hash v = JStr (ae_hash env (str_or_empty token))" for v
  proof -
    have "issued_row env evs v" using assms rows v(1) by (simp add: issued_def)
    then show ?thesis using v(2,3) unfolding issued_row_def by blast
  qed
  then show ?thesis using that live False
    by (auto simp: valid_browser_session_def list_ex_iff)
qed

lemma set_owner_sessions: "set_owner_password env salt password st = Some st1 \<Longrightarrow> au_sessions st1 = JList []"
  by (auto simp: set_owner_password_def clear_browser_sessions_def split: if_splits option.splits)

lemma install_sessions:
  "install_password_verifier v st = (st1, b) \<Longrightarrow> if b then au_sessions st1 = JList [] else st1 = st"
  by (auto simp: install_password_verifier_def clear_browser_sessions_def split: option.splits if_splits)

lemma issued_install:
  assumes "issued env (st, evs)" "install_password_verifier v st = (st1, b)"
  shows "issued env (st1, (if b then New_password else Quiet) # evs)"
  using install_sessions [OF assms(2)] assms(1) issued_no_rows issued_quiet(1) by (cases b) auto

lemma issued_admit:
  assumes "issued env (st, evs)" "admit env r now st = Some (a, st1)"
  shows "issued env (st1, evs)"
    "a = Admit \<Longrightarrow> \<not> strict_fleet_service_path (wr_path r) \<Longrightarrow> wr_path r \<notin> set public_paths \<Longrightarrow> \<not> is_loopback (wr_client r)
       \<Longrightarrow> \<exists>t\<in>set (logins_of (str_or_empty (wr_session r)) evs). now < t + session_ttl_s"
proof -
  obtain ok st2 where v: "valid_browser_session env (wr_session r) now st = Some (ok, st2)" "issued env (st2, evs)"
    "ok \<longrightarrow> (\<exists>t\<in>set (logins_of (str_or_empty (wr_session r)) evs). now < t + session_ttl_s)"
    using assms(1) by (rule issued_valid [where token = "wr_session r" and now = now])
  show "issued env (st1, evs)"
    using assms v(1,2) by (auto simp: admit_def split: if_splits sum.splits prod.splits bool.splits option.splits)
  show "\<exists>t\<in>set (logins_of (str_or_empty (wr_session r)) evs). now < t + session_ttl_s"
    if "a = Admit" "\<not> strict_fleet_service_path (wr_path r)" "wr_path r \<notin> set public_paths" "\<not> is_loopback (wr_client r)"
    using assms(2) v(1,3) that by (auto simp: admit_def split: if_splits bool.splits option.splits)
qed

lemma issued_login:
  assumes inj: "inj (ae_hash env)" and iss: "issued env (st, evs)"
    and lo: "auth_login env client password token now st = Some (reply, st1)"
  shows "issued env (st1, login_event client now reply # evs)"
proof -
  have keep: "issued env (st2, evs)" if "au_sessions st2 = au_sessions st" for st2
    using iss that by (simp add: issued_def)
  obtain allowed st2 where al: "login_allowed client now st = (allowed, st2)" by (rule prod.exhaust)
  have s2: "issued env (st2, evs)" "issued env (record_login_failure client now st2, evs)"
    "issued env (clear_login_failures client st2, evs)"
    using al by (auto intro!: keep simp: login_allowed_def record_login_failure_def clear_login_failures_def Let_def)
  show ?thesis
    using lo
  proof (cases rule: login_cases)
    case 1
    then show ?thesis using iss issued_quiet(1) by (simp add: login_event_def)
  next
    case 2
    then show ?thesis using s2(1) al issued_quiet(1) by (simp add: login_event_def)
  next
    case 3
    then show ?thesis using s2(2) al issued_quiet(2) by (simp add: login_event_def)
  next
    case 4
    then show ?thesis using issued_create [OF inj s2(3)] al by (simp add: login_event_def)
  qed
qed

lemma issued_setup:
  assumes "issued env (st, evs)" "auth_setup env client token salt password now st = Some (reply, st1)"
  shows "issued env (st1, (if reply = Ok_reply then New_password else Quiet) # evs)"
proof -
  obtain ok st2 where v: "valid_browser_session env token now st = Some (ok, st2)" "issued env (st2, evs)"
    using assms(1) by (rule issued_valid)
  show ?thesis
  proof (cases "reply = Ok_reply")
    case True
    then have "set_owner_password env salt password st2 = Some st1"
      using assms(2) v(1) by (auto simp: auth_setup_def split: if_splits option.splits)
    then show ?thesis using set_owner_sessions issued_no_rows by blast
  next
    case False
    then have "st1 = st2" using assms(2) v(1) by (auto simp: auth_setup_def split: if_splits option.splits)
    then show ?thesis using False v(2) issued_quiet(1) by simp
  qed
qed

lemma issued_next:
  assumes inj: "inj (ae_hash env)" and iss: "issued env s"
  shows "issued env (auth_next env e s)"
proof (cases s)
  case (Pair st evs)
  have i: "issued env (st, evs)" using iss Pair by simp
  note q = issued_quiet(1) [OF i]
  show ?thesis
  proof (cases e)
    case (Login client password token now)
    then show ?thesis using q issued_login [OF inj i] Pair by (auto simp: auth_next_def split: option.split prod.splits)
  next
    case (Logout token now)
    then show ?thesis using q issued_forget [OF i, of token now] Pair
      by (auto simp: auth_next_def auth_logout_def split: option.split prod.splits)
  next
    case (Setup client token salt password now)
    then show ?thesis using q issued_setup [OF i] Pair by (auto simp: auth_next_def split: option.split prod.splits)
  next
    case (Receive r agent parent verifier now)
    then show ?thesis using q issued_install [OF i, of verifier] Pair receive_step [of env r agent parent verifier now st]
      by (auto simp: auth_next_def simp del: auth_step.simps(4) split: prod.splits)
  next
    case (Inherit verifier now)
    then show ?thesis using issued_install [OF i, of verifier] Pair by (auto simp: auth_next_def split: prod.splits)
  next
    case (Failed_join verifier installed now)
    obtain st1 b where inst: "install_password_verifier verifier st = (st1, b)" by fastforce
    have "issued env (st1\<lparr>au_password := au_password st\<rparr>, (if b then New_password else Quiet) # evs)"
      using issued_install [OF i inst] by (simp add: issued_def)
    then show ?thesis using q Failed_join Pair inst by (simp add: auth_next_def failed_join_def)
  next
    case (Torn_write now)
    then show ?thesis using q Pair by (simp add: auth_next_def torn_password_write_def issued_def)
  next
    case (Request r now)
    then show ?thesis using q issued_admit(1) [OF i] issued_quiet(1) Pair
      by (auto simp: auth_next_def split: option.split prod.splits)
  qed
qed

lemma issued_run:
  assumes "inj (ae_hash env)" "au_sessions st0 = JList []"
  shows "issued env (auth_run env es st0)"
proof -
  have "issued env s \<Longrightarrow> issued env (fold (auth_next env) es s)" for s
    by (induction es arbitrary: s) (simp_all add: issued_next [OF assms(1)])
  then show ?thesis unfolding auth_run_def using issued_no_rows [OF assms(2)] by blast
qed

text \<open>C22: Remote access without a token needs a sign-in: in every run that starts without sessions, a
  request from another machine to a private path that is let in without the Hub's or the fleet's token
  carries a session that a sign-in with an accepted password issued less than 90 days ago, since the last
  change of the password and since that session was last signed out.  So changing the password, or
  inheriting one, signs out every remembered browser at once.  (No two tokens have the same SHA-256.)\<close>

theorem remote_access_needs_login:
  assumes "inj (ae_hash env)" and "au_sessions st0 = JList []" and "auth_run env es st0 = (st, evs)"
    and "admit env r now st = Some (Admit, st1)" and "\<not> strict_fleet_service_path (wr_path r)"
    and "wr_path r \<notin> set public_paths" and "\<not> is_loopback (wr_client r)"
  shows "\<exists>t\<in>set (logins_of (str_or_empty (wr_session r)) evs). now < t + 90 * 24 * 60 * 60"
  using issued_admit(2) [OF issued_run [OF assms(1,2), of es, unfolded assms(3)] assms(4) refl assms(5-7)]
  by (simp add: session_ttl_s_def)


section \<open>The throttle counts the failures\<close>

fun failures_of :: "string \<Rightarrow> time \<Rightarrow> auth_event list \<Rightarrow> nat" where
  \<comment> \<open>failed sign-ins of this address in the last 15 minutes, since its last successful one\<close>
  "failures_of key now [] = 0"
| "failures_of key now (Failed k t # es) =
     (if k = key \<and> now - 15 * 60 < t then Suc (failures_of key now es) else failures_of key now es)"
| "failures_of key now (Signed k _ _ # es) = (if k = key then 0 else failures_of key now es)"
| "failures_of key now (_ # es) = failures_of key now es"

fun op_time :: "auth_op \<Rightarrow> time" where
  "op_time (Login _ _ _ now) = now"
| "op_time (Logout _ now) = now"
| "op_time (Setup _ _ _ _ now) = now"
| "op_time (Receive _ _ _ _ now) = now"
| "op_time (Inherit _ now) = now"
| "op_time (Failed_join _ _ now) = now"
| "op_time (Torn_write now) = now"
| "op_time (Request _ now) = now"

definition counted :: "time \<Rightarrow> auth_state \<times> auth_event list \<Rightarrow> bool" where
  \<comment> \<open>from this time on\<close>
  "counted since s \<longleftrightarrow> (\<forall>key now. since \<le> now \<longrightarrow> length (recent_stamps key now (fst s)) = failures_of key now (snd s))"

lemma counted_same:
  "counted since (st, evs) \<Longrightarrow> au_failures st1 = au_failures st \<Longrightarrow> (\<And>key now. failures_of key now evs1 = failures_of key now evs)
     \<Longrightarrow> counted since (st1, evs1)"
  by (simp add: counted_def recent_stamps_def)

lemma counted_later: "counted since s \<Longrightarrow> since \<le> since' \<Longrightarrow> counted since' s"
  by (auto simp: counted_def)

lemma counted_allowed:
  assumes "counted since (st, evs)" "since \<le> now"
  shows "counted now (snd (login_allowed client now st), evs)"
    "fst (login_allowed client now st) \<longleftrightarrow> failures_of (throttle_key client) now evs < max_login_failures"
proof -
  have "recent_stamps key now' (snd (login_allowed client now st)) = recent_stamps key now' st" if "now \<le> now'" for key now'
    using that by (auto simp: login_allowed_def recent_stamps_def Let_def intro!: filter_cong)
  then show "counted now (snd (login_allowed client now st), evs)"
    using assms by (simp add: counted_def)
  show "fst (login_allowed client now st) \<longleftrightarrow> failures_of (throttle_key client) now evs < max_login_failures"
    using assms by (simp add: counted_def login_allowed_def Let_def)
qed

lemma counted_failure:
  assumes "counted now (st, evs)"
  shows "counted now (record_login_failure client now st, Failed (throttle_key client) now # evs)"
proof -
  have "recent_stamps key now' (record_login_failure client now st) = recent_stamps key now' st
      @ (if key = throttle_key client \<and> now' - login_window_s < now then [now] else [])" if "now \<le> now'" for key now'
    using that by (auto simp: record_login_failure_def recent_stamps_def Let_def intro!: filter_cong)
  then show ?thesis using assms by (simp add: counted_def login_window_s_def)
qed

lemma counted_cleared:
  assumes "counted now (st, evs)"
  shows "counted now (clear_login_failures client st, Signed (throttle_key client) token now # evs)"
  using assms by (simp add: counted_def clear_login_failures_def recent_stamps_def)

lemma live_failures [simp]: "live_sessions now st = Some (live, st1) \<Longrightarrow> au_failures st1 = au_failures st"
  by (auto simp: live_sessions_def Let_def split: option.splits)

lemma valid_failures: "valid_browser_session env token now st = Some (ok, st1) \<Longrightarrow> au_failures st1 = au_failures st"
  by (auto simp: valid_browser_session_def split: if_splits)

lemma create_failures: "create_browser_session env token now st = Some st1 \<Longrightarrow> au_failures st1 = au_failures st"
  by (auto simp: create_browser_session_def)

lemma forget_failures: "forget_browser_session env token now st = Some st1 \<Longrightarrow> au_failures st1 = au_failures st"
  by (auto simp: forget_browser_session_def split: if_splits)

lemma install_failures: "install_password_verifier v st = (st1, b) \<Longrightarrow> au_failures st1 = au_failures st"
  by (auto simp: install_password_verifier_def clear_browser_sessions_def split: option.splits if_splits)

lemma installed_failures [simp]: "au_failures (fst (install_password_verifier v st)) = au_failures st"
  by (rule install_failures [of v st _ "snd (install_password_verifier v st)"]) simp

lemma setup_failures: "auth_setup env client token salt password now st = Some (reply, st1) \<Longrightarrow> au_failures st1 = au_failures st"
  by (auto simp: auth_setup_def set_owner_password_def clear_browser_sessions_def dest!: valid_failures
      split: option.splits prod.splits if_splits)

lemma admit_failures: "admit env r now st = Some (a, st1) \<Longrightarrow> au_failures st1 = au_failures st"
  by (auto simp: admit_def dest!: valid_failures split: if_splits sum.splits prod.splits bool.splits option.splits)

lemmas frame_failures = forget_failures install_failures setup_failures admit_failures

lemma counted_login:
  assumes "counted since (st, evs)" "since \<le> now" "auth_login env client password token now st = Some (reply, st1)"
  shows "counted now (st1, login_event client now reply # evs)"
proof -
  note al = counted_allowed(1) [OF assms(1,2), of client]
  show ?thesis
    using assms(3)
  proof (cases rule: login_cases)
    case 1
    then show ?thesis using counted_later [OF assms(1,2)] by (auto simp: login_event_def intro: counted_same)
  next
    case 2
    then show ?thesis using al by (auto simp: login_event_def intro: counted_same)
  next
    case 3
    then show ?thesis using counted_failure [OF al] by (simp add: login_event_def)
  next
    case 4
    then show ?thesis using counted_same [OF counted_cleared [OF al, of client token] create_failures] by (simp add: login_event_def)
  qed
qed

lemma step_failures:
  assumes "auth_step env e st = (st1, ev)" and "\<And>client password token now. e \<noteq> Login client password token now"
  shows "au_failures st1 = au_failures st \<and> ev \<in> {Quiet, New_password} \<union> range Signed_out"
  using assms
  by (cases e) (auto simp: auth_logout_def receive_owner_password_def Let_def failed_join_def torn_password_write_def
      dest: frame_failures split: option.splits bool.splits prod.splits if_splits)

lemma counted_next:
  assumes "counted since s" "since \<le> op_time e"
  shows "counted (op_time e) (auth_next env e s)"
proof (cases s)
  case (Pair st evs)
  have c: "counted (op_time e) (st, evs)" using counted_later [OF assms] Pair by simp
  obtain st1 ev where st: "auth_step env e st = (st1, ev)" by (rule prod.exhaust)
  have q: "counted (op_time e) (st1, ev # evs)" if "au_failures st1 = au_failures st \<and> ev \<in> {Quiet, New_password} \<union> range Signed_out"
    using that counted_same [OF c] by auto
  have "counted (op_time e) (st1, ev # evs)"
  proof (cases "\<exists>client password token now. e = Login client password token now")
    case True
    then obtain client password token now where e: "e = Login client password token now" by blast
    show ?thesis
    proof (cases "auth_login env client password token now st")
      case None
      then show ?thesis using q st e by simp
    next
      case (Some r)
      then show ?thesis
        using counted_login [OF assms(1) [unfolded Pair], of now env client password token "fst r" "snd r"] assms(2) st e
        by (auto split: prod.splits)
    qed
  next
    case False
    then show ?thesis using step_failures [OF st] q by blast
  qed
  then show ?thesis using Pair st by (simp add: auth_next_def)
qed

lemma counted_run:
  "counted since s \<Longrightarrow> sorted (since # map op_time es) \<Longrightarrow> since \<le> now \<Longrightarrow> \<forall>e\<in>set es. op_time e \<le> now
     \<Longrightarrow> counted now (fold (auth_next env) es s)"
proof (induction es arbitrary: s since)
  case Nil
  then show ?case using counted_later by auto
next
  case (Cons e es)
  from Cons.IH [OF counted_next [OF Cons.prems(1)], of e] Cons.prems show ?case by simp
qed

text \<open>C26: The throttle counts exactly the recent failures: in every run with a clock that does not go
  back, a sign-in from an address that may use a password is answered with "too many attempts" exactly
  when that address has failed at least five times in the last fifteen minutes since it last signed in.
  (The requests come one after the other, as the steps of the run, and the count lives in the memory of
  the process: a run is what happens between two starts of the Hub.  A success clears the count.)\<close>

theorem throttle_counts_failures:
  assumes "au_failures st0 = []" and "sorted (map op_time es)" and "\<forall>e\<in>set es. op_time e \<le> now"
    and "auth_run env es st0 = (st, evs)" and "auth_login env client password token now st = Some (reply, st1)"
    and "is_loopback client \<or> is_tailscale client"
  shows "reply = Too_many \<longleftrightarrow> 5 \<le> failures_of (throttle_key client) now evs"
proof -
  let ?t0 = "case es of [] \<Rightarrow> now | e # _ \<Rightarrow> op_time e"
  have "counted ?t0 (st0, [])" using assms(1) by (simp add: counted_def recent_stamps_def)
  moreover have "sorted (?t0 # map op_time es)" "?t0 \<le> now" using assms(2,3) by (auto split: list.split)
  ultimately have "counted now (st, evs)"
    using counted_run assms(3,4) unfolding auth_run_def by metis
  from counted_allowed(2) [OF this, of now client]
  show ?thesis using assms(5,6) by (auto simp: max_login_failures_def elim: login_cases)
qed


section \<open>The password stays the owner's\<close>

lemma live_password [simp]: "live_sessions now st = Some (live, st1) \<Longrightarrow> au_password st1 = au_password st"
  by (auto simp: live_sessions_def Let_def split: option.splits)

lemma valid_password: "valid_browser_session env token now st = Some (ok, st1) \<Longrightarrow> au_password st1 = au_password st"
  by (auto simp: valid_browser_session_def split: if_splits)

lemma forget_password: "forget_browser_session env token now st = Some st1 \<Longrightarrow> au_password st1 = au_password st"
  by (auto simp: forget_browser_session_def split: if_splits)

lemma admit_password: "admit env r now st = Some (a, st1) \<Longrightarrow> au_password st1 = au_password st"
  by (auto simp: admit_def dest!: valid_password split: if_splits sum.splits prod.splits bool.splits option.splits)

lemma login_password: "auth_login env client password token now st = Some (reply, st1) \<Longrightarrow> au_password st1 = au_password st"
  by (auto simp: login_allowed_def Let_def record_login_failure_def create_browser_session_def clear_login_failures_def
      elim!: login_cases)

lemmas frame_password = forget_password admit_password login_password

definition sane_env :: "auth_env \<Rightarrow> auth_op \<Rightarrow> bool" where
  \<comment> \<open>salts and digests are not empty\<close>
  "sane_env env e \<longleftrightarrow> (case e of
       Setup _ _ salt password _ \<Rightarrow> salt \<noteq> [] \<and> ae_kdf env password salt \<noteq> Some [] | _ \<Rightarrow> True)"

definition is_setup :: "auth_op \<Rightarrow> bool" where
  "is_setup e \<longleftrightarrow> (case e of Setup _ _ _ _ _ \<Rightarrow> True | _ \<Rightarrow> False)"

definition is_torn :: "auth_op \<Rightarrow> bool" where
  "is_torn e \<longleftrightarrow> (case e of Torn_write _ \<Rightarrow> True | _ \<Rightarrow> False)"

lemma to_hex_empty [simp]: "to_hex s = [] \<longleftrightarrow> s = []"
  by (cases s) (simp_all add: to_hex_def Let_def)

lemma set_owner_configured:
  "set_owner_password env salt password st = Some st1 \<Longrightarrow> salt \<noteq> [] \<Longrightarrow> ae_kdf env password salt \<noteq> Some []
     \<Longrightarrow> password_mode_of (au_password st1) = Custom_password"
  by (auto simp: set_owner_password_def clear_browser_sessions_def configured_def filled_text_def jget_def
      password_mode_of_def split: if_splits option.splits)

lemma verifier_filled: "verifier_field least most v \<Longrightarrow> 0 < least \<Longrightarrow> filled_text v"
  by (auto simp: verifier_field_def filled_text_def split: json.splits)

lemma install_password_kept:
  assumes "install_password_verifier v st = (st1, b)"
  shows "password_mode_of (au_password st1) \<noteq> Default_password \<or> st1 = st"
    "password_mode_of (au_password st) = Custom_password \<Longrightarrow> st1 = st"
proof -
  have "configured (dset ''source'' (JStr ''controller'') r)" if "validated_password_verifier v = Some r" for r
    using that verifier_filled [of 16 256] verifier_filled [of 32 1024]
    by (auto simp: validated_password_verifier_def configured_def jget_def split: option.splits if_splits)
  then show "password_mode_of (au_password st1) \<noteq> Default_password \<or> st1 = st"
    using assms by (auto simp: install_password_verifier_def clear_browser_sessions_def password_mode_of_def
        split: option.splits if_splits)
  show "password_mode_of (au_password st) = Custom_password \<Longrightarrow> st1 = st"
    using assms by (auto simp: install_password_verifier_def split: option.splits)
qed

lemma step_password:
  assumes "auth_step env e st = (st1, ev)"
  shows "password_mode_of (au_password st) \<noteq> Default_password \<Longrightarrow> sane_env env e \<Longrightarrow> \<not> is_torn e
      \<Longrightarrow> password_mode_of (au_password st1) \<noteq> Default_password"
    "password_mode_of (au_password st) = Custom_password \<Longrightarrow> \<not> is_setup e \<Longrightarrow> \<not> is_torn e \<Longrightarrow> au_password st1 = au_password st"
proof -
  show "password_mode_of (au_password st1) \<noteq> Default_password"
    if set: "password_mode_of (au_password st) \<noteq> Default_password" "sane_env env e" "\<not> is_torn e"
  proof (cases e)
    case (Setup client token salt password now)
    have "password_mode_of (au_password st2) \<noteq> Default_password"
      if "auth_setup env client token salt password now st = Some (reply, st2)" for reply st2
      using that set set_owner_configured [of env salt password _ st2] Setup
      by (auto simp: auth_setup_def sane_env_def dest!: valid_password split: option.splits if_splits)
    then show ?thesis using Setup set assms by (auto split: option.splits prod.splits)
  qed (use set assms install_password_kept(1) in
      \<open>auto simp: auth_logout_def receive_owner_password_def failed_join_def is_torn_def Let_def dest: frame_password
        split: option.splits bool.splits prod.splits if_splits\<close>)
  show "au_password st1 = au_password st"
    if "password_mode_of (au_password st) = Custom_password" "\<not> is_setup e" "\<not> is_torn e"
    using that assms install_password_kept(2)
    by (cases e) (auto simp: auth_logout_def receive_owner_password_def failed_join_def is_setup_def is_torn_def Let_def dest: frame_password
        split: option.splits bool.splits prod.splits if_splits)
qed

text \<open>C27: A stored password stays the owner's: from a state with a stored password on, through any
  sign-ins, password changes by the owner, verifiers pushed by a controller, joins that succeed and joins
  that fail and are rolled back, the shipped default is not accepted; and a password the owner chose is
  kept unchanged by all of these except a change by the owner.  Every write of the password file must
  complete: one that is cut off brings the default back (\<open>torn_write_restores_default\<close>).\<close>

theorem owner_password_stays:
  assumes "configured (au_password st0)" and "\<forall>e\<in>set es. sane_env env e" and "\<not> list_ex is_torn es"
  shows "default_password_accepted (au_password (fst (auth_run env es st0))) guess = Some False
     \<and> (password_mode_of (au_password st0) \<noteq> Custom_password \<or> list_ex is_setup es
        \<or> au_password (fst (auth_run env es st0)) = au_password st0)"
proof -
  have step: "\<exists>ev. auth_step env e (fst s) = (fst (auth_next env e s), ev)" for e s
    by (simp add: auth_next_def split: prod.split)
  have mode: "password_mode_of (au_password (fst s)) \<noteq> Default_password \<Longrightarrow> \<forall>e\<in>set es. sane_env env e \<Longrightarrow> \<not> list_ex is_torn es
      \<Longrightarrow> password_mode_of (au_password (fst (fold (auth_next env) es s))) \<noteq> Default_password" for s
  proof (induction es arbitrary: s)
    case (Cons e es)
    obtain ev where "auth_step env e (fst s) = (fst (auth_next env e s), ev)" using step by blast
    from step_password(1) [OF this] Cons show ?case by simp
  qed simp
  have kept: "password_mode_of (au_password (fst s)) = Custom_password \<Longrightarrow> \<not> list_ex is_setup es \<Longrightarrow> \<not> list_ex is_torn es
      \<Longrightarrow> au_password (fst (fold (auth_next env) es s)) = au_password (fst s)" for s
  proof (induction es arbitrary: s)
    case (Cons e es)
    obtain ev where "auth_step env e (fst s) = (fst (auth_next env e s), ev)" using step by blast
    from step_password(2) [OF this] Cons show ?case by simp
  qed simp
  have "password_mode_of (au_password st0) \<noteq> Default_password" using assms(1) by (simp add: password_mode_of_def)
  from mode [of "(st0, [])", simplified, OF this assms(2,3)]
  have "configured (au_password (fst (auth_run env es st0)))"
    by (auto simp: auth_run_def password_mode_of_def split: if_splits)
  then show ?thesis using kept [of "(st0, [])"] assms(3) by (auto simp: default_password_accepted_def auth_run_def)
qed

section \<open>The new password signs in\<close>

lemma hex_blank_code: "hex_blank c \<Longrightarrow> (of_char c :: nat) \<le> 32"
  by (auto simp: hex_blank_def)

lemma hex_nibble_value:
  assumes "n < 16"
  shows "hex_value (hex_nibble n) = Some n" "\<not> hex_blank (hex_nibble n)"
proof -
  have code: "(of_char (hex_nibble n) :: nat) = (if n < 10 then 48 + n else 87 + n)"
    using assms by (simp add: hex_nibble_def)
  then show "hex_value (hex_nibble n) = Some n" using assms by (simp add: Let_def)
  show "\<not> hex_blank (hex_nibble n)" using hex_blank_code [of "hex_nibble n"] code by (auto split: if_splits)
qed

lemma from_to_hex [simp]: "from_hex (to_hex s) = Some s"
proof (induction s)
  case Nil
  then show ?case by (simp add: to_hex_def)
next
  case (Cons c s)
  have "(of_char c :: nat) < 256" by simp
  then have n: "(of_char c :: nat) div 16 < 16" "(of_char c :: nat) mod 16 < 16"
    using less_mult_imp_div_less [of "of_char c" 16 16] by simp_all
  have "to_hex (c # s) = hex_nibble (of_char c div 16) # hex_nibble (of_char c mod 16) # to_hex s"
    by (simp add: to_hex_def Let_def)
  then show ?case using Cons hex_nibble_value [OF n(1)] hex_nibble_value [OF n(2)] by (simp del: hex_value.simps)
qed

text \<open>What is stored is what is checked: after the owner set a password, a sign-in from this Mac or the
  tailnet that is not throttled succeeds with a password exactly when it has the same digest under the
  stored salt - the hexadecimal texts of the file read back as the bytes that were written - and the
  answer is a session.\<close>

theorem new_password_signs_in:
  assumes "set_owner_password env salt password st = Some st1" and "salt \<noteq> []" and "ae_kdf env password salt \<noteq> Some []"
    and "is_loopback client \<or> is_tailscale client" and "fst (login_allowed client now st1)"
    and "auth_login env client attempt token now st1 = Some (reply, st2)"
  shows "reply = (if ae_kdf env attempt salt = ae_kdf env password salt then Signed_in token else Wrong_password)"
proof -
  obtain digest where d: "ae_kdf env password salt = Some digest"
    and st1: "au_password st1 = [(''version'', JInt 1), (''salt'', JStr (to_hex salt)), (''digest'', JStr (to_hex digest))]"
    using assms(1) by (auto simp: set_owner_password_def clear_browser_sessions_def split: if_splits option.splits)
  have pw: "au_password (snd (login_allowed client now st1)) = au_password st1"
    by (simp add: login_allowed_def Let_def)
  have "password_accepted env attempt (snd (login_allowed client now st1)) = Some (ae_kdf env attempt salt = Some digest)"
    using assms(2,3) d
    by (simp add: password_accepted_def pw st1 configured_def filled_text_def jget_def verify_owner_password_def)
  then show ?thesis
    using assms(4-6) d by (auto simp: auth_login_def split: prod.splits if_splits)
qed


section \<open>A concrete Hub\<close>

definition lab_env :: auth_env where
  \<comment> \<open>tokens are their own hash; the digest of a password is the password after its salt\<close>
  "lab_env = \<lparr>ae_hash = (\<lambda>s. s), ae_kdf = (\<lambda>p s. Some (s @ p)), ae_source = (\<lambda>s. Some s), ae_token = ''hub'', ae_fleet = ''fleet''\<rparr>"

definition new_hub :: auth_state where
  "new_hub = \<lparr>au_password = [], au_sessions = JList [], au_failures = []\<rparr>"

definition lab_ops :: "auth_op list" where
  "lab_ops = [Setup (Some ''127.0.0.1'') None ''salt'' ''open sesame'' 10,
     Login (Some ''100.64.1.2'') ''123456'' ''t0'' 11, Login (Some ''100.64.1.2'') ''open sesame'' ''t1'' 12,
     Login (Some ''100.64.1.3'') ''a'' ''t2'' 13, Login (Some ''100.64.1.3'') ''b'' ''t2'' 14,
     Login (Some ''100.64.1.3'') ''c'' ''t2'' 15, Login (Some ''100.64.1.3'') ''d'' ''t2'' 16,
     Login (Some ''100.64.1.3'') ''e'' ''t2'' 17]"

definition lab_request :: web_request where
  "lab_request = \<lparr>wr_path = ''/api/broker/batches'', wr_method = ''GET'', wr_client = Some ''100.64.1.2'', wr_origin = None,
     wr_host = ''hub'', wr_session = Some ''t1'', wr_authorization = None, wr_header = None, wr_cookie = None,
     wr_cookies = True, wr_query = False, wr_forwarded = False\<rparr>"

lemma lab_admitted: "map_option fst (admit lab_env lab_request 20 (fst (auth_run lab_env lab_ops new_hub))) = Some Admit"
  by code_simp

lemma lab_blocked:
  "map_option fst (auth_login lab_env (Some ''100.64.1.3'') ''open sesame'' ''t3'' 18 (fst (auth_run lab_env lab_ops new_hub)))
     = Some Too_many"
  by code_simp

theorem remote_access_needs_login_witness:
  "\<exists>t\<in>set (logins_of ''t1'' (snd (auth_run lab_env lab_ops new_hub))). 20 < t + 90 * 24 * 60 * 60"
proof -
  obtain st1 where "admit lab_env lab_request 20 (fst (auth_run lab_env lab_ops new_hub)) = Some (Admit, st1)"
    using lab_admitted by auto
  moreover have "inj (ae_hash lab_env)" "au_sessions new_hub = JList []" "str_or_empty (wr_session lab_request) = ''t1''"
    by (simp_all add: lab_env_def new_hub_def lab_request_def str_or_empty_def inj_def)
  moreover have "\<not> strict_fleet_service_path (wr_path lab_request) \<and> wr_path lab_request \<notin> set public_paths
      \<and> \<not> is_loopback (wr_client lab_request)"
    by code_simp
  ultimately show ?thesis
    using remote_access_needs_login [of lab_env new_hub lab_ops _ _ lab_request 20] by (metis prod.collapse)
qed

theorem throttle_counts_failures_witness:
  "5 \<le> failures_of (throttle_key (Some ''100.64.1.3'')) 18 (snd (auth_run lab_env lab_ops new_hub))"
proof -
  obtain st1 where login: "auth_login lab_env (Some ''100.64.1.3'') ''open sesame'' ''t3'' 18 (fst (auth_run lab_env lab_ops new_hub))
      = Some (Too_many, st1)"
    using lab_blocked by auto
  have ops: "au_failures new_hub = []" "sorted (map op_time lab_ops)" "\<forall>e\<in>set lab_ops. op_time e \<le> 18"
    by (simp_all add: new_hub_def lab_ops_def)
  have "is_tailscale (Some ''100.64.1.3'')" by code_simp
  then show ?thesis
    using throttle_counts_failures [OF ops prod.collapse [symmetric] login] by simp
qed

definition lab_verifier :: json where
  "lab_verifier = JObj [(''version'', JInt 1), (''salt'', JStr (replicate 16 CHR ''a'')), (''digest'', JStr (replicate 32 CHR ''b''))]"

definition lab_pushes :: "auth_op list" where
  "lab_pushes = [Inherit lab_verifier 30, Failed_join lab_verifier True 31]"

theorem owner_password_stays_witness:
  "default_password_accepted (au_password (fst (auth_run lab_env lab_pushes (fst (auth_run lab_env lab_ops new_hub))))) ''123456'' = Some False
   \<and> au_password (fst (auth_run lab_env lab_pushes (fst (auth_run lab_env lab_ops new_hub)))) = au_password (fst (auth_run lab_env lab_ops new_hub))"
proof -
  have c: "configured (au_password (fst (auth_run lab_env lab_ops new_hub)))"
    and m: "password_mode_of (au_password (fst (auth_run lab_env lab_ops new_hub))) = Custom_password" by code_simp+
  have ops: "\<forall>e\<in>set lab_pushes. sane_env lab_env e" "\<not> list_ex is_torn lab_pushes" "\<not> list_ex is_setup lab_pushes"
    by (simp_all add: lab_pushes_def sane_env_def is_torn_def is_setup_def)
  from owner_password_stays [OF c ops(1,2), of "''123456''"] m ops(3) show ?thesis by blast
qed

text \<open>On a Hub whose password was never changed, a join that fails takes the inherited password away again;
  and a write that is cut off brings the default back to a Hub whose owner had chosen one.\<close>

lemma failed_join_restores_default:
  "default_password_accepted (au_password (fst (auth_run lab_env [Failed_join lab_verifier True 5] new_hub))) ''123456'' = Some True"
  by code_simp

lemma torn_write_restores_default:
  "default_password_accepted (au_password (fst (auth_run lab_env (lab_ops @ [Torn_write 30]) new_hub))) ''123456'' = Some True"
  by code_simp

lemma lab_set: "set_owner_password lab_env ''salt'' ''pw'' new_hub \<noteq> None
   \<and> fst (login_allowed None 5 (the (set_owner_password lab_env ''salt'' ''pw'' new_hub)))
   \<and> is_tailscale (Some ''100.100.1.1'')
   \<and> fst (login_allowed (Some ''100.100.1.1'') 5 (the (set_owner_password lab_env ''salt'' ''pw'' new_hub)))
   \<and> auth_login lab_env (Some ''100.100.1.1'') ''pw'' ''t'' 5 (the (set_owner_password lab_env ''salt'' ''pw'' new_hub)) \<noteq> None"
  by code_simp

theorem new_password_signs_in_witness:
  "map_option fst (auth_login lab_env (Some ''100.100.1.1'') ''pw'' ''t'' 5 (the (set_owner_password lab_env ''salt'' ''pw'' new_hub)))
     = Some (Signed_in ''t'')"
proof -
  obtain st1 where st1: "set_owner_password lab_env ''salt'' ''pw'' new_hub = Some st1" using lab_set by auto
  obtain reply st2 where login: "auth_login lab_env (Some ''100.100.1.1'') ''pw'' ''t'' 5 st1 = Some (reply, st2)"
    using lab_set st1 by auto
  have "reply = Signed_in ''t''"
    using new_password_signs_in [OF st1 _ _ _ _ login] lab_set st1 by (simp add: lab_env_def)
  then show ?thesis using st1 login by simp
qed

end
