(* ===== verification/Chat_Packs.thy ===== *)
theory Chat_Packs
  imports Broker_Queue Cloud_Guard
begin

text \<open>
  The data of \<open>app/backend/chat_jobs.py\<close> and its functions without state: the validators of a submitted
  batch, the packs, the reading of a worker's answer and the summary.  \<open>HTTPException\<close> is a constructor of
  \<open>chat_error\<close>; \<open>Chat_raises\<close> stands for an exception of another class.  Python's JSON decoder is a
  parameter (\<open>hc_loads\<close>, and \<open>hc_raw\<close> for \<open>raw_decode\<close>, which reads a value from the front of a text), and
  so is the catalog cache of the cloud guard.  An exception that ends an attempt is kept as its text and
  whether it is transient; the texts of exceptions that Python raises itself are abbreviated.
\<close>

section \<open>Data\<close>

datatype pack_state = P_queued | P_running | P_done | P_partial | P_error | P_cancelled

definition terminal_pack :: "pack_state \<Rightarrow> bool" where
  "terminal_pack s \<longleftrightarrow> s \<in> {P_done, P_partial, P_error, P_cancelled}"

record scene_pack =
  pk_index :: nat
  pk_id :: string
  pk_scenes :: "string list"
  pk_messages :: "(string \<times> string) list"
  pk_params :: jdict
  pk_state :: pack_state
  pk_tries :: nat
  pk_studio :: "string option"
  pk_duration :: "fnum option"
  pk_error :: "string option"
  pk_results :: "(string, string) dict"
  pk_usage :: "(int \<times> int \<times> int) option"
  pk_revision :: "string option"
  pk_raw :: "string list"
  pk_started :: "time option"
  pk_finished :: "time option"
  pk_retry_at :: "time option"

record chat_batch =
  cb_id :: string
  cb_key :: string
  cb_created :: time
  cb_updated :: time
  cb_finished :: "time option"
  cb_dispatched :: time
  cb_cancelled :: bool
  cb_lease_expired :: bool
  cb_model :: string
  cb_kind :: string
  cb_label :: "string option"
  cb_project :: "string option"
  cb_episode :: "string option"
  cb_packs :: "scene_pack list"
  cb_execution :: "execution option"
  cb_note :: "string option"

definition max_packs :: nat where
  "max_packs = 500"

definition max_scenes_per_pack :: nat where
  "max_scenes_per_pack = 10"

definition max_scenes_in_batch :: int where
  "max_scenes_in_batch = 5000"

definition max_message_chars :: int where
  "max_message_chars = 500000"

definition max_pack_tries :: nat where
  "max_pack_tries = 3"

definition transient_retry_delays :: "time list" where
  "transient_retry_delays = [5, 15]"

datatype chat_error =
    Body_not_object | Wrong_operation | Chat_cloud string | Chat_identity identity_error
  | Bad_packs | Bad_field string | Bad_chat_model | Bad_kind | Pack_not_object | Bad_scenes | Completion_scenes
  | Repeated_scene string | Scene_twice string | Too_many_scenes
  | Bad_messages | Bad_role | Blank_content | Messages_too_large
  | Bad_params | Unsupported_params "string list" | Chat_raises

record run_error =
  re_text :: string
  re_transient :: bool

datatype decoded = Decoded json | Not_json | Decode_raises run_error

record chat_host =
  hc_exec :: exec_host
  hc_text :: text_host
  hc_loads :: "string \<Rightarrow> decoded"
  hc_raw :: "string \<Rightarrow> decoded"
  hc_cached :: "string \<Rightarrow> string option \<Rightarrow> json list option"

section \<open>Validators\<close>

definition identifier_text :: "string \<Rightarrow> bool" where
  "identifier_text s = (case s of [] \<Rightarrow> False
     | c # cs \<Rightarrow> is_alnum c \<and> list_all (\<lambda>d. is_alnum d \<or> d \<in> set ''._ :+-'') cs)"

definition chat_identifier :: "(json \<Rightarrow> string) \<Rightarrow> string \<Rightarrow> json \<Rightarrow> chat_error + string" where
  "chat_identifier rp field v =
     (let clean = py_strip (text_or_empty rp v)
      in if clean = [] \<or> 160 < length clean \<or> clean \<in> set [''.'', ''..'']
            \<or> CHR ''/'' \<in> set clean \<or> CHR 0x5C \<in> set clean \<or> \<not> identifier_text clean
         then Inl (Bad_field field) else Inr clean)"

definition model_text :: "string \<Rightarrow> bool" where
  "model_text s = (case s of [] \<Rightarrow> False
     | c # cs \<Rightarrow> is_alnum c \<and> list_all (\<lambda>d. is_alnum d \<or> d \<in> set ''._:/-'') cs)"

definition chat_model :: "(json \<Rightarrow> string) \<Rightarrow> json \<Rightarrow> chat_error + string" where
  "chat_model rp v =
     (let clean = py_strip (text_or_empty rp v)
      in if clean = [] \<or> 240 < length clean \<or> prefix ''/'' clean \<or> CHR 0x5C \<in> set clean
            \<or> ''..'' \<in> set (split_on (CHR ''/'') clean) \<or> \<not> model_text clean
         then Inl Bad_chat_model else Inr clean)"

definition chat_roles :: "string list" where
  "chat_roles = [''system'', ''user'', ''assistant'']"

fun read_messages :: "json list \<Rightarrow> chat_error + (string \<times> string) list" where
  "read_messages [] = Inr []"
| "read_messages (v # vs) = (case as_dict v of
       None \<Rightarrow> Inl Bad_role
     | Some m \<Rightarrow>
         if \<not> hashable (jget m ''role'') then Inl Chat_raises
         else if jget m ''role'' \<notin> set (map JStr chat_roles) then Inl Bad_role
         else (case as_str (jget m ''content'') of
             None \<Rightarrow> Inl Blank_content
           | Some text \<Rightarrow>
               if py_strip text = [] then Inl Blank_content
               else bind_err (read_messages vs) (\<lambda>rest. Inr ((str_or_empty (as_str (jget m ''role'')), text) # rest))))"

definition chat_messages :: "json \<Rightarrow> chat_error + (string \<times> string) list" where
  "chat_messages v = (case v of
       JList vs \<Rightarrow>
         if vs = [] \<or> 20 < length vs then Inl Bad_messages
         else bind_err (read_messages vs) (\<lambda>ms.
                if max_message_chars < int (sum_list (map (length \<circ> snd) ms)) then Inl Messages_too_large else Inr ms)
     | _ \<Rightarrow> Inl Bad_messages)"

definition allowed_params :: "string list" where
  "allowed_params = [''temperature'', ''top_p'', ''max_tokens'', ''max_completion_tokens'', ''seed'',
     ''stop'', ''frequency_penalty'', ''presence_penalty'', ''response_format'']"

definition chat_params :: "json \<Rightarrow> chat_error + jdict" where
  "chat_params v = (case v of
       JNull \<Rightarrow> Inr []
     | JObj d \<Rightarrow>
         (let unknown = filter (\<lambda>k. k \<notin> set allowed_params) (map fst d)
          in if unknown \<noteq> [] then Inl (Unsupported_params (sort unknown)) else Inr d)
     | _ \<Rightarrow> Inl Bad_params)"

fun read_scenes :: "(json \<Rightarrow> string) \<Rightarrow> json list \<Rightarrow> chat_error + string list" where
  "read_scenes rp [] = Inr []"
| "read_scenes rp (v # vs) = bind_err (chat_identifier rp ''scene_id'' v) (\<lambda>s.
     bind_err (read_scenes rp vs) (\<lambda>rest. Inr (s # rest)))"

definition fresh_pack :: "nat \<Rightarrow> string \<Rightarrow> string list \<Rightarrow> (string \<times> string) list \<Rightarrow> jdict \<Rightarrow> scene_pack" where
  "fresh_pack index pid scenes ms params =
     \<lparr>pk_index = index, pk_id = pid, pk_scenes = scenes, pk_messages = ms, pk_params = params,
      pk_state = P_queued, pk_tries = 0, pk_studio = None, pk_duration = None, pk_error = None,
      pk_results = [], pk_usage = None, pk_revision = None, pk_raw = [], pk_started = None,
      pk_finished = None, pk_retry_at = None\<rparr>"

definition read_pack ::
  "(json \<Rightarrow> string) \<Rightarrow> string \<Rightarrow> nat \<Rightarrow> string list \<Rightarrow> json \<Rightarrow> chat_error + scene_pack" where
  \<comment> \<open>\<open>seen\<close>: the scenes of the packs before\<close>
  "read_pack rp kind index seen v = (case as_dict v of
       None \<Rightarrow> Inl Pack_not_object
     | Some raw \<Rightarrow>
         bind_err (chat_identifier rp ''pack_id''
           (if truthy (jget raw ''pack_id'') then jget raw ''pack_id'' else JStr (''pack-'' @ nat_text (index + 1)))) (\<lambda>pid.
         case jget raw ''scene_ids'' of
           JList vs \<Rightarrow>
             if vs = [] \<or> max_scenes_per_pack < length vs then Inl Bad_scenes
             else bind_err (read_scenes rp vs) (\<lambda>scenes.
               if kind = ''completion'' \<and> length scenes \<noteq> 1 then Inl Completion_scenes
               else if \<not> distinct scenes then Inl (Repeated_scene pid)
               else (case sort (filter (\<lambda>s. s \<in> set seen) scenes) of
                   s # _ \<Rightarrow> Inl (Scene_twice s)
                 | [] \<Rightarrow>
                     bind_err (chat_messages (jget raw ''messages'')) (\<lambda>ms.
                     bind_err (chat_params (jget raw ''params'')) (\<lambda>params.
                     Inr (fresh_pack index pid scenes ms params)))))
         | _ \<Rightarrow> Inl Bad_scenes))"

fun read_packs :: "(json \<Rightarrow> string) \<Rightarrow> string \<Rightarrow> nat \<Rightarrow> string list \<Rightarrow> json list \<Rightarrow> chat_error + scene_pack list" where
  "read_packs rp kind index seen [] = Inr []"
| "read_packs rp kind index seen (v # vs) =
     bind_err (read_pack rp kind index seen v) (\<lambda>p.
     bind_err (read_packs rp kind (Suc index) (seen @ pk_scenes p) vs) (\<lambda>rest. Inr (p # rest)))"

definition optional_name :: "(json \<Rightarrow> string) \<Rightarrow> string \<Rightarrow> jdict \<Rightarrow> chat_error + string option" where
  "optional_name rp field payload =
     (if truthy (jget payload field) then bind_err (chat_identifier rp field (jget payload field)) (\<lambda>s. Inr (Some s))
      else Inr None)"

record chat_order =
  co_model :: string
  co_kind :: string
  co_label :: "string option"
  co_project :: "string option"
  co_episode :: "string option"
  co_packs :: "scene_pack list"

definition chat_kinds :: "string list" where
  "chat_kinds = [''visual'', ''motion'', ''completion'']"

definition kind_of :: "(json \<Rightarrow> string) \<Rightarrow> jdict \<Rightarrow> string" where
  "kind_of rp payload = py_lower (py_strip
     (if truthy (jget payload ''kind'') then py_str rp (jget payload ''kind'') else ''visual''))"

definition read_order :: "(json \<Rightarrow> string) \<Rightarrow> jdict \<Rightarrow> chat_error + chat_order" where
  "read_order rp payload = (case jget payload ''packs'' of
       JList raw \<Rightarrow>
         if raw = [] \<or> max_packs < length raw then Inl Bad_packs
         else bind_err (chat_model rp (jget payload ''model'')) (\<lambda>model.
           bind_err (require (kind_of rp payload \<in> set chat_kinds) Bad_kind) (\<lambda>_.
           bind_err (optional_name rp ''label'' payload) (\<lambda>label.
           bind_err (optional_name rp ''project'' payload) (\<lambda>project.
           bind_err (optional_name rp ''episode'' payload) (\<lambda>episode.
           bind_err (read_packs rp (kind_of rp payload) 0 [] raw) (\<lambda>packs.
           bind_err (require (int (length (concat (map pk_scenes packs))) \<le> max_scenes_in_batch) Too_many_scenes) (\<lambda>_.
           Inr \<lparr>co_model = model, co_kind = kind_of rp payload, co_label = label, co_project = project,
                co_episode = episode, co_packs = packs\<rparr>)))))))
     | _ \<Rightarrow> Inl Bad_packs)"

definition message_json :: "string \<times> string \<Rightarrow> json" where
  "message_json m = JObj [(''role'', JStr (fst m)), (''content'', JStr (snd m))]"

definition canonical_order :: "chat_order \<Rightarrow> json" where
  "canonical_order ord = JObj [(''model'', JStr (co_model ord)), (''kind'', JStr (co_kind ord)),
     (''label'', jstr_opt (co_label ord)), (''project'', jstr_opt (co_project ord)),
     (''episode'', jstr_opt (co_episode ord)),
     (''packs'', JList (map (\<lambda>p. JObj [(''pack_id'', JStr (pk_id p)),
        (''scene_ids'', JList (map JStr (pk_scenes p))), (''messages'', JList (map message_json (pk_messages p))),
        (''params'', JObj (pk_params p))]) (co_packs ord)))]"

definition order_key :: "exec_host \<Rightarrow> chat_order \<Rightarrow> string" where
  \<comment> \<open>\<open>_idempotency\<close>; texts are printable ASCII, which \<open>ensure_ascii\<close> leaves alone\<close>
  "order_key h ord = eh_sha256 h (json_text (eh_float h) (canonical_order ord))"

section \<open>Reading a worker's answer\<close>

definition strip_fence :: "string \<Rightarrow> string" where
  "strip_fence content =
     (let clean = py_strip content;
          opened = (if prefix ''```'' clean
                    then dropWhile py_space (if py_lower (take 4 (drop 3 clean)) = ''json'' then drop 7 clean else drop 3 clean)
                    else clean);
          closed = (if suffix ''```'' opened
                    then rev (dropWhile py_space (drop 3 (rev opened))) else opened)
      in py_strip closed)"

fun brace_tails :: "string \<Rightarrow> string list" where
  \<comment> \<open>the text from each opening brace on\<close>
  "brace_tails [] = []"
| "brace_tails (c # s) = (if c = CHR ''{'' then (c # s) # brace_tails s else brace_tails s)"

fun recovered_rows :: "(string \<Rightarrow> decoded) \<Rightarrow> string list \<Rightarrow> run_error + json list" where
  "recovered_rows raw [] = Inr []"
| "recovered_rows raw (s # ss) = (case raw s of
       Not_json \<Rightarrow> recovered_rows raw ss
     | Decode_raises e \<Rightarrow> Inl e
     | Decoded v \<Rightarrow> (case as_dict v of
         None \<Rightarrow> recovered_rows raw ss
       | Some row \<Rightarrow>
           if truthy (jget row ''scene_id'') \<or> truthy (jget row ''id'')
           then bind_err (recovered_rows raw ss) (\<lambda>rest. Inr (v # rest))
           else recovered_rows raw ss))"

definition filled :: "json \<Rightarrow> string option" where
  \<comment> \<open>a text that is not blank, stripped\<close>
  "filled v = (case as_str v of None \<Rightarrow> None | Some s \<Rightarrow> if py_strip s = [] then None else Some (py_strip s))"

fun scenes_of_dict :: "string list \<Rightarrow> (string, string) dict \<Rightarrow> jdict \<Rightarrow> (string, string) dict" where
  "scenes_of_dict allowed out [] = out"
| "scenes_of_dict allowed out ((k, v) # rest) = (case filled v of
       Some text \<Rightarrow> scenes_of_dict allowed (if k \<in> set allowed then dset k text out else out) rest
     | None \<Rightarrow> scenes_of_dict allowed out rest)"

definition text_keys :: "string \<Rightarrow> string list" where
  "text_keys kind = (if kind = ''motion'' then [''motion_prompt'', ''prompt'', ''text'']
                     else [''visual_prompt'', ''prompt'', ''text''])"

definition python_error :: "string \<Rightarrow> run_error" where
  \<comment> \<open>a TypeError, AttributeError, KeyError or IndexError\<close>
  "python_error text = \<lparr>re_text = text, re_transient = False\<rparr>"

definition value_error :: "string \<Rightarrow> run_error" where
  "value_error text = \<lparr>re_text = text, re_transient = True\<rparr>"

fun scenes_of_rows ::
  "string \<Rightarrow> string list \<Rightarrow> (string, string) dict \<Rightarrow> json list \<Rightarrow> run_error + (string, string) dict" where
  "scenes_of_rows kind allowed out [] = Inr out"
| "scenes_of_rows kind allowed out (v # vs) = (case as_dict v of
       None \<Rightarrow> scenes_of_rows kind allowed out vs
     | Some row \<Rightarrow>
         (let scene = (if truthy (jget row ''scene_id'') then jget row ''scene_id'' else jget row ''id'');
              text = List.find (\<lambda>k. as_str (jget row k) \<noteq> None) (text_keys kind)
          in if \<not> hashable scene then Inl (python_error ''unhashable type'')
             else (case (as_str scene, Option.bind text (\<lambda>k. filled (jget row k))) of
                 (Some s, Some t) \<Rightarrow> scenes_of_rows kind allowed (if s \<in> set allowed then dset s t out else out) vs
               | _ \<Rightarrow> scenes_of_rows kind allowed out vs)))"

definition candidate :: "json \<Rightarrow> json" where
  "candidate data = (case as_dict data of
       None \<Rightarrow> data
     | Some d \<Rightarrow> (case dget d ''results'' of Some v \<Rightarrow> v
         | None \<Rightarrow> (case dget d ''prompts'' of Some v \<Rightarrow> v | None \<Rightarrow> data)))"

definition single_text :: "string \<Rightarrow> string list \<Rightarrow> (string, string) dict option" where
  \<comment> \<open>the whole text is the result of the only scene\<close>
  "single_text content expected = (case expected of
       [s] \<Rightarrow> if py_strip content = [] then None else Some [(s, py_strip content)]
     | _ \<Rightarrow> None)"

definition collect_scenes :: "string \<Rightarrow> string list \<Rightarrow> json \<Rightarrow> run_error + (string, string) dict" where
  "collect_scenes kind expected data = (case candidate data of
       JObj d \<Rightarrow> Inr (scenes_of_dict expected [] d)
     | JList rows \<Rightarrow> scenes_of_rows kind expected [] rows
     | _ \<Rightarrow> Inr [])"

definition parse_scene_results ::
  "chat_host \<Rightarrow> string \<Rightarrow> string list \<Rightarrow> string \<Rightarrow> run_error + (string, string) dict" where
  "parse_scene_results h content expected kind =
     (if kind = ''completion'' then Inr (case single_text content expected of None \<Rightarrow> [] | Some out \<Rightarrow> out)
      else (case hc_loads h (strip_fence content) of
          Decode_raises e \<Rightarrow> Inl e
        | Decoded data \<Rightarrow> collect_scenes kind expected data
        | Not_json \<Rightarrow> (case single_text content expected of
            Some out \<Rightarrow> Inr out
          | None \<Rightarrow> bind_err (recovered_rows (hc_raw h) (brace_tails content)) (\<lambda>rows.
              if rows = [] then Inr [] else collect_scenes kind expected (JList rows)))))"

text \<open>The parts of a completion that \<open>_run_pack\<close> reads.\<close>

definition usage_count :: "jdict \<Rightarrow> string \<Rightarrow> int option" where
  "usage_count d field = (case jget d field of JInt i \<Rightarrow> if 0 \<le> i then Some i else None | _ \<Rightarrow> None)"

definition evidence_error :: "string \<Rightarrow> run_error" where
  "evidence_error text = \<lparr>re_text = text, re_transient = False\<rparr>"

definition checked_usage :: "bool \<Rightarrow> json \<Rightarrow> run_error + (int \<times> int \<times> int) option" where
  \<comment> \<open>\<open>assigned\<close>: the batch is an assignment of GenStudio\<close>
  "checked_usage assigned v =
     (if v = JNull then (if assigned then Inl (evidence_error ''Chat Studio did not return verified token usage evidence'')
                         else Inr None)
      else (case as_dict v of
          None \<Rightarrow> Inl (evidence_error ''Chat Studio returned invalid token usage evidence'')
        | Some d \<Rightarrow> (case (usage_count d ''prompt_tokens'', usage_count d ''completion_tokens'', usage_count d ''total_tokens'') of
            (Some p, Some c, Some t) \<Rightarrow>
              if t < p + c then Inl (evidence_error ''Chat Studio returned inconsistent token usage evidence'')
              else Inr (Some (p, c, t))
          | _ \<Rightarrow> Inl (evidence_error ''Chat Studio returned invalid token usage evidence''))))"

definition folded_text :: "(json \<Rightarrow> string) \<Rightarrow> json \<Rightarrow> string option" where
  \<comment> \<open>\<open>str(value or "").strip().lower() or None\<close>\<close>
  "folded_text rp v = (let s = folded rp v in if s = [] then None else Some s)"

definition expected_revision :: "execution option \<Rightarrow> string option" where
  "expected_revision e = (case Option.bind e ex_model_revision of
       None \<Rightarrow> None
     | Some r \<Rightarrow> (let s = py_lower (py_strip r) in if s = [] then None else Some s))"

definition completion_text :: "(json \<Rightarrow> string) \<Rightarrow> jdict \<Rightarrow> string option" where
  \<comment> \<open>\<open>str(payload.get("choices", [{}])[0].get("message", {}).get("content") or "")\<close>; \<open>None\<close>: it raises\<close>
  "completion_text rp payload =
     (case (case dget payload ''choices'' of None \<Rightarrow> JList [JObj []] | Some v \<Rightarrow> v) of
        JList (JObj first # _) \<Rightarrow>
          (case dget first ''message'' of
             None \<Rightarrow> Some []
           | Some (JObj m) \<Rightarrow> Some (text_or_empty rp (jget m ''content''))
           | Some _ \<Rightarrow> None)
      | _ \<Rightarrow> None)"

fun fround :: "nat \<Rightarrow> fnum \<Rightarrow> fnum" where
  "fround n (Fin r) = Fin (py_round n r)"
| "fround n x = x"

definition elapsed_of :: "text_host \<Rightarrow> time \<Rightarrow> json \<Rightarrow> run_error + fnum" where
  "elapsed_of h since_start v =
     (if \<not> truthy v then Inr (Fin (py_round 2 since_start))
      else (case py_float (th_float h) v of
          Some x \<Rightarrow> Inr (fround 2 x)
        | None \<Rightarrow> Inl (if as_str v \<noteq> None then value_error ''could not convert string to float''
                       else python_error ''float() argument'')))"

section \<open>Summary\<close>

definition terminal_batch :: "chat_batch \<Rightarrow> bool" where
  "terminal_batch b = list_all (\<lambda>p. terminal_pack (pk_state p)) (cb_packs b)"

definition packs_in :: "pack_state \<Rightarrow> chat_batch \<Rightarrow> nat" where
  "packs_in s b = length (filter (\<lambda>p. pk_state p = s) (cb_packs b))"

definition chat_status :: "chat_batch \<Rightarrow> string" where
  "chat_status b =
     (let n = (\<lambda>s. packs_in s b \<noteq> 0)
      in if n P_queued \<or> n P_running then (if n P_running then ''running'' else ''queued'')
         else if n P_error \<or> n P_partial then (if n P_done \<or> n P_partial then ''partial'' else ''error'')
         else if n P_cancelled then (if n P_done then ''partial'' else ''cancelled'')
         else ''done'')"

definition missing_scenes :: "scene_pack \<Rightarrow> string list" where
  "missing_scenes p = filter (\<lambda>s. dget (pk_results p) s = None) (pk_scenes p)"

record chat_summary =
  cs_status :: string
  cs_counts :: "(pack_state \<times> nat) list"
  cs_packs :: nat
  cs_scenes :: nat
  cs_completed :: nat
  cs_usage :: "(int \<times> int \<times> int) option"
  cs_revision :: "string option"
  cs_missing :: "string list list"
  cs_results :: "(string \<times> string) list list"

definition summed_usage :: "scene_pack list \<Rightarrow> (int \<times> int \<times> int) option" where
  "summed_usage packs = (let us = List.map_filter pk_usage packs
     in if us = [] then None
        else Some (sum_list (map fst us), sum_list (map (fst \<circ> snd) us), sum_list (map (snd \<circ> snd) us)))"

definition common_revision :: "scene_pack list \<Rightarrow> string option" where
  "common_revision packs = (case remdups (filter (\<lambda>r. r \<noteq> []) (List.map_filter pk_revision packs)) of
       [r] \<Rightarrow> Some r | _ \<Rightarrow> None)"

definition chat_summary_of :: "chat_batch \<Rightarrow> chat_summary" where
  \<comment> \<open>the fields that are only copied are left out\<close>
  "chat_summary_of b =
     \<lparr>cs_status = chat_status b,
      cs_counts = map (\<lambda>s. (s, packs_in s b)) [P_queued, P_running, P_done, P_partial, P_error, P_cancelled],
      cs_packs = length (cb_packs b), cs_scenes = sum_list (map (length \<circ> pk_scenes) (cb_packs b)),
      cs_completed = sum_list (map (length \<circ> pk_results) (cb_packs b)),
      cs_usage = summed_usage (cb_packs b), cs_revision = common_revision (cb_packs b),
      cs_missing = map missing_scenes (cb_packs b),
      cs_results = map (\<lambda>p. List.map_filter (\<lambda>s. map_option (Pair s) (dget (pk_results p) s)) (pk_scenes p)) (cb_packs b)\<rparr>"

end
