(* ===== verification/Chat_Lane.thy ===== *)
theory Chat_Lane
  imports Chat_Packs
begin

text \<open>
  The running Chat lane of \<open>app/backend/chat_jobs.py\<close>.  A batch is an object on a heap: the dictionary
  \<open>batches\<close> and the tasks hold its address, a batch that is read from the table \<open>chat_batches\<close> is a new
  object, and a row is the copy that was saved last (\<open>finished\<close> is computed from it).  Each definition is
  the code between two awaits, so every interleaving of the dispatcher, the coroutines \<open>_run_pack\<close> and the
  handlers is a sequence of them; what the fleet answers is an argument.

  The dispatcher keeps its place in \<open>ch_plan\<close>: the batches of this scan it has still to visit, whether it
  has dispatched in this scan, and what it awaits: the catalog of the first studio of a list
  (\<open>W_match\<close>, with those already found; where the monitor answers from a cache the step follows at once), the work of the other lane (\<open>W_turn\<close>) or the memory check
  (\<open>W_memory\<close>).

  A task is new (the coroutine has not started), asking (the completion was requested) or handing off
  (awaiting the release of idle memory).  \<open>task.cancel()\<close> sets its flag; the CancelledError is then the next
  thing that happens to it.  A task is known (\<open>_pack_tasks\<close>) under the identifier of its batch and the
  number of its pack, which a cancellation looks up.  Leases and turns are those of the broker, which other work changes too.  The
  copy for the control plane, the webhook of a rejected credential and log lines are not modelled.
\<close>

section \<open>State\<close>

datatype chat_stage = C_new | C_asking time "string list" "(string \<times> string) list" | C_handing run_error

record chat_task =
  ct_addr :: nat
  ct_pack :: nat
  ct_studio :: studio
  ct_owner :: string
  ct_generation :: "int option"
  ct_stage :: chat_stage
  ct_cancel :: bool
  ct_known :: bool

datatype chat_work =
    W_match nat nat int "studio list" "studio list"
  | W_turn nat nat "studio list"
  | W_memory nat nat studio "studio list"

record chat_plan =
  cl_rest :: "nat list"
  cl_progress :: bool
  cl_work :: chat_work

record chat_state =
  ch_heap :: "chat_batch list"
  ch_memory :: "(string, nat) dict"
  ch_rows :: "chat_batch list"
  ch_busy :: "string list"
  ch_tasks :: "chat_task list"
  ch_plan :: "chat_plan option"
  ch_stopping :: bool
  ch_leases :: leases
  ch_turns :: turns
  ch_fences :: fence_db

record chat_env =
  ce_host :: chat_host
  ce_registry :: "studio list"

record chat_view =
  vw_fleet :: fleet_view
  vw_ready :: "string \<Rightarrow> int option \<Rightarrow> bool"
  vw_drained :: "string list"
  vw_broker_busy :: "string list"
  vw_broker_batches :: "batch list"

definition chat_at :: "chat_state \<Rightarrow> nat \<Rightarrow> chat_batch option" where
  "chat_at st a = (if a < length (ch_heap st) then Some (ch_heap st ! a) else None)"

definition set_chat :: "nat \<Rightarrow> (chat_batch \<Rightarrow> chat_batch) \<Rightarrow> chat_state \<Rightarrow> chat_state" where
  "set_chat a f st = (case chat_at st a of None \<Rightarrow> st | Some b \<Rightarrow> st\<lparr>ch_heap := (ch_heap st)[a := f b]\<rparr>)"

definition pack_at :: "chat_batch \<Rightarrow> nat \<Rightarrow> scene_pack option" where
  "pack_at b i = (if i < length (cb_packs b) then Some (cb_packs b ! i) else None)"

definition map_pack :: "nat \<Rightarrow> (scene_pack \<Rightarrow> scene_pack) \<Rightarrow> chat_batch \<Rightarrow> chat_batch" where
  "map_pack i f b = (case pack_at b i of None \<Rightarrow> b | Some p \<Rightarrow> b\<lparr>cb_packs := (cb_packs b)[i := f p]\<rparr>)"

definition note_chat :: "nat \<Rightarrow> string option \<Rightarrow> chat_state \<Rightarrow> chat_state" where
  "note_chat a note st = set_chat a (\<lambda>b. b\<lparr>cb_note := note\<rparr>) st"

section \<open>The table\<close>

definition saved_chat :: "time \<Rightarrow> chat_batch \<Rightarrow> chat_batch" where
  "saved_chat now b = b\<lparr>cb_updated := now,
     cb_finished := (if terminal_batch b \<and> cb_finished b \<in> {None, Some 0} then Some now else cb_finished b)\<rparr>"

definition save_chat :: "time \<Rightarrow> nat \<Rightarrow> chat_state \<Rightarrow> chat_state" where
  \<comment> \<open>\<open>INSERT OR REPLACE\<close>: the row gets a new rowid\<close>
  "save_chat now a st = (case chat_at st a of
       None \<Rightarrow> st
     | Some b \<Rightarrow> (set_chat a (saved_chat now) st)
         \<lparr>ch_rows := filter (\<lambda>r. cb_id r \<noteq> cb_id b) (ch_rows st) @ [saved_chat now b]\<rparr>)"

definition load_rows :: "(chat_batch \<Rightarrow> bool) \<Rightarrow> chat_state \<Rightarrow> chat_batch list" where
  \<comment> \<open>newest first\<close>
  "load_rows p st = filter p (rev (sort_key cb_created (ch_rows st)))"

definition new_object :: "chat_batch \<Rightarrow> chat_state \<Rightarrow> nat \<times> chat_state" where
  "new_object b st = (length (ch_heap st), st\<lparr>ch_heap := ch_heap st @ [b]\<rparr>)"

definition get_chat :: "string \<Rightarrow> chat_state \<Rightarrow> (nat \<times> chat_state) option" where
  "get_chat bid st = (case dget (ch_memory st) bid of
       Some a \<Rightarrow> Some (a, st)
     | None \<Rightarrow> (case load_rows (\<lambda>r. cb_id r = bid) st of
         [] \<Rightarrow> None | b # _ \<Rightarrow> Some (new_object b st)))"

definition remember_chat :: "string \<Rightarrow> nat \<Rightarrow> chat_state \<Rightarrow> chat_state" where
  "remember_chat bid a st = st\<lparr>ch_memory := dset bid a (ch_memory st)\<rparr>"

definition remember_default :: "string \<Rightarrow> nat \<Rightarrow> chat_state \<Rightarrow> chat_state" where
  \<comment> \<open>\<open>setdefault\<close>\<close>
  "remember_default bid a st = (if dget (ch_memory st) bid = None then remember_chat bid a st else st)"

section \<open>Lease expiry\<close>

definition chat_lease_over :: "exec_host \<Rightarrow> time \<Rightarrow> chat_batch \<Rightarrow> identity_error + bool" where
  "chat_lease_over h now b = (case cb_execution b of
       None \<Rightarrow> Inr False | Some e \<Rightarrow> lease_expired h now (ex_lease e))"

definition expire_pack :: "time \<Rightarrow> scene_pack \<Rightarrow> scene_pack" where
  "expire_pack now p =
     (if pk_state p \<in> {P_queued, P_running}
      then p\<lparr>pk_state := P_cancelled, pk_error := Some lease_expired_text, pk_finished := Some now, pk_retry_at := None\<rparr>
      else p)"

definition expired_chat :: "time \<Rightarrow> chat_batch \<Rightarrow> chat_batch" where
  "expired_chat now b = b\<lparr>cb_cancelled := True, cb_lease_expired := True, cb_packs := map (expire_pack now) (cb_packs b)\<rparr>"

definition expire_chat :: "chat_env \<Rightarrow> time \<Rightarrow> nat \<Rightarrow> chat_state \<Rightarrow> (chat_state \<times> bool) option" where
  \<comment> \<open>\<open>_expire_genstudio_batch\<close>; \<open>None\<close>: the date arithmetic overflows\<close>
  "expire_chat c now a st = (case chat_at st a of
       None \<Rightarrow> Some (st, False)
     | Some b \<Rightarrow> (case chat_lease_over (hc_exec (ce_host c)) now b of
         Inl _ \<Rightarrow> None
       | Inr over \<Rightarrow> Some (if over then set_chat a (expired_chat now) st else st, over)))"

section \<open>Submission\<close>

definition supplied_operation :: "jdict \<Rightarrow> json" where
  "supplied_operation d = (case dget d ''operation'' of
       Some v \<Rightarrow> v
     | None \<Rightarrow> (case as_dict (jget d ''genstudio_execution'') of None \<Rightarrow> JNull | Some n \<Rightarrow> jget n ''operation''))"

definition chat_door :: "chat_host \<Rightarrow> jdict \<Rightarrow> chat_error option" where
  \<comment> \<open>what is refused before the identity is looked at\<close>
  "chat_door h d =
     (let rp = th_repr (hc_text h); operation = supplied_operation d
      in if operation \<noteq> JNull \<and> py_lower (py_strip (py_str rp operation)) \<noteq> ''chat.completion'' then Some Wrong_operation
         else map_option Chat_cloud (refusal rp (hc_cached h) (jget d ''model'') (JStr ''chat'') (jget d ''model_cost_tier'')))"

definition chat_execution :: "evidence \<Rightarrow> execution" where
  "chat_execution ev = (let i = ev_identity ev in
     \<lparr>ex_job = Some (id_job i), ex_attempt = Some (id_attempt i), ex_token = Some (id_token i),
      ex_model_revision = id_model i, ex_lease = id_lease i\<rparr>)"

definition new_chat :: "string \<Rightarrow> string \<Rightarrow> time \<Rightarrow> chat_order \<Rightarrow> evidence option \<Rightarrow> chat_batch" where
  "new_chat bid key now ord evidence =
     \<lparr>cb_id = bid, cb_key = key, cb_created = now, cb_updated = now, cb_finished = None, cb_dispatched = 0,
      cb_cancelled = False, cb_lease_expired = False, cb_model = co_model ord, cb_kind = co_kind ord,
      cb_label = co_label ord, cb_project = co_project ord, cb_episode = co_episode ord, cb_packs = co_packs ord,
      cb_execution = map_option chat_execution evidence, cb_note = None\<rparr>"

definition identity_refusal :: "identity_error \<Rightarrow> chat_error" where
  "identity_refusal e = (if e \<in> {Binding_none, Token_infinite, Token_too_large, Lease_unrepresentable}
     then Chat_raises else Chat_identity e)"

definition place_order ::
  "chat_env \<Rightarrow> string \<Rightarrow> time \<Rightarrow> prepared \<Rightarrow> chat_state \<Rightarrow> (chat_error + (string \<times> bool)) \<times> chat_state" where
  \<comment> \<open>from the packs of the prepared envelope on; the fence is stored already\<close>
  "place_order c bid now prep st = (case read_order (th_repr (hc_text (ce_host c))) (pr_envelope prep) of
       Inl e \<Rightarrow> (Inl e, st)
     | Inr ord \<Rightarrow>
         (let key = order_key (hc_exec (ce_host c)) ord
          in case load_rows (\<lambda>r. cb_key r = key \<and> \<not> terminal_batch r) st of
               b # _ \<Rightarrow> (let (a, st1) = new_object b st in (Inr (cb_id b, True), remember_default (cb_id b) a st1))
             | [] \<Rightarrow>
                 (let (a, st1) = new_object (new_chat bid key now ord (pr_evidence prep)) st;
                      st2 = save_chat now a (remember_chat bid a st1)
                  in (Inr (bid, False), st2\<lparr>ch_fences := bind_local_batch (pr_evidence prep) bid now (ch_fences st2)\<rparr>))))"

definition create_chat ::
  "chat_env \<Rightarrow> string \<Rightarrow> time \<Rightarrow> json \<Rightarrow> chat_state \<Rightarrow> (chat_error + (string \<times> bool)) \<times> chat_state" where
  \<comment> \<open>the id of the batch and whether it is one that was known; \<open>bid\<close> is the fresh id\<close>
  "create_chat c bid now payload st = (case as_dict payload of
       None \<Rightarrow> (Inl Body_not_object, st)
     | Some d \<Rightarrow> (case chat_door (ce_host c) d of
         Some e \<Rightarrow> (Inl e, st)
       | None \<Rightarrow> (case prepare (hc_exec (ce_host c)) now d (ch_fences st) of
           Inl e \<Rightarrow> (Inl (identity_refusal e), st)
         | Inr (prep, db) \<Rightarrow>
             (let st1 = st\<lparr>ch_fences := db\<rparr>
              in case (if str_or_empty (pr_replay prep) = [] then None else get_chat (str_or_empty (pr_replay prep)) st1) of
                   Some (a, st2) \<Rightarrow> (Inr (str_or_empty (pr_replay prep), True),
                                     remember_default (str_or_empty (pr_replay prep)) a st2)
                 | None \<Rightarrow> place_order c bid now prep st1))))"

section \<open>The dispatcher\<close>

definition due :: "time \<Rightarrow> scene_pack \<Rightarrow> bool" where
  "due now p \<longleftrightarrow> pk_state p = P_queued \<and> (case pk_retry_at p of None \<Rightarrow> True | Some t \<Rightarrow> t = 0 \<or> t \<le> now)"

definition due_packs :: "time \<Rightarrow> chat_batch \<Rightarrow> nat list" where
  "due_packs now b = map fst (filter (\<lambda>(_, p). due now p) (enumerate 0 (cb_packs b)))"

definition retry_times :: "chat_batch \<Rightarrow> time list" where
  "retry_times b = filter (\<lambda>t. t \<noteq> 0) (List.map_filter pk_retry_at (filter (\<lambda>p. pk_state p = P_queued) (cb_packs b)))"

definition retry_note :: "time \<Rightarrow> chat_batch \<Rightarrow> string option" where
  "retry_note now b = (case retry_times b of
       [] \<Rightarrow> None
     | t # ts \<Rightarrow> Some (''Automatic retry in '' @ int_text (max 1 (round_half_even (foldl min t ts - now))) @ ''s''))"

definition output_limit :: "scene_pack \<Rightarrow> int list" where
  "output_limit p =
     (let v = (if truthy (jget (pk_params p) ''max_tokens'') then jget (pk_params p) ''max_tokens''
               else jget (pk_params p) ''max_completion_tokens'')
      in case v of JInt i \<Rightarrow> if 0 < i then [i] else [] | _ \<Rightarrow> [])"

definition required_tokens :: "time \<Rightarrow> chat_batch \<Rightarrow> int" where
  "required_tokens now b = foldl max 0 (concat (map output_limit (filter (due now) (cb_packs b))))"

definition chat_candidate :: "chat_env \<Rightarrow> chat_view \<Rightarrow> chat_state \<Rightarrow> studio \<Rightarrow> bool" where
  \<comment> \<open>the checks before the catalog is awaited\<close>
  "chat_candidate c v st s \<longleftrightarrow> st_modality s = ''chat'' \<and> st_id s \<notin> set (ch_busy st) \<and> st_id s \<notin> set (vw_drained v)
     \<and> fv_up (vw_fleet v) (st_id s) \<and> fv_machine_on (vw_fleet v) (st_machine s)
     \<and> fv_studio_on (vw_fleet v) (st_machine s) (st_id s)
     \<and> st_machine s \<notin> busy_machines (ce_registry c) (vw_broker_busy v) (ch_leases st)
     \<and> vw_ready v (st_id s) None"

definition entry_cached :: "jdict \<Rightarrow> bool" where
  "entry_cached entry = (case jget entry ''cache'' of
       JObj d \<Rightarrow> jget d ''state'' = JStr ''cached'' | v \<Rightarrow> truthy v)"

definition entry_for :: "string \<Rightarrow> jdict list \<Rightarrow> jdict option" where
  \<comment> \<open>aliases that are a list\<close>
  "entry_for model models = List.find (\<lambda>d. jget d ''repo'' = JStr model
     \<or> (case jget d ''aliases'' of JList xs \<Rightarrow> JStr model \<in> set xs | _ \<Rightarrow> False)) models"

definition first_truthy :: "json list \<Rightarrow> json" where
  "first_truthy vs = (case filter truthy vs of [] \<Rightarrow> JNull | v # _ \<Rightarrow> v)"

definition output_room :: "jdict \<Rightarrow> int option" where
  "output_room entry = (case (case dget entry ''max_output_tokens'' of Some v \<Rightarrow> v | None \<Rightarrow> jget entry ''max_tokens'') of
       JInt i \<Rightarrow> Some i | _ \<Rightarrow> None)"

definition entry_fits :: "(json \<Rightarrow> string) \<Rightarrow> execution option \<Rightarrow> int \<Rightarrow> jdict option \<Rightarrow> bool" where
  "entry_fits rp execution required entry = (case entry of
       None \<Rightarrow> False
     | Some d \<Rightarrow> d \<noteq> [] \<and> entry_cached d \<and> (case execution of
         None \<Rightarrow> True
       | Some e \<Rightarrow> expected_revision execution \<noteq> None
           \<and> folded_text rp (first_truthy [jget d ''runtime_revision'', jget d ''model_revision'', jget d ''snapshot_revision''])
             = expected_revision execution
           \<and> jget d ''verified_token_usage'' = JBool True
           \<and> (case output_room d of None \<Rightarrow> False | Some room \<Rightarrow> required \<le> room)))"

definition waiting_for_studio :: string where
  "waiting_for_studio = ''Waiting for a free online Chat Studio with this model cached''"

definition active_order :: "chat_state \<Rightarrow> nat list" where
  \<comment> \<open>served least recently first\<close>
  "active_order st = map fst (sort_key (\<lambda>(_, b). (cb_dispatched b, cb_created b))
     (filter (\<lambda>(_, b). \<not> cb_cancelled b)
       (List.map_filter (\<lambda>(_, a). map_option (Pair a) (chat_at st a)) (ch_memory st))))"

definition await :: "nat list \<Rightarrow> bool \<Rightarrow> chat_work \<Rightarrow> chat_state \<Rightarrow> chat_state" where
  "await rest progress work st = st\<lparr>ch_plan := Some \<lparr>cl_rest = rest, cl_progress = progress, cl_work = work\<rparr>\<rparr>"

definition stop_scan :: "chat_state \<Rightarrow> chat_state" where
  "stop_scan st = st\<lparr>ch_plan := None\<rparr>"

fun visit :: "chat_env \<Rightarrow> chat_view \<Rightarrow> time \<Rightarrow> bool \<Rightarrow> nat list \<Rightarrow> chat_state \<Rightarrow> chat_state" where
  \<comment> \<open>the batches from here on, up to the next await\<close>
  "visit c v now progress [] st = stop_scan st"
| "visit c v now progress (a # rest) st = (case expire_chat c now a st of
       None \<Rightarrow> stop_scan st
     | Some (st1, True) \<Rightarrow> visit c v now progress rest (save_chat now a st1)
     | Some (st1, False) \<Rightarrow> (case chat_at st1 a of
         None \<Rightarrow> visit c v now progress rest st1
       | Some b \<Rightarrow> (case due_packs now b of
           [] \<Rightarrow> visit c v now progress rest (note_chat a (retry_note now b) st1)
         | i # _ \<Rightarrow> (case dropWhile (\<lambda>s. \<not> chat_candidate c v st1 s) (ce_registry c) of
             [] \<Rightarrow> visit c v now progress rest (note_chat a (Some waiting_for_studio) st1)
           | studios \<Rightarrow> await rest progress (W_match a i (required_tokens now b) studios []) st1))))"

definition scan_on :: "chat_env \<Rightarrow> chat_view \<Rightarrow> time \<Rightarrow> bool \<Rightarrow> nat list \<Rightarrow> chat_state \<Rightarrow> chat_state" where
  \<comment> \<open>a scan that dispatched is followed by another one\<close>
  "scan_on c v now progress rest st =
     (let st1 = visit c v now progress rest st
      in if ch_plan st1 = None \<and> progress then visit c v now False (active_order st1) st1 else st1)"

definition start_scan :: "chat_env \<Rightarrow> chat_view \<Rightarrow> time \<Rightarrow> chat_state \<Rightarrow> chat_state" where
  "start_scan c v now st =
     (if ch_stopping st \<or> ch_plan st \<noteq> None then st else visit c v now False (active_order st) st)"

definition answer_match :: "chat_env \<Rightarrow> chat_view \<Rightarrow> time \<Rightarrow> jdict list \<Rightarrow> chat_state \<Rightarrow> chat_state" where
  \<comment> \<open>the catalog of the first studio of the list has arrived\<close>
  "answer_match c v now models st = (case ch_plan st of
       Some p \<Rightarrow> (case (cl_work p, chat_at st (case cl_work p of W_match a _ _ _ _ \<Rightarrow> a | _ \<Rightarrow> 0)) of
         (W_match a i required (s # studios) found, Some b) \<Rightarrow>
           (let found1 = (if entry_fits (th_repr (hc_text (ce_host c))) (cb_execution b) required (entry_for (cb_model b) models)
                          then found @ [s] else found)
            in case dropWhile (\<lambda>s. \<not> chat_candidate c v st s) studios of
                 [] \<Rightarrow>
                   if found1 = [] then scan_on c v now (cl_progress p) (cl_rest p) (note_chat a (Some waiting_for_studio) st)
                   else await (cl_rest p) (cl_progress p)
                     (W_turn a i (sort_key (\<lambda>s. (studio_total_memory_gb (vw_fleet v) s, st_id s)) found1)) (note_chat a None st)
               | studios1 \<Rightarrow> await (cl_rest p) (cl_progress p) (W_match a i required studios1 found1) st)
       | _ \<Rightarrow> st)
     | None \<Rightarrow> st)"

definition next_studio ::
  "chat_env \<Rightarrow> chat_view \<Rightarrow> time \<Rightarrow> chat_plan \<Rightarrow> nat \<Rightarrow> nat \<Rightarrow> studio list \<Rightarrow> chat_state \<Rightarrow> chat_state" where
  "next_studio c v now p a i studios st =
     (if studios = [] then scan_on c v now (cl_progress p) (cl_rest p) st
      else await (cl_rest p) (cl_progress p) (W_turn a i studios) st)"

definition answer_turn :: "chat_env \<Rightarrow> chat_view \<Rightarrow> time \<Rightarrow> bool \<Rightarrow> chat_state \<Rightarrow> chat_state" where
  \<comment> \<open>whether the transcription lane has work for the first studio's machine\<close>
  "answer_turn c v now other st = (case ch_plan st of
       Some p \<Rightarrow> (case cl_work p of
         W_turn a i (s # studios) \<Rightarrow>
           if external_dispatch_allowed (st_machine s) ''chat'' other (ch_turns st) = Some True
           then await (cl_rest p) (cl_progress p) (W_memory a i s studios) st
           else next_studio c v now p a i studios st
       | _ \<Rightarrow> st)
     | None \<Rightarrow> st)"

definition chat_owner :: "string \<Rightarrow> nat \<Rightarrow> string" where
  "chat_owner bid index = ''chat:'' @ bid @ '':'' @ nat_text index"

definition dispatched_pack :: "time \<Rightarrow> studio \<Rightarrow> scene_pack \<Rightarrow> scene_pack" where
  "dispatched_pack now s p = p\<lparr>pk_state := P_running, pk_studio := Some (st_id s), pk_error := None,
     pk_retry_at := None, pk_started := Some now, pk_tries := pk_tries p + 1\<rparr>"

definition waiting_behind :: "chat_batch \<Rightarrow> string option" where
  "waiting_behind b = Some (''Waiting behind older batch '' @
     str_or_empty (py_or (cb_episode b) (py_or (cb_project b) (Some (cb_id b)))))"

definition note_waiting :: "chat_batch \<Rightarrow> nat list \<Rightarrow> chat_state \<Rightarrow> chat_state" where
  "note_waiting b rest st = fold (\<lambda>a. set_chat a (\<lambda>w.
     if list_ex (\<lambda>p. pk_state p = P_queued) (cb_packs w) then w\<lparr>cb_note := waiting_behind b\<rparr> else w)) rest st"

definition assign_pack :: "time \<Rightarrow> nat \<Rightarrow> nat \<Rightarrow> studio \<Rightarrow> string \<Rightarrow> int option \<Rightarrow> chat_state \<Rightarrow> chat_state" where
  \<comment> \<open>the lease is held already\<close>
  "assign_pack now a i s owner generation st =
     save_chat now a ((set_chat a (\<lambda>b. (map_pack i (dispatched_pack now s) b)\<lparr>cb_dispatched := now\<rparr>) st)
       \<lparr>ch_busy := List.insert (st_id s) (ch_busy st),
        ch_tasks := ch_tasks st @ [\<lparr>ct_addr = a, ct_pack = i, ct_studio = s, ct_owner = owner,
          ct_generation = generation, ct_stage = C_new, ct_cancel = False, ct_known = True\<rparr>]\<rparr>)"

definition answer_memory ::
  "chat_env \<Rightarrow> chat_view \<Rightarrow> time \<Rightarrow> bool \<Rightarrow> string \<Rightarrow> int option \<Rightarrow> chat_state \<Rightarrow> chat_state" where
  \<comment> \<open>\<open>prepare_machine_memory\<close> has answered \<open>run\<close> or not, with a note; the pack is dispatched as it was found\<close>
  "answer_memory c v now run note generation st = (case ch_plan st of
       Some p \<Rightarrow> (case (cl_work p, chat_at st (case cl_work p of W_memory a _ _ _ \<Rightarrow> a | _ \<Rightarrow> 0)) of
         (W_memory a i s studios, Some b) \<Rightarrow>
           (let machine = st_machine s;
                owner = chat_owner (cb_id b) (case pack_at b i of None \<Rightarrow> i | Some k \<Rightarrow> pk_index k);
                (leases, held) = acquire_external_machine (ce_registry c) (vw_fleet v) (vw_broker_batches v)
                                   (vw_broker_busy v) machine owner (ch_leases st)
            in if \<not> run
               then next_studio c v now p a i studios (note_chat a (Some (st_id s @ '': '' @ note))
                 (st\<lparr>ch_turns := the (note_external_memory_block machine ''chat'' (ch_turns st))\<rparr>))
               else if \<not> vw_ready v (st_id s) generation then next_studio c v now p a i studios st
               else if \<not> held then next_studio c v now p a i studios st
               else scan_on c v now True (cl_rest p) (note_waiting b (cl_rest p)
                 (assign_pack now a i s owner generation (st\<lparr>ch_leases := leases,
                    ch_turns := the (note_external_dispatch machine ''chat'' (ch_turns st)), ch_plan := None\<rparr>))))
       | _ \<Rightarrow> st)
     | None \<Rightarrow> st)"

section \<open>One pack\<close>

definition chat_key :: "chat_task \<Rightarrow> nat \<times> nat" where
  "chat_key t = (ct_addr t, ct_pack t)"

definition task_batch :: "chat_task \<Rightarrow> chat_state \<Rightarrow> chat_batch option" where
  "task_batch t st = chat_at st (ct_addr t)"

definition on_pack :: "chat_task \<Rightarrow> (scene_pack \<Rightarrow> scene_pack) \<Rightarrow> chat_state \<Rightarrow> chat_state" where
  "on_pack t f st = set_chat (ct_addr t) (map_pack (ct_pack t) f) st"

definition set_stage :: "chat_task \<Rightarrow> chat_stage \<Rightarrow> chat_state \<Rightarrow> chat_state" where
  "set_stage t stage st = st\<lparr>ch_tasks := update_where (\<lambda>u. chat_key u = chat_key t) (\<lambda>u. u\<lparr>ct_stage := stage\<rparr>) (ch_tasks st)\<rparr>"

definition drop_task :: "chat_task \<Rightarrow> chat_state \<Rightarrow> chat_state" where
  "drop_task t st = st\<lparr>ch_tasks := filter (\<lambda>u. chat_key u \<noteq> chat_key t) (ch_tasks st)\<rparr>"

definition finish_pack :: "time \<Rightarrow> chat_task \<Rightarrow> chat_state \<Rightarrow> chat_state" where
  \<comment> \<open>the \<open>finally\<close> block\<close>
  "finish_pack now t st = save_chat now (ct_addr t) (drop_task t (st
     \<lparr>ch_busy := removeAll (st_id (ct_studio t)) (ch_busy st),
      ch_leases := release_external_machine (st_machine (ct_studio t)) (ct_owner t) (ch_leases st)\<rparr>))"

definition list_text :: "string list \<Rightarrow> string" where
  \<comment> \<open>\<open>json.dumps\<close> of a list of texts\<close>
  "list_text xs = ''['' @ join_with '', '' (map quoted xs) @ '']''"

definition request_messages :: "scene_pack \<Rightarrow> (string \<times> string) list" where
  "request_messages p = pk_messages p @ (if pk_results p = [] then [] else
     [(''user'', ''Your previous response was incomplete. Return JSON for ONLY these missing scene IDs: ''
        @ list_text (missing_scenes p) @ ''. Do not repeat completed IDs.'')])"

definition requeued_pack :: "string \<Rightarrow> scene_pack \<Rightarrow> scene_pack" where
  "requeued_pack error p = p\<lparr>pk_state := P_queued, pk_studio := None, pk_error := Some error\<rparr>"

definition given_up_pack :: "time \<Rightarrow> string \<Rightarrow> scene_pack \<Rightarrow> scene_pack" where
  "given_up_pack now error p = p\<lparr>pk_state := (if pk_results p = [] then P_error else P_partial),
     pk_error := Some error, pk_finished := Some now\<rparr>"

definition retry_delay :: "nat \<Rightarrow> time" where
  "retry_delay tries = transient_retry_delays ! min (tries - 1) (length transient_retry_delays - 1)"

definition failed_pack :: "time \<Rightarrow> bool \<Rightarrow> bool \<Rightarrow> run_error \<Rightarrow> scene_pack \<Rightarrow> scene_pack" where
  \<comment> \<open>\<open>released\<close>: a capacity failure after which siblings released memory\<close>
  "failed_pack now released cancelled e p =
     (if re_transient e \<and> pk_tries p < max_pack_tries \<and> \<not> cancelled
      then (let delay = (if released then 3 else retry_delay (pk_tries p))
            in (requeued_pack (''try '' @ nat_text (pk_tries p) @ '' failed; retrying in '' @ int_text \<lfloor>delay\<rfloor> @ ''s: '' @ re_text e) p)
               \<lparr>pk_retry_at := Some (now + delay)\<rparr>)
      else given_up_pack now (re_text e) p)"

definition raise_pack :: "time \<Rightarrow> run_error \<Rightarrow> chat_task \<Rightarrow> chat_state \<Rightarrow> chat_state" where
  \<comment> \<open>the exception handler, up to the await of a capacity failure\<close>
  "raise_pack now e t st = (case task_batch t st of
       None \<Rightarrow> st
     | Some b \<Rightarrow>
         if is_capacity_failure (re_text e) then set_stage t (C_handing e) st
         else finish_pack now t (on_pack t (failed_pack now False (cb_cancelled b) e) st))"

definition handed_pack :: "time \<Rightarrow> bool \<Rightarrow> chat_task \<Rightarrow> chat_state \<Rightarrow> chat_state" where
  "handed_pack now released t st = (case (ct_stage t, task_batch t st) of
       (C_handing e, Some b) \<Rightarrow> finish_pack now t (on_pack t
          (\<lambda>p. failed_pack now released (cb_cancelled b) e (p\<lparr>pk_tries := pk_tries p - 1\<rparr>)) st)
     | _ \<Rightarrow> st)"

definition overflow_error :: run_error where
  "overflow_error = python_error ''date value out of range''"

definition begin_pack :: "chat_env \<Rightarrow> chat_view \<Rightarrow> time \<Rightarrow> chat_task \<Rightarrow> chat_state \<Rightarrow> chat_state" where
  "begin_pack c v now t st = (case expire_chat c now (ct_addr t) st of
       None \<Rightarrow> raise_pack now overflow_error t st
     | Some (st1, True) \<Rightarrow> finish_pack now t st1
     | Some (st1, False) \<Rightarrow> (case Option.bind (task_batch t st1) (\<lambda>b. pack_at b (ct_pack t)) of
         None \<Rightarrow> st1
       | Some p \<Rightarrow>
           if ct_generation t \<noteq> None \<and> \<not> vw_ready v (st_id (ct_studio t)) (ct_generation t)
           then finish_pack now t (on_pack t (\<lambda>p. (requeued_pack ''worker authentication changed before dispatch'' p)
                  \<lparr>pk_tries := pk_tries p - 1\<rparr>) st1)
           else set_stage t (C_asking now (missing_scenes p) (request_messages p)) st1))"

definition last_tries :: "'a list \<Rightarrow> 'a list" where
  "last_tries xs = drop (length xs - max_pack_tries) xs"

definition read_completion ::
  "chat_host \<Rightarrow> string \<Rightarrow> string list \<Rightarrow> time \<Rightarrow> jdict \<Rightarrow> scene_pack \<Rightarrow> scene_pack \<times> run_error option" where
  \<comment> \<open>from the text of the completion on\<close>
  "read_completion h kind missing elapsed d p = (case completion_text (th_repr (hc_text h)) d of
       None \<Rightarrow> (p, Some (python_error ''malformed completion''))
     | Some content \<Rightarrow>
         if py_strip content = [] then (p, Some (value_error ''Chat Studio returned empty content''))
         else (let p1 = p\<lparr>pk_raw := last_tries (pk_raw p @ [content])\<rparr>
           in case parse_scene_results h content missing kind of
                Inl e \<Rightarrow> (p1, Some e)
              | Inr out \<Rightarrow>
                  (let p2 = p1\<lparr>pk_results := dupdate (pk_results p1) out\<rparr>
                   in case elapsed_of (hc_text h) elapsed (jget d ''elapsed_seconds'') of
                        Inl e \<Rightarrow> (p2, Some e)
                      | Inr x \<Rightarrow> (p2\<lparr>pk_duration := Some x\<rparr>, None))))"

definition read_answer ::
  "chat_host \<Rightarrow> execution option \<Rightarrow> string \<Rightarrow> string list \<Rightarrow> time \<Rightarrow> json \<Rightarrow> scene_pack \<Rightarrow> scene_pack \<times> run_error option" where
  \<comment> \<open>the pack keeps what was stored before an exception\<close>
  "read_answer h execution kind missing elapsed payload p = (case as_dict payload of
       None \<Rightarrow> (p, Some (python_error ''object has no attribute get''))
     | Some d \<Rightarrow> (case checked_usage (execution \<noteq> None) (jget d ''usage'') of
         Inl e \<Rightarrow> (p, Some e)
       | Inr u \<Rightarrow>
           (let p1 = (case u of None \<Rightarrow> p | Some x \<Rightarrow> p\<lparr>pk_usage := Some x\<rparr>);
                revision = folded_text (th_repr (hc_text h)) (jget d ''model_revision'')
            in if expected_revision execution \<noteq> None \<and> revision \<noteq> expected_revision execution
               then (p1, Some (evidence_error ''Chat Studio model revision did not match the GenStudio assignment''))
               else read_completion h kind missing elapsed d (p1\<lparr>pk_revision := revision\<rparr>))))"

definition settled_pack :: "time \<Rightarrow> bool \<Rightarrow> scene_pack \<Rightarrow> scene_pack" where
  "settled_pack now cancelled p =
     (let remaining = missing_scenes p; n = nat_text (length remaining)
      in if remaining = [] then p\<lparr>pk_state := P_done, pk_error := None, pk_finished := Some now\<rparr>
         else if pk_tries p < max_pack_tries \<and> \<not> cancelled
         then requeued_pack (''incomplete response: '' @ n @ '' scene(s) still missing'') p
         else given_up_pack now (''incomplete response after '' @ nat_text (pk_tries p) @ '' tries: '' @ n @ '' scene(s) missing'') p)"

definition answer_pack :: "chat_env \<Rightarrow> time \<Rightarrow> json \<Rightarrow> chat_task \<Rightarrow> chat_state \<Rightarrow> chat_state" where
  \<comment> \<open>a completion with a status below 400 whose body is JSON\<close>
  "answer_pack c now payload t st = (case expire_chat c now (ct_addr t) st of
       None \<Rightarrow> raise_pack now overflow_error t st
     | Some (st1, True) \<Rightarrow> finish_pack now t st1
     | Some (st1, False) \<Rightarrow> (case (ct_stage t, task_batch t st1) of
         (C_asking started missing _, Some b) \<Rightarrow> (case pack_at b (ct_pack t) of
             None \<Rightarrow> st1
           | Some p \<Rightarrow> (case read_answer (ce_host c) (cb_execution b) (cb_kind b) missing (now - started) payload p of
               (p1, Some e) \<Rightarrow> raise_pack now e t (on_pack t (\<lambda>_. p1) st1)
             | (p1, None) \<Rightarrow> finish_pack now t (on_pack t (\<lambda>_. settled_pack now (cb_cancelled b) p1) st1)))
       | _ \<Rightarrow> st1))"

definition transient_statuses :: "int list" where
  "transient_statuses = [408, 409, 425, 429, 500, 502, 503, 504]"

definition http_error :: "int \<Rightarrow> string \<Rightarrow> run_error" where
  "http_error status body = \<lparr>re_text = ''HTTP '' @ int_text status @ '': '' @
       (if take 500 body = [] then ''Chat completion failed'' else take 500 body),
     re_transient = (status \<in> set transient_statuses)\<rparr>"

definition interrupt_task :: "time \<Rightarrow> chat_task \<Rightarrow> chat_state \<Rightarrow> chat_state" where
  \<comment> \<open>the CancelledError: a coroutine that has not started never reaches its \<open>finally\<close>; in the exception
     handler it is not caught\<close>
  "interrupt_task now t st = (case ct_stage t of
       C_new \<Rightarrow> drop_task t st
     | C_handing _ \<Rightarrow> finish_pack now t st
     | C_asking _ _ _ \<Rightarrow> (case task_batch t st of
         None \<Rightarrow> st
       | Some b \<Rightarrow> finish_pack now t (on_pack t (if ch_stopping st \<and> \<not> cb_cancelled b
             then requeued_pack ''interrupted by Hub shutdown''
             else (\<lambda>p. p\<lparr>pk_state := P_cancelled, pk_error := Some ''cancelled'', pk_finished := Some now\<rparr>)) st)))"

section \<open>Handlers\<close>

definition flag_tasks :: "(chat_task \<Rightarrow> bool) \<Rightarrow> chat_state \<Rightarrow> chat_state" where
  \<comment> \<open>\<open>task.cancel()\<close> on the tasks that \<open>_pack_tasks\<close> still knows\<close>
  "flag_tasks p st = st\<lparr>ch_tasks := update_where (\<lambda>t. ct_known t \<and> p t) (\<lambda>t. t\<lparr>ct_cancel := True\<rparr>) (ch_tasks st)\<rparr>"

definition forget_tasks :: "string \<Rightarrow> chat_state \<Rightarrow> chat_state" where
  \<comment> \<open>\<open>_pack_tasks.pop\<close> for the packs of a batch\<close>
  "forget_tasks bid st = st\<lparr>ch_tasks := update_where
     (\<lambda>t. case chat_at st (ct_addr t) of None \<Rightarrow> False | Some b \<Rightarrow> cb_id b = bid) (\<lambda>t. t\<lparr>ct_known := False\<rparr>) (ch_tasks st)\<rparr>"

definition cancel_queued_pack :: "time \<Rightarrow> scene_pack \<Rightarrow> scene_pack" where
  "cancel_queued_pack now p =
     (if pk_state p = P_queued then p\<lparr>pk_state := P_cancelled, pk_error := Some ''cancelled'', pk_finished := Some now\<rparr> else p)"

definition cancel_chat :: "time \<Rightarrow> string \<Rightarrow> chat_state \<Rightarrow> chat_state" where
  "cancel_chat now bid st = (case get_chat bid st of
       None \<Rightarrow> st
     | Some (a, st1) \<Rightarrow>
         save_chat now a (remember_chat bid a
           (flag_tasks (\<lambda>t. (case chat_at st1 (ct_addr t) of None \<Rightarrow> False | Some b \<Rightarrow> cb_id b = bid)
               \<and> (case Option.bind (chat_at st1 a) (\<lambda>b. pack_at b (ct_pack t)) of
                     None \<Rightarrow> False | Some p \<Rightarrow> pk_state p = P_running))
             (set_chat a (\<lambda>b. b\<lparr>cb_cancelled := True, cb_packs := map (cancel_queued_pack now) (cb_packs b)\<rparr>) st1))))"

definition retried_pack :: "scene_pack \<Rightarrow> scene_pack" where
  "retried_pack p =
     (if pk_state p \<in> {P_partial, P_error}
      then p\<lparr>pk_state := P_queued, pk_error := None, pk_studio := None, pk_tries := 0, pk_retry_at := None,
             pk_started := None, pk_finished := None\<rparr> else p)"

definition retry_chat :: "time \<Rightarrow> string \<Rightarrow> chat_state \<Rightarrow> chat_state" where
  "retry_chat now bid st = (case get_chat bid st of
       None \<Rightarrow> st
     | Some (a, st1) \<Rightarrow> (case chat_at st1 a of
         None \<Rightarrow> st1
       | Some b \<Rightarrow>
           if list_ex (\<lambda>p. pk_state p \<in> {P_partial, P_error}) (cb_packs b)
           then save_chat now a (remember_chat bid a (set_chat a (\<lambda>b. b\<lparr>cb_cancelled := False, cb_finished := None,
                  cb_packs := map retried_pack (cb_packs b)\<rparr>) st1))
           else st1))"

definition renewed_execution :: "string \<Rightarrow> execution option \<Rightarrow> execution" where
  "renewed_execution lease e = (case e of
       None \<Rightarrow> \<lparr>ex_job = None, ex_attempt = None, ex_token = None, ex_model_revision = None, ex_lease = Some lease\<rparr>
     | Some x \<Rightarrow> x\<lparr>ex_lease := Some lease\<rparr>)"

definition renew_chat :: "time \<Rightarrow> string \<Rightarrow> string \<Rightarrow> chat_state \<Rightarrow> chat_state" where
  "renew_chat now bid lease st = (case get_chat bid st of
       None \<Rightarrow> st
     | Some (a, st1) \<Rightarrow> save_chat now a (remember_chat bid a
         (set_chat a (\<lambda>b. b\<lparr>cb_execution := Some (renewed_execution lease (cb_execution b))\<rparr>) st1)))"

definition remove_chat :: "string \<Rightarrow> chat_state \<Rightarrow> chat_state" where
  "remove_chat bid st = (case get_chat bid st of
       None \<Rightarrow> st
     | Some (a, st1) \<Rightarrow>
         if (case chat_at st1 a of None \<Rightarrow> False | Some b \<Rightarrow> terminal_batch b)
         then (forget_tasks bid st1)\<lparr>ch_memory := dpop bid (ch_memory st1), ch_rows := filter (\<lambda>r. cb_id r \<noteq> bid) (ch_rows st1)\<rparr>
         else st1)"

definition clear_terminal :: "chat_state \<Rightarrow> chat_state" where
  "clear_terminal st =
     (let over = map fst (filter (\<lambda>(_, a). case chat_at st a of None \<Rightarrow> False | Some b \<Rightarrow> terminal_batch b) (ch_memory st))
      in (fold forget_tasks over st)\<lparr>ch_memory := filter (\<lambda>(bid, _). bid \<notin> set over) (ch_memory st),
            ch_rows := filter (\<lambda>r. \<not> terminal_batch r) (ch_rows st)\<rparr>)"

definition stop_chat :: "chat_state \<Rightarrow> chat_state" where
  "stop_chat st = (flag_tasks (\<lambda>_. True) st)\<lparr>ch_stopping := True, ch_plan := None\<rparr>"

definition interrupted_pack :: "scene_pack \<Rightarrow> scene_pack" where
  "interrupted_pack p = (if pk_state p = P_running
     then (requeued_pack ''interrupted by Hub restart'' p)\<lparr>pk_retry_at := None\<rparr> else p)"

fun restore_rows :: "chat_env \<Rightarrow> time \<Rightarrow> chat_batch list \<Rightarrow> chat_state \<Rightarrow> chat_state" where
  \<comment> \<open>an exception ends the restore\<close>
  "restore_rows c now [] st = st"
| "restore_rows c now (b # rows) st =
     (let (a, st1) = new_object b st
      in case expire_chat c now a st1 of
           None \<Rightarrow> st1
         | Some (st2, over) \<Rightarrow> restore_rows c now rows (save_chat now a (remember_chat (cb_id b) a
             (if over then st2 else set_chat a (\<lambda>b. b\<lparr>cb_packs := map interrupted_pack (cb_packs b)\<rparr>) st2))))"

definition restart_chat :: "chat_env \<Rightarrow> time \<Rightarrow> chat_state \<Rightarrow> chat_state" where
  \<comment> \<open>a new process: only the rows and the fences are left\<close>
  "restart_chat c now st =
     (let st1 = st\<lparr>ch_heap := [], ch_memory := [], ch_busy := [], ch_tasks := [], ch_plan := None, ch_stopping := False,
                   ch_leases := [], ch_turns := []\<rparr>
      in restore_rows c now (load_rows (\<lambda>r. \<not> terminal_batch r) st1) st1)"

section \<open>What other modules read\<close>

definition has_queued_work :: "chat_env \<Rightarrow> time \<Rightarrow> chat_state \<Rightarrow> bool option" where
  \<comment> \<open>\<open>None\<close>: a lease raises before a batch with work is found\<close>
  "has_queued_work c now st =
     (let checks = map (\<lambda>b. if cb_cancelled b then Some False
            else (case chat_lease_over (hc_exec (ce_host c)) now b of
                Inl _ \<Rightarrow> None | Inr over \<Rightarrow> Some (\<not> over \<and> due_packs now b \<noteq> [])))
          (List.map_filter (\<lambda>(_, a). chat_at st a) (ch_memory st))
      in (case dropWhile (\<lambda>r. r = Some False) checks of [] \<Rightarrow> Some False | r # _ \<Rightarrow> r))"

record assignment_row =
  ar_batch :: string
  ar_project :: "string option"
  ar_episode :: "string option"
  ar_pack :: string
  ar_attempt :: nat
  ar_max :: nat
  ar_started :: "time option"

definition active_assignments :: "chat_state \<Rightarrow> (string, assignment_row) dict" where
  "active_assignments st = fold (\<lambda>(studio, row) acc. dset studio row acc)
     (concat (map (\<lambda>b. concat (map (\<lambda>p. if pk_state p = P_running \<and> str_or_empty (pk_studio p) \<noteq> []
          then [(str_or_empty (pk_studio p), \<lparr>ar_batch = cb_id b, ar_project = cb_project b, ar_episode = cb_episode b,
             ar_pack = pk_id p, ar_attempt = pk_tries p, ar_max = max_pack_tries, ar_started = pk_started p\<rparr>)]
          else []) (cb_packs b)))
       (List.map_filter (\<lambda>(_, a). chat_at st a) (ch_memory st)))) []"

definition list_chats :: "chat_state \<Rightarrow> chat_summary list" where
  \<comment> \<open>newest first; \<open>sorted\<close> with \<open>reverse\<close> keeps the order of equal times\<close>
  "list_chats st =
     (let stored = fold (\<lambda>b acc. dset (cb_id b) b acc) (load_rows (\<lambda>_. True) st) [];
          all = dupdate stored (List.map_filter (\<lambda>(bid, a). map_option (Pair bid) (chat_at st a)) (ch_memory st))
      in map chat_summary_of (sort_key (\<lambda>b. - cb_created b) (map snd all)))"

definition chat_statistics :: "chat_state \<Rightarrow> nat \<times> nat \<times> nat \<times> nat" where
  \<comment> \<open>batches, packs, scenes and completed scenes; the sum of the durations is left out\<close>
  "chat_statistics st =
     (let rows = load_rows (\<lambda>_. True) st; packs = concat (map cb_packs rows)
      in (length rows, length packs, sum_list (map (length \<circ> pk_scenes) packs), sum_list (map (length \<circ> pk_results) packs)))"

section \<open>Steps\<close>

datatype chat_op =
    Create string time json
  | Scan_batches chat_view time
  | Catalog chat_view time "jdict list"
  | Other_lane chat_view time bool
  | Memory_answer chat_view time bool string "int option"
  | Scan_raises
  | Begin_pack "nat \<times> nat" chat_view time
  | Completion "nat \<times> nat" time json
  | Http_failed "nat \<times> nat" time int string
  | Request_raises "nat \<times> nat" time run_error
  | Handed_over "nat \<times> nat" time bool
  | Hand_raises "nat \<times> nat" time
  | Interrupted "nat \<times> nat" time
  | Cancel_chat time string
  | Retry_chat time string
  | Renew_chat time string string
  | Remove_chat string
  | Clear_terminal
  | Stop_lane
  | Start_lane
  | Restart_chat time
  | Other_acquires chat_view string string
  | Other_releases string string
  | Other_turn string string
  | Other_fences exec_op

definition with_pack ::
  "nat \<times> nat \<Rightarrow> (chat_task \<Rightarrow> bool) \<Rightarrow> (chat_task \<Rightarrow> chat_state \<Rightarrow> chat_state) \<Rightarrow> chat_state \<Rightarrow> chat_state" where
  "with_pack k ok f st = (case select_first (\<lambda>t. chat_key t = k) (ch_tasks st) of
       None \<Rightarrow> st
     | Some t \<Rightarrow> if ok t then f t st else st)"

definition asking :: "chat_task \<Rightarrow> bool" where
  "asking t \<longleftrightarrow> \<not> ct_cancel t \<and> (case ct_stage t of C_asking _ _ _ \<Rightarrow> True | _ \<Rightarrow> False)"

definition handing :: "chat_task \<Rightarrow> bool" where
  "handing t \<longleftrightarrow> \<not> ct_cancel t \<and> (case ct_stage t of C_handing _ \<Rightarrow> True | _ \<Rightarrow> False)"

definition foreign_owner :: "string \<Rightarrow> bool" where
  "foreign_owner owner \<longleftrightarrow> \<not> prefix ''chat:'' owner"

fun chat_step :: "chat_env \<Rightarrow> chat_op \<Rightarrow> chat_state \<Rightarrow> chat_state" where
  "chat_step c (Create bid now payload) st =
     (if dget (ch_memory st) bid \<noteq> None \<or> list_ex (\<lambda>r. cb_id r = bid) (ch_rows st) then st else snd (create_chat c bid now payload st))"
| "chat_step c (Scan_batches v now) st = start_scan c v now st"
| "chat_step c (Catalog v now models) st = answer_match c v now models st"
| "chat_step c (Other_lane v now other) st = answer_turn c v now other st"
| "chat_step c (Memory_answer v now run note generation) st = answer_memory c v now run note generation st"
| "chat_step c Scan_raises st = stop_scan st"
| "chat_step c (Begin_pack k v now) st = with_pack k (\<lambda>t. \<not> ct_cancel t \<and> ct_stage t = C_new) (begin_pack c v now) st"
| "chat_step c (Completion k now payload) st = with_pack k asking (answer_pack c now payload) st"
| "chat_step c (Http_failed k now status body) st = with_pack k asking (raise_pack now (http_error status body)) st"
| "chat_step c (Request_raises k now e) st = with_pack k asking (raise_pack now e) st"
| "chat_step c (Handed_over k now released) st = with_pack k handing (handed_pack now released) st"
| "chat_step c (Hand_raises k now) st = with_pack k handing (finish_pack now) st"
| "chat_step c (Interrupted k now) st = with_pack k ct_cancel (interrupt_task now) st"
| "chat_step c (Cancel_chat now bid) st = cancel_chat now bid st"
| "chat_step c (Retry_chat now bid) st = retry_chat now bid st"
| "chat_step c (Renew_chat now bid lease) st = renew_chat now bid lease st"
| "chat_step c (Remove_chat bid) st = remove_chat bid st"
| "chat_step c Clear_terminal st = clear_terminal st"
| "chat_step c Stop_lane st = stop_chat st"
| "chat_step c Start_lane st = st\<lparr>ch_stopping := False\<rparr>"
| "chat_step c (Restart_chat now) st = restart_chat c now st"
| "chat_step c (Other_acquires v machine owner) st =
     (if foreign_owner owner
      then st\<lparr>ch_leases := fst (acquire_external_machine (ce_registry c) (vw_fleet v) (vw_broker_batches v)
             (vw_broker_busy v) machine owner (ch_leases st))\<rparr>
      else st)"
| "chat_step c (Other_releases machine owner) st =
     (if foreign_owner owner then st\<lparr>ch_leases := release_external_machine machine owner (ch_leases st)\<rparr> else st)"
| "chat_step c (Other_turn machine lane) st =
     (case note_external_dispatch machine lane (ch_turns st) of None \<Rightarrow> st | Some ts \<Rightarrow> st\<lparr>ch_turns := ts\<rparr>)"
| "chat_step c (Other_fences e) st = st\<lparr>ch_fences := exec_step (hc_exec (ce_host c)) e (ch_fences st)\<rparr>"

definition empty_chat :: chat_state where
  "empty_chat = \<lparr>ch_heap = [], ch_memory = [], ch_rows = [], ch_busy = [], ch_tasks = [], ch_plan = None,
     ch_stopping = False, ch_leases = [], ch_turns = [], ch_fences = empty_fence_db\<rparr>"

end
