(* ===== verification/Chat_Contract.thy ===== *)
theory Chat_Contract
  imports Chat_Lane
begin

text \<open>
  What the steps of the Chat lane do to its state, as a contract: the locale \<open>lane_serves\<close> lists the few
  kinds of change every step is made of (an edit of a batch that leaves the work in flight alone, a save, a
  change of the plan, a dispatch, the end of a task), and derives from them that every step keeps the
  property, as long as only the \<open>rivals\<close> take and give back machines besides the lane; in \<open>lane_keeps\<close> every
  other lane is one.  The variants with \<open>_all\<close> add the one change that leaks: a task cancelled before it started.
\<close>

section \<open>Packs before and after\<close>

definition pack_of :: "chat_state \<Rightarrow> nat \<times> nat \<Rightarrow> scene_pack option" where
  "pack_of st k = Option.bind (chat_at st (fst k)) (\<lambda>b. pack_at b (snd k))"

definition results_ok :: "scene_pack \<Rightarrow> bool" where
  "results_ok p \<longleftrightarrow> distinct (map fst (pk_results p))
     \<and> (\<forall>(s, text)\<in>set (pk_results p). s \<in> set (pk_scenes p) \<and> text \<noteq> [] \<and> py_strip text = text)"

definition usage_ok :: "scene_pack \<Rightarrow> bool" where
  "usage_ok p = (case pk_usage p of None \<Rightarrow> True | Some (a, b, t) \<Rightarrow> 0 \<le> a \<and> 0 \<le> b \<and> a + b \<le> t)"

definition evidence_ok :: "execution option \<Rightarrow> scene_pack \<Rightarrow> bool" where
  \<comment> \<open>an assignment of GenStudio has verified usage, and its model revision if it names one\<close>
  "evidence_ok e p \<longleftrightarrow> (Option.bind e ex_job \<noteq> None \<longrightarrow> pk_usage p \<noteq> None)
     \<and> (expected_revision e \<noteq> None \<longrightarrow> pk_revision p = expected_revision e)"

definition gains :: "scene_pack \<Rightarrow> scene_pack \<Rightarrow> bool" where
  "gains p p' \<longleftrightarrow> pk_scenes p' = pk_scenes p \<and> (results_ok p \<longrightarrow> results_ok p') \<and> (usage_ok p \<longrightarrow> usage_ok p')
     \<and> (\<forall>s text. dget (pk_results p) s = Some text \<longrightarrow> dget (pk_results p') s = Some text)"

definition settles_pack :: "bool \<Rightarrow> execution option \<Rightarrow> scene_pack \<Rightarrow> scene_pack \<Rightarrow> bool" where
  \<comment> \<open>how a task leaves its pack\<close>
  "settles_pack stopping e p p' \<longleftrightarrow> gains p p' \<and> pk_tries p' \<le> pk_tries p
     \<and> (pk_state p' = P_queued \<longrightarrow> pk_tries p' < max_pack_tries \<or> pk_tries p' < pk_tries p \<or> stopping)
     \<and> (pk_state p' = P_done \<longrightarrow> missing_scenes p' = [] \<and> evidence_ok e p')"

definition calm_pack :: "scene_pack \<Rightarrow> scene_pack \<Rightarrow> bool" where
  \<comment> \<open>what an edit of the batch does to a pack: nothing, cancel it, or queue it again\<close>
  "calm_pack p p' \<longleftrightarrow> pk_scenes p' = pk_scenes p \<and> pk_results p' = pk_results p \<and> pk_usage p' = pk_usage p
     \<and> pk_revision p' = pk_revision p
     \<and> (pk_state p' = pk_state p \<and> pk_tries p' = pk_tries p
        \<or> pk_state p \<in> {P_queued, P_running} \<and> pk_state p' = P_cancelled \<and> pk_tries p' = pk_tries p
        \<or> pk_state p \<in> {P_partial, P_error} \<and> pk_state p' = P_queued \<and> pk_tries p' = 0)"

definition benign :: "(chat_batch \<Rightarrow> chat_batch) \<Rightarrow> bool" where
  "benign f \<longleftrightarrow> (\<forall>b. cb_id (f b) = cb_id b \<and> list_all2 calm_pack (cb_packs b) (cb_packs (f b))
     \<and> Option.bind (cb_execution (f b)) ex_job = Option.bind (cb_execution b) ex_job
     \<and> expected_revision (cb_execution (f b)) = expected_revision (cb_execution b))"

lemma calm_pack_refl [simp]: "calm_pack p p"
  by (simp add: calm_pack_def)

lemma benignI:
  assumes "\<And>b. cb_id (f b) = cb_id b" "\<And>b. cb_execution (f b) = cb_execution b"
    and "\<And>b. cb_packs (f b) = map g (cb_packs b)" "\<And>p. calm_pack p (g p)"
  shows "benign f"
  using assms by (simp add: benign_def list_all2_conv_all_nth)

lemma benign_note [simp]: "benign (\<lambda>b. b\<lparr>cb_note := n\<rparr>)"
  by (rule benignI [where g = "\<lambda>p. p"]) simp_all

lemma benign_waiting [simp]: "benign (\<lambda>b. if q b then b\<lparr>cb_note := n\<rparr> else b)"
  by (rule benignI [where g = "\<lambda>p. p"]) simp_all

lemma benign_expired [simp]: "benign (expired_chat now)"
  by (rule benignI [where g = "expire_pack now"]) (auto simp: expired_chat_def calm_pack_def expire_pack_def)

lemma benign_cancelled [simp]:
  "benign (\<lambda>b. b\<lparr>cb_cancelled := True, cb_packs := map (cancel_queued_pack now) (cb_packs b)\<rparr>)"
  by (rule benignI [where g = "cancel_queued_pack now"]) (auto simp: calm_pack_def cancel_queued_pack_def)

lemma benign_retried [simp]:
  "benign (\<lambda>b. b\<lparr>cb_cancelled := False, cb_finished := None, cb_packs := map retried_pack (cb_packs b)\<rparr>)"
  by (rule benignI [where g = retried_pack]) (auto simp: calm_pack_def retried_pack_def)

lemma benign_renewed [simp]: "benign (\<lambda>b. b\<lparr>cb_execution := Some (renewed_execution lease (cb_execution b))\<rparr>)"
  by (auto simp: benign_def list_all2_refl renewed_execution_def expected_revision_def split: option.split)

section \<open>Reading and writing objects\<close>

lemma chat_at_set [simp]: "chat_at (set_chat a f st) b = (if b = a then map_option f (chat_at st b) else chat_at st b)"
  by (simp add: chat_at_def set_chat_def)

lemma set_chat_others [simp]:
  "ch_rows (set_chat a f st) = ch_rows st" "ch_tasks (set_chat a f st) = ch_tasks st"
  "ch_plan (set_chat a f st) = ch_plan st" "ch_stopping (set_chat a f st) = ch_stopping st"
  "ch_leases (set_chat a f st) = ch_leases st" "ch_busy (set_chat a f st) = ch_busy st"
  "ch_memory (set_chat a f st) = ch_memory st" "ch_fences (set_chat a f st) = ch_fences st"
  "length (ch_heap (set_chat a f st)) = length (ch_heap st)"
  by (simp_all add: set_chat_def split: option.split)

lemma save_chat_others [simp]:
  "ch_tasks (save_chat now a st) = ch_tasks st" "ch_plan (save_chat now a st) = ch_plan st"
  "ch_stopping (save_chat now a st) = ch_stopping st" "ch_leases (save_chat now a st) = ch_leases st"
  "ch_busy (save_chat now a st) = ch_busy st" "ch_memory (save_chat now a st) = ch_memory st"
  "ch_fences (save_chat now a st) = ch_fences st" "length (ch_heap (save_chat now a st)) = length (ch_heap st)"
  by (simp_all add: save_chat_def split: option.split)

lemma saved_chat_fields [simp]:
  "cb_id (saved_chat now b) = cb_id b" "cb_packs (saved_chat now b) = cb_packs b"
  "cb_execution (saved_chat now b) = cb_execution b" "cb_key (saved_chat now b) = cb_key b"
  "cb_cancelled (saved_chat now b) = cb_cancelled b"
  by (simp_all add: saved_chat_def)

lemma chat_at_fields [simp]:
  "chat_at (st\<lparr>ch_rows := r\<rparr>) = chat_at st" "chat_at (st\<lparr>ch_tasks := ts\<rparr>) = chat_at st"
  "chat_at (st\<lparr>ch_plan := pl\<rparr>) = chat_at st" "chat_at (st\<lparr>ch_memory := m\<rparr>) = chat_at st"
  "chat_at (st\<lparr>ch_busy := bs\<rparr>) = chat_at st" "chat_at (st\<lparr>ch_leases := ls\<rparr>) = chat_at st"
  "chat_at (st\<lparr>ch_turns := tn\<rparr>) = chat_at st" "chat_at (st\<lparr>ch_fences := fs\<rparr>) = chat_at st"
  "chat_at (st\<lparr>ch_stopping := x\<rparr>) = chat_at st"
  by (simp_all add: chat_at_def fun_eq_iff)

lemma chat_at_save [simp]:
  "chat_at (save_chat now a st) b = (if b = a then map_option (saved_chat now) (chat_at st b) else chat_at st b)"
  by (simp add: save_chat_def split: option.split)

lemma pack_of_fields [simp]:
  "pack_of (st\<lparr>ch_rows := r\<rparr>) = pack_of st" "pack_of (st\<lparr>ch_tasks := ts\<rparr>) = pack_of st"
  "pack_of (st\<lparr>ch_plan := pl\<rparr>) = pack_of st" "pack_of (st\<lparr>ch_memory := m\<rparr>) = pack_of st"
  "pack_of (st\<lparr>ch_busy := bs\<rparr>) = pack_of st" "pack_of (st\<lparr>ch_leases := ls\<rparr>) = pack_of st"
  "pack_of (st\<lparr>ch_turns := tn\<rparr>) = pack_of st" "pack_of (st\<lparr>ch_fences := fs\<rparr>) = pack_of st"
  "pack_of (st\<lparr>ch_stopping := x\<rparr>) = pack_of st"
  by (simp_all add: pack_of_def fun_eq_iff)

lemma pack_of_save [simp]: "pack_of (save_chat now a st) k = pack_of st k"
  by (auto simp: pack_of_def pack_at_def split: Option.bind_split)

lemma pack_of_on_pack [simp]:
  "pack_of (on_pack t f st) k = (if k = chat_key t then map_option f (pack_of st k) else pack_of st k)"
  by (cases k) (auto simp: pack_of_def on_pack_def chat_key_def map_pack_def pack_at_def split: Option.bind_splits option.splits)

lemma on_pack_others [simp]:
  "ch_rows (on_pack t f st) = ch_rows st" "ch_tasks (on_pack t f st) = ch_tasks st"
  "ch_plan (on_pack t f st) = ch_plan st" "ch_stopping (on_pack t f st) = ch_stopping st"
  "ch_leases (on_pack t f st) = ch_leases st" "ch_busy (on_pack t f st) = ch_busy st"
  by (simp_all add: on_pack_def)

lemma on_pack_same: "pack_of st (chat_key t) = Some p \<Longrightarrow> f p = g p \<Longrightarrow> on_pack t f st = on_pack t g st"
  by (auto simp: pack_of_def on_pack_def set_chat_def map_pack_def chat_key_def split: option.splits Option.bind_splits)

section \<open>What a worker's answer adds\<close>

lemma filled_text: "filled v = Some t \<Longrightarrow> t \<noteq> [] \<and> py_strip t = t"
  by (auto simp: filled_def split: option.splits if_splits)

definition clean_results :: "string list \<Rightarrow> (string, string) dict \<Rightarrow> bool" where
  "clean_results allowed out \<longleftrightarrow> distinct (map fst out)
     \<and> (\<forall>(s, text)\<in>set out. s \<in> set allowed \<and> text \<noteq> [] \<and> py_strip text = text)"

lemma set_dset_subset: "set (dset k v d) \<subseteq> insert (k, v) (set d)"
  by (induction d) auto

lemma clean_results_dset:
  assumes "clean_results allowed out" "s \<in> set allowed" "x \<noteq> []" "py_strip x = x"
  shows "clean_results allowed (dset s x out)"
proof -
  have "distinct (map fst (dset s x out))" using assms(1) by (auto simp: clean_results_def)
  moreover have "k \<in> set allowed \<and> y \<noteq> [] \<and> py_strip y = y" if "(k, y) \<in> set (dset s x out)" for k y
    using that set_dset_subset [of s x out] assms by (auto simp: clean_results_def)
  ultimately show ?thesis by (auto simp: clean_results_def)
qed

lemma clean_results_Nil [simp]: "clean_results allowed []"
  by (simp add: clean_results_def)

lemma clean_scenes_of_dict: "clean_results allowed out \<Longrightarrow> clean_results allowed (scenes_of_dict allowed out d)"
proof (induction d arbitrary: out)
  case (Cons kv d)
  obtain k v where kv: "kv = (k, v)" by (rule prod.exhaust)
  show ?case
  proof (cases "filled v")
    case None
    then show ?thesis using Cons kv by simp
  next
    case (Some x)
    then have "clean_results allowed (if k \<in> set allowed then dset k x out else out)"
      using Cons.prems filled_text by (auto intro: clean_results_dset)
    from Cons.IH [OF this] show ?thesis using Some kv by simp
  qed
qed simp

lemma scenes_of_rows_step:
  assumes "scenes_of_rows kind allowed out (v # vs) = Inr r"
  obtains "scenes_of_rows kind allowed out vs = Inr r"
  | s x where "s \<in> set allowed" "x \<noteq> []" "py_strip x = x" "scenes_of_rows kind allowed (dset s x out) vs = Inr r"
  using assms filled_text by (auto simp: Let_def Option.bind_eq_Some_conv split: option.splits if_splits)

lemma clean_scenes_of_rows:
  "clean_results allowed out \<Longrightarrow> scenes_of_rows kind allowed out vs = Inr r \<Longrightarrow> clean_results allowed r"
proof (induction vs arbitrary: out)
  case (Cons v vs)
  from Cons.prems(2) show ?case
    using Cons.IH Cons.prems(1) by (cases rule: scenes_of_rows_step) (auto intro: clean_results_dset)
qed simp

lemma clean_collected: "collect_scenes kind expected data = Inr out \<Longrightarrow> clean_results expected out"
  by (auto simp: collect_scenes_def intro: clean_scenes_of_dict clean_scenes_of_rows [OF clean_results_Nil] split: json.splits)

lemma clean_single: "single_text content expected = Some out \<Longrightarrow> clean_results expected out"
  by (auto simp: single_text_def clean_results_def split: list.splits if_splits)

lemma clean_parsed: "parse_scene_results h content expected kind = Inr out \<Longrightarrow> clean_results expected out"
  by (auto simp: parse_scene_results_def bind_err_Inr intro: clean_collected clean_single
      split: if_splits decoded.splits option.splits)

lemma dget_dupdate_None: "dget (dupdate d e) k = (if k \<in> fst ` set e then dget (dupdate [] e) k else dget d k)"
  unfolding dupdate_def
proof (induction e rule: rev_induct)
  case (snoc kv e)
  then show ?case by (cases kv) auto
qed simp

lemma set_dupdate_subset: "set (dupdate d e) \<subseteq> set d \<union> set e"
  unfolding dupdate_def
proof (induction e rule: rev_induct)
  case (snoc kv e)
  then show ?case using set_dset_subset by (cases kv) fastforce
qed simp

lemma distinct_dupdate: "distinct (map fst d) \<Longrightarrow> distinct (map fst (dupdate d e))"
  unfolding dupdate_def by (induction e arbitrary: d) (auto intro: distinct_dset)

lemma gains_refl [simp]: "gains p p"
  by (simp add: gains_def)

lemma gains_trans: "gains p q \<Longrightarrow> gains q r \<Longrightarrow> gains p r"
  by (simp add: gains_def)

lemma gains_fields:
  assumes "pk_scenes p' = pk_scenes p" "pk_results p' = pk_results p" "pk_usage p' = pk_usage p"
  shows "gains p p'"
  using assms by (simp add: gains_def results_ok_def usage_ok_def)

lemma gains_results:
  assumes "clean_results (missing_scenes p) out" "pk_scenes p' = pk_scenes p" "pk_usage p' = pk_usage p"
    and "pk_results p' = dupdate (pk_results p) out"
  shows "gains p p'"
proof -
  have keys: "s \<notin> fst ` set out" if "dget (pk_results p) s = Some x" for s x
    using that assms(1) by (auto simp: clean_results_def missing_scenes_def)
  have scenes: "fst ` set out \<subseteq> set (pk_scenes p)"
    using assms(1) by (auto simp: clean_results_def missing_scenes_def)
  have "results_ok p'" if ok: "results_ok p"
  proof -
    have "distinct (map fst (pk_results p'))" using ok assms(4) by (simp add: results_ok_def distinct_dupdate)
    moreover have "k \<in> set (pk_scenes p') \<and> y \<noteq> [] \<and> py_strip y = y" if "(k, y) \<in> set (pk_results p')" for k y
      using that set_dupdate_subset [of "pk_results p" out] ok assms(1,2,4)
      by (auto simp: results_ok_def clean_results_def missing_scenes_def)
    ultimately show ?thesis by (auto simp: results_ok_def)
  qed
  moreover have "usage_ok p' = usage_ok p" using assms(3) by (simp add: usage_ok_def)
  ultimately show ?thesis
    using keys assms(2,4) by (auto simp: gains_def dget_dupdate_None [of "pk_results p" out])
qed

lemma checked_usage_ok:
  assumes "checked_usage assigned v = Inr u"
  shows "case u of None \<Rightarrow> \<not> assigned | Some (a, b, t) \<Rightarrow> 0 \<le> a \<and> 0 \<le> b \<and> a + b \<le> t"
  using assms by (auto simp: checked_usage_def usage_count_def split: if_splits option.splits json.splits)

lemma read_completion_ok:
  assumes "read_completion h kind (missing_scenes p) elapsed d p = (p', r)"
  shows "gains p p'" "pk_state p' = pk_state p" "pk_tries p' = pk_tries p" "pk_usage p' = pk_usage p" "pk_revision p' = pk_revision p"
proof -
  have "gains p p' \<and> pk_state p' = pk_state p \<and> pk_tries p' = pk_tries p \<and> pk_usage p' = pk_usage p \<and> pk_revision p' = pk_revision p"
  proof (cases "completion_text (th_repr (hc_text h)) d")
    case None
    then show ?thesis using assms by (simp add: read_completion_def)
  next
    case (Some content)
    show ?thesis
    proof (cases "parse_scene_results h content (missing_scenes p) kind")
      case (Inl e)
      then show ?thesis using assms Some by (auto simp: read_completion_def Let_def intro!: gains_fields split: if_splits)
    next
      case (Inr out)
      have "gains p (p\<lparr>pk_raw := raw, pk_results := dupdate (pk_results p) out, pk_duration := x\<rparr>)" for raw x
        using clean_parsed [OF Inr] by (rule gains_results) simp_all
      moreover have "gains p (p\<lparr>pk_raw := raw, pk_results := dupdate (pk_results p) out\<rparr>)" for raw
        using clean_parsed [OF Inr] by (rule gains_results) simp_all
      ultimately show ?thesis
        using assms Some Inr by (auto simp: read_completion_def Let_def split: if_splits sum.splits)
    qed
  qed
  then show "gains p p'" "pk_state p' = pk_state p" "pk_tries p' = pk_tries p" "pk_usage p' = pk_usage p" "pk_revision p' = pk_revision p"
    by blast+
qed

lemma gains_usage: "(case u of None \<Rightarrow> True | Some (a, b, t) \<Rightarrow> 0 \<le> a \<and> 0 \<le> b \<and> a + b \<le> t)
    \<Longrightarrow> gains p ((case u of None \<Rightarrow> p | Some x \<Rightarrow> p\<lparr>pk_usage := Some x\<rparr>)\<lparr>pk_revision := r\<rparr>)
      \<and> gains p (case u of None \<Rightarrow> p | Some x \<Rightarrow> p\<lparr>pk_usage := Some x\<rparr>)"
  by (auto simp: gains_def results_ok_def usage_ok_def split: option.splits)

lemma read_answer_ok:
  assumes "read_answer h e kind (missing_scenes p) elapsed payload p = (p', r)"
  shows "gains p p'" "pk_state p' = pk_state p" "pk_tries p' = pk_tries p" "r = None \<Longrightarrow> evidence_ok e p'"
proof -
  have "gains p p' \<and> pk_state p' = pk_state p \<and> pk_tries p' = pk_tries p \<and> (r = None \<longrightarrow> evidence_ok e p')"
  proof (cases "as_dict payload")
    case None
    then show ?thesis using assms by (auto simp: read_answer_def)
  next
    case (Some d)
    show ?thesis
    proof (cases "checked_usage (e \<noteq> None) (jget d ''usage'')")
      case (Inl x)
      then show ?thesis using assms Some by (auto simp: read_answer_def)
    next
      case (Inr u)
      let ?p1 = "case u of None \<Rightarrow> p | Some x \<Rightarrow> p\<lparr>pk_usage := Some x\<rparr>"
      let ?rev = "folded_text (th_repr (hc_text h)) (jget d ''model_revision'')"
      let ?p2 = "?p1\<lparr>pk_revision := ?rev\<rparr>"
      note u = checked_usage_ok [OF Inr]
      have g: "gains p ?p2 \<and> gains p ?p1" using u by (intro gains_usage) (auto split: option.splits)
      have miss: "missing_scenes ?p2 = missing_scenes p" by (simp add: missing_scenes_def split: option.split)
      have st: "pk_state ?p2 = pk_state p" "pk_tries ?p2 = pk_tries p" "pk_state ?p1 = pk_state p" "pk_tries ?p1 = pk_tries p"
        by (simp_all split: option.split)
      show ?thesis
      proof (cases "expected_revision e \<noteq> None \<and> ?rev \<noteq> expected_revision e")
        case True
        then have "p' = ?p1" "r \<noteq> None" using assms Some Inr by (auto simp: read_answer_def Let_def)
        then show ?thesis using g st by auto
      next
        case False
        then have "read_completion h kind (missing_scenes ?p2) elapsed d ?p2 = (p', r)"
          using assms Some Inr miss by (auto simp: read_answer_def Let_def split: if_splits)
        note rc = read_completion_ok [OF this]
        have "gains p p'" using gains_trans g rc(1) by blast
        moreover have "evidence_ok e ?p2" using False u by (cases e) (auto simp: evidence_ok_def split: option.splits)
        then have "evidence_ok e p'" using rc(4,5) by (simp add: evidence_ok_def)
        ultimately show ?thesis using rc st by simp
      qed
    qed
  qed
  then show "gains p p'" "pk_state p' = pk_state p" "pk_tries p' = pk_tries p" "r = None \<Longrightarrow> evidence_ok e p'"
    by blast+
qed

section \<open>The contract\<close>

fun work_pack :: "chat_work \<Rightarrow> nat \<times> nat" where
  "work_pack (W_match a i _ _ _) = (a, i)"
| "work_pack (W_turn a i _) = (a, i)"
| "work_pack (W_memory a i _ _) = (a, i)"

fun work_studios :: "chat_work \<Rightarrow> studio set" where
  \<comment> \<open>the studios that passed the first checks and may still get the pack\<close>
  "work_studios (W_match _ _ _ studios found) = set (take 1 studios) \<union> set found"
| "work_studios (W_turn _ _ studios) = set studios"
| "work_studios (W_memory _ _ s studios) = insert s (set studios)"

definition same_task :: "(chat_task \<Rightarrow> chat_task) \<Rightarrow> bool" where
  "same_task g \<longleftrightarrow> (\<forall>t. chat_key (g t) = chat_key t \<and> ct_studio (g t) = ct_studio t \<and> ct_owner (g t) = ct_owner t
     \<and> ct_stage (g t) = ct_stage t)"

definition stage_fits :: "chat_stage \<Rightarrow> scene_pack \<Rightarrow> bool" where
  "stage_fits stage p = (case stage of C_asking _ missing _ \<Rightarrow> missing = missing_scenes p | _ \<Rightarrow> True)"

definition ordinary :: "chat_op \<Rightarrow> bool" where
  \<comment> \<open>neither the end nor the start of the process\<close>
  "ordinary e = (case e of Stop_lane \<Rightarrow> False | Restart_chat _ \<Rightarrow> False | _ \<Rightarrow> True)"

definition leaks :: "chat_op \<Rightarrow> chat_state \<Rightarrow> bool" where
  \<comment> \<open>a task is cancelled before its first step\<close>
  "leaks e st = (case e of
       Interrupted k _ \<Rightarrow> (case select_first (\<lambda>t. chat_key t = k) (ch_tasks st) of
         None \<Rightarrow> False | Some t \<Rightarrow> ct_cancel t \<and> ct_stage t = C_new)
     | _ \<Rightarrow> False)"

definition rivals_only :: "(string \<Rightarrow> bool) \<Rightarrow> chat_op \<Rightarrow> bool" where
  \<comment> \<open>another lane that takes or gives back a machine here is one of \<open>rivals\<close>\<close>
  "rivals_only rivals e = (case e of
       Other_acquires _ _ owner \<Rightarrow> (foreign_owner owner \<longrightarrow> rivals owner)
     | Other_releases _ owner \<Rightarrow> (foreign_owner owner \<longrightarrow> rivals owner)
     | _ \<Rightarrow> True)"

locale lane_serves =
  fixes c :: chat_env and holds :: "chat_state \<Rightarrow> bool" and rivals :: "string \<Rightarrow> bool"
  assumes halted: "holds st \<Longrightarrow> holds (st\<lparr>ch_plan := None\<rparr>)"
    and running: "holds st \<Longrightarrow> ch_plan st = Some pl \<Longrightarrow> \<not> ch_stopping st \<and> pack_of st (work_pack (cl_work pl)) \<noteq> None"
    and planned: "\<lbrakk>holds st; \<not> ch_stopping st; chat_at st a = Some b; i \<in> set (due_packs now b); work_pack w = (a, i);
      \<And>s. s \<in> work_studios w \<Longrightarrow> chat_candidate c v st s\<rbrakk> \<Longrightarrow> holds (await rest progress w st)"
    and replanned: "\<lbrakk>holds st; ch_plan st = Some pl; work_pack w = work_pack (cl_work pl);
      \<And>s. s \<in> work_studios w \<Longrightarrow> s \<in> work_studios (cl_work pl) \<or> chat_candidate c v st s\<rbrakk>
      \<Longrightarrow> holds (await (cl_rest pl) (cl_progress pl) w st)"
    and edited: "holds st \<Longrightarrow> benign f \<Longrightarrow> holds (set_chat a f st)"
    and stored: "holds st \<Longrightarrow> holds (save_chat now a st)"
    and loaded: "holds st \<Longrightarrow> b \<in> set (ch_rows st) \<Longrightarrow> holds (st\<lparr>ch_heap := ch_heap st @ [b]\<rparr>)"
    and created: "holds st \<Longrightarrow> read_order rp env = Inr ord
      \<Longrightarrow> holds (st\<lparr>ch_heap := ch_heap st @ [new_chat bid key now ord ev]\<rparr>)"
    and remembered: "holds st \<Longrightarrow> holds (st\<lparr>ch_memory := m\<rparr>)"
    and trimmed: "holds st \<Longrightarrow> holds (st\<lparr>ch_rows := filter q (ch_rows st)\<rparr>)"
    and turned: "holds st \<Longrightarrow> holds (st\<lparr>ch_turns := ts\<rparr>)"
    and guarded: "holds st \<Longrightarrow> holds (st\<lparr>ch_fences := db\<rparr>)"
    and flagged: "holds st \<Longrightarrow> same_task g \<Longrightarrow> holds (st\<lparr>ch_tasks := map g (ch_tasks st)\<rparr>)"
    and started: "holds st \<Longrightarrow> holds (st\<lparr>ch_stopping := False\<rparr>)"
    and acquired: "\<lbrakk>holds st; rivals owner;
      acquire_external_machine reg fv bs busy machine owner (ch_leases st) = (leases, ok)\<rbrakk> \<Longrightarrow> holds (st\<lparr>ch_leases := leases\<rparr>)"
    and released: "holds st \<Longrightarrow> rivals owner
      \<Longrightarrow> holds (st\<lparr>ch_leases := release_external_machine machine owner (ch_leases st)\<rparr>)"
    and asked: "holds st \<Longrightarrow> t \<in> set (ch_tasks st) \<Longrightarrow> \<exists>p. pack_of st (chat_key t) = Some p \<and> stage_fits (ct_stage t) p"
    and staged: "\<lbrakk>holds st; t \<in> set (ch_tasks st); pack_of st (chat_key t) = Some p; stage_fits stage p\<rbrakk> \<Longrightarrow> holds (set_stage t stage st)"
    and handed: "\<lbrakk>holds st; t \<in> set (ch_tasks st); pack_of st (chat_key t) = Some p; gains p p'; pk_state p' = pk_state p;
      pk_tries p' = pk_tries p\<rbrakk> \<Longrightarrow> holds (set_stage t (C_handing e) (on_pack t (\<lambda>_. p') st))"
    and finished: "\<lbrakk>holds st; t \<in> set (ch_tasks st); chat_at st (ct_addr t) = Some b; pack_at b (ct_pack t) = Some p;
      settles_pack (ch_stopping st) (cb_execution b) p p'\<rbrakk> \<Longrightarrow> holds (finish_pack now t (on_pack t (\<lambda>_. p') st))"
    and left: "holds st \<Longrightarrow> t \<in> set (ch_tasks st) \<Longrightarrow> holds (finish_pack now t st)"
    and assigned: "\<lbrakk>holds st; ch_plan st = Some pl; cl_work pl = W_memory a i s studios; chat_at st a = Some b; pack_at b i = Some k;
      acquire_external_machine (ce_registry c) fv bs busy (st_machine s) (chat_owner (cb_id b) (pk_index k)) (ch_leases st) = (leases, True)\<rbrakk>
      \<Longrightarrow> holds (assign_pack now a i s (chat_owner (cb_id b) (pk_index k)) generation
            (st\<lparr>ch_leases := leases, ch_turns := ts, ch_plan := None\<rparr>))"
begin

lemma noted: "holds st \<Longrightarrow> holds (note_chat a n st)"
  unfolding note_chat_def by (rule edited) simp_all

lemma waited: "holds st \<Longrightarrow> holds (note_waiting b rest st)"
  unfolding note_waiting_def by (induction rest arbitrary: st) (simp_all add: edited)

lemma expired: "holds st \<Longrightarrow> expire_chat c now a st = Some (st1, over) \<Longrightarrow> holds st1"
  by (auto simp: expire_chat_def edited split: option.splits sum.splits if_splits)

lemma visited: "holds st \<Longrightarrow> \<not> ch_stopping st \<Longrightarrow> holds (visit c v now progress rest st)"
proof (induction rest arbitrary: st)
  case Nil
  then show ?case by (simp add: stop_scan_def halted)
next
  case (Cons a rest)
  show ?case
  proof (cases "expire_chat c now a st")
    case None
    then show ?thesis using Cons.prems by (simp add: stop_scan_def halted)
  next
    case (Some r)
    obtain st1 over where r: "r = (st1, over)" by (rule prod.exhaust)
    have h: "holds st1" using expired Cons.prems(1) Some r by blast
    have s: "\<not> ch_stopping st1" using Cons.prems(2) Some r
      by (auto simp: expire_chat_def split: option.splits sum.splits if_splits)
    show ?thesis
    proof (cases over)
      case True
      then show ?thesis using Cons.IH [OF stored [OF h]] Some r s by simp
    next
      case False
      show ?thesis
      proof (cases "chat_at st1 a")
        case None
        then show ?thesis using Cons.IH [OF h] Some r s False by simp
      next
        case b: (Some b)
        show ?thesis
        proof (cases "due_packs now b")
          case Nil
          then show ?thesis using Cons.IH [OF noted [OF h]] Some r s False b by (simp add: note_chat_def)
        next
          case i: (Cons i js)
          show ?thesis
          proof (cases "dropWhile (\<lambda>s. \<not> chat_candidate c v st1 s) (ce_registry c)")
            case Nil
            then show ?thesis using Cons.IH [OF noted [OF h]] Some r s False b i
              by (simp add: note_chat_def del: dropWhile_eq_Nil_conv)
          next
            case d: (Cons x xs)
            then have x: "chat_candidate c v st1 x" by (metis dropWhile_eq_Cons_conv)
            have "holds (await rest progress (W_match a i (required_tokens now b) (x # xs) []) st1)"
              by (rule planned [OF h s b, where now = now]) (use i x in auto)
            then show ?thesis using Some r False b i d by simp
          qed
        qed
      qed
    qed
  qed
qed

lemma visit_stopping: "ch_stopping (visit c v now progress rest st) = ch_stopping st"
proof (induction rest arbitrary: st)
  case Nil
  then show ?case by (simp add: stop_scan_def)
next
  case (Cons a rest)
  have e: "ch_stopping st1 = ch_stopping st" if "expire_chat c now a st = Some (st1, over)" for st1 over
    using that by (auto simp: expire_chat_def split: option.splits sum.splits if_splits)
  show ?case
    using e by (auto simp: Cons.IH stop_scan_def await_def note_chat_def split: option.split bool.split list.split)
qed

lemma scanned: "holds st \<Longrightarrow> \<not> ch_stopping st \<Longrightarrow> holds (scan_on c v now progress rest st)"
  by (simp add: scan_on_def Let_def visited visit_stopping)

lemma scan_started: "holds st \<Longrightarrow> holds (start_scan c v now st)"
  by (simp add: start_scan_def visited)

lemma plan_note [simp]: "ch_plan (note_chat a n st) = ch_plan st" "ch_stopping (note_chat a n st) = ch_stopping st"
  by (simp_all add: note_chat_def)

lemma matched: "holds st \<Longrightarrow> holds (answer_match c v now models st)"
proof -
  assume h: "holds st"
  show ?thesis
  proof (cases "\<exists>p a i required s studios found b. ch_plan st = Some p \<and> cl_work p = W_match a i required (s # studios) found
      \<and> chat_at st a = Some b")
    case False
    then have "answer_match c v now models st = st"
      by (auto simp: answer_match_def split: option.split chat_work.split list.split)
    then show ?thesis using h by simp
  next
    case True
    then obtain p a i required s studios found b where p: "ch_plan st = Some p"
      and w: "cl_work p = W_match a i required (s # studios) found" and b: "chat_at st a = Some b" by blast
    define found1 where "found1 = (if entry_fits (th_repr (hc_text (ce_host c))) (cb_execution b) required (entry_for (cb_model b) models)
                          then found @ [s] else found)"
    have f1: "set found1 \<subseteq> work_studios (cl_work p)" by (auto simp: found1_def w)
    have ns: "\<not> ch_stopping st" using running h p by blast
    have eq: "answer_match c v now models st = (case dropWhile (\<lambda>s. \<not> chat_candidate c v st s) studios of
        [] \<Rightarrow> if found1 = [] then scan_on c v now (cl_progress p) (cl_rest p) (note_chat a (Some waiting_for_studio) st)
              else await (cl_rest p) (cl_progress p)
                (W_turn a i (sort_key (\<lambda>s. (studio_total_memory_gb (vw_fleet v) s, st_id s)) found1)) (note_chat a None st)
      | studios1 \<Rightarrow> await (cl_rest p) (cl_progress p) (W_match a i required studios1 found1) st)"
      unfolding answer_match_def found1_def p by (simp add: w b Let_def)
    show ?thesis
    proof (cases "dropWhile (\<lambda>s. \<not> chat_candidate c v st s) studios")
      case Nil
      note n = noted [OF h]
      have "holds (await (cl_rest p) (cl_progress p)
          (W_turn a i (sort_key (\<lambda>s. (studio_total_memory_gb (vw_fleet v) s, st_id s)) found1)) (note_chat a None st))"
        by (rule replanned [OF n]) (use p w f1 in auto)
      then show ?thesis unfolding eq Nil using scanned [OF n] ns by simp
    next
      case (Cons x xs)
      then have x: "chat_candidate c v st x" by (metis dropWhile_eq_Cons_conv)
      have "holds (await (cl_rest p) (cl_progress p) (W_match a i required (x # xs) found1) st)"
        by (rule replanned [OF h p]) (use w f1 x in auto)
      then show ?thesis unfolding eq Cons by simp
    qed
  qed
qed

lemma next_tried:
  assumes "holds st" "ch_plan st = Some p" "work_pack (cl_work p) = (a, i)" "set studios \<subseteq> work_studios (cl_work p)"
  shows "holds (next_studio c v now p a i studios st)"
proof -
  have "\<not> ch_stopping st" using running assms(1,2) by blast
  moreover have "holds (await (cl_rest p) (cl_progress p) (W_turn a i studios) st)"
    by (rule replanned [OF assms(1,2)]) (use assms(3,4) in auto)
  ultimately show ?thesis using scanned [OF assms(1)] by (simp add: next_studio_def)
qed

lemma turn_answered: "holds st \<Longrightarrow> holds (answer_turn c v now other st)"
proof -
  assume h: "holds st"
  show ?thesis
  proof (cases "\<exists>p a i s studios. ch_plan st = Some p \<and> cl_work p = W_turn a i (s # studios)")
    case False
    then have "answer_turn c v now other st = st"
      by (auto simp: answer_turn_def split: option.split chat_work.split list.split)
    then show ?thesis using h by simp
  next
    case True
    then obtain p a i s studios where p: "ch_plan st = Some p" and w: "cl_work p = W_turn a i (s # studios)" by blast
    have "holds (await (cl_rest p) (cl_progress p) (W_memory a i s studios) st)"
      by (rule replanned [OF h p]) (use w in auto)
    moreover have "holds (next_studio c v now p a i studios st)" by (rule next_tried [OF h p]) (use w in auto)
    ultimately show ?thesis using p w by (simp add: answer_turn_def)
  qed
qed

lemma memory_answered: "holds st \<Longrightarrow> holds (answer_memory c v now run note generation st)"
proof -
  assume h: "holds st"
  show ?thesis
  proof (cases "\<exists>p a i s studios. ch_plan st = Some p \<and> cl_work p = W_memory a i s studios")
    case False
    then have "answer_memory c v now run note generation st = st"
      by (auto simp: answer_memory_def split: option.split chat_work.split)
    then show ?thesis using h by simp
  next
    case True
    then obtain p a i s studios where p: "ch_plan st = Some p" and w: "cl_work p = W_memory a i s studios" by blast
    have "pack_of st (a, i) \<noteq> None" using running [OF h p] w by simp
    then obtain b k where b: "chat_at st a = Some b" and k: "pack_at b i = Some k"
      by (auto simp: pack_of_def split: Option.bind_splits)
    let ?owner = "chat_owner (cb_id b) (pk_index k)"
    obtain leases held where acq: "acquire_external_machine (ce_registry c) (vw_fleet v) (vw_broker_batches v)
        (vw_broker_busy v) (st_machine s) ?owner (ch_leases st) = (leases, held)" by (rule prod.exhaust)
    have ns: "\<not> ch_stopping st" using running h p by blast
    have blocked: "holds (next_studio c v now p a i studios (note_chat a n (st\<lparr>ch_turns := ts\<rparr>)))" for n ts
      by (rule next_tried [OF noted [OF turned [OF h]]]) (use p w in auto)
    have skipped: "holds (next_studio c v now p a i studios st)" by (rule next_tried [OF h p]) (use w in auto)
    have given: "holds (scan_on c v now True (cl_rest p) (note_waiting b (cl_rest p) (assign_pack now a i s ?owner generation
        (st\<lparr>ch_leases := leases, ch_turns := ts, ch_plan := None\<rparr>))))" if "held" for ts
    proof (rule scanned)
      show "holds (note_waiting b (cl_rest p) (assign_pack now a i s ?owner generation
          (st\<lparr>ch_leases := leases, ch_turns := ts, ch_plan := None\<rparr>)))"
        using that acq by (intro waited assigned [OF h p w b k]) simp
      have "ch_stopping (note_waiting b rest u) = ch_stopping u" for rest u
        unfolding note_waiting_def by (induction rest arbitrary: u) simp_all
      then show "\<not> ch_stopping (note_waiting b (cl_rest p) (assign_pack now a i s ?owner generation
          (st\<lparr>ch_leases := leases, ch_turns := ts, ch_plan := None\<rparr>)))"
        using ns by (simp add: assign_pack_def)
    qed
    show ?thesis
      using p w b k acq blocked skipped given by (simp add: answer_memory_def Let_def)
  qed
qed

lemma task_at:
  "pack_of st (chat_key t) = Some p \<Longrightarrow> \<exists>b. chat_at st (ct_addr t) = Some b \<and> pack_at b (ct_pack t) = Some p"
  by (auto simp: pack_of_def chat_key_def split: Option.bind_splits)

lemma in_flight_pack:
  assumes "holds st" "t \<in> set (ch_tasks st)"
  obtains b p where "chat_at st (ct_addr t) = Some b" "pack_at b (ct_pack t) = Some p" "pack_of st (chat_key t) = Some p"
    "stage_fits (ct_stage t) p"
  using asked [OF assms] task_at by blast

lemma finished_as:
  assumes "holds st" "t \<in> set (ch_tasks st)" "chat_at st (ct_addr t) = Some b"
    and "\<And>p. pack_at b (ct_pack t) = Some p \<Longrightarrow> settles_pack (ch_stopping st) (cb_execution b) p (f p)"
  shows "holds (finish_pack now t (on_pack t f st))"
proof -
  obtain p where p: "pack_at b (ct_pack t) = Some p" "pack_of st (chat_key t) = Some p"
    using in_flight_pack [OF assms(1,2)] assms(3) by (metis option.inject)
  have "on_pack t f st = on_pack t (\<lambda>_. f p) st" by (rule on_pack_same [OF p(2)]) simp
  then show ?thesis using finished [OF assms(1-3) p(1) assms(4) [OF p(1)]] by simp
qed

lemma on_pack_twice: "on_pack t f (on_pack t (\<lambda>_. p) st) = on_pack t (\<lambda>_. f p) st"
  by (auto simp: on_pack_def set_chat_def chat_at_def map_pack_def pack_at_def split: option.splits)

lemma settles_failed_pack:
  assumes "gains p q" "pk_tries q \<le> pk_tries p"
  shows "settles_pack stopping e p (failed_pack now released cancelled x q)"
  using gains_trans [OF assms(1)] assms(2)
  by (auto simp: failed_pack_def settles_pack_def requeued_pack_def given_up_pack_def Let_def
      intro!: gains_trans [OF assms(1)] gains_fields)

lemma raised_after:
  assumes "holds st" "t \<in> set (ch_tasks st)" "pack_of st (chat_key t) = Some p"
    and "gains p p'" "pk_state p' = pk_state p" "pk_tries p' = pk_tries p"
  shows "holds (raise_pack now e t (on_pack t (\<lambda>_. p') st))"
proof -
  obtain b where b: "chat_at st (ct_addr t) = Some b" "pack_at b (ct_pack t) = Some p"
    using task_at assms(3) by blast
  have at_t: "chat_at (on_pack t (\<lambda>_. p') st) (ct_addr t) = Some (map_pack (ct_pack t) (\<lambda>_. p') b)"
    using b by (simp add: on_pack_def)
  have "holds (finish_pack now t (on_pack t (\<lambda>_. failed_pack now False cancelled e p') st))" for cancelled
    by (rule finished [OF assms(1,2) b]) (rule settles_failed_pack, use assms(4-6) in simp_all)
  then show ?thesis
    using handed [OF assms, of e] at_t by (simp add: raise_pack_def task_batch_def on_pack_twice)
qed

lemma on_pack_id: "on_pack t (\<lambda>_. p) st = st" if "pack_of st (chat_key t) = Some p"
  using that by (auto simp: pack_of_def on_pack_def set_chat_def chat_key_def map_pack_def pack_at_def chat_at_def
      split: if_splits Option.bind_splits option.splits)

lemma raised: "holds st \<Longrightarrow> t \<in> set (ch_tasks st) \<Longrightarrow> holds (raise_pack now e t st)"
  using raised_after [where p' = p and p = p for p] on_pack_id asked by (metis gains_refl)

lemma handover: "holds st \<Longrightarrow> t \<in> set (ch_tasks st) \<Longrightarrow> holds (handed_pack now released t st)"
  by (auto simp: handed_pack_def task_batch_def intro!: finished_as settles_failed_pack gains_fields
      split: chat_stage.split option.split)

lemma expired_fields:
  assumes "expire_chat c now a st = Some (st1, over)"
  shows "ch_tasks st1 = ch_tasks st" "ch_stopping st1 = ch_stopping st"
  using assms by (auto simp: expire_chat_def split: option.splits sum.splits if_splits)

lemma begun: "holds st \<Longrightarrow> t \<in> set (ch_tasks st) \<Longrightarrow> holds (begin_pack c v now t st)"
proof -
  assume h: "holds st" and t: "t \<in> set (ch_tasks st)"
  show ?thesis
  proof (cases "expire_chat c now (ct_addr t) st")
    case None
    then show ?thesis using raised [OF h t] by (simp add: begin_pack_def)
  next
    case (Some r)
    obtain st1 over where r: "r = (st1, over)" by (rule prod.exhaust)
    have h1: "holds st1" and t1: "t \<in> set (ch_tasks st1)"
      using expired [OF h] expired_fields t Some r by auto
    obtain b p where b: "chat_at st1 (ct_addr t) = Some b" "pack_at b (ct_pack t) = Some p"
      and p: "pack_of st1 (chat_key t) = Some p" using in_flight_pack [OF h1 t1] by metis
    have "holds (finish_pack now t (on_pack t (\<lambda>p. (requeued_pack ''worker authentication changed before dispatch'' p)
        \<lparr>pk_tries := pk_tries p - 1\<rparr>) st1))"
      by (rule finished_as [OF h1 t1 b(1)])
         (auto simp: settles_pack_def requeued_pack_def max_pack_tries_def intro!: gains_fields)
    moreover have "holds (set_stage t (C_asking now (missing_scenes p) ms) st1)" for ms
      by (rule staged [OF h1 t1 p]) (simp add: stage_fits_def)
    ultimately show ?thesis
      using left [OF h1 t1] Some r b by (cases over) (simp_all add: begin_pack_def task_batch_def)
  qed
qed

lemma settles_settled:
  assumes "gains p q" "pk_tries q = pk_tries p" "evidence_ok e q"
  shows "settles_pack stopping e p (settled_pack now cancelled q)"
  using assms
  by (auto simp: settles_pack_def settled_pack_def requeued_pack_def given_up_pack_def Let_def missing_scenes_def evidence_ok_def
      intro!: gains_trans [OF assms(1)] gains_fields)

lemma answered: "holds st \<Longrightarrow> t \<in> set (ch_tasks st) \<Longrightarrow> holds (answer_pack c now payload t st)"
proof -
  assume h: "holds st" and t: "t \<in> set (ch_tasks st)"
  show ?thesis
  proof (cases "expire_chat c now (ct_addr t) st")
    case None
    then show ?thesis using raised [OF h t] by (simp add: answer_pack_def)
  next
    case (Some r)
    obtain st1 over where r: "r = (st1, over)" by (rule prod.exhaust)
    have h1: "holds st1" and t1: "t \<in> set (ch_tasks st1)"
      using expired [OF h] expired_fields t Some r by auto
    show ?thesis
    proof (cases "\<not> over \<and> (\<exists>s m ms. ct_stage t = C_asking s m ms)")
      case False
      then show ?thesis
        using left [OF h1 t1] h1 Some r by (cases over) (auto simp: answer_pack_def split: chat_stage.split option.split)
    next
      case True
      then obtain s m ms where st: "ct_stage t = C_asking s m ms" by blast
      obtain b p where b: "chat_at st1 (ct_addr t) = Some b" "pack_at b (ct_pack t) = Some p"
        and p: "pack_of st1 (chat_key t) = Some p" "stage_fits (ct_stage t) p" using in_flight_pack [OF h1 t1] by metis
      have m: "m = missing_scenes p" using p(2) st by (simp add: stage_fits_def)
      obtain p1 x where ra: "read_answer (ce_host c) (cb_execution b) (cb_kind b) (missing_scenes p) (now - s) payload p = (p1, x)"
        by (rule prod.exhaust)
      note ok = read_answer_ok [OF ra]
      have "holds (finish_pack now t (on_pack t (\<lambda>_. settled_pack now (cb_cancelled b) p1) st1))" if "x = None"
        by (rule finished [OF h1 t1 b]) (rule settles_settled [OF ok(1,3) ok(4) [OF that]])
      moreover have "holds (raise_pack now e t (on_pack t (\<lambda>_. p1) st1))" for e
        by (rule raised_after [OF h1 t1 p(1) ok(1-3)])
      ultimately show ?thesis
        using Some r True st b ra m by (cases x) (simp_all add: answer_pack_def task_batch_def)
    qed
  qed
qed

lemma interrupted:
  assumes "holds st" "t \<in> set (ch_tasks st)" "ct_stage t \<noteq> C_new"
  shows "holds (interrupt_task now t st)"
  using assms(3) left [OF assms(1,2)] assms(1)
  by (auto simp: interrupt_task_def task_batch_def settles_pack_def requeued_pack_def
      intro!: finished_as [OF assms(1,2)] gains_fields split: chat_stage.split option.split)

lemma fetched: "holds st \<Longrightarrow> get_chat bid st = Some (a, st1) \<Longrightarrow> holds st1"
proof -
  assume h: "holds st" and g: "get_chat bid st = Some (a, st1)"
  have "holds (st\<lparr>ch_heap := ch_heap st @ [b]\<rparr>)" if "load_rows q st = b # bs" for q b bs
  proof -
    have "b \<in> set (load_rows q st)" using that by simp
    then show ?thesis using loaded [OF h] by (simp add: load_rows_def)
  qed
  then show ?thesis using g h by (auto simp: get_chat_def new_object_def split: option.splits list.splits)
qed

lemma remembered_default: "holds st \<Longrightarrow> holds (remember_default bid a st)"
  by (simp add: remember_default_def remember_chat_def remembered)

lemma placed: "holds st \<Longrightarrow> holds (snd (place_order c bid now prep st))"
proof -
  assume h: "holds st"
  have l: "holds (st\<lparr>ch_heap := ch_heap st @ [b]\<rparr>)" if "load_rows q st = b # bs" for q b bs
  proof -
    have "b \<in> set (load_rows q st)" using that by simp
    then show ?thesis using loaded [OF h] by (simp add: load_rows_def)
  qed
  show ?thesis
    using h by (auto simp: place_order_def Let_def new_object_def remember_chat_def split: sum.split list.split
        intro!: remembered_default l guarded stored remembered created [OF h])
qed

lemma created_step: "holds st \<Longrightarrow> holds (snd (create_chat c bid now payload st))"
  using guarded by (auto simp: create_chat_def Let_def split: option.split sum.split prod.split
      intro!: placed remembered_default dest: fetched [rotated])

lemma forgotten: "holds st \<Longrightarrow> holds (forget_tasks bid st)"
  by (simp add: forget_tasks_def update_where_def flagged same_task_def chat_key_def)

lemma cancelled_flags: "holds st \<Longrightarrow> holds (flag_tasks q st)"
  by (simp add: flag_tasks_def update_where_def flagged same_task_def chat_key_def)

lemma cancelled: "holds st \<Longrightarrow> holds (cancel_chat now bid st)"
  by (auto simp: cancel_chat_def remember_chat_def split: option.split
      intro!: stored remembered cancelled_flags edited dest: fetched)

lemma retried: "holds st \<Longrightarrow> holds (retry_chat now bid st)"
  by (auto simp: retry_chat_def remember_chat_def split: option.split intro!: stored remembered edited dest: fetched)

lemma renewed: "holds st \<Longrightarrow> holds (renew_chat now bid lease st)"
  by (auto simp: renew_chat_def remember_chat_def split: option.split intro!: stored remembered edited dest: fetched)

lemma forget_rows [simp]: "ch_rows (forget_tasks bid st) = ch_rows st" "ch_memory (forget_tasks bid st) = ch_memory st"
  by (simp_all add: forget_tasks_def)

lemma removed: "holds st \<Longrightarrow> holds (remove_chat bid st)"
proof -
  assume h: "holds st"
  have "holds ((forget_tasks bid st1)\<lparr>ch_memory := m, ch_rows := filter q (ch_rows st1)\<rparr>)" if "holds st1" for st1 m q
    using trimmed [OF remembered [OF forgotten [OF that]], where q = q] by simp
  then show ?thesis using h by (auto simp: remove_chat_def split: option.split dest: fetched)
qed

lemma cleared: "holds st \<Longrightarrow> holds (clear_terminal st)"
proof -
  assume h: "holds st"
  have f: "holds (fold forget_tasks bids st)" for bids
    using h by (induction bids arbitrary: st) (simp_all add: forgotten)
  have "ch_rows (fold forget_tasks bids st) = ch_rows st" for bids
    by (induction bids arbitrary: st) simp_all
  then show ?thesis
    using trimmed [OF remembered [OF f], where q = "\<lambda>r. \<not> terminal_batch r"] by (simp add: clear_terminal_def Let_def)
qed

lemma with_task_keeps:
  "holds st \<Longrightarrow> (\<And>t. t \<in> set (ch_tasks st) \<Longrightarrow> chat_key t = k \<Longrightarrow> select_first (\<lambda>t. chat_key t = k) (ch_tasks st) = Some t
     \<Longrightarrow> ok t \<Longrightarrow> holds (f t st)) \<Longrightarrow> holds (with_pack k ok f st)"
  by (auto simp: with_pack_def split: option.split dest: select_first_Some)

theorem step_serves:
  assumes "holds st" "ordinary e" "\<not> leaks e st" "rivals_only rivals e"
  shows "holds (chat_step c e st)"
proof (cases e)
  case (Interrupted k now)
  then show ?thesis using assms by (auto intro!: with_task_keeps interrupted simp: leaks_def)
next
  case (Other_turn machine lane)
  then show ?thesis using assms turned by (auto split: option.split)
next
  case (Other_acquires v machine owner)
  then show ?thesis using assms(1,4) acquired by (auto simp: prod_eq_iff rivals_only_def split: prod.split)
qed (use assms in \<open>auto simp: ordinary_def rivals_only_def stop_scan_def intro!: with_task_keeps created_step scan_started matched turn_answered
       memory_answered halted begun answered raised handover left cancelled retried renewed removed cleared started released guarded\<close>)

end

locale lane_serves_all = lane_serves +
  assumes dropped: "holds st \<Longrightarrow> t \<in> set (ch_tasks st) \<Longrightarrow> ct_stage t = C_new \<Longrightarrow> holds (drop_task t st)"
begin

theorem every_step_serves:
  assumes "holds st" "ordinary e" "rivals_only rivals e"
  shows "holds (chat_step c e st)"
proof (cases "leaks e st")
  case False
  then show ?thesis using step_serves assms by blast
next
  case True
  then show ?thesis using assms(1) dropped
    by (cases e) (auto simp: leaks_def with_pack_def interrupt_task_def split: option.splits dest: select_first_Some)
qed

end

text \<open>Every other lane may be a rival.\<close>

lemma rivals_only_foreign [simp]: "rivals_only foreign_owner e"
  by (simp add: rivals_only_def split: chat_op.split)

locale lane_keeps = lane_serves c holds foreign_owner for c holds
begin

lemma step_keeps: "holds st \<Longrightarrow> ordinary e \<Longrightarrow> \<not> leaks e st \<Longrightarrow> holds (chat_step c e st)"
  by (rule step_serves) simp_all

end

locale lane_keeps_all = lane_serves_all c holds foreign_owner for c holds
begin

lemma every_step_keeps: "holds st \<Longrightarrow> ordinary e \<Longrightarrow> holds (chat_step c e st)"
  by (rule every_step_serves) simp_all

end

sublocale lane_keeps_all \<subseteq> lane_keeps
  by unfold_locales

end
