(* ===== verification/Chat_Safety.thy ===== *)
theory Chat_Safety
  imports Chat_Contract
begin

text \<open>
  Invariants of the Chat lane, each an instance of the contract \<open>lane_keeps\<close>: \<open>chat_ok\<close> (what a pack holds,
  the packs in flight, the pack being placed, the bound on attempts), \<open>machines_held\<close> (one task per machine,
  which holds its lease), \<open>nothing_leaked\<close> (leases and busy studios belong to tasks) and \<open>keeps_results\<close>.
\<close>

section \<open>Packs, tasks and the plan\<close>

definition chat_pack_ok :: "nat \<Rightarrow> execution option \<Rightarrow> scene_pack \<Rightarrow> bool" where
  \<comment> \<open>\<open>R\<close>: how often the process ended so far\<close>
  "chat_pack_ok R e p \<longleftrightarrow> results_ok p \<and> usage_ok p \<and> pk_tries p \<le> max_pack_tries + R
     \<and> (pk_state p = P_queued \<longrightarrow> pk_tries p < max_pack_tries + R)
     \<and> (pk_state p = P_done \<longrightarrow> missing_scenes p = [] \<and> evidence_ok e p)"

definition chat_batch_ok :: "nat \<Rightarrow> chat_batch \<Rightarrow> bool" where
  "chat_batch_ok R b \<longleftrightarrow> list_all (chat_pack_ok R (cb_execution b)) (cb_packs b)"

definition flight_ok :: "chat_state \<Rightarrow> chat_task \<Rightarrow> bool" where
  "flight_ok st t \<longleftrightarrow> (\<exists>p. pack_of st (chat_key t) = Some p \<and> pk_state p \<in> {P_running, P_cancelled} \<and> stage_fits (ct_stage t) p)"

definition target_ok :: "nat \<Rightarrow> chat_state \<Rightarrow> nat \<times> nat \<Rightarrow> bool" where
  "target_ok R st k \<longleftrightarrow> k \<notin> chat_key ` set (ch_tasks st)
     \<and> (\<exists>p. pack_of st k = Some p \<and> pk_state p \<in> {P_queued, P_cancelled} \<and> pk_tries p < max_pack_tries + R)"

definition stopping_ok :: "nat \<Rightarrow> chat_state \<Rightarrow> bool" where
  "stopping_ok R st \<longleftrightarrow> (ch_stopping st \<longrightarrow> ch_plan st = None
     \<and> (\<forall>k\<in>chat_key ` set (ch_tasks st). \<forall>p. pack_of st k = Some p \<longrightarrow> pk_tries p < max_pack_tries + R))"

definition chat_ok :: "nat \<Rightarrow> chat_state \<Rightarrow> bool" where
  "chat_ok R st \<longleftrightarrow> (\<forall>b\<in>set (ch_heap st) \<union> set (ch_rows st). chat_batch_ok R b)
     \<and> distinct (map chat_key (ch_tasks st)) \<and> (\<forall>t\<in>set (ch_tasks st). flight_ok st t)
     \<and> (\<forall>pl. ch_plan st = Some pl \<longrightarrow> target_ok R st (work_pack (cl_work pl))) \<and> stopping_ok R st"

lemma batch_pack_ok: "chat_batch_ok R b \<Longrightarrow> pack_at b i = Some p \<Longrightarrow> chat_pack_ok R (cb_execution b) p"
  by (auto simp: chat_batch_ok_def pack_at_def list_all_length split: if_splits)

lemma chat_at_ok: "chat_ok R st \<Longrightarrow> chat_at st a = Some b \<Longrightarrow> chat_batch_ok R b"
  by (auto simp: chat_ok_def chat_at_def split: if_splits)

lemma evidence_same:
  assumes "Option.bind e' ex_job = Option.bind e ex_job" "expected_revision e' = expected_revision e"
    and "pk_usage p' = pk_usage p" "pk_revision p' = pk_revision p"
  shows "evidence_ok e' p' = evidence_ok e p"
  using assms by (simp add: evidence_ok_def)

lemma calm_pack_ok:
  assumes "chat_pack_ok R e p" "calm_pack p p'"
    and "Option.bind e' ex_job = Option.bind e ex_job" "expected_revision e' = expected_revision e"
  shows "chat_pack_ok R e' p'"
proof -
  have s: "results_ok p' = results_ok p" "usage_ok p' = usage_ok p" "missing_scenes p' = missing_scenes p"
    "evidence_ok e' p' = evidence_ok e p"
    using assms(2) evidence_same [OF assms(3,4), of p' p]
    by (simp_all add: calm_pack_def results_ok_def usage_ok_def missing_scenes_def)
  then show ?thesis using assms(1,2) by (auto simp: chat_pack_ok_def calm_pack_def max_pack_tries_def)
qed

lemma benignD:
  assumes "benign f"
  shows "list_all2 calm_pack (cb_packs b) (cb_packs (f b))"
    "Option.bind (cb_execution (f b)) ex_job = Option.bind (cb_execution b) ex_job"
    "expected_revision (cb_execution (f b)) = expected_revision (cb_execution b)"
  using assms unfolding benign_def by blast+

lemma benign_pack_at: "benign f \<Longrightarrow> pack_at b i = Some p \<Longrightarrow> \<exists>p'. pack_at (f b) i = Some p' \<and> calm_pack p p'"
  using benignD(1) [of f b] by (auto simp: pack_at_def list_all2_conv_all_nth split: if_splits)

lemma benign_batch_ok:
  assumes "chat_batch_ok R b" "benign f"
  shows "chat_batch_ok R (f b)"
proof -
  have "chat_pack_ok R (cb_execution (f b)) (cb_packs (f b) ! i)" if "i < length (cb_packs (f b))" for i
    by (rule calm_pack_ok [OF _ _ benignD(2,3) [OF assms(2)]])
       (use that assms(1) benignD(1) [OF assms(2), of b] in \<open>auto simp: chat_batch_ok_def list_all_length list_all2_conv_all_nth\<close>)
  then show ?thesis by (simp add: chat_batch_ok_def list_all_length)
qed

lemma saved_batch_ok [simp]: "chat_batch_ok R (saved_chat now b) = chat_batch_ok R b"
  by (simp add: chat_batch_ok_def)

lemma heap_set:
  assumes "b \<in> set (ch_heap (set_chat a f st))"
  obtains "b \<in> set (ch_heap st)" | b0 where "chat_at st a = Some b0" "b = f b0"
  using assms by (auto simp: set_chat_def chat_at_def in_set_conv_nth nth_list_update split: if_splits)

text \<open>What an edit may do to a pack that is in flight or being placed.\<close>

definition flight_calm :: "scene_pack \<Rightarrow> scene_pack \<Rightarrow> bool" where
  "flight_calm p p' \<longleftrightarrow> (pk_state p \<in> {P_queued, P_running, P_cancelled} \<longrightarrow>
     pk_results p' = pk_results p \<and> pk_scenes p' = pk_scenes p \<and> pk_tries p' = pk_tries p
     \<and> (pk_state p' = pk_state p \<or> pk_state p' = P_cancelled))"

lemma stage_fits_calm: "flight_calm p p' \<Longrightarrow> pk_state p \<in> {P_running, P_cancelled} \<Longrightarrow> stage_fits s p' = stage_fits s p"
  by (auto simp: flight_calm_def stage_fits_def missing_scenes_def split: chat_stage.splits)

lemma chat_ok_transfer:
  assumes ok: "chat_ok R st"
    and batches: "\<forall>b\<in>set (ch_heap st') \<union> set (ch_rows st'). chat_batch_ok R b"
    and tasks: "map (\<lambda>t. (chat_key t, ct_stage t)) (ch_tasks st') = map (\<lambda>t. (chat_key t, ct_stage t)) (ch_tasks st)"
    and plan: "ch_plan st' = ch_plan st" and stop: "ch_stopping st' = ch_stopping st"
    and packs: "\<And>k p. pack_of st k = Some p \<Longrightarrow> \<exists>p'. pack_of st' k = Some p' \<and> flight_calm p p'"
  shows "chat_ok R st'"
proof -
  have keys: "map chat_key (ch_tasks st') = map chat_key (ch_tasks st)"
    using arg_cong [OF tasks, of "map fst"] by (simp add: o_def)
  have old: "\<exists>u\<in>set (ch_tasks st). chat_key u = chat_key t \<and> ct_stage u = ct_stage t" if "t \<in> set (ch_tasks st')" for t
  proof -
    have "(chat_key t, ct_stage t) \<in> set (map (\<lambda>t. (chat_key t, ct_stage t)) (ch_tasks st'))" using that by auto
    then show ?thesis unfolding tasks by auto
  qed
  have "flight_ok st' t" if "t \<in> set (ch_tasks st')" for t
  proof -
    from old [OF that] obtain u where u: "u \<in> set (ch_tasks st)" "chat_key u = chat_key t" "ct_stage u = ct_stage t" by blast
    then obtain p where p: "pack_of st (chat_key t) = Some p" "pk_state p \<in> {P_running, P_cancelled}" "stage_fits (ct_stage t) p"
      using ok by (force simp: chat_ok_def flight_ok_def)
    obtain p' where p': "pack_of st' (chat_key t) = Some p'" "flight_calm p p'" using packs p(1) by blast
    then have "pk_state p' \<in> {P_running, P_cancelled}" using p(2) by (auto simp: flight_calm_def)
    moreover have "stage_fits (ct_stage t) p'" using stage_fits_calm [OF p'(2) p(2)] p(3) by simp
    ultimately show ?thesis using p'(1) unfolding flight_ok_def by blast
  qed
  moreover have "target_ok R st' k" if tk: "target_ok R st k" for k
  proof -
    obtain p where p: "pack_of st k = Some p" "pk_state p \<in> {P_queued, P_cancelled}" "pk_tries p < max_pack_tries + R"
      using tk by (auto simp: target_ok_def)
    obtain p' where p': "pack_of st' k = Some p'" "flight_calm p p'" using packs p(1) by blast
    then have "pk_state p' \<in> {P_queued, P_cancelled}" "pk_tries p' < max_pack_tries + R"
      using p(2,3) by (auto simp: flight_calm_def)
    moreover have "chat_key ` set (ch_tasks st') = chat_key ` set (ch_tasks st)" using keys by (metis list.set_map)
    ultimately show ?thesis using tk p'(1) by (simp add: target_ok_def)
  qed
  moreover have "stopping_ok R st'"
    unfolding stopping_ok_def
  proof (intro impI conjI ballI allI)
    assume s: "ch_stopping st'"
    then show "ch_plan st' = None" using ok plan stop by (simp add: chat_ok_def stopping_ok_def)
    fix k p' assume "k \<in> chat_key ` set (ch_tasks st')" and pk: "pack_of st' k = Some p'"
    then obtain t where t: "t \<in> set (ch_tasks st')" and k: "k = chat_key t" by blast
    have p': "pack_of st' (chat_key t) = Some p'" using pk k by simp
    from old [OF t] obtain u where u: "u \<in> set (ch_tasks st)" "chat_key u = chat_key t" by blast
    then obtain p where p: "pack_of st (chat_key t) = Some p" "pk_state p \<in> {P_running, P_cancelled}"
      using ok by (force simp: chat_ok_def flight_ok_def)
    have "pk_tries p < max_pack_tries + R" using ok s stop u p(1) by (force simp: chat_ok_def stopping_ok_def)
    moreover have "pk_tries p' = pk_tries p" using packs [OF p(1)] p' p(2) by (auto simp: flight_calm_def)
    ultimately show "pk_tries p' < max_pack_tries + R" by simp
  qed
  ultimately show ?thesis
    using ok batches keys plan by (simp add: chat_ok_def)
qed

lemma chat_ok_frame:
  assumes "chat_ok R st" "set (ch_heap st') = set (ch_heap st)" "set (ch_rows st') \<subseteq> set (ch_rows st)"
    and "map (\<lambda>t. (chat_key t, ct_stage t)) (ch_tasks st') = map (\<lambda>t. (chat_key t, ct_stage t)) (ch_tasks st)"
    and "ch_plan st' = ch_plan st" "ch_stopping st' = ch_stopping st" "pack_of st' = pack_of st"
  shows "chat_ok R st'"
  using assms by (intro chat_ok_transfer [OF assms(1)]) (auto simp: chat_ok_def flight_calm_def)

lemma pack_of_edit:
  assumes "pack_of st k = Some p" "benign f"
  shows "\<exists>p'. pack_of (set_chat a f st) k = Some p' \<and> calm_pack p p'"
  using assms benign_pack_at [OF assms(2)] by (auto simp: pack_of_def split: Option.bind_splits)

lemma calm_flight: "calm_pack p p' \<Longrightarrow> flight_calm p p'"
  by (auto simp: calm_pack_def flight_calm_def)

lemma ok_edited: "chat_ok R st \<Longrightarrow> benign f \<Longrightarrow> chat_ok R (set_chat a f st)"
proof (rule chat_ok_transfer)
  assume ok: "chat_ok R st" and f: "benign f"
  show "\<forall>b\<in>set (ch_heap (set_chat a f st)) \<union> set (ch_rows (set_chat a f st)). chat_batch_ok R b"
    using ok f chat_at_ok [OF ok] benign_batch_ok by (auto simp: chat_ok_def elim!: heap_set)
  show "\<exists>p'. pack_of (set_chat a f st) k = Some p' \<and> flight_calm p p'" if "pack_of st k = Some p" for k p
    using pack_of_edit [OF that f] calm_flight by blast
qed simp_all

lemma ok_stored: "chat_ok R st \<Longrightarrow> chat_ok R (save_chat now a st)"
proof (rule chat_ok_transfer)
  assume ok: "chat_ok R st"
  show "\<forall>b\<in>set (ch_heap (save_chat now a st)) \<union> set (ch_rows (save_chat now a st)). chat_batch_ok R b"
    using ok chat_at_ok [OF ok, of a]
    by (auto simp: chat_ok_def save_chat_def split: option.split elim!: heap_set)
  show "\<exists>p'. pack_of (save_chat now a st) k = Some p' \<and> flight_calm p p'" if "pack_of st k = Some p" for k p
    using that by (simp add: flight_calm_def)
qed simp_all

lemma pack_of_append: "pack_of st k = Some p \<Longrightarrow> pack_of (st\<lparr>ch_heap := ch_heap st @ [b]\<rparr>) k = Some p"
  by (auto simp: pack_of_def chat_at_def nth_append split: Option.bind_splits if_splits)

lemma ok_appended: "chat_ok R st \<Longrightarrow> chat_batch_ok R b \<Longrightarrow> chat_ok R (st\<lparr>ch_heap := ch_heap st @ [b]\<rparr>)"
  by (rule chat_ok_transfer) (auto simp: chat_ok_def flight_calm_def dest: pack_of_append)

lemma fresh_pack_ok: "chat_pack_ok R e (fresh_pack index pid scenes ms params)"
  by (simp add: chat_pack_ok_def fresh_pack_def results_ok_def usage_ok_def max_pack_tries_def)

lemma read_scenes_length: "read_scenes rp vs = Inr scenes \<Longrightarrow> length scenes = length vs"
  by (induction vs arbitrary: scenes) (auto simp: bind_err_Inr)

lemma read_pack_Inr:
  assumes "read_pack rp kind index seen v = Inr p"
  shows "\<exists>pid scenes ms params. p = fresh_pack index pid scenes ms params \<and> scenes \<noteq> []
     \<and> length scenes \<le> max_scenes_per_pack \<and> distinct scenes \<and> set scenes \<inter> set seen = {}"
proof -
  have bind: "\<exists>x. m = Inr x \<and> f x = Inr r" if "bind_err m f = Inr r" for m :: "chat_error + 'a" and f and r :: "scene_pack"
    using that by (auto simp: bind_err_Inr)
  obtain raw where raw: "as_dict v = Some raw" using assms by (auto simp: read_pack_def split: option.splits)
  note step = assms [unfolded read_pack_def raw option.case, THEN bind]
  obtain vs where vs: "jget raw ''scene_ids'' = JList vs" using step by (cases "jget raw ''scene_ids''") simp_all
  then have n: "vs \<noteq> []" "length vs \<le> max_scenes_per_pack" using step by (auto split: if_split_asm)
  from step vs obtain pid where "bind_err (read_scenes rp vs) (\<lambda>scenes.
      if kind = ''completion'' \<and> length scenes \<noteq> 1 then Inl Completion_scenes
      else if \<not> distinct scenes then Inl (Repeated_scene pid)
      else (case sort (filter (\<lambda>s. s \<in> set seen) scenes) of
          s # _ \<Rightarrow> Inl (Scene_twice s)
        | [] \<Rightarrow> bind_err (chat_messages (jget raw ''messages'')) (\<lambda>ms.
                bind_err (chat_params (jget raw ''params'')) (\<lambda>params. Inr (fresh_pack index pid scenes ms params))))) = Inr p"
    by (auto split: if_split_asm)
  from bind [OF this] obtain scenes where sc: "read_scenes rp vs = Inr scenes" "distinct scenes"
      "sort (filter (\<lambda>s. s \<in> set seen) scenes) = []"
    and "bind_err (chat_messages (jget raw ''messages'')) (\<lambda>ms.
      bind_err (chat_params (jget raw ''params'')) (\<lambda>params. Inr (fresh_pack index pid scenes ms params))) = Inr p"
    by (auto split: if_split_asm list.split_asm)
  then obtain ms params where p: "p = fresh_pack index pid scenes ms params" by (auto simp: bind_err_Inr)
  have "set (sort (filter (\<lambda>s. s \<in> set seen) scenes)) = {}" using sc(3) by simp
  then have "set scenes \<inter> set seen = {}" by auto
  moreover have "scenes \<noteq> []" "length scenes \<le> max_scenes_per_pack" using read_scenes_length [OF sc(1)] n by auto
  ultimately show ?thesis using p sc(2) by blast
qed

lemma read_packs_fresh:
  "read_packs rp kind index seen vs = Inr ps \<Longrightarrow> p \<in> set ps \<Longrightarrow> \<exists>n pid scenes ms params. p = fresh_pack n pid scenes ms params"
proof (induction vs arbitrary: index seen ps)
  case (Cons v vs)
  from Cons.prems obtain q qs where q: "read_pack rp kind index seen v = Inr q"
    "read_packs rp kind (Suc index) (seen @ pk_scenes q) vs = Inr qs" "ps = q # qs"
    by (auto simp: bind_err_Inr)
  show ?case
  proof (cases "p = q")
    case True
    then show ?thesis using read_pack_Inr [OF q(1)] by blast
  next
    case False
    then show ?thesis using Cons.IH [OF q(2)] Cons.prems(2) q(3) by simp
  qed
qed simp

lemma read_order_packs:
  "read_order rp payload = Inr ord \<Longrightarrow> \<exists>kind vs. read_packs rp kind 0 [] vs = Inr (co_packs ord)"
  by (fastforce simp: read_order_def bind_err_Inr Let_def split: json.splits if_splits)

lemma order_ok: "read_order rp payload = Inr ord \<Longrightarrow> chat_batch_ok R (new_chat bid key now ord ev)"
  using read_order_packs [of rp payload ord] read_packs_fresh fresh_pack_ok
  by (fastforce simp: chat_batch_ok_def new_chat_def list_all_iff)

lemma due_queued:
  assumes "i \<in> set (due_packs now b)"
  obtains p where "pack_at b i = Some p" "pk_state p = P_queued"
  using assms by (auto simp: due_packs_def due_def pack_at_def in_set_enumerate_eq)

lemma key_unique:
  "distinct (map chat_key ts) \<Longrightarrow> t \<in> set ts \<Longrightarrow> u \<in> set ts \<Longrightarrow> chat_key t = chat_key u \<Longrightarrow> t = u"
  by (metis distinct_map inj_on_eq_iff)

lemma set_chat_heap_ok:
  assumes "\<forall>b\<in>set (ch_heap st). chat_batch_ok R b" "\<And>b. chat_at st a = Some b \<Longrightarrow> chat_batch_ok R (f b)"
  shows "\<forall>b\<in>set (ch_heap (set_chat a f st)). chat_batch_ok R b"
  using assms by (auto elim!: heap_set)

lemma map_pack_ok:
  assumes "chat_batch_ok R b" "\<And>p. pack_at b i = Some p \<Longrightarrow> chat_pack_ok R (cb_execution b) (f p)"
  shows "chat_batch_ok R (map_pack i f b)"
  using assms by (auto simp: chat_batch_ok_def map_pack_def pack_at_def list_all_length nth_list_update split: if_splits)

lemma on_pack_heap_ok:
  assumes "chat_ok R st" "\<And>b p. chat_at st (ct_addr t) = Some b \<Longrightarrow> pack_at b (ct_pack t) = Some p \<Longrightarrow> chat_pack_ok R (cb_execution b) (f p)"
  shows "\<forall>b\<in>set (ch_heap (on_pack t f st)). chat_batch_ok R b"
  unfolding on_pack_def
proof (rule set_chat_heap_ok)
  show "\<forall>b\<in>set (ch_heap st). chat_batch_ok R b" using assms(1) by (auto simp: chat_ok_def)
  show "chat_batch_ok R (map_pack (ct_pack t) f b)" if "chat_at st (ct_addr t) = Some b" for b
    by (rule map_pack_ok [OF chat_at_ok [OF assms(1) that]]) (use assms(2) that in blast)
qed

text \<open>Taking a task out of the lane.\<close>

lemma ok_without:
  assumes ok: "chat_ok R st" and batches: "\<forall>b\<in>set (ch_heap st'). chat_batch_ok R b" "ch_rows st' = ch_rows st"
    and tasks: "ch_tasks st' = filter (\<lambda>u. chat_key u \<noteq> chat_key t) (ch_tasks st)"
    and plan: "ch_plan st' = ch_plan st" "ch_stopping st' = ch_stopping st"
    and packs: "\<And>k. k \<noteq> chat_key t \<Longrightarrow> pack_of st' k = pack_of st k" and t: "t \<in> set (ch_tasks st)"
  shows "chat_ok R st'"
proof -
  have "distinct (map chat_key (ch_tasks st'))"
    using ok unfolding tasks chat_ok_def by (metis distinct_map_filter)
  moreover have "flight_ok st' u" if "u \<in> set (ch_tasks st')" for u
    using that ok packs [of "chat_key u"] unfolding tasks by (auto simp: chat_ok_def flight_ok_def)
  moreover have "target_ok R st' k" if tk: "target_ok R st k" for k
  proof -
    have "k \<noteq> chat_key t" using tk t by (auto simp: target_ok_def)
    then show ?thesis using tk packs [of k] unfolding target_ok_def tasks by auto
  qed
  moreover have "stopping_ok R st'"
    using ok plan packs unfolding chat_ok_def stopping_ok_def tasks by auto
  ultimately show ?thesis using ok batches plan(1) by (auto simp: chat_ok_def)
qed

lemma finish_fields:
  "ch_tasks (finish_pack now t st) = filter (\<lambda>u. chat_key u \<noteq> chat_key t) (ch_tasks st)"
  "ch_plan (finish_pack now t st) = ch_plan st" "ch_stopping (finish_pack now t st) = ch_stopping st"
  "pack_of (finish_pack now t st) = pack_of st"
  "ch_leases (finish_pack now t st) = release_external_machine (st_machine (ct_studio t)) (ct_owner t) (ch_leases st)"
  "ch_busy (finish_pack now t st) = removeAll (st_id (ct_studio t)) (ch_busy st)"
  by (simp_all add: finish_pack_def drop_task_def fun_eq_iff)

lemma finish_unsaved: "finish_pack now t st = save_chat now (ct_addr t) (st
    \<lparr>ch_busy := removeAll (st_id (ct_studio t)) (ch_busy st),
     ch_leases := release_external_machine (st_machine (ct_studio t)) (ct_owner t) (ch_leases st),
     ch_tasks := filter (\<lambda>u. chat_key u \<noteq> chat_key t) (ch_tasks st)\<rparr>)"
  by (simp add: finish_pack_def drop_task_def)

lemma ok_finished:
  assumes ok: "chat_ok R st" and t: "t \<in> set (ch_tasks st)" and b: "chat_at st (ct_addr t) = Some b"
    and p: "pack_at b (ct_pack t) = Some p" and s: "settles_pack (ch_stopping st) (cb_execution b) p p'"
  shows "chat_ok R (finish_pack now t (on_pack t (\<lambda>_. p') st))"
  unfolding finish_unsaved
proof (rule ok_stored, rule ok_without [OF ok _ _ _ _ _ _ t])
  have pk: "pack_of st (chat_key t) = Some p" using b p by (simp add: pack_of_def chat_key_def)
  have pok: "chat_pack_ok R (cb_execution b) p" using batch_pack_ok chat_at_ok ok b p by blast
  have "ch_stopping st \<Longrightarrow> pk_tries p < max_pack_tries + R"
    using ok t pk by (force simp: chat_ok_def stopping_ok_def)
  then have p': "chat_pack_ok R (cb_execution b) p'"
    using s pok by (auto simp: settles_pack_def gains_def chat_pack_ok_def)
  then show "\<forall>b\<in>set (ch_heap (on_pack t (\<lambda>_. p') st
      \<lparr>ch_busy := removeAll (st_id (ct_studio t)) (ch_busy (on_pack t (\<lambda>_. p') st)),
       ch_leases := release_external_machine (st_machine (ct_studio t)) (ct_owner t) (ch_leases (on_pack t (\<lambda>_. p') st)),
       ch_tasks := filter (\<lambda>u. chat_key u \<noteq> chat_key t) (ch_tasks (on_pack t (\<lambda>_. p') st))\<rparr>)).
      chat_batch_ok R b"
  proof -
    have "\<forall>b\<in>set (ch_heap (on_pack t (\<lambda>_. p') st)). chat_batch_ok R b"
      by (rule on_pack_heap_ok [OF ok]) (use b p' in auto)
    then show ?thesis by simp
  qed
qed simp_all

lemma ok_left: "chat_ok R st \<Longrightarrow> t \<in> set (ch_tasks st) \<Longrightarrow> chat_ok R (finish_pack now t st)"
  unfolding finish_unsaved by (rule ok_stored, rule ok_without) (auto simp: chat_ok_def)

lemma ok_dropped: "chat_ok R st \<Longrightarrow> t \<in> set (ch_tasks st) \<Longrightarrow> chat_ok R (drop_task t st)"
  by (rule ok_without) (auto simp: drop_task_def chat_ok_def)

lemma ok_staged:
  assumes ok: "chat_ok R st" and t: "t \<in> set (ch_tasks st)" and p: "pack_of st (chat_key t) = Some p" and f: "stage_fits stage p"
  shows "chat_ok R (set_stage t stage st)"
proof -
  have keys: "map chat_key (ch_tasks (set_stage t stage st)) = map chat_key (ch_tasks st)"
    by (simp add: set_stage_def update_where_def chat_key_def)
  have "flight_ok (set_stage t stage st) u" if "u \<in> set (ch_tasks (set_stage t stage st))" for u
  proof -
    from that obtain u0 where u0: "u0 \<in> set (ch_tasks st)" "u = (if chat_key u0 = chat_key t then u0\<lparr>ct_stage := stage\<rparr> else u0)"
      by (auto simp: set_stage_def set_update_where)
    have k: "chat_key u = chat_key u0" using u0(2) by (simp add: chat_key_def)
    obtain q where q: "pack_of st (chat_key u0) = Some q" "pk_state q \<in> {P_running, P_cancelled}" "stage_fits (ct_stage u0) q"
      using ok u0(1) by (auto simp: chat_ok_def flight_ok_def)
    have "stage_fits (ct_stage u) q" using q u0(2) p f by (cases "chat_key u0 = chat_key t") auto
    then show ?thesis using q k by (simp add: flight_ok_def set_stage_def)
  qed
  moreover have "chat_key ` set (ch_tasks (set_stage t stage st)) = chat_key ` set (ch_tasks st)"
    using keys by (metis list.set_map)
  moreover have "ch_heap (set_stage t stage st) = ch_heap st \<and> ch_rows (set_stage t stage st) = ch_rows st
      \<and> ch_plan (set_stage t stage st) = ch_plan st \<and> ch_stopping (set_stage t stage st) = ch_stopping st
      \<and> pack_of (set_stage t stage st) = pack_of st" by (simp add: set_stage_def)
  ultimately show ?thesis using ok keys by (simp add: chat_ok_def target_ok_def stopping_ok_def)
qed

lemma ok_handed:
  assumes ok: "chat_ok R st" and t: "t \<in> set (ch_tasks st)" and p: "pack_of st (chat_key t) = Some p" and g: "gains p p'"
    and same: "pk_state p' = pk_state p" "pk_tries p' = pk_tries p"
  shows "chat_ok R (set_stage t (C_handing e) (on_pack t (\<lambda>_. p') st))"
proof -
  let ?st = "set_stage t (C_handing e) (on_pack t (\<lambda>_. p') st)"
  have st: "pk_state p \<in> {P_running, P_cancelled}" using ok t p by (force simp: chat_ok_def flight_ok_def)
  have p': "chat_pack_ok R x p'" if "chat_pack_ok R x p" for x
    using that g same st by (auto simp: chat_pack_ok_def gains_def)
  have "\<forall>b\<in>set (ch_heap (on_pack t (\<lambda>_. p') st)). chat_batch_ok R b"
  proof (rule on_pack_heap_ok [OF ok])
    fix b q assume b: "chat_at st (ct_addr t) = Some b" "pack_at b (ct_pack t) = Some q"
    then have "q = p" using p by (simp add: pack_of_def chat_key_def)
    then show "chat_pack_ok R (cb_execution b) p'" using p' batch_pack_ok chat_at_ok ok b by blast
  qed
  then have heap: "\<forall>b\<in>set (ch_heap ?st). chat_batch_ok R b" by (simp add: set_stage_def)
  have keys: "map chat_key (ch_tasks ?st) = map chat_key (ch_tasks st)"
    by (simp add: set_stage_def update_where_def chat_key_def)
  have fl: "flight_ok ?st u" if "u \<in> set (ch_tasks ?st)" for u
  proof -
    from that obtain u0 where u0: "u0 \<in> set (ch_tasks st)" "u = (if chat_key u0 = chat_key t then u0\<lparr>ct_stage := C_handing e\<rparr> else u0)"
      by (auto simp: set_stage_def set_update_where)
    have k: "chat_key u = chat_key u0" using u0(2) by (simp add: chat_key_def)
    obtain q where q: "pack_of st (chat_key u0) = Some q" "pk_state q \<in> {P_running, P_cancelled}" "stage_fits (ct_stage u0) q"
      using ok u0(1) by (auto simp: chat_ok_def flight_ok_def)
    show ?thesis
    proof (cases "chat_key u0 = chat_key t")
      case True
      then show ?thesis using k p st same u0(2) by (simp add: flight_ok_def set_stage_def stage_fits_def)
    next
      case False
      then show ?thesis using k q u0(2) by (simp add: flight_ok_def set_stage_def)
    qed
  qed
  have ks: "chat_key ` set (ch_tasks ?st) = chat_key ` set (ch_tasks st)" using keys by (metis list.set_map)
  have tg: "target_ok R ?st k" if "target_ok R st k" for k
  proof -
    have "k \<noteq> chat_key t" using that t by (auto simp: target_ok_def)
    then show ?thesis using that ks by (simp add: target_ok_def set_stage_def)
  qed
  have pk: "pack_of ?st k = Some q \<Longrightarrow> \<exists>q0. pack_of st k = Some q0 \<and> pk_tries q0 = pk_tries q" for k q
    using p same(2) by (auto simp: set_stage_def split: if_splits)
  have "stopping_ok R st" using ok by (simp add: chat_ok_def)
  then have old: "ch_plan st = None" "\<And>k q. k \<in> chat_key ` set (ch_tasks st) \<Longrightarrow> pack_of st k = Some q \<Longrightarrow> pk_tries q < max_pack_tries + R"
    if "ch_stopping st" using that by (auto simp: stopping_ok_def)
  have sp: "stopping_ok R ?st"
    unfolding stopping_ok_def
  proof (intro impI conjI ballI allI)
    assume "ch_stopping ?st"
    then have s: "ch_stopping st" by (simp add: set_stage_def)
    show "ch_plan ?st = None" using old(1) [OF s] by (simp add: set_stage_def)
    fix k q assume "k \<in> chat_key ` set (ch_tasks ?st)" "pack_of ?st k = Some q"
    then show "pk_tries q < max_pack_tries + R" using old(2) [OF s, of k] pk [of k q] ks by auto
  qed
  show ?thesis using ok heap keys fl tg sp by (simp add: chat_ok_def set_stage_def ball_Un)
qed

lemma ok_planned:
  assumes ok: "chat_ok R st" and ns: "\<not> ch_stopping st" and b: "chat_at st a = Some b" and i: "i \<in> set (due_packs now b)"
    and w: "work_pack w = (a, i)"
  shows "chat_ok R (await rest progress w st)"
proof -
  obtain p where p: "pack_at b i = Some p" "pk_state p = P_queued" using i by (rule due_queued)
  have "pack_of st (a, i) = Some p" using b p by (simp add: pack_of_def)
  moreover have "chat_pack_ok R (cb_execution b) p" using batch_pack_ok chat_at_ok ok b p(1) by blast
  moreover have "(a, i) \<notin> chat_key ` set (ch_tasks st)"
  proof
    assume "(a, i) \<in> chat_key ` set (ch_tasks st)"
    then obtain t where "t \<in> set (ch_tasks st)" "chat_key t = (a, i)" by (metis imageE)
    moreover from this(1) have "flight_ok st t" using ok by (simp add: chat_ok_def)
    ultimately show False using \<open>pack_of st (a, i) = Some p\<close> p(2) by (simp add: flight_ok_def)
  qed
  ultimately have "target_ok R st (a, i)" using p(2) by (simp add: target_ok_def chat_pack_ok_def)
  then show ?thesis
    using ok ns w unfolding chat_ok_def by (simp add: await_def stopping_ok_def flight_ok_def target_ok_def)
qed

lemma ok_assigned:
  assumes ok: "chat_ok R st" and pl: "ch_plan st = Some pl" "cl_work pl = W_memory a i s studios"
    and b: "chat_at st a = Some b" and k: "pack_at b i = Some k"
  shows "chat_ok R (assign_pack now a i s owner generation (st\<lparr>ch_leases := leases, ch_turns := ts, ch_plan := None\<rparr>))"
proof -
  let ?t = "\<lparr>ct_addr = a, ct_pack = i, ct_studio = s, ct_owner = owner, ct_generation = generation,
      ct_stage = C_new, ct_cancel = False, ct_known = True\<rparr>"
  let ?f = "\<lambda>b. (map_pack i (dispatched_pack now s) b)\<lparr>cb_dispatched := now\<rparr>"
  define st1 where "st1 = (set_chat a ?f (st\<lparr>ch_leases := leases, ch_turns := ts, ch_plan := None\<rparr>))
       \<lparr>ch_busy := List.insert (st_id s) (ch_busy st), ch_tasks := ch_tasks st @ [?t]\<rparr>"
  have tg: "target_ok R st (a, i)" and ns: "\<not> ch_stopping st"
    using ok pl by (auto simp: chat_ok_def stopping_ok_def)
  have kk: "pack_of st (a, i) = Some k" using b k by (simp add: pack_of_def)
  have tries: "pk_tries k < max_pack_tries + R" using tg kk by (simp add: target_ok_def)
  have kok: "chat_pack_ok R (cb_execution b) k" using batch_pack_ok chat_at_ok ok b k by blast
  have dk: "chat_pack_ok R (cb_execution b) (dispatched_pack now s k)"
    using kok tries by (simp add: chat_pack_ok_def dispatched_pack_def results_ok_def usage_ok_def)
  have bok: "chat_batch_ok R (?f b)"
    using map_pack_ok [OF chat_at_ok [OF ok b], of i "dispatched_pack now s"] k dk by (simp add: chat_batch_ok_def)
  have pk: "pack_of st1 u = (if u = (a, i) then Some (dispatched_pack now s k) else pack_of st u)" for u
    using b k by (cases u) (auto simp: st1_def pack_of_def map_pack_def pack_at_def split: Option.bind_splits if_splits)
  have "set_chat a ?f (st\<lparr>ch_leases := leases, ch_turns := ts, ch_plan := None\<rparr>)
      = (set_chat a ?f st)\<lparr>ch_leases := leases, ch_turns := ts, ch_plan := None\<rparr>"
    by (simp add: set_chat_def chat_at_def)
  then have heap: "\<forall>b\<in>set (ch_heap st1). chat_batch_ok R b"
    using set_chat_heap_ok [of st R a ?f] ok bok b by (auto simp: st1_def chat_ok_def)
  have fl: "flight_ok st1 u" if "u \<in> set (ch_tasks st1)" for u
  proof (cases "u = ?t")
    case True
    then show ?thesis using pk [of "(a, i)"] by (simp add: flight_ok_def chat_key_def dispatched_pack_def stage_fits_def)
  next
    case False
    then have u: "u \<in> set (ch_tasks st)" using that by (simp add: st1_def)
    then have "chat_key u \<noteq> (a, i)" using tg by (metis image_eqI target_ok_def)
    then show ?thesis using ok u pk [of "chat_key u"] by (simp add: chat_ok_def flight_ok_def)
  qed
  have keys: "distinct (map chat_key (ch_tasks st1))"
    using ok tg by (auto simp: st1_def chat_ok_def target_ok_def chat_key_def)
  have "chat_ok R st1"
    using ok heap fl keys ns by (auto simp: chat_ok_def stopping_ok_def st1_def)
  then show ?thesis using ok_stored by (simp add: assign_pack_def st1_def)
qed

interpretation lane_ok: lane_keeps_all c "chat_ok R" for c R
proof unfold_locales
  show "chat_ok R st \<Longrightarrow> chat_ok R (st\<lparr>ch_plan := None\<rparr>)" for st
    by (auto simp: chat_ok_def stopping_ok_def flight_ok_def)
  show "chat_ok R st \<Longrightarrow> ch_plan st = Some pl \<Longrightarrow> \<not> ch_stopping st \<and> pack_of st (work_pack (cl_work pl)) \<noteq> None" for st pl
    by (auto simp: chat_ok_def stopping_ok_def target_ok_def)
  show "chat_ok R st \<Longrightarrow> ch_plan st = Some pl \<Longrightarrow> work_pack w = work_pack (cl_work pl)
      \<Longrightarrow> chat_ok R (await (cl_rest pl) (cl_progress pl) w st)" for st pl w
    by (auto simp: chat_ok_def await_def stopping_ok_def flight_ok_def target_ok_def)
  show "chat_ok R st \<Longrightarrow> b \<in> set (ch_rows st) \<Longrightarrow> chat_ok R (st\<lparr>ch_heap := ch_heap st @ [b]\<rparr>)" for st b
    by (rule ok_appended) (auto simp: chat_ok_def)
  show "chat_ok R st \<Longrightarrow> same_task g \<Longrightarrow> chat_ok R (st\<lparr>ch_tasks := map g (ch_tasks st)\<rparr>)" for st g
    by (rule chat_ok_frame) (auto simp: same_task_def)
  show "chat_ok R st \<Longrightarrow> chat_ok R (st\<lparr>ch_stopping := False\<rparr>)" for st
    by (auto simp: chat_ok_def stopping_ok_def flight_ok_def target_ok_def)
  show "chat_ok R st \<Longrightarrow> t \<in> set (ch_tasks st) \<Longrightarrow> \<exists>p. pack_of st (chat_key t) = Some p \<and> stage_fits (ct_stage t) p" for st t
    by (auto simp: chat_ok_def flight_ok_def)
qed (auto intro: ok_planned ok_edited ok_stored ok_appended order_ok ok_staged ok_handed ok_finished ok_left ok_assigned ok_dropped
      chat_ok_frame)

end
