(* ===== verification/Chat_Machines.thy ===== *)
theory Chat_Machines
  imports Chat_Safety
begin

text \<open>
  The machines and the results of the Chat lane, as further instances of the contract: a task holds the lease
  of its machine and no two tasks share one (\<open>machines_held\<close>, under every step), the leases and the busy
  studios of the lane are exactly those of its tasks (\<open>lane_exact\<close>, under every step but the cancellation
  of a task that has not started), and an accepted scene text is never lost or changed (\<open>keeps_results\<close>).
  The last part follows the lane through any sequence of steps, the end of the process included.
\<close>

section \<open>One task per machine\<close>

definition task_hold :: "chat_task \<Rightarrow> string \<times> string \<times> string" where
  "task_hold t = (st_machine (ct_studio t), st_id (ct_studio t), ct_owner t)"

definition machines_held :: "chat_state \<Rightarrow> bool" where
  "machines_held st \<longleftrightarrow> distinct (map (\<lambda>t. st_machine (ct_studio t)) (ch_tasks st))
     \<and> (\<forall>t\<in>set (ch_tasks st). dget (ch_leases st) (st_machine (ct_studio t)) = Some (ct_owner t)
          \<and> \<not> foreign_owner (ct_owner t))"

lemma machines_held_alt:
  "machines_held st \<longleftrightarrow> distinct (map fst (map task_hold (ch_tasks st)))
     \<and> (\<forall>(m, s, owner)\<in>set (map task_hold (ch_tasks st)). dget (ch_leases st) m = Some owner \<and> \<not> foreign_owner owner)"
  by (simp add: machines_held_def task_hold_def o_def)

lemma machines_held_frame:
  "map task_hold (ch_tasks st') = map task_hold (ch_tasks st) \<Longrightarrow> ch_leases st' = ch_leases st \<Longrightarrow> machines_held st' = machines_held st"
  unfolding machines_held_alt by simp

lemma other_machine:
  "machines_held st \<Longrightarrow> t \<in> set (ch_tasks st) \<Longrightarrow> u \<in> set (ch_tasks st) \<Longrightarrow> chat_key u \<noteq> chat_key t
     \<Longrightarrow> st_machine (ct_studio u) \<noteq> st_machine (ct_studio t)"
  by (metis distinct_map inj_on_eq_iff machines_held_def)

lemma machines_held_dropped:
  assumes "machines_held st" "ch_tasks st' = filter (\<lambda>u. chat_key u \<noteq> k) (ch_tasks st)" "ch_leases st' = ch_leases st"
  shows "machines_held st'"
  using assms by (auto simp: machines_held_def intro: distinct_map_filter)

lemma machines_held_released:
  assumes held: "machines_held st" and t: "t \<in> set (ch_tasks st)"
    and tasks: "ch_tasks st' = filter (\<lambda>u. chat_key u \<noteq> chat_key t) (ch_tasks st)"
    and leases: "ch_leases st' = release_external_machine (st_machine (ct_studio t)) (ct_owner t) (ch_leases st)"
  shows "machines_held st'"
  using held other_machine [OF held t]
  by (auto simp: machines_held_def tasks leases release_external_machine_def intro: distinct_map_filter)

lemma acquired_lease:
  assumes "acquire_external_machine reg fv bs busy machine owner leases = (leases', ok)"
  shows "leases' = leases \<and> \<not> ok \<or> leases' = dset machine owner leases \<and> dget leases machine = None \<and> ok"
  using assms by (auto simp: acquire_external_machine_def busy_machines_def map_of_eq_None_iff split: if_splits)

lemma machines_held_acquired:
  assumes "machines_held st" "acquire_external_machine reg fv bs busy machine owner (ch_leases st) = (leases, ok)"
  shows "machines_held (st\<lparr>ch_leases := leases\<rparr>)"
  using acquired_lease [OF assms(2)] assms(1) by (auto simp: machines_held_def)

lemma machines_held_other_release:
  assumes "machines_held st" "foreign_owner owner"
  shows "machines_held (st\<lparr>ch_leases := release_external_machine machine owner (ch_leases st)\<rparr>)"
  using assms by (fastforce simp: machines_held_def release_external_machine_def)

lemma chat_owner_own [simp]: "\<not> foreign_owner (chat_owner bid index)"
  by (simp add: foreign_owner_def chat_owner_def)

lemma assign_fields:
  "ch_tasks (assign_pack now a i s owner generation st) = ch_tasks st @ [\<lparr>ct_addr = a, ct_pack = i, ct_studio = s,
     ct_owner = owner, ct_generation = generation, ct_stage = C_new, ct_cancel = False, ct_known = True\<rparr>]"
  "ch_leases (assign_pack now a i s owner generation st) = ch_leases st"
  "ch_busy (assign_pack now a i s owner generation st) = List.insert (st_id s) (ch_busy st)"
  "ch_plan (assign_pack now a i s owner generation st) = ch_plan st"
  by (simp_all add: assign_pack_def)

lemma machines_held_assigned:
  assumes held: "machines_held st"
    and acq: "acquire_external_machine reg fv bs busy (st_machine s) (chat_owner bid index) (ch_leases st) = (leases, True)"
  shows "machines_held (assign_pack now a i s (chat_owner bid index) generation
            (st\<lparr>ch_leases := leases, ch_turns := ts, ch_plan := None\<rparr>))"
proof -
  have l: "leases = dset (st_machine s) (chat_owner bid index) (ch_leases st)" "dget (ch_leases st) (st_machine s) = None"
    using acquired_lease [OF acq] by auto
  then have "st_machine (ct_studio t) \<noteq> st_machine s" if "t \<in> set (ch_tasks st)" for t
    using held that by (auto simp: machines_held_def)
  then show ?thesis using held l by (auto simp: machines_held_def assign_fields)
qed

lemma map_hold:
  "map task_hold (ch_tasks (set_stage t stage st)) = map task_hold (ch_tasks st)"
  "ch_leases (set_stage t stage st) = ch_leases st" "ch_busy (set_stage t stage st) = ch_busy st"
  "ch_plan (set_stage t stage st) = ch_plan st"
  "same_task g \<Longrightarrow> map task_hold (map g ts) = map task_hold ts"
  by (simp_all add: set_stage_def update_where_def task_hold_def same_task_def)

lemma machines_held_flagged:
  "machines_held st \<Longrightarrow> same_task g \<Longrightarrow> machines_held (st\<lparr>ch_tasks := map g (ch_tasks st)\<rparr>)"
  by (rule machines_held_frame [THEN iffD2]) (simp_all add: map_hold del: map_map)

lemma machines_held_finished:
  "machines_held st \<Longrightarrow> t \<in> set (ch_tasks st) \<Longrightarrow> machines_held (finish_pack now t st)"
  "machines_held st \<Longrightarrow> t \<in> set (ch_tasks st) \<Longrightarrow> machines_held (finish_pack now t (on_pack t f st))"
  by (rule machines_held_released; simp add: finish_fields)+

lemma machines_held_drop: "machines_held st \<Longrightarrow> machines_held (drop_task t st)"
  by (rule machines_held_dropped) (simp_all add: drop_task_def)

interpretation lane_machines: lane_keeps_all c "\<lambda>st. chat_ok R st \<and> machines_held st" for c R
proof unfold_locales
  show "\<exists>p. pack_of st (chat_key t) = Some p \<and> stage_fits (ct_stage t) p"
    if "chat_ok R st \<and> machines_held st" "t \<in> set (ch_tasks st)" for st t
    using that lane_ok.asked by blast
  show "\<not> ch_stopping st \<and> pack_of st (work_pack (cl_work pl)) \<noteq> None"
    if "chat_ok R st \<and> machines_held st" "ch_plan st = Some pl" for st pl
    using that lane_ok.running by blast
qed (auto simp: await_def map_hold
       intro: lane_ok.halted lane_ok.edited lane_ok.stored lane_ok.loaded lane_ok.created lane_ok.remembered lane_ok.trimmed
         lane_ok.turned lane_ok.guarded lane_ok.flagged lane_ok.started lane_ok.acquired lane_ok.released lane_ok.staged
         lane_ok.handed lane_ok.finished lane_ok.left lane_ok.assigned lane_ok.dropped lane_ok.planned [unfolded await_def]
         lane_ok.replanned [unfolded await_def] machines_held_assigned machines_held_acquired machines_held_other_release
         machines_held_flagged machines_held_finished machines_held_drop machines_held_frame [THEN iffD2])

section \<open>Nothing is held without a task\<close>

definition lane_exact :: "chat_state \<Rightarrow> bool" where
  "lane_exact st \<longleftrightarrow> distinct (map (\<lambda>t. st_id (ct_studio t)) (ch_tasks st))
     \<and> set (ch_busy st) = (\<lambda>t. st_id (ct_studio t)) ` set (ch_tasks st)
     \<and> (\<forall>m owner. dget (ch_leases st) m = Some owner \<and> \<not> foreign_owner owner
          \<longrightarrow> (\<exists>t\<in>set (ch_tasks st). st_machine (ct_studio t) = m \<and> ct_owner t = owner))
     \<and> (\<forall>pl. ch_plan st = Some pl \<longrightarrow> (\<forall>s\<in>work_studios (cl_work pl). st_id s \<notin> set (ch_busy st)))"

lemma lane_exact_alt:
  "lane_exact st \<longleftrightarrow> distinct (map (\<lambda>(m, s, owner). s) (map task_hold (ch_tasks st)))
     \<and> set (ch_busy st) = (\<lambda>(m, s, owner). s) ` set (map task_hold (ch_tasks st))
     \<and> (\<forall>m owner. dget (ch_leases st) m = Some owner \<and> \<not> foreign_owner owner
          \<longrightarrow> (\<exists>(m', s, owner')\<in>set (map task_hold (ch_tasks st)). m' = m \<and> owner' = owner))
     \<and> (\<forall>pl. ch_plan st = Some pl \<longrightarrow> (\<forall>s\<in>work_studios (cl_work pl). st_id s \<notin> set (ch_busy st)))"
  by (simp add: lane_exact_def task_hold_def o_def image_image)

lemma lane_exact_frame:
  "map task_hold (ch_tasks st') = map task_hold (ch_tasks st) \<Longrightarrow> ch_leases st' = ch_leases st \<Longrightarrow> ch_busy st' = ch_busy st
     \<Longrightarrow> ch_plan st' = ch_plan st \<Longrightarrow> lane_exact st' = lane_exact st"
  unfolding lane_exact_alt by simp

lemma lane_exact_flagged: "lane_exact st \<Longrightarrow> same_task g \<Longrightarrow> lane_exact (st\<lparr>ch_tasks := map g (ch_tasks st)\<rparr>)"
  by (rule lane_exact_frame [THEN iffD2]) (simp_all add: map_hold del: map_map)

lemma lane_exact_planned:
  "lane_exact st \<Longrightarrow> (\<And>s. s \<in> work_studios w \<Longrightarrow> st_id s \<notin> set (ch_busy st)) \<Longrightarrow> lane_exact (await rest progress w st)"
  by (simp add: lane_exact_def await_def)

lemma lane_exact_halted: "lane_exact st \<Longrightarrow> lane_exact (st\<lparr>ch_plan := None\<rparr>)"
  by (simp add: lane_exact_def)

lemma lane_exact_leases:
  assumes "lane_exact st" "\<And>m owner. dget (ch_leases st') m = Some owner \<Longrightarrow> \<not> foreign_owner owner \<Longrightarrow> dget (ch_leases st) m = Some owner"
    and "ch_tasks st' = ch_tasks st" "ch_busy st' = ch_busy st" "ch_plan st' = ch_plan st"
  shows "lane_exact st'"
  using assms(1,2) unfolding lane_exact_def assms(3-5) by blast

lemma lane_exact_other_release:
  "lane_exact st \<Longrightarrow> lane_exact (st\<lparr>ch_leases := release_external_machine machine owner (ch_leases st)\<rparr>)"
  by (rule lane_exact_leases) (auto simp: release_external_machine_def split: if_splits)

lemma lane_exact_acquired:
  assumes "lane_exact st" "foreign_owner owner" "acquire_external_machine reg fv bs busy machine owner (ch_leases st) = (leases, ok)"
  shows "lane_exact (st\<lparr>ch_leases := leases\<rparr>)"
  by (rule lane_exact_leases [OF assms(1)]) (use acquired_lease [OF assms(3)] assms(2) in \<open>auto split: if_splits\<close>)

lemma lane_exact_released:
  assumes exact: "lane_exact st" and held: "machines_held st" and t: "t \<in> set (ch_tasks st)" and keys: "distinct (map chat_key (ch_tasks st))"
    and tasks: "ch_tasks st' = filter (\<lambda>u. chat_key u \<noteq> chat_key t) (ch_tasks st)"
    and leases: "ch_leases st' = release_external_machine (st_machine (ct_studio t)) (ct_owner t) (ch_leases st)"
    and busy: "ch_busy st' = removeAll (st_id (ct_studio t)) (ch_busy st)" and plan: "ch_plan st' = ch_plan st"
  shows "lane_exact st'"
proof -
  have inj: "inj_on (\<lambda>t. st_id (ct_studio t)) (set (ch_tasks st))" using exact by (simp add: lane_exact_def distinct_map)
  have same: "chat_key u = chat_key t \<longleftrightarrow> u = t" if "u \<in> set (ch_tasks st)" for u
    using keys t that by (metis key_unique)
  have "dget (ch_leases st) (st_machine (ct_studio t)) = Some (ct_owner t)" using held t by (simp add: machines_held_def)
  then have l: "dget (ch_leases st') = (dget (ch_leases st))(st_machine (ct_studio t) := None)"
    by (simp add: leases release_external_machine_def fun_upd_def)
  have "distinct (map (\<lambda>t. st_id (ct_studio t)) (ch_tasks st'))"
    using exact by (simp add: tasks lane_exact_def distinct_map_filter)
  moreover have "set (ch_busy st') = (\<lambda>t. st_id (ct_studio t)) ` set (ch_tasks st')"
    using exact inj same t by (auto simp: busy tasks lane_exact_def inj_on_def)
  moreover have "\<exists>u\<in>set (ch_tasks st'). st_machine (ct_studio u) = m \<and> ct_owner u = owner"
    if lease: "dget (ch_leases st') m = Some owner" and own: "\<not> foreign_owner owner" for m owner
  proof -
    have m: "m \<noteq> st_machine (ct_studio t)" "dget (ch_leases st) m = Some owner" using lease l by (auto split: if_splits)
    then obtain u where u: "u \<in> set (ch_tasks st)" "st_machine (ct_studio u) = m" "ct_owner u = owner"
      using exact own unfolding lane_exact_def by blast
    then have "u \<noteq> t" using m(1) by blast
    then show ?thesis using u same [OF u(1)] by (auto simp: tasks)
  qed
  moreover have "set (ch_busy st') \<subseteq> set (ch_busy st)" by (auto simp: busy)
  then have "\<forall>pl. ch_plan st' = Some pl \<longrightarrow> (\<forall>s\<in>work_studios (cl_work pl). st_id s \<notin> set (ch_busy st'))"
    using exact unfolding lane_exact_def plan by blast
  ultimately show ?thesis unfolding lane_exact_def by blast
qed

lemma lane_exact_assigned:
  assumes exact: "lane_exact st" and held: "machines_held st" and pl: "ch_plan st = Some pl" "cl_work pl = W_memory a i s studios"
    and acq: "acquire_external_machine reg fv bs busy (st_machine s) owner (ch_leases st) = (leases, True)"
  shows "lane_exact (assign_pack now a i s owner generation (st\<lparr>ch_leases := leases, ch_turns := ts, ch_plan := None\<rparr>))"
    (is "lane_exact ?st")
proof -
  have l: "dget leases = (dget (ch_leases st))(st_machine s \<mapsto> owner)" using acquired_lease [OF acq] by auto
  have free: "st_id s \<notin> set (ch_busy st)" using exact pl unfolding lane_exact_def by (metis insertI1 work_studios.simps(3))
  then have other: "st_id s \<notin> (\<lambda>t. st_id (ct_studio t)) ` set (ch_tasks st)" using exact unfolding lane_exact_def by metis
  have own: "\<exists>t\<in>set (ch_tasks st). st_machine (ct_studio t) = m \<and> ct_owner t = owner'"
    if "dget (ch_leases st) m = Some owner'" "\<not> foreign_owner owner'" for m owner'
    using exact that unfolding lane_exact_def by blast
  have old: "distinct (map (\<lambda>t. st_id (ct_studio t)) (ch_tasks st))" "set (ch_busy st) = (\<lambda>t. st_id (ct_studio t)) ` set (ch_tasks st)"
    using exact unfolding lane_exact_def by blast+
  show ?thesis
    unfolding lane_exact_def
  proof (intro conjI allI impI)
    show "distinct (map (\<lambda>t. st_id (ct_studio t)) (ch_tasks ?st))" using old(1) other by (simp add: assign_fields)
    show "set (ch_busy ?st) = (\<lambda>t. st_id (ct_studio t)) ` set (ch_tasks ?st)" using old(2) by (simp add: assign_fields)
    show "\<exists>t\<in>set (ch_tasks ?st). st_machine (ct_studio t) = m \<and> ct_owner t = owner'"
      if "dget (ch_leases ?st) m = Some owner' \<and> \<not> foreign_owner owner'" for m owner'
      using that own [of m owner'] l by (auto simp: assign_fields split: if_splits)
  qed (simp add: assign_fields)
qed

definition lane_clean :: "chat_state \<Rightarrow> bool" where
  "lane_clean st \<longleftrightarrow> machines_held st \<and> lane_exact st"

lemma lane_clean_finished:
  assumes "chat_ok R st" "lane_clean st" "t \<in> set (ch_tasks st)"
  shows "lane_clean (finish_pack now t st)" "lane_clean (finish_pack now t (on_pack t f st))"
  using assms by (auto simp: lane_clean_def machines_held_finished chat_ok_def finish_fields intro: lane_exact_released [OF _ _ assms(3)])

lemma lane_clean_frame:
  "map task_hold (ch_tasks st') = map task_hold (ch_tasks st) \<Longrightarrow> ch_leases st' = ch_leases st \<Longrightarrow> ch_busy st' = ch_busy st
     \<Longrightarrow> ch_plan st' = ch_plan st \<Longrightarrow> lane_clean st' = lane_clean st"
  unfolding lane_clean_def using lane_exact_frame machines_held_frame by metis

lemma lane_clean_simple:
  "lane_clean st \<Longrightarrow> lane_clean (st\<lparr>ch_plan := None\<rparr>)"
  "lane_clean st \<Longrightarrow> same_task g \<Longrightarrow> lane_clean (st\<lparr>ch_tasks := map g (ch_tasks st)\<rparr>)"
  "lane_clean st \<Longrightarrow> foreign_owner owner \<Longrightarrow> acquire_external_machine reg fv bs busy machine owner (ch_leases st) = (leases, ok)
     \<Longrightarrow> lane_clean (st\<lparr>ch_leases := leases\<rparr>)"
  "lane_clean st \<Longrightarrow> foreign_owner owner \<Longrightarrow> lane_clean (st\<lparr>ch_leases := release_external_machine machine owner (ch_leases st)\<rparr>)"
  "lane_clean st \<Longrightarrow> lane_clean (set_stage t stage st)" "lane_clean st \<Longrightarrow> lane_clean (on_pack t f st)"
proof -
  show "lane_clean st \<Longrightarrow> lane_clean (st\<lparr>ch_plan := None\<rparr>)"
    by (simp add: lane_clean_def lane_exact_halted machines_held_def)
  show "lane_clean st \<Longrightarrow> same_task g \<Longrightarrow> lane_clean (st\<lparr>ch_tasks := map g (ch_tasks st)\<rparr>)"
    by (simp add: lane_clean_def lane_exact_flagged machines_held_flagged)
  show "lane_clean st \<Longrightarrow> foreign_owner owner \<Longrightarrow> acquire_external_machine reg fv bs busy machine owner (ch_leases st) = (leases, ok)
     \<Longrightarrow> lane_clean (st\<lparr>ch_leases := leases\<rparr>)"
    using lane_exact_acquired machines_held_acquired unfolding lane_clean_def by blast
  show "lane_clean st \<Longrightarrow> foreign_owner owner \<Longrightarrow> lane_clean (st\<lparr>ch_leases := release_external_machine machine owner (ch_leases st)\<rparr>)"
    using lane_exact_other_release machines_held_other_release unfolding lane_clean_def by blast
  show "lane_clean st \<Longrightarrow> lane_clean (set_stage t stage st)"
    by (rule lane_clean_frame [THEN iffD2]) (simp_all only: map_hold)
  show "lane_clean st \<Longrightarrow> lane_clean (on_pack t f st)"
    by (rule lane_clean_frame [THEN iffD2]) simp_all
qed

lemma lane_clean_assigned:
  assumes "lane_clean st" "ch_plan st = Some pl" "cl_work pl = W_memory a i s studios"
    and "acquire_external_machine reg fv bs busy (st_machine s) (chat_owner bid index) (ch_leases st) = (leases, True)"
  shows "lane_clean (assign_pack now a i s (chat_owner bid index) generation
            (st\<lparr>ch_leases := leases, ch_turns := ts, ch_plan := None\<rparr>))"
  using assms machines_held_assigned [OF _ assms(4)] lane_exact_assigned [OF _ _ assms(2-4)] unfolding lane_clean_def by simp

lemma candidate_free: "chat_candidate c v st s \<Longrightarrow> st_id s \<notin> set (ch_busy st)"
  by (simp add: chat_candidate_def)

interpretation lane_clean: lane_keeps c "\<lambda>st. chat_ok R st \<and> lane_clean st" for c R
proof unfold_locales
  show "\<exists>p. pack_of st (chat_key t) = Some p \<and> stage_fits (ct_stage t) p"
    if "chat_ok R st \<and> lane_clean st" "t \<in> set (ch_tasks st)" for st t
    using that lane_ok.asked by blast
  show "\<not> ch_stopping st \<and> pack_of st (work_pack (cl_work pl)) \<noteq> None"
    if "chat_ok R st \<and> lane_clean st" "ch_plan st = Some pl" for st pl
    using that lane_ok.running by blast
  show "chat_ok R (await rest progress w st) \<and> lane_clean (await rest progress w st)"
    if "chat_ok R st \<and> lane_clean st" "\<not> ch_stopping st" "chat_at st a = Some b" "i \<in> set (due_packs now b)" "work_pack w = (a, i)"
      "\<And>s. s \<in> work_studios w \<Longrightarrow> chat_candidate c v st s" for st a b i now w v rest progress
    using that lane_ok.planned [of R st a b i now w c v] candidate_free [OF that(6)]
    by (auto simp: lane_clean_def lane_exact_planned await_def machines_held_def intro: lane_exact_planned [unfolded await_def])
  show "chat_ok R (await (cl_rest pl) (cl_progress pl) w st) \<and> lane_clean (await (cl_rest pl) (cl_progress pl) w st)"
    if "chat_ok R st \<and> lane_clean st" "ch_plan st = Some pl" "work_pack w = work_pack (cl_work pl)"
      "\<And>s. s \<in> work_studios w \<Longrightarrow> s \<in> work_studios (cl_work pl) \<or> chat_candidate c v st s" for st pl w v
  proof -
    have "st_id s \<notin> set (ch_busy st)" if s: "s \<in> work_studios w" for s
      using \<open>\<And>s. s \<in> work_studios w \<Longrightarrow> s \<in> work_studios (cl_work pl) \<or> chat_candidate c v st s\<close> [OF s] that(1) candidate_free
        \<open>chat_ok R st \<and> lane_clean st\<close> \<open>ch_plan st = Some pl\<close>
      unfolding lane_clean_def lane_exact_def by metis
    then show ?thesis
      using that lane_ok.replanned [of R st pl w c v]
      by (auto simp: lane_clean_def await_def machines_held_def intro: lane_exact_planned [unfolded await_def])
  qed
qed (auto simp: lane_clean_finished lane_clean_simple
       intro: lane_clean_assigned lane_clean_frame [THEN iffD2] lane_ok.halted lane_ok.edited lane_ok.stored lane_ok.loaded lane_ok.created lane_ok.remembered lane_ok.trimmed
         lane_ok.turned lane_ok.guarded lane_ok.flagged lane_ok.started lane_ok.acquired lane_ok.released lane_ok.staged
         lane_ok.handed lane_ok.finished lane_ok.left lane_ok.assigned)

end
