(* ===== verification/Chat_Runs.thy ===== *)
theory Chat_Runs
  imports Chat_Machines
begin

text \<open>
  Runs of the Chat lane from the empty state: what a step does to the accepted results (\<open>keeps_results\<close>, the
  last instance of the contract), what the end and the start of the process do to the invariants, and the
  invariants after any sequence of steps.
\<close>

section \<open>Accepted results stay\<close>

definition grows :: "scene_pack \<Rightarrow> scene_pack \<Rightarrow> bool" where
  "grows p p' \<longleftrightarrow> pk_scenes p' = pk_scenes p
     \<and> (\<forall>s x. dget (pk_results p) s = Some x \<longrightarrow> dget (pk_results p') s = Some x)"

definition keeps_results :: "chat_state \<Rightarrow> chat_state \<Rightarrow> bool" where
  "keeps_results st0 st \<longleftrightarrow> (\<forall>k p. pack_of st0 k = Some p \<longrightarrow> (\<exists>p'. pack_of st k = Some p' \<and> grows p p'))"

lemma grows_refl [simp]: "grows p p"
  by (simp add: grows_def)

lemma grows_trans: "grows p q \<Longrightarrow> grows q r \<Longrightarrow> grows p r"
  by (simp add: grows_def)

lemma keeps_refl [simp]: "keeps_results st st"
  by (simp add: keeps_results_def)

lemma keeps_from:
  assumes "keeps_results st0 st" "\<And>k p. pack_of st k = Some p \<Longrightarrow> \<exists>p'. pack_of st' k = Some p' \<and> grows p p'"
  shows "keeps_results st0 st'"
  using assms grows_trans unfolding keeps_results_def by blast

lemma keeps_same: "keeps_results st0 st \<Longrightarrow> pack_of st' = pack_of st \<Longrightarrow> keeps_results st0 st'"
  by (simp add: keeps_results_def)

lemma keeps_stored: "keeps_results st0 st \<Longrightarrow> keeps_results st0 (save_chat now a st)"
  by (simp add: keeps_results_def)

lemma gains_grows: "gains p p' \<Longrightarrow> grows p p'"
  by (simp add: gains_def grows_def)

lemma calm_grows: "calm_pack p p' \<Longrightarrow> grows p p'"
  by (auto simp: calm_pack_def grows_def)

lemma keeps_edited: "keeps_results st0 st \<Longrightarrow> benign f \<Longrightarrow> keeps_results st0 (set_chat a f st)"
  by (erule keeps_from) (use pack_of_edit calm_grows in blast)

lemma keeps_appended: "keeps_results st0 st \<Longrightarrow> keeps_results st0 (st\<lparr>ch_heap := ch_heap st @ [b]\<rparr>)"
  by (erule keeps_from) (use pack_of_append grows_refl in blast)

lemma pack_of_stage [simp]: "pack_of (set_stage t stage st) = pack_of st"
  by (simp add: set_stage_def)

lemma keeps_on_pack:
  assumes "keeps_results st0 st" "\<And>p. pack_of st (chat_key t) = Some p \<Longrightarrow> grows p (f p)"
  shows "keeps_results st0 (on_pack t f st)"
  by (rule keeps_from [OF assms(1)]) (use assms(2) in \<open>auto simp: grows_def\<close>)

lemma pack_of_set_pack: "pack_of (set_chat a (map_pack i f) st) u = (if u = (a, i) then map_option f (pack_of st u) else pack_of st u)"
  by (cases u) (auto simp: pack_of_def map_pack_def pack_at_def split: Option.bind_splits option.splits)

lemma assign_grows:
  assumes "pack_of st u = Some p"
  shows "\<exists>p'. pack_of (assign_pack now a i s owner generation st) u = Some p' \<and> grows p p'"
proof -
  have e: "pack_of (assign_pack now a i s owner generation st) u
      = pack_of (set_chat a (map_pack i (dispatched_pack now s)) st) u"
    by (cases u) (auto simp: assign_pack_def pack_of_def pack_at_def split: Option.bind_splits)
  have "grows p (dispatched_pack now s p)" by (simp add: grows_def dispatched_pack_def)
  then show ?thesis unfolding e pack_of_set_pack using assms by (cases "u = (a, i)") auto
qed

interpretation lane_results: lane_keeps_all c "\<lambda>st. chat_ok R st \<and> keeps_results st0 st" for c R st0
proof unfold_locales
  show "\<exists>p. pack_of st (chat_key t) = Some p \<and> stage_fits (ct_stage t) p"
    if "chat_ok R st \<and> keeps_results st0 st" "t \<in> set (ch_tasks st)" for st t
    using that lane_ok.asked by blast
  show "\<not> ch_stopping st \<and> pack_of st (work_pack (cl_work pl)) \<noteq> None"
    if "chat_ok R st \<and> keeps_results st0 st" "ch_plan st = Some pl" for st pl
    using that lane_ok.running by blast
  show "chat_ok R (set_stage t (C_handing e) (on_pack t (\<lambda>_. p') st)) \<and> keeps_results st0 (set_stage t (C_handing e) (on_pack t (\<lambda>_. p') st))"
    if "chat_ok R st \<and> keeps_results st0 st" "t \<in> set (ch_tasks st)" "pack_of st (chat_key t) = Some p" "gains p p'"
      "pk_state p' = pk_state p" "pk_tries p' = pk_tries p" for st t p p' e
    using that lane_ok.handed [of R st t p p'] keeps_on_pack [of st0 st t "\<lambda>_. p'"] gains_grows by (auto intro: keeps_same)
  show "chat_ok R (finish_pack now t (on_pack t (\<lambda>_. p') st)) \<and> keeps_results st0 (finish_pack now t (on_pack t (\<lambda>_. p') st))"
    if "chat_ok R st \<and> keeps_results st0 st" "t \<in> set (ch_tasks st)" "chat_at st (ct_addr t) = Some b" "pack_at b (ct_pack t) = Some p"
      "settles_pack (ch_stopping st) (cb_execution b) p p'" for st t b p p' now
  proof -
    have "pack_of st (chat_key t) = Some p" using that(3,4) by (simp add: pack_of_def chat_key_def)
    then have "keeps_results st0 (on_pack t (\<lambda>_. p') st)"
      using that(1,5) by (intro keeps_on_pack) (auto simp: settles_pack_def gains_grows)
    then show ?thesis using that lane_ok.finished [of R st t b p p'] by (auto simp: finish_fields intro: keeps_same)
  qed
  show "chat_ok R (assign_pack now a i s (chat_owner (cb_id b) (pk_index k)) generation (st\<lparr>ch_leases := leases, ch_turns := ts, ch_plan := None\<rparr>))
      \<and> keeps_results st0 (assign_pack now a i s (chat_owner (cb_id b) (pk_index k)) generation (st\<lparr>ch_leases := leases, ch_turns := ts, ch_plan := None\<rparr>))"
    if "chat_ok R st \<and> keeps_results st0 st" "ch_plan st = Some pl" "cl_work pl = W_memory a i s studios" "chat_at st a = Some b" "pack_at b i = Some k"
      "acquire_external_machine (ce_registry c) fv bs busy (st_machine s) (chat_owner (cb_id b) (pk_index k)) (ch_leases st) = (leases, True)"
    for st pl a i s studios b k fv bs busy leases now generation ts
    using that lane_ok.assigned [of R st pl a i s studios b k c] assign_grows by (auto intro: keeps_from)
qed (auto simp: finish_fields drop_task_def await_def intro: keeps_edited keeps_stored keeps_appended keeps_same
       lane_ok.halted lane_ok.edited lane_ok.stored lane_ok.loaded lane_ok.created lane_ok.remembered lane_ok.trimmed
       lane_ok.turned lane_ok.guarded lane_ok.flagged lane_ok.started lane_ok.acquired lane_ok.released lane_ok.staged
       lane_ok.left lane_ok.dropped [unfolded drop_task_def] lane_ok.planned [unfolded await_def] lane_ok.replanned [unfolded await_def])

section \<open>The end and the start of the process\<close>

lemma pack_ok_more: "chat_pack_ok R e p \<Longrightarrow> chat_pack_ok (Suc R) e p"
  by (auto simp: chat_pack_ok_def)

lemma batch_ok_more: "chat_batch_ok R b \<Longrightarrow> chat_batch_ok (Suc R) b"
  by (auto simp: chat_batch_ok_def list_all_iff intro: pack_ok_more)

lemma interrupted_pack_ok: "chat_pack_ok R e p \<Longrightarrow> chat_pack_ok (Suc R) e (interrupted_pack p)"
proof (cases "pk_state p = P_running")
  case True
  have "results_ok (interrupted_pack p) = results_ok p" "usage_ok (interrupted_pack p) = usage_ok p"
    by (simp_all add: True interrupted_pack_def requeued_pack_def results_ok_def usage_ok_def)
  moreover assume "chat_pack_ok R e p"
  ultimately show ?thesis using True by (simp add: chat_pack_ok_def) (simp add: interrupted_pack_def requeued_pack_def)
qed (simp add: interrupted_pack_def pack_ok_more)

lemma interrupted_batch_ok: "chat_batch_ok R b \<Longrightarrow> chat_batch_ok (Suc R) (b\<lparr>cb_packs := map interrupted_pack (cb_packs b)\<rparr>)"
  by (auto simp: chat_batch_ok_def list_all_iff intro: interrupted_pack_ok)

lemma stopped_ok:
  assumes "chat_ok R st"
  shows "chat_ok (Suc R) (stop_chat st)"
proof -
  have heap: "\<forall>b\<in>set (ch_heap st) \<union> set (ch_rows st). chat_batch_ok (Suc R) b" using assms batch_ok_more by (auto simp: chat_ok_def)
  have tries: "pk_tries p < max_pack_tries + Suc R" if pk: "pack_of st k = Some p" for k p
  proof -
    obtain b where "chat_at st (fst k) = Some b" "pack_at b (snd k) = Some p" using pk by (auto simp: pack_of_def split: Option.bind_splits)
    then have "chat_pack_ok R (cb_execution b) p" using batch_pack_ok chat_at_ok assms by blast
    then show ?thesis by (simp add: chat_pack_ok_def)
  qed
  have t: "map (\<lambda>t. (chat_key t, ct_stage t)) (ch_tasks (stop_chat st)) = map (\<lambda>t. (chat_key t, ct_stage t)) (ch_tasks st)"
    by (simp add: stop_chat_def flag_tasks_def update_where_def chat_key_def)
  have p: "pack_of (stop_chat st) = pack_of st" by (simp add: stop_chat_def flag_tasks_def)
  have k: "map chat_key (ch_tasks (stop_chat st)) = map chat_key (ch_tasks st)"
    using arg_cong [OF t, of "map fst"] by (simp add: o_def)
  have fl: "flight_ok (stop_chat st) t" if t: "t \<in> set (ch_tasks (stop_chat st))" for t
  proof -
    obtain u where u: "u \<in> set (ch_tasks st)" "chat_key u = chat_key t" "ct_stage u = ct_stage t"
      using t by (auto simp: stop_chat_def flag_tasks_def set_update_where chat_key_def)
    then have "flight_ok st u" using assms by (simp add: chat_ok_def)
    then show ?thesis using u(2,3) by (simp add: flight_ok_def p)
  qed
  have "ch_heap (stop_chat st) = ch_heap st" "ch_rows (stop_chat st) = ch_rows st" "ch_plan (stop_chat st) = None"
    by (simp_all add: stop_chat_def flag_tasks_def)
  then show ?thesis using assms heap fl k tries by (simp add: chat_ok_def stopping_ok_def p)
qed

definition idle_lane :: "chat_state \<Rightarrow> bool" where
  "idle_lane st \<longleftrightarrow> ch_tasks st = [] \<and> ch_plan st = None \<and> \<not> ch_stopping st \<and> ch_leases st = [] \<and> ch_busy st = []"

lemma idle_ok: "idle_lane st \<Longrightarrow> chat_ok R st = (\<forall>b\<in>set (ch_heap st) \<union> set (ch_rows st). chat_batch_ok R b)"
  by (simp add: idle_lane_def chat_ok_def stopping_ok_def)

lemma idle_clean: "idle_lane st \<Longrightarrow> machines_held st \<and> lane_exact st"
  by (simp add: idle_lane_def machines_held_def lane_exact_def)

lemma idle_steps [simp]:
  "idle_lane (save_chat now a st) = idle_lane st" "idle_lane (set_chat a f st) = idle_lane st"
  "idle_lane (remember_chat bid a st) = idle_lane st" "idle_lane (st\<lparr>ch_heap := h\<rparr>) = idle_lane st"
  by (simp_all add: idle_lane_def remember_chat_def)

lemma restored_ok:
  "idle_lane st \<Longrightarrow> chat_ok (Suc R) st \<Longrightarrow> \<forall>b\<in>set rows. chat_batch_ok R b
     \<Longrightarrow> idle_lane (restore_rows c now rows st) \<and> chat_ok (Suc R) (restore_rows c now rows st)"
proof (induction rows arbitrary: st)
  case (Cons b rows)
  define a where "a = length (ch_heap st)"
  define st1 where "st1 = st\<lparr>ch_heap := ch_heap st @ [b]\<rparr>"
  have b: "chat_batch_ok R b" using Cons.prems(3) by simp
  have new: "new_object b st = (a, st1)" by (simp add: new_object_def a_def st1_def)
  have ok1: "chat_ok (Suc R) st1" using ok_appended [OF Cons.prems(2) batch_ok_more [OF b]] by (simp add: st1_def)
  have idle1: "idle_lane st1" using Cons.prems(1) by (simp add: st1_def)
  have at1: "chat_at st1 a = Some b" by (simp add: chat_at_def st1_def a_def)
  show ?case
  proof (cases "chat_lease_over (hc_exec (ce_host c)) now b")
    case (Inl e)
    then show ?thesis using new at1 ok1 idle1 by (simp add: expire_chat_def)
  next
    case (Inr over)
    let ?st2 = "if over then set_chat a (expired_chat now) st1
        else set_chat a (\<lambda>b. b\<lparr>cb_packs := map interrupted_pack (cb_packs b)\<rparr>) st1"
    have heap1: "\<forall>b\<in>set (ch_heap st1). chat_batch_ok (Suc R) b" using ok1 by (simp add: chat_ok_def)
    have "\<forall>b\<in>set (ch_heap (set_chat a (expired_chat now) st1)). chat_batch_ok (Suc R) b"
      by (rule set_chat_heap_ok [OF heap1]) (use at1 benign_batch_ok [OF batch_ok_more [OF b] benign_expired] in simp)
    moreover have "\<forall>b\<in>set (ch_heap (set_chat a (\<lambda>b. b\<lparr>cb_packs := map interrupted_pack (cb_packs b)\<rparr>) st1)).
        chat_batch_ok (Suc R) b"
      by (rule set_chat_heap_ok [OF heap1]) (use at1 interrupted_batch_ok [OF b] in simp)
    ultimately have "\<forall>b\<in>set (ch_heap ?st2). chat_batch_ok (Suc R) b" by simp
    moreover have "ch_rows ?st2 = ch_rows st1" by simp
    moreover have "idle_lane ?st2" using idle1 by simp
    moreover have "\<forall>b\<in>set (ch_rows st1). chat_batch_ok (Suc R) b" using ok1 by (simp add: chat_ok_def)
    ultimately have ok2: "chat_ok (Suc R) (remember_chat (cb_id b) a ?st2)" "idle_lane (remember_chat (cb_id b) a ?st2)"
      using lane_ok.remembered [of "Suc R" ?st2] by (auto simp: idle_ok remember_chat_def idle_lane_def)
    have "restore_rows c now (b # rows) st = restore_rows c now rows (save_chat now a (remember_chat (cb_id b) a ?st2))"
      using new at1 Inr by (simp add: expire_chat_def)
    then show ?thesis
      using Cons.IH [of "save_chat now a (remember_chat (cb_id b) a ?st2)"] ok_stored [OF ok2(1)] ok2(2) Cons.prems(3) by simp
  qed
qed simp

lemma restarted_ok:
  assumes "chat_ok R st"
  shows "idle_lane (restart_chat c now st)" "chat_ok (Suc R) (restart_chat c now st)"
proof -
  let ?st = "st\<lparr>ch_heap := [], ch_memory := [], ch_busy := [], ch_tasks := [], ch_plan := None, ch_stopping := False,
                   ch_leases := [], ch_turns := []\<rparr>"
  have i: "idle_lane ?st" by (simp add: idle_lane_def)
  have ok: "chat_ok (Suc R) ?st" using assms batch_ok_more unfolding idle_ok [OF i] by (auto simp: chat_ok_def)
  have rows: "\<forall>b\<in>set (load_rows q ?st). chat_batch_ok R b" for q using assms by (auto simp: load_rows_def chat_ok_def)
  show "idle_lane (restart_chat c now st)" "chat_ok (Suc R) (restart_chat c now st)"
    using restored_ok [OF i ok rows] by (simp_all add: restart_chat_def Let_def)
qed

lemma stop_fields:
  "map task_hold (ch_tasks (stop_chat st)) = map task_hold (ch_tasks st)" "ch_leases (stop_chat st) = ch_leases st"
  "ch_busy (stop_chat st) = ch_busy st" "ch_plan (stop_chat st) = None" "pack_of (stop_chat st) = pack_of st"
  by (simp_all add: stop_chat_def flag_tasks_def update_where_def task_hold_def)

lemma stopped_clean: "machines_held st \<Longrightarrow> machines_held (stop_chat st)" "lane_exact st \<Longrightarrow> lane_exact (stop_chat st)"
proof -
  show "machines_held st \<Longrightarrow> machines_held (stop_chat st)"
    by (rule machines_held_frame [THEN iffD2]) (simp_all only: stop_fields)
  show "lane_exact st \<Longrightarrow> lane_exact (stop_chat st)"
    unfolding lane_exact_alt stop_fields by simp
qed

section \<open>Runs\<close>

definition chat_run :: "chat_env \<Rightarrow> chat_op list \<Rightarrow> chat_state \<Rightarrow> chat_state" where
  "chat_run c es st = fold (chat_step c) es st"

definition chat_ends :: "chat_op list \<Rightarrow> nat" where
  \<comment> \<open>how often the lane was stopped or the process restarted\<close>
  "chat_ends es = length (filter (\<lambda>e. \<not> ordinary e) es)"

fun leak_free :: "chat_env \<Rightarrow> chat_op list \<Rightarrow> chat_state \<Rightarrow> bool" where
  "leak_free c [] st = True"
| "leak_free c (e # es) st = (\<not> leaks e st \<and> leak_free c es (chat_step c e st))"

lemma chat_run_simps [simp]: "chat_run c [] st = st" "chat_run c (e # es) st = chat_run c es (chat_step c e st)"
  by (simp_all add: chat_run_def)

lemma empty_chat_ok: "chat_ok 0 empty_chat" "machines_held empty_chat" "lane_clean empty_chat"
  by (simp_all add: empty_chat_def chat_ok_def stopping_ok_def machines_held_def lane_clean_def lane_exact_def)

lemma step_ok:
  assumes "chat_ok R st" "machines_held st"
  shows "chat_ok (R + chat_ends [e]) (chat_step c e st) \<and> machines_held (chat_step c e st)"
proof (cases "ordinary e")
  case True
  then show ?thesis using lane_machines.every_step_keeps assms by (simp add: chat_ends_def)
next
  case False
  then show ?thesis
    using assms stopped_ok restarted_ok idle_clean stopped_clean(1)
    by (cases e) (auto simp: ordinary_def chat_ends_def)
qed

lemma run_ok:
  "chat_ok R st \<Longrightarrow> machines_held st \<Longrightarrow> chat_ok (R + chat_ends es) (chat_run c es st) \<and> machines_held (chat_run c es st)"
proof (induction es arbitrary: R st)
  case (Cons e es)
  have "R + chat_ends [e] + chat_ends es = R + chat_ends (e # es)" by (simp add: chat_ends_def)
  then show ?case using Cons.IH [of "R + chat_ends [e]" "chat_step c e st"] step_ok [OF Cons.prems] by (simp only: chat_run_simps)
qed (simp add: chat_ends_def)

lemmas reached_ok = run_ok [OF empty_chat_ok(1,2), simplified]

lemma step_clean:
  assumes "chat_ok R st" "lane_clean st" "\<not> leaks e st"
  shows "lane_clean (chat_step c e st)"
proof (cases "ordinary e")
  case True
  then show ?thesis using lane_clean.step_keeps assms by blast
next
  case False
  then show ?thesis
    using assms restarted_ok(1) idle_clean stopped_clean
    by (cases e) (auto simp: ordinary_def lane_clean_def)
qed

lemma run_clean:
  "chat_ok R st \<Longrightarrow> lane_clean st \<Longrightarrow> leak_free c es st \<Longrightarrow> lane_clean (chat_run c es st)"
proof (induction es arbitrary: R st)
  case (Cons e es)
  then have "chat_ok (R + chat_ends [e]) (chat_step c e st)" "lane_clean (chat_step c e st)"
    using step_ok [OF Cons.prems(1)] step_clean by (simp_all add: lane_clean_def)
  then show ?case using Cons by simp
qed simp

lemma run_results:
  "chat_ok R st \<Longrightarrow> list_all (\<lambda>e. case e of Restart_chat _ \<Rightarrow> False | _ \<Rightarrow> True) es
     \<Longrightarrow> keeps_results st0 st \<Longrightarrow> keeps_results st0 (chat_run c es st)"
proof (induction es arbitrary: R st)
  case (Cons e es)
  have "chat_ok (R + chat_ends [e]) (chat_step c e st) \<and> keeps_results st0 (chat_step c e st)"
  proof (cases "ordinary e")
    case True
    then show ?thesis using lane_results.every_step_keeps Cons.prems by (simp add: chat_ends_def)
  next
    case False
    then show ?thesis using Cons.prems stopped_ok stop_fields(5) keeps_same
      by (cases e) (auto simp: ordinary_def chat_ends_def)
  qed
  then show ?case using Cons.IH [of "R + chat_ends [e]" "chat_step c e st"] Cons.prems(2) by simp
qed simp

end
