(* ===== verification/Chat_Theorems.thy ===== *)
theory Chat_Theorems
  imports Chat_Runs
begin

text \<open>
  Properties of the Chat lane: what any run from the empty state keeps (one task per machine, no lease or
  studio held without a task, bounded attempts, complete and verified results, nothing lost), what a
  submission stores, what is read from a worker's answer, and the runs that show where the lane falls short.
\<close>

section \<open>A run to look at\<close>

definition chat_demo_host :: chat_host where
  "chat_demo_host = \<lparr>hc_exec = \<lparr>eh_site = ''site'', eh_sha256 = (\<lambda>s. s), eh_iso = (\<lambda>_. Not_iso),
      eh_repr = (\<lambda>_. ''x''), eh_float = (\<lambda>_. ''0'')\<rparr>, hc_text = \<lparr>th_float = (\<lambda>_. None), th_repr = (\<lambda>_. ''x'')\<rparr>,
     hc_loads = (\<lambda>s. if s = ''answer'' then Decoded (JObj [(''s1'', JStr '' a cat '')]) else Not_json), hc_raw = (\<lambda>_. Not_json),
     hc_cached = (\<lambda>_ _. None)\<rparr>"

definition chat_demo_studio :: studio where
  "chat_demo_studio = \<lparr>st_id = ''chat'', st_machine = ''local'', st_modality = ''chat''\<rparr>"

definition chat_demo :: chat_env where
  "chat_demo = \<lparr>ce_host = chat_demo_host, ce_registry = [chat_demo_studio]\<rparr>"

definition chat_demo_view :: chat_view where
  "chat_demo_view = \<lparr>vw_fleet = \<lparr>fv_ready = (\<lambda>_. True), fv_machine_on = (\<lambda>_. True), fv_studio_on = (\<lambda>_ _. True),
     fv_up = (\<lambda>_. True), fv_render_score = (\<lambda>_. 0), fv_chip = (\<lambda>_. ''''), fv_total = (\<lambda>_. None), fv_version = (\<lambda>_. '''')\<rparr>,
     vw_ready = (\<lambda>_ _. True), vw_drained = [], vw_broker_busy = [], vw_broker_batches = []\<rparr>"

definition chat_demo_payload :: json where
  "chat_demo_payload = JObj [(''model'', JStr ''m''), (''packs'', JList [JObj [
     (''scene_ids'', JList [JStr ''s1'', JStr ''s2'']),
     (''messages'', JList [JObj [(''role'', JStr ''user''), (''content'', JStr ''x'')]])]])]"

definition chat_demo_entry :: jdict where
  "chat_demo_entry = [(''repo'', JStr ''m''), (''cache'', JBool True)]"

definition chat_dispatched :: "chat_op list" where
  "chat_dispatched = [Create ''b1'' 10 chat_demo_payload, Scan_batches chat_demo_view 11, Catalog chat_demo_view 12 [chat_demo_entry],
     Other_lane chat_demo_view 12 False, Memory_answer chat_demo_view 13 True [] None]"

definition chat_answered :: "chat_op list" where
  "chat_answered = chat_dispatched @ [Begin_pack (0, 0) chat_demo_view 14, Completion (0, 0) 20
     (JObj [(''choices'', JList [JObj [(''message'', JObj [(''content'', JStr ''answer'')])]])])]"

section \<open>Machines\<close>

text \<open>C16: Over any run - stops, restarts and cancellations of tasks included - the tasks of the Chat lane are
  on different machines and work on different packs, and each holds the lease of its machine.\<close>

theorem chat_one_pack_per_machine:
  "let st = chat_run c es empty_chat
   in distinct (map (\<lambda>t. st_machine (ct_studio t)) (ch_tasks st)) \<and> distinct (map chat_key (ch_tasks st))
      \<and> list_all (\<lambda>t. dget (ch_leases st) (st_machine (ct_studio t)) = Some (ct_owner t)) (ch_tasks st)"
  using reached_ok [of es c] by (simp add: Let_def machines_held_def chat_ok_def list_all_iff)

text \<open>C17: As long as no task is cancelled before its coroutine has started, the lane holds nothing without a
  task: the busy studios are those of its tasks, and the machine leases in its name are those of its tasks.\<close>

theorem chat_holds_only_for_tasks:
  assumes "leak_free c es empty_chat"
  shows "let st = chat_run c es empty_chat
    in set (ch_busy st) = (\<lambda>t. st_id (ct_studio t)) ` set (ch_tasks st)
       \<and> {(m, owner). dget (ch_leases st) m = Some owner \<and> \<not> foreign_owner owner}
         = (\<lambda>t. (st_machine (ct_studio t), ct_owner t)) ` set (ch_tasks st)"
proof -
  have "lane_clean (chat_run c es empty_chat)" using run_clean empty_chat_ok(1,3) assms by blast
  then show ?thesis by (fastforce simp: lane_clean_def lane_exact_def machines_held_def Let_def)
qed

theorem chat_holds_only_for_tasks_witness:
  "let st = chat_run chat_demo chat_dispatched empty_chat
    in set (ch_busy st) = (\<lambda>t. st_id (ct_studio t)) ` set (ch_tasks st)
       \<and> {(m, owner). dget (ch_leases st) m = Some owner \<and> \<not> foreign_owner owner}
         = (\<lambda>t. (st_machine (ct_studio t), ct_owner t)) ` set (ch_tasks st)"
proof -
  have "leak_free chat_demo chat_dispatched empty_chat" by code_simp
  then show ?thesis by (rule chat_holds_only_for_tasks)
qed

section \<open>Packs\<close>

lemma batch_packs_ok:
  "chat_ok R st \<Longrightarrow> b \<in> set (ch_heap st @ ch_rows st) \<Longrightarrow> p \<in> set (cb_packs b) \<Longrightarrow> chat_pack_ok R (cb_execution b) p"
  by (auto simp: chat_ok_def chat_batch_ok_def list_all_iff)

text \<open>The counter of attempts of a pack is at most three, plus one for every time the lane was stopped or the
  Hub restarted.  It is not the number of requests: a capacity failure and a change of the worker's
  authentication hand the attempt back, and a retry by the operator starts over.\<close>

lemma chat_attempt_counter_bounded:
  "let st = chat_run c es empty_chat
   in list_all (\<lambda>b. list_all (\<lambda>p. pk_tries p \<le> max_pack_tries + chat_ends es) (cb_packs b)) (ch_heap st @ ch_rows st)"
  using batch_packs_ok [of "chat_ends es" "chat_run c es empty_chat"] reached_ok [of es c]
  unfolding list_all_iff Let_def chat_pack_ok_def by blast

text \<open>C19: A pack that is done has a text for each of its scenes, and if the batch is an assignment of GenStudio
  it has verified token usage and was answered by the assigned model revision.\<close>

theorem chat_done_is_complete:
  "let st = chat_run c es empty_chat
   in list_all (\<lambda>b. list_all (\<lambda>p. missing_scenes p = [] \<and> evidence_ok (cb_execution b) p)
        (filter (\<lambda>p. pk_state p = P_done) (cb_packs b))) (ch_heap st @ ch_rows st)"
  using batch_packs_ok [of "chat_ends es" "chat_run c es empty_chat"] reached_ok [of es c]
  unfolding list_all_iff Let_def chat_pack_ok_def set_filter mem_Collect_eq by blast

text \<open>Every stored text belongs to a scene of its pack, which has one text; it is not blank and has no
  surrounding white space. Stored token counts are not negative and their sum is within the stored sum.\<close>

theorem chat_results_well_formed:
  "let st = chat_run c es empty_chat
   in list_all (\<lambda>b. list_all (\<lambda>p. distinct (map fst (pk_results p))
        \<and> list_all (\<lambda>(s, x). s \<in> set (pk_scenes p) \<and> x \<noteq> [] \<and> py_strip x = x) (pk_results p)
        \<and> (case pk_usage p of None \<Rightarrow> True | Some (a, b, t) \<Rightarrow> 0 \<le> a \<and> 0 \<le> b \<and> a + b \<le> t)) (cb_packs b))
      (ch_heap st @ ch_rows st)"
  using batch_packs_ok [of "chat_ends es" "chat_run c es empty_chat"] reached_ok [of es c]
  unfolding list_all_iff Let_def chat_pack_ok_def results_ok_def usage_ok_def by blast

text \<open>C18: A text that was accepted for a scene is still there, unchanged, after any further steps of the same
  process: retries, partial answers, cancellation and expiry never lose or overwrite it.\<close>

theorem chat_results_kept:
  assumes "pack_of (chat_run c es empty_chat) k = Some p" "dget (pk_results p) s = Some x"
    and "list_all (\<lambda>e. case e of Restart_chat _ \<Rightarrow> False | _ \<Rightarrow> True) es'"
  shows "\<exists>p'. pack_of (chat_run c (es @ es') empty_chat) k = Some p' \<and> dget (pk_results p') s = Some x"
proof -
  have "keeps_results (chat_run c es empty_chat) (chat_run c es' (chat_run c es empty_chat))"
    using run_results [OF _ assms(3) keeps_refl] reached_ok by blast
  moreover have "chat_run c (es @ es') empty_chat = chat_run c es' (chat_run c es empty_chat)" by (simp add: chat_run_def)
  ultimately show ?thesis using assms(1,2) by (metis grows_def keeps_results_def)
qed

theorem chat_results_kept_witness:
  "\<exists>p'. pack_of (chat_run chat_demo (chat_answered @ [Cancel_chat 30 ''b1'', Stop_lane]) empty_chat) (0, 0) = Some p'
     \<and> dget (pk_results p') ''s1'' = Some ''a cat''"
proof -
  have "map_option (\<lambda>p. dget (pk_results p) ''s1'') (pack_of (chat_run chat_demo chat_answered empty_chat) (0, 0)) = Some (Some ''a cat'')"
    by code_simp
  then obtain p where "pack_of (chat_run chat_demo chat_answered empty_chat) (0, 0) = Some p" "dget (pk_results p) ''s1'' = Some ''a cat''"
    by auto
  from chat_results_kept [OF this, of "[Cancel_chat 30 ''b1'', Stop_lane]"] show ?thesis by simp
qed

section \<open>Reading an answer\<close>

lemma scenes_of_dict_lookup:
  "distinct (map fst d) \<Longrightarrow> dget (scenes_of_dict allowed out d) s
     = (if s \<in> set allowed then (case Option.bind (dget d s) filled of None \<Rightarrow> dget out s | Some x \<Rightarrow> Some x) else dget out s)"
proof (induction d arbitrary: out)
  case (Cons kv d)
  obtain k v where kv: "kv = (k, v)" by (rule prod.exhaust)
  have k: "dget d k = None" using Cons.prems kv by (auto simp: map_of_eq_None_iff)
  show ?case using Cons kv k by (cases "filled v") (auto split: option.split)
qed simp

text \<open>When the worker answers with an object of texts, exactly the expected scenes with a text that is not
  blank are accepted, with their text stripped; other keys, blank texts and other values are ignored.\<close>

theorem chat_object_answer:
  assumes "kind \<noteq> ''completion''" "hc_loads h (strip_fence content) = Decoded (JObj d)"
    and "dget d ''results'' = None" "dget d ''prompts'' = None" "distinct (map fst d)"
  shows "\<exists>out. parse_scene_results h content expected kind = Inr out
     \<and> dget out s = (if s \<in> set expected then Option.bind (dget d s) filled else None)"
  using assms scenes_of_dict_lookup [OF assms(5), of expected "[]" s]
  by (simp add: parse_scene_results_def collect_scenes_def candidate_def split: option.split)

theorem chat_object_answer_witness:
  "\<exists>out. parse_scene_results chat_demo_host ''answer'' [''s1'', ''s2''] ''visual'' = Inr out
     \<and> dget out ''s1'' = (if ''s1'' \<in> set [''s1'', ''s2''] then Option.bind (dget [(''s1'', JStr '' a cat '')] ''s1'') filled else None)"
proof -
  have "hc_loads chat_demo_host (strip_fence ''answer'') = Decoded (JObj [(''s1'', JStr '' a cat '')])" by code_simp
  from chat_object_answer [OF _ this, where kind = "''visual''" and s = "''s1''" and expected = "[''s1'', ''s2'']"] show ?thesis by simp
qed

section \<open>Submission\<close>

lemma read_packs_valid:
  "read_packs rp kind index seen vs = Inr ps \<Longrightarrow> length ps = length vs \<and> distinct (concat (map pk_scenes ps))
     \<and> set (concat (map pk_scenes ps)) \<inter> set seen = {}
     \<and> list_all (\<lambda>p. pk_state p = P_queued \<and> pk_tries p = 0 \<and> pk_results p = [] \<and> pk_scenes p \<noteq> []
          \<and> length (pk_scenes p) \<le> max_scenes_per_pack) ps"
proof (induction vs arbitrary: index seen ps)
  case (Cons v vs)
  from Cons.prems obtain q qs where q: "read_pack rp kind index seen v = Inr q"
    "read_packs rp kind (Suc index) (seen @ pk_scenes q) vs = Inr qs" "ps = q # qs"
    by (auto simp: bind_err_Inr)
  obtain pid scenes ms params where p: "q = fresh_pack index pid scenes ms params" "scenes \<noteq> []"
    "length scenes \<le> max_scenes_per_pack" "distinct scenes" "set scenes \<inter> set seen = {}"
    using read_pack_Inr [OF q(1)] by blast
  have f: "pk_scenes q = scenes" "pk_state q = P_queued" "pk_tries q = 0" "pk_results q = []"
    using p(1) by (simp_all add: fresh_pack_def)
  from Cons.IH [OF q(2)] show ?case using p(2-5) q(3) f by auto
qed simp

lemma read_order_valid:
  assumes "read_order rp payload = Inr ord"
  shows "co_packs ord \<noteq> [] \<and> length (co_packs ord) \<le> max_packs \<and> distinct (concat (map pk_scenes (co_packs ord)))
     \<and> int (length (concat (map pk_scenes (co_packs ord)))) \<le> max_scenes_in_batch
     \<and> list_all (\<lambda>p. pk_state p = P_queued \<and> pk_tries p = 0 \<and> pk_results p = [] \<and> pk_scenes p \<noteq> []
          \<and> length (pk_scenes p) \<le> max_scenes_per_pack) (co_packs ord)"
proof -
  obtain raw where raw: "jget payload ''packs'' = JList raw"
    using assms by (cases "jget payload ''packs''") (simp_all add: read_order_def)
  then have n: "raw \<noteq> []" "length raw \<le> max_packs"
    and r: "read_packs rp (kind_of rp payload) 0 [] raw = Inr (co_packs ord)
      \<and> int (length (concat (map pk_scenes (co_packs ord)))) \<le> max_scenes_in_batch"
    using assms by (auto simp: read_order_def bind_err_Inr require_def split: if_split_asm)
  from read_packs_valid [OF conjunct1 [OF r]] show ?thesis using n r by auto
qed

lemma create_new:
  assumes "create_chat c bid now payload st = (Inr (b, False), st')"
  shows "\<exists>ord env key ev. read_order (th_repr (hc_text (ce_host c))) env = Inr ord \<and> b = bid
     \<and> saved_chat now (new_chat bid key now ord ev) \<in> set (ch_rows st')"
proof -
  have p: "\<exists>ord env key ev. read_order (th_repr (hc_text (ce_host c))) env = Inr ord \<and> b = bid
     \<and> saved_chat now (new_chat bid key now ord ev) \<in> set (ch_rows st')"
    if "place_order c bid now prep s = (Inr (b, False), st')" for prep s
  proof (cases "read_order (th_repr (hc_text (ce_host c))) (pr_envelope prep)")
    case (Inr ord)
    let ?x = "saved_chat now (new_chat bid (order_key (hc_exec (ce_host c)) ord) now ord (pr_evidence prep))"
    have "b = bid" "?x \<in> set (ch_rows st')"
      using that Inr by (auto simp: place_order_def Let_def new_object_def save_chat_def chat_at_def remember_chat_def split: list.split_asm)
    then show ?thesis using Inr by blast
  qed (use that in \<open>simp add: place_order_def\<close>)
  show ?thesis
    using assms unfolding create_chat_def
    by (auto simp: Let_def split: option.split_asm sum.split_asm prod.split_asm if_split_asm dest!: p)
qed

text \<open>An accepted batch is stored under the fresh id with 1 to 500 packs of 1 to 10 scenes each, no more
  than 5000 scenes in all, no scene twice in the whole batch, and every pack queued, untried and empty.\<close>

theorem chat_created_batch_valid:
  assumes "create_chat c bid now payload st = (Inr (b, False), st')"
  shows "b = bid \<and> (\<exists>r\<in>set (ch_rows st'). cb_id r = bid \<and> \<not> cb_cancelled r \<and> cb_packs r \<noteq> [] \<and> length (cb_packs r) \<le> 500
     \<and> distinct (concat (map pk_scenes (cb_packs r))) \<and> length (concat (map pk_scenes (cb_packs r))) \<le> 5000
     \<and> list_all (\<lambda>p. pk_state p = P_queued \<and> pk_tries p = 0 \<and> pk_results p = [] \<and> pk_scenes p \<noteq> []
          \<and> length (pk_scenes p) \<le> 10) (cb_packs r))"
proof -
  obtain ord env key ev where o: "read_order (th_repr (hc_text (ce_host c))) env = Inr ord" "b = bid"
    "saved_chat now (new_chat bid key now ord ev) \<in> set (ch_rows st')" using create_new [OF assms] by blast
  have f: "cb_packs (new_chat bid key now ord ev) = co_packs ord" "cb_id (new_chat bid key now ord ev) = bid"
    "\<not> cb_cancelled (new_chat bid key now ord ev)"
    by (simp_all add: new_chat_def)
  show ?thesis
    using read_order_valid [OF o(1)] o(2)
    by (intro conjI bexI [OF _ o(3)])
       (simp_all add: f max_packs_def max_scenes_in_batch_def max_scenes_per_pack_def)
qed

theorem chat_created_batch_valid_witness:
  "\<exists>r\<in>set (ch_rows (snd (create_chat chat_demo ''b1'' 10 chat_demo_payload empty_chat))). cb_id r = ''b1'' \<and> cb_packs r \<noteq> []"
proof -
  have "fst (create_chat chat_demo ''b1'' 10 chat_demo_payload empty_chat) = Inr (''b1'', False)" by code_simp
  then have "create_chat chat_demo ''b1'' 10 chat_demo_payload empty_chat
      = (Inr (''b1'', False), snd (create_chat chat_demo ''b1'' 10 chat_demo_payload empty_chat))" by (metis prod.collapse)
  from chat_created_batch_valid [OF this] show ?thesis by blast
qed

lemma new_not_terminal: "read_order rp env = Inr ord \<Longrightarrow> \<not> terminal_batch (saved_chat now (new_chat bid key now' ord ev))"
  using read_order_valid [of rp env ord]
  by (cases "co_packs ord") (auto simp: terminal_batch_def new_chat_def terminal_pack_def saved_chat_def)

lemma load_rows_same: "ch_rows st' = ch_rows st \<Longrightarrow> load_rows q st' = load_rows q st"
  by (simp add: load_rows_def)

lemma remember_default_fields [simp]:
  "ch_rows (remember_default bid a st) = ch_rows st" "ch_fences (remember_default bid a st) = ch_fences st"
  by (simp_all add: remember_default_def remember_chat_def)

lemma placed_again:
  assumes "place_order c bid now \<lparr>pr_envelope = d, pr_evidence = None, pr_replay = r\<rparr> st = (Inr (b, known), st1)"
  shows "\<exists>st2. place_order c bid' now' \<lparr>pr_envelope = d, pr_evidence = None, pr_replay = r\<rparr> st1 = (Inr (b, True), st2)
     \<and> ch_rows st2 = ch_rows st1 \<and> ch_fences st2 = ch_fences st1"
proof -
  obtain ord where ord: "read_order (th_repr (hc_text (ce_host c))) d = Inr ord"
    using assms by (auto simp: place_order_def split: sum.splits)
  let ?q = "\<lambda>r. cb_key r = order_key (hc_exec (ce_host c)) ord \<and> \<not> terminal_batch r"
  have again: "\<exists>st2. place_order c bid' now' \<lparr>pr_envelope = d, pr_evidence = None, pr_replay = r\<rparr> st1 = (Inr (cb_id x, True), st2)
     \<and> ch_rows st2 = ch_rows st1 \<and> ch_fences st2 = ch_fences st1" if "load_rows ?q st1 = x # xs" for x xs
    using ord that by (simp add: place_order_def Let_def new_object_def)
  show ?thesis
  proof (cases "load_rows ?q st")
    case Nil
    define x where "x = saved_chat now (new_chat bid (order_key (hc_exec (ce_host c)) ord) now ord None)"
    have b: "b = bid" and rows: "ch_rows st1 = filter (\<lambda>r. cb_id r \<noteq> bid) (ch_rows st) @ [x]"
      using assms ord Nil
      by (auto simp: place_order_def Let_def new_object_def remember_chat_def save_chat_def chat_at_def x_def new_chat_def)
    have "x \<in> set (load_rows ?q st1)"
      using new_not_terminal [OF ord] by (auto simp: load_rows_def rows x_def) (simp add: new_chat_def)
    moreover have "\<forall>y\<in>set (load_rows ?q st1). y = x"
      using Nil by (auto simp: load_rows_def rows filter_empty_conv)
    ultimately obtain xs where "load_rows ?q st1 = x # xs" by (cases "load_rows ?q st1") auto
    moreover have "cb_id x = b" by (simp add: x_def new_chat_def b)
    ultimately show ?thesis using again by blast
  next
    case (Cons y ys)
    then have "b = cb_id y" "ch_rows st1 = ch_rows st" using assms ord by (auto simp: place_order_def Let_def new_object_def)
    then show ?thesis using again [of y ys] Cons load_rows_same [of st1 st ?q] by simp
  qed
qed

text \<open>A submission that carries no execution identity can be sent again: while the batch it made is not
  finished the same body returns the same batch as known, and neither the table nor the fences change.\<close>

theorem chat_resubmission_is_known:
  assumes "as_dict payload = Some d" "extract_identity (hc_exec (ce_host c)) d = Inr None"
    and "create_chat c bid now payload st = (Inr (b, known), st1)"
  shows "\<exists>st2. create_chat c bid' now' payload st1 = (Inr (b, True), st2) \<and> ch_rows st2 = ch_rows st1 \<and> ch_fences st2 = ch_fences st1"
proof -
  let ?prep = "\<lparr>pr_envelope = d, pr_evidence = None, pr_replay = None\<rparr>"
  have prep: "prepare (hc_exec (ce_host c)) n d db = Inr (?prep, db)" for n db
    using assms(2) by (simp add: prepare_def)
  have door: "chat_door (ce_host c) d = None"
    using assms(1,3) by (auto simp: create_chat_def split: option.splits)
  have create: "create_chat c i n payload s = place_order c i n ?prep s" for i n s
    using assms(1) door prep by (simp add: create_chat_def str_or_empty_def)
  show ?thesis using placed_again [of c bid now d None st b known st1 bid' now'] assms(3) unfolding create by blast
qed

theorem chat_resubmission_is_known_witness:
  "fst (create_chat chat_demo ''b2'' 20 chat_demo_payload (snd (create_chat chat_demo ''b1'' 10 chat_demo_payload empty_chat)))
     = Inr (''b1'', True)"
proof -
  obtain d where d: "as_dict chat_demo_payload = Some d" "d = [(''model'', JStr ''m''), (''packs'', JList [JObj [
     (''scene_ids'', JList [JStr ''s1'', JStr ''s2'']),
     (''messages'', JList [JObj [(''role'', JStr ''user''), (''content'', JStr ''x'')]])]])]"
    by (simp add: chat_demo_payload_def)
  have i: "extract_identity (hc_exec (ce_host chat_demo)) d = Inr None" unfolding d(2) by code_simp
  have "fst (create_chat chat_demo ''b1'' 10 chat_demo_payload empty_chat) = Inr (''b1'', False)" by code_simp
  then have "create_chat chat_demo ''b1'' 10 chat_demo_payload empty_chat
      = (Inr (''b1'', False), snd (create_chat chat_demo ''b1'' 10 chat_demo_payload empty_chat))" by (metis prod.collapse)
  from chat_resubmission_is_known [OF d(1) i this, of "''b2''" 20] show ?thesis by auto
qed

section \<open>Where the lane falls short\<close>

text \<open>A task that is cancelled before its coroutine has started never reaches its \<open>finally\<close>: the lease of
  the machine and the studio stay taken, and the pack stays running without a task.\<close>

lemma chat_cancel_before_start_leaks:
  "let st = chat_run chat_demo (chat_dispatched @ [Cancel_chat 20 ''b1'', Interrupted (0, 0) 21]) empty_chat
   in ch_tasks st = [] \<and> ch_leases st = [(''local'', ''chat:b1:0'')] \<and> ch_busy st = [''chat'']
      \<and> map (map pk_state \<circ> cb_packs) (ch_rows st) = [[P_running]]"
  by code_simp

text \<open>The dispatcher does not look at the pack again after its awaits: a pack that is cancelled while it is
  being placed is dispatched all the same.\<close>

lemma chat_cancelled_pack_is_dispatched:
  "let st = chat_run chat_demo [Create ''b1'' 10 chat_demo_payload, Scan_batches chat_demo_view 11,
       Catalog chat_demo_view 12 [chat_demo_entry], Other_lane chat_demo_view 12 False, Cancel_chat 12 ''b1'',
       Memory_answer chat_demo_view 13 True [] None] empty_chat
   in map (\<lambda>b. (cb_cancelled b, map pk_state (cb_packs b))) (ch_rows st) = [(True, [P_running])]"
  by code_simp

text \<open>A batch that is cancelled while a pack is running, in a process that then ends, is restored with the
  pack queued: no scan serves it, it cannot be removed, and the same request returns it for ever.\<close>

lemma chat_cancelled_batch_is_stuck:
  "let st = chat_run chat_demo (chat_dispatched @ [Begin_pack (0, 0) chat_demo_view 14, Cancel_chat 20 ''b1'', Restart_chat 30,
       Scan_batches chat_demo_view 40, Remove_chat ''b1'']) empty_chat
   in map (\<lambda>b. (cb_cancelled b, map pk_state (cb_packs b))) (ch_rows st) = [(True, [P_queued])] \<and> ch_plan st = None
      \<and> fst (create_chat chat_demo ''b2'' 50 chat_demo_payload st) = Inr (''b1'', True)"
  by code_simp

text \<open>An exception while idle memory is released (or a cancellation then) ends the task with the pack still
  running; nothing dispatches or fails it until the Hub restarts.\<close>

lemma chat_failed_handoff_strands_pack:
  "let st = chat_run chat_demo (chat_dispatched @ [Begin_pack (0, 0) chat_demo_view 14,
       Request_raises (0, 0) 15 (value_error ''not enough memory''), Hand_raises (0, 0) 16, Scan_batches chat_demo_view 100]) empty_chat
   in ch_tasks st = [] \<and> map (map pk_state \<circ> cb_packs) (ch_rows st) = [[P_running]] \<and> ch_plan st = None"
  by code_simp

end
