(* ===== verification/Model_Exposure.thy ===== *)
theory Model_Exposure
  imports Execution_Identity
begin

text \<open>
  Which models GenStudio may use: \<open>app/backend/model_exposure.py\<close>.  A worker publishes a candidate; the
  owner or the fleet catalog of GenStudio approves the exact model, operation, runtime revision and
  contract, under the SHA-256 of the four.  The file is the value its text parses to, or \<open>Lost_file\<close> when it
  is missing or no JSON; the order of keys in the file is not kept.  Each operation is one step (read,
  change, replace the file); \<open>exposure_attempt\<close> adds reads that fail.  \<open>_now()\<close> is an argument, one text for
  all calls of an operation.
\<close>

section \<open>Published contracts\<close>

definition private_keys :: "string list" where
  "private_keys = [''token'', ''secret'', ''password'', ''credential'', ''authorization'', ''api_key'',
     ''filesystem_path'', ''cache_path'', ''artifact_path'', ''customer_content'']"

definition private_suffixes :: "string list" where
  "private_suffixes = [''_token'', ''_secret'', ''_password'', ''_credential'', ''_path'']"

definition private_key :: "string \<Rightarrow> bool" where
  "private_key key \<longleftrightarrow> py_lower key \<in> set private_keys \<or> list_ex (\<lambda>s. suffix s (py_lower key)) private_suffixes"

fun safe_contract :: "nat \<Rightarrow> json \<Rightarrow> json option" where
  \<comment> \<open>the first argument is 6 less the depth\<close>
  "safe_contract 0 v = None"
| "safe_contract (Suc n) v = (case v of
       JNull \<Rightarrow> None
     | JStr s \<Rightarrow> Some (JStr (take 500 s))
     | JList vs \<Rightarrow> Some (JList (List.map_filter (safe_contract n) (take 100 vs)))
     | JObj d \<Rightarrow> Some (JObj (fold (\<lambda>(raw, child) result.
          (let key = take 120 (py_strip raw)
           in if key = [] \<or> private_key key then result
              else case safe_contract n child of None \<Rightarrow> result | Some safe \<Rightarrow> dset key safe result)) (take 100 d) []))
     | _ \<Rightarrow> Some v)"

definition safe_part :: "jdict \<Rightarrow> string \<Rightarrow> json" where
  \<comment> \<open>\<open>_safe_contract(value.get(name)) or {}\<close>\<close>
  "safe_part d name = (case safe_contract 6 (jget d name) of
       None \<Rightarrow> JObj [] | Some v \<Rightarrow> if truthy v then v else JObj [])"

section \<open>Candidates\<close>

record candidate_row =
  ca_model :: string
  ca_name :: string
  ca_audit :: string
  ca_status :: string
  ca_flag :: bool
  ca_contract :: string
  ca_revision :: string
  ca_operations :: "string list"
  ca_audited :: "string option"
  ca_adapter :: json
  ca_controls :: json
  ca_input :: json
  ca_output :: json
  ca_capacity :: "(string, int) dict"
  ca_hardware :: json

datatype exposure_error = Not_exposable json | Never_approved | Invalid_model_key | Exposure_raises

definition bounded_capacity :: "jdict \<Rightarrow> string \<Rightarrow> exposure_error + (string \<times> int) list" where
  \<comment> \<open>an infinite number raises OverflowError, which is not caught\<close>
  "bounded_capacity d name = (case py_int (jget d name) of
       Int_ok i \<Rightarrow> Inr [(name, max 0 (min 1000 i))]
     | Int_overflow_error \<Rightarrow> Inl Exposure_raises
     | _ \<Rightarrow> Inr [])"

definition capacity_of :: "jdict \<Rightarrow> exposure_error + (string, int) dict" where
  "capacity_of value = (case safe_part value ''capacity'' of
       JObj d \<Rightarrow> bind_err (bounded_capacity d ''max_concurrency'') (\<lambda>a.
                 bind_err (bounded_capacity d ''available_slots'') (\<lambda>b. Inr (a @ b)))
     | _ \<Rightarrow> Inl Exposure_raises)"

definition approved_operations :: "exec_host \<Rightarrow> json list \<Rightarrow> string list" where
  "approved_operations h vs = sort (remdups (filter (\<lambda>s. s \<noteq> []) (map (\<lambda>v. clean_text h v 120) vs)))"

definition candidate_summary :: "exec_host \<Rightarrow> jdict \<Rightarrow> exposure_error + candidate_row option" where
  "candidate_summary h model = (case as_dict (jget model ''genstudio_candidate'') of
       None \<Rightarrow> Inr None
     | Some value \<Rightarrow>
         (let model_id = clean_text h (if truthy (jget model ''repo'') then jget model ''repo'' else jget model ''model_id'') 500;
              revision = py_lower (clean_text h (jget value ''runtime_revision'') 80);
              contract = py_lower (clean_text h (jget value ''contract_hash'') 80);
              audited = clean_text h (jget value ''audited_at'') 80
          in if jget value ''schema'' \<noteq> JStr ''studio.model-audit'' \<or> jget value ''schema_version'' \<noteq> JInt 1
                \<or> model_id = [] \<or> \<not> immutable_pattern revision \<or> \<not> contract_pattern contract then Inr None
             else (case jget value ''approved_operations'' of
                 JList vs \<Rightarrow>
                   if approved_operations h vs = [] then Inr None
                   else bind_err (capacity_of value) (\<lambda>capacity. Inr (Some
                     \<lparr>ca_model = model_id,
                      ca_name = clean_text h (if truthy (jget model ''label'') then jget model ''label'' else JStr model_id) 500,
                      ca_audit = clean_text h (jget value ''audit_id'') 200,
                      ca_status = py_lower (clean_text h (jget value ''audit_status'') 40),
                      ca_flag = (jget value ''candidate_for_genstudio'' = JBool True),
                      ca_contract = contract, ca_revision = revision, ca_operations = approved_operations h vs,
                      ca_audited = (if audited = [] then None else Some audited),
                      ca_adapter = safe_part value ''adapter'', ca_controls = safe_part value ''controls'',
                      ca_input = safe_part value ''input_limits'', ca_output = safe_part value ''output_limits'',
                      ca_capacity = capacity, ca_hardware = safe_part value ''hardware''\<rparr>))
               | _ \<Rightarrow> Inr None)))"

definition audited :: "candidate_row \<Rightarrow> string \<Rightarrow> bool" where
  \<comment> \<open>passed its audit, offered to GenStudio, with this operation\<close>
  "audited c operation \<longleftrightarrow> ca_status c = ''passed'' \<and> ca_flag c \<and> operation \<in> set (ca_operations c)"

definition execution_candidate :: "exec_host \<Rightarrow> jdict \<Rightarrow> string \<Rightarrow> exposure_error + candidate_row option" where
  "execution_candidate h model operation =
     (if jget model ''cached'' \<noteq> JBool True then Inr None
      else bind_err (candidate_summary h model) (\<lambda>found. Inr (case found of
          None \<Rightarrow> None | Some c \<Rightarrow> if audited c operation then Some c else None)))"

definition exposure_key :: "exec_host \<Rightarrow> string \<Rightarrow> string \<Rightarrow> string \<Rightarrow> string \<Rightarrow> string" where
  "exposure_key h model operation revision contract =
     eh_sha256 h (join_with [CHR 0x0A] [model, operation, revision, contract])"

definition candidate_key :: "exec_host \<Rightarrow> candidate_row \<Rightarrow> string \<Rightarrow> string" where
  "candidate_key h c operation = exposure_key h (ca_model c) operation (ca_revision c) (ca_contract c)"

section \<open>The file\<close>

datatype exposure_file = Lost_file | Exposure_file json

record exposure_state =
  xs_records :: jdict
  xs_revision :: "string option"
  xs_synced :: "string option"

definition dict_or_empty :: "json \<Rightarrow> jdict" where
  "dict_or_empty v = (case as_dict v of None \<Rightarrow> [] | Some d \<Rightarrow> d)"

definition read_exposures :: "exposure_file \<Rightarrow> exposure_state" where
  "read_exposures file =
     (let d = (case file of Lost_file \<Rightarrow> [] | Exposure_file v \<Rightarrow> dict_or_empty v)
      in \<lparr>xs_records = dict_or_empty (jget d ''records''),
          xs_revision = as_str (jget d ''global_catalog_revision''), xs_synced = as_str (jget d ''global_catalog_synced_at'')\<rparr>)"

definition write_exposures :: "exposure_state \<Rightarrow> exposure_file" where
  "write_exposures st = Exposure_file (JObj [(''schema'', JStr ''studiohub.model-exposures''), (''schema_version'', JInt 1),
     (''records'', JObj (xs_records st)), (''global_catalog_revision'', jstr_opt (xs_revision st)),
     (''global_catalog_synced_at'', jstr_opt (xs_synced st))])"

definition exposure_rows :: "exposure_file \<Rightarrow> (string \<times> jdict) list" where
  \<comment> \<open>\<open>records()\<close> before it is sorted: the key and the row, those that are dicts\<close>
  "exposure_rows file = List.map_filter (\<lambda>(k, v). map_option (Pair k) (as_dict v)) (xs_records (read_exposures file))"

definition global_authority_active :: "exposure_file \<Rightarrow> bool" where
  "global_authority_active file \<longleftrightarrow> str_or_empty (xs_revision (read_exposures file)) \<noteq> []"

section \<open>Decisions\<close>

record exposure_status =
  xp_state :: json
  xp_reason :: json
  xp_key :: "string option"
  xp_approved :: json
  xp_revoked :: json

definition plain_status :: "string \<Rightarrow> string \<Rightarrow> exposure_status" where
  "plain_status state reason = \<lparr>xp_state = JStr state, xp_reason = JStr reason, xp_key = None, xp_approved = JNull, xp_revoked = JNull\<rparr>"

definition state_for :: "exec_host \<Rightarrow> exposure_file \<Rightarrow> candidate_row option \<Rightarrow> string \<Rightarrow> exposure_status" where
  "state_for h file candidate operation = (case candidate of
       None \<Rightarrow> plain_status ''unverified'' ''missing_or_invalid_audit''
     | Some c \<Rightarrow>
         if ca_status c \<noteq> ''passed'' then plain_status ''blocked'' ''audit_not_passed''
         else if \<not> ca_flag c then plain_status ''blocked'' ''sibling_candidate_not_approved''
         else if operation \<notin> set (ca_operations c) then plain_status ''blocked'' ''operation_not_audited''
         else (let rows = xs_records (read_exposures file); key = candidate_key h c operation
           in case as_dict (jget rows key) of
                Some exact \<Rightarrow> \<lparr>xp_state = (case dget exact ''state'' of None \<Rightarrow> JStr ''unexposed'' | Some s \<Rightarrow> s),
                    xp_reason = jget exact ''reason'', xp_key = Some key, xp_approved = jget exact ''approved_at'',
                    xp_revoked = jget exact ''revoked_at''\<rparr>
              | None \<Rightarrow>
                  if list_ex (\<lambda>(_, row). jget row ''internal_model_id'' = JStr (ca_model c) \<and> jget row ''operation'' = JStr operation
                       \<and> jget row ''state'' = JStr ''approved'') (exposure_rows file)
                  then plain_status ''suspended'' ''runtime_revision_or_contract_changed''
                  else plain_status ''candidate'' ''awaiting_hub_approval''))"

definition is_approved :: "exec_host \<Rightarrow> exposure_file \<Rightarrow> candidate_row option \<Rightarrow> string \<Rightarrow> bool" where
  "is_approved h file candidate operation \<longleftrightarrow> xp_state (state_for h file candidate operation) = JStr ''approved''"

definition first_approval :: "string \<Rightarrow> json \<Rightarrow> json" where
  "first_approval now previous = (case as_dict previous of
       None \<Rightarrow> JStr now
     | Some d \<Rightarrow> if truthy (jget d ''approved_at'') then jget d ''approved_at'' else JStr now)"

definition exposable :: "string list" where
  "exposable = [''candidate'', ''approved'', ''revoked'', ''suspended'']"

definition reason_or :: "exec_host \<Rightarrow> string \<Rightarrow> json \<Rightarrow> string" where
  "reason_or h standard reason = (let s = clean_text h reason 500 in if s = [] then standard else s)"

definition approve ::
  "exec_host \<Rightarrow> string \<Rightarrow> candidate_row \<Rightarrow> string \<Rightarrow> json \<Rightarrow> exposure_file \<Rightarrow> (exposure_error + jdict) \<times> exposure_file" where
  "approve h now c operation reason file =
     (let status = state_for h file (Some c) operation
      in if \<not> hashable (xp_state status) then (Inl Exposure_raises, file)
         else if xp_state status \<notin> set (map JStr exposable) then (Inl (Not_exposable (xp_reason status)), file)
         else (let key = candidate_key h c operation; st = read_exposures file;
                   row = [(''state'', JStr ''approved''), (''internal_model_id'', JStr (ca_model c)),
                     (''display_name'', JStr (ca_name c)), (''operation'', JStr operation),
                     (''runtime_revision'', JStr (ca_revision c)), (''contract_hash'', JStr (ca_contract c)),
                     (''audit_id'', JStr (ca_audit c)), (''approved_at'', first_approval now (jget (xs_records st) key)),
                     (''updated_at'', JStr now), (''reason'', JStr (reason_or h ''Owner approved in Studio Hub'' reason)),
                     (''revoked_at'', JNull)]
           in (Inr (dset ''exposure_key'' (JStr key) row),
               write_exposures (st\<lparr>xs_records := dset key (JObj row) (xs_records st)\<rparr>))))"

definition revoked_row :: "string \<Rightarrow> string \<Rightarrow> jdict \<Rightarrow> jdict" where
  "revoked_row now reason d = dupdate d [(''state'', JStr ''revoked''), (''updated_at'', JStr now),
     (''revoked_at'', JStr now), (''reason'', JStr reason)]"

definition revoke_key ::
  "exec_host \<Rightarrow> string \<Rightarrow> string \<Rightarrow> json \<Rightarrow> exposure_file \<Rightarrow> (exposure_error + jdict) \<times> exposure_file" where
  "revoke_key h now key reason file =
     (let st = read_exposures file
      in case as_dict (jget (xs_records st) key) of
           None \<Rightarrow> (Inl Never_approved, file)
         | Some previous \<Rightarrow>
             (let row = revoked_row now (reason_or h ''Owner revoked in Studio Hub'' reason) previous
              in (Inr (dset ''exposure_key'' (JStr key) row),
                  write_exposures (st\<lparr>xs_records := dset key (JObj row) (xs_records st)\<rparr>))))"

definition revoke ::
  "exec_host \<Rightarrow> string \<Rightarrow> candidate_row \<Rightarrow> string \<Rightarrow> json \<Rightarrow> exposure_file \<Rightarrow> (exposure_error + jdict) \<times> exposure_file" where
  "revoke h now c operation reason file = revoke_key h now (candidate_key h c operation) reason file"

section \<open>The fleet catalog\<close>

definition catalog_model :: "exec_host \<Rightarrow> jdict \<Rightarrow> string" where
  "catalog_model h model = clean_text h
     (if truthy (jget model ''internal_model_id'') then jget model ''internal_model_id'' else jget model ''repo'') 500"

definition catalog_key :: "exec_host \<Rightarrow> jdict \<Rightarrow> string" where
  "catalog_key h model = exposure_key h (catalog_model h model) (clean_text h (jget model ''operation'') 120)
     (py_lower (clean_text h (jget model ''runtime_revision'') 80)) (py_lower (clean_text h (jget model ''contract_hash'') 80))"

definition catalog_claims :: "exec_host \<Rightarrow> jdict \<Rightarrow> bool" where
  \<comment> \<open>the key the catalog gives is that of the model\<close>
  "catalog_claims h model \<longleftrightarrow> py_lower (clean_text h (jget model ''candidate_key'') 64) = catalog_key h model"

definition catalog_row :: "exec_host \<Rightarrow> string \<Rightarrow> string \<Rightarrow> jdict \<Rightarrow> json \<Rightarrow> jdict" where
  "catalog_row h now revision model previous =
     [(''state'', JStr ''approved''), (''authority'', JStr ''genstudio''), (''authority_revision'', JStr revision),
      (''internal_model_id'', JStr (catalog_model h model)),
      (''display_name'', JStr (clean_text h (if truthy (jget model ''display_name'') then jget model ''display_name''
                                             else jget model ''label'') 256)),
      (''operation'', JStr (clean_text h (jget model ''operation'') 120)),
      (''runtime_revision'', JStr (py_lower (clean_text h (jget model ''runtime_revision'') 80))),
      (''contract_hash'', JStr (py_lower (clean_text h (jget model ''contract_hash'') 80))),
      (''approved_at'', first_approval now previous), (''updated_at'', JStr now),
      (''reason'', JStr ''Approved in GenStudio fleet catalog''), (''revoked_at'', JNull)]"

fun approve_catalog :: "exec_host \<Rightarrow> string \<Rightarrow> string \<Rightarrow> jdict list \<Rightarrow> jdict \<Rightarrow> exposure_error + jdict" where
  "approve_catalog h now revision [] rows = Inr rows"
| "approve_catalog h now revision (m # ms) rows =
     (if catalog_claims h m
      then approve_catalog h now revision ms
             (dset (catalog_key h m) (JObj (catalog_row h now revision m (jget rows (catalog_key h m)))) rows)
      else Inl Invalid_model_key)"

definition withdrawn :: "string \<Rightarrow> string list \<Rightarrow> string \<times> json \<Rightarrow> string \<times> json" where
  "withdrawn now desired row = (case row of (key, v) \<Rightarrow> (key, (case as_dict v of
       None \<Rightarrow> v
     | Some d \<Rightarrow>
         if key \<notin> set desired \<and> jget d ''state'' = JStr ''approved''
         then JObj (dupdate d [(''state'', JStr ''revoked''),
             (''authority'', if truthy (jget d ''authority'') then jget d ''authority'' else JStr ''legacy_site''),
             (''updated_at'', JStr now), (''revoked_at'', JStr now),
             (''reason'', JStr ''Not present in the current GenStudio fleet catalog'')])
         else v)))"

definition sync_global_catalog ::
  "exec_host \<Rightarrow> string \<Rightarrow> jdict list \<Rightarrow> string \<Rightarrow> exposure_file \<Rightarrow> exposure_error option \<times> exposure_file" where
  "sync_global_catalog h now models revision file =
     (let st = read_exposures file
      in case approve_catalog h now revision models (xs_records st) of
           Inl e \<Rightarrow> (Some e, file)
         | Inr rows \<Rightarrow> (None, write_exposures (st\<lparr>xs_records := map (withdrawn now (map (catalog_key h) models)) rows,
                             xs_revision := Some revision, xs_synced := Some now\<rparr>)))"

section \<open>Steps\<close>

datatype exposure_op =
    Approve_model string candidate_row string json
  | Revoke_model string candidate_row string json
  | Revoke_exposure string string json
  | Sync_catalog string "jdict list" string

fun exposure_step :: "exec_host \<Rightarrow> exposure_op \<Rightarrow> exposure_file \<Rightarrow> exposure_file" where
  "exposure_step h (Approve_model now c operation reason) file = snd (approve h now c operation reason file)"
| "exposure_step h (Revoke_model now c operation reason) file = snd (revoke h now c operation reason file)"
| "exposure_step h (Revoke_exposure now key reason) file = snd (revoke_key h now key reason file)"
| "exposure_step h (Sync_catalog now models revision) file = snd (sync_global_catalog h now models revision file)"

definition exposure_attempt :: "exec_host \<Rightarrow> bool \<times> exposure_op \<Rightarrow> exposure_file \<Rightarrow> exposure_file" where
  \<comment> \<open>an operation whose reads of the file succeed or all fail: \<open>_read\<close> turns a failed read into an empty
     file, and what the operation then writes replaces the whole file\<close>
  "exposure_attempt h re file =
     (if fst re then exposure_step h (snd re) file
      else case exposure_step h (snd re) Lost_file of Lost_file \<Rightarrow> file | Exposure_file v \<Rightarrow> Exposure_file v)"

end
