(* ===== verification/Exposure_Theorems.thy ===== *)
theory Exposure_Theorems
  imports Model_Exposure
begin

text \<open>
  Properties of the exposure policy: a model is approved exactly when the last decision about its exact key
  approved it, a record and its first approval last as long as reads succeed, what is published of a
  contract is bounded, and the inputs on which the module does not do what it says.
\<close>

section \<open>Reading back\<close>

lemma read_written [simp]: "read_exposures (write_exposures st) = st"
  by (cases st) (simp add: read_exposures_def write_exposures_def dict_or_empty_def jget_def jstr_opt_def split: option.split)

lemma read_lost [simp]: "xs_records (read_exposures Lost_file) = []"
  by (simp add: read_exposures_def dict_or_empty_def jget_def)

section \<open>The last decision\<close>

definition exposure_run :: "exec_host \<Rightarrow> exposure_op list \<Rightarrow> exposure_file" where
  "exposure_run h es = fold (exposure_step h) es Lost_file"

definition decide :: "exec_host \<Rightarrow> string \<Rightarrow> exposure_op \<Rightarrow> bool \<Rightarrow> bool" where
  \<comment> \<open>what an operation decides about a key\<close>
  "decide h key e before = (case e of
       Approve_model _ c operation _ \<Rightarrow> audited c operation \<and> candidate_key h c operation = key \<or> before
     | Revoke_model _ c operation _ \<Rightarrow> candidate_key h c operation \<noteq> key \<and> before
     | Revoke_exposure _ k _ \<Rightarrow> k \<noteq> key \<and> before
     | Sync_catalog _ models _ \<Rightarrow> if list_all (catalog_claims h) models then key \<in> set (map (catalog_key h) models) else before)"

definition last_decision :: "exec_host \<Rightarrow> string \<Rightarrow> exposure_op list \<Rightarrow> bool" where
  "last_decision h key es = fold (decide h key) es False"

definition exposed_at :: "jdict \<Rightarrow> string \<Rightarrow> bool" where
  "exposed_at rows key \<longleftrightarrow> (\<exists>d. dget rows key = Some (JObj d) \<and> jget d ''state'' = JStr ''approved'')"

definition decided_row :: "json \<Rightarrow> bool" where
  "decided_row v \<longleftrightarrow> (\<exists>d. v = JObj d \<and> jget d ''state'' \<in> {JStr ''approved'', JStr ''revoked''})"

definition decided :: "jdict \<Rightarrow> bool" where
  "decided rows \<longleftrightarrow> (\<forall>key v. dget rows key = Some v \<longrightarrow> decided_row v)"

lemma decided_dset: "decided rows \<Longrightarrow> decided_row v \<Longrightarrow> decided (dset key v rows)"
  by (auto simp: decided_def)

lemma exposed_dset: "exposed_at (dset k (JObj d) rows) key = (if key = k then jget d ''state'' = JStr ''approved'' else exposed_at rows key)"
  by (auto simp: exposed_at_def)

lemma revoked_row_state [simp]: "jget (revoked_row now reason d) ''state'' = JStr ''revoked''"
  by (simp add: revoked_row_def dupdate_def jget_def)

lemma catalog_row_state [simp]: "jget (catalog_row h now revision m previous) ''state'' = JStr ''approved''"
  by (simp add: catalog_row_def jget_def)

lemma approve_catalog_all: "approve_catalog h now revision ms rows = Inl e \<Longrightarrow> \<not> list_all (catalog_claims h) ms"
  by (induction ms arbitrary: rows) (auto split: if_splits)

lemma approve_catalog_rows:
  "approve_catalog h now revision ms rows = Inr rows' \<Longrightarrow> list_all (catalog_claims h) ms
     \<and> (decided rows \<longrightarrow> decided rows')
     \<and> (\<forall>key. dget rows' key = (if key \<in> set (map (catalog_key h) ms) then dget rows' key else dget rows key)
          \<and> (key \<in> set (map (catalog_key h) ms) \<longrightarrow> exposed_at rows' key))"
proof (induction ms arbitrary: rows)
  case (Cons m ms)
  let ?rows = "dset (catalog_key h m) (JObj (catalog_row h now revision m (jget rows (catalog_key h m)))) rows"
  have r: "approve_catalog h now revision ms ?rows = Inr rows'" and claims: "catalog_claims h m"
    using Cons.prems by (auto split: if_splits)
  note IH = Cons.IH [OF r]
  have "decided ?rows" if "decided rows" by (rule decided_dset [OF that]) (simp add: decided_row_def)
  moreover have "exposed_at rows' key" if "key \<in> set (map (catalog_key h) (m # ms))" for key
  proof (cases "key \<in> set (map (catalog_key h) ms)")
    case True
    then show ?thesis using IH by blast
  next
    case False
    then have "dget rows' key = dget ?rows key" using IH by metis
    moreover have "key = catalog_key h m" using False that by simp
    ultimately show ?thesis by (simp add: exposed_at_def)
  qed
  moreover have "dget rows' key = dget rows key" if "key \<notin> set (map (catalog_key h) (m # ms))" for key
  proof -
    have "dget rows' key = dget ?rows key" using IH that by (metis list.set_intros(2) list.simps(9))
    then show ?thesis using that by simp
  qed
  ultimately show ?case using IH claims by auto
qed simp

lemma dget_withdrawn: "dget (map (withdrawn now desired) rows) key = map_option (\<lambda>v. snd (withdrawn now desired (key, v))) (dget rows key)"
proof (induction rows)
  case (Cons kv rows)
  obtain k v where kv: "kv = (k, v)" by (rule prod.exhaust)
  obtain w where "withdrawn now desired (k, v) = (k, w)" by (simp add: withdrawn_def)
  then show ?case using Cons kv by simp
qed simp

lemma withdrawn_state:
  "decided_row v \<Longrightarrow> decided_row (snd (withdrawn now desired (key, v)))"
  "decided_row v \<Longrightarrow> (\<exists>d. snd (withdrawn now desired (key, v)) = JObj d \<and> jget d ''state'' = JStr ''approved'')
     \<longleftrightarrow> key \<in> set desired \<and> (\<exists>d. v = JObj d \<and> jget d ''state'' = JStr ''approved'')"
  by (auto simp: decided_row_def withdrawn_def dupdate_def jget_def split: option.splits)

lemma state_of_decided:
  assumes "decided (xs_records (read_exposures file))"
  shows "xp_state (state_for h file (Some c) operation) \<in> (if audited c operation then set (map JStr exposable) else {JStr ''blocked''})"
proof -
  have "jget d ''state'' \<in> {JStr ''approved'', JStr ''revoked''}"
    if "jget (xs_records (read_exposures file)) k = JObj d" for k d
    using that assms by (fastforce simp: decided_def decided_row_def jget_def split: option.splits)
  then show ?thesis
    by (fastforce simp: state_for_def audited_def plain_status_def exposable_def Let_def jget_def split: option.splits)
qed

lemma step_decides:
  assumes ok: "decided (xs_records (read_exposures file))"
  shows "decided (xs_records (read_exposures (exposure_step h e file)))
     \<and> exposed_at (xs_records (read_exposures (exposure_step h e file))) key = decide h key e (exposed_at (xs_records (read_exposures file)) key)"
proof -
  let ?rows = "xs_records (read_exposures file)"
  have revoke: "decided (xs_records (read_exposures (snd (revoke_key h now k reason file))))
      \<and> exposed_at (xs_records (read_exposures (snd (revoke_key h now k reason file)))) key = (k \<noteq> key \<and> exposed_at ?rows key)" for now k reason
  proof (cases "as_dict (jget ?rows k)")
    case None
    then show ?thesis using ok by (auto simp: revoke_key_def Let_def exposed_at_def jget_def)
  next
    case (Some d)
    then show ?thesis using ok by (auto simp: revoke_key_def Let_def exposed_dset decided_row_def intro!: decided_dset)
  qed
  show ?thesis
  proof (cases e)
    case (Approve_model now c operation reason)
    show ?thesis
    proof (cases "audited c operation")
      case False
      then have "xp_state (state_for h file (Some c) operation) = JStr ''blocked''" using state_of_decided [OF ok, of h c operation] by simp
      then show ?thesis using ok False Approve_model by (simp add: approve_def Let_def decide_def exposable_def)
    next
      case True
      then have s: "xp_state (state_for h file (Some c) operation) \<in> set (map JStr exposable)"
        using state_of_decided [OF ok, of h c operation] by simp
      then have "hashable (xp_state (state_for h file (Some c) operation))" by auto
      then show ?thesis using ok True s Approve_model
        by (auto simp: approve_def Let_def decide_def exposed_dset decided_row_def jget_def intro!: decided_dset)
    qed
  next
    case (Revoke_model now c operation reason)
    then show ?thesis using revoke [of now "candidate_key h c operation" reason] by (simp add: revoke_def decide_def)
  next
    case (Revoke_exposure now k reason)
    then show ?thesis using revoke [of now k reason] by (simp add: decide_def)
  next
    case (Sync_catalog now models revision)
    show ?thesis
    proof (cases "approve_catalog h now revision models ?rows")
      case (Inl x)
      then show ?thesis using ok Sync_catalog approve_catalog_all [OF Inl] by (simp add: sync_global_catalog_def Let_def decide_def)
    next
      case (Inr rows')
      note r = approve_catalog_rows [OF Inr]
      let ?new = "map (withdrawn now (map (catalog_key h) models)) rows'"
      have d: "decided rows'" using r ok by blast
      have "decided ?new" using d withdrawn_state(1) by (fastforce simp: decided_def dget_withdrawn)
      moreover have "exposed_at ?new key \<longleftrightarrow> key \<in> set (map (catalog_key h) models)"
      proof -
        have "exposed_at ?new key \<longleftrightarrow> key \<in> set (map (catalog_key h) models) \<and> exposed_at rows' key"
          using d withdrawn_state(2) [of _ now "map (catalog_key h) models" key]
          by (fastforce simp: exposed_at_def dget_withdrawn decided_def)
        then show ?thesis using r by blast
      qed
      ultimately show ?thesis using Inr r Sync_catalog by (simp add: sync_global_catalog_def Let_def decide_def)
    qed
  qed
qed

lemma run_decides:
  "decided (xs_records (read_exposures (exposure_run h es)))
   \<and> exposed_at (xs_records (read_exposures (exposure_run h es))) key = last_decision h key es"
proof (induction es rule: rev_induct)
  case Nil
  then show ?case by (simp add: exposure_run_def last_decision_def decided_def exposed_at_def)
next
  case (snoc e es)
  then show ?case using step_decides [of "exposure_run h es" h e key] by (simp add: exposure_run_def last_decision_def)
qed

text \<open>C38: Whatever the owner and the fleet catalog did since the file was created, a candidate is approved for an
  operation exactly when it passed its audit and is offered for that operation, and the last decision about
  the key of its exact model, operation, revision and contract was an approval: by the owner while its audit
  held, or by a valid catalog that lists it, and not followed by a revocation or a catalog without it.\<close>

theorem approved_by_last_decision:
  "is_approved h (exposure_run h es) (Some c) operation
     \<longleftrightarrow> audited c operation \<and> last_decision h (candidate_key h c operation) es"
proof -
  have "is_approved h (exposure_run h es) (Some c) operation
      \<longleftrightarrow> audited c operation \<and> exposed_at (xs_records (read_exposures (exposure_run h es))) (candidate_key h c operation)"
    by (auto simp: is_approved_def state_for_def audited_def plain_status_def exposed_at_def Let_def jget_def split: option.splits)
  then show ?thesis using run_decides by simp
qed

section \<open>Records and reads that fail\<close>

definition exposure_history :: "exec_host \<Rightarrow> (bool \<times> exposure_op) list \<Rightarrow> exposure_file" where
  "exposure_history h res = fold (exposure_attempt h) res Lost_file"

lemma sound_reads_history: "exposure_history h (map (Pair True) es) = exposure_run h es"
proof -
  have "exposure_attempt h (True, e) = exposure_step h e" for e by (rule ext) (simp add: exposure_attempt_def)
  then show ?thesis by (simp add: exposure_history_def exposure_run_def fold_map o_def)
qed

definition first_approved :: "exposure_file \<Rightarrow> string \<Rightarrow> json \<Rightarrow> bool" where
  \<comment> \<open>there is a record under the key, approved for the first time then\<close>
  "first_approved file key at_time \<longleftrightarrow>
     (\<exists>d. dget (xs_records (read_exposures file)) key = Some (JObj d) \<and> jget d ''approved_at'' = at_time)"

lemma first_approval_kept: "truthy (jget d ''approved_at'') \<Longrightarrow> first_approval now (JObj d) = jget d ''approved_at''"
  by (simp add: first_approval_def)

lemma revoked_keeps_approval [simp]: "jget (revoked_row now reason d) ''approved_at'' = jget d ''approved_at''"
  by (simp add: revoked_row_def dupdate_def jget_def)

lemma catalog_keeps_approval [simp]:
  "jget (catalog_row h now revision m previous) ''approved_at'' = first_approval now previous"
  by (simp add: catalog_row_def jget_def)

lemma withdrawn_keeps_approval:
  "\<exists>d'. snd (withdrawn now desired (key, JObj d)) = JObj d' \<and> jget d' ''approved_at'' = jget d ''approved_at''"
  by (simp add: withdrawn_def dupdate_def jget_def)

lemma step_keeps_approval:
  assumes t: "truthy a" and k: "first_approved file key a"
  shows "first_approved (exposure_step h e file) key a"
proof -
  obtain d where d: "dget (xs_records (read_exposures file)) key = Some (JObj d)" and a: "jget d ''approved_at'' = a"
    using k by (auto simp: first_approved_def)
  have stay: "first_approved x key a" if "dget (xs_records (read_exposures x)) key = Some (JObj d')"
      "jget d' ''approved_at'' = a" for x d'
    using that by (auto simp: first_approved_def)
  have own: "jget (xs_records (read_exposures file)) key = JObj d" using d by (simp add: jget_def)
  have revoked: "first_approved (snd (revoke_key h now k reason file)) key a" for now k reason
  proof (cases "k = key")
    case True
    then show ?thesis using own a by (simp add: revoke_key_def Let_def first_approved_def)
  next
    case False
    then show ?thesis using d a by (auto simp: revoke_key_def Let_def first_approved_def split: option.split)
  qed
  have sync: "\<exists>d'. dget rows' key = Some (JObj d') \<and> jget d' ''approved_at'' = a"
    if "approve_catalog h now revision ms rows = Inr rows'" "dget rows key = Some (JObj d0)" "jget d0 ''approved_at'' = a"
    for now revision ms rows rows' d0
    using that
  proof (induction ms arbitrary: rows d0)
    case (Cons m ms)
    let ?row = "catalog_row h now revision m (jget rows (catalog_key h m))"
    let ?rows = "dset (catalog_key h m) (JObj ?row) rows"
    have r: "approve_catalog h now revision ms ?rows = Inr rows'" using Cons.prems(1) by (auto split: if_splits)
    show ?case
    proof (cases "key = catalog_key h m")
      case True
      then have "jget rows (catalog_key h m) = JObj d0" using Cons.prems(2) by (simp add: jget_def)
      then have "jget ?row ''approved_at'' = a"
        using Cons.prems(3) t first_approval_kept [of d0 now] by simp
      then show ?thesis using Cons.IH [OF r, of ?row] True by simp
    next
      case False
      then show ?thesis using Cons.IH [OF r, of d0] Cons.prems(2,3) by simp
    qed
  qed auto
  show ?thesis
  proof (cases e)
    case (Approve_model now c operation reason)
    have "first_approval now (jget (xs_records (read_exposures file)) key) = a"
      using own a t first_approval_kept [of d now] by simp
    then show ?thesis using Approve_model stay [OF d a] d a
      by (auto simp: approve_def Let_def first_approved_def jget_def)
  next
    case (Revoke_model now c operation reason)
    then show ?thesis using revoked by (simp add: revoke_def)
  next
    case (Revoke_exposure now k reason)
    then show ?thesis using revoked by simp
  next
    case (Sync_catalog now models revision)
    show ?thesis
    proof (cases "approve_catalog h now revision models (xs_records (read_exposures file))")
      case (Inl x)
      then show ?thesis using Sync_catalog k by (simp add: sync_global_catalog_def Let_def)
    next
      case (Inr rows')
      obtain d' where d': "dget rows' key = Some (JObj d')" "jget d' ''approved_at'' = a" using sync [OF Inr d a] by blast
      then show ?thesis
        using Inr Sync_catalog withdrawn_keeps_approval [of now "map (catalog_key h) models" key d']
        by (auto simp: sync_global_catalog_def Let_def first_approved_def dget_withdrawn)
    qed
  qed
qed

text \<open>C39: The record of an approval lasts: once a record stands under a key, then through any approvals,
  revocations and catalogs whose reads of the file succeed there is a record under that key, and the time
  of its first approval does not change.  (One operation whose read fails starts from an empty file and
  drops every other record when it writes: \<open>failed_read_drops_records\<close>.)\<close>

theorem exposure_history_kept:
  assumes "first_approved (exposure_history h res) key a" and "truthy a" and "list_all fst res'"
  shows "first_approved (exposure_history h (res @ res')) key a"
  using assms(3)
proof (induction res' rule: rev_induct)
  case Nil
  then show ?case using assms(1) by simp
next
  case (snoc re res')
  then have "first_approved (exposure_history h (res @ res')) key a" "fst re" by simp_all
  then show ?case
    using step_keeps_approval [OF assms(2)] by (simp add: exposure_history_def exposure_attempt_def)
qed

definition demo_exposure_host :: exec_host where
  "demo_exposure_host = \<lparr>eh_site = ''site'', eh_sha256 = (\<lambda>s. s), eh_iso = (\<lambda>_. Not_iso), eh_repr = (\<lambda>_. ''x''), eh_float = (\<lambda>_. ''0'')\<rparr>"

definition demo_candidate :: candidate_row where
  "demo_candidate = \<lparr>ca_model = ''m'', ca_name = ''m'', ca_audit = '''', ca_status = ''passed'', ca_flag = True,
     ca_contract = ''c'', ca_revision = ''r'', ca_operations = [''op''], ca_audited = None, ca_adapter = JObj [],
     ca_controls = JObj [], ca_input = JObj [], ca_output = JObj [], ca_capacity = [], ca_hardware = JObj []\<rparr>"

definition demo_approval :: "(bool \<times> exposure_op) list" where
  "demo_approval = [(True, Approve_model ''t'' demo_candidate ''op'' JNull)]"

definition demo_decisions :: "(bool \<times> exposure_op) list" where
  "demo_decisions = [(True, Sync_catalog ''u'' [] ''1''), (True, Approve_model ''v'' demo_candidate ''op'' JNull),
     (True, Revoke_model ''w'' demo_candidate ''op'' JNull)]"

lemma demo_approved_at:
  "(case dget (xs_records (read_exposures (exposure_history demo_exposure_host demo_approval)))
       (candidate_key demo_exposure_host demo_candidate ''op'') of
     Some (JObj d) \<Rightarrow> jget d ''approved_at'' = JStr ''t'' | _ \<Rightarrow> False)"
  by code_simp

theorem exposure_history_kept_witness:
  "first_approved (exposure_history demo_exposure_host (demo_approval @ demo_decisions))
     (candidate_key demo_exposure_host demo_candidate ''op'') (JStr ''t'')"
proof (rule exposure_history_kept)
  show "first_approved (exposure_history demo_exposure_host demo_approval)
      (candidate_key demo_exposure_host demo_candidate ''op'') (JStr ''t'')"
    using demo_approved_at by (auto simp: first_approved_def split: option.splits json.splits)
qed (simp_all add: demo_decisions_def)

text \<open>An approval of another model whose read of the file fails drops the first one.\<close>

lemma failed_read_drops_records:
  "map fst (xs_records (read_exposures (exposure_history demo_exposure_host
     (demo_approval @ [(False, Approve_model ''v'' (demo_candidate\<lparr>ca_model := ''n''\<rparr>) ''op'' JNull)]))))
   = [candidate_key demo_exposure_host (demo_candidate\<lparr>ca_model := ''n''\<rparr>) ''op'']"
  by code_simp

section \<open>What is published of a contract\<close>

fun published :: "json \<Rightarrow> bool" where
  \<comment> \<open>no private key at any depth, texts and keys of bounded length\<close>
  "published (JStr s) = (length s \<le> 500)"
| "published (JList vs) = list_all published vs"
| "published (JObj d) = list_all (\<lambda>kv. fst kv \<noteq> [] \<and> length (fst kv) \<le> 120 \<and> \<not> private_key (fst kv) \<and> published (snd kv)) d"
| "published _ = True"

lemma published_dset:
  assumes "published (JObj d)" "key \<noteq> []" "length key \<le> 120" "\<not> private_key key" "published v"
  shows "published (JObj (dset key v d))"
  using assms by (induction d) auto

lemma safe_contract_published: "safe_contract n v = Some w \<Longrightarrow> published w"
proof (induction n arbitrary: v w)
  case (Suc n)
  show ?case
  proof (cases v)
    case (JList vs)
    then have w: "w = JList (List.map_filter (safe_contract n) (take 100 vs))" using Suc.prems by simp
    show ?thesis unfolding w using Suc.IH by (auto simp: list_all_iff map_filter_def)
  next
    case (JObj d)
    let ?f = "\<lambda>(raw, child) result. (let key = take 120 (py_strip raw)
           in if key = [] \<or> private_key key then result
              else case safe_contract n child of None \<Rightarrow> result | Some safe \<Rightarrow> dset key safe result)"
    have "published (JObj (fold ?f ps out))" if "published (JObj out)" for ps out
      using that
    proof (induction ps arbitrary: out)
      case (Cons p ps)
      obtain raw child where p: "p = (raw, child)" by (rule prod.exhaust)
      have "published (JObj (?f (raw, child) out))"
        using Cons.prems Suc.IH [of child] by (auto simp: Let_def simp del: published.simps intro!: published_dset split: option.split)
      then show ?case using Cons.IH [of "?f p out"] p by simp
    qed simp
    then show ?thesis using Suc.prems JObj by auto
  qed (use Suc.prems in auto)
qed simp

lemma safe_part_published: "published (safe_part d name)"
  using safe_contract_published by (auto simp: safe_part_def split: option.split)

lemma length_clean_text: "length (clean_text h v n) \<le> n"
  by (simp add: clean_text_def)

lemma capacity_bounds: "capacity_of value = Inr cs \<Longrightarrow> list_all (\<lambda>(_, n). 0 \<le> n \<and> n \<le> 1000) cs"
  by (auto simp: capacity_of_def bounded_capacity_def bind_err_Inr split: json.splits int_result.splits)

text \<open>C40: What is shown of a candidate is bounded: in its contract metadata, at any depth, texts have at
  most 500 characters, and keys, as they are published, are not empty, have at most 120 characters and are
  not the names of private values; its model id and name have at most 500 characters, capacities are
  between 0 and 1000, the revision and the contract are content hashes, and its operations are distinct, in
  order and not empty.  (A private name longer than 120 characters is cut before it is looked at, and
  published under what is left: \<open>long_private_key_published\<close>.)\<close>

theorem candidate_is_publishable:
  assumes "candidate_summary h model = Inr (Some c)"
  shows "list_all published [ca_adapter c, ca_controls c, ca_input c, ca_output c, ca_hardware c]
     \<and> list_all (\<lambda>(_, n). 0 \<le> n \<and> n \<le> 1000) (ca_capacity c)
     \<and> immutable_pattern (ca_revision c) \<and> contract_pattern (ca_contract c)
     \<and> ca_model c \<noteq> [] \<and> length (ca_model c) \<le> 500 \<and> length (ca_name c) \<le> 500
     \<and> ca_operations c \<noteq> [] \<and> sorted (ca_operations c) \<and> distinct (ca_operations c)"
proof -
  obtain d where d: "jget model ''genstudio_candidate'' = JObj d"
    using assms by (auto simp: candidate_summary_def split: option.splits)
  obtain vs where vs: "jget d ''approved_operations'' = JList vs"
    using assms d by (cases "jget d ''approved_operations''") (auto simp: candidate_summary_def Let_def split: if_splits)
  from assms d vs obtain cap where cap: "capacity_of d = Inr cap"
    and c: "ca_adapter c = safe_part d ''adapter''" "ca_controls c = safe_part d ''controls''" "ca_input c = safe_part d ''input_limits''"
      "ca_output c = safe_part d ''output_limits''" "ca_hardware c = safe_part d ''hardware''" "ca_capacity c = cap"
      "immutable_pattern (ca_revision c)" "contract_pattern (ca_contract c)" "ca_model c \<noteq> []" "ca_operations c \<noteq> []"
      "ca_operations c = approved_operations h vs" "length (ca_model c) \<le> 500" "length (ca_name c) \<le> 500"
    using length_clean_text [of h _ 500]
    by (auto simp: candidate_summary_def Let_def bind_err_Inr split: if_splits)
  show ?thesis using c safe_part_published capacity_bounds [OF cap] by (simp add: approved_operations_def)
qed

definition demo_published_model :: jdict where
  "demo_published_model = [(''repo'', JStr ''m''), (''cached'', JBool True), (''genstudio_candidate'', JObj
     [(''schema'', JStr ''studio.model-audit''), (''schema_version'', JInt 1), (''runtime_revision'', JStr (replicate 40 (CHR ''a''))),
      (''contract_hash'', JStr (sha_prefix @ replicate 64 (CHR ''b''))), (''approved_operations'', JList [JStr ''op'']),
      (''adapter'', JObj [(''api_key'', JStr ''k''), (''name'', JStr ''n'')])])]"

theorem candidate_is_publishable_witness:
  "case candidate_summary demo_exposure_host demo_published_model of
     Inr (Some c) \<Rightarrow> ca_adapter c = JObj [(''name'', JStr ''n'')] \<and> published (ca_adapter c) | _ \<Rightarrow> False"
proof -
  have s: "case candidate_summary demo_exposure_host demo_published_model of
     Inr (Some c) \<Rightarrow> ca_adapter c = JObj [(''name'', JStr ''n'')] | _ \<Rightarrow> False" by code_simp
  then obtain c where c: "candidate_summary demo_exposure_host demo_published_model = Inr (Some c)"
    by (auto split: sum.splits option.splits)
  from candidate_is_publishable [OF this] show ?thesis using s c by simp
qed

section \<open>Where the policy falls short\<close>

text \<open>The four parts of a key are joined by line ends, which a model id and an operation may contain: approving
  one model and operation approves another one.\<close>

definition other_candidate :: candidate_row where
  "other_candidate = demo_candidate\<lparr>ca_model := ''m'' @ CHR 0x0A # ''op'', ca_operations := [''x'']\<rparr>"

definition split_candidate :: candidate_row where
  "split_candidate = demo_candidate\<lparr>ca_operations := [''op'' @ CHR 0x0A # ''x'']\<rparr>"

lemma exposure_keys_collide:
  "is_approved demo_exposure_host (exposure_run demo_exposure_host
     [Approve_model ''t'' split_candidate (''op'' @ CHR 0x0A # ''x'') JNull]) (Some other_candidate) ''x''"
  by code_simp

text \<open>A capacity that is not an object makes the summary raise instead of leaving the candidate out.\<close>

lemma list_capacity_raises:
  "candidate_summary demo_exposure_host [(''repo'', JStr ''m''), (''genstudio_candidate'', JObj
     [(''schema'', JStr ''studio.model-audit''), (''schema_version'', JInt 1), (''runtime_revision'', JStr (replicate 40 (CHR ''a''))),
      (''contract_hash'', JStr (sha_prefix @ replicate 64 (CHR ''b''))), (''approved_operations'', JList [JStr ''op'']),
      (''capacity'', JList [JInt 1])])] = Inl Exposure_raises"
  by code_simp

text \<open>The private suffix is looked for in the key cut to 120 characters, so a longer key escapes.\<close>

lemma long_private_key_published:
  "safe_contract 6 (JObj [(replicate 120 (CHR ''a'') @ ''_token'', JStr ''s3cret'')]) = Some (JObj [(replicate 120 (CHR ''a''), JStr ''s3cret'')])"
  by code_simp

end
