(* ===== verification/Transcribe_Items.thy ===== *)
theory Transcribe_Items
  imports Chat_Packs Model_Exposure
begin

text \<open>
  The data of \<open>app/backend/transcription_jobs.py\<close> and its functions without state: validation of a
  submission, the paths of its files, the summary, which worker may run an item, and what an attempt does to
  an item.  A file's content is a text and its size its length; a path is relative to the directory of all
  batches.  JSON decoding is the parameter of the Chat lane.
\<close>

section \<open>Data\<close>

datatype media_state = M_queued | M_running | M_done | M_error | M_cancelled

record media_attempt =
  ar_studio :: string
  ar_machine :: string
  ar_error :: string
  ar_at :: time

record media_item =
  mi_index :: nat
  mi_id :: string
  mi_name :: string
  mi_input :: "string option"
  mi_bytes :: nat
  mi_state :: media_state
  mi_tries :: nat
  mi_studio :: "string option"
  mi_task :: json
  mi_duration :: "fnum option"
  mi_media :: json
  mi_artifact :: "string option"
  mi_error :: "string option"
  mi_metadata :: "jdict option"
  mi_avoid :: "(string, time) dict"
  mi_history :: "media_attempt list"
  mi_interrupted :: bool
  mi_started :: "time option"
  mi_finished :: "time option"

record media_batch =
  mb_id :: string
  mb_key :: string
  mb_created :: time
  mb_updated :: time
  mb_finished :: "time option"
  mb_dispatched :: time
  mb_cancelled :: bool
  mb_lease_expired :: bool
  mb_label :: "string option"
  mb_project :: "string option"
  mb_episode :: "string option"
  mb_model :: string
  mb_language :: "string option"
  mb_words :: bool
  mb_items :: "media_item list"
  mb_execution :: "jdict option"
  mb_cleaned :: "time option"

definition media_terminal :: "media_state \<Rightarrow> bool" where
  "media_terminal s \<longleftrightarrow> s \<in> {M_done, M_error, M_cancelled}"

definition media_over :: "media_batch \<Rightarrow> bool" where
  "media_over b \<longleftrightarrow> list_all (\<lambda>i. media_terminal (mi_state i)) (mb_items b)"

definition max_media_files :: nat where
  "max_media_files = 500"

definition max_media_tries :: nat where
  "max_media_tries = 3"

record media_limits =
  ml_file :: nat
  ml_batch :: nat

definition media_limits_of :: media_limits where
  \<comment> \<open>2 GiB and 20 GiB\<close>
  "media_limits_of = \<lparr>ml_file = 2 * 1024 * 1024 * 1024, ml_batch = 20 * 1024 * 1024 * 1024\<rparr>"

definition media_extensions :: "string list" where
  "media_extensions = [''.wav'', ''.mp3'', ''.m4a'', ''.aac'', ''.flac'', ''.ogg'', ''.opus'', ''.webm'', ''.mp4'', ''.mov'']"

datatype media_error =
    Bad_file_count | Bad_id_count | Bad_media_model | Bad_media_field string | Repeated_ids | Bad_filename
  | Bad_extension string | Execution_not_json | Execution_not_dict | Wrong_media_operation
  | Media_identity identity_error | Media_raises | File_too_large | Batch_too_large | Empty_upload

section \<open>Validators\<close>

definition clean_of :: "string option \<Rightarrow> string" where
  "clean_of v = py_strip (str_or_empty v)"

definition media_identifier :: "string \<Rightarrow> string option \<Rightarrow> media_error + string" where
  "media_identifier field v =
     (let s = clean_of v
      in if s = [] \<or> 120 < length s \<or> s \<in> set [''.'', ''..''] \<or> CHR ''/'' \<in> set s \<or> CHR 0x5C \<in> set s
            \<or> \<not> is_alnum (hd s) \<or> \<not> list_all (\<lambda>c. is_alnum c \<or> c \<in> set ''._ -'') (tl s)
         then Inl (Bad_media_field field) else Inr s)"

definition media_filename :: "string option \<Rightarrow> media_error + string" where
  "media_filename v =
     (let s = clean_of v
      in if s = [] \<or> 240 < length s \<or> s \<in> set [''.'', ''..''] \<or> CHR ''/'' \<in> set s \<or> CHR 0x5C \<in> set s
            \<or> list_ex (\<lambda>c. (of_char c :: nat) < 32) s
         then Inl Bad_filename else Inr s)"

definition media_model :: "string option \<Rightarrow> media_error + string" where
  "media_model v =
     (let s = clean_of v
      in if s = [] \<or> 240 < length s \<or> prefix ''/'' s \<or> CHR 0x5C \<in> set s \<or> ''..'' \<in> set (split_on (CHR ''/'') s)
            \<or> \<not> is_alnum (hd s) \<or> \<not> list_all (\<lambda>c. is_alnum c \<or> c \<in> set ''._/-'') (tl s)
         then Inl Bad_media_model else Inr s)"

definition path_suffix :: "string \<Rightarrow> string" where
  \<comment> \<open>\<open>Path(name).suffix\<close> of a name without a slash: from the last dot on, unless it is the first or last character\<close>
  "path_suffix name =
     (let tail = takeWhile (\<lambda>c. c \<noteq> CHR ''.'') (rev name); n = length name - length tail
      in if n \<le> 1 \<or> tail = [] then [] else drop (n - 1) name)"

definition supported_name :: "string \<Rightarrow> media_error + string" where
  "supported_name name = (if py_lower (path_suffix name) \<in> set media_extensions then Inr name
     else Inl (Bad_extension (path_suffix name)))"

fun read_all :: "('a \<Rightarrow> media_error + 'b) \<Rightarrow> 'a list \<Rightarrow> media_error + 'b list" where
  "read_all f [] = Inr []"
| "read_all f (x # xs) = bind_err (f x) (\<lambda>y. bind_err (read_all f xs) (\<lambda>ys. Inr (y # ys)))"

definition optional_media_name :: "string \<Rightarrow> string option \<Rightarrow> media_error + string option" where
  "optional_media_name field v = (if str_or_empty v = [] then Inr None
     else bind_err (media_identifier field v) (\<lambda>s. Inr (Some s)))"

section \<open>Submission\<close>

record media_request =
  rq_files :: "(string option \<times> string) list"
  rq_ids :: "string list"
  rq_model :: "string option"
  rq_language :: "string option"
  rq_words :: bool
  rq_label :: "string option"
  rq_project :: "string option"
  rq_episode :: "string option"
  rq_execution :: "string option"
  rq_dedupe :: bool

record media_order =
  mo_files :: "(string \<times> string \<times> string) list"
  mo_model :: string
  mo_language :: "string option"
  mo_words :: bool
  mo_label :: "string option"
  mo_project :: "string option"
  mo_episode :: "string option"

definition read_execution :: "chat_host \<Rightarrow> string option \<Rightarrow> media_error + jdict option" where
  "read_execution h v =
     (if str_or_empty v = [] then Inr None
      else case hc_loads h (str_or_empty v) of
        Decoded (JObj d) \<Rightarrow>
          (let operation = jget d ''operation''
           in if operation \<noteq> JNull \<and> py_lower (py_strip (py_str (th_repr (hc_text h)) operation)) \<noteq> ''audio.transcription''
              then Inl Wrong_media_operation else Inr (Some d))
      | Decoded _ \<Rightarrow> Inl Execution_not_dict
      | _ \<Rightarrow> Inl Execution_not_json)"

definition read_media_order :: "media_request \<Rightarrow> media_error + media_order" where
  \<comment> \<open>an id, its file's name and content in \<open>mo_files\<close>\<close>
  "read_media_order rq =
     (if rq_files rq = [] \<or> max_media_files < length (rq_files rq) then Inl Bad_file_count
      else if length (rq_ids rq) \<noteq> length (rq_files rq) then Inl Bad_id_count
      else bind_err (media_model (rq_model rq)) (\<lambda>model.
           bind_err (read_all (\<lambda>v. media_identifier ''item_id'' (Some v)) (rq_ids rq)) (\<lambda>ids.
           if \<not> distinct ids then Inl Repeated_ids
           else bind_err (read_all (\<lambda>f. media_filename (fst f)) (rq_files rq)) (\<lambda>names.
                bind_err (read_all supported_name names) (\<lambda>_.
                bind_err (optional_media_name ''project'' (rq_project rq)) (\<lambda>project.
                bind_err (optional_media_name ''episode'' (rq_episode rq)) (\<lambda>episode.
                bind_err (optional_media_name ''label'' (rq_label rq)) (\<lambda>label.
                Inr \<lparr>mo_files = zip ids (zip names (map snd (rq_files rq))), mo_model = model,
                     mo_language = (if str_or_empty (rq_language rq) = [] then None else rq_language rq),
                     mo_words = rq_words rq, mo_label = label, mo_project = project, mo_episode = episode\<rparr>)))))))) "

definition media_envelope :: "media_order \<Rightarrow> jdict option \<Rightarrow> jdict" where
  "media_envelope ord execution =
     [(''modality'', JStr ''transcription''), (''model'', JStr (mo_model ord)), (''language'', jstr_opt (mo_language ord)),
      (''word_timestamps'', JBool (mo_words ord)), (''project'', jstr_opt (mo_project ord)),
      (''episode'', jstr_opt (mo_episode ord)),
      (''items'', JList (map (\<lambda>(i, name, _). JObj [(''item_id'', JStr i), (''filename'', JStr name)]) (mo_files ord)))]
     @ (case execution of None \<Rightarrow> [] | Some d \<Rightarrow> [(''genstudio_execution'', JObj d)])"

definition media_key :: "exec_host \<Rightarrow> media_order \<Rightarrow> string" where
  "media_key h ord = eh_sha256 h (json_text (eh_float h) (JObj
     [(''project'', JStr (str_or_empty (mo_project ord))), (''episode'', JStr (str_or_empty (mo_episode ord))),
      (''model'', JStr (mo_model ord)),
      (''items'', JList (map (\<lambda>(i, name, _). JList [JStr i, JStr name]) (mo_files ord)))]))"

definition four_digits :: "nat \<Rightarrow> string" where
  "four_digits n = replicate (4 - length (nat_text n)) (CHR ''0'') @ nat_text n"

definition input_path :: "exec_host \<Rightarrow> string \<Rightarrow> nat \<Rightarrow> string \<Rightarrow> string \<Rightarrow> string" where
  "input_path h bid index item_id name = bid @ ''/input/'' @ four_digits index @ ''-'' @ take 12 (eh_sha256 h item_id)
     @ py_lower (path_suffix name)"

definition artifact_path :: "string \<Rightarrow> nat \<Rightarrow> string" where
  "artifact_path bid index = bid @ ''/output/'' @ four_digits index @ ''.srt''"

definition fresh_media :: "exec_host \<Rightarrow> string \<Rightarrow> nat \<Rightarrow> string \<times> string \<times> string \<Rightarrow> media_item" where
  "fresh_media h bid index f = (case f of (item_id, name, content) \<Rightarrow>
     \<lparr>mi_index = index, mi_id = item_id, mi_name = name, mi_input = Some (input_path h bid index item_id name),
      mi_bytes = length content, mi_state = M_queued, mi_tries = 0, mi_studio = None, mi_task = JNull,
      mi_duration = None, mi_media = JNull, mi_artifact = None, mi_error = None, mi_metadata = None, mi_avoid = [],
      mi_history = [], mi_interrupted = False, mi_started = None, mi_finished = None\<rparr>)"

fun store_files ::
  "media_limits \<Rightarrow> exec_host \<Rightarrow> string \<Rightarrow> nat \<Rightarrow> nat \<Rightarrow> (string \<times> string \<times> string) list \<Rightarrow> (string, string) dict
     \<Rightarrow> media_error + (media_item list \<times> (string, string) dict)" where
  \<comment> \<open>\<open>stored\<close> bytes so far; which limit is named when both are passed depends on the chunks\<close>
  "store_files limits h bid index stored [] disk = Inr ([], disk)"
| "store_files limits h bid index stored (f # fs) disk = (case f of (item_id, name, content) \<Rightarrow>
     if ml_file limits < length content then Inl File_too_large
     else if ml_batch limits < stored + length content then Inl Batch_too_large
     else if content = [] then Inl Empty_upload
     else bind_err (store_files limits h bid (Suc index) (stored + length content) fs
                      (dset (input_path h bid index item_id name) content disk))
            (\<lambda>(items, disk'). Inr (fresh_media h bid index f # items, disk')))"

definition new_media :: "string \<Rightarrow> string \<Rightarrow> time \<Rightarrow> media_order \<Rightarrow> media_item list \<Rightarrow> evidence option \<Rightarrow> media_batch" where
  "new_media bid key now ord items evidence =
     \<lparr>mb_id = bid, mb_key = key, mb_created = now, mb_updated = now, mb_finished = None, mb_dispatched = 0,
      mb_cancelled = False, mb_lease_expired = False, mb_label = mo_label ord, mb_project = mo_project ord,
      mb_episode = mo_episode ord, mb_model = mo_model ord, mb_language = mo_language ord, mb_words = mo_words ord,
      mb_items = items, mb_execution = map_option evidence_dict evidence, mb_cleaned = None\<rparr>"

section \<open>Summary\<close>

definition media_in :: "media_state \<Rightarrow> media_batch \<Rightarrow> nat" where
  "media_in s b = length (filter (\<lambda>i. mi_state i = s) (mb_items b))"

definition media_status :: "media_batch \<Rightarrow> string" where
  "media_status b =
     (if media_in M_queued b \<noteq> 0 \<or> media_in M_running b \<noteq> 0
      then (if media_in M_running b \<noteq> 0 then ''running'' else ''queued'')
      else if media_in M_cancelled b = length (mb_items b) then ''cancelled''
      else if media_in M_error b \<noteq> 0 \<and> media_in M_done b \<noteq> 0 then ''partial''
      else if media_in M_error b \<noteq> 0 then ''error''
      else if media_in M_cancelled b \<noteq> 0 then (if media_in M_done b \<noteq> 0 then ''partial'' else ''cancelled'')
      else ''done'')"

section \<open>Workers\<close>

fun py_any :: "bool option list \<Rightarrow> bool option" where
  \<comment> \<open>\<open>any\<close> of a generator; \<open>None\<close>: the element raises\<close>
  "py_any [] = Some False"
| "py_any (None # rs) = None"
| "py_any (Some b # rs) = (if b then Some True else py_any rs)"

definition media_matches :: "exec_host \<Rightarrow> jdict \<Rightarrow> jdict \<Rightarrow> bool option" where
  \<comment> \<open>\<open>_execution_matches_model\<close> with an assignment; \<open>None\<close>: it raises\<close>
  "media_matches h entry execution = (case validate_transcription_identity h (JObj execution) of
       Inl _ \<Rightarrow> Some False
     | Inr None \<Rightarrow> None
     | Inr (Some (revision, contract)) \<Rightarrow> (case execution_candidate h entry ''audio.transcription'' of
         Inl _ \<Rightarrow> None
       | Inr None \<Rightarrow> Some False
       | Inr (Some c) \<Rightarrow> (case as_dict (jget entry ''cache'') of
           None \<Rightarrow> Some False
         | Some cache \<Rightarrow> Some (jget entry ''genstudio_candidate_runtime_match'' = JBool True
             \<and> normalized_immutable_revision h (JStr (ca_revision c)) = Some revision \<and> ca_contract c = contract
             \<and> normalized_immutable_revision h (jget cache ''snapshot_revision'') = Some revision))))"

definition media_available :: "exec_host \<Rightarrow> string \<Rightarrow> jdict option \<Rightarrow> jdict option \<Rightarrow> bool option" where
  \<comment> \<open>models that are a list of objects\<close>
  "media_available h model execution availability =
     (let d = (case availability of None \<Rightarrow> [] | Some d \<Rightarrow> d);
          models = (case jget d ''models'' of JList vs \<Rightarrow> List.map_filter as_dict vs | _ \<Rightarrow> [])
      in if \<not> truthy (jget d ''available'') then Some False
         else py_any (map (\<lambda>m. if jget m ''repo'' \<noteq> JStr model then Some False
                else (case execution of
                    Some e \<Rightarrow> media_matches h m e
                  | None \<Rightarrow> Some (case dget m ''cached'' of None \<Rightarrow> True | Some v \<Rightarrow> truthy v))) models))"

section \<open>Attempts\<close>

definition plain_error :: "string \<Rightarrow> run_error" where
  \<comment> \<open>neither an HTTP error nor an OSError\<close>
  "plain_error text = \<lparr>re_text = text, re_transient = False\<rparr>"

definition os_error :: "string \<Rightarrow> run_error" where
  "os_error text = \<lparr>re_text = text, re_transient = True\<rparr>"

definition media_avoid_s :: time where
  "media_avoid_s = 90"

definition last_attempts :: "media_attempt list \<Rightarrow> media_attempt list" where
  "last_attempts rows = drop (length rows - 8) rows"

definition dispatched_media :: "time \<Rightarrow> string \<Rightarrow> studio \<Rightarrow> media_item \<Rightarrow> media_item" where
  "dispatched_media now bid s i = i\<lparr>mi_state := M_running, mi_studio := Some (st_id s), mi_error := None,
     mi_task := JStr (''stt-'' @ bid @ ''-'' @ nat_text (mi_index i)), mi_started := Some now, mi_tries := mi_tries i + 1\<rparr>"

definition requeued_media :: "string \<Rightarrow> media_item \<Rightarrow> media_item" where
  "requeued_media error i = i\<lparr>mi_state := M_queued, mi_studio := None, mi_task := JNull, mi_error := Some error\<rparr>"

definition attempted_text :: "media_attempt list \<Rightarrow> string" where
  "attempted_text rows = join_with '', '' (map (\<lambda>r. ar_machine r @ '' ('' @ ar_error r @ '')'') rows)"

definition noted_media :: "time \<Rightarrow> studio \<Rightarrow> run_error \<Rightarrow> media_item \<Rightarrow> media_item" where
  \<comment> \<open>the history, and the machine to avoid\<close>
  "noted_media now s e i =
     (let i1 = i\<lparr>mi_history := last_attempts (mi_history i @
            [\<lparr>ar_studio = st_id s, ar_machine = st_machine s, ar_error = take 240 (re_text e), ar_at = py_round 3 now\<rparr>])\<rparr>
      in if re_transient e \<and> \<not> is_capacity_failure (re_text e)
         then i1\<lparr>mi_avoid := dset (st_machine s) (now + media_avoid_s) (mi_avoid i1)\<rparr> else i1)"

definition failed_media :: "time \<Rightarrow> studio \<Rightarrow> bool \<Rightarrow> run_error \<Rightarrow> media_item \<Rightarrow> media_item" where
  "failed_media now s cancelled e i =
     (let i1 = noted_media now s e i
      in if re_transient e \<and> mi_tries i1 < max_media_tries \<and> \<not> cancelled
         then requeued_media (''try '' @ nat_text (mi_tries i1) @ '' failed on '' @ st_machine s @ '': '' @ re_text e) i1
         else i1\<lparr>mi_state := M_error, mi_error := Some (re_text e @ ''. Workers attempted: '' @ attempted_text (mi_history i1))\<rparr>)"

definition finished_media :: "string \<Rightarrow> fnum \<Rightarrow> jdict \<Rightarrow> media_item \<Rightarrow> media_item" where
  "finished_media path elapsed d i = i\<lparr>mi_state := M_done, mi_artifact := Some path, mi_error := None,
     mi_task := (if truthy (jget d ''studio_task_id'') then jget d ''studio_task_id'' else jget d ''task_id''),
     mi_duration := Some elapsed, mi_media := jget d ''duration'',
     mi_metadata := Some (filter (\<lambda>(k, _). k \<noteq> ''srt'') d)\<rparr>"

definition expire_media_item :: "time \<Rightarrow> media_item \<Rightarrow> media_item" where
  "expire_media_item now i =
     (if mi_state i \<in> {M_queued, M_running}
      then i\<lparr>mi_state := M_cancelled, mi_error := Some lease_expired_text, mi_finished := Some now\<rparr> else i)"

definition cancel_queued_media :: "media_item \<Rightarrow> media_item" where
  "cancel_queued_media i = (if mi_state i = M_queued then i\<lparr>mi_state := M_cancelled, mi_error := Some ''cancelled''\<rparr> else i)"

definition media_retryable :: "media_item \<Rightarrow> bool" where
  "media_retryable i \<longleftrightarrow> mi_state i = M_error \<or> mi_interrupted i"

definition retried_item :: "media_item \<Rightarrow> media_item" where
  "retried_item i = (if media_retryable i
     then i\<lparr>mi_state := M_queued, mi_error := None, mi_studio := None, mi_task := JNull, mi_interrupted := False, mi_tries := 0\<rparr>
     else i)"

definition restored_media :: "(string, string) dict \<Rightarrow> media_item \<Rightarrow> media_item" where
  \<comment> \<open>an input path of None raises TypeError, see \<open>restore_raises\<close>\<close>
  "restored_media disk i =
     (let i1 = (if mi_state i = M_running then (requeued_media ''interrupted by Hub restart'' i)\<lparr>mi_interrupted := True\<rparr> else i)
      in if mi_state i1 = M_queued \<and> (case mi_input i1 of None \<Rightarrow> False | Some p \<Rightarrow> dget disk p = None)
         then i1\<lparr>mi_state := M_error, mi_error := Some ''uploaded audio is missing''\<rparr> else i1)"

definition restore_raises :: "media_batch \<Rightarrow> bool" where
  "restore_raises b \<longleftrightarrow> list_ex (\<lambda>i. mi_state i \<in> {M_queued, M_running} \<and> mi_input i = None) (mb_items b)"

end
