(* ===== verification/Transcribe_Lane.thy ===== *)
theory Transcribe_Lane
  imports Transcribe_Items
begin

text \<open>
  The running transcription lane of \<open>app/backend/transcription_jobs.py\<close>, modelled like the Chat lane: batches
  are objects on a heap, \<open>tr_memory\<close> and the tasks hold addresses, a row of the table is the copy saved last.
  Availability and the work of the other lane are read from caches without suspending, so a scan runs from
  one await of \<open>prepare_machine_memory\<close> to the next.  A task has a number, as \<open>_item_tasks\<close> may be
  overwritten by a second task of the same item.  A submission is a step up to the reading of the uploads
  and a step from there.  A cleanup and the clearing of the history are one step each; the server runs
  them in worker threads over the rows they read first, so a retry of a listed batch at the same moment
  lies outside the model.  The copy for the control plane, the activity record, alerts and the cache entry
  that a failure drops are not modelled.
\<close>

section \<open>State\<close>

datatype media_stage = T_new | T_asking time | T_handing run_error

record media_task =
  mt_id :: nat
  mt_addr :: nat
  mt_item :: nat
  mt_studio :: studio
  mt_owner :: string
  mt_generation :: "int option"
  mt_stage :: media_stage
  mt_cancel :: bool

record media_plan =
  mp_rest :: "nat list"
  mp_progress :: bool
  mp_addr :: nat
  mp_item :: nat
  mp_studio :: studio
  mp_studios :: "studio list"

record media_upload =
  mu_id :: string
  mu_key :: string
  mu_order :: media_order
  mu_evidence :: "evidence option"

record media_state_rec =
  tr_heap :: "media_batch list"
  tr_memory :: "(string, nat) dict"
  tr_rows :: "media_batch list"
  tr_busy :: "string list"
  tr_tasks :: "media_task list"
  tr_known :: "(string \<times> nat, nat) dict"
  tr_next :: nat
  tr_plan :: "media_plan option"
  tr_stopping :: bool
  tr_leases :: leases
  tr_turns :: turns
  tr_fences :: fence_db
  tr_machines :: protections
  tr_disk :: "(string, string) dict"
  tr_dirs :: "string list"
  tr_uploads :: "media_upload list"

record media_env =
  me_host :: chat_host
  me_registry :: "studio list"
  me_limits :: media_limits

record media_view =
  tv_fleet :: fleet_view
  tv_ready :: "string \<Rightarrow> int option \<Rightarrow> bool"
  tv_drained :: "string list"
  tv_broker_busy :: "string list"
  tv_broker_batches :: "batch list"
  tv_available :: "string \<Rightarrow> jdict option"
  tv_other :: "string \<Rightarrow> bool"

abbreviation media_exec :: "media_env \<Rightarrow> exec_host" where
  "media_exec c \<equiv> hc_exec (me_host c)"

definition media_at :: "media_state_rec \<Rightarrow> nat \<Rightarrow> media_batch option" where
  "media_at st a = (if a < length (tr_heap st) then Some (tr_heap st ! a) else None)"

definition set_media :: "nat \<Rightarrow> (media_batch \<Rightarrow> media_batch) \<Rightarrow> media_state_rec \<Rightarrow> media_state_rec" where
  "set_media a f st = (case media_at st a of None \<Rightarrow> st | Some b \<Rightarrow> st\<lparr>tr_heap := (tr_heap st)[a := f b]\<rparr>)"

definition item_at :: "media_batch \<Rightarrow> nat \<Rightarrow> media_item option" where
  "item_at b i = (if i < length (mb_items b) then Some (mb_items b ! i) else None)"

definition map_media :: "nat \<Rightarrow> (media_item \<Rightarrow> media_item) \<Rightarrow> media_batch \<Rightarrow> media_batch" where
  "map_media i f b = (case item_at b i of None \<Rightarrow> b | Some it \<Rightarrow> b\<lparr>mb_items := (mb_items b)[i := f it]\<rparr>)"

section \<open>The table\<close>

definition saved_media :: "time \<Rightarrow> media_batch \<Rightarrow> media_batch" where
  "saved_media now b = b\<lparr>mb_updated := now,
     mb_finished := (if media_over b \<and> mb_finished b \<in> {None, Some 0} then Some now else mb_finished b)\<rparr>"

definition save_media :: "time \<Rightarrow> nat \<Rightarrow> media_state_rec \<Rightarrow> media_state_rec" where
  "save_media now a st = (case media_at st a of
       None \<Rightarrow> st
     | Some b \<Rightarrow> (set_media a (saved_media now) st)
         \<lparr>tr_rows := filter (\<lambda>r. mb_id r \<noteq> mb_id b) (tr_rows st) @ [saved_media now b]\<rparr>)"

definition media_rows :: "(media_batch \<Rightarrow> bool) \<Rightarrow> media_state_rec \<Rightarrow> media_batch list" where
  \<comment> \<open>newest first\<close>
  "media_rows p st = filter p (rev (sort_key mb_created (tr_rows st)))"

definition new_media_object :: "media_batch \<Rightarrow> media_state_rec \<Rightarrow> nat \<times> media_state_rec" where
  "new_media_object b st = (length (tr_heap st), st\<lparr>tr_heap := tr_heap st @ [b]\<rparr>)"

definition get_media :: "string \<Rightarrow> media_state_rec \<Rightarrow> (nat \<times> media_state_rec) option" where
  "get_media bid st = (case dget (tr_memory st) bid of
       Some a \<Rightarrow> Some (a, st)
     | None \<Rightarrow> (case media_rows (\<lambda>r. mb_id r = bid) st of [] \<Rightarrow> None | b # _ \<Rightarrow> Some (new_media_object b st)))"

definition remember_media :: "string \<Rightarrow> nat \<Rightarrow> media_state_rec \<Rightarrow> media_state_rec" where
  "remember_media bid a st = st\<lparr>tr_memory := dset bid a (tr_memory st)\<rparr>"

definition remember_media_default :: "string \<Rightarrow> nat \<Rightarrow> media_state_rec \<Rightarrow> media_state_rec" where
  "remember_media_default bid a st = (if dget (tr_memory st) bid = None then remember_media bid a st else st)"

section \<open>Lease expiry\<close>

definition media_lease_over :: "exec_host \<Rightarrow> time \<Rightarrow> media_batch \<Rightarrow> identity_error + bool" where
  "media_lease_over h now b = (case mb_execution b of
       None \<Rightarrow> Inr False | Some d \<Rightarrow> lease_expired h now (as_str (jget d ''lease_expires_at'')))"

definition expired_media :: "time \<Rightarrow> media_batch \<Rightarrow> media_batch" where
  "expired_media now b = b\<lparr>mb_cancelled := True, mb_lease_expired := True, mb_items := map (expire_media_item now) (mb_items b)\<rparr>"

definition expire_media :: "media_env \<Rightarrow> time \<Rightarrow> nat \<Rightarrow> media_state_rec \<Rightarrow> (media_state_rec \<times> bool) option" where
  \<comment> \<open>\<open>None\<close>: the date arithmetic overflows\<close>
  "expire_media c now a st = (case media_at st a of
       None \<Rightarrow> Some (st, False)
     | Some b \<Rightarrow> (case media_lease_over (media_exec c) now b of
         Inl _ \<Rightarrow> None
       | Inr over \<Rightarrow> Some (if over then set_media a (expired_media now) st else st, over)))"

section \<open>Submission\<close>

definition media_identity :: "identity_error \<Rightarrow> media_error" where
  "media_identity e = (if e \<in> {Binding_none, Token_infinite, Token_too_large, Lease_unrepresentable}
     then Media_raises else Media_identity e)"

definition media_duplicate :: "media_env \<Rightarrow> media_request \<Rightarrow> media_order \<Rightarrow> prepared \<Rightarrow> media_state_rec \<Rightarrow> media_batch option" where
  "media_duplicate c rq ord prep st =
     (if rq_dedupe rq \<and> pr_evidence prep = None
      then (case media_rows (\<lambda>r. mb_key r = media_key (media_exec c) ord \<and> \<not> media_over r) st of [] \<Rightarrow> None | b # _ \<Rightarrow> Some b)
      else None)"

definition begin_upload ::
  "media_env \<Rightarrow> string \<Rightarrow> time \<Rightarrow> media_request \<Rightarrow> media_state_rec \<Rightarrow> (media_error + string option) \<times> media_state_rec" where
  \<comment> \<open>up to the first \<open>await upload.read\<close>: a refusal, the id of a known batch, or \<open>None\<close> and an upload under way;
     \<open>bid\<close> is the fresh id\<close>
  "begin_upload c bid now rq st = (case read_media_order rq of
       Inl e \<Rightarrow> (Inl e, st)
     | Inr ord \<Rightarrow> (case read_execution (me_host c) (rq_execution rq) of
         Inl e \<Rightarrow> (Inl e, st)
       | Inr execution \<Rightarrow> (case prepare (media_exec c) now (media_envelope ord execution) (tr_fences st) of
           Inl e \<Rightarrow> (Inl (media_identity e), st)
         | Inr (prep, db) \<Rightarrow>
             (let st1 = st\<lparr>tr_fences := db\<rparr>
              in case (if str_or_empty (pr_replay prep) = [] then None else get_media (str_or_empty (pr_replay prep)) st1) of
                   Some (a, st2) \<Rightarrow> (Inr (Some (str_or_empty (pr_replay prep))),
                                     remember_media_default (str_or_empty (pr_replay prep)) a st2)
                 | None \<Rightarrow> (case media_duplicate c rq ord prep st1 of
                     Some b \<Rightarrow> (let (a, st2) = new_media_object b st1 in (Inr (Some (mb_id b)), remember_media_default (mb_id b) a st2))
                   | None \<Rightarrow> (Inr None, st1\<lparr>tr_dirs := List.insert bid (tr_dirs st1),
                       tr_uploads := tr_uploads st1 @ [\<lparr>mu_id = bid, mu_key = media_key (media_exec c) ord, mu_order = ord,
                         mu_evidence = pr_evidence prep\<rparr>]\<rparr>))))))"

definition remove_dir :: "string \<Rightarrow> media_state_rec \<Rightarrow> media_state_rec" where
  "remove_dir bid st = st\<lparr>tr_dirs := removeAll bid (tr_dirs st),
     tr_disk := filter (\<lambda>(path, _). \<not> prefix (bid @ ''/'') path) (tr_disk st)\<rparr>"

definition end_upload ::
  "media_env \<Rightarrow> string \<Rightarrow> time \<Rightarrow> media_state_rec \<Rightarrow> (media_error + string) \<times> media_state_rec" where
  "end_upload c bid now st = (case select_first (\<lambda>u. mu_id u = bid) (tr_uploads st) of
       None \<Rightarrow> (Inl Media_raises, st)
     | Some u \<Rightarrow>
         (let st0 = st\<lparr>tr_uploads := filter (\<lambda>u. mu_id u \<noteq> bid) (tr_uploads st)\<rparr>
          in case store_files (me_limits c) (media_exec c) bid 0 0 (mo_files (mu_order u)) (tr_disk st0) of
               Inl e \<Rightarrow> (Inl e, remove_dir bid st0)
             | Inr (items, disk) \<Rightarrow>
                 (let (a, st1) = new_media_object (new_media bid (mu_key u) now (mu_order u) items (mu_evidence u)) (st0\<lparr>tr_disk := disk\<rparr>);
                      st2 = save_media now a (remember_media bid a st1)
                  in (Inr bid, st2\<lparr>tr_fences := bind_local_batch (mu_evidence u) bid now (tr_fences st2)\<rparr>))))"

section \<open>The dispatcher\<close>

definition media_candidate :: "media_env \<Rightarrow> media_view \<Rightarrow> time \<Rightarrow> media_item \<Rightarrow> media_state_rec \<Rightarrow> studio \<Rightarrow> bool" where
  "media_candidate c v now i st s \<longleftrightarrow> st_modality s = ''voice'' \<and> st_id s \<notin> set (tr_busy st) \<and> st_id s \<notin> set (tv_drained v)
     \<and> fv_up (tv_fleet v) (st_id s) \<and> fv_machine_on (tv_fleet v) (st_machine s)
     \<and> fv_studio_on (tv_fleet v) (st_machine s) (st_id s)
     \<and> st_machine s \<notin> busy_machines (me_registry c) (tv_broker_busy v) (tr_leases st)
     \<and> \<not> machine_blocked now (st_machine s) (tr_machines st)
     \<and> (case dget (mi_avoid i) (st_machine s) of None \<Rightarrow> True | Some t \<Rightarrow> t \<le> now)
     \<and> tv_ready v (st_id s) None"

fun pick_studios :: "(studio \<Rightarrow> bool option) \<Rightarrow> studio list \<Rightarrow> studio list option" where
  \<comment> \<open>\<open>None\<close>: the test of a studio raises\<close>
  "pick_studios ok [] = Some []"
| "pick_studios ok (s # ss) = (case ok s of
       None \<Rightarrow> None
     | Some b \<Rightarrow> map_option (\<lambda>rest. if b then s # rest else rest) (pick_studios ok ss))"

definition media_studios :: "media_env \<Rightarrow> media_view \<Rightarrow> time \<Rightarrow> media_batch \<Rightarrow> media_item \<Rightarrow> media_state_rec \<Rightarrow> studio list option" where
  "media_studios c v now b i st = map_option (sort_key (\<lambda>s. (studio_total_memory_gb (tv_fleet v) s, st_id s)))
     (pick_studios (\<lambda>s. if media_candidate c v now i st s
        then media_available (media_exec c) (mb_model b) (mb_execution b) (tv_available v (st_id s)) else Some False)
      (me_registry c))"

definition turn_open :: "media_view \<Rightarrow> media_state_rec \<Rightarrow> studio \<Rightarrow> bool" where
  "turn_open v st s \<longleftrightarrow> external_dispatch_allowed (st_machine s) ''transcription'' (tv_other v (st_machine s)) (tr_turns st) = Some True"

definition media_order_list :: "media_state_rec \<Rightarrow> nat list" where
  \<comment> \<open>served least recently first\<close>
  "media_order_list st = map fst (sort_key (\<lambda>(_, b). (mb_dispatched b, mb_created b))
     (filter (\<lambda>(_, b). \<not> mb_cancelled b)
       (List.map_filter (\<lambda>(_, a). map_option (Pair a) (media_at st a)) (tr_memory st))))"

definition first_queued :: "media_batch \<Rightarrow> nat option" where
  "first_queued b = map_option fst (select_first (\<lambda>(_, i). mi_state i = M_queued) (enumerate 0 (mb_items b)))"

fun media_visit :: "media_env \<Rightarrow> media_view \<Rightarrow> time \<Rightarrow> bool \<Rightarrow> nat list \<Rightarrow> media_state_rec \<Rightarrow> media_state_rec" where
  \<comment> \<open>the batches from here on, up to the next await\<close>
  "media_visit c v now progress [] st = st\<lparr>tr_plan := None\<rparr>"
| "media_visit c v now progress (a # rest) st = (case expire_media c now a st of
       None \<Rightarrow> st\<lparr>tr_plan := None\<rparr>
     | Some (st1, True) \<Rightarrow> media_visit c v now progress rest (save_media now a st1)
     | Some (st1, False) \<Rightarrow> (case Option.bind (media_at st1 a) (\<lambda>b. Option.bind (first_queued b) (\<lambda>i.
            map_option (\<lambda>it. (b, i, it)) (item_at b i))) of
         None \<Rightarrow> media_visit c v now progress rest st1
       | Some (b, i, it) \<Rightarrow> (case media_studios c v now b it st1 of
           None \<Rightarrow> st1\<lparr>tr_plan := None\<rparr>
         | Some studios \<Rightarrow> (case dropWhile (\<lambda>s. \<not> turn_open v st1 s) studios of
             [] \<Rightarrow> media_visit c v now progress rest st1
           | s # ss \<Rightarrow> st1\<lparr>tr_plan := Some \<lparr>mp_rest = rest, mp_progress = progress, mp_addr = a, mp_item = i,
               mp_studio = s, mp_studios = ss\<rparr>\<rparr>))))"

definition media_scan_on :: "media_env \<Rightarrow> media_view \<Rightarrow> time \<Rightarrow> bool \<Rightarrow> nat list \<Rightarrow> media_state_rec \<Rightarrow> media_state_rec" where
  "media_scan_on c v now progress rest st =
     (let st1 = media_visit c v now progress rest st
      in if tr_plan st1 = None \<and> progress then media_visit c v now False (media_order_list st1) st1 else st1)"

definition media_start_scan :: "media_env \<Rightarrow> media_view \<Rightarrow> time \<Rightarrow> media_state_rec \<Rightarrow> media_state_rec" where
  "media_start_scan c v now st =
     (if tr_stopping st \<or> tr_plan st \<noteq> None then st else media_visit c v now False (media_order_list st) st)"

definition media_next_studio :: "media_env \<Rightarrow> media_view \<Rightarrow> time \<Rightarrow> media_plan \<Rightarrow> media_state_rec \<Rightarrow> media_state_rec" where
  "media_next_studio c v now p st = (case dropWhile (\<lambda>s. \<not> turn_open v st s) (mp_studios p) of
       [] \<Rightarrow> media_scan_on c v now (mp_progress p) (mp_rest p) st
     | s # ss \<Rightarrow> st\<lparr>tr_plan := Some (p\<lparr>mp_studio := s, mp_studios := ss\<rparr>)\<rparr>)"

definition media_owner :: "string \<Rightarrow> nat \<Rightarrow> string" where
  "media_owner bid index = ''transcription:'' @ bid @ '':'' @ nat_text index"

definition assign_media :: "time \<Rightarrow> nat \<Rightarrow> nat \<Rightarrow> studio \<Rightarrow> media_batch \<Rightarrow> media_item \<Rightarrow> int option \<Rightarrow> media_state_rec \<Rightarrow> media_state_rec" where
  \<comment> \<open>the lease is held already\<close>
  "assign_media now a i s b it generation st =
     (save_media now a ((set_media a (\<lambda>b. (map_media i (dispatched_media now (mb_id b) s) b)\<lparr>mb_dispatched := now\<rparr>) st)
        \<lparr>tr_busy := List.insert (st_id s) (tr_busy st)\<rparr>))
       \<lparr>tr_tasks := tr_tasks st @ [\<lparr>mt_id = tr_next st, mt_addr = a, mt_item = i, mt_studio = s,
          mt_owner = media_owner (mb_id b) (mi_index it), mt_generation = generation, mt_stage = T_new, mt_cancel = False\<rparr>],
        tr_known := dset (mb_id b, mi_index it) (tr_next st) (tr_known st), tr_next := Suc (tr_next st)\<rparr>"

definition media_memory ::
  "media_env \<Rightarrow> media_view \<Rightarrow> time \<Rightarrow> bool \<Rightarrow> int option \<Rightarrow> media_state_rec \<Rightarrow> media_state_rec" where
  \<comment> \<open>\<open>prepare_machine_memory\<close> has answered; the item is dispatched as it was found\<close>
  "media_memory c v now run generation st = (case tr_plan st of
       None \<Rightarrow> st
     | Some p \<Rightarrow> (case Option.bind (media_at st (mp_addr p)) (\<lambda>b. map_option (Pair b) (item_at b (mp_item p))) of
         None \<Rightarrow> st
       | Some (b, it) \<Rightarrow>
           (let s = mp_studio p; machine = st_machine s;
                (leases, held) = acquire_external_machine (me_registry c) (tv_fleet v) (tv_broker_batches v)
                                   (tv_broker_busy v) machine (media_owner (mb_id b) (mi_index it)) (tr_leases st)
            in if \<not> run then media_next_studio c v now p
                 (st\<lparr>tr_turns := the (note_external_memory_block machine ''transcription'' (tr_turns st))\<rparr>)
               else if \<not> tv_ready v (st_id s) generation then media_next_studio c v now p st
               else if \<not> held then media_next_studio c v now p st
               else media_scan_on c v now True (mp_rest p) (assign_media now (mp_addr p) (mp_item p) s b it generation
                 (st\<lparr>tr_leases := leases, tr_turns := the (note_external_dispatch machine ''transcription'' (tr_turns st)),
                     tr_plan := None\<rparr>)))))"

section \<open>One item\<close>

definition on_media :: "media_task \<Rightarrow> (media_item \<Rightarrow> media_item) \<Rightarrow> media_state_rec \<Rightarrow> media_state_rec" where
  "on_media t f st = set_media (mt_addr t) (map_media (mt_item t) f) st"

definition drop_media_task :: "media_task \<Rightarrow> media_state_rec \<Rightarrow> media_state_rec" where
  "drop_media_task t st = st\<lparr>tr_tasks := filter (\<lambda>u. mt_id u \<noteq> mt_id t) (tr_tasks st)\<rparr>"

definition media_task_key :: "media_task \<Rightarrow> media_state_rec \<Rightarrow> (string \<times> nat) option" where
  "media_task_key t st = Option.bind (media_at st (mt_addr t)) (\<lambda>b. map_option (\<lambda>it. (mb_id b, mi_index it)) (item_at b (mt_item t)))"

definition finish_item :: "time \<Rightarrow> media_task \<Rightarrow> media_state_rec \<Rightarrow> media_state_rec" where
  \<comment> \<open>the \<open>finally\<close> block: the entry of the item's newest task is dropped, whoever ends\<close>
  "finish_item now t st = save_media now (mt_addr t) (drop_media_task t (st
     \<lparr>tr_busy := removeAll (st_id (mt_studio t)) (tr_busy st),
      tr_leases := release_external_machine (st_machine (mt_studio t)) (mt_owner t) (tr_leases st),
      tr_known := (case media_task_key t st of None \<Rightarrow> tr_known st | Some k \<Rightarrow> dpop k (tr_known st))\<rparr>))"

definition set_media_stage :: "media_task \<Rightarrow> media_stage \<Rightarrow> media_state_rec \<Rightarrow> media_state_rec" where
  "set_media_stage t stage st = st\<lparr>tr_tasks := update_where (\<lambda>u. mt_id u = mt_id t) (\<lambda>u. u\<lparr>mt_stage := stage\<rparr>) (tr_tasks st)\<rparr>"

definition note_failure :: "time \<Rightarrow> studio \<Rightarrow> run_error \<Rightarrow> media_state_rec \<Rightarrow> media_state_rec" where
  "note_failure now s e st = (if re_transient e \<and> \<not> is_capacity_failure (re_text e)
     then st\<lparr>tr_machines := fst (mark_machine_failure now (st_machine s) (re_text e) (tr_machines st))\<rparr> else st)"

definition fail_media :: "time \<Rightarrow> run_error \<Rightarrow> media_task \<Rightarrow> (media_item \<Rightarrow> media_item) \<Rightarrow> media_state_rec \<Rightarrow> media_state_rec" where
  "fail_media now e t f st = (case media_at st (mt_addr t) of
       None \<Rightarrow> st
     | Some b \<Rightarrow> finish_item now t (note_failure now (mt_studio t) e
         (on_media t (\<lambda>i. failed_media now (mt_studio t) (mb_cancelled b) e (f i)) st)))"

definition raise_media :: "time \<Rightarrow> run_error \<Rightarrow> media_task \<Rightarrow> media_state_rec \<Rightarrow> media_state_rec" where
  \<comment> \<open>the exception handler, up to the await of a capacity failure\<close>
  "raise_media now e t st =
     (if is_capacity_failure (re_text e) then set_media_stage t (T_handing e) st else fail_media now e t (\<lambda>i. i) st)"

definition handed_media :: "time \<Rightarrow> media_task \<Rightarrow> media_state_rec \<Rightarrow> media_state_rec" where
  "handed_media now t st = (case mt_stage t of
       T_handing e \<Rightarrow> fail_media now e t (\<lambda>i. i\<lparr>mi_tries := mi_tries i - 1\<rparr>) st
     | _ \<Rightarrow> st)"

definition media_overflow :: run_error where
  "media_overflow = plain_error ''date value out of range''"

definition begin_item :: "media_env \<Rightarrow> media_view \<Rightarrow> time \<Rightarrow> media_task \<Rightarrow> media_state_rec \<Rightarrow> media_state_rec" where
  \<comment> \<open>up to the await of the worker's answer\<close>
  "begin_item c v now t st = (case expire_media c now (mt_addr t) st of
       None \<Rightarrow> raise_media now media_overflow t st
     | Some (st1, True) \<Rightarrow> finish_item now t st1
     | Some (st1, False) \<Rightarrow> (case Option.bind (media_at st1 (mt_addr t)) (\<lambda>b. item_at b (mt_item t)) of
         None \<Rightarrow> st1
       | Some it \<Rightarrow> (case mi_input it of
           None \<Rightarrow> raise_media now (plain_error ''argument should be a str or an os.PathLike object'') t st1
         | Some path \<Rightarrow>
             if dget (tr_disk st1) path = None then raise_media now (os_error ''uploaded audio is missing'') t st1
             else if mt_generation t \<noteq> None \<and> \<not> tv_ready v (st_id (mt_studio t)) (mt_generation t)
             then finish_item now t (on_media t (\<lambda>i. (requeued_media ''worker authentication changed before dispatch'' i)
                    \<lparr>mi_tries := mi_tries i - 1\<rparr>) st1)
             else set_media_stage t (T_asking now) st1)))"

definition accept_media :: "media_env \<Rightarrow> time \<Rightarrow> time \<Rightarrow> jdict \<Rightarrow> media_task \<Rightarrow> media_batch \<Rightarrow> media_item \<Rightarrow> media_state_rec \<Rightarrow> media_state_rec" where
  "accept_media c now started d t b it st =
     (let srt = text_or_empty (th_repr (hc_text (me_host c))) (jget d ''srt''); path = artifact_path (mb_id b) (mi_index it)
      in if py_strip srt = [] then raise_media now (plain_error ''Voice Studio returned an empty SRT artifact'') t st
         else if mb_id b \<notin> set (tr_dirs st) then raise_media now (os_error ''No such file or directory'') t st
         else (let st1 = st\<lparr>tr_disk := dset path srt (tr_disk st)\<rparr>
           in case elapsed_of (hc_text (me_host c)) (now - started) (jget d ''elapsed_seconds'') of
                Inl e \<Rightarrow> raise_media now (e\<lparr>re_transient := False\<rparr>) t st1
              | Inr elapsed \<Rightarrow> finish_item now t ((on_media t (finished_media path elapsed d) st1)
                  \<lparr>tr_machines := fst (mark_machine_success now (st_machine (mt_studio t)) (tr_machines st1))\<rparr>)))"

definition answer_media :: "media_env \<Rightarrow> time \<Rightarrow> json \<Rightarrow> media_task \<Rightarrow> media_state_rec \<Rightarrow> media_state_rec" where
  \<comment> \<open>an answer with a status below 400 whose body is JSON\<close>
  "answer_media c now payload t st = (case expire_media c now (mt_addr t) st of
       None \<Rightarrow> raise_media now media_overflow t st
     | Some (st1, True) \<Rightarrow> finish_item now t st1
     | Some (st1, False) \<Rightarrow> (case (mt_stage t, Option.bind (media_at st1 (mt_addr t)) (\<lambda>b. map_option (Pair b) (item_at b (mt_item t)))) of
         (T_asking started, Some (b, it)) \<Rightarrow> (case as_dict payload of
             None \<Rightarrow> raise_media now (plain_error ''object has no attribute get'') t st1
           | Some d \<Rightarrow> accept_media c now started d t b it st1)
       | _ \<Rightarrow> st1))"

definition media_transient :: "int list" where
  "media_transient = [408, 409, 425, 429, 500, 502, 503, 504]"

definition media_http_error :: "int \<Rightarrow> string \<Rightarrow> run_error" where
  "media_http_error status detail = \<lparr>re_text = ''HTTP '' @ int_text status @ '': '' @
     (if detail = [] then ''transcription failed'' else detail), re_transient = (status \<in> set media_transient)\<rparr>"

definition interrupt_media :: "time \<Rightarrow> media_task \<Rightarrow> media_state_rec \<Rightarrow> media_state_rec" where
  \<comment> \<open>the CancelledError, as in the Chat lane\<close>
  "interrupt_media now t st = (case mt_stage t of
       T_new \<Rightarrow> drop_media_task t st
     | T_handing _ \<Rightarrow> finish_item now t st
     | T_asking _ \<Rightarrow> (case media_at st (mt_addr t) of
         None \<Rightarrow> st
       | Some b \<Rightarrow> finish_item now t (on_media t (if tr_stopping st \<and> \<not> mb_cancelled b
             then (\<lambda>i. (requeued_media ''interrupted by Hub shutdown'' i)\<lparr>mi_interrupted := True\<rparr>)
             else (\<lambda>i. i\<lparr>mi_state := M_cancelled, mi_error := Some ''cancelled''\<rparr>)) st)))"

section \<open>Handlers\<close>

definition cancel_task :: "nat list \<Rightarrow> media_state_rec \<Rightarrow> media_state_rec" where
  "cancel_task ids st = st\<lparr>tr_tasks := update_where (\<lambda>t. mt_id t \<in> set ids) (\<lambda>t. t\<lparr>mt_cancel := True\<rparr>) (tr_tasks st)\<rparr>"

definition running_tasks :: "media_batch \<Rightarrow> media_state_rec \<Rightarrow> nat list" where
  "running_tasks b st = List.map_filter (\<lambda>i. if mi_state i = M_running then dget (tr_known st) (mb_id b, mi_index i) else None) (mb_items b)"

definition cancel_media :: "time \<Rightarrow> string \<Rightarrow> media_state_rec \<Rightarrow> media_state_rec" where
  "cancel_media now bid st = (case get_media bid st of
       None \<Rightarrow> st
     | Some (a, st1) \<Rightarrow> (case media_at st1 a of
         None \<Rightarrow> st1
       | Some b \<Rightarrow> save_media now a (remember_media bid a (cancel_task (running_tasks b st1)
           (set_media a (\<lambda>b. b\<lparr>mb_cancelled := True, mb_items := map cancel_queued_media (mb_items b)\<rparr>) st1)))))"

definition retry_media :: "time \<Rightarrow> string \<Rightarrow> media_state_rec \<Rightarrow> media_state_rec" where
  "retry_media now bid st = (case get_media bid st of
       None \<Rightarrow> st
     | Some (a, st1) \<Rightarrow> (case media_at st1 a of
         None \<Rightarrow> st1
       | Some b \<Rightarrow>
           if mb_cleaned b \<notin> {None, Some 0} \<or> \<not> list_ex media_retryable (mb_items b) then st1
           else save_media now a (remember_media bid a (set_media a (\<lambda>b. b\<lparr>mb_cancelled := False, mb_finished := None,
                  mb_items := map retried_item (mb_items b)\<rparr>) st1))))"

definition renew_media :: "time \<Rightarrow> string \<Rightarrow> string \<Rightarrow> media_state_rec \<Rightarrow> media_state_rec" where
  "renew_media now bid lease st = (case get_media bid st of
       None \<Rightarrow> st
     | Some (a, st1) \<Rightarrow> save_media now a (remember_media bid a
         (set_media a (\<lambda>b. b\<lparr>mb_execution := Some (dset ''lease_expires_at'' (JStr lease)
            (case mb_execution b of None \<Rightarrow> [] | Some d \<Rightarrow> d))\<rparr>) st1)))"

definition forget_items :: "media_batch \<Rightarrow> media_state_rec \<Rightarrow> media_state_rec" where
  "forget_items b st = st\<lparr>tr_known := filter (\<lambda>((bid, index), _). bid \<noteq> mb_id b \<or> index \<notin> mi_index ` set (mb_items b)) (tr_known st)\<rparr>"

definition remove_over :: "media_batch \<Rightarrow> media_state_rec \<Rightarrow> media_state_rec" where
  "remove_over b st = (let st1 = forget_items b (remove_dir (mb_id b) st)
     in st1\<lparr>tr_memory := dpop (mb_id b) (tr_memory st1), tr_rows := filter (\<lambda>r. mb_id r \<noteq> mb_id b) (tr_rows st1)\<rparr>)"

definition remove_media :: "string \<Rightarrow> media_state_rec \<Rightarrow> media_state_rec" where
  "remove_media bid st = (case get_media bid st of
       None \<Rightarrow> st
     | Some (a, st1) \<Rightarrow> (case media_at st1 a of
         None \<Rightarrow> st1
       | Some b \<Rightarrow> if media_over b then remove_over b st1 else st1))"

definition clear_media :: "media_state_rec \<Rightarrow> media_state_rec" where
  \<comment> \<open>one step; the source loops over the rows it has read, in a worker thread\<close>
  "clear_media st = fold remove_over (media_rows media_over st) st"

definition cleaned_item :: "media_item \<Rightarrow> media_item" where
  "cleaned_item i = i\<lparr>mi_input := None, mi_artifact := None\<rparr>"

definition cleanable :: "bool \<Rightarrow> time \<Rightarrow> media_batch \<Rightarrow> bool" where
  "cleanable expired_only cutoff b \<longleftrightarrow> mb_cleaned b \<in> {None, Some 0} \<and> media_over b
     \<and> (expired_only \<longrightarrow> (case mb_finished b of None \<Rightarrow> mb_updated b | Some t \<Rightarrow> if t = 0 then mb_updated b else t) \<le> cutoff)"

definition clean_batch :: "bool \<Rightarrow> time \<Rightarrow> time \<Rightarrow> nat \<Rightarrow> media_state_rec \<Rightarrow> media_state_rec" where
  "clean_batch expired_only cutoff now a st = (case media_at st a of
       None \<Rightarrow> st
     | Some b \<Rightarrow>
         if \<not> cleanable expired_only cutoff b then st
         else (let st1 = set_media a (\<lambda>b. b\<lparr>mb_cleaned := Some now, mb_items := map cleaned_item (mb_items b)\<rparr>) (remove_dir (mb_id b) st)
               in save_media now a (st1\<lparr>tr_memory := dpop (mb_id b) (tr_memory st1)\<rparr>)))"

definition cleanup_one :: "bool \<Rightarrow> time \<Rightarrow> time \<Rightarrow> string \<Rightarrow> media_state_rec \<Rightarrow> media_state_rec" where
  "cleanup_one expired_only cutoff now bid st = (case get_media bid st of
       None \<Rightarrow> st | Some (a, st1) \<Rightarrow> clean_batch expired_only cutoff now a st1)"

fun cleanup_rows :: "bool \<Rightarrow> time \<Rightarrow> time \<Rightarrow> media_batch list \<Rightarrow> media_state_rec \<Rightarrow> media_state_rec" where
  "cleanup_rows expired_only cutoff now [] st = st"
| "cleanup_rows expired_only cutoff now (b # bs) st = (let (a, st1) = new_media_object b st
     in cleanup_rows expired_only cutoff now bs (clean_batch expired_only cutoff now a st1))"

definition cleanup_all :: "bool \<Rightarrow> time \<Rightarrow> time \<Rightarrow> media_state_rec \<Rightarrow> media_state_rec" where
  \<comment> \<open>one step; the source loops over the rows it has read, in a worker thread\<close>
  "cleanup_all expired_only cutoff now st = cleanup_rows expired_only cutoff now (media_rows (\<lambda>_. True) st) st"

definition stop_media :: "media_state_rec \<Rightarrow> media_state_rec" where
  "stop_media st = (cancel_task (map snd (tr_known st)) st)\<lparr>tr_stopping := True, tr_plan := None\<rparr>"

fun restore_media :: "media_env \<Rightarrow> time \<Rightarrow> media_batch list \<Rightarrow> media_state_rec \<Rightarrow> media_state_rec" where
  \<comment> \<open>an exception ends the restore\<close>
  "restore_media c now [] st = st"
| "restore_media c now (b # rows) st =
     (let (a, st1) = new_media_object b st
      in case expire_media c now a st1 of
           None \<Rightarrow> st1
         | Some (st2, over) \<Rightarrow>
             if \<not> over \<and> restore_raises b then st2
             else restore_media c now rows (save_media now a (remember_media (mb_id b) a
               (if over then st2 else set_media a (\<lambda>b. b\<lparr>mb_items := map (restored_media (tr_disk st2)) (mb_items b)\<rparr>) st2))))"

definition restart_media :: "media_env \<Rightarrow> time \<Rightarrow> media_state_rec \<Rightarrow> media_state_rec" where
  \<comment> \<open>a new process: the rows, the fences and the files are left\<close>
  "restart_media c now st =
     (let st1 = st\<lparr>tr_heap := [], tr_memory := [], tr_busy := [], tr_tasks := [], tr_known := [], tr_plan := None,
                   tr_stopping := False, tr_leases := [], tr_turns := [], tr_machines := [], tr_uploads := []\<rparr>
      in restore_media c now (media_rows (\<lambda>r. \<not> media_over r) st1) st1)"

section \<open>Steps\<close>

datatype media_op =
    Begin_upload string time media_request
  | End_upload string time
  | Scan_media media_view time
  | Media_memory media_view time bool "int option"
  | Media_scan_raises
  | Begin_item nat media_view time
  | Media_answer nat time json
  | Media_http_failed nat time int string
  | Media_raises_error nat time run_error
  | Media_handed nat time
  | Media_hand_raises nat time
  | Media_interrupted nat time
  | Cancel_media time string
  | Retry_media time string
  | Renew_media time string string
  | Remove_media string
  | Clear_media
  | Cleanup_one bool time time string
  | Cleanup_all bool time time
  | Stop_media
  | Start_media
  | Restart_media time
  | Rival_acquires media_view string string
  | Rival_releases string string
  | Rival_turn string string
  | Rival_circuit "protections"
  | Rival_fences exec_op

definition with_media :: "nat \<Rightarrow> (media_task \<Rightarrow> bool) \<Rightarrow> (media_task \<Rightarrow> media_state_rec \<Rightarrow> media_state_rec) \<Rightarrow> media_state_rec \<Rightarrow> media_state_rec" where
  "with_media k ok f st = (case select_first (\<lambda>t. mt_id t = k) (tr_tasks st) of
       None \<Rightarrow> st | Some t \<Rightarrow> if ok t then f t st else st)"

definition media_asking :: "media_task \<Rightarrow> bool" where
  "media_asking t \<longleftrightarrow> \<not> mt_cancel t \<and> (case mt_stage t of T_asking _ \<Rightarrow> True | _ \<Rightarrow> False)"

definition media_handing :: "media_task \<Rightarrow> bool" where
  "media_handing t \<longleftrightarrow> \<not> mt_cancel t \<and> (case mt_stage t of T_handing _ \<Rightarrow> True | _ \<Rightarrow> False)"

definition rival_owner :: "string \<Rightarrow> bool" where
  "rival_owner owner \<longleftrightarrow> \<not> prefix ''transcription:'' owner"

fun media_step :: "media_env \<Rightarrow> media_op \<Rightarrow> media_state_rec \<Rightarrow> media_state_rec" where
  "media_step c (Begin_upload bid now rq) st =
     (if bid \<in> set (tr_dirs st) \<or> dget (tr_memory st) bid \<noteq> None \<or> list_ex (\<lambda>r. mb_id r = bid) (tr_rows st) then st
      else snd (begin_upload c bid now rq st))"
| "media_step c (End_upload bid now) st = snd (end_upload c bid now st)"
| "media_step c (Scan_media v now) st = media_start_scan c v now st"
| "media_step c (Media_memory v now run generation) st = media_memory c v now run generation st"
| "media_step c Media_scan_raises st = st\<lparr>tr_plan := None\<rparr>"
| "media_step c (Begin_item k v now) st = with_media k (\<lambda>t. \<not> mt_cancel t \<and> mt_stage t = T_new) (begin_item c v now) st"
| "media_step c (Media_answer k now payload) st = with_media k media_asking (answer_media c now payload) st"
| "media_step c (Media_http_failed k now status detail) st =
     with_media k media_asking (raise_media now (media_http_error status detail)) st"
| "media_step c (Media_raises_error k now e) st = with_media k media_asking (raise_media now e) st"
| "media_step c (Media_handed k now) st = with_media k media_handing (handed_media now) st"
| "media_step c (Media_hand_raises k now) st = with_media k media_handing (finish_item now) st"
| "media_step c (Media_interrupted k now) st = with_media k mt_cancel (interrupt_media now) st"
| "media_step c (Cancel_media now bid) st = cancel_media now bid st"
| "media_step c (Retry_media now bid) st = retry_media now bid st"
| "media_step c (Renew_media now bid lease) st = renew_media now bid lease st"
| "media_step c (Remove_media bid) st = remove_media bid st"
| "media_step c Clear_media st = clear_media st"
| "media_step c (Cleanup_one expired_only cutoff now bid) st = cleanup_one expired_only cutoff now bid st"
| "media_step c (Cleanup_all expired_only cutoff now) st = cleanup_all expired_only cutoff now st"
| "media_step c Stop_media st = stop_media st"
| "media_step c Start_media st = st\<lparr>tr_stopping := False\<rparr>"
| "media_step c (Restart_media now) st = restart_media c now st"
| "media_step c (Rival_acquires v machine owner) st =
     (if rival_owner owner
      then st\<lparr>tr_leases := fst (acquire_external_machine (me_registry c) (tv_fleet v) (tv_broker_batches v)
             (tv_broker_busy v) machine owner (tr_leases st))\<rparr>
      else st)"
| "media_step c (Rival_releases machine owner) st =
     (if rival_owner owner then st\<lparr>tr_leases := release_external_machine machine owner (tr_leases st)\<rparr> else st)"
| "media_step c (Rival_turn machine lane) st =
     (case note_external_dispatch machine lane (tr_turns st) of None \<Rightarrow> st | Some ts \<Rightarrow> st\<lparr>tr_turns := ts\<rparr>)"
| "media_step c (Rival_circuit ps) st = st\<lparr>tr_machines := ps\<rparr>"
| "media_step c (Rival_fences e) st = st\<lparr>tr_fences := exec_step (media_exec c) e (tr_fences st)\<rparr>"

definition empty_media :: media_state_rec where
  "empty_media = \<lparr>tr_heap = [], tr_memory = [], tr_rows = [], tr_busy = [], tr_tasks = [], tr_known = [], tr_next = 0,
     tr_plan = None, tr_stopping = False, tr_leases = [], tr_turns = [], tr_fences = empty_fence_db, tr_machines = [],
     tr_disk = [], tr_dirs = [], tr_uploads = []\<rparr>"

definition media_run :: "media_env \<Rightarrow> media_op list \<Rightarrow> media_state_rec \<Rightarrow> media_state_rec" where
  "media_run c es st = fold (media_step c) es st"

end
