(* ===== verification/Lane_Holds.thy ===== *)
theory Lane_Holds
  imports Broker_Queue
begin

text \<open>
  How a lane that borrows machines from the broker holds them: a list of the machine, studio and owner of
  each of its tasks, against the table of leases and the lane's set of busy studios.  \<open>holds_ok\<close> says that
  the machines differ and are leased to their owners, \<open>holds_exact\<close> that nothing else is held; both are
  kept by what the lane and its rivals do through \<open>acquire_external_machine\<close> and \<open>release_external_machine\<close>.
\<close>

type_synonym hold = "string \<times> string \<times> string"

definition holds_ok :: "(string \<Rightarrow> bool) \<Rightarrow> hold list \<Rightarrow> leases \<Rightarrow> bool" where
  "holds_ok own H L \<longleftrightarrow> distinct (map fst H) \<and> (\<forall>(m, s, owner)\<in>set H. dget L m = Some owner \<and> own owner)"

definition holds_exact :: "(string \<Rightarrow> bool) \<Rightarrow> hold list \<Rightarrow> leases \<Rightarrow> string list \<Rightarrow> bool" where
  "holds_exact own H L busy \<longleftrightarrow> distinct (map (fst \<circ> snd) H) \<and> set busy = (fst \<circ> snd) ` set H
     \<and> (\<forall>m owner. dget L m = Some owner \<and> own owner \<longrightarrow> (\<exists>s. (m, s, owner) \<in> set H))"

lemma lease_acquired:
  assumes "acquire_external_machine reg fv bs busy machine owner L = (L', ok)"
  shows "L' = L \<and> \<not> ok \<or> L' = dset machine owner L \<and> dget L machine = None \<and> ok"
  using assms by (auto simp: acquire_external_machine_def busy_machines_def map_of_eq_None_iff split: if_splits)

lemma holds_ok_machine: "holds_ok own H L \<Longrightarrow> (m, s, owner) \<in> set H \<Longrightarrow> dget L m = Some owner \<and> own owner"
  by (auto simp: holds_ok_def)

lemma holds_ok_rival_acquires:
  assumes "holds_ok own H L" "acquire_external_machine reg fv bs busy machine owner L = (L', ok)"
  shows "holds_ok own H L'"
  using assms(1) lease_acquired [OF assms(2)] holds_ok_machine [OF assms(1)] by (fastforce simp: holds_ok_def)

lemma holds_ok_rival_releases:
  assumes "holds_ok own H L" "\<not> own owner"
  shows "holds_ok own H (release_external_machine machine owner L)"
  using assms by (fastforce simp: holds_ok_def release_external_machine_def)

lemma holds_exact_leases:
  assumes "holds_exact own H L busy" "\<And>m owner. dget L' m = Some owner \<Longrightarrow> own owner \<Longrightarrow> dget L m = Some owner"
  shows "holds_exact own H L' busy"
  using assms unfolding holds_exact_def by blast

lemma holds_exact_rival_acquires:
  assumes "holds_exact own H L busy" "\<not> own owner" "acquire_external_machine reg fv bs bb machine owner L = (L', ok)"
  shows "holds_exact own H L' busy"
  by (rule holds_exact_leases [OF assms(1)]) (use lease_acquired [OF assms(3)] assms(2) in \<open>auto split: if_splits\<close>)

lemma holds_exact_releases:
  "holds_exact own H L busy \<Longrightarrow> holds_exact own H (release_external_machine machine owner L) busy"
  by (erule holds_exact_leases) (auto simp: release_external_machine_def split: if_splits)

lemma holds_ok_add:
  assumes "holds_ok own H L" "acquire_external_machine reg fv bs busy m owner L = (L', True)" "own owner"
  shows "holds_ok own (H @ [(m, s, owner)]) L'"
proof -
  have L: "L' = dset m owner L" "dget L m = None" using lease_acquired [OF assms(2)] by auto
  then have "m \<notin> fst ` set H" using holds_ok_machine [OF assms(1)] by fastforce
  then show ?thesis using assms(1,3) L by (fastforce simp: holds_ok_def)
qed

lemma holds_exact_add:
  assumes "holds_exact own H L busy" "acquire_external_machine reg fv bs bb m owner L = (L', True)" "s \<notin> set busy"
  shows "holds_exact own (H @ [(m, s, owner)]) L' (List.insert s busy)"
proof -
  have L: "L' = dset m owner L" using lease_acquired [OF assms(2)] by auto
  have "s \<notin> (fst \<circ> snd) ` set H" using assms(1,3) unfolding holds_exact_def by metis
  then have "distinct (map (fst \<circ> snd) (H @ [(m, s, owner)]))" using assms(1) by (simp add: holds_exact_def)
  moreover have "set (List.insert s busy) = (fst \<circ> snd) ` set (H @ [(m, s, owner)])"
    using assms(1) unfolding holds_exact_def by simp
  moreover have "\<exists>s'. (m', s', owner') \<in> set (H @ [(m, s, owner)])" if "dget L' m' = Some owner'" "own owner'" for m' owner'
    using that assms(1) L unfolding holds_exact_def by (cases "m' = m") auto
  ultimately show ?thesis unfolding holds_exact_def by blast
qed

lemma holds_ok_drop: "holds_ok own (A @ h # B) L \<Longrightarrow> holds_ok own (A @ B) L"
  by (auto simp: holds_ok_def)

lemma holds_ok_remove:
  assumes "holds_ok own (A @ (m, s, owner) # B) L"
  shows "holds_ok own (A @ B) (release_external_machine m owner L)"
proof -
  have m: "m \<notin> fst ` set (A @ B)" using assms by (auto simp: holds_ok_def)
  show ?thesis unfolding holds_ok_def
  proof (intro conjI ballI, goal_cases)
    case 1
    then show ?case using assms by (simp add: holds_ok_def)
  next
    case (2 h)
    obtain m' s' owner' where h: "h = (m', s', owner')" by (cases h) auto
    with 2 m have "m' \<noteq> m" by (metis fst_conv image_eqI)
    moreover have "dget L m' = Some owner' \<and> own owner'"
      by (rule holds_ok_machine [OF assms, of m' s']) (use 2 h in auto)
    ultimately show ?case using h by (simp add: release_external_machine_def)
  qed
qed

lemma holds_exact_remove:
  assumes exact: "holds_exact own (A @ (m, s, owner) # B) L busy" and ok: "holds_ok own (A @ (m, s, owner) # B) L"
  shows "holds_exact own (A @ B) (release_external_machine m owner L) (removeAll s busy)"
proof -
  have "dget L m = Some owner" using ok by (simp add: holds_ok_def)
  then have L: "dget (release_external_machine m owner L) = (dget L)(m := None)"
    by (simp add: release_external_machine_def fun_upd_def)
  have "distinct (map (fst \<circ> snd) (A @ B))" "s \<notin> (fst \<circ> snd) ` set (A @ B)" using exact by (auto simp: holds_exact_def)
  moreover have "set (removeAll s busy) = (fst \<circ> snd) ` set (A @ B)"
    using exact calculation(2) by (auto simp: holds_exact_def)
  moreover have "\<exists>s'. (m', s', owner') \<in> set (A @ B)" if there: "dget (release_external_machine m owner L) m' = Some owner'" "own owner'" for m' owner'
  proof -
    have m': "m' \<noteq> m" "dget L m' = Some owner'" using there(1) L by (auto split: if_splits)
    then obtain s' where "(m', s', owner') \<in> set (A @ (m, s, owner) # B)" using exact there(2) unfolding holds_exact_def by blast
    with m'(1) show ?thesis by auto
  qed
  ultimately show ?thesis unfolding holds_exact_def by blast
qed

text \<open>A lane that owns a lease is not the other one.\<close>

lemma holds_apart:
  assumes "holds_ok own H L" "holds_ok own' H' L" "\<And>owner. own owner \<Longrightarrow> \<not> own' owner"
  shows "fst ` set H \<inter> fst ` set H' = {}"
proof -
  have False if "(m, s, a) \<in> set H" "(m, s', b) \<in> set H'" for m s a s' b
    using holds_ok_machine [OF assms(1) that(1)] holds_ok_machine [OF assms(2) that(2)] assms(3) by simp
  then show ?thesis by fastforce
qed

end
