(* ===== verification/Transcribe_Safety.thy ===== *)
theory Transcribe_Safety
  imports Transcribe_Lane Lane_Holds
begin

text \<open>
  What the transcription lane holds.  The locale \<open>media_serves\<close> lists the few changes that its steps make to
  tasks, leases, busy studios and the plan: an invariant that survives these survives every step within a
  process, and with an idle start (\<open>media_keeps\<close>) every step.  Its instances: every task holds the lease of
  a machine of its own (\<open>media_held\<close>, always), and nothing else is held (\<open>media_exact\<close>, unless a task is
  cancelled before it has begun).
\<close>

section \<open>What leaves the holds alone\<close>

definition lane_same :: "media_state_rec \<Rightarrow> media_state_rec \<Rightarrow> bool" where
  "lane_same st st' \<longleftrightarrow> tr_tasks st' = tr_tasks st \<and> tr_next st' = tr_next st \<and> tr_leases st' = tr_leases st
     \<and> tr_busy st' = tr_busy st \<and> tr_plan st' = tr_plan st"

lemma lane_same_refl [simp]: "lane_same st st"
  by (simp add: lane_same_def)

lemma lane_same_trans [trans]: "lane_same st st' \<Longrightarrow> lane_same st' st'' \<Longrightarrow> lane_same st st''"
  by (simp add: lane_same_def)

lemma lane_same_fields [simp]:
  "lane_same st (st\<lparr>tr_heap := h\<rparr>)" "lane_same st (st\<lparr>tr_memory := m\<rparr>)" "lane_same st (st\<lparr>tr_rows := rows\<rparr>)"
  "lane_same st (st\<lparr>tr_known := kn\<rparr>)" "lane_same st (st\<lparr>tr_stopping := b\<rparr>)" "lane_same st (st\<lparr>tr_turns := ts\<rparr>)"
  "lane_same st (st\<lparr>tr_fences := db\<rparr>)" "lane_same st (st\<lparr>tr_machines := ps\<rparr>)" "lane_same st (st\<lparr>tr_disk := d\<rparr>)"
  "lane_same st (st\<lparr>tr_dirs := ds\<rparr>)" "lane_same st (st\<lparr>tr_uploads := us\<rparr>)"
  by (simp_all add: lane_same_def)

lemma same_set_media [simp]: "lane_same st (set_media a f st)"
  by (simp add: set_media_def lane_same_def split: option.split)

lemma same_save_media [simp]: "lane_same st (save_media now a st)"
  using same_set_media [of st a "saved_media now"] by (simp add: save_media_def lane_same_def split: option.split)

lemma media_fields [simp]:
  "tr_tasks (set_media a f st) = tr_tasks st" "tr_next (set_media a f st) = tr_next st"
  "tr_leases (set_media a f st) = tr_leases st" "tr_busy (set_media a f st) = tr_busy st"
  "tr_plan (set_media a f st) = tr_plan st" "tr_tasks (save_media now a st) = tr_tasks st"
  "tr_next (save_media now a st) = tr_next st" "tr_leases (save_media now a st) = tr_leases st"
  "tr_busy (save_media now a st) = tr_busy st" "tr_plan (save_media now a st) = tr_plan st"
  using same_set_media [of st a f] same_save_media [of st now a] by (simp_all add: lane_same_def)

lemma same_remember [simp]: "lane_same st (remember_media bid a st)" "lane_same st (remember_media_default bid a st)"
  by (simp_all add: remember_media_def remember_media_default_def)

lemma same_new_object: "new_media_object b st = (a, st') \<Longrightarrow> lane_same st st'"
  by (auto simp: new_media_object_def)

lemma same_get_media: "get_media bid st = Some (a, st') \<Longrightarrow> lane_same st st'"
  by (auto simp: get_media_def same_new_object split: option.splits list.splits)

lemma same_expire: "expire_media c now a st = Some (st', over) \<Longrightarrow> lane_same st st'"
  by (auto simp: expire_media_def split: option.splits sum.splits if_splits)

lemma same_remove_dir [simp]: "lane_same st (remove_dir bid st)"
  by (simp add: remove_dir_def lane_same_def)

lemma same_on_media [simp]: "lane_same st (on_media t f st)"
  by (simp add: on_media_def)

lemma same_note_failure [simp]: "lane_same st (note_failure now s e st)"
  by (simp add: note_failure_def)

lemma same_begin_upload: "lane_same st (snd (begin_upload c bid now rq st))"
  by (auto simp: begin_upload_def Let_def lane_same_def remember_media_default_def remember_media_def new_media_object_def
      dest!: same_get_media split: sum.split prod.split option.split)

lemma same_end_upload: "lane_same st (snd (end_upload c bid now st))"
proof (cases "select_first (\<lambda>u. mu_id u = bid) (tr_uploads st)")
  case None
  then show ?thesis by (simp add: end_upload_def)
next
  case (Some u)
  let ?st0 = "st\<lparr>tr_uploads := filter (\<lambda>u. mu_id u \<noteq> bid) (tr_uploads st)\<rparr>"
  show ?thesis
  proof (cases "store_files (me_limits c) (media_exec c) bid 0 0 (mo_files (mu_order u)) (tr_disk ?st0)")
    case (Inl e)
    then show ?thesis using Some by (simp add: end_upload_def remove_dir_def lane_same_def)
  next
    case (Inr r)
    have "lane_same st (save_media now a (remember_media bid a (?st0\<lparr>tr_disk := d, tr_heap := h\<rparr>)))" for a d h
      by (rule lane_same_trans [OF _ same_save_media], rule lane_same_trans [OF _ same_remember(1)]) (simp add: lane_same_def)
    then show ?thesis using Some Inr
      by (auto simp: end_upload_def Let_def new_media_object_def lane_same_def split: prod.split)
  qed
qed

lemma same_remove_over: "lane_same st (remove_over b st)"
  by (simp add: remove_over_def forget_items_def remove_dir_def lane_same_def Let_def)

lemma same_remove_media: "lane_same st (remove_media bid st)"
  by (auto simp: remove_media_def dest: same_get_media intro: lane_same_trans [OF _ same_remove_over] split: option.split)

lemma same_clear_media: "lane_same st (clear_media st)"
proof -
  have "lane_same st (fold remove_over bs st)" for bs
    by (induction bs arbitrary: st) (auto intro: lane_same_trans [OF same_remove_over])
  then show ?thesis by (simp add: clear_media_def)
qed

lemma same_clean_batch: "lane_same st (clean_batch expired_only cutoff now a st)"
proof -
  have "lane_same st (save_media now a ((set_media a f (remove_dir bid st))\<lparr>tr_memory := m\<rparr>))" for f bid m
    by (rule lane_same_trans [OF _ same_save_media], rule lane_same_trans [OF _ lane_same_fields(2)],
        rule lane_same_trans [OF _ same_set_media]) simp
  then show ?thesis by (simp add: clean_batch_def Let_def split: option.split)
qed

lemma same_cleanup_one: "lane_same st (cleanup_one expired_only cutoff now bid st)"
  by (auto simp: cleanup_one_def dest: same_get_media intro: lane_same_trans [OF _ same_clean_batch] split: option.split)

lemma same_cleanup_rows: "lane_same st (cleanup_rows expired_only cutoff now bs st)"
proof (induction bs arbitrary: st)
  case (Cons b bs)
  obtain a st1 where st1: "new_media_object b st = (a, st1)" by (metis prod.exhaust)
  show ?case using lane_same_trans [OF lane_same_trans [OF same_new_object [OF st1] same_clean_batch] Cons.IH] st1 by simp
qed simp

lemma same_edit_saved:
  assumes "lane_same st st1"
  shows "lane_same st (save_media now a (remember_media bid a (set_media a f st1)))"
  by (rule lane_same_trans [OF assms], rule lane_same_trans [OF _ same_save_media], rule lane_same_trans [OF _ same_remember(1)]) simp

lemma same_retry: "lane_same st (retry_media now bid st)"
  by (auto simp: retry_media_def dest!: same_get_media intro: same_edit_saved split: option.split)

lemma same_renew: "lane_same st (renew_media now bid lease st)"
  by (auto simp: renew_media_def dest!: same_get_media intro: same_edit_saved split: option.split)

lemma same_restore: "lane_same st (restore_media c now rows st)"
proof (induction rows arbitrary: st)
  case (Cons b rows)
  obtain a st1 where st1: "new_media_object b st = (a, st1)" by (metis prod.exhaust)
  have 1: "lane_same st st1" by (rule same_new_object [OF st1])
  show ?case
  proof (cases "expire_media c now a st1")
    case None
    then show ?thesis using st1 1 by simp
  next
    case (Some r)
    obtain st2 over where r: "r = (st2, over)" by (cases r)
    have 2: "lane_same st st2" using 1 same_expire Some r lane_same_trans by blast
    have "lane_same st (save_media now a (remember_media (mb_id b) a (if over then st2 else set_media a f st2)))" for f
      by (rule lane_same_trans [OF 2], rule lane_same_trans [OF _ same_save_media], rule lane_same_trans [OF _ same_remember(1)]) simp
    then show ?thesis using st1 Some r 2 lane_same_trans [OF _ Cons.IH] by simp
  qed
qed simp

section \<open>The contract of a step\<close>

definition media_hold :: "media_task \<Rightarrow> hold" where
  "media_hold t = (st_machine (mt_studio t), st_id (mt_studio t), mt_owner t)"

definition plan_studios :: "media_plan option \<Rightarrow> studio list" where
  "plan_studios pl = (case pl of None \<Rightarrow> [] | Some p \<Rightarrow> mp_studio p # mp_studios p)"

definition studios_free :: "studio list \<Rightarrow> media_state_rec \<Rightarrow> bool" where
  "studios_free ss st \<longleftrightarrow> st_id ` set ss \<inter> set (tr_busy st) = {}"

definition media_leaks :: "media_op \<Rightarrow> media_state_rec \<Rightarrow> bool" where
  \<comment> \<open>a task ends by a cancellation before its first step\<close>
  "media_leaks e st \<longleftrightarrow> (case e of
       Media_interrupted k now \<Rightarrow> list_ex (\<lambda>t. mt_id t = k \<and> mt_cancel t \<and> mt_stage t = T_new) (tr_tasks st)
     | _ \<Rightarrow> False)"

lemma studios_free_same: "lane_same st st' \<Longrightarrow> studios_free ss st' = studios_free ss st"
  by (simp add: studios_free_def lane_same_def)

lemma free_mono: "studios_free ss st \<Longrightarrow> set ss' \<subseteq> set ss \<Longrightarrow> studios_free ss' st"
  unfolding studios_free_def by blast

lemma pick_studios_ok: "pick_studios ok ss = Some r \<Longrightarrow> s \<in> set r \<Longrightarrow> ok s = Some True"
  by (induction ss arbitrary: r) (auto split: option.splits if_splits)

lemma media_studios_free:
  assumes "media_studios c v now b it st = Some ss"
  shows "studios_free ss st"
proof -
  have "media_candidate c v now it st s" if "s \<in> set ss" for s
    using assms that by (fastforce simp: media_studios_def dest: pick_studios_ok split: if_splits)
  then show ?thesis by (auto simp: studios_free_def media_candidate_def)
qed

definition media_within :: "(string \<Rightarrow> bool) \<Rightarrow> media_op \<Rightarrow> bool" where
  \<comment> \<open>another lane that takes or gives back a machine here is one of \<open>rivals\<close>\<close>
  "media_within rivals e = (case e of
       Rival_acquires _ _ owner \<Rightarrow> (rival_owner owner \<longrightarrow> rivals owner)
     | Rival_releases _ owner \<Rightarrow> (rival_owner owner \<longrightarrow> rivals owner)
     | _ \<Rightarrow> True)"

definition restarts_media :: "media_op \<Rightarrow> bool" where
  "restarts_media e = (case e of Restart_media _ \<Rightarrow> True | _ \<Rightarrow> False)"

lemma within_rivals [simp]: "media_within rival_owner e"
  by (simp add: media_within_def split: media_op.split)

locale media_serves =
  fixes c :: media_env and keeps :: "media_state_rec \<Rightarrow> bool" and drops :: bool and rivals :: "string \<Rightarrow> bool"
  assumes framed: "keeps st \<Longrightarrow> lane_same st st' \<Longrightarrow> keeps st'"
    and flagged: "keeps st \<Longrightarrow> (\<And>t. mt_id (g t) = mt_id t \<and> media_hold (g t) = media_hold t)
      \<Longrightarrow> keeps (st\<lparr>tr_tasks := map g (tr_tasks st)\<rparr>)"
    and planned: "keeps st \<Longrightarrow> studios_free (plan_studios pl) st \<Longrightarrow> keeps (st\<lparr>tr_plan := pl\<rparr>)"
    and plan_free: "keeps st \<Longrightarrow> studios_free (plan_studios (tr_plan st)) st"
    and assigned: "\<lbrakk>keeps st; tr_plan st = None; studios_free [mt_studio t] st; mt_id t = tr_next st; \<not> rival_owner (mt_owner t);
        acquire_external_machine (me_registry c) fv bs busy (st_machine (mt_studio t)) (mt_owner t) (tr_leases st) = (L, True)\<rbrakk>
      \<Longrightarrow> keeps (st\<lparr>tr_busy := List.insert (st_id (mt_studio t)) (tr_busy st), tr_tasks := tr_tasks st @ [t],
            tr_next := Suc (tr_next st), tr_leases := L\<rparr>)"
    and finished: "keeps st \<Longrightarrow> t \<in> set (tr_tasks st) \<Longrightarrow> keeps (st
        \<lparr>tr_busy := removeAll (st_id (mt_studio t)) (tr_busy st), tr_tasks := filter (\<lambda>u. mt_id u \<noteq> mt_id t) (tr_tasks st),
         tr_leases := release_external_machine (st_machine (mt_studio t)) (mt_owner t) (tr_leases st)\<rparr>)"
    and acquired: "\<lbrakk>keeps st; rivals owner;
        acquire_external_machine (me_registry c) fv bs busy machine owner (tr_leases st) = (L, ok)\<rbrakk> \<Longrightarrow> keeps (st\<lparr>tr_leases := L\<rparr>)"
    and released: "keeps st \<Longrightarrow> rivals owner
      \<Longrightarrow> keeps (st\<lparr>tr_leases := release_external_machine machine owner (tr_leases st)\<rparr>)"
    and dropped: "drops \<Longrightarrow> keeps st \<Longrightarrow> t \<in> set (tr_tasks st) \<Longrightarrow> keeps (drop_media_task t st)"
begin

lemma keeps_halted: "keeps st \<Longrightarrow> keeps (st\<lparr>tr_plan := None\<rparr>)"
  by (rule planned) (simp_all add: plan_studios_def studios_free_def)

lemma keeps_visit: "keeps st \<Longrightarrow> keeps (media_visit c v now progress rest st)"
proof (induction rest arbitrary: st)
  case Nil
  then show ?case by (simp add: keeps_halted)
next
  case (Cons a rest)
  show ?case
  proof (cases "expire_media c now a st")
    case None
    then show ?thesis using Cons.prems by (simp add: keeps_halted)
  next
    case (Some r)
    obtain st1 over where r: "r = (st1, over)" by (cases r)
    have 1: "keeps st1" using Cons.prems same_expire Some r framed by blast
    have plan: "keeps (st1\<lparr>tr_plan := Some \<lparr>mp_rest = rest, mp_progress = progress, mp_addr = a, mp_item = i,
        mp_studio = s, mp_studios = ss\<rparr>\<rparr>)"
      if ss: "media_studios c v now b it st1 = Some studios" "dropWhile (\<lambda>s. \<not> turn_open v st1 s) studios = s # ss" for b i it s ss studios
    proof (rule planned [OF 1], simp add: plan_studios_def)
      have "set (s # ss) \<subseteq> set studios" using ss(2) set_dropWhileD by (metis subsetI)
      then show "studios_free (s # ss) st1" by (rule free_mono [OF media_studios_free [OF ss(1)]])
    qed
    have "keeps (media_visit c v now progress rest (save_media now a st1))" by (rule Cons.IH) (rule framed [OF 1], simp)
    then show ?thesis using Some r Cons.IH [OF 1] keeps_halted [OF 1] plan
      by (auto split: bool.split option.split list.split)
  qed
qed

lemma keeps_scan_on: "keeps st \<Longrightarrow> keeps (media_scan_on c v now progress rest st)"
  by (simp add: media_scan_on_def Let_def keeps_visit)

lemma keeps_next_studio:
  assumes "keeps st" "tr_plan st = Some p"
  shows "keeps (media_next_studio c v now p st)"
proof (cases "dropWhile (\<lambda>s. \<not> turn_open v st s) (mp_studios p)")
  case Nil
  then show ?thesis unfolding media_next_studio_def Nil by (simp add: keeps_scan_on assms(1))
next
  case (Cons s ss)
  have "set (s # ss) \<subseteq> set (mp_studio p # mp_studios p)" using Cons set_dropWhileD
    by (metis insert_subset list.set(2) set_subset_Cons subsetI subset_insertI2)
  then have "studios_free (s # ss) st" using plan_free [OF assms(1)] assms(2) free_mono by (simp add: plan_studios_def)
  then have "keeps (st\<lparr>tr_plan := Some (p\<lparr>mp_studio := s, mp_studios := ss\<rparr>)\<rparr>)"
    by (intro planned [OF assms(1)]) (simp add: plan_studios_def)
  then show ?thesis unfolding media_next_studio_def Cons by simp
qed

lemma keeps_assigned:
  assumes "keeps st" "tr_plan st = Some p" "\<not> rival_owner (media_owner (mb_id b) (mi_index it))"
    and "acquire_external_machine (me_registry c) fv bs busy (st_machine (mp_studio p)) (media_owner (mb_id b) (mi_index it)) (tr_leases st) = (L, True)"
  shows "keeps (assign_media now a i (mp_studio p) b it generation (st\<lparr>tr_leases := L, tr_turns := ts, tr_plan := None\<rparr>))"
proof -
  let ?t = "\<lparr>mt_id = tr_next st, mt_addr = a, mt_item = i, mt_studio = mp_studio p,
    mt_owner = media_owner (mb_id b) (mi_index it), mt_generation = generation, mt_stage = T_new, mt_cancel = False\<rparr>"
  let ?st = "st\<lparr>tr_plan := None\<rparr>"
  have "studios_free [mt_studio ?t] ?st"
    using plan_free [OF assms(1)] assms(2) by (simp add: plan_studios_def studios_free_def)
  then have "keeps (?st\<lparr>tr_busy := List.insert (st_id (mt_studio ?t)) (tr_busy ?st), tr_tasks := tr_tasks ?st @ [?t],
      tr_next := Suc (tr_next ?st), tr_leases := L\<rparr>)"
    by (intro assigned) (use assms keeps_halted in auto)
  then show ?thesis by (rule framed) (simp add: lane_same_def assign_media_def)
qed

lemma keeps_memory:
  assumes h: "keeps st"
  shows "keeps (media_memory c v now run generation st)"
proof (cases "tr_plan st")
  case None
  then show ?thesis using h by (simp add: media_memory_def)
next
  case (Some p)
  have turned: "keeps (media_next_studio c v now p (st\<lparr>tr_turns := ts\<rparr>))" for ts
    by (rule keeps_next_studio) (use Some in \<open>auto intro: framed [OF h]\<close>)
  have assigned': "keeps (media_scan_on c v now True (mp_rest p)
      (assign_media now a i (mp_studio p) b it generation (st\<lparr>tr_leases := L, tr_turns := ts, tr_plan := None\<rparr>)))"
    if "acquire_external_machine (me_registry c) (tv_fleet v) (tv_broker_batches v) (tv_broker_busy v)
          (st_machine (mp_studio p)) (media_owner (mb_id b) (mi_index it)) (tr_leases st) = (L, True)" for L a i b it ts
    by (rule keeps_scan_on, rule keeps_assigned [OF h Some _ that]) (simp add: rival_owner_def media_owner_def)
  show ?thesis
    using h Some turned keeps_next_studio [OF h Some] assigned'
    by (auto simp: media_memory_def Let_def split: option.split prod.split)
qed

lemma keeps_finish:
  assumes "keeps st" "t \<in> set (tr_tasks st)"
  shows "keeps (finish_item now t st)"
  by (rule framed [OF finished [OF assms]]) (simp add: finish_item_def drop_media_task_def lane_same_def)

lemma keeps_finish_same: "keeps st \<Longrightarrow> t \<in> set (tr_tasks st) \<Longrightarrow> lane_same st st' \<Longrightarrow> keeps (finish_item now t st')"
  by (rule keeps_finish) (auto intro: framed simp: lane_same_def)

lemma keeps_fail: "keeps st \<Longrightarrow> t \<in> set (tr_tasks st) \<Longrightarrow> keeps (fail_media now e t f st)"
  by (auto simp: fail_media_def split: option.split intro!: keeps_finish_same intro: lane_same_trans [OF same_on_media same_note_failure])

lemma keeps_stage: "keeps st \<Longrightarrow> keeps (set_media_stage t stage st)"
  unfolding set_media_stage_def update_where_def by (rule flagged) (auto simp: media_hold_def)

lemma keeps_raise: "keeps st \<Longrightarrow> t \<in> set (tr_tasks st) \<Longrightarrow> keeps (raise_media now e t st)"
  by (simp add: raise_media_def keeps_stage keeps_fail)

lemma keeps_cancel_task: "keeps st \<Longrightarrow> keeps (cancel_task ids st)"
  unfolding cancel_task_def update_where_def by (rule flagged) (auto simp: media_hold_def)

lemma keeps_handed: "keeps st \<Longrightarrow> t \<in> set (tr_tasks st) \<Longrightarrow> keeps (handed_media now t st)"
  by (auto simp: handed_media_def keeps_fail split: media_stage.split)

lemma keeps_expired:
  assumes "keeps st" "t \<in> set (tr_tasks st)" "expire_media c now a st = Some (st1, over)"
  shows "keeps st1" "t \<in> set (tr_tasks st1)"
  using framed [OF assms(1) same_expire [OF assms(3)]] same_expire [OF assms(3)] assms(2) by (simp_all add: lane_same_def)

lemma keeps_begin: 
  assumes "keeps st" "t \<in> set (tr_tasks st)"
  shows "keeps (begin_item c v now t st)"
proof (cases "expire_media c now (mt_addr t) st")
  case None
  then show ?thesis using assms by (simp add: begin_item_def keeps_raise)
next
  case (Some r)
  obtain st1 over where r: "r = (st1, over)" by (cases r)
  note 1 = keeps_expired [OF assms Some [unfolded r]]
  show ?thesis using Some r keeps_finish [OF 1] keeps_raise [OF 1] keeps_stage [OF 1(1)] 1(1)
      keeps_finish_same [OF 1 same_on_media]
    by (auto simp: begin_item_def split: bool.split option.split)
qed

lemma keeps_accept:
  assumes "keeps st" "t \<in> set (tr_tasks st)"
  shows "keeps (accept_media c now started d t b it st)"
proof -
  let ?st1 = "\<lambda>path srt. st\<lparr>tr_disk := dset path srt (tr_disk st)\<rparr>"
  have 1: "keeps (?st1 path srt)" "t \<in> set (tr_tasks (?st1 path srt))" for path srt using framed [OF assms(1)] assms(2) by simp_all
  have "keeps (finish_item now t ((on_media t f (?st1 path srt))\<lparr>tr_machines := ps\<rparr>))" for f path srt ps
    by (rule keeps_finish_same [OF 1], rule lane_same_trans [OF same_on_media lane_same_fields(8)])
  then show ?thesis using keeps_raise [OF assms] keeps_raise [OF 1] by (simp add: accept_media_def Let_def split: sum.split)
qed

lemma keeps_answer:
  assumes "keeps st" "t \<in> set (tr_tasks st)"
  shows "keeps (answer_media c now payload t st)"
proof (cases "expire_media c now (mt_addr t) st")
  case None
  then show ?thesis using assms by (simp add: answer_media_def keeps_raise)
next
  case (Some r)
  obtain st1 over where r: "r = (st1, over)" by (cases r)
  note 1 = keeps_expired [OF assms Some [unfolded r]]
  show ?thesis using Some r keeps_finish [OF 1] keeps_raise [OF 1] keeps_accept [OF 1] 1(1)
    by (auto simp: answer_media_def split: bool.split option.split media_stage.split prod.split)
qed

lemma keeps_interrupt:
  assumes "keeps st" "t \<in> set (tr_tasks st)" "drops \<or> mt_stage t \<noteq> T_new"
  shows "keeps (interrupt_media now t st)"
  using assms keeps_finish [OF assms(1,2)] keeps_finish_same [OF assms(1,2) same_on_media] dropped [OF _ assms(1,2)]
  by (auto simp: interrupt_media_def split: media_stage.split option.split)

lemma keeps_cancel: "keeps st \<Longrightarrow> keeps (cancel_media now bid st)"
proof (cases "get_media bid st")
  case (Some r)
  assume h: "keeps st"
  obtain a st1 where r: "r = (a, st1)" by (cases r)
  have 1: "keeps st1" using framed [OF h] same_get_media Some r by blast
  have "keeps (cancel_task ids (set_media a f st1))" for ids f using keeps_cancel_task framed [OF 1] by simp
  then have "keeps (save_media now a (remember_media bid a (cancel_task ids (set_media a f st1))))" for ids f
    by (rule framed) (rule lane_same_trans [OF same_remember(1) same_save_media])
  then show ?thesis using Some r 1 by (simp add: cancel_media_def split: option.split)
qed (simp add: cancel_media_def)

lemma keeps_stop: "keeps st \<Longrightarrow> keeps (stop_media st)"
proof -
  assume "keeps st"
  then have "keeps ((cancel_task (map snd (tr_known st)) st)\<lparr>tr_plan := None\<rparr>)" by (intro keeps_halted keeps_cancel_task)
  then show ?thesis by (rule framed) (simp add: stop_media_def lane_same_def)
qed

lemma keeps_with:
  assumes "keeps st" "\<And>t. select_first (\<lambda>t. mt_id t = k) (tr_tasks st) = Some t \<Longrightarrow> t \<in> set (tr_tasks st) \<Longrightarrow> ok t \<Longrightarrow> keeps (f t st)"
  shows "keeps (with_media k ok f st)"
  using assms by (auto simp: with_media_def dest: select_first_Some split: option.split)

theorem serves_step:
  assumes h: "keeps st" and leak: "drops \<or> \<not> media_leaks e st" and within: "media_within rivals e"
    and on: "\<not> restarts_media e"
  shows "keeps (media_step c e st)"
proof (cases e)
  case (Media_interrupted k now)
  have "drops \<or> mt_stage t \<noteq> T_new" if "select_first (\<lambda>t. mt_id t = k) (tr_tasks st) = Some t" "mt_cancel t" for t
    using leak that select_first_Some [OF that(1)] by (auto simp: Media_interrupted media_leaks_def list_ex_iff)
  then show ?thesis unfolding Media_interrupted media_step.simps by (intro keeps_with [OF h] keeps_interrupt [OF h]) auto
next
  case (Begin_upload bid now rq)
  then show ?thesis using h framed [OF h same_begin_upload] by simp
next
  case (Rival_acquires v machine owner)
  then show ?thesis using h within acquired [OF h _ prod.collapse [symmetric]] by (simp add: media_within_def)
next
  case (Rival_turn machine lane)
  then show ?thesis using h framed [OF h] by (simp split: option.split)
qed (use h within on in \<open>auto intro!: keeps_with keeps_begin keeps_answer keeps_raise keeps_handed keeps_finish keeps_memory keeps_cancel
        keeps_stop released keeps_halted framed [OF h same_end_upload] framed [OF h same_retry] framed [OF h same_renew]
        framed [OF h same_remove_media] framed [OF h same_clear_media] framed [OF h same_cleanup_one] framed [OF h same_cleanup_rows]
        framed [OF h lane_same_fields(5)] framed [OF h lane_same_fields(7)] framed [OF h lane_same_fields(8)]
        simp: media_start_scan_def keeps_visit cleanup_all_def media_within_def restarts_media_def\<close>)

end

text \<open>A new process starts with nothing held.\<close>

locale media_keeps = media_serves +
  assumes idle: "tr_tasks st = [] \<Longrightarrow> tr_leases st = [] \<Longrightarrow> tr_busy st = [] \<Longrightarrow> tr_plan st = None \<Longrightarrow> keeps st"
begin

lemma keeps_restart: "keeps (restart_media c now st)"
  unfolding restart_media_def Let_def by (rule framed [OF _ same_restore]) (simp add: idle)

theorem keeps_step: "keeps st \<Longrightarrow> drops \<or> \<not> media_leaks e st \<Longrightarrow> media_within rivals e \<Longrightarrow> keeps (media_step c e st)"
  using serves_step keeps_restart by (cases "restarts_media e") (auto simp: restarts_media_def split: media_op.splits)

lemma keeps_run:
  assumes "keeps st" "\<And>as b bs. es = as @ b # bs \<Longrightarrow> drops \<or> \<not> media_leaks b (media_run c as st)"
    "list_all (media_within rivals) es"
  shows "keeps (media_run c es st)"
  using assms(2,3)
proof (induction es rule: rev_induct)
  case (snoc e es)
  have "keeps (media_run c es st)"
  proof (rule snoc.IH)
    show "drops \<or> \<not> media_leaks b (media_run c as st)" if "es = as @ b # bs" for as b bs using snoc.prems(1) that by force
  qed (use snoc.prems(2) in simp)
  then show ?case using keeps_step snoc.prems(1) [of es e "[]"] snoc.prems(2) by (simp add: media_run_def)
qed (simp add: media_run_def assms(1))

end

section \<open>Its instances\<close>

definition media_held :: "media_state_rec \<Rightarrow> bool" where
  "media_held st \<longleftrightarrow> distinct (map mt_id (tr_tasks st)) \<and> (\<forall>t\<in>set (tr_tasks st). mt_id t < tr_next st)
     \<and> holds_ok (\<lambda>owner. \<not> rival_owner owner) (map media_hold (tr_tasks st)) (tr_leases st)
     \<and> studios_free (plan_studios (tr_plan st)) st"

definition media_exact :: "media_state_rec \<Rightarrow> bool" where
  "media_exact st \<longleftrightarrow> media_held st
     \<and> holds_exact (\<lambda>owner. \<not> rival_owner owner) (map media_hold (tr_tasks st)) (tr_leases st) (tr_busy st)"

lemma without_task:
  assumes "distinct (map mt_id ts)" "t \<in> set ts"
  obtains A B where "ts = A @ t # B" "filter (\<lambda>u. mt_id u \<noteq> mt_id t) ts = A @ B"
proof -
  obtain A B where ts: "ts = A @ t # B" using assms(2) by (meson split_list)
  moreover have "filter (\<lambda>u. mt_id u \<noteq> mt_id t) (A @ t # B) = A @ B"
  proof -
    have "mt_id t \<notin> mt_id ` set A" "mt_id t \<notin> mt_id ` set B" using assms(1) unfolding ts by auto
    then have "\<forall>u\<in>set A. mt_id u \<noteq> mt_id t" "\<forall>u\<in>set B. mt_id u \<noteq> mt_id t" by (metis imageI)+
    then have "filter (\<lambda>u. mt_id u \<noteq> mt_id t) A = A" "filter (\<lambda>u. mt_id u \<noteq> mt_id t) B = B" by (simp_all add: filter_id_conv)
    then show ?thesis by simp
  qed
  ultimately show ?thesis using that by blast
qed

lemma media_held_frame: "media_held st \<Longrightarrow> lane_same st st' \<Longrightarrow> media_held st'"
  by (simp add: media_held_def lane_same_def studios_free_def)

lemma media_held_flagged:
  assumes "media_held st" "\<And>t. mt_id (g t) = mt_id t \<and> media_hold (g t) = media_hold t"
  shows "media_held (st\<lparr>tr_tasks := map g (tr_tasks st)\<rparr>)"
proof -
  have "map mt_id (map g ts) = map mt_id ts" "map media_hold (map g ts) = map media_hold ts" for ts using assms(2) by simp_all
  then show ?thesis using assms by (auto simp: media_held_def studios_free_def simp del: map_map)
qed

lemma free_busy: "studios_free ss st \<Longrightarrow> set (tr_busy st') \<subseteq> set (tr_busy st) \<Longrightarrow> studios_free ss st'"
  unfolding studios_free_def by blast

lemma media_held_assigned:
  assumes "media_held st" "tr_plan st = None" "mt_id t = tr_next st" "\<not> rival_owner (mt_owner t)"
    and "acquire_external_machine reg fv bs busy (st_machine (mt_studio t)) (mt_owner t) (tr_leases st) = (L, True)"
  shows "media_held (st\<lparr>tr_busy := bz, tr_tasks := tr_tasks st @ [t], tr_next := Suc (tr_next st), tr_leases := L\<rparr>)"
proof -
  have "holds_ok (\<lambda>owner. \<not> rival_owner owner) (map media_hold (tr_tasks st) @ [media_hold t]) L" (is "holds_ok ?own _ _")
    unfolding media_hold_def [of t] by (rule holds_ok_add [where own = ?own, OF _ assms(5)]) (use assms(1,4) in \<open>simp_all add: media_held_def\<close>)
  then show ?thesis using assms(1-3) by (fastforce simp: media_held_def studios_free_def plan_studios_def)
qed

lemma media_held_finished:
  assumes "media_held st" "t \<in> set (tr_tasks st)"
  shows "media_held (st\<lparr>tr_busy := removeAll s (tr_busy st), tr_tasks := filter (\<lambda>u. mt_id u \<noteq> mt_id t) (tr_tasks st),
     tr_leases := release_external_machine (st_machine (mt_studio t)) (mt_owner t) (tr_leases st)\<rparr>)"
proof -
  have d: "distinct (map mt_id (tr_tasks st))" using assms(1) by (simp add: media_held_def)
  from without_task [OF d assms(2)] obtain A B
    where ab: "tr_tasks st = A @ t # B" "filter (\<lambda>u. mt_id u \<noteq> mt_id t) (tr_tasks st) = A @ B" .
  have "holds_ok (\<lambda>owner. \<not> rival_owner owner) (map media_hold A @ map media_hold B)
      (release_external_machine (st_machine (mt_studio t)) (mt_owner t) (tr_leases st))"
    by (rule holds_ok_remove [where s = "st_id (mt_studio t)"]) (use assms(1) ab in \<open>simp add: media_held_def media_hold_def [of t]\<close>)
  moreover have "studios_free (plan_studios (tr_plan st)) (st\<lparr>tr_busy := removeAll s (tr_busy st)\<rparr>)"
    by (rule free_busy [of _ st]) (use assms(1) in \<open>auto simp: media_held_def\<close>)
  ultimately show ?thesis using assms(1) ab by (auto simp: media_held_def studios_free_def)
qed

lemma media_held_dropped:
  assumes "media_held st" "t \<in> set (tr_tasks st)"
  shows "media_held (drop_media_task t st)"
proof -
  have d: "distinct (map mt_id (tr_tasks st))" using assms(1) by (simp add: media_held_def)
  from without_task [OF d assms(2)] obtain A B
    where ab: "tr_tasks st = A @ t # B" "filter (\<lambda>u. mt_id u \<noteq> mt_id t) (tr_tasks st) = A @ B" .
  have "holds_ok (\<lambda>owner. \<not> rival_owner owner) (map media_hold A @ map media_hold B) (tr_leases st)"
    by (rule holds_ok_drop [where h = "media_hold t"]) (use assms(1) ab in \<open>simp add: media_held_def\<close>)
  then show ?thesis using assms(1) ab by (auto simp: media_held_def drop_media_task_def studios_free_def)
qed

interpretation media_machines: media_keeps c media_held True rival_owner for c
proof (unfold_locales, goal_cases)
  case (1 st st')
  then show ?case by (rule media_held_frame)
next
  case (2 st g)
  then show ?case by (rule media_held_flagged)
next
  case (5 st t fv bs busy L)
  then show ?case by (intro media_held_assigned)
next
  case (6 st t)
  then show ?case by (rule media_held_finished)
next
  case (7 st owner fv bs busy machine L ok)
  then show ?case using holds_ok_rival_acquires by (fastforce simp: media_held_def studios_free_def)
next
  case (8 st owner machine)
  then show ?case by (simp add: media_held_def studios_free_def holds_ok_rival_releases)
next
  case (9 st t)
  then show ?case by (intro media_held_dropped)
qed (simp_all add: media_held_def studios_free_def plan_studios_def holds_ok_def)

interpretation media_clean: media_keeps c media_exact False rival_owner for c
proof (unfold_locales, goal_cases)
  case (1 st st')
  then show ?case using media_held_frame [of st st'] by (simp add: media_exact_def lane_same_def)
next
  case (2 st g)
  then have "map media_hold (map g (tr_tasks st)) = map media_hold (tr_tasks st)" by simp
  then show ?case using media_held_flagged [OF _ 2(2)] 2(1) by (simp add: media_exact_def del: map_map)
next
  case (5 st t fv bs busy L)
  have "holds_exact (\<lambda>owner. \<not> rival_owner owner) (map media_hold (tr_tasks st) @ [media_hold t]) L (List.insert (st_id (mt_studio t)) (tr_busy st))"
    unfolding media_hold_def [of t]
    by (rule holds_exact_add [OF _ 5(6)]) (use 5(1,3) in \<open>auto simp: media_exact_def studios_free_def\<close>)
  then show ?case using media_held_assigned 5 by (simp add: media_exact_def)
next
  case (6 st t)
  have d: "distinct (map mt_id (tr_tasks st))" using 6(1) by (simp add: media_exact_def media_held_def)
  from without_task [OF d 6(2)] obtain A B
    where ab: "tr_tasks st = A @ t # B" "filter (\<lambda>u. mt_id u \<noteq> mt_id t) (tr_tasks st) = A @ B" .
  have "holds_exact (\<lambda>owner. \<not> rival_owner owner) (map media_hold A @ map media_hold B)
      (release_external_machine (st_machine (mt_studio t)) (mt_owner t) (tr_leases st)) (removeAll (st_id (mt_studio t)) (tr_busy st))"
    by (rule holds_exact_remove) (use 6(1) ab in \<open>simp_all add: media_exact_def media_held_def media_hold_def [of t]\<close>)
  then show ?case using media_held_finished [OF _ 6(2)] 6(1) ab by (simp add: media_exact_def)
next
  case (7 st owner fv bs busy machine L ok)
  then show ?case using media_machines.acquired [of st owner] holds_exact_rival_acquires
    by (fastforce simp: media_exact_def)
next
  case (8 st owner machine)
  then show ?case using media_machines.released [of st owner] by (simp add: media_exact_def holds_exact_releases)
next
  case (3 st pl)
  then show ?case using media_machines.planned [of st pl] by (simp add: media_exact_def)
next
  case (4 st)
  then show ?case using media_machines.plan_free [of st] by (simp add: media_exact_def)
qed (simp_all add: media_exact_def media_held_def studios_free_def plan_studios_def holds_ok_def holds_exact_def)

end
