(* ===== verification/Transcribe_Batches.thy ===== *)
theory Transcribe_Batches
  imports Transcribe_Safety
begin

text \<open>
  What the items of the transcription lane satisfy in every reachable state (\<open>media_ok\<close>, on the heap and in
  the table): the attempts are bounded, a waiting item may still be dispatched, and a finished item has an
  artifact until its batch is cleaned.  \<open>R\<close> counts the ends of the process so far: an interruption by
  shutdown or restart queues an item without giving the attempt back.
\<close>

definition media_item_ok :: "nat \<Rightarrow> bool \<Rightarrow> media_item \<Rightarrow> bool" where
  "media_item_ok R clean i \<longleftrightarrow> mi_tries i \<le> max_media_tries + R
     \<and> (mi_state i = M_queued \<longrightarrow> mi_tries i < max_media_tries + R)
     \<and> (mi_state i = M_done \<longrightarrow> mi_artifact i \<noteq> None \<or> clean)"

definition media_batch_ok :: "nat \<Rightarrow> media_batch \<Rightarrow> bool" where
  "media_batch_ok R b \<longleftrightarrow> list_all (media_item_ok R (mb_cleaned b \<noteq> None)) (mb_items b)"

definition lower_tries :: "media_batch \<Rightarrow> media_batch \<Rightarrow> bool" where
  "lower_tries b' b \<longleftrightarrow> list_all2 (\<lambda>i' i. mi_tries i' \<le> mi_tries i) (mb_items b') (mb_items b)"

definition spare_tries :: "nat \<Rightarrow> media_batch \<Rightarrow> bool" where
  "spare_tries R b \<longleftrightarrow> list_all (\<lambda>i. mi_tries i < max_media_tries + R) (mb_items b)"

definition media_target_ok :: "nat \<Rightarrow> media_state_rec \<Rightarrow> bool" where
  "media_target_ok R st \<longleftrightarrow> (\<forall>p. tr_plan st = Some p \<longrightarrow> (\<exists>b. media_at st (mp_addr p) = Some b
     \<and> (\<forall>i. item_at b (mp_item p) = Some i \<longrightarrow> mi_tries i < max_media_tries + R)))"

definition media_ok :: "nat \<Rightarrow> media_state_rec \<Rightarrow> bool" where
  "media_ok R st \<longleftrightarrow> (\<forall>b\<in>set (tr_heap st) \<union> set (tr_rows st). media_batch_ok R b) \<and> media_target_ok R st
     \<and> (tr_stopping st \<longrightarrow> tr_plan st = None \<and> (\<forall>b\<in>set (tr_heap st) \<union> set (tr_rows st). spare_tries R b))"

text \<open>An edit of one batch that keeps the batch well formed and gives no attempts away keeps the whole state.\<close>

definition fair_edit :: "nat \<Rightarrow> media_batch \<Rightarrow> media_batch \<Rightarrow> bool" where
  "fair_edit R b b' \<longleftrightarrow> (media_batch_ok R b \<longrightarrow> media_batch_ok R b') \<and> lower_tries b' b"

lemma lower_spare: "lower_tries b' b \<Longrightarrow> spare_tries R b \<Longrightarrow> spare_tries R b'"
  by (fastforce simp: lower_tries_def spare_tries_def list_all_length list_all2_conv_all_nth)

lemma lower_refl [simp]: "lower_tries b b"
  by (simp add: lower_tries_def list_all2_conv_all_nth)

lemma fair_refl [simp]: "fair_edit R b b"
  by (simp add: fair_edit_def)

lemma fair_trans: "fair_edit R b b' \<Longrightarrow> fair_edit R b' b'' \<Longrightarrow> fair_edit R b b''"
  unfolding fair_edit_def lower_tries_def by (fastforce simp: list_all2_conv_all_nth)

lemma fair_items:
  assumes "mb_items b' = map f (mb_items b)" "\<And>i. mi_tries (f i) \<le> mi_tries i"
    and "\<And>i. media_item_ok R (mb_cleaned b \<noteq> None) i \<Longrightarrow> media_item_ok R (mb_cleaned b' \<noteq> None) (f i)"
  shows "fair_edit R b b'"
  using assms by (auto simp: fair_edit_def media_batch_ok_def lower_tries_def list_all_iff list_all2_conv_all_nth)

lemma media_at_plan [simp]: "media_at (st\<lparr>tr_plan := p\<rparr>) a = media_at st a" "media_at (st\<lparr>tr_stopping := q\<rparr>) a = media_at st a"
  by (simp_all add: media_at_def)

lemma media_at_heap: "media_at st a = Some b \<Longrightarrow> b \<in> set (tr_heap st)"
  by (auto simp: media_at_def split: if_splits)

lemma media_at_set: "media_at (set_media a f st) a' = (if a' = a then map_option f (media_at st a) else media_at st a')"
  by (auto simp: set_media_def media_at_def)

lemma heap_set_media:
  assumes "b \<in> set (tr_heap (set_media a f st))"
  obtains "b \<in> set (tr_heap st)" | b0 where "media_at st a = Some b0" "b = f b0"
  using assms by (auto simp: set_media_def media_at_def in_set_conv_nth nth_list_update split: if_splits)

lemma rows_set_media [simp]: "tr_rows (set_media a f st) = tr_rows st" "tr_stopping (set_media a f st) = tr_stopping st"
  by (simp_all add: set_media_def split: option.split)

lemma lower_item:
  assumes "lower_tries b' b" "item_at b' i = Some it'"
  obtains it where "item_at b i = Some it" "mi_tries it' \<le> mi_tries it"
  using assms by (auto simp: lower_tries_def item_at_def list_all2_conv_all_nth split: if_splits)

lemma media_ok_edited:
  assumes ok: "media_ok R st" and fair: "\<And>b. media_at st a = Some b \<Longrightarrow> fair_edit R b (f b)"
  shows "media_ok R (set_media a f st)"
proof -
  have b: "media_batch_ok R b \<and> (tr_stopping st \<longrightarrow> spare_tries R b)" if "b \<in> set (tr_heap (set_media a f st))" for b
    using that
  proof (cases rule: heap_set_media)
    case 1
    then show ?thesis using ok by (simp add: media_ok_def)
  next
    case (2 b0)
    then show ?thesis using ok fair [OF 2(1)] media_at_heap [OF 2(1)] lower_spare by (auto simp: media_ok_def fair_edit_def)
  qed
  have "media_target_ok R (set_media a f st)"
    unfolding media_target_ok_def
  proof (intro allI impI)
    fix p assume "tr_plan (set_media a f st) = Some p"
    then have p: "tr_plan st = Some p" by simp
    then obtain b where b: "media_at st (mp_addr p) = Some b" "\<And>i. item_at b (mp_item p) = Some i \<Longrightarrow> mi_tries i < max_media_tries + R"
      using ok by (auto simp: media_ok_def media_target_ok_def)
    let ?b = "if mp_addr p = a then f b else b"
    have at: "media_at (set_media a f st) (mp_addr p) = Some ?b" using b(1) by (auto simp: media_at_set)
    have "lower_tries (f b) b" if "mp_addr p = a" using fair [of b] b(1) that by (simp add: fair_edit_def)
    then have low: "lower_tries ?b b" by simp
    have "mi_tries i' < max_media_tries + R" if "item_at ?b (mp_item p) = Some i'" for i'
      using lower_item [OF low that] b(2) by (metis le_less_trans)
    then show "\<exists>b. media_at (set_media a f st) (mp_addr p) = Some b
        \<and> (\<forall>i. item_at b (mp_item p) = Some i \<longrightarrow> mi_tries i < max_media_tries + R)" using at by blast
  qed
  then show ?thesis using ok b by (auto simp: media_ok_def)
qed

text \<open>The other fields matter only through the heap, the rows, the plan and the flag.\<close>

lemma media_ok_cong:
  assumes "tr_heap st' = tr_heap st" "tr_rows st' = tr_rows st" "tr_stopping st' = tr_stopping st" "tr_plan st' = tr_plan st"
  shows "media_ok R st' = media_ok R st"
proof -
  have "media_at st' = media_at st" using assms(1) by (simp add: media_at_def fun_eq_iff)
  then show ?thesis using assms by (simp add: media_ok_def media_target_ok_def)
qed

lemma media_ok_rows: "media_ok R st \<Longrightarrow> set rows \<subseteq> set (tr_rows st) \<union> set (tr_heap st) \<Longrightarrow> media_ok R (st\<lparr>tr_rows := rows\<rparr>)"
  by (auto simp: media_ok_def media_target_ok_def media_at_def)

lemma media_ok_fields [simp]:
  "media_ok R (st\<lparr>tr_memory := m\<rparr>) = media_ok R st" "media_ok R (st\<lparr>tr_busy := bz\<rparr>) = media_ok R st"
  "media_ok R (st\<lparr>tr_tasks := ts\<rparr>) = media_ok R st" "media_ok R (st\<lparr>tr_known := kn\<rparr>) = media_ok R st"
  "media_ok R (st\<lparr>tr_next := n\<rparr>) = media_ok R st" "media_ok R (st\<lparr>tr_leases := L\<rparr>) = media_ok R st"
  "media_ok R (st\<lparr>tr_turns := tu\<rparr>) = media_ok R st" "media_ok R (st\<lparr>tr_fences := db\<rparr>) = media_ok R st"
  "media_ok R (st\<lparr>tr_machines := ps\<rparr>) = media_ok R st" "media_ok R (st\<lparr>tr_disk := d\<rparr>) = media_ok R st"
  "media_ok R (st\<lparr>tr_dirs := ds\<rparr>) = media_ok R st" "media_ok R (st\<lparr>tr_uploads := us\<rparr>) = media_ok R st"
  by (rule media_ok_cong; simp)+

lemma fair_saved: "fair_edit R b (saved_media now b)"
  by (rule fair_items [where f = "\<lambda>i. i"]) (simp_all add: saved_media_def)

lemma media_ok_saved:
  assumes ok: "media_ok R st"
  shows "media_ok R (save_media now a st)"
proof (cases "media_at st a")
  case None
  then show ?thesis using ok by (simp add: save_media_def)
next
  case (Some b)
  have 1: "media_ok R (set_media a (saved_media now) st)" by (rule media_ok_edited [OF ok fair_saved])
  have "saved_media now b \<in> set (tr_heap (set_media a (saved_media now) st))"
    using Some media_at_set [of a "saved_media now" st a] media_at_heap by fastforce
  then have "media_ok R ((set_media a (saved_media now) st)\<lparr>tr_rows := filter (\<lambda>r. mb_id r \<noteq> mb_id b) (tr_rows st) @ [saved_media now b]\<rparr>)"
    by (intro media_ok_rows [OF 1]) auto
  then show ?thesis using Some by (simp add: save_media_def)
qed

lemma media_ok_appended:
  assumes "media_ok R st" "media_batch_ok R b" "tr_stopping st \<Longrightarrow> spare_tries R b"
  shows "media_ok R (st\<lparr>tr_heap := tr_heap st @ [b]\<rparr>)"
proof -
  have "media_at (st\<lparr>tr_heap := tr_heap st @ [b]\<rparr>) a = Some b'" if "media_at st a = Some b'" for a b'
    using that by (auto simp: media_at_def nth_append split: if_splits)
  then show ?thesis using assms unfolding media_ok_def media_target_ok_def by fastforce
qed

section \<open>Edits that are fair\<close>

lemma fair_map_item:
  assumes "\<And>i. mi_tries (g i) \<le> mi_tries i"
    and "\<And>i. media_item_ok R (mb_cleaned b \<noteq> None) i \<Longrightarrow> media_item_ok R (mb_cleaned b \<noteq> None) (g i)"
  shows "fair_edit R b (map_media k g b)"
  using assms by (auto simp: fair_edit_def media_batch_ok_def lower_tries_def map_media_def item_at_def list_all_length
      list_all2_conv_all_nth nth_list_update split: option.split)

lemma fair_expired: "fair_edit R b (expired_media now b)"
  by (rule fair_items [where f = "expire_media_item now"])
     (auto simp: expired_media_def expire_media_item_def media_item_ok_def)

lemma fair_cancelled: "fair_edit R b (b\<lparr>mb_cancelled := True, mb_items := map cancel_queued_media (mb_items b)\<rparr>)"
  by (rule fair_items [where f = cancel_queued_media]) (auto simp: cancel_queued_media_def media_item_ok_def)

lemma fair_retried: "fair_edit R b (b\<lparr>mb_cancelled := False, mb_finished := None, mb_items := map retried_item (mb_items b)\<rparr>)"
  by (rule fair_items [where f = retried_item]) (auto simp: retried_item_def media_item_ok_def max_media_tries_def)

lemma fair_renewed: "fair_edit R b (b\<lparr>mb_execution := e\<rparr>)"
  by (rule fair_items [where f = "\<lambda>i. i"]) simp_all

lemma fair_cleaned: "fair_edit R b (b\<lparr>mb_cleaned := Some now, mb_items := map cleaned_item (mb_items b)\<rparr>)"
  by (rule fair_items [where f = cleaned_item]) (auto simp: cleaned_item_def media_item_ok_def)

lemma fair_failed:
  assumes "\<And>i. mi_tries (f i) \<le> mi_tries i" "\<And>i. mi_state (f i) = mi_state i"
  shows "fair_edit R b (map_media k (\<lambda>i. failed_media now s stop e (f i)) b)"
proof (rule fair_map_item)
  fix i
  show "mi_tries (failed_media now s stop e (f i)) \<le> mi_tries i"
    using assms(1) [of i] by (simp add: failed_media_def noted_media_def requeued_media_def Let_def)
  show "media_item_ok R cl i \<Longrightarrow> media_item_ok R cl (failed_media now s stop e (f i))" for cl
    using assms(1) [of i] by (auto simp: failed_media_def noted_media_def requeued_media_def media_item_ok_def Let_def)
qed

lemma fair_done: "fair_edit R b (map_media k (finished_media path elapsed d) b)"
  by (rule fair_map_item) (auto simp: finished_media_def media_item_ok_def)

lemma fair_dropped: "fair_edit R b (map_media k (\<lambda>i. i\<lparr>mi_state := M_cancelled, mi_error := e\<rparr>) b)"
  by (rule fair_map_item) (auto simp: media_item_ok_def)

lemma fair_returned: "fair_edit R b (map_media k (\<lambda>i. (requeued_media e i)\<lparr>mi_tries := mi_tries i - 1\<rparr>) b)"
  by (rule fair_map_item) (auto simp: media_item_ok_def requeued_media_def max_media_tries_def)

lemma media_ok_on_media:
  "media_ok R st \<Longrightarrow> (\<And>b. fair_edit R b (map_media (mt_item t) f b)) \<Longrightarrow> media_ok R (on_media t f st)"
  unfolding on_media_def by (rule media_ok_edited) auto

lemma media_ok_expired:
  assumes "media_ok R st" "expire_media c now a st = Some (st1, over)"
  shows "media_ok R st1"
  using assms by (auto simp: expire_media_def intro: media_ok_edited [OF _ fair_expired] split: option.splits sum.splits if_splits)

section \<open>Every step\<close>

lemma media_ok_finish: "media_ok R st \<Longrightarrow> media_ok R (finish_item now t st)"
  by (simp add: finish_item_def drop_media_task_def media_ok_saved)

lemma media_ok_fail:
  assumes "media_ok R st" "\<And>i. mi_tries (f i) \<le> mi_tries i" "\<And>i. mi_state (f i) = mi_state i"
  shows "media_ok R (fail_media now e t f st)"
  using assms by (auto simp: fail_media_def note_failure_def
      intro!: media_ok_finish media_ok_on_media fair_failed split: option.split)

lemma media_ok_raise: "media_ok R st \<Longrightarrow> media_ok R (raise_media now e t st)"
  by (simp add: raise_media_def set_media_stage_def media_ok_fail)

lemma media_ok_begin:
  assumes "media_ok R st"
  shows "media_ok R (begin_item c v now t st)"
  using assms media_ok_expired [OF assms]
  by (auto simp: begin_item_def set_media_stage_def intro!: media_ok_raise media_ok_finish media_ok_on_media fair_returned [unfolded One_nat_def]
      split: option.split bool.split)

lemma media_ok_accept: "media_ok R st \<Longrightarrow> media_ok R (accept_media c now started d t b it st)"
  by (auto simp: accept_media_def Let_def intro!: media_ok_raise media_ok_finish media_ok_on_media fair_done split: sum.split)

lemma media_ok_answer:
  assumes "media_ok R st"
  shows "media_ok R (answer_media c now payload t st)"
  using assms media_ok_expired [OF assms]
  by (auto simp: answer_media_def intro!: media_ok_raise media_ok_finish media_ok_accept
      split: option.split bool.split media_stage.split prod.split)

lemma interrupted_spare:
  assumes "media_ok R st" "tr_stopping st"
  shows "media_ok R (on_media t (\<lambda>i. (requeued_media e i)\<lparr>mi_interrupted := True\<rparr>) st)"
  unfolding on_media_def
proof (rule media_ok_edited [OF assms(1)])
  fix b assume b: "media_at st (mt_addr t) = Some b"
  then have spare: "spare_tries R b" using assms media_at_heap by (auto simp: media_ok_def)
  show "fair_edit R b (map_media (mt_item t) (\<lambda>i. (requeued_media e i)\<lparr>mi_interrupted := True\<rparr>) b)"
    using spare by (auto simp: fair_edit_def media_batch_ok_def media_item_ok_def lower_tries_def spare_tries_def map_media_def
        item_at_def requeued_media_def list_all_length list_all2_conv_all_nth nth_list_update split: option.split)
qed

lemma media_ok_interrupt: "media_ok R st \<Longrightarrow> media_ok R (interrupt_media now t st)"
  by (auto simp: interrupt_media_def drop_media_task_def
      intro!: media_ok_finish interrupted_spare media_ok_on_media [OF _ fair_dropped] split: media_stage.split option.split)

lemma media_ok_planned:
  assumes "media_ok R st" "\<not> tr_stopping st" "media_at st (mp_addr p) = Some b"
    "\<And>i. item_at b (mp_item p) = Some i \<Longrightarrow> mi_tries i < max_media_tries + R"
  shows "media_ok R (st\<lparr>tr_plan := Some p\<rparr>)"
  using assms by (simp add: media_ok_def media_target_ok_def)

lemma media_ok_halted [simp]: "media_ok R st \<Longrightarrow> media_ok R (st\<lparr>tr_plan := None\<rparr>)"
  by (simp add: media_ok_def media_target_ok_def)

lemma queued_item_tries:
  assumes "media_ok R st" "media_at st a = Some b" "first_queued b = Some i" "item_at b i = Some it"
  shows "mi_tries it < max_media_tries + R"
proof -
  have "mi_state it = M_queued"
    using assms(3,4) select_first_Some [of "\<lambda>(_, i). mi_state i = M_queued" "enumerate 0 (mb_items b)"]
    by (auto simp: first_queued_def item_at_def in_set_enumerate_eq split: if_splits)
  moreover have "media_item_ok R (mb_cleaned b \<noteq> None) it"
    using assms(1,4) media_at_heap [OF assms(2)]
    by (auto simp: media_ok_def media_batch_ok_def item_at_def list_all_length split: if_splits)
  ultimately show ?thesis by (simp add: media_item_ok_def)
qed

lemma stopping_same [simp]:
  "tr_stopping (save_media now a st) = tr_stopping st"
  "expire_media c now a st = Some (st1, over) \<Longrightarrow> tr_stopping st1 = tr_stopping st"
  by (auto simp: save_media_def expire_media_def split: option.splits sum.splits if_splits)

lemma media_ok_visit:
  "media_ok R st \<Longrightarrow> \<not> tr_stopping st \<Longrightarrow> media_ok R (media_visit c v now progress rest st) \<and> \<not> tr_stopping (media_visit c v now progress rest st)"
proof (induction rest arbitrary: st)
  case (Cons a rest)
  show ?case
  proof (cases "expire_media c now a st")
    case None
    then show ?thesis using Cons.prems by simp
  next
    case (Some r)
    obtain st1 over where r: "r = (st1, over)" by (cases r)
    have 1: "media_ok R st1" "\<not> tr_stopping st1" using media_ok_expired [OF Cons.prems(1)] Some r Cons.prems(2) by auto
    have plan: "media_ok R (st1\<lparr>tr_plan := Some \<lparr>mp_rest = rest, mp_progress = progress, mp_addr = a, mp_item = i,
        mp_studio = s, mp_studios = ss\<rparr>\<rparr>)"
      if "media_at st1 a = Some b" "first_queued b = Some i" "item_at b i = Some it" for b i it s ss
      using that queued_item_tries [OF 1(1) that] by (intro media_ok_planned [OF 1]) auto
    have "media_ok R (media_visit c v now progress rest (save_media now a st1))
        \<and> \<not> tr_stopping (media_visit c v now progress rest (save_media now a st1))"
      by (rule Cons.IH) (simp_all add: 1 media_ok_saved)
    then show ?thesis using Some r Cons.IH [OF 1] 1 plan
      by (auto split: bool.split option.split list.split Option.bind_splits)
  qed
qed simp

lemma media_ok_scan_on: "media_ok R st \<Longrightarrow> \<not> tr_stopping st \<Longrightarrow> media_ok R (media_scan_on c v now progress rest st)"
  by (simp add: media_scan_on_def Let_def media_ok_visit)

lemma running_plan: "media_ok R st \<Longrightarrow> tr_plan st = Some p \<Longrightarrow> \<not> tr_stopping st"
  by (auto simp: media_ok_def)

lemma media_ok_next_studio:
  assumes "media_ok R st" "tr_plan st = Some p"
  shows "media_ok R (media_next_studio c v now p st)"
proof (cases "dropWhile (\<lambda>s. \<not> turn_open v st s) (mp_studios p)")
  case Nil
  then show ?thesis unfolding media_next_studio_def Nil using media_ok_scan_on [OF assms(1) running_plan [OF assms]] by simp
next
  case (Cons s ss)
  have "media_ok R (st\<lparr>tr_plan := Some (p\<lparr>mp_studio := s, mp_studios := ss\<rparr>)\<rparr>)"
    using assms running_plan [OF assms] by (auto simp: media_ok_def media_target_ok_def)
  then show ?thesis unfolding media_next_studio_def Cons by simp
qed

lemma media_ok_dispatched:
  assumes ok: "media_ok R st" and p: "tr_plan st = Some p" and at: "media_at st (mp_addr p) = Some b"
    and it: "item_at b (mp_item p) = Some it"
  shows "media_ok R (assign_media now (mp_addr p) (mp_item p) s b it generation (st\<lparr>tr_leases := L, tr_turns := ts, tr_plan := None\<rparr>))"
proof -
  let ?f = "\<lambda>b. (map_media (mp_item p) (dispatched_media now (mb_id b) s) b)\<lparr>mb_dispatched := now\<rparr>"
  let ?st = "st\<lparr>tr_leases := L, tr_turns := ts, tr_plan := None\<rparr>"
  have tries: "mi_tries it < max_media_tries + R" using ok p at it by (auto simp: media_ok_def media_target_ok_def)
  have "media_batch_ok R b" using ok media_at_heap [OF at] by (simp add: media_ok_def)
  then have "media_batch_ok R (?f b)" using it tries
    by (auto simp: media_batch_ok_def map_media_def list_all_length nth_list_update media_item_ok_def dispatched_media_def
        item_at_def split: if_splits)
  moreover have "\<not> tr_stopping st" by (rule running_plan [OF ok p])
  moreover have "media_at ?st a = media_at st a" for a by (simp add: media_at_def)
  ultimately have "media_ok R (set_media (mp_addr p) ?f ?st)"
    using ok at by (auto simp: media_ok_def media_target_ok_def elim!: heap_set_media)
  then have "media_ok R (save_media now (mp_addr p) ((set_media (mp_addr p) ?f ?st)\<lparr>tr_busy := bz\<rparr>))" for bz
    by (intro media_ok_saved) simp
  then show ?thesis by (simp add: assign_media_def)
qed

lemma media_ok_memory:
  assumes ok: "media_ok R st"
  shows "media_ok R (media_memory c v now run generation st)"
proof (cases "tr_plan st")
  case None
  then show ?thesis using ok by (simp add: media_memory_def)
next
  case (Some p)
  have turned: "media_ok R (media_next_studio c v now p (st\<lparr>tr_turns := ts\<rparr>))" for ts
    by (rule media_ok_next_studio) (use ok Some in auto)
  have "\<not> tr_stopping (assign_media now a i s b it generation (st\<lparr>tr_leases := L, tr_turns := ts, tr_plan := None\<rparr>))" for a i s b it L ts
    using running_plan [OF ok Some] by (simp add: assign_media_def)
  then have assigned: "media_ok R (media_scan_on c v now True (mp_rest p)
      (assign_media now (mp_addr p) (mp_item p) s b it generation (st\<lparr>tr_leases := L, tr_turns := ts, tr_plan := None\<rparr>)))"
    if "media_at st (mp_addr p) = Some b" "item_at b (mp_item p) = Some it" for b it s L ts
    by (intro media_ok_scan_on media_ok_dispatched [OF ok Some that])
  show ?thesis
    using ok Some turned media_ok_next_studio [OF ok Some] assigned
    by (auto simp: media_memory_def Let_def split: option.split prod.split Option.bind_splits)
qed

section \<open>Handlers and the restart\<close>

text \<open>Between shutdown and start, or during a restart, nothing is being placed and every item has attempts left.\<close>

definition media_calm :: "nat \<Rightarrow> media_state_rec \<Rightarrow> bool" where
  "media_calm R st \<longleftrightarrow> media_ok R st \<and> tr_plan st = None \<and> (\<forall>b\<in>set (tr_heap st) \<union> set (tr_rows st). spare_tries R b)"

lemma calm_ok: "media_calm R st \<Longrightarrow> media_ok R st"
  by (simp add: media_calm_def)

lemma calm_edited:
  assumes calm: "media_calm R st"
    and edit: "\<And>b. media_at st a = Some b \<Longrightarrow> media_batch_ok R b \<Longrightarrow> spare_tries R b \<Longrightarrow> media_batch_ok R (f b) \<and> lower_tries (f b) b"
  shows "media_calm R (set_media a f st)"
proof -
  have fair: "fair_edit R b (f b)" if "media_at st a = Some b" for b
    using edit [OF that] calm media_at_heap [OF that] by (simp add: media_calm_def media_ok_def fair_edit_def)
  have "spare_tries R b" if "b \<in> set (tr_heap (set_media a f st))" for b
    using that
  proof (cases rule: heap_set_media)
    case 1
    then show ?thesis using calm by (simp add: media_calm_def)
  next
    case (2 b0)
    then show ?thesis using fair [OF 2(1)] media_at_heap [OF 2(1)] calm lower_spare by (auto simp: media_calm_def fair_edit_def)
  qed
  then show ?thesis using media_ok_edited [OF calm_ok [OF calm] fair] calm by (auto simp: media_calm_def)
qed

lemma calm_appended: "media_calm R st \<Longrightarrow> media_batch_ok R b \<Longrightarrow> spare_tries R b \<Longrightarrow> media_calm R (st\<lparr>tr_heap := tr_heap st @ [b]\<rparr>)"
  by (auto simp: media_calm_def intro: media_ok_appended)

lemma calm_saved:
  assumes calm: "media_calm R st"
  shows "media_calm R (save_media now a st)"
proof (cases "media_at st a")
  case None
  then show ?thesis using calm by (simp add: save_media_def)
next
  case (Some b)
  have 1: "media_calm R (set_media a (saved_media now) st)"
    using fair_saved by (intro calm_edited [OF calm]) (auto simp: fair_edit_def)
  have in_heap: "saved_media now b \<in> set (tr_heap (set_media a (saved_media now) st))"
    using Some media_at_set [of a "saved_media now" st a] media_at_heap by fastforce
  have 2: "media_ok R (save_media now a st)" by (rule media_ok_saved [OF calm_ok [OF calm]])
  show ?thesis using 1 2 in_heap Some by (auto simp: media_calm_def save_media_def)
qed

lemma calm_restored:
  assumes "media_batch_ok R b" "spare_tries R b"
  shows "media_batch_ok R (b\<lparr>mb_items := map (restored_media disk) (mb_items b)\<rparr>)
    \<and> lower_tries (b\<lparr>mb_items := map (restored_media disk) (mb_items b)\<rparr>) b"
  using assms by (auto simp: media_batch_ok_def media_item_ok_def lower_tries_def spare_tries_def restored_media_def
      requeued_media_def Let_def list_all_length list_all2_conv_all_nth)

lemma calm_restore:
  "media_calm R st \<Longrightarrow> (\<And>b. b \<in> set rows \<Longrightarrow> media_batch_ok R b \<and> spare_tries R b) \<Longrightarrow> media_calm R (restore_media c now rows st)"
proof (induction rows arbitrary: st)
  case (Cons b rows)
  obtain a st1 where st1: "new_media_object b st = (a, st1)" by (metis prod.exhaust)
  have 1: "media_calm R st1" using Cons.prems(2) [of b] st1 calm_appended [OF Cons.prems(1)] by (auto simp: new_media_object_def)
  have saved: "media_calm R (restore_media c now rows (save_media now a (remember_media (mb_id b) a st')))" if "media_calm R st'" for st'
  proof (rule Cons.IH [OF calm_saved])
    show "media_calm R (remember_media (mb_id b) a st')" using that by (simp add: remember_media_def media_calm_def)
    show "\<And>b. b \<in> set rows \<Longrightarrow> media_batch_ok R b \<and> spare_tries R b" using Cons.prems(2) by simp
  qed
  show ?case
  proof (cases "expire_media c now a st1")
    case None
    then show ?thesis using st1 1 by simp
  next
    case (Some r)
    obtain st2 over where r: "r = (st2, over)" by (cases r)
    have 2: "media_calm R st2" using 1 Some r fair_expired [of R]
      by (auto simp: expire_media_def fair_edit_def intro!: calm_edited split: option.splits sum.splits if_splits)
    have 3: "media_calm R (set_media a (\<lambda>b. b\<lparr>mb_items := map (restored_media disk) (mb_items b)\<rparr>) st2)" for disk
      by (rule calm_edited [OF 2 calm_restored])
    show ?thesis using st1 Some r 2 3 saved by simp
  qed
qed simp

lemma ok_calm_next:
  assumes "media_ok R st" "b \<in> set (tr_heap st) \<union> set (tr_rows st)"
  shows "media_batch_ok (Suc R) b \<and> spare_tries (Suc R) b"
proof -
  have "media_batch_ok R b" using assms by (auto simp: media_ok_def)
  then show ?thesis by (auto simp: media_batch_ok_def spare_tries_def media_item_ok_def list_all_iff le_Suc_eq less_Suc_eq_le)
qed

lemma media_ok_restart:
  assumes "media_ok R st"
  shows "media_ok (Suc R) (restart_media c now st)"
proof -
  let ?st1 = "st\<lparr>tr_heap := [], tr_memory := [], tr_busy := [], tr_tasks := [], tr_known := [], tr_plan := None,
    tr_stopping := False, tr_leases := [], tr_turns := [], tr_machines := [], tr_uploads := []\<rparr>"
  have "media_calm (Suc R) ?st1" using ok_calm_next [OF assms] by (auto simp: media_calm_def media_ok_def media_target_ok_def)
  then have "media_calm (Suc R) (restore_media c now (media_rows (\<lambda>r. \<not> media_over r) ?st1) ?st1)"
    using ok_calm_next [OF assms] by (intro calm_restore) (auto simp: media_rows_def)
  then show ?thesis unfolding restart_media_def Let_def by (rule calm_ok)
qed

lemma media_ok_stop:
  assumes "media_ok R st"
  shows "media_ok (Suc R) (stop_media st)"
  using ok_calm_next [OF assms] by (auto simp: stop_media_def cancel_task_def media_ok_def media_target_ok_def)

lemma row_ok: "media_ok R st \<Longrightarrow> b \<in> set (tr_rows st) \<Longrightarrow> media_batch_ok R b \<and> (tr_stopping st \<longrightarrow> spare_tries R b)"
  by (simp add: media_ok_def)

lemma media_ok_loaded: "media_ok R st \<Longrightarrow> b \<in> set (tr_rows st) \<Longrightarrow> new_media_object b st = (a, st1) \<Longrightarrow> media_ok R st1"
  using row_ok by (auto simp: new_media_object_def intro: media_ok_appended)

lemma media_rows_in: "b \<in> set (media_rows p st) \<Longrightarrow> b \<in> set (tr_rows st)"
  by (simp add: media_rows_def)

lemma media_rows_head: "media_rows p st = b # bs \<Longrightarrow> b \<in> set (tr_rows st)"
  using media_rows_in [of b p st] by simp

lemma media_ok_get: "media_ok R st \<Longrightarrow> get_media bid st = Some (a, st1) \<Longrightarrow> media_ok R st1"
  by (auto simp: get_media_def intro: media_ok_loaded dest!: media_rows_head split: option.splits list.splits)

lemma media_ok_remembered: "media_ok R st \<Longrightarrow> media_ok R (remember_media bid a st)" "media_ok R st \<Longrightarrow> media_ok R (remember_media_default bid a st)"
  by (simp_all add: remember_media_def remember_media_default_def)

lemma media_ok_edit_saved:
  assumes "media_ok R st" "\<And>b. fair_edit R b (f b)"
  shows "media_ok R (save_media now a (remember_media bid a (cancel_task ids (set_media a f st))))"
    "media_ok R (save_media now a (remember_media bid a (set_media a f st)))"
  using media_ok_edited [OF assms] by (auto intro!: media_ok_saved media_ok_remembered simp: cancel_task_def)

lemma media_ok_cancel: "media_ok R st \<Longrightarrow> media_ok R (cancel_media now bid st)"
  by (auto simp: cancel_media_def dest: media_ok_get intro!: media_ok_edit_saved fair_cancelled split: option.split)

lemma media_ok_retry: "media_ok R st \<Longrightarrow> media_ok R (retry_media now bid st)"
  by (auto simp: retry_media_def dest: media_ok_get intro!: media_ok_edit_saved fair_retried split: option.split)

lemma media_ok_renew: "media_ok R st \<Longrightarrow> media_ok R (renew_media now bid lease st)"
  by (auto simp: renew_media_def dest: media_ok_get intro!: media_ok_edit_saved fair_renewed split: option.split)

lemma media_ok_remove_over: "media_ok R st \<Longrightarrow> media_ok R (remove_over b st)"
  by (auto simp: remove_over_def forget_items_def remove_dir_def Let_def intro!: media_ok_rows)

lemma media_ok_remove: "media_ok R st \<Longrightarrow> media_ok R (remove_media bid st)"
  by (auto simp: remove_media_def dest: media_ok_get intro!: media_ok_remove_over split: option.split)

lemma media_ok_clear: "media_ok R st \<Longrightarrow> media_ok R (clear_media st)"
proof -
  have "media_ok R st \<Longrightarrow> media_ok R (fold remove_over bs st)" for bs
    by (induction bs arbitrary: st) (auto intro: media_ok_remove_over)
  then show "media_ok R st \<Longrightarrow> media_ok R (clear_media st)" by (simp add: clear_media_def)
qed

lemma media_ok_clean: "media_ok R st \<Longrightarrow> media_ok R (clean_batch expired_only cutoff now a st)"
  by (auto simp: clean_batch_def remove_dir_def Let_def intro!: media_ok_saved media_ok_edited fair_cleaned split: option.split)

lemma media_ok_cleanup_one: "media_ok R st \<Longrightarrow> media_ok R (cleanup_one expired_only cutoff now bid st)"
  by (auto simp: cleanup_one_def dest: media_ok_get intro!: media_ok_clean split: option.split)

lemma media_ok_cleanup_rows:
  "media_ok R st \<Longrightarrow> (\<And>b. b \<in> set bs \<Longrightarrow> media_batch_ok R b \<and> (tr_stopping st \<longrightarrow> spare_tries R b))
     \<Longrightarrow> media_ok R (cleanup_rows expired_only cutoff now bs st)"
proof (induction bs arbitrary: st)
  case (Cons b bs)
  obtain a st1 where st1: "new_media_object b st = (a, st1)" by (metis prod.exhaust)
  have 1: "media_ok R st1" using st1 Cons.prems by (auto simp: new_media_object_def intro: media_ok_appended)
  have "tr_stopping (clean_batch expired_only cutoff now a st1) = tr_stopping st"
    using st1 by (auto simp: clean_batch_def remove_dir_def new_media_object_def Let_def split: option.split)
  then show ?case using Cons.IH [OF media_ok_clean [OF 1]] Cons.prems(2) st1 by simp
qed simp

lemma store_files_fresh:
  "store_files limits h bid index stored fs disk = Inr (items, disk') \<Longrightarrow> list_all (\<lambda>i. mi_state i = M_queued \<and> mi_tries i = 0) items"
  by (induction limits h bid index stored fs disk arbitrary: items disk' rule: store_files.induct)
     (auto simp: fresh_media_def bind_err_Inr split: prod.splits if_splits)

lemma new_media_ok:
  assumes "list_all (\<lambda>i. mi_state i = M_queued \<and> mi_tries i = 0) items"
  shows "media_batch_ok R (new_media bid key now ord items e) \<and> spare_tries R (new_media bid key now ord items e)"
  using assms by (auto simp: media_batch_ok_def spare_tries_def new_media_def media_item_ok_def max_media_tries_def list_all_iff)

lemma media_ok_begin_upload:
  assumes ok: "media_ok R st"
  shows "media_ok R (snd (begin_upload c bid now rq st))"
proof -
  have ok': "media_ok R (st\<lparr>tr_fences := db\<rparr>)" for db using ok by simp
  have dup: "media_ok R st2" if "new_media_object b st' = (a, st2)" "media_duplicate c rq ord prep st' = Some b" "media_ok R st'" for a b st2 ord prep st'
    using that by (auto simp: media_duplicate_def dest!: media_rows_head intro: media_ok_loaded split: list.splits if_splits)
  show ?thesis using ok ok'
    by (auto simp: begin_upload_def Let_def dest!: media_ok_get [OF ok'] dest: dup intro!: media_ok_remembered split: sum.split prod.split option.split)
qed

lemma media_ok_end_upload:
  assumes ok: "media_ok R st"
  shows "media_ok R (snd (end_upload c bid now st))"
proof (cases "select_first (\<lambda>u. mu_id u = bid) (tr_uploads st)")
  case None
  then show ?thesis using ok by (simp add: end_upload_def)
next
  case (Some u)
  let ?st0 = "st\<lparr>tr_uploads := filter (\<lambda>u. mu_id u \<noteq> bid) (tr_uploads st)\<rparr>"
  have created: "media_ok R (save_media now a (remember_media bid a (?st0\<lparr>tr_disk := disk,
      tr_heap := tr_heap st @ [new_media bid key now ord items e]\<rparr>)))"
    if "list_all (\<lambda>i. mi_state i = M_queued \<and> mi_tries i = 0) items" for a disk key ord items e
  proof -
    have "media_ok R (?st0\<lparr>tr_disk := disk, tr_heap := tr_heap (?st0\<lparr>tr_disk := disk\<rparr>) @ [new_media bid key now ord items e]\<rparr>)"
      using new_media_ok [OF that] ok by (intro media_ok_appended) auto
    then show ?thesis by (intro media_ok_saved media_ok_remembered) simp
  qed
  show ?thesis
    using Some ok store_files_fresh created
    by (auto simp: end_upload_def Let_def remove_dir_def new_media_object_def split: sum.split prod.split)
qed

lemma media_ok_with: "media_ok R st \<Longrightarrow> (\<And>t. media_ok R (f t st)) \<Longrightarrow> media_ok R (with_media k okay f st)"
  by (simp add: with_media_def split: option.split)

definition media_end :: "media_op \<Rightarrow> nat" where
  \<comment> \<open>ends of the process\<close>
  "media_end e = (case e of Stop_media \<Rightarrow> 1 | Restart_media _ \<Rightarrow> 1 | _ \<Rightarrow> 0)"

definition media_ends :: "media_op list \<Rightarrow> nat" where
  "media_ends es = sum_list (map media_end es)"

lemma media_ok_handed: "media_ok R st \<Longrightarrow> media_ok R (handed_media now t st)"
  by (auto simp: handed_media_def intro!: media_ok_fail split: media_stage.split)

lemma media_ok_step:
  assumes ok: "media_ok R st"
  shows "media_ok (R + media_end e) (media_step c e st)"
proof (cases e)
  case (Scan_media v now)
  then show ?thesis using ok media_ok_visit [OF ok] by (simp add: media_end_def media_start_scan_def)
next
  case (Cleanup_all expired_only cutoff now)
  then show ?thesis using media_ok_cleanup_rows [OF ok] row_ok [OF ok] media_rows_in
    by (fastforce simp: media_end_def cleanup_all_def)
next
  case Start_media
  then show ?thesis using ok by (simp add: media_end_def media_ok_def media_target_ok_def)
next
  case (Rival_turn machine lane)
  then show ?thesis using ok by (simp add: media_end_def split: option.split)
qed (use ok in \<open>auto simp: media_end_def intro!: media_ok_with media_ok_begin media_ok_answer media_ok_raise media_ok_handed
        media_ok_finish media_ok_interrupt media_ok_memory media_ok_cancel media_ok_retry media_ok_renew media_ok_remove
        media_ok_clear media_ok_cleanup_one media_ok_stop media_ok_restart media_ok_begin_upload media_ok_end_upload\<close>)

lemma media_ok_empty: "media_ok R empty_media"
  by (simp add: media_ok_def media_target_ok_def empty_media_def)

lemma media_ok_run: "media_ok (media_ends es) (media_run c es empty_media)"
proof (induction es rule: rev_induct)
  case (snoc e es)
  then show ?case using media_ok_step [of "media_ends es"] by (simp add: media_run_def media_ends_def)
qed (simp add: media_run_def media_ends_def media_ok_empty)

end
