(* ===== verification/Transcribe_Theorems.thy ===== *)
theory Transcribe_Theorems
  imports Transcribe_Batches
begin

text \<open>
  Properties of the transcription lane: what any run from the empty state keeps, what a submission stores,
  what an accepted answer leaves behind, what a cleanup may delete, and the runs on which the lane does not
  do what it means to.
\<close>

section \<open>A run to look at\<close>

definition media_demo_studio :: "string \<Rightarrow> string \<Rightarrow> studio" where
  "media_demo_studio sid machine = \<lparr>st_id = sid, st_machine = machine, st_modality = ''voice''\<rparr>"

definition media_demo :: media_env where
  "media_demo = \<lparr>me_host = \<lparr>hc_exec = \<lparr>eh_site = ''site'', eh_sha256 = (\<lambda>s. s), eh_iso = (\<lambda>_. Not_iso),
        eh_repr = (\<lambda>_. ''x''), eh_float = (\<lambda>_. ''0'')\<rparr>, hc_text = \<lparr>th_float = (\<lambda>_. None), th_repr = (\<lambda>_. ''x'')\<rparr>,
      hc_loads = (\<lambda>_. Not_json), hc_raw = (\<lambda>_. Not_json), hc_cached = (\<lambda>_ _. None)\<rparr>,
    me_registry = [media_demo_studio ''voice'' ''local'', media_demo_studio ''voice2'' ''mac2''],
    me_limits = \<lparr>ml_file = 8, ml_batch = 20\<rparr>\<rparr>"

definition media_demo_view :: media_view where
  "media_demo_view = \<lparr>tv_fleet = \<lparr>fv_ready = (\<lambda>_. True), fv_machine_on = (\<lambda>_. True), fv_studio_on = (\<lambda>_ _. True),
     fv_up = (\<lambda>_. True), fv_render_score = (\<lambda>_. 0), fv_chip = (\<lambda>_. ''''), fv_total = (\<lambda>_. None), fv_version = (\<lambda>_. '''')\<rparr>,
     tv_ready = (\<lambda>_ _. True), tv_drained = [], tv_broker_busy = [], tv_broker_batches = [],
     tv_available = (\<lambda>_. Some [(''available'', JBool True), (''models'', JList [JObj [(''repo'', JStr ''m'')]])]),
     tv_other = (\<lambda>_. False)\<rparr>"

definition media_demo_request :: media_request where
  "media_demo_request = \<lparr>rq_files = [(Some ''a.wav'', ''xyz''), (Some ''b.mp3'', ''uv'')], rq_ids = [''c1'', ''c2''],
     rq_model = Some ''m'', rq_language = None, rq_words = False, rq_label = None, rq_project = None, rq_episode = None,
     rq_execution = None, rq_dedupe = True\<rparr>"

definition media_submitted :: "media_op list" where
  "media_submitted = [Begin_upload ''b1'' 10 media_demo_request, End_upload ''b1'' 11]"

definition media_single :: "media_op list" where
  \<comment> \<open>the same with one file\<close>
  "media_single = [Begin_upload ''b1'' 10 (media_demo_request\<lparr>rq_files := [(Some ''a.wav'', ''xyz'')], rq_ids := [''c1'']\<rparr>),
     End_upload ''b1'' 11, Scan_media media_demo_view 12, Media_memory media_demo_view 13 True None, Begin_item 0 media_demo_view 14]"

definition media_placed :: "media_op list" where
  "media_placed = media_submitted @ [Scan_media media_demo_view 12, Media_memory media_demo_view 13 True None]"

definition media_asked :: "media_op list" where
  "media_asked = media_placed @ [Begin_item 0 media_demo_view 14]"

definition media_answer :: json where
  "media_answer = JObj [(''srt'', JStr ''1''), (''elapsed_seconds'', JInt 2)]"

lemma demo_run:
  "map (\<lambda>b. map (\<lambda>i. (mi_state i, mi_tries i)) (mb_items b)) (tr_rows (media_run media_demo (media_asked @ [Media_answer 0 20 media_answer]) empty_media))
     = [[(M_done, 1), (M_queued, 0)]]"
  by code_simp

lemma demo_tasks:
  "map (\<lambda>t. (mt_id t, mt_stage t)) (tr_tasks (media_run media_demo media_asked empty_media)) = [(0, T_asking 14)]"
  by code_simp

section \<open>Machines and attempts\<close>

text \<open>Over any run - stops, restarts and cancellations of tasks included - the tasks of the transcription lane
  are on different machines, and each holds the lease of its machine.\<close>

theorem media_one_item_per_machine:
  "let st = media_run c es empty_media
   in distinct (map (\<lambda>t. st_machine (mt_studio t)) (tr_tasks st)) \<and> distinct (map mt_id (tr_tasks st))
      \<and> list_all (\<lambda>t. dget (tr_leases st) (st_machine (mt_studio t)) = Some (mt_owner t)) (tr_tasks st)"
proof -
  have "media_held empty_media" by (rule media_machines.idle) (simp_all add: empty_media_def)
  then have "media_held (media_run c es empty_media)" by (rule media_machines.keeps_run) (simp_all add: list_all_iff)
  then show ?thesis by (auto simp: media_held_def holds_ok_def media_hold_def o_def list_all_iff Let_def)
qed

fun media_leak_free :: "media_env \<Rightarrow> media_op list \<Rightarrow> media_state_rec \<Rightarrow> bool" where
  "media_leak_free c [] st = True"
| "media_leak_free c (e # es) st = (\<not> media_leaks e st \<and> media_leak_free c es (media_step c e st))"

lemma leak_free_split: "media_leak_free c (as @ e # bs) st \<Longrightarrow> \<not> media_leaks e (media_run c as st)"
  by (induction as arbitrary: st) (simp_all add: media_run_def)

text \<open>C34: As long as no task is cancelled before its coroutine has started, the lane holds nothing without a task: the
  busy studios are those of its tasks, and the machine leases in its name are those of its tasks.\<close>

theorem media_holds_only_for_tasks:
  assumes "media_leak_free c es empty_media"
  shows "let st = media_run c es empty_media
    in set (tr_busy st) = (\<lambda>t. st_id (mt_studio t)) ` set (tr_tasks st)
       \<and> {(m, owner). dget (tr_leases st) m = Some owner \<and> \<not> rival_owner owner}
         = (\<lambda>t. (st_machine (mt_studio t), mt_owner t)) ` set (tr_tasks st)"
proof -
  have "media_exact empty_media" by (rule media_clean.idle) (simp_all add: empty_media_def)
  then have "media_exact (media_run c es empty_media)"
    by (rule media_clean.keeps_run) (use leak_free_split assms in \<open>auto simp: list_all_iff\<close>)
  then show ?thesis
    by (fastforce simp: media_exact_def media_held_def holds_ok_def holds_exact_def media_hold_def image_image Let_def)
qed

theorem media_holds_only_for_tasks_witness:
  "let st = media_run media_demo media_asked empty_media
    in set (tr_busy st) = (\<lambda>t. st_id (mt_studio t)) ` set (tr_tasks st)
       \<and> {(m, owner). dget (tr_leases st) m = Some owner \<and> \<not> rival_owner owner}
         = (\<lambda>t. (st_machine (mt_studio t), mt_owner t)) ` set (tr_tasks st)"
proof -
  have "media_leak_free media_demo media_asked empty_media" by code_simp
  then show ?thesis by (rule media_holds_only_for_tasks)
qed

text \<open>Every stored batch of every run: the counter of attempts of an item is at most three and one for each time
  the process ended, below that for a waiting item, and a finished item names its artifact unless the batch
  was cleaned.  (The counter is not the number of requests: capacity and authentication hand an attempt
  back, and a retry by the operator starts over.)\<close>

lemma media_attempt_counter_bounded:
  "let R = media_ends es
   in list_all (\<lambda>b. list_all (\<lambda>i. mi_tries i \<le> (if mi_state i = M_queued then max_media_tries + R - 1 else max_media_tries + R)
        \<and> (if mi_state i = M_done then \<not> (mi_artifact i = None \<and> mb_cleaned b = None) else True)) (mb_items b))
      (tr_rows (media_run c es empty_media))"
  using media_ok_run [of es c]
  by (fastforce simp: media_ok_def media_batch_ok_def media_item_ok_def list_all_iff Let_def max_media_tries_def)

section \<open>What a submission stores\<close>

lemma list_all2_source: "list_all2 P xs ys \<Longrightarrow> y \<in> set ys \<Longrightarrow> \<exists>x\<in>set xs. P x y"
  by (induction rule: list_all2_induct) auto

lemma list_all2_image: "list_all2 P xs ys \<Longrightarrow> x \<in> set xs \<Longrightarrow> \<exists>y\<in>set ys. P x y"
  by (induction rule: list_all2_induct) auto

lemma read_all_Inr: "read_all f xs = Inr ys \<Longrightarrow> list_all2 (\<lambda>x y. f x = Inr y) xs ys"
  by (induction xs arbitrary: ys) (auto simp: bind_err_Inr)

definition stored_item :: "(string, string) dict \<Rightarrow> media_item \<Rightarrow> string \<times> string \<times> string \<Rightarrow> bool" where
  "stored_item disk i f \<longleftrightarrow> mi_id i = fst f \<and> mi_name i = fst (snd f) \<and> mi_bytes i = length (snd (snd f)) \<and> mi_state i = M_queued
     \<and> (case mi_input i of None \<Rightarrow> False | Some p \<Rightarrow> dget disk p = Some (snd (snd f)))"

lemma digits_padded: "digits_value 0 g (replicate k (CHR ''0'') @ nat_text n) = Some n"
proof (induction k arbitrary: g)
  case 0
  have "nat_text n \<noteq> []" by (subst nat_text.simps) simp
  then obtain d s where ds: "nat_text n = d # s" by (cases "nat_text n") auto
  then have "is_digit d" using nat_text_digits [of d n] by simp
  then have "digits_value 0 g (nat_text n) = digits_value 0 True (nat_text n)" using ds by simp
  then show ?case by (simp add: digits_value_nat_text)
qed (simp add: is_digit_def)

lemma input_path_index:
  assumes "input_path h bid m i name = input_path h bid n i' name'"
  shows "m = n"
proof -
  have d: "c \<in> set (four_digits k) \<Longrightarrow> c \<noteq> CHR ''-''" for c k
    by (auto simp: four_digits_def is_digit_def dest: nat_text_digits)
  have t: "takeWhile (\<lambda>c. c \<noteq> CHR ''-'') (four_digits k @ ''-'' @ s) = four_digits k" for k s
    using d by (simp add: takeWhile_append2)
  have "four_digits m @ ''-'' @ (take 12 (eh_sha256 h i) @ py_lower (path_suffix name))
      = four_digits n @ ''-'' @ (take 12 (eh_sha256 h i') @ py_lower (path_suffix name'))"
    using assms by (simp add: input_path_def)
  from arg_cong [OF this, of "takeWhile (\<lambda>c. c \<noteq> CHR ''-'')"] have "four_digits m = four_digits n" by (simp only: t)
  moreover have "digits_value 0 True (four_digits k) = Some k" for k unfolding four_digits_def by (rule digits_padded)
  ultimately show ?thesis by (metis option.inject)
qed

lemma store_keeps:
  "store_files limits h bid index stored fs disk = Inr (items, disk')
     \<Longrightarrow> (\<And>j i name. index \<le> j \<Longrightarrow> p \<noteq> input_path h bid j i name) \<Longrightarrow> dget disk' p = dget disk p"
proof (induction limits h bid index stored fs disk arbitrary: items disk' rule: store_files.induct)
  case (2 limits h bid index stored f fs disk)
  obtain i name content where f: "f = (i, name, content)" by (cases f) auto
  from 2(2) f obtain items1 where r: "store_files limits h bid (Suc index) (stored + length content) fs
      (dset (input_path h bid index i name) content disk) = Inr (items1, disk')"
    and ok: "length content \<le> ml_file limits" "stored + length content \<le> ml_batch limits" "content \<noteq> []"
    by (auto simp: bind_err_Inr split: if_splits)
  have "dget disk' p = dget (dset (input_path h bid index i name) content disk) p"
    by (rule 2(1) [OF f [symmetric] refl _ _ _ r]) (use ok 2(3) in \<open>auto simp: not_less\<close>)
  then show ?case using 2(3) [of index i name] by simp
qed simp

lemma store_files_stored:
  "store_files limits h bid index stored fs disk = Inr (items, disk')
     \<Longrightarrow> list_all2 (stored_item disk') items fs \<and> list_all (\<lambda>i. 0 < mi_bytes i \<and> mi_bytes i \<le> ml_file limits) items
       \<and> stored + sum_list (map mi_bytes items) \<le> max stored (ml_batch limits)"
proof (induction limits h bid index stored fs disk arbitrary: items disk' rule: store_files.induct)
  case (2 limits h bid index stored f fs disk)
  obtain i name content where f: "f = (i, name, content)" by (cases f) auto
  from 2(2) f obtain items1 where r: "store_files limits h bid (Suc index) (stored + length content) fs
      (dset (input_path h bid index i name) content disk) = Inr (items1, disk')"
    and items: "items = fresh_media h bid index f # items1"
    and ok: "length content \<le> ml_file limits" "stored + length content \<le> ml_batch limits" "content \<noteq> []"
    by (auto simp: bind_err_Inr split: if_splits)
  have IH: "list_all2 (stored_item disk') items1 fs \<and> list_all (\<lambda>i. 0 < mi_bytes i \<and> mi_bytes i \<le> ml_file limits) items1
       \<and> (stored + length content) + sum_list (map mi_bytes items1) \<le> max (stored + length content) (ml_batch limits)"
    by (rule 2(1) [OF f [symmetric] refl _ _ _ r]) (use ok in auto)
  have "dget disk' (input_path h bid index i name) = dget (dset (input_path h bid index i name) content disk) (input_path h bid index i name)"
    by (rule store_keeps [OF r]) (use input_path_index in fastforce)
  then have "stored_item disk' (fresh_media h bid index f) f" using f by (simp add: stored_item_def fresh_media_def)
  moreover have "mi_bytes (fresh_media h bid index f) = length content" using f by (simp add: fresh_media_def)
  ultimately show ?case using IH items ok by (simp add: max_def split: if_splits)
qed simp

lemma media_filename_safe: "media_filename v = Inr s \<Longrightarrow> CHR ''/'' \<notin> set s \<and> s \<noteq> [] \<and> length s \<le> 240 \<and> s \<notin> set [''.'', ''..'']"
  by (auto simp: media_filename_def Let_def split: if_splits)

lemma order_files:
  assumes "read_media_order rq = Inr ord"
  shows "distinct (map fst (mo_files ord))" "map (snd \<circ> snd) (mo_files ord) = map snd (rq_files rq)"
    "list_all (\<lambda>f. CHR ''/'' \<notin> set (fst (snd f)) \<and> py_lower (path_suffix (fst (snd f))) \<in> set media_extensions) (mo_files ord)"
    "mo_files ord \<noteq> []" "length (mo_files ord) \<le> max_media_files"
proof -
  obtain ids names k where ids: "read_all (\<lambda>v. media_identifier ''item_id'' (Some v)) (rq_ids rq) = Inr ids" "distinct ids"
    and names: "read_all (\<lambda>f. media_filename (fst f)) (rq_files rq) = Inr names" "read_all supported_name names = Inr k"
    and files: "mo_files ord = zip ids (zip names (map snd (rq_files rq)))"
    and count: "rq_files rq \<noteq> []" "length (rq_files rq) \<le> max_media_files" "length (rq_ids rq) = length (rq_files rq)"
    using assms by (auto simp: read_media_order_def bind_err_Inr split: if_splits)
  have len: "length ids = length (rq_files rq)" "length names = length (rq_files rq)"
    using read_all_Inr [OF ids(1)] read_all_Inr [OF names(1)] count(3) by (auto dest: list_all2_lengthD)
  have ok: "CHR ''/'' \<notin> set n \<and> py_lower (path_suffix n) \<in> set media_extensions" if n: "n \<in> set names" for n
  proof -
    obtain v where "media_filename v = Inr n"
      using list_all2_source [OF read_all_Inr [OF names(1)] n] by blast
    moreover obtain m where "supported_name n = Inr m"
      using list_all2_image [OF read_all_Inr [OF names(2)] n] by blast
    ultimately show ?thesis using media_filename_safe by (auto simp: supported_name_def split: if_splits)
  qed
  show "distinct (map fst (mo_files ord))" using files ids(2) len by simp
  show "map (snd \<circ> snd) (mo_files ord) = map snd (rq_files rq)" using files len by (simp add: map_map [symmetric] del: map_map)
  show "list_all (\<lambda>f. CHR ''/'' \<notin> set (fst (snd f)) \<and> py_lower (path_suffix (fst (snd f))) \<in> set media_extensions) (mo_files ord)"
  proof -
    have "fst (snd f) \<in> set names" if "f \<in> set (mo_files ord)" for f
    proof -
      obtain i n x where f: "f = (i, n, x)" by (cases f) auto
      have "(n, x) \<in> set (zip names (map snd (rq_files rq)))" using that unfolding files f by (rule set_zip_rightD)
      then show ?thesis unfolding f by (simp add: set_zip_leftD)
    qed
    then show ?thesis using ok by (simp add: list_all_iff)
  qed
  show "mo_files ord \<noteq> []" using files len count by (metis length_0_conv length_map length_zip min.idem)
  show "length (mo_files ord) \<le> max_media_files" using files len count by simp
qed

text \<open>C35: What a submission stores once its uploads are read: as many items as files, at most 500, with distinct ids and
  plain file names of a supported kind, each below the limit for a file and all below the limit for a batch, and
  every upload is on disk under a path of its own.\<close>

theorem media_created_batch_valid:
  assumes "read_media_order rq = Inr ord" "store_files limits h bid 0 0 (mo_files ord) disk = Inr (items, disk')"
  shows "items \<noteq> [] \<and> length items \<le> 500 \<and> distinct (map mi_id items) \<and> sum_list (map mi_bytes items) \<le> ml_batch limits
    \<and> list_all2 (\<lambda>i f. mi_bytes i = length (snd f) \<and> 0 < mi_bytes i \<and> mi_bytes i \<le> ml_file limits \<and> mi_state i = M_queued
        \<and> CHR ''/'' \<notin> set (mi_name i) \<and> py_lower (path_suffix (mi_name i)) \<in> set media_extensions
        \<and> Option.bind (mi_input i) (dget disk') = Some (snd f)) items (rq_files rq)"
proof -
  note s = store_files_stored [OF assms(2)] and f = order_files [OF assms(1)]
  have l: "list_all2 (stored_item disk') items (mo_files ord)" using s by simp
  have len: "length items = length (mo_files ord)" "length (mo_files ord) = length (rq_files rq)"
    using list_all2_lengthD [OF l] arg_cong [OF f(2), of length] by simp_all
  have ids: "map mi_id items = map fst (mo_files ord)"
    using l by (induction rule: list_all2_induct) (auto simp: stored_item_def)
  have "list_all2 (\<lambda>i f. mi_bytes i = length (snd f) \<and> 0 < mi_bytes i \<and> mi_bytes i \<le> ml_file limits \<and> mi_state i = M_queued
        \<and> CHR ''/'' \<notin> set (mi_name i) \<and> py_lower (path_suffix (mi_name i)) \<in> set media_extensions
        \<and> Option.bind (mi_input i) (dget disk') = Some (snd f)) items (rq_files rq)"
    unfolding list_all2_conv_all_nth
  proof (rule conjI, goal_cases)
    case 1
    then show ?case using len by simp
  next
    case 2
    show ?case
    proof (intro allI impI, goal_cases)
    case (1 n)
    note 2 = 1
    have st: "stored_item disk' (items ! n) (mo_files ord ! n)" using l 2 by (simp add: list_all2_conv_all_nth)
    moreover have "snd (snd (mo_files ord ! n)) = snd (rq_files rq ! n)"
      using arg_cong [OF f(2), of "\<lambda>xs. xs ! n"] 2 len by simp
    moreover have "CHR ''/'' \<notin> set (fst (snd (mo_files ord ! n))) \<and> py_lower (path_suffix (fst (snd (mo_files ord ! n)))) \<in> set media_extensions"
      using f(3) 2 len by (simp add: list_all_length)
    moreover have "0 < mi_bytes (items ! n) \<and> mi_bytes (items ! n) \<le> ml_file limits" using s 2 by (simp add: list_all_length)
    ultimately show ?case by (auto simp: stored_item_def split: option.splits)
    qed
  qed
  then show ?thesis using s f ids len by (auto simp: max_media_files_def)
qed

theorem media_created_batch_valid_witness:
  "\<exists>items disk'. store_files (me_limits media_demo) (media_exec media_demo) ''b1'' 0 0
       [(''c1'', ''a.wav'', ''xyz''), (''c2'', ''b.mp3'', ''uv'')] [] = Inr (items, disk') \<and> distinct (map mi_id items)"
proof -
  have "map_sum id mo_files (read_media_order media_demo_request) = Inr [(''c1'', ''a.wav'', ''xyz''), (''c2'', ''b.mp3'', ''uv'')]"
    by code_simp
  then obtain ord where ord: "read_media_order media_demo_request = Inr ord" "mo_files ord = [(''c1'', ''a.wav'', ''xyz''), (''c2'', ''b.mp3'', ''uv'')]"
    by (cases "read_media_order media_demo_request") auto
  have "map_sum id (\<lambda>(items, _). length items) (store_files (me_limits media_demo) (media_exec media_demo) ''b1'' 0 0
       [(''c1'', ''a.wav'', ''xyz''), (''c2'', ''b.mp3'', ''uv'')] []) = Inr 2" by code_simp
  then obtain items disk' where st: "store_files (me_limits media_demo) (media_exec media_demo) ''b1'' 0 0 (mo_files ord) [] = Inr (items, disk')"
    unfolding ord(2)
    by (cases "store_files (me_limits media_demo) (media_exec media_demo) ''b1'' 0 0
       [(''c1'', ''a.wav'', ''xyz''), (''c2'', ''b.mp3'', ''uv'')] []") auto
  from media_created_batch_valid [OF ord(1) st] st show ?thesis unfolding ord(2) by blast
qed

section \<open>An accepted answer\<close>

lemma disk_fields [simp]: "tr_disk (set_media a f st) = tr_disk st" "tr_disk (save_media now a st) = tr_disk st"
  by (simp_all add: set_media_def save_media_def split: option.split)

lemma media_at_fields [simp]: "media_at (st\<lparr>tr_disk := d\<rparr>) a = media_at st a" "media_at (st\<lparr>tr_machines := ps\<rparr>) a = media_at st a"
  by (simp_all add: media_at_def)

lemma item_at_saved: "item_at (saved_media now b) i = item_at b i"
  by (simp add: saved_media_def item_at_def)

lemma finish_item_fields:
  "tr_disk (finish_item now t st) = tr_disk st"
  "tr_busy (finish_item now t st) = removeAll (st_id (mt_studio t)) (tr_busy st)"
  "tr_tasks (finish_item now t st) = filter (\<lambda>u. mt_id u \<noteq> mt_id t) (tr_tasks st)"
  "tr_leases (finish_item now t st) = release_external_machine (st_machine (mt_studio t)) (mt_owner t) (tr_leases st)"
  by (simp_all add: finish_item_def drop_media_task_def)

lemma finish_saves:
  "media_at st (mt_addr t) = Some b \<Longrightarrow> saved_media now b \<in> set (tr_rows (finish_item now t st))"
  by (auto simp: finish_item_def save_media_def drop_media_task_def media_at_def split: if_splits)

text \<open>C36: When the worker answers a waiting task with a subtitle file that is not blank and a time it took that reads as
  a number (or none), while the assignment has not run out and the directory of the batch is there, the file
  is on disk under the path of its item, the item is done with this path, the saved batch says so, and the task
  is gone with its studio and its lease.  (With a time that is no number the item fails after its file was
  written: \<open>bad_elapsed_discards_answer\<close>.)\<close>

theorem media_answer_stored:
  assumes "st = media_run c es empty_media"
    and "select_first (\<lambda>t. mt_id t = k) (tr_tasks st) = Some t" "\<not> mt_cancel t" "mt_stage t = T_asking started"
    and "media_at st (mt_addr t) = Some b" "item_at b (mt_item t) = Some it"
    and "media_lease_over (media_exec c) now b = Inr False" "mb_id b \<in> set (tr_dirs st)"
    and "py_strip (text_or_empty (th_repr (hc_text (me_host c))) (jget d ''srt'')) \<noteq> []"
    and "elapsed_of (hc_text (me_host c)) (now - started) (jget d ''elapsed_seconds'') = Inr elapsed"
  shows "let st' = media_step c (Media_answer k now (JObj d)) st; path = artifact_path (mb_id b) (mi_index it)
    in dget (tr_disk st') path = Some (text_or_empty (th_repr (hc_text (me_host c))) (jget d ''srt''))
       \<and> (\<exists>r\<in>set (tr_rows st'). mb_id r = mb_id b \<and> item_at r (mt_item t) = Some (finished_media path elapsed d it))
       \<and> k \<notin> mt_id ` set (tr_tasks st') \<and> st_id (mt_studio t) \<notin> set (tr_busy st')
       \<and> dget (tr_leases st') (st_machine (mt_studio t)) = None"
proof -
  have "media_held st" unfolding assms(1)
    by (rule media_machines.keeps_run [OF media_machines.idle]) (simp_all add: empty_media_def list_all_iff)
  then have lease: "dget (tr_leases st) (st_machine (mt_studio t)) = Some (mt_owner t)"
    using select_first_Some [OF assms(2)] by (fastforce simp: media_held_def holds_ok_def media_hold_def)
  have k: "mt_id t = k" using select_first_Some [OF assms(2)] by simp
  have len: "mt_item t < length (mb_items b)" using assms(6) by (auto simp: item_at_def split: if_splits)
  let ?path = "artifact_path (mb_id b) (mi_index it)"
  let ?srt = "text_or_empty (th_repr (hc_text (me_host c))) (jget d ''srt'')"
  let ?f = "finished_media ?path elapsed d"
  let ?st1 = "st\<lparr>tr_disk := dset ?path ?srt (tr_disk st)\<rparr>"
  let ?st2 = "(on_media t ?f ?st1)\<lparr>tr_machines := fst (mark_machine_success now (st_machine (mt_studio t)) (tr_machines ?st1))\<rparr>"
  have step: "media_step c (Media_answer k now (JObj d)) st = finish_item now t ?st2"
    using assms(2-10) by (simp add: with_media_def media_asking_def answer_media_def expire_media_def accept_media_def Let_def)
  have at: "media_at ?st2 (mt_addr t) = Some (map_media (mt_item t) ?f b)"
  proof -
    have "media_at ?st1 (mt_addr t) = Some b" using assms(5) by simp
    then show ?thesis by (simp add: on_media_def media_at_set)
  qed
  have item: "item_at (map_media (mt_item t) ?f b) (mt_item t) = Some (?f it)"
    using assms(6) len by (simp add: map_media_def item_at_def)
  have "item_at (saved_media now (map_media (mt_item t) ?f b)) (mt_item t) = Some (?f it)"
    using item by (simp add: item_at_saved)
  moreover have "mb_id (saved_media now (map_media (mt_item t) ?f b)) = mb_id b"
    by (simp add: saved_media_def map_media_def split: option.split)
  moreover note finish_saves [OF at, of now]
  ultimately show ?thesis unfolding step Let_def using lease k
    by (auto simp: finish_item_fields on_media_def release_external_machine_def)
qed

lemma demo_answer_facts:
  "let st = media_run media_demo media_asked empty_media
   in map_option (\<lambda>t. (mt_cancel t, mt_stage t, mt_addr t, mt_item t)) (select_first (\<lambda>t. mt_id t = 0) (tr_tasks st)) = Some (False, T_asking 14, 0, 0)
      \<and> map_option (\<lambda>b. (mb_id b, mb_execution b)) (media_at st 0) = Some (''b1'', None) \<and> ''b1'' \<in> set (tr_dirs st)
      \<and> map_option mi_index (Option.bind (media_at st 0) (\<lambda>b. item_at b 0)) = Some 0"
  by code_simp

theorem media_answer_stored_witness:
  "dget (tr_disk (media_step media_demo (Media_answer 0 20 media_answer) (media_run media_demo media_asked empty_media))) ''b1/output/0000.srt''
     = Some ''1''"
proof -
  let ?st = "media_run media_demo media_asked empty_media"
  obtain t where t: "select_first (\<lambda>t. mt_id t = 0) (tr_tasks ?st) = Some t" "\<not> mt_cancel t" "mt_stage t = T_asking 14" "mt_addr t = 0" "mt_item t = 0"
    using demo_answer_facts by (auto simp: Let_def)
  obtain b where b: "media_at ?st 0 = Some b" "mb_id b = ''b1''" "mb_execution b = None" using demo_answer_facts by (auto simp: Let_def)
  obtain it where it: "item_at b 0 = Some it" "mi_index it = 0" using demo_answer_facts b(1) by (auto simp: Let_def)
  have dir: "mb_id b \<in> set (tr_dirs ?st)" using demo_answer_facts b(2) by (simp add: Let_def)
  let ?d = "[(''srt'', JStr ''1''), (''elapsed_seconds'', JInt 2)]"
  have lease: "media_lease_over (media_exec media_demo) 20 b = Inr False" by (simp add: media_lease_over_def b(3))
  have srt: "text_or_empty (th_repr (hc_text (me_host media_demo))) (jget ?d ''srt'') = ''1''" by code_simp
  have strip: "py_strip (text_or_empty (th_repr (hc_text (me_host media_demo))) (jget ?d ''srt'')) \<noteq> []" by code_simp
  have "\<not> isl (elapsed_of (hc_text (me_host media_demo)) (20 - 14) (jget ?d ''elapsed_seconds''))" by code_simp
  then obtain e where elapsed: "elapsed_of (hc_text (me_host media_demo)) (20 - 14) (jget ?d ''elapsed_seconds'') = Inr e"
    by (metis sum.collapse(2))
  have path: "artifact_path (mb_id b) (mi_index it) = ''b1/output/0000.srt''" unfolding b(2) it(2) by code_simp
  from media_answer_stored [OF refl t(1-3) b(1) [folded t(4)] it(1) [folded t(5)] lease dir strip elapsed]
  show ?thesis unfolding path srt Let_def media_answer_def by blast
qed

section \<open>Cleaning up\<close>

lemma remove_dir_disk: "\<not> prefix (bid @ ''/'') path \<Longrightarrow> dget (tr_disk (remove_dir bid st)) path = dget (tr_disk st) path"
proof -
  assume n: "\<not> prefix (bid @ ''/'') path"
  have "dget (filter (\<lambda>(p, _). \<not> prefix (bid @ ''/'') p) d) path = dget d path" for d :: "(string, string) dict"
    using n by (induction d) auto
  then show ?thesis by (simp add: remove_dir_def)
qed

text \<open>What a removal or a cleanup of one stored batch leaves alone: the rows and the files of the others.\<close>

definition spares :: "media_batch \<Rightarrow> string \<Rightarrow> media_state_rec \<Rightarrow> media_state_rec \<Rightarrow> bool" where
  "spares r path st st' \<longleftrightarrow> r \<in> set (tr_rows st') \<and> dget (tr_disk st') path = dget (tr_disk st) path"

lemma removed_spares:
  assumes "r \<in> set (tr_rows st)" "mb_id b \<noteq> mb_id r" "\<not> prefix (mb_id b @ ''/'') path"
  shows "spares r path st (remove_over b st)"
  using assms remove_dir_disk [OF assms(3), of st]
  by (auto simp: spares_def remove_over_def forget_items_def remove_dir_def Let_def)

lemma cleaned_spares:
  assumes "r \<in> set (tr_rows st)" "media_at st a = Some b" "mb_id b \<noteq> mb_id r" "\<not> prefix (mb_id b @ ''/'') path"
  shows "spares r path st (clean_batch expired_only cutoff now a st)"
proof (cases "cleanable expired_only cutoff b")
  case True
  have "mb_id (saved_media now b') = mb_id b'" for b' by (simp add: saved_media_def)
  then show ?thesis using assms(1-3) True remove_dir_disk [OF assms(4), of st]
    by (auto simp: spares_def clean_batch_def Let_def save_media_def media_at_def set_media_def remove_dir_def split: option.split)
qed (use assms in \<open>simp add: clean_batch_def spares_def\<close>)

lemma spares_trans: "spares r path st st' \<Longrightarrow> spares r path st' st'' \<Longrightarrow> spares r path st st''"
  by (simp add: spares_def)

lemma cleanup_rows_spare:
  "r \<in> set (tr_rows st) \<Longrightarrow> (\<And>b. b \<in> set bs \<Longrightarrow> cleanable expired_only cutoff b \<Longrightarrow> mb_id b \<noteq> mb_id r \<and> \<not> prefix (mb_id b @ ''/'') path)
     \<Longrightarrow> spares r path st (cleanup_rows expired_only cutoff now bs st)"
proof (induction bs arbitrary: st)
  case Nil
  then show ?case by (simp add: spares_def)
next
  case (Cons b bs)
  let ?st1 = "st\<lparr>tr_heap := tr_heap st @ [b]\<rparr>"
  let ?st2 = "clean_batch expired_only cutoff now (length (tr_heap st)) ?st1"
  have at: "media_at ?st1 (length (tr_heap st)) = Some b" by (simp add: media_at_def)
  have "spares r path ?st1 ?st2"
  proof (cases "cleanable expired_only cutoff b")
    case True
    then show ?thesis using cleaned_spares [OF _ at] Cons.prems by simp
  qed (use at Cons.prems(1) in \<open>simp add: clean_batch_def spares_def\<close>)
  then have 1: "spares r path st ?st2" by (simp add: spares_def)
  then have "spares r path ?st2 (cleanup_rows expired_only cutoff now bs ?st2)"
    by (intro Cons.IH) (use Cons.prems(2) in \<open>auto simp: spares_def\<close>)
  then show ?case using spares_trans [OF 1] by (simp add: new_media_object_def)
qed

lemma clear_rows_spare:
  "r \<in> set (tr_rows st) \<Longrightarrow> (\<And>b. b \<in> set bs \<Longrightarrow> mb_id b \<noteq> mb_id r \<and> \<not> prefix (mb_id b @ ''/'') path) \<Longrightarrow> spares r path st (fold remove_over bs st)"
proof (induction bs arbitrary: st)
  case Nil
  then show ?case by (simp add: spares_def)
next
  case (Cons b bs)
  then have 1: "spares r path st (remove_over b st)" by (intro removed_spares) auto
  then have "spares r path (remove_over b st) (fold remove_over bs (remove_over b st))"
    by (intro Cons.IH) (use Cons.prems(2) in \<open>auto simp: spares_def\<close>)
  then show ?case using spares_trans [OF 1] by simp
qed

text \<open>C37: Neither the cleanup nor the clearing of the history touches a batch with unfinished items: its row stays as it
  is, and so does every file that lies in no other batch's directory.  (Each is one step here; a retry that
  runs while a worker thread cleans is not covered.)\<close>

theorem unfinished_files_stay:
  assumes "distinct (map mb_id (tr_rows st))" "r \<in> set (tr_rows st)" "\<not> media_over r"
    and "list_all (\<lambda>b. mb_id b = mb_id r \<or> \<not> prefix (mb_id b @ ''/'') path) (tr_rows st)"
  shows "let cleaned = cleanup_all expired_only cutoff now st; cleared = clear_media st
    in r \<in> set (tr_rows cleaned) \<and> dget (tr_disk cleaned) path = dget (tr_disk st) path
       \<and> r \<in> set (tr_rows cleared) \<and> dget (tr_disk cleared) path = dget (tr_disk st) path"
proof -
  have other: "mb_id b \<noteq> mb_id r \<and> \<not> prefix (mb_id b @ ''/'') path" if "b \<in> set (media_rows p st)" "media_over b" for b p
  proof -
    have b: "b \<in> set (tr_rows st)" using that(1) by (simp add: media_rows_def)
    then have "mb_id b \<noteq> mb_id r" using assms(1-3) that(2) by (metis distinct_map inj_on_eq_iff)
    then show ?thesis using assms(4) b by (auto simp: list_all_iff)
  qed
  have "spares r path st (cleanup_all expired_only cutoff now st)"
    unfolding cleanup_all_def by (rule cleanup_rows_spare [OF assms(2)]) (use other in \<open>auto simp: cleanable_def\<close>)
  moreover have "spares r path st (clear_media st)"
    unfolding clear_media_def by (rule clear_rows_spare [OF assms(2)], rule other) (auto simp: media_rows_def)
  ultimately show ?thesis by (simp add: spares_def Let_def)
qed

theorem unfinished_files_stay_witness:
  "dget (tr_disk (cleanup_all True 100 200 (media_run media_demo media_asked empty_media))) ''b1/input/0000-c1.wav'' = Some ''xyz''"
proof -
  let ?st = "media_run media_demo media_asked empty_media"
  have rows: "map (\<lambda>r. (mb_id r, media_over r)) (tr_rows ?st) = [(''b1'', False)]"
    and disk: "dget (tr_disk ?st) ''b1/input/0000-c1.wav'' = Some ''xyz''" by code_simp+
  then obtain r where r: "tr_rows ?st = [r]" "mb_id r = ''b1''" "\<not> media_over r" by auto
  have "let cleaned = cleanup_all True 100 200 ?st; cleared = clear_media ?st
    in r \<in> set (tr_rows cleaned) \<and> dget (tr_disk cleaned) ''b1/input/0000-c1.wav'' = dget (tr_disk ?st) ''b1/input/0000-c1.wav''
       \<and> r \<in> set (tr_rows cleared) \<and> dget (tr_disk cleared) ''b1/input/0000-c1.wav'' = dget (tr_disk ?st) ''b1/input/0000-c1.wav''"
    by (rule unfinished_files_stay) (use r in simp_all)
  then show ?thesis using disk by (simp add: Let_def)
qed

section \<open>Where the lane falls short\<close>

text \<open>A retry queues every item that was once interrupted, also one that is running again: it is given to a second
  worker.  A finished item that was once interrupted is transcribed a second time.\<close>

lemma media_interrupted_item_runs_twice:
  "map (\<lambda>t. (mt_addr t, mt_item t, st_machine (mt_studio t))) (tr_tasks (media_run media_demo (media_single @ [Restart_media 20,
     Scan_media media_demo_view 21, Media_memory media_demo_view 22 True None, Begin_item 1 media_demo_view 23, Retry_media 24 ''b1'',
     Scan_media media_demo_view 25, Media_memory media_demo_view 26 True None]) empty_media))
   = [(0, 0, ''local''), (0, 0, ''mac2'')]"
  by code_simp

text \<open>The active duplicate is looked for before the uploads are read: two submissions under way at the same time
  both become batches.\<close>

lemma media_duplicate_created:
  "map (\<lambda>r. (mb_id r, mb_key r)) (tr_rows (media_run media_demo [Begin_upload ''b1'' 10 media_demo_request, Begin_upload ''b2'' 10 media_demo_request,
     End_upload ''b1'' 11, End_upload ''b2'' 12] empty_media))
   = [(''b1'', media_key (media_exec media_demo) (projr (read_media_order media_demo_request))),
      (''b2'', media_key (media_exec media_demo) (projr (read_media_order media_demo_request)))]"
  by code_simp

text \<open>A batch cancelled while the memory of its machine is prepared is dispatched all the same.\<close>

lemma media_cancelled_item_is_dispatched:
  "map (\<lambda>b. (mb_cancelled b, map mi_state (mb_items b))) (tr_rows (media_run media_demo (media_submitted @ [Scan_media media_demo_view 12,
     Cancel_media 12 ''b1'', Media_memory media_demo_view 13 True None]) empty_media))
   = [(True, [M_running, M_cancelled])]"
  by code_simp

text \<open>A task cancelled before its coroutine has started never reaches its \<open>finally\<close> block: the item stays running and
  the machine leased.\<close>

lemma media_cancelled_task_leaks:
  "(\<lambda>st. (tr_tasks st = [], tr_busy st, tr_leases st, map (\<lambda>b. map mi_state (mb_items b)) (tr_rows st)))
     (media_run media_demo (media_placed @ [Cancel_media 14 ''b1'', Media_interrupted 0 15]) empty_media)
   = (True, [''voice''], [(''local'', ''transcription:b1:0'')], [[M_running, M_cancelled]])"
  by code_simp

text \<open>A batch whose assignment ran out may be removed while a task of it is still waiting for its worker; when the task
  ends, it saves the batch and the removed row is back.\<close>

lemma media_removed_batch_returns:
  "(let st = media_run media_demo (media_single @ [Renew_media 15 ''b1'' ''past'', Scan_media media_demo_view 16, Remove_media ''b1'']) empty_media
    in (tr_rows st, map mb_id (tr_rows (media_step media_demo (Media_answer 0 20 media_answer) st)))) = ([], [''b1''])"
  by code_simp

text \<open>An upload that is missing raises an error that counts as a failure of the worker: such items open the
  circuit of a healthy machine.\<close>

lemma missing_upload_blames_worker:
  "(let st = (media_run media_demo media_placed empty_media)\<lparr>tr_disk := []\<rparr>
    in (tr_machines st, map fst (tr_machines (media_step media_demo (Begin_item 0 media_demo_view 14) st)))) = ([], [''local''])"
  by code_simp

text \<open>The time an answer says it took is read after the subtitle file was written: when it is no number, the item
  ends in an error that is not retried, and the finished file stays behind without an item that names it.\<close>

lemma bad_elapsed_discards_answer:
  "(let st = media_step media_demo (Media_answer 0 20 (JObj [(''srt'', JStr ''1''), (''elapsed_seconds'', JStr ''n/a'')]))
       (media_run media_demo media_asked empty_media)
    in (map (\<lambda>b. map (\<lambda>i. (mi_state i, mi_artifact i)) (mb_items b)) (tr_rows st), dget (tr_disk st) ''b1/output/0000.srt''))
   = ([[(M_error, None), (M_queued, None)]], Some ''1'')"
  by code_simp

end
