(* ===== verification/Transcribe_Reads.thy ===== *)
theory Transcribe_Reads
  imports Transcribe_Lane
begin

text \<open>
  What other modules and the dashboard read of the transcription lane: the summary of a batch, the lists, the
  work that waits, and the retention setting with its file.  Sums of durations are left out, as are the
  fields of a summary that are only copied.
\<close>

section \<open>Summaries\<close>

record item_view =
  iv_index :: nat
  iv_id :: string
  iv_state :: media_state
  iv_artifact :: "string option"
  iv_tries :: nat

record media_summary =
  ms_status :: string
  ms_total :: nat
  ms_counts :: "(media_state \<times> nat) list"
  ms_cleaned :: bool
  ms_execution :: "(string \<times> json) list option"
  ms_items :: "item_view list"

definition storage_cleaned :: "media_batch \<Rightarrow> bool" where
  "storage_cleaned b \<longleftrightarrow> mb_cleaned b \<notin> {None, Some 0}"

definition artifact_url :: "media_batch \<Rightarrow> media_item \<Rightarrow> string option" where
  "artifact_url b i = (if mi_state i = M_done \<and> \<not> storage_cleaned b
     then Some (''/api/hub/transcription/jobs/'' @ mb_id b @ ''/items/'' @ nat_text (mi_index i) @ ''/artifact'') else None)"

definition media_summary_of :: "media_batch \<Rightarrow> media_summary" where
  "media_summary_of b =
     \<lparr>ms_status = media_status b, ms_total = length (mb_items b),
      ms_counts = map (\<lambda>s. (s, media_in s b)) [M_queued, M_running, M_done, M_error, M_cancelled],
      ms_cleaned = storage_cleaned b,
      ms_execution = map_option (\<lambda>d. map (\<lambda>k. (k, jget d k))
        [''genstudio_job_id'', ''genstudio_attempt_id'', ''fencing_token'', ''lease_expires_at'']) (mb_execution b),
      ms_items = map (\<lambda>i. \<lparr>iv_index = mi_index i, iv_id = mi_id i, iv_state = mi_state i, iv_artifact = artifact_url b i,
        iv_tries = mi_tries i\<rparr>) (mb_items b)\<rparr>"

definition live_media :: "media_state_rec \<Rightarrow> media_batch list" where
  "live_media st = List.map_filter (\<lambda>(_, a). media_at st a) (tr_memory st)"

definition list_media :: "media_state_rec \<Rightarrow> media_summary list" where
  "list_media st =
     (let stored = fold (\<lambda>b acc. dset (mb_id b) b acc) (media_rows (\<lambda>_. True) st) [];
          all = dupdate stored (List.map_filter (\<lambda>(bid, a). map_option (Pair bid) (media_at st a)) (tr_memory st))
      in map media_summary_of (sort_key (\<lambda>b. - mb_created b) (map snd all)))"

definition media_statistics :: "media_state_rec \<Rightarrow> nat \<times> nat \<times> nat \<times> nat" where
  \<comment> \<open>batches, items, done and failed\<close>
  "media_statistics st =
     (let rows = media_rows (\<lambda>_. True) st
      in (length rows, sum_list (map (length \<circ> mb_items) rows), sum_list (map (media_in M_done) rows), sum_list (map (media_in M_error) rows)))"

section \<open>Work under way and waiting\<close>

record media_assignment =
  ma_batch :: string
  ma_project :: "string option"
  ma_episode :: "string option"
  ma_item :: string
  ma_attempt :: nat
  ma_max :: nat
  ma_started :: "time option"

definition media_assignments :: "media_state_rec \<Rightarrow> (string, media_assignment) dict" where
  "media_assignments st = fold (\<lambda>(studio, row) acc. dset studio row acc)
     (concat (map (\<lambda>b. concat (map (\<lambda>i. if mi_state i = M_running \<and> str_or_empty (mi_studio i) \<noteq> []
          then [(str_or_empty (mi_studio i), \<lparr>ma_batch = mb_id b, ma_project = mb_project b, ma_episode = mb_episode b,
             ma_item = mi_id i, ma_attempt = mi_tries i, ma_max = max_media_tries, ma_started = mi_started i\<rparr>)]
          else []) (mb_items b))) (live_media st))) []"

definition batch_waits :: "media_env \<Rightarrow> time \<Rightarrow> media_batch \<Rightarrow> bool option" where
  \<comment> \<open>no item has a \<open>retry_at\<close>; \<open>None\<close>: the date arithmetic overflows\<close>
  "batch_waits c now b = (if mb_cancelled b then Some False
     else (case media_lease_over (media_exec c) now b of
         Inl _ \<Rightarrow> None
       | Inr over \<Rightarrow> Some (\<not> over \<and> list_ex (\<lambda>i. mi_state i = M_queued) (mb_items b))))"

definition media_has_queued_work :: "media_env \<Rightarrow> time \<Rightarrow> media_state_rec \<Rightarrow> bool option" where
  "media_has_queued_work c now st = py_any (map (batch_waits c now) (live_media st))"

definition media_entry :: "media_batch \<Rightarrow> jdict option \<Rightarrow> jdict option" where
  "media_entry b availability = (case jget (case availability of None \<Rightarrow> [] | Some d \<Rightarrow> d) ''models'' of
       JList vs \<Rightarrow> select_first (\<lambda>m. jget m ''repo'' = JStr (mb_model b)) (List.map_filter as_dict vs)
     | _ \<Rightarrow> None)"

definition item_dispatchable ::
  "media_env \<Rightarrow> media_view \<Rightarrow> (string \<Rightarrow> string \<Rightarrow> jdict \<Rightarrow> bool) \<Rightarrow> string \<Rightarrow> time \<Rightarrow> media_state_rec \<Rightarrow> media_batch \<Rightarrow> media_item \<Rightarrow> bool option" where
  \<comment> \<open>\<open>admits\<close>: \<open>memory_admission_dispatchable\<close> of a studio, a model and its entry\<close>
  "item_dispatchable c v admits machine now st b i =
     (if mi_state i \<noteq> M_queued then Some False
      else map_option (list_ex (\<lambda>s. st_machine s = machine
             \<and> (case media_entry b (tv_available v (st_id s)) of None \<Rightarrow> False
                 | Some entry \<Rightarrow> entry \<noteq> [] \<and> admits (st_id s) (mb_model b) entry)))
           (media_studios c v now b i st))"

definition media_dispatchable ::
  "media_env \<Rightarrow> media_view \<Rightarrow> (string \<Rightarrow> string \<Rightarrow> jdict \<Rightarrow> bool) \<Rightarrow> string \<Rightarrow> time \<Rightarrow> media_state_rec \<Rightarrow> bool option" where
  \<comment> \<open>\<open>has_dispatchable_work\<close>: what the Chat lane asks before it takes a second turn on a machine\<close>
  "media_dispatchable c v admits machine now st = py_any (concat (map (\<lambda>b.
     if mb_cancelled b then []
     else (case media_lease_over (media_exec c) now b of
         Inl _ \<Rightarrow> [None]
       | Inr over \<Rightarrow> if over then [] else map (item_dispatchable c v admits machine now st b) (mb_items b))) (live_media st)))"

section \<open>Retention\<close>

definition retention_choices :: "int list" where
  "retention_choices = [1, 3, 7, 15, 30, 90]"

definition number_of :: "json \<Rightarrow> int option" where
  \<comment> \<open>the integer a value is equal to\<close>
  "number_of v = (case v of JInt i \<Rightarrow> Some i | JBool b \<Rightarrow> Some (if b then 1 else 0)
     | JFloat r \<Rightarrow> if r = of_int \<lfloor>r\<rfloor> then Some \<lfloor>r\<rfloor> else None | _ \<Rightarrow> None)"

definition retention_file :: "int \<Rightarrow> json" where
  "retention_file days = JObj [(''retention_days'', JInt days), (''policy_version'', JInt 2)]"

definition set_retention :: "int \<Rightarrow> json option \<Rightarrow> (media_error + int) \<times> json option" where
  "set_retention days stored = (if days \<notin> set retention_choices then (Inl (Bad_media_field ''retention_days''), stored)
     else (Inr days, Some (retention_file days)))"

definition media_settings :: "json option \<Rightarrow> (media_error + json) \<times> json option" where
  \<comment> \<open>\<open>None\<close>: no file, or one that cannot be read as JSON\<close>
  "media_settings stored = (case (case stored of None \<Rightarrow> JObj [] | Some v \<Rightarrow> v) of
       JObj d \<Rightarrow>
         (let given = (case dget d ''retention_days'' of None \<Rightarrow> JInt 30 | Some v \<Rightarrow> v);
              value = (case number_of given of Some n \<Rightarrow> if n \<in> set retention_choices then given else JInt 30 | None \<Rightarrow> JInt 30)
          in if \<not> hashable given then (Inl Media_raises, stored)
             else (case py_int (case dget d ''policy_version'' of None \<Rightarrow> JInt 1 | Some v \<Rightarrow> v) of
                 Int_overflow_error \<Rightarrow> (Inl Media_raises, stored)
               | policy \<Rightarrow>
                   if (case policy of Int_ok i \<Rightarrow> i | _ \<Rightarrow> 1) < 2 \<and> number_of value = Some 3
                   then (Inr (JInt 30), snd (set_retention 30 stored))
                   else (Inr value, stored)))
     | _ \<Rightarrow> (Inl Media_raises, stored))"

text \<open>A retention that was set is read back from then on, and reading changes nothing more.\<close>

lemma retention_read_back:
  assumes "set_retention days stored = (Inr n, stored')"
  shows "n = days \<and> media_settings stored' = (Inr (JInt days), stored')"
proof -
  have "days \<in> set retention_choices" "n = days" "stored' = Some (retention_file days)"
    using assms by (auto simp: set_retention_def split: if_splits)
  then show ?thesis by (auto simp: media_settings_def retention_file_def number_of_def Let_def)
qed

lemma retention_settles:
  assumes "media_settings stored = (Inr v, stored')"
  shows "number_of v \<in> Some ` set retention_choices \<and> media_settings stored' = (Inr v, stored')"
proof (cases "stored' = stored")
  case True
  then show ?thesis using assms
    by (auto simp: media_settings_def number_of_def retention_choices_def Let_def split: json.splits option.splits if_splits int_result.splits)
next
  case False
  then have "v = JInt 30 \<and> stored' = Some (retention_file 30)" using assms
    by (auto simp: media_settings_def set_retention_def retention_choices_def Let_def split: json.splits option.splits if_splits int_result.splits)
  then show ?thesis by (simp add: media_settings_def retention_file_def number_of_def retention_choices_def Let_def)
qed

end
