(* ===== verification/Fleet_Lanes.thy ===== *)
theory Fleet_Lanes
  imports Chat_Runs Transcribe_Batches
begin

text \<open>
  The Chat lane and the transcription lane in one process: both dispatch through the leases and the turns of
  the broker and the guard of assigned work, each with a dispatcher and tasks of its own.  A step of the fleet
  is a step of one lane on the shared tables, a lease taken or given back by the broker, or a new process.
  The invariants of the lanes are not proved again: each lane's contract shows that its steps leave the
  leases of others alone, which is what the other lane needs.
\<close>

record fleet_state =
  fl_chat :: chat_state
  fl_media :: media_state_rec

datatype fleet_op =
    Chat_turn chat_op
  | Media_turn media_op
  | Broker_takes chat_view string string
  | Broker_gives string string
  | Fleet_restart time time

definition share_chat :: "chat_state \<Rightarrow> media_state_rec \<Rightarrow> fleet_state" where
  "share_chat ch tr = \<lparr>fl_chat = ch,
     fl_media = tr\<lparr>tr_leases := ch_leases ch, tr_turns := ch_turns ch, tr_fences := ch_fences ch\<rparr>\<rparr>"

definition share_media :: "chat_state \<Rightarrow> media_state_rec \<Rightarrow> fleet_state" where
  "share_media ch tr = \<lparr>fl_chat = ch\<lparr>ch_leases := tr_leases tr, ch_turns := tr_turns tr, ch_fences := tr_fences tr\<rparr>,
     fl_media = tr\<rparr>"

definition chat_own :: "chat_op \<Rightarrow> bool" where
  \<comment> \<open>a step of the lane itself\<close>
  "chat_own e = (case e of Restart_chat _ \<Rightarrow> False | Other_acquires _ _ _ \<Rightarrow> False | Other_releases _ _ \<Rightarrow> False
     | Other_turn _ _ \<Rightarrow> False | Other_fences _ \<Rightarrow> False | _ \<Rightarrow> True)"

definition media_own :: "media_op \<Rightarrow> bool" where
  "media_own e = (case e of Restart_media _ \<Rightarrow> False | Rival_acquires _ _ _ \<Rightarrow> False | Rival_releases _ _ \<Rightarrow> False
     | Rival_turn _ _ \<Rightarrow> False | Rival_fences _ \<Rightarrow> False | _ \<Rightarrow> True)"

definition broker_owner :: "string \<Rightarrow> bool" where
  "broker_owner owner \<longleftrightarrow> foreign_owner owner \<and> rival_owner owner"

fun fleet_step :: "chat_env \<Rightarrow> media_env \<Rightarrow> fleet_op \<Rightarrow> fleet_state \<Rightarrow> fleet_state" where
  "fleet_step cc mc (Chat_turn e) st = (if chat_own e then share_chat (chat_step cc e (fl_chat st)) (fl_media st) else st)"
| "fleet_step cc mc (Media_turn e) st = (if media_own e then share_media (fl_chat st) (media_step mc e (fl_media st)) else st)"
| "fleet_step cc mc (Broker_takes v machine owner) st =
     (if broker_owner owner then share_chat (chat_step cc (Other_acquires v machine owner) (fl_chat st)) (fl_media st) else st)"
| "fleet_step cc mc (Broker_gives machine owner) st =
     (if broker_owner owner then share_chat (chat_step cc (Other_releases machine owner) (fl_chat st)) (fl_media st) else st)"
| "fleet_step cc mc (Fleet_restart now1 now2) st =
     share_chat (restart_chat cc now1 (fl_chat st)) (restart_media mc now2 (fl_media st))"

definition empty_fleet :: fleet_state where
  "empty_fleet = \<lparr>fl_chat = empty_chat, fl_media = empty_media\<rparr>"

definition fleet_run :: "chat_env \<Rightarrow> media_env \<Rightarrow> fleet_op list \<Rightarrow> fleet_state" where
  "fleet_run cc mc es = fold (fleet_step cc mc) es empty_fleet"

section \<open>What a lane leaves alone\<close>

definition keeps_lease :: "string \<Rightarrow> string \<Rightarrow> leases \<Rightarrow> bool" where
  "keeps_lease m owner L \<longleftrightarrow> dget L m = Some owner"

lemma keeps_acquired:
  "keeps_lease m owner L \<Longrightarrow> acquire_external_machine reg fv bs busy machine x L = (L', ok) \<Longrightarrow> keeps_lease m owner L'"
  by (auto simp: keeps_lease_def dest!: lease_acquired)

lemma keeps_released: "keeps_lease m owner L \<Longrightarrow> x \<noteq> owner \<Longrightarrow> keeps_lease m owner (release_external_machine machine x L)"
  by (auto simp: keeps_lease_def release_external_machine_def)

lemma keeps_other: "machines_held st \<Longrightarrow> t \<in> set (ch_tasks st) \<Longrightarrow> foreign_owner owner \<Longrightarrow> ct_owner t \<noteq> owner"
  by (auto simp: machines_held_def)

interpretation chat_leaves: lane_serves_all c
  "\<lambda>st. (chat_ok R st \<and> machines_held st) \<and> foreign_owner owner \<and> keeps_lease m owner (ch_leases st)"
  "\<lambda>x. foreign_owner x \<and> x \<noteq> owner" for c R m owner
proof (unfold_locales, goal_cases)
  case (2 st pl)
  then show ?case using lane_machines.running by blast
next
  case (3 st a b i now w v rest progress)
  then show ?case using lane_machines.planned [of R st a b i now w c v rest progress] by (simp add: await_def)
next
  case (4 st pl w v)
  then show ?case using lane_machines.replanned [of R st pl w c v] by (simp add: await_def)
next
  case (15 st x reg fv bs busy machine leases ok)
  then show ?case using lane_machines.acquired [of R st x] keeps_acquired by fastforce
next
  case (16 st x machine)
  then show ?case using lane_machines.released [of R st x] keeps_released by simp
next
  case (17 st t)
  then show ?case using lane_machines.asked by blast
next
  case (18 st t p stage)
  then show ?case using lane_machines.staged [of R st t p stage] by (simp add: map_hold)
next
  case (19 st t p p' e)
  then show ?case using lane_machines.handed [of R st t p p' e] by (simp add: map_hold)
next
  case (20 st t b p p' now)
  then show ?case using lane_machines.finished [of R st t b p p' now] keeps_other [of st t owner]
    by (simp add: finish_fields keeps_released)
next
  case (21 st t now)
  then show ?case using lane_machines.left [of R st t now] keeps_other [of st t owner]
    by (simp add: finish_fields keeps_released)
next
  case (22 st pl a i s studios b k fv bs busy leases now generation ts)
  then show ?case using lane_machines.assigned [of R st pl a i s studios b k c fv bs busy leases now generation ts] keeps_acquired [OF _ 22(6)]
    by (simp add: assign_fields)
next
  case (23 st t)
  then show ?case using lane_machines.dropped [of R st t] by (simp add: drop_task_def)
qed (auto intro: lane_ok.halted lane_ok.edited lane_ok.stored lane_ok.loaded lane_ok.created lane_ok.remembered lane_ok.trimmed
      lane_ok.turned lane_ok.guarded lane_ok.flagged lane_ok.started machines_held_flagged machines_held_frame [THEN iffD2])

interpretation media_leaves: media_serves c
  "\<lambda>st. media_held st \<and> rival_owner owner \<and> keeps_lease m owner (tr_leases st)" True "\<lambda>x. rival_owner x \<and> x \<noteq> owner" for c m owner
proof (unfold_locales, goal_cases)
  case (1 st st')
  then show ?case using media_machines.framed [of st st'] by (simp add: lane_same_def)
next
  case (2 st g)
  then show ?case using media_machines.flagged [of st g] by simp
next
  case (3 st pl)
  then show ?case using media_machines.planned [of st pl] by simp
next
  case (4 st)
  then show ?case using media_machines.plan_free by blast
next
  case (5 st t fv bs busy L)
  then show ?case using media_machines.assigned [of st t c fv bs busy L] keeps_acquired [OF _ 5(6)] by simp
next
  case (6 st t)
  then have "mt_owner t \<noteq> owner" by (fastforce simp: media_held_def holds_ok_def media_hold_def)
  then show ?case using 6 media_machines.finished [of st t] keeps_released by simp
next
  case (7 st x fv bs busy machine L ok)
  then show ?case using media_machines.acquired [of st x c fv bs busy machine L ok] keeps_acquired [OF _ 7(3)] by simp
next
  case (8 st x machine)
  then show ?case using media_machines.released [of st x machine] keeps_released by simp
next
  case (9 st t)
  then show ?case using media_machines.dropped [of st t] by (simp add: drop_media_task_def)
qed

section \<open>The two lanes together\<close>

definition fleet_ok :: "nat \<Rightarrow> fleet_state \<Rightarrow> bool" where
  "fleet_ok R st \<longleftrightarrow> chat_ok R (fl_chat st) \<and> machines_held (fl_chat st) \<and> media_held (fl_media st)
     \<and> tr_leases (fl_media st) = ch_leases (fl_chat st)"

lemma chat_spares_media:
  assumes "chat_ok R ch" "machines_held ch" "ordinary e" "foreign_owner owner" "rivals_only (\<lambda>x. foreign_owner x \<and> x \<noteq> owner) e"
    and "dget (ch_leases ch) m = Some owner"
  shows "dget (ch_leases (chat_step c e ch)) m = Some owner"
  using chat_leaves.every_step_serves [of R ch owner m e c] assms by (simp add: keeps_lease_def)

lemma stop_spares: "ch_leases (chat_step c Stop_lane ch) = ch_leases ch"
  by (simp add: stop_chat_def flag_tasks_def)

lemma media_spares_chat:
  assumes "media_held tr" "rival_owner owner" "media_within (\<lambda>x. rival_owner x \<and> x \<noteq> owner) e" "\<not> restarts_media e"
    and "dget (tr_leases tr) m = Some owner"
  shows "dget (tr_leases (media_step c e tr)) m = Some owner"
  using media_leaves.serves_step [of tr owner m e c] assms by (simp add: keeps_lease_def)

lemma media_held_shared:
  assumes "media_held tr" "\<And>m owner. dget (tr_leases tr) m = Some owner \<Longrightarrow> \<not> rival_owner owner \<Longrightarrow> dget L m = Some owner"
  shows "media_held (tr\<lparr>tr_leases := L, tr_turns := ts, tr_fences := db\<rparr>)"
  using assms by (fastforce simp: media_held_def holds_ok_def studios_free_def)

lemma machines_held_shared:
  assumes "machines_held ch" "\<And>m owner. dget (ch_leases ch) m = Some owner \<Longrightarrow> \<not> foreign_owner owner \<Longrightarrow> dget L m = Some owner"
  shows "machines_held (ch\<lparr>ch_leases := L, ch_turns := ts, ch_fences := db\<rparr>)"
  using assms by (auto simp: machines_held_def)

lemma transcription_foreign: "\<not> rival_owner owner \<Longrightarrow> foreign_owner owner"
  by (auto simp: rival_owner_def foreign_owner_def prefix_def)

lemma chat_rival: "\<not> foreign_owner owner \<Longrightarrow> rival_owner owner"
  using transcription_foreign by blast

lemma chat_step_shared:
  assumes "fleet_ok R st" "\<And>owner. \<not> rival_owner owner \<Longrightarrow> rivals_only (\<lambda>x. foreign_owner x \<and> x \<noteq> owner) e" "\<And>now. e \<noteq> Restart_chat now"
  shows "fleet_ok (R + chat_ends [e]) (share_chat (chat_step cc e (fl_chat st)) (fl_media st))"
proof -
  have ch: "chat_ok R (fl_chat st)" "machines_held (fl_chat st)" and tr: "media_held (fl_media st)"
    and L: "tr_leases (fl_media st) = ch_leases (fl_chat st)" using assms(1) by (simp_all add: fleet_ok_def)
  have "dget (ch_leases (chat_step cc e (fl_chat st))) m = Some owner"
    if "dget (ch_leases (fl_chat st)) m = Some owner" "\<not> rival_owner owner" for m owner
  proof (cases "ordinary e")
    case True
    then show ?thesis using chat_spares_media [OF ch True transcription_foreign assms(2)] that by simp
  next
    case False
    then have "e = Stop_lane" using assms(3) by (cases e) (auto simp: ordinary_def)
    then show ?thesis using that(1) by (simp add: stop_spares del: chat_step.simps)
  qed
  then have "media_held (fl_media (share_chat (chat_step cc e (fl_chat st)) (fl_media st)))"
    unfolding share_chat_def using media_held_shared [OF tr] L by simp
  then show ?thesis using step_ok [OF ch, of e cc] by (simp add: fleet_ok_def share_chat_def)
qed

lemma chat_ok_shared: "chat_ok R ch \<Longrightarrow> chat_ok R (ch\<lparr>ch_leases := L, ch_turns := ts, ch_fences := db\<rparr>)"
  by (erule chat_ok_frame) (simp_all add: pack_of_def chat_at_def)

lemma media_step_shared:
  assumes "fleet_ok R st" "media_own e"
  shows "fleet_ok R (share_media (fl_chat st) (media_step mc e (fl_media st)))"
proof -
  have ch: "chat_ok R (fl_chat st)" "machines_held (fl_chat st)" and tr: "media_held (fl_media st)"
    and L: "tr_leases (fl_media st) = ch_leases (fl_chat st)" using assms(1) by (simp_all add: fleet_ok_def)
  have within: "media_within rivals e" "\<not> restarts_media e" for rivals
    using assms(2) by (auto simp: media_own_def media_within_def restarts_media_def split: media_op.splits)
  have "machines_held (fl_chat (share_media (fl_chat st) (media_step mc e (fl_media st))))"
    unfolding share_media_def fleet_state.simps
    by (rule machines_held_shared [OF ch(2)]) (use media_spares_chat [OF tr chat_rival within] L in simp)
  moreover have "media_held (media_step mc e (fl_media st))"
    by (rule media_machines.keeps_step [OF tr]) simp_all
  ultimately show ?thesis using chat_ok_shared [OF ch(1)] by (simp add: fleet_ok_def share_media_def)
qed

lemma fleet_ok_step:
  assumes "fleet_ok R st"
  shows "\<exists>R'. fleet_ok R' (fleet_step cc mc e st)"
proof (cases e)
  case (Chat_turn c)
  have "fleet_ok (R + chat_ends [c]) (share_chat (chat_step cc c (fl_chat st)) (fl_media st))" if "chat_own c"
    by (rule chat_step_shared [OF assms]) (use that in \<open>auto simp: chat_own_def rivals_only_def split: chat_op.splits\<close>)
  then show ?thesis using Chat_turn assms by (cases "chat_own c") auto
next
  case (Media_turn c)
  then show ?thesis using media_step_shared [OF assms] assms by (cases "media_own c") auto
next
  case (Broker_takes v machine owner)
  have "fleet_ok (R + chat_ends [Other_acquires v machine owner]) (share_chat (chat_step cc (Other_acquires v machine owner) (fl_chat st)) (fl_media st))"
    if "broker_owner owner"
    by (rule chat_step_shared [OF assms]) (use that in \<open>auto simp: broker_owner_def rivals_only_def\<close>)
  then show ?thesis using Broker_takes assms by (cases "broker_owner owner") (auto simp del: chat_step.simps)
next
  case (Broker_gives machine owner)
  have "fleet_ok (R + chat_ends [Other_releases machine owner]) (share_chat (chat_step cc (Other_releases machine owner) (fl_chat st)) (fl_media st))"
    if "broker_owner owner"
    by (rule chat_step_shared [OF assms]) (use that in \<open>auto simp: broker_owner_def rivals_only_def\<close>)
  then show ?thesis using Broker_gives assms by (cases "broker_owner owner") (auto simp del: chat_step.simps)
next
  case (Fleet_restart now1 now2)
  let ?ch = "restart_chat cc now1 (fl_chat st)" and ?tr = "restart_media mc now2 (fl_media st)"
  have ch: "idle_lane ?ch" "chat_ok (Suc R) ?ch" using assms by (auto simp: fleet_ok_def intro: restarted_ok)
  have "media_held ?tr" by (rule media_machines.keeps_restart)
  moreover have "tr_tasks ?tr = []"
    using same_restore by (simp add: restart_media_def lane_same_def Let_def)
  ultimately have "fleet_ok (Suc R) (share_chat ?ch ?tr)"
    using ch idle_clean [OF ch(1)] by (simp add: fleet_ok_def share_chat_def media_held_def holds_ok_def studios_free_def)
  then show ?thesis using Fleet_restart by auto
qed

lemma fleet_reached: "\<exists>R. fleet_ok R (fleet_run cc mc es)"
proof (induction es rule: rev_induct)
  case Nil
  have "media_held empty_media" by (rule media_machines.idle) (simp_all add: empty_media_def)
  then have "fleet_ok 0 empty_fleet" using empty_chat_ok(1,2) by (simp add: fleet_ok_def empty_fleet_def empty_chat_def empty_media_def)
  then show ?case by (auto simp: fleet_run_def)
next
  case (snoc e es)
  then show ?case using fleet_ok_step by (auto simp: fleet_run_def)
qed

text \<open>C33: Whatever the two lanes and the broker do, and however their steps interleave: no machine runs a Chat pack and a
  transcription at the same time, or two of either, and in the one table of leases every task holds its own.\<close>

theorem lanes_share_machines:
  "let st = fleet_run cc mc es; ch = fl_chat st; tr = fl_media st
   in distinct (map (\<lambda>t. st_machine (ct_studio t)) (ch_tasks ch) @ map (\<lambda>t. st_machine (mt_studio t)) (tr_tasks tr))
      \<and> tr_leases tr = ch_leases ch
      \<and> list_all (\<lambda>t. dget (ch_leases ch) (st_machine (ct_studio t)) = Some (ct_owner t)) (ch_tasks ch)
      \<and> list_all (\<lambda>t. dget (ch_leases ch) (st_machine (mt_studio t)) = Some (mt_owner t)) (tr_tasks tr)"
proof -
  obtain R where "fleet_ok R (fleet_run cc mc es)" using fleet_reached by blast
  then have ch: "machines_held (fl_chat (fleet_run cc mc es))" and tr: "media_held (fl_media (fleet_run cc mc es))"
    and L: "tr_leases (fl_media (fleet_run cc mc es)) = ch_leases (fl_chat (fleet_run cc mc es))"
    by (simp_all add: fleet_ok_def)
  let ?C = "map task_hold (ch_tasks (fl_chat (fleet_run cc mc es)))" and ?T = "map media_hold (tr_tasks (fl_media (fleet_run cc mc es)))"
  have c: "holds_ok (\<lambda>owner. \<not> foreign_owner owner) ?C (ch_leases (fl_chat (fleet_run cc mc es)))"
    using ch unfolding machines_held_alt by (simp add: holds_ok_def)
  have t: "holds_ok (\<lambda>owner. \<not> rival_owner owner) ?T (ch_leases (fl_chat (fleet_run cc mc es)))"
    using tr L by (simp add: media_held_def)
  have "fst ` set ?C \<inter> fst ` set ?T = {}" by (rule holds_apart [OF c t]) (use chat_rival in blast)
  then show ?thesis using c t L
    by (auto simp: holds_ok_def task_hold_def media_hold_def o_def list_all_iff Let_def image_image)
qed

end
