(* ===== verification/Spec2Isabelle.thy ===== *)
theory Spec2Isabelle
  imports Repair_Theorems Execution_Theorems Admission_Theorems Broker_Registry Broker_Accounting Broker_Contracts
    Broker_Recovery Broker_Findings Auto_Recovery_Theorems Owner_Auth_Theorems Chat_Theorems Exposure_Theorems
    Transcribe_Theorems Transcribe_Reads Fleet_Lanes
begin

text \<open>
  Verification development for Studio Hub (\<open>app/backend\<close>), the site controller that places generation
  work on a fleet of Macs.  It models the parts that decide: which work is accepted, who may run it,
  where it runs, what happens when it fails, and which stored facts survive a restart.

  \<^bold>\<open>Parts and theories.\<close>

  \<^item> Shared: \<open>Prelude\<close> (named fact collections, dictionaries and SQLite rows as lists, the locales
    \<open>keyed_rows\<close>, \<open>kept_by_steps\<close>, \<open>invariant_machine\<close>, \<open>monotone_quantity\<close>), \<open>Py_Json\<close> (JSON values and
    the length of their text), \<open>Py_Text\<close> (\<open>str\<close>, \<open>int\<close>, \<open>json.dumps\<close> with sorted keys), \<open>Py_Float\<close>
    (rationals with the infinities and NaN, and the comparisons of IEEE).
  \<^item> Enrollment repair store, \<open>enrollment_repair_store.py\<close>: \<open>Repair_Store\<close> (tables, views, evidence),
    \<open>Repair_Ops\<close> (every transaction: batches, tickets, dispatch, redemption, completion, recovery of the
    scheduling slot), \<open>Repair_Lifecycle\<close> and \<open>Repair_Safety\<close> (the abstract life of a request and the
    refinement to it, the invariant of the database), \<open>Repair_Properties\<close>, \<open>Repair_Theorems\<close>.
  \<^item> Guard of externally assigned work, \<open>execution_identity.py\<close>: \<open>Execution_Identity\<close> (validation, canonical
    payload, the tables of fences, attempts and idempotency keys, \<open>prepare\<close>, \<open>renew_lease\<close>,
    \<open>bind_local_batch\<close>), \<open>Execution_Safety\<close> (frame lemmas, invariant, monotone fence),
    \<open>Execution_Theorems\<close>.
  \<^item> Memory floors, \<open>workload_policy.py\<close>, \<open>memory_admission.py\<close> and the cache test of
    \<open>model_exposure.py\<close>: \<open>Memory_Admission\<close>, \<open>Admission_Theorems\<close>.
  \<^item> The broker, \<open>broker.py\<close>: \<open>Broker_Circuits\<close> (memory gate, handoff of idle memory, circuit breakers of
    machines and models, classification of failures), \<open>Broker_Items\<close> (items, batches, telemetry, voice
    recovery, lease expiry, cancellation, completion, summary), \<open>Broker_Queue\<close> (leases and turns of
    machines, eligibility, ranking, the guards for one offer), \<open>Broker_Run\<close> (the coroutine \<open>_run_item\<close> and
    the dispatch loop cut at their awaits, handlers, restart), \<open>Broker_Steps\<close> (all of it as one
    operation type), \<open>Broker_Recovery\<close> (the loop that asks a worker about a job whose connection was
    lost).
  \<^item> Submission: \<open>Cloud_Guard\<close> (\<open>cloud_guard.py\<close>) and \<open>Broker_Submit\<close> (\<open>submit_batch\<close> over the broker, the
    guard of assigned work and the ledger's client requests), \<open>Submit_Runs\<close> (histories of submissions,
    broker steps and the clearing of finished batches), \<open>Submit_Theorems\<close>.
  \<^item> Automatic local recovery, \<open>automatic_recovery.py\<close> and its caller in \<open>main.py\<close>: \<open>Worker_Activity\<close>
    (\<open>activity.py\<close>: the check of a worker's activity snapshot), \<open>Auto_Recovery\<close> (what is remembered of jobs that were
    seen, when a job counts as stalled, the check that precedes a cancellation), \<open>Auto_Recovery_Theorems\<close>.
  \<^item> Owner sign-in, \<open>auth.py\<close> and its routes in \<open>main.py\<close>: \<open>Owner_Auth\<close> (password file, browser sessions,
    throttle, failed joins and torn writes, the middleware that admits a request), \<open>Owner_Auth_Theorems\<close>.
  \<^item> The Chat lane, \<open>chat_jobs.py\<close>: \<open>Chat_Packs\<close> (validators, packs, the reading of a worker's answer, the
    summary), \<open>Chat_Lane\<close> (submission, dispatcher, tasks, handlers and restart as steps over a heap of
    batch objects), \<open>Chat_Contract\<close> (the locale \<open>lane_serves\<close>: the few kinds of change every step is made
    of), \<open>Chat_Safety\<close>, \<open>Chat_Machines\<close> and \<open>Chat_Runs\<close> (its instances: packs, machines and leases,
    results), \<open>Chat_Theorems\<close> (the properties and the runs on which the lane falls short).
  \<^item> The transcription lane, \<open>transcription_jobs.py\<close>: \<open>Transcribe_Items\<close> (validation, files, items and what an
    attempt does to one), \<open>Transcribe_Lane\<close> (the lane as steps, with its directory of files),
    \<open>Transcribe_Reads\<close> (summaries, waiting work, retention), \<open>Lane_Holds\<close> (machines held through the
    broker), \<open>Transcribe_Safety\<close> (the contract \<open>media_serves\<close> and its instances), \<open>Transcribe_Batches\<close>
    (the invariant of the stored batches), \<open>Transcribe_Theorems\<close>.
  \<^item> Both lanes in one process: \<open>Fleet_Lanes\<close>, on one table of leases and turns.
  \<^item> Exposure of models, \<open>model_exposure.py\<close>: \<open>Model_Exposure\<close> (candidates, their published part, the file of
    decisions, the fleet catalog), \<open>Exposure_Theorems\<close>.

  \<^bold>\<open>How they interact.\<close>  \<open>submit_batch\<close> refuses cloud work, asks the guard of assigned work, looks for a
  known client request and adds a batch.  The dispatch loop takes queued batches in the order of
  \<open>queued_batches\<close>, ranks the eligible studios, checks catalog, model circuit and memory floors, leases
  the machine and starts a task; the task posts the job, polls it and ends in \<open>finish_task\<close>, which
  gives back memory, studio and machine.  The Chat lane has a dispatcher of its own and shares the
  machines through \<open>acquire_external_machine\<close> and the turn tokens; to it the broker and the transcription
  lane are other owners of leases, and the guard of assigned work is the same as the broker's.  The ledger
  keeps the saved copy of each batch, which is what a restart reads.

  \<^bold>\<open>What the lemmas show.\<close>  \<open>Broker_Invariant\<close>, \<open>Broker_Tasks\<close> and \<open>Broker_Safety\<close> prove one invariant,
  \<open>broker_ok\<close>, for every interleaving of the steps (unique ids, one task per item and machine, exact
  reservations, a bounded attempt counter, a plan without stale items); most segments are \<open>tame\<close>, so only
  dispatch, the end of a task, handlers and restart need their own proof.  The Chat lane has the same
  shape as a locale: an invariant is shown for the kinds of change (an edit that leaves work in flight
  alone, a save, a dispatch, the end of a task), and the locale derives it for every step.  \<open>Broker_Settled\<close>
  and \<open>Broker_Frames\<close> are the frames: what a step does to finished items, to the attempt counters of other
  items, to the identities of the batches.  On them \<open>Broker_Accounting\<close> counts the real dispatches of an item
  against its counter, and \<open>Submit_Runs\<close> follows a client request through any later history.
  \<open>Broker_Registry\<close> repeats the invariant for a registry that is edited while jobs run.  The lemmas on the
  two lanes are proved once over the contracts \<open>lane_serves\<close> and \<open>media_serves\<close>, and \<open>Fleet_Lanes\<close> puts the
  instances together: a step of one lane is an action of another owner of leases to the other.
  \<open>Broker_Findings\<close> and the last sections of the other theories evaluate runs on which the code does not do
  what its comments say.

  \<^bold>\<open>Parameters and bounds.\<close>  Clocks and gigabytes are exact rationals (no rounding of doubles).  SHA-256,
  scrypt, ISO timestamps, IP address classes, the JSON decoder, the text of floats and of other values
  are functions given as arguments, used with no assumption but those a theorem names.  Answers of workers, monitor, peers and operating system
  are arguments of the steps.  The number of attempts is bounded only where the code bounds it: a capacity
  failure hands the attempt back, so \<open>dispatches_bounded\<close> counts those apart, and a retry of the operator
  sets the counters of the lanes back to zero.  The recovery loop ends by a clock: it is a \<open>partial_function\<close>, and
  \<open>recovery_returns\<close> proves that it returns after at most 61 requests whenever time does not run
  backwards.  All other loops are over finite lists.  Strings are ASCII.

  \<^bold>\<open>Not modelled.\<close>  The request body and the multipart forms sent to workers, webhooks and alerts as
  effects, most operator notes, the artifact facts copied from a job (paths, urls, sizes), the public
  view of an item, references to images and voices.  The routes in \<open>main.py\<close>, HTTP, Tailscale and
  process calls, git driven updates and the dashboard are input and output around the modelled parts.
  Steps are atomic between awaits: plain routes that the server runs in a thread pool (sign-in, cleanup and
  clearing of transcriptions) are one step each, the signals a cancellation awaits are gathered into it,
  and the routes that reconcile a voice job by hand are no steps.  An integer too large for a float raises in
  Python; outside \<open>Worker_Activity\<close> it keeps its value.  The release roll-out, the updates, the qualification
  of voices and the stores of models and artifacts are sequences of HTTP, git and process calls and are left
  out.
\<close>

end
